(* ===== verification/Prelude.thy ===== *)
theory Prelude
  imports Main "HOL-Library.AList" "HOL-Library.Char_ord" "HOL-Library.List_Lexorder"
    "HOL-Library.Product_Lexorder"
begin

text \<open>
  Shared vocabulary of the development: results that may be an exception (\<open>'e + 'a\<close>, \<open>Inl\<close> for
  the raised error), the Python string operations the modelled code uses, insertion-ordered
  dictionaries as association lists, and the generic lemmas about them.

  Strings are lists of characters read as code points below 256 (Latin-1), so \<open>length\<close> is
  Python's \<open>len\<close> on such strings, and the comparison of strings by code point is the
  lexicographic order of the library.
\<close>

section \<open>Results\<close>

named_theorems result_simps \<open>unfolding of computations that may raise\<close>

datatype py_error = TypeError string | ValueError string | KeyError string

fun error_text :: "py_error \<Rightarrow> string" where
  "error_text (TypeError m) = m"
| "error_text (ValueError m) = m"
| "error_text (KeyError m) = m"

type_synonym 'a py = "py_error + 'a"

definition bindE :: "'e + 'a \<Rightarrow> ('a \<Rightarrow> 'e + 'b) \<Rightarrow> 'e + 'b" where
  "bindE m f = (case m of Inl e \<Rightarrow> Inl e | Inr x \<Rightarrow> f x)"

lemma bindE_Inl [simp]: "bindE (Inl e) f = Inl e"
  by (simp add: bindE_def)

lemma bindE_Inr [simp]: "bindE (Inr x) f = f x"
  by (simp add: bindE_def)

lemma bindE_eq_Inr [result_simps]: "bindE m f = Inr y \<longleftrightarrow> (\<exists>x. m = Inr x \<and> f x = Inr y)"
  by (cases m) auto

lemma bindE_eq_Inl: "bindE m f = Inl e \<longleftrightarrow> m = Inl e \<or> (\<exists>x. m = Inr x \<and> f x = Inl e)"
  by (cases m) auto

text \<open>A check that raises unless its condition holds.\<close>

definition requireE :: "bool \<Rightarrow> 'e \<Rightarrow> 'e + unit" where
  "requireE b e = (if b then Inr () else Inl e)"

lemma requireE_Inr [simp, result_simps]: "requireE b e = Inr u \<longleftrightarrow> b"
  by (simp add: requireE_def)

lemma requireE_True [simp]: "requireE True e = Inr ()"
  by (simp add: requireE_def)

lemma requireE_False [simp]: "requireE False e = Inl e"
  by (simp add: requireE_def)

text \<open>A comprehension whose body may raise: the first error wins.\<close>

fun traverseE :: "('a \<Rightarrow> 'e + 'b) \<Rightarrow> 'a list \<Rightarrow> 'e + 'b list" where
  "traverseE f [] = Inr []"
| "traverseE f (x # xs) = bindE (f x) (\<lambda>y. bindE (traverseE f xs) (\<lambda>ys. Inr (y # ys)))"

lemma traverseE_cong [fundef_cong]:
  "xs = ys \<Longrightarrow> (\<And>x. x \<in> set ys \<Longrightarrow> f x = g x) \<Longrightarrow> traverseE f xs = traverseE g ys"
  by (induction ys arbitrary: xs) (auto simp: bindE_def split: sum.splits)

lemma traverseE_Inr_iff:
  "traverseE f xs = Inr ys \<longleftrightarrow> list_all2 (\<lambda>x y. f x = Inr y) xs ys"
  by (induction xs arbitrary: ys) (auto simp: result_simps list_all2_Cons1)

lemma traverseE_map: "traverseE f (map g xs) = traverseE (\<lambda>x. f (g x)) xs"
  by (induction xs) auto

lemma traverseE_ident:
  "(\<And>x. x \<in> set xs \<Longrightarrow> f x = Inr x) \<Longrightarrow> traverseE f xs = Inr xs"
  by (induction xs) auto

lemma traverseE_length: "traverseE f xs = Inr ys \<Longrightarrow> length ys = length xs"
  by (simp add: traverseE_Inr_iff list_all2_lengthD)

lemma traverseE_covers: "traverseE f xs = Inr ys \<Longrightarrow> x \<in> set xs \<Longrightarrow> \<exists>y \<in> set ys. f x = Inr y"
  by (induction xs arbitrary: ys) (auto simp: result_simps)

lemma traverseE_set: "traverseE f xs = Inr ys \<Longrightarrow> y \<in> set ys \<Longrightarrow> \<exists>x \<in> set xs. f x = Inr y"
  by (induction xs arbitrary: ys) (auto simp: result_simps)

section \<open>Strings\<close>

text \<open>The code points below 256 for which \<open>str.isspace\<close> holds.\<close>

definition py_space :: "char \<Rightarrow> bool" where
  "py_space c \<longleftrightarrow>
     (of_char c :: nat) \<in> set [9, 10, 11, 12, 13, 28, 29, 30, 31, 32, 133, 160]"

definition py_strip :: "string \<Rightarrow> string" where
  "py_strip s = rev (dropWhile py_space (rev (dropWhile py_space s)))"

text \<open>\<open>str.lower\<close> on code points below 256.\<close>

definition lower_char :: "char \<Rightarrow> char" where
  "lower_char c =
     (let n = of_char c :: nat
      in if (65 \<le> n \<and> n \<le> 90) \<or> (192 \<le> n \<and> n \<le> 222 \<and> n \<noteq> 215) then char_of (n + 32) else c)"

definition py_lower :: "string \<Rightarrow> string" where
  "py_lower = map lower_char"

text \<open>\<open>str.split()\<close> with no argument: the maximal runs of non-space characters.\<close>

function py_split :: "string \<Rightarrow> string list" where
  "py_split s =
     (let t = dropWhile py_space s
      in if t = [] then []
         else takeWhile (\<lambda>c. \<not> py_space c) t # py_split (dropWhile (\<lambda>c. \<not> py_space c) t))"
  by pat_completeness auto

lemma length_dropWhile_hd:
  "t \<noteq> [] \<Longrightarrow> P (hd t) \<Longrightarrow> length (dropWhile P t) < length t"
  by (cases t) (auto simp: le_imp_less_Suc length_dropWhile_le)

lemma length_dropWhile_dropWhile:
  assumes "dropWhile P s \<noteq> []"
  shows "length (dropWhile (\<lambda>c. \<not> P c) (dropWhile P s)) < length s"
proof -
  have "\<not> P (hd (dropWhile P s))"
    using assms by (rule hd_dropWhile)
  then have "length (dropWhile (\<lambda>c. \<not> P c) (dropWhile P s)) < length (dropWhile P s)"
    using assms by (intro length_dropWhile_hd)
  also have "\<dots> \<le> length s"
    by (rule length_dropWhile_le)
  finally show ?thesis .
qed

termination py_split
  by (relation "measure length") (auto intro: length_dropWhile_dropWhile)

declare py_split.simps [simp del]

definition py_join :: "string \<Rightarrow> string list \<Rightarrow> string" where
  "py_join sep ws = concat (case ws of [] \<Rightarrow> [] | w # us \<Rightarrow> w # map (\<lambda>u. sep @ u) us)"

text \<open>\<open>" ".join(value.split())\<close>, the normal form the contracts store.\<close>

definition squeeze :: "string \<Rightarrow> string" where
  "squeeze s = py_join '' '' (py_split s)"

text \<open>\<open>str.startswith\<close> and \<open>needle in text\<close>.\<close>

fun starts_with :: "string \<Rightarrow> string \<Rightarrow> bool" where
  "starts_with [] s = True"
| "starts_with (p # ps) [] = False"
| "starts_with (p # ps) (c # cs) = (p = c \<and> starts_with ps cs)"

fun contains :: "string \<Rightarrow> string \<Rightarrow> bool" where
  "contains needle [] = (needle = [])"
| "contains needle (c # cs) = (starts_with needle (c # cs) \<or> contains needle cs)"

subsection \<open>Stripping\<close>

lemma dropWhile_idem [simp]: "dropWhile P (dropWhile P s) = dropWhile P s"
  by (induction s) auto

lemma dropWhile_rev_dropWhile:
  "dropWhile P (rev (dropWhile P (rev (dropWhile P s)))) = rev (dropWhile P (rev (dropWhile P s)))"
proof (cases "dropWhile P s = []")
  case True
  then show ?thesis by (simp only: rev.simps dropWhile.simps)
next
  case False
  then have hd: "\<not> P (hd (dropWhile P s))"
    by (rule hd_dropWhile)
  let ?u = "dropWhile P (rev (dropWhile P s))"
  obtain c cs where "dropWhile P s = c # cs" and "\<not> P c"
    using False hd by (cases "dropWhile P s") auto
  then have "last (rev (dropWhile P s)) = c" and "\<exists>zs. ?u = zs @ [c]"
    by (auto simp: dropWhile_append)
  with \<open>\<not> P c\<close> show ?thesis by auto
qed

lemma py_strip_idem [simp]: "py_strip (py_strip s) = py_strip s"
  by (simp add: py_strip_def dropWhile_rev_dropWhile)

lemma py_strip_no_space:
  "\<forall>c \<in> set s. \<not> py_space c \<Longrightarrow> py_strip s = s"
  by (simp add: py_strip_def) (metis dropWhile_eq_self_iff hd_in_set rev_rev_ident set_rev)

lemma length_py_strip: "length (py_strip s) \<le> length s"
  by (simp add: py_strip_def) (metis dual_order.trans length_dropWhile_le length_rev)

subsection \<open>Splitting and joining\<close>

definition is_word :: "string \<Rightarrow> bool" where
  "is_word w \<longleftrightarrow> w \<noteq> [] \<and> (\<forall>c \<in> set w. \<not> py_space c)"

lemma py_split_words: "w \<in> set (py_split s) \<Longrightarrow> is_word w"
proof (induction s rule: py_split.induct)
  case (1 s)
  let ?t = "dropWhile py_space s"
  show ?case
  proof (cases "?t = []")
    case True
    with "1.prems" show ?thesis by (simp add: py_split.simps [of s])
  next
    case False
    then have "\<not> py_space (hd ?t)"
      by (rule hd_dropWhile)
    with False have "is_word (takeWhile (\<lambda>c. \<not> py_space c) ?t)"
      unfolding is_word_def by (cases ?t) (auto dest: set_takeWhileD)
    then show ?thesis
      using "1.prems" "1.IH" [OF refl False] unfolding py_split.simps [of s] Let_def if_not_P [OF False]
      by auto
  qed
qed

lemma space_is_space [simp]: "py_space CHR '' ''"
  by (simp add: py_space_def)

lemma dropWhile_word_append:
  "is_word w \<Longrightarrow> dropWhile py_space (w @ s) = w @ s"
  by (cases w) (auto simp: is_word_def)

lemma py_split_word: "is_word w \<Longrightarrow> py_split w = [w]"
  using dropWhile_word_append [of w "[]"]
  by (subst py_split.simps) (auto simp: is_word_def Let_def dropWhile_eq_Nil_conv [THEN iffD2] py_split.simps [of "[]"])

lemma py_split_word_space:
  assumes "is_word w"
  shows "py_split (w @ CHR '' '' # s) = w # py_split s"
proof -
  have d: "dropWhile py_space (w @ CHR '' '' # s) = w @ CHR '' '' # s"
    using assms by (rule dropWhile_word_append)
  have "takeWhile (\<lambda>c. \<not> py_space c) (w @ CHR '' '' # s) = w"
    using assms by (subst takeWhile_append2) (auto simp: is_word_def)
  moreover have "dropWhile (\<lambda>c. \<not> py_space c) (w @ CHR '' '' # s) = CHR '' '' # s"
    using assms by (subst dropWhile_append2) (auto simp: is_word_def)
  moreover have "py_split (CHR '' '' # s) = py_split s"
    by (simp add: py_split.simps [of "CHR '' '' # s"] py_split.simps [of s])
  moreover have "w \<noteq> []"
    using assms by (simp add: is_word_def)
  ultimately show ?thesis
    by (simp add: py_split.simps [of "w @ CHR '' '' # s"] d Let_def)
qed

lemma py_join_Cons2: "py_join sep (w # u # us) = w @ sep @ py_join sep (u # us)"
  by (simp add: py_join_def)

lemma py_split_join:
  "(\<And>w. w \<in> set ws \<Longrightarrow> is_word w) \<Longrightarrow> py_split (py_join '' '' ws) = ws"
proof (induction ws rule: induct_list012)
  case 1
  show ?case by (simp add: py_join_def py_split.simps [of "[]"])
next
  case (2 w)
  then show ?case by (simp add: py_join_def py_split_word)
next
  case (3 w u us)
  then have "py_split (py_join '' '' (u # us)) = u # us" by simp
  with 3 show ?case
    by (simp add: py_join_Cons2 py_split_word_space)
qed

lemma squeeze_idem [simp]: "squeeze (squeeze s) = squeeze s"
  unfolding squeeze_def by (subst py_split_join) (auto dest: py_split_words)

section \<open>Insertion-ordered dictionaries\<close>

type_synonym ('k, 'v) dict = "('k \<times> 'v) list"

abbreviation dget :: "('k, 'v) dict \<Rightarrow> 'k \<rightharpoonup> 'v" where
  "dget \<equiv> map_of"

abbreviation dput :: "('k, 'v) dict \<Rightarrow> 'k \<Rightarrow> 'v \<Rightarrow> ('k, 'v) dict" where
  "dput d k v \<equiv> AList.update k v d"

abbreviation dkeys :: "('k, 'v) dict \<Rightarrow> 'k list" where
  "dkeys \<equiv> map fst"

text \<open>\<open>{**left, **right}\<close> and \<open>dict.update\<close>.\<close>

definition dmerge :: "('k, 'v) dict \<Rightarrow> ('k, 'v) dict \<Rightarrow> ('k, 'v) dict" where
  "dmerge left right = foldl (\<lambda>d (k, v). dput d k v) left right"

text \<open>\<open>dict.fromkeys\<close> on a list: the first occurrence of each value, in order.\<close>

fun dedup_acc :: "'a list \<Rightarrow> 'a list \<Rightarrow> 'a list" where
  "dedup_acc seen [] = []"
| "dedup_acc seen (x # xs) =
     (if x \<in> set seen then dedup_acc seen xs else x # dedup_acc (x # seen) xs)"

definition dedup :: "'a list \<Rightarrow> 'a list" where
  "dedup xs = dedup_acc [] xs"

lemma set_dedup_acc: "set (dedup_acc seen xs) = set xs - set seen"
  by (induction seen xs rule: dedup_acc.induct) auto

lemma distinct_dedup_acc: "distinct (dedup_acc seen xs)"
  by (induction seen xs rule: dedup_acc.induct) (auto simp: set_dedup_acc)

lemma dedup_acc_distinct:
  "distinct xs \<Longrightarrow> set xs \<inter> set seen = {} \<Longrightarrow> dedup_acc seen xs = xs"
  by (induction seen xs rule: dedup_acc.induct) auto

lemma set_dedup [simp]: "set (dedup xs) = set xs"
  by (simp add: dedup_def set_dedup_acc)

lemma distinct_dedup [simp]: "distinct (dedup xs)"
  by (simp add: dedup_def distinct_dedup_acc)

lemma dedup_ident: "distinct xs \<Longrightarrow> dedup xs = xs"
  by (simp add: dedup_def dedup_acc_distinct)

lemma dget_dput: "dget (dput d k v) k' = (if k' = k then Some v else dget d k')"
  by (simp add: update_conv)

lemma dget_dput_same [simp]: "dget (dput d k v) k = Some v"
  by (simp add: dget_dput)

lemma dget_dput_other [simp]: "k' \<noteq> k \<Longrightarrow> dget (dput d k v) k' = dget d k'"
  by (simp add: dget_dput)

lemma in_set_dput: "p \<in> set (dput d k v) \<Longrightarrow> p = (k, v) \<or> p \<in> set d"
  by (induction d) (auto split: if_splits)

lemma dput_fresh: "dget d k = None \<Longrightarrow> dput d k v = d @ [(k, v)]"
  by (induction d) (auto split: if_splits)

end
