(* ===== verification/PyData.thy ===== *)
theory PyData
  imports Complex_Main Prelude
begin

text \<open>
  The values the durable records of the program are made of: JSON values as Python holds them
  (\<open>None\<close>, booleans, integers, floats, strings, lists and insertion-ordered dictionaries), their
  equality \<open>==\<close> and truth value, and the accessors \<open>dict.get\<close>, \<open>isinstance\<close> checks and exact-key
  check that every versioned contract of the program uses.

  A float is a rational number, an infinity or NaN. The order and the NaN comparisons are
  Python's; the rounding of a result to 53 bits is not modelled.
\<close>

section \<open>Floats\<close>

datatype pyfloat = Fin rat | PInf | NInf | NaN

fun float_less :: "pyfloat \<Rightarrow> pyfloat \<Rightarrow> bool" where
  "float_less NaN _ = False"
| "float_less _ NaN = False"
| "float_less (Fin a) (Fin b) = (a < b)"
| "float_less (Fin _) PInf = True"
| "float_less NInf (Fin _) = True"
| "float_less NInf PInf = True"
| "float_less _ _ = False"

fun float_eq :: "pyfloat \<Rightarrow> pyfloat \<Rightarrow> bool" where
  "float_eq NaN _ = False"
| "float_eq _ NaN = False"
| "float_eq x y = (x = y)"

fun float_minus :: "pyfloat \<Rightarrow> pyfloat \<Rightarrow> pyfloat" where
  "float_minus (Fin a) (Fin b) = Fin (a - b)"
| "float_minus NaN _ = NaN"
| "float_minus _ NaN = NaN"
| "float_minus PInf PInf = NaN"
| "float_minus NInf NInf = NaN"
| "float_minus PInf _ = PInf"
| "float_minus NInf _ = NInf"
| "float_minus _ PInf = NInf"
| "float_minus _ NInf = PInf"

section \<open>JSON values\<close>

datatype json =
    JNull
  | JBool bool
  | JInt int
  | JFloat pyfloat
  | JStr string
  | JList "json list"
  | JObj "(string \<times> json) list"

type_synonym jdict = "(string, json) dict"

text \<open>\<open>value == other\<close>. Booleans and numbers compare by value across their types.\<close>

fun num_of :: "json \<Rightarrow> pyfloat option" where
  "num_of (JBool b) = Some (Fin (of_bool b))"
| "num_of (JInt n) = Some (Fin (of_int n))"
| "num_of (JFloat x) = Some x"
| "num_of _ = None"

fun py_eq :: "json \<Rightarrow> json \<Rightarrow> bool"
  and py_eq_list :: "json list \<Rightarrow> json list \<Rightarrow> bool"
  and py_eq_obj :: "(string \<times> json) list \<Rightarrow> (string \<times> json) list \<Rightarrow> bool" where
  "py_eq JNull w = (w = JNull)"
| "py_eq (JStr s) w = (w = JStr s)"
| "py_eq (JList xs) w = (case w of JList ys \<Rightarrow> py_eq_list xs ys | _ \<Rightarrow> False)"
| "py_eq (JObj a) w =
     (case w of JObj b \<Rightarrow> set (dkeys a) = set (dkeys b) \<and> py_eq_obj a b | _ \<Rightarrow> False)"
| "py_eq v w =
     (case (num_of v, num_of w) of (Some x, Some y) \<Rightarrow> float_eq x y | _ \<Rightarrow> False)"
| "py_eq_list [] ys = (ys = [])"
| "py_eq_list (x # xs) ys = (case ys of [] \<Rightarrow> False | y # ys' \<Rightarrow> py_eq x y \<and> py_eq_list xs ys')"
| "py_eq_obj [] b = True"
| "py_eq_obj ((k, v) # a) b =
     ((case dget b k of None \<Rightarrow> False | Some w \<Rightarrow> py_eq v w) \<and> py_eq_obj a b)"

text \<open>A value a JSON document can hold: no duplicate key, no NaN.\<close>

fun json_wf :: "json \<Rightarrow> bool" where
  "json_wf (JFloat x) = (x \<noteq> NaN)"
| "json_wf (JList xs) = list_all json_wf xs"
| "json_wf (JObj a) = (distinct (dkeys a) \<and> list_all (\<lambda>p. json_wf (snd p)) a)"
| "json_wf _ = True"

lemma float_eq_refl: "x \<noteq> NaN \<Longrightarrow> float_eq x x"
  by (cases x) auto

lemma py_eq_list_refl: "(\<And>x. x \<in> set xs \<Longrightarrow> py_eq x x) \<Longrightarrow> py_eq_list xs xs"
  by (induction xs) auto

lemma py_eq_obj_refl:
  "\<forall>p \<in> set a. py_eq (snd p) (snd p) \<and> dget b (fst p) = Some (snd p) \<Longrightarrow> py_eq_obj a b"
  by (induction a) (auto split: option.split)

lemma py_eq_refl: "json_wf v \<Longrightarrow> py_eq v v"
proof (induction v rule: json_wf.induct)
  case (2 xs)
  then show ?case by (auto simp: list_all_iff intro: py_eq_list_refl)
next
  case (3 a)
  have "py_eq_obj a a"
    by (rule py_eq_obj_refl) (use 3 in \<open>auto simp: list_all_iff map_of_is_SomeI\<close>)
  then show ?case by simp
qed (auto intro: float_eq_refl)

text \<open>\<open>bool(value)\<close>.\<close>

fun truthy :: "json \<Rightarrow> bool" where
  "truthy JNull = False"
| "truthy (JBool b) = b"
| "truthy (JInt n) = (n \<noteq> 0)"
| "truthy (JFloat x) = (x \<noteq> Fin 0)"
| "truthy (JStr s) = (s \<noteq> [])"
| "truthy (JList xs) = (xs \<noteq> [])"
| "truthy (JObj a) = (a \<noteq> [])"

text \<open>\<open>payload.get(key)\<close>: a missing key reads as \<open>None\<close>.\<close>

definition jget :: "jdict \<Rightarrow> string \<Rightarrow> json" where
  "jget d k = (case dget d k of None \<Rightarrow> JNull | Some v \<Rightarrow> v)"

fun as_str :: "json \<Rightarrow> string option" where
  "as_str (JStr s) = Some s"
| "as_str _ = None"

fun as_obj :: "json \<Rightarrow> jdict option" where
  "as_obj (JObj d) = Some d"
| "as_obj _ = None"

fun as_list :: "json \<Rightarrow> json list option" where
  "as_list (JList xs) = Some xs"
| "as_list _ = None"

text \<open>\<open>type(value) is int\<close>: a boolean is not.\<close>

fun as_int :: "json \<Rightarrow> int option" where
  "as_int (JInt n) = Some n"
| "as_int _ = None"

fun opt_str :: "string option \<Rightarrow> json" where
  "opt_str None = JNull"
| "opt_str (Some s) = JStr s"

lemma json_wf_opt_str [simp]: "json_wf (opt_str s)"
  by (cases s) auto

lemma as_str_Some [simp]: "as_str v = Some s \<longleftrightarrow> v = JStr s"
  by (cases v) auto

lemma as_obj_Some [simp]: "as_obj v = Some d \<longleftrightarrow> v = JObj d"
  by (cases v) auto

lemma as_int_Some [simp]: "as_int v = Some n \<longleftrightarrow> v = JInt n"
  by (cases v) auto

lemma as_list_Some [simp]: "as_list v = Some xs \<longleftrightarrow> v = JList xs"
  by (cases v) auto

section \<open>The checks shared by the versioned contracts\<close>

text \<open>
  \<open>_require_exact_keys\<close>: the key set of a payload is the expected one. The message keeps the
  field name; the key lists it prints are left out.
\<close>

definition require_exact_keys :: "jdict \<Rightarrow> string list \<Rightarrow> string \<Rightarrow> unit py" where
  "require_exact_keys payload expected field =
     requireE (set (dkeys payload) = set expected)
       (ValueError (field @ '' has unexpected or missing keys''))"

text \<open>
  \<open>_clean_text\<close> of the ledger and discovery contracts: a string, squeezed, not empty, bounded.
\<close>

definition clean_string :: "string \<Rightarrow> string \<Rightarrow> nat \<Rightarrow> string py" where
  "clean_string value field max_chars =
     (let cleaned = squeeze value
      in if cleaned = [] then Inl (ValueError (field @ '' must not be empty''))
         else if length cleaned > max_chars then Inl (ValueError (field @ '' exceeds its limit''))
         else Inr cleaned)"

definition clean_text :: "json \<Rightarrow> string \<Rightarrow> nat \<Rightarrow> string py" where
  "clean_text value field max_chars =
     (case value of
        JStr s \<Rightarrow> clean_string s field max_chars
      | _ \<Rightarrow> Inl (TypeError (field @ '' must be a string'')))"

definition clean_non_negative_int :: "json \<Rightarrow> string \<Rightarrow> int py" where
  "clean_non_negative_int value field =
     (case value of
        JInt n \<Rightarrow> (if n < 0 then Inl (ValueError (field @ '' must be a non-negative integer''))
                   else Inr n)
      | _ \<Rightarrow> Inl (ValueError (field @ '' must be a non-negative integer'')))"

text \<open>Text that the contracts store unchanged: what \<open>clean_string\<close> returns is in this set.\<close>

definition clean :: "nat \<Rightarrow> string \<Rightarrow> bool" where
  "clean n s \<longleftrightarrow> squeeze s = s \<and> s \<noteq> [] \<and> length s \<le> n"

lemma clean_string_clean: "clean_string v f n = Inr s \<Longrightarrow> clean n s"
  by (auto simp: clean_string_def clean_def Let_def split: if_splits)

lemma clean_string_ident: "clean n s \<Longrightarrow> clean_string s f n = Inr s"
  by (simp add: clean_string_def clean_def)

lemma clean_text_Inr_iff:
  "clean_text v f n = Inr s \<longleftrightarrow> (\<exists>t. v = JStr t \<and> clean_string t f n = Inr s)"
  by (cases v) (auto simp: clean_text_def)

lemma clean_text_clean: "clean_text v f n = Inr s \<Longrightarrow> clean n s"
  by (auto simp: clean_text_Inr_iff dest: clean_string_clean)

lemma clean_text_ident: "clean n s \<Longrightarrow> clean_text (JStr s) f n = Inr s"
  by (simp add: clean_text_def clean_string_ident)

lemma clean_mono: "clean n s \<Longrightarrow> n \<le> m \<Longrightarrow> clean m s"
  by (simp add: clean_def)

lemma clean_non_negative_int_Inr_iff:
  "clean_non_negative_int v f = Inr n \<longleftrightarrow> v = JInt n \<and> 0 \<le> n"
  by (cases v) (auto simp: clean_non_negative_int_def)

end
