(* ===== verification/Approval_Machine.thy ===== *)
theory Approval_Machine
  imports PyData
begin

text \<open>
  The approval lifecycle policy of \<^verbatim>\<open>mochi/runtime/approval_state_machine.py\<close>: the state one
  approval keeps, the pure transitions (resolve, claim, complete, recover, supersede) with their
  guards in the order the code checks them, and the transition graph they refine.

  A timestamp is the instant it denotes, in microseconds since the epoch. The code writes its
  stamps with \<open>isoformat\<close> in UTC and reads them back with \<open>fromisoformat\<close>; the round trip and the
  order of such strings are those of the instants. The current time and fresh UUIDs are
  arguments. The optional requester and digest arguments that every transition passes to
  \<open>validate_binding\<close> are one record. \<open>derive_approval_binding\<close> (SHA-256 over canonical JSON) is not
  modelled: digests are opaque strings.
\<close>

section \<open>State\<close>

type_synonym instant = int

datatype approval_status =
    Pending | Approved_once | Rejected | Expired | Superseded
  | Consuming | Consumed | Execution_failed

datatype approval_decision = Approve_once | Approve_and_save_rule | Reject

datatype recovery_outcome = Applied | Not_started | Unknown_outcome

datatype approval_error =
    ApprovalExpired string
  | ApprovalConflict string
  | ApprovalRequesterMismatch string
  | ApprovalValueError string
  | ApprovalKeyError string
  | SqliteIntegrityError string

record lifecycle_state =
  approval_id :: string
  status :: approval_status
  requester_id :: string
  request_digest :: string
  context_digest :: string
  expires_at :: instant
  resolution_kind :: "approval_decision option"
  resolved_at :: "instant option"
  execution_idempotency_key :: "string option"
  consume_lease_owner :: "string option"
  consume_lease_token :: "string option"
  consume_lease_expires_at :: "instant option"
  consumed_at :: "instant option"

record binding =
  bound_requester :: "string option"
  bound_request_digest :: "string option"
  bound_context_digest :: "string option"

definition default_approval_ttl_seconds :: int where
  "default_approval_ttl_seconds = 900"

definition default_consume_lease_seconds :: int where
  "default_consume_lease_seconds = 30"

fun status_text :: "approval_status \<Rightarrow> string" where
  "status_text Pending = ''pending''"
| "status_text Approved_once = ''approved_once''"
| "status_text Rejected = ''rejected''"
| "status_text Expired = ''expired''"
| "status_text Superseded = ''superseded''"
| "status_text Consuming = ''consuming''"
| "status_text Consumed = ''consumed''"
| "status_text Execution_failed = ''execution_failed''"

definition terminal_execution_statuses :: "approval_status list" where
  "terminal_execution_statuses = [Consumed, Execution_failed]"

section \<open>Time\<close>

definition future_iso :: "int \<Rightarrow> instant \<Rightarrow> instant" where
  "future_iso seconds now = now + 1000000 * seconds"

definition is_expired :: "instant \<Rightarrow> instant \<Rightarrow> bool" where
  "is_expired value now \<longleftrightarrow> value \<le> now"

definition validate_ttl :: "int \<Rightarrow> instant option \<Rightarrow> approval_error + unit" where
  "validate_ttl ttl_seconds expires =
     (if ttl_seconds \<le> 0 \<and> expires = None
      then Inl (ApprovalValueError ''ttl_seconds must be positive'')
      else Inr ())"

section \<open>Guards\<close>

definition normalize_approval_decision :: "string \<Rightarrow> approval_error + approval_decision" where
  "normalize_approval_decision value =
     (if value = ''approve_once'' then Inr Approve_once
      else if value = ''approve_and_save_rule'' then Inr Approve_and_save_rule
      else if value = ''reject'' then Inr Reject
      else Inl (ApprovalValueError (''Unsupported approval decision: '' @ value)))"

definition validate_binding ::
  "'a lifecycle_state_scheme \<Rightarrow> binding \<Rightarrow> approval_error + unit" where
  "validate_binding state b =
     (if bound_requester b \<noteq> None \<and> bound_requester b \<noteq> Some (requester_id state)
      then Inl (ApprovalRequesterMismatch
        ''Approval requester does not match the bound requester.'')
      else if bound_request_digest b \<noteq> None \<and> bound_request_digest b \<noteq> Some (request_digest state)
      then Inl (ApprovalConflict ''Approval request digest does not match the bound request.'')
      else if bound_context_digest b \<noteq> None \<and> bound_context_digest b \<noteq> Some (context_digest state)
      then Inl (ApprovalConflict ''Approval context digest does not match the bound context.'')
      else Inr ())"

definition expired_error :: "'a lifecycle_state_scheme \<Rightarrow> approval_error" where
  "expired_error state = ApprovalExpired (''Approval '' @ approval_id state @ '' has expired.'')"

definition raise_if_expired ::
  "'a lifecycle_state_scheme \<Rightarrow> instant \<Rightarrow> approval_error + unit" where
  "raise_if_expired state now =
     (if is_expired (expires_at state) now then Inl (expired_error state) else Inr ())"

section \<open>Transitions\<close>

definition resolve_approval ::
  "lifecycle_state \<Rightarrow> string \<Rightarrow> binding \<Rightarrow> instant \<Rightarrow> approval_error + lifecycle_state" where
  "resolve_approval state decision b now =
     bindE (normalize_approval_decision decision) (\<lambda>d.
     bindE (validate_binding state b) (\<lambda>_.
     bindE (raise_if_expired state now) (\<lambda>_.
       if status state \<noteq> Pending
       then Inl (ApprovalConflict (''Approval '' @ approval_id state @ '' cannot resolve from ''
              @ status_text (status state) @ ''.''))
       else Inr (state\<lparr>status := (if d = Reject then Rejected else Approved_once),
                       resolution_kind := Some d,
                       resolved_at := Some now\<rparr>))))"

text \<open>\<open>lease_token or str(uuid4())\<close>: an absent or empty token is replaced by a fresh one.\<close>

definition choose_token :: "string option \<Rightarrow> string \<Rightarrow> string" where
  "choose_token token fresh =
     (case token of None \<Rightarrow> fresh | Some t \<Rightarrow> if t = [] then fresh else t)"

definition claim_approval ::
  "lifecycle_state \<Rightarrow> string \<Rightarrow> string \<Rightarrow> binding \<Rightarrow> int \<Rightarrow> string option \<Rightarrow> string \<Rightarrow> instant
    \<Rightarrow> approval_error + lifecycle_state" where
  "claim_approval state key owner b lease_seconds token fresh now =
     (if lease_seconds \<le> 0 then Inl (ApprovalValueError ''lease_seconds must be positive'')
      else
        bindE (validate_binding state b) (\<lambda>_.
        bindE (raise_if_expired state now) (\<lambda>_.
          if status state \<noteq> Approved_once
          then Inl (ApprovalConflict (''Approval '' @ approval_id state
                 @ '' cannot consume from '' @ status_text (status state) @ ''.''))
          else if execution_idempotency_key state \<notin> {None, Some key}
          then Inl (ApprovalConflict ''Recovered consumption must reuse its execution key.'')
          else Inr (state\<lparr>status := Consuming,
                          execution_idempotency_key := Some key,
                          consume_lease_owner := Some owner,
                          consume_lease_token := Some (choose_token token fresh),
                          consume_lease_expires_at := Some (future_iso lease_seconds now)\<rparr>))))"

definition complete_approval ::
  "lifecycle_state \<Rightarrow> string \<Rightarrow> string \<Rightarrow> string \<Rightarrow> bool \<Rightarrow> instant
    \<Rightarrow> approval_error + lifecycle_state" where
  "complete_approval state key owner token succeeded now =
     (if status state \<noteq> Consuming
         \<or> execution_idempotency_key state \<noteq> Some key
         \<or> consume_lease_owner state \<noteq> Some owner
         \<or> consume_lease_token state \<noteq> Some token
      then Inl (ApprovalConflict ''Approval consumption is not owned by this lease.'')
      else Inr (state\<lparr>status := (if succeeded then Consumed else Execution_failed),
                      consume_lease_owner := None,
                      consume_lease_token := None,
                      consume_lease_expires_at := None,
                      consumed_at := Some now\<rparr>))"

definition recovered_status ::
  "'a lifecycle_state_scheme \<Rightarrow> recovery_outcome \<Rightarrow> instant \<Rightarrow> approval_status" where
  "recovered_status state outcome now =
     (if is_expired (expires_at state) now then Expired
      else case outcome of
             Applied \<Rightarrow> Consumed
           | Not_started \<Rightarrow> Approved_once
           | Unknown_outcome \<Rightarrow> Execution_failed)"

definition lease_active :: "'a lifecycle_state_scheme \<Rightarrow> instant \<Rightarrow> bool" where
  "lease_active state now \<longleftrightarrow>
     (case consume_lease_expires_at state of None \<Rightarrow> False | Some t \<Rightarrow> \<not> is_expired t now)"

definition recover_approval ::
  "lifecycle_state \<Rightarrow> recovery_outcome \<Rightarrow> instant \<Rightarrow> approval_error + lifecycle_state" where
  "recover_approval state outcome now =
     (if status state \<noteq> Consuming
      then Inl (ApprovalConflict ''Approval has no consuming lease to recover.'')
      else if lease_active state now
      then Inl (ApprovalConflict ''Approval consuming lease is still active.'')
      else let new = recovered_status state outcome now
           in Inr (state\<lparr>status := new,
                         consume_lease_owner := None,
                         consume_lease_token := None,
                         consume_lease_expires_at := None,
                         consumed_at :=
                           (if new \<in> set terminal_execution_statuses then Some now else None)\<rparr>))"

definition supersede_approval :: "lifecycle_state \<Rightarrow> instant \<Rightarrow> approval_error + lifecycle_state" where
  "supersede_approval state now =
     (if status state \<noteq> Pending
      then Inl (ApprovalConflict ''Only pending approvals can be superseded.'')
      else bindE (raise_if_expired state now) (\<lambda>_.
        Inr (state\<lparr>status := Superseded, resolved_at := Some now\<rparr>)))"

definition can_record_execution_result :: "'a lifecycle_state_scheme \<Rightarrow> bool" where
  "can_record_execution_result state \<longleftrightarrow>
     status state = Consuming \<or> status state \<in> set terminal_execution_statuses"

definition recovery_outcome_for_task_status :: "string \<Rightarrow> recovery_outcome" where
  "recovery_outcome_for_task_status task_status =
     (if task_status \<in> set [''succeeded'', ''completed''] then Applied else Unknown_outcome)"

section \<open>The transition graph\<close>

text \<open>
  What the lifecycle promises: the statuses an approval may move between. Every transition of
  this theory is a step of the graph, and the five statuses without a successor are final.
\<close>

inductive lifecycle_step :: "approval_status \<Rightarrow> approval_status \<Rightarrow> bool" where
  approve: "lifecycle_step Pending Approved_once"
| reject: "lifecycle_step Pending Rejected"
| supersede: "lifecycle_step Pending Superseded"
| pending_expires: "lifecycle_step Pending Expired"
| claim: "lifecycle_step Approved_once Consuming"
| approved_expires: "lifecycle_step Approved_once Expired"
| succeed: "lifecycle_step Consuming Consumed"
| fail: "lifecycle_step Consuming Execution_failed"
| release: "lifecycle_step Consuming Approved_once"
| consuming_expires: "lifecycle_step Consuming Expired"

code_pred lifecycle_step .

definition final_status :: "approval_status \<Rightarrow> bool" where
  "final_status s \<longleftrightarrow> s \<in> set [Rejected, Expired, Superseded, Consumed, Execution_failed]"

inductive_simps lifecycle_step_from:
  "lifecycle_step Pending t"
  "lifecycle_step Approved_once t"
  "lifecycle_step Consuming t"
  "lifecycle_step Rejected t"
  "lifecycle_step Expired t"
  "lifecycle_step Superseded t"
  "lifecycle_step Consumed t"
  "lifecycle_step Execution_failed t"

lemma final_no_step: "final_status s \<Longrightarrow> \<not> lifecycle_step s t"
  by (auto simp: final_status_def elim: lifecycle_step.cases)

lemma final_iff_no_step: "final_status s \<longleftrightarrow> (\<nexists>t. lifecycle_step s t)"
  by (cases s) (auto simp: final_status_def lifecycle_step_from)

lemmas guard_defs = validate_binding_def raise_if_expired_def

text \<open>Inversion of each transition: when it succeeds and what it writes.\<close>

definition binding_matches :: "'a lifecycle_state_scheme \<Rightarrow> binding \<Rightarrow> bool" where
  "binding_matches state b \<longleftrightarrow>
     (\<forall>r. bound_requester b = Some r \<longrightarrow> r = requester_id state)
     \<and> (\<forall>d. bound_request_digest b = Some d \<longrightarrow> d = request_digest state)
     \<and> (\<forall>d. bound_context_digest b = Some d \<longrightarrow> d = context_digest state)"

lemma validate_binding_Inr: "validate_binding state b = Inr u \<longleftrightarrow> binding_matches state b"
  by (auto simp: validate_binding_def binding_matches_def)

lemma raise_if_expired_Inr: "raise_if_expired state now = Inr u \<longleftrightarrow> now < expires_at state"
  by (auto simp: raise_if_expired_def is_expired_def)

lemma resolve_approval_Inr_iff:
  "resolve_approval state decision b now = Inr state' \<longleftrightarrow>
     (\<exists>d. normalize_approval_decision decision = Inr d
        \<and> binding_matches state b \<and> now < expires_at state \<and> status state = Pending
        \<and> state' = state\<lparr>status := (if d = Reject then Rejected else Approved_once),
                         resolution_kind := Some d, resolved_at := Some now\<rparr>)"
  by (auto simp: resolve_approval_def result_simps validate_binding_Inr raise_if_expired_Inr)

lemma claim_approval_Inr_iff:
  "claim_approval state key owner b lease_seconds token fresh now = Inr state' \<longleftrightarrow>
     0 < lease_seconds \<and> binding_matches state b \<and> now < expires_at state
     \<and> status state = Approved_once
     \<and> (execution_idempotency_key state = None \<or> execution_idempotency_key state = Some key)
     \<and> state' = state\<lparr>status := Consuming, execution_idempotency_key := Some key,
                      consume_lease_owner := Some owner,
                      consume_lease_token := Some (choose_token token fresh),
                      consume_lease_expires_at := Some (future_iso lease_seconds now)\<rparr>"
  by (auto simp: claim_approval_def result_simps validate_binding_Inr raise_if_expired_Inr)

lemma complete_approval_Inr_iff:
  "complete_approval state key owner token succeeded now = Inr state' \<longleftrightarrow>
     status state = Consuming \<and> execution_idempotency_key state = Some key
     \<and> consume_lease_owner state = Some owner \<and> consume_lease_token state = Some token
     \<and> state' = state\<lparr>status := (if succeeded then Consumed else Execution_failed),
                      consume_lease_owner := None, consume_lease_token := None,
                      consume_lease_expires_at := None, consumed_at := Some now\<rparr>"
  by (auto simp: complete_approval_def)

lemma recover_approval_Inr_iff:
  "recover_approval state outcome now = Inr state' \<longleftrightarrow>
     status state = Consuming \<and> \<not> lease_active state now
     \<and> state' = state\<lparr>status := recovered_status state outcome now,
                      consume_lease_owner := None, consume_lease_token := None,
                      consume_lease_expires_at := None,
                      consumed_at := (if recovered_status state outcome now
                          \<in> set terminal_execution_statuses then Some now else None)\<rparr>"
  by (auto simp: recover_approval_def Let_def)

lemma supersede_approval_Inr_iff:
  "supersede_approval state now = Inr state' \<longleftrightarrow>
     status state = Pending \<and> now < expires_at state
     \<and> state' = state\<lparr>status := Superseded, resolved_at := Some now\<rparr>"
  by (auto simp: supersede_approval_def result_simps raise_if_expired_Inr)

lemmas transition_Inr_iffs =
  resolve_approval_Inr_iff claim_approval_Inr_iff complete_approval_Inr_iff
  recover_approval_Inr_iff supersede_approval_Inr_iff

lemma recovered_status_step: "lifecycle_step Consuming (recovered_status state outcome now)"
  by (auto simp: recovered_status_def lifecycle_step_from split: recovery_outcome.split)

end
