(* ===== verification/Security_Audit.thy ===== *)
theory Security_Audit
  imports PyData
begin

text \<open>
  Redaction of observational data before it reaches a durable store
  (\<^verbatim>\<open>mochi/runtime/security_audit.py\<close>): the registry of known secrets, \<open>_redact\<close> over JSON values,
  \<open>_redact_text\<close> and \<open>audit_details\<close>, which the approval stores apply to every execution result.

  The two regular expressions are case-insensitive searches for fixed alternatives; they are
  written as substring tests on the lowered text, with \<open>[_-]?\<close> expanded. Bytes, paths and other
  non-JSON values are not part of the value type. The lemmas show that what redaction returns
  holds no value under a sensitive key, no long string and no deep nesting.
\<close>

section \<open>The registry\<close>

text \<open>The registered values, oldest first; Python keeps them in a set.\<close>

type_synonym secret_registry = "string list"

definition secret_text :: "string option \<Rightarrow> string" where
  "secret_text value = (case value of None \<Rightarrow> [] | Some s \<Rightarrow> py_strip s)"

definition register_secret :: "secret_registry \<Rightarrow> string option \<Rightarrow> secret_registry" where
  "register_secret r value =
     (let text = secret_text value
      in if text = [] \<or> text \<in> set r then r else r @ [text])"

definition discard_secret :: "secret_registry \<Rightarrow> string option \<Rightarrow> secret_registry" where
  "discard_secret r value =
     (let text = secret_text value in if text = [] then r else removeAll text r)"

definition snapshot_secrets :: "secret_registry \<Rightarrow> string list" where
  "snapshot_secrets r = sort_key (\<lambda>s. - int (length s)) r"

section \<open>Text\<close>

definition redacted :: string where "redacted = ''[REDACTED]''"

definition redacted_path :: string where "redacted_path = ''[REDACTED_PATH]''"

definition any_contains :: "string list \<Rightarrow> string \<Rightarrow> bool" where
  "any_contains needles text \<longleftrightarrow> list_ex (\<lambda>n. contains n text) needles"

definition sensitive_key_patterns :: "string list" where
  "sensitive_key_patterns =
     [''apikey'', ''api_key'', ''api-key'', ''authorization'', ''cookie'', ''credential'',
      ''env'', ''password'', ''privatekey'', ''private_key'', ''private-key'',
      ''refreshtoken'', ''refresh_token'', ''refresh-token'', ''secret'', ''token'',
      ''beforecontent'', ''before_content'', ''before-content'',
      ''aftercontent'', ''after_content'', ''after-content'',
      ''originalcontent'', ''original_content'', ''original-content'', ''patch'',
      ''oldtext'', ''old_text'', ''old-text'', ''newtext'', ''new_text'', ''new-text'']"

definition sensitive_key :: "string \<Rightarrow> bool" where
  "sensitive_key key \<longleftrightarrow> any_contains sensitive_key_patterns (py_lower key)"

definition ends_with :: "string \<Rightarrow> string \<Rightarrow> bool" where
  "ends_with suffix text \<longleftrightarrow> starts_with (rev suffix) (rev text)"

definition sensitive_path :: "string \<Rightarrow> bool" where
  "sensitive_path text \<longleftrightarrow>
     (let t = py_lower text
      in contains ''.env.'' t \<or> ends_with ''.env'' t \<or> ends_with (''.env'' @ [char_of (10::nat)]) t
         \<or> any_contains [''credential'', ''id_rsa'', ''id_ed25519'', ''privatekey'',
              ''private_key'', ''private-key'', ''secret''] t)"

text \<open>\<open>str.replace(old, new)\<close> for a non-empty \<open>old\<close>.\<close>

function py_replace :: "string \<Rightarrow> string \<Rightarrow> string \<Rightarrow> string" where
  "py_replace old new text =
     (if old = [] then text
      else if starts_with old text \<and> text \<noteq> []
      then new @ py_replace old new (drop (length old) text)
      else case text of [] \<Rightarrow> [] | c # cs \<Rightarrow> c # py_replace old new cs)"
  by pat_completeness auto
termination
  by (relation "measure (\<lambda>(old, new, text). length text)") auto

declare py_replace.simps [simp del]

definition replace_secrets :: "string list \<Rightarrow> string \<Rightarrow> string" where
  "replace_secrets secrets text =
     foldl (\<lambda>out s. if s = [] then out else py_replace s redacted out) text secrets"

definition backslash_to_slash :: "string \<Rightarrow> string" where
  "backslash_to_slash = map (\<lambda>c. if of_char c = (92::nat) then CHR ''/'' else c)"

definition redact_text :: "string list \<Rightarrow> nat \<Rightarrow> bool \<Rightarrow> string \<Rightarrow> string" where
  "redact_text secrets max_len path_hint value =
     (let output = (if path_hint \<and> sensitive_path (backslash_to_slash value)
                    then redacted_path else replace_secrets secrets value)
      in if length output > max_len then take max_len output @ ''...[TRUNCATED]'' else output)"

section \<open>Values\<close>

definition path_key :: "string option \<Rightarrow> bool" where
  "path_key key = (case key of None \<Rightarrow> False | Some k \<Rightarrow> k \<noteq> [] \<and> contains ''path'' (py_lower k))"

definition sensitive :: "string option \<Rightarrow> bool" where
  "sensitive key = (case key of None \<Rightarrow> False | Some k \<Rightarrow> sensitive_key k)"

definition truncated_count :: "nat \<Rightarrow> json" where
  "truncated_count n = JInt (int n - 1000)"

fun redact :: "string list \<Rightarrow> nat \<Rightarrow> nat \<Rightarrow> string option \<Rightarrow> json \<Rightarrow> json" where
  "redact secrets max_len depth key value =
     (if sensitive key then JStr redacted
      else case depth of
        0 \<Rightarrow> JStr ''[TRUNCATED_DEPTH]''
      | Suc d \<Rightarrow>
         (case value of
            JNull \<Rightarrow> JNull
          | JBool b \<Rightarrow> JBool b
          | JInt n \<Rightarrow> JInt n
          | JFloat x \<Rightarrow> JFloat x
          | JStr s \<Rightarrow> JStr (redact_text secrets max_len (path_key key) s)
          | JObj items \<Rightarrow>
              (let projected = map (\<lambda>(k, v). (k, redact secrets max_len d (Some k) v))
                                 (take 1000 items)
               in JObj (if length items > 1000
                        then dput projected ''__truncated_items__'' (truncated_count (length items))
                        else projected))
          | JList items \<Rightarrow>
              (let projected = map (redact secrets max_len d key) (take 1000 items)
               in JList (if length items > 1000
                         then projected @ [JObj [(''__truncated_items__'',
                                truncated_count (length items))]]
                         else projected))))"

declare redact.simps [simp del]

definition redact_for_persistence :: "secret_registry \<Rightarrow> nat \<Rightarrow> nat \<Rightarrow> json \<Rightarrow> json" where
  "redact_for_persistence registry max_len max_depth value =
     redact (snapshot_secrets registry) (max 64 max_len) max_depth None value"

definition audit_details :: "secret_registry \<Rightarrow> jdict \<Rightarrow> jdict" where
  "audit_details registry value =
     (case redact_for_persistence registry 4096 12 (JObj value) of
        JObj d \<Rightarrow> d
      | _ \<Rightarrow> [])"

section \<open>What redaction guarantees\<close>

text \<open>No object, at any depth, maps a sensitive key to anything but the marker.\<close>

fun no_leak :: "json \<Rightarrow> bool" where
  "no_leak (JList xs) = list_all no_leak xs"
| "no_leak (JObj a) = list_all (\<lambda>p. (sensitive_key (fst p) \<longrightarrow> snd p = JStr redacted) \<and> no_leak (snd p)) a"
| "no_leak _ = True"

fun strings_within :: "nat \<Rightarrow> json \<Rightarrow> bool" where
  "strings_within n (JStr s) = (length s \<le> n)"
| "strings_within n (JList xs) = list_all (strings_within n) xs"
| "strings_within n (JObj a) = list_all (\<lambda>p. strings_within n (snd p)) a"
| "strings_within n _ = True"

fun depth_within :: "nat \<Rightarrow> json \<Rightarrow> bool" where
  "depth_within n (JList xs) = (case n of 0 \<Rightarrow> False | Suc m \<Rightarrow> list_all (depth_within m) xs)"
| "depth_within n (JObj a) =
     (case n of 0 \<Rightarrow> False | Suc m \<Rightarrow> list_all (\<lambda>p. depth_within m (snd p)) a)"
| "depth_within n _ = True"

lemma redact_text_bound: "15 \<le> n \<Longrightarrow> length (redact_text secrets n hint s) \<le> n + 14"
  by (simp add: redact_text_def Let_def)

lemma marker_not_sensitive: "\<not> sensitive_key ''__truncated_items__''"
  by code_simp

lemma redact_no_leak: "no_leak (redact secrets n depth key v)"
proof (induction secrets n depth key v rule: redact.induct)
  case (1 secrets n depth key v)
  show ?case
  proof (cases "sensitive key")
    case True
    then show ?thesis by (simp add: redact.simps)
  next
    case False
    have marker: "sensitive_key k \<Longrightarrow> redact secrets n d (Some k) w = JStr redacted" for d k w
      by (simp add: redact.simps sensitive_def)
    show ?thesis
      using False "1.IH" marker_not_sensitive
      by (auto simp: redact.simps [of secrets n depth key v] Let_def list_all_iff truncated_count_def
            marker dest: in_set_takeD dest!: in_set_dput split: nat.split json.split)
  qed
qed

lemma redact_strings_within:
  "64 \<le> n \<Longrightarrow> strings_within (n + 14) (redact secrets n depth key v)"
proof (induction secrets n depth key v rule: redact.induct)
  case (1 secrets n depth key v)
  then show ?case
    by (auto simp: redact.simps [of secrets n depth key v] Let_def list_all_iff truncated_count_def
          redacted_def redact_text_bound dest!: in_set_dput split: nat.split json.split)
qed

lemma redact_depth_within: "depth_within (Suc depth) (redact secrets n depth key v)"
proof (induction secrets n depth key v rule: redact.induct)
  case (1 secrets n depth key v)
  then show ?case
    by (auto simp: redact.simps [of secrets n depth key v] Let_def list_all_iff truncated_count_def
          dest!: in_set_dput split: nat.split json.split)
qed

text \<open>Whatever JSON value is recorded, what redaction lets through to the durable store holds
  nothing but the marker under a sensitive key, at any depth; its strings are cut to the limit plus
  the truncation mark, and it is at most one level deeper than the depth budget.\<close>

theorem redaction_is_bounded_and_hides_keys:
  "no_leak (redact_for_persistence registry limit depth v)
   \<and> strings_within (max 64 limit + 14) (redact_for_persistence registry limit depth v)
   \<and> depth_within (Suc depth) (redact_for_persistence registry limit depth v)"
  using redact_no_leak redact_strings_within redact_depth_within
  by (simp add: redact_for_persistence_def)

end
