(* ===== verification/Approval_Request.thy ===== *)
theory Approval_Request
  imports Approval_Machine Security_Audit
begin

text \<open>
  The records the two approval stores of \<^verbatim>\<open>mochi/runtime/approval_lifecycle.py\<close> keep: the approval
  request, the rule side effect queued by \<open>approve_and_save_rule\<close>, and the arguments of the store
  operations; then the helpers both stores share (\<open>_new_request\<close>, \<open>_next_approval_revision\<close>,
  \<open>build_rule_side_effect\<close>). The SHA-256 digests are computed by a function that is an argument.
\<close>

text \<open>\<open>ExecApprovalRequest\<close> extends the lifecycle fields, so \<open>_lifecycle_state\<close> is a truncation.\<close>

record approval_request = lifecycle_state +
  reason :: "string option"
  command :: string
  shell :: string
  scope :: string
  created_at :: instant
  metadata :: jdict
  command_payload :: "jdict option"
  execution_result :: "jdict option"
  approval_revision :: "int option"

definition lifecycle_of :: "'a approval_request_scheme \<Rightarrow> lifecycle_state" where
  "lifecycle_of r = lifecycle_state.truncate r"

lemma lifecycle_of_fields [simp]:
  "approval_id (lifecycle_of r) = approval_id r"
  "status (lifecycle_of r) = status r"
  "requester_id (lifecycle_of r) = requester_id r"
  "request_digest (lifecycle_of r) = request_digest r"
  "context_digest (lifecycle_of r) = context_digest r"
  "expires_at (lifecycle_of r) = expires_at r"
  "resolution_kind (lifecycle_of r) = resolution_kind r"
  "resolved_at (lifecycle_of r) = resolved_at r"
  "execution_idempotency_key (lifecycle_of r) = execution_idempotency_key r"
  "consume_lease_owner (lifecycle_of r) = consume_lease_owner r"
  "consume_lease_token (lifecycle_of r) = consume_lease_token r"
  "consume_lease_expires_at (lifecycle_of r) = consume_lease_expires_at r"
  "consumed_at (lifecycle_of r) = consumed_at r"
  by (simp_all add: lifecycle_of_def lifecycle_state.defs)

lemma binding_matches_lifecycle [simp]: "binding_matches (lifecycle_of r) b = binding_matches r b"
  by (simp add: binding_matches_def)

lemma lease_active_lifecycle [simp]: "lease_active (lifecycle_of r) now = lease_active r now"
  by (simp add: lease_active_def)

lemma recovered_status_lifecycle [simp]:
  "recovered_status (lifecycle_of r) outcome now = recovered_status r outcome now"
  by (simp add: recovered_status_def)

lemma can_record_lifecycle [simp]:
  "can_record_execution_result (lifecycle_of r) = can_record_execution_result r"
  by (simp add: can_record_execution_result_def)

datatype effect_status = Effect_pending | Effect_retrying | Effect_delivered | Effect_failed

record side_effect =
  side_effect_id :: string
  effect_approval_id :: string
  effect_kind :: string
  effect_payload :: json
  payload_digest :: string
  target_config_path :: string
  effect_status :: effect_status
  attempts :: int
  lease_owner :: "string option"
  lease_expires_at :: "instant option"
  last_error :: "string option"
  effect_created_at :: instant
  delivered_at :: "instant option"
  effect_updated_at :: instant

section \<open>Arguments of the operations\<close>

record create_args =
  new_id :: string
  new_command :: string
  new_shell :: string
  new_scope :: string
  new_reason :: "string option"
  new_metadata :: "jdict option"
  new_command_payload :: "jdict option"
  new_requester :: "string option"
  new_request_digest :: "string option"
  new_context_digest :: "string option"
  new_expires_at :: "instant option"
  new_ttl_seconds :: int

record resolve_args =
  res_decision :: string
  res_reason :: "string option"
  res_metadata :: "jdict option"
  res_execution_result :: "jdict option"
  res_binding :: binding
  res_rule_side_effect :: "jdict option"
  res_fresh_id :: string

record consume_args =
  con_key :: string
  con_lease_owner :: string
  con_binding :: binding
  con_lease_seconds :: int
  con_fresh_token :: string

record complete_args =
  com_key :: string
  com_lease_owner :: string
  com_lease_token :: string
  com_execution_result :: jdict
  com_succeeded :: bool

text \<open>
  What the stores take from outside: the registry of known secrets, and the canonical SHA-256
  digests of a command request and of a JSON payload.
\<close>

record store_env =
  env_secrets :: secret_registry
  env_request_digest :: "string \<Rightarrow> string \<Rightarrow> string \<Rightarrow> jdict option \<Rightarrow> string"
  env_payload_digest :: "jdict \<Rightarrow> string"

section \<open>Shared helpers\<close>

text \<open>\<open>value or default\<close> on an optional string.\<close>

definition or_default :: "string option \<Rightarrow> string \<Rightarrow> string" where
  "or_default value d = (case value of None \<Rightarrow> d | Some s \<Rightarrow> if s = [] then d else s)"

definition new_request ::
  "store_env \<Rightarrow> create_args \<Rightarrow> instant \<Rightarrow> approval_error + approval_request" where
  "new_request env a now =
     bindE (validate_ttl (new_ttl_seconds a) (new_expires_at a)) (\<lambda>_.
       let payload = new_command_payload a;
           digest = or_default (new_request_digest a)
             (env_request_digest env (new_command a) (new_shell a) (new_scope a) payload)
       in Inr
         \<lparr>approval_id = new_id a,
          status = Pending,
          requester_id = or_default (new_requester a) ''legacy'',
          request_digest = digest,
          context_digest = or_default (new_context_digest a) digest,
          expires_at = (case new_expires_at a of
                          Some t \<Rightarrow> t
                        | None \<Rightarrow> future_iso (new_ttl_seconds a) now),
          resolution_kind = None,
          resolved_at = None,
          execution_idempotency_key = None,
          consume_lease_owner = None,
          consume_lease_token = None,
          consume_lease_expires_at = None,
          consumed_at = None,
          reason = new_reason a,
          command = new_command a,
          shell = new_shell a,
          scope = new_scope a,
          created_at = now,
          metadata = (case new_metadata a of None \<Rightarrow> [] | Some m \<Rightarrow> m),
          command_payload = payload,
          execution_result = None,
          approval_revision = Some 1\<rparr>)"

definition next_approval_revision :: "int option \<Rightarrow> int" where
  "next_approval_revision value =
     (case value of None \<Rightarrow> 0 | Some n \<Rightarrow> if n > 0 then n else 0) + 1"

definition bump_revision :: "'a approval_request_scheme \<Rightarrow> 'a approval_request_scheme" where
  "bump_revision r = r\<lparr>approval_revision := Some (next_approval_revision (approval_revision r))\<rparr>"

lemma bump_revision_fields [simp]:
  "status (bump_revision r) = status r"
  "execution_idempotency_key (bump_revision r) = execution_idempotency_key r"
  "approval_id (bump_revision r) = approval_id r"
  by (simp_all add: bump_revision_def)

definition build_rule_side_effect ::
  "store_env \<Rightarrow> string \<Rightarrow> jdict option \<Rightarrow> string \<Rightarrow> instant \<Rightarrow> approval_error + side_effect" where
  "build_rule_side_effect env i value fresh now =
     (case value of
        None \<Rightarrow> Inl (ApprovalValueError
          ''approve_and_save_rule requires a durable rule side effect payload.'')
      | Some v \<Rightarrow>
         (case (jget v ''payload'', jget v ''target_config_path'') of
            (JObj payload, JStr target) \<Rightarrow>
              (if py_strip target = []
               then Inl (ApprovalValueError ''rule side effect requires payload and target_config_path.'')
               else Inr
                 \<lparr>side_effect_id = fresh,
                  effect_approval_id = i,
                  effect_kind = ''save_command_rule'',
                  effect_payload = JObj payload,
                  payload_digest = env_payload_digest env payload,
                  target_config_path = target,
                  effect_status = Effect_pending,
                  attempts = 0,
                  lease_owner = None,
                  lease_expires_at = None,
                  last_error = None,
                  effect_created_at = now,
                  delivered_at = None,
                  effect_updated_at = now\<rparr>)
          | _ \<Rightarrow> Inl (ApprovalValueError ''rule side effect requires payload and target_config_path.'')))"

definition rule_effect_for ::
  "store_env \<Rightarrow> string \<Rightarrow> resolve_args \<Rightarrow> instant \<Rightarrow> approval_error + side_effect option" where
  "rule_effect_for env i a now =
     (if res_decision a = ''approve_and_save_rule''
      then bindE (build_rule_side_effect env i (res_rule_side_effect a) (res_fresh_id a) now)
             (\<lambda>e. Inr (Some e))
      else Inr None)"

definition stale_consuming :: "'a approval_request_scheme \<Rightarrow> instant \<Rightarrow> bool" where
  "stale_consuming r now \<longleftrightarrow> status r = Consuming \<and> \<not> lease_active r now"

text \<open>The recovery outcome a recorded execution result stands for.\<close>

definition result_applied :: "jdict option \<Rightarrow> bool" where
  "result_applied result =
     (case result of
        None \<Rightarrow> False
      | Some d \<Rightarrow> jget d ''status'' \<in> set [JStr ''succeeded'', JStr ''completed''])"

text \<open>The operations of the \<open>ApprovalStore\<close> protocol, and what they return.\<close>

datatype store_op =
    Create create_args
  | Resolve string resolve_args
  | Consume string consume_args
  | Complete string complete_args
  | Recover string recovery_outcome "jdict option"
  | Record_result string jdict
  | Supersede string "string option"
  | Recover_stale

datatype store_out = Item approval_request | No_item | Items "approval_request list"

type_synonym 's store_result = "'s \<times> (approval_error + store_out)"

end
