(* ===== verification/Runs.thy ===== *)
theory Runs
  imports Prelude
begin

text \<open>
  Runs of a component: the state after a list of operations, and the operations of the run that
  succeeded. Two interfaces say how a component spends something for good: \<open>guarded\<close> (once spent,
  always spent, and the operation does not succeed any more) and \<open>one_shot\<close> (the operation itself
  spends it, so it succeeds at most once in any run).
\<close>

fun run_ops :: "('s \<Rightarrow> 'op \<Rightarrow> 's \<times> 'r) \<Rightarrow> 's \<Rightarrow> 'op list \<Rightarrow> 's" where
  "run_ops step s [] = s"
| "run_ops step s (op # ops) = run_ops step (fst (step s op)) ops"

fun succeeded_ops :: "('s \<Rightarrow> 'op \<Rightarrow> 's \<times> ('e + 'a)) \<Rightarrow> 's \<Rightarrow> 'op list \<Rightarrow> 'op list" where
  "succeeded_ops step s [] = []"
| "succeeded_ops step s (op # ops) =
     (case snd (step s op) of Inl _ \<Rightarrow> [] | Inr _ \<Rightarrow> [op]) @ succeeded_ops step (fst (step s op)) ops"

lemma run_ops_append: "run_ops step s (xs @ ys) = run_ops step (run_ops step s xs) ys"
  by (induction xs arbitrary: s) auto

lemma succeeded_ops_append:
  "succeeded_ops step s (xs @ ys) =
     succeeded_ops step s xs @ succeeded_ops step (run_ops step s xs) ys"
  by (induction xs arbitrary: s) auto

lemma run_ops_invariant:
  "(\<And>s op. P s \<Longrightarrow> P (fst (step s op))) \<Longrightarrow> P s \<Longrightarrow> P (run_ops step s ops)"
  by (induction ops arbitrary: s) auto

text \<open>A reflexive and transitive relation that every step keeps holds along a run.\<close>

lemma run_ops_related:
  assumes "\<And>s op. R s (fst (step s op))" and "\<And>s. R s s"
    and "\<And>s t u. R s t \<Longrightarrow> R t u \<Longrightarrow> R s u"
  shows "R s (run_ops step s ops)"
proof (induction ops arbitrary: s)
  case (Cons op ops)
  show ?case using assms(3) [OF assms(1) Cons.IH] by simp
qed (use assms(2) in simp)

lemma run_ops_related_on:
  assumes "\<And>s op. op \<in> set ops \<Longrightarrow> R s (fst (step s op))" and "\<And>s. R s s"
    and "\<And>s t u. R s t \<Longrightarrow> R t u \<Longrightarrow> R s u"
  shows "R s (run_ops step s ops)"
  using assms(1)
proof (induction ops arbitrary: s)
  case (Cons op ops)
  show ?case using assms(3) [OF Cons.prems Cons.IH] Cons.prems by simp
qed (use assms(2) in simp)

locale guarded =
  fixes step :: "'s \<Rightarrow> 'op \<Rightarrow> 's \<times> ('e + 'a)"
    and spent :: "'s \<Rightarrow> bool"
    and fires :: "'op \<Rightarrow> bool"
  assumes spent_stays: "spent s \<Longrightarrow> spent (fst (step s op))"
    and fires_unspent: "fires op \<Longrightarrow> step s op = (s', Inr out) \<Longrightarrow> \<not> spent s"
begin

lemma spent_run: "spent s \<Longrightarrow> spent (run_ops step s ops)"
  by (induction ops arbitrary: s) (auto intro: spent_stays)

lemma none_when_spent: "spent s \<Longrightarrow> filter fires (succeeded_ops step s ops) = []"
proof (induction ops arbitrary: s)
  case (Cons op ops)
  have "\<not> fires op" if "snd (step s op) = Inr out" for out
    using fires_unspent [of op s "fst (step s op)" out] that Cons.prems
    by (metis prod.collapse)
  then show ?case
    using Cons.IH [OF spent_stays [OF Cons.prems]] by (auto split: sum.split)
qed simp

end

locale one_shot = guarded +
  assumes fires_spends: "fires op \<Longrightarrow> step s op = (s', Inr out) \<Longrightarrow> spent s'"
begin

lemma at_most_once: "length (filter fires (succeeded_ops step s ops)) \<le> 1"
proof (induction ops arbitrary: s)
  case (Cons op ops)
  show ?case
  proof (cases "fires op \<and> (\<exists>out. snd (step s op) = Inr out)")
    case True
    then have "spent (fst (step s op))"
      using fires_spends by (metis prod.collapse)
    from none_when_spent [OF this, of ops] show ?thesis by (auto split: sum.split)
  next
    case False
    then show ?thesis using Cons.IH [of "fst (step s op)"] by (auto split: sum.split)
  qed
qed simp

end

end
