(* ===== verification/Approval_Contract.thy ===== *)
theory Approval_Contract
  imports Approval_Request Runs
begin

text \<open>
  The \<open>ApprovalStore\<close> protocol of \<^verbatim>\<open>mochi/runtime/approval_lifecycle.py\<close> as an interface: one step
  per operation, and what every implementation promises about the status of each approval. The
  consume-once facts the runtime relies on follow from the interfaces of \<open>Runs\<close>, and each store
  interprets the locale on its own operations.

  \<open>approval_store\<close> is the contract both stores keep. \<open>graph_store\<close> is the stronger contract that
  every status change is an edge of the lifecycle graph; it implies the weaker one.
\<close>

text \<open>An operation of a store together with the times its clock reads return.\<close>

type_synonym timed_op = "store_op \<times> instant \<times> instant"

definition completes :: "string \<Rightarrow> timed_op \<Rightarrow> bool" where
  "completes i op \<longleftrightarrow> (case fst op of Complete j _ \<Rightarrow> i = j | _ \<Rightarrow> False)"

definition consumes :: "string \<Rightarrow> timed_op \<Rightarrow> bool" where
  "consumes i op \<longleftrightarrow> (case fst op of Consume j _ \<Rightarrow> i = j | _ \<Rightarrow> False)"

lemma completesE:
  assumes "completes i op" obtains c t1 t2 where "op = (Complete i c, t1, t2)"
  using assms by (cases op) (auto simp: completes_def split: store_op.splits)

lemma consumesE:
  assumes "consumes i op" obtains c t1 t2 where "op = (Consume i c, t1, t2)"
  using assms by (cases op) (auto simp: consumes_def split: store_op.splits)

definition is_final :: "approval_status option \<Rightarrow> bool" where
  "is_final st \<longleftrightarrow> (case st of None \<Rightarrow> False | Some a \<Rightarrow> final_status a)"

lemma is_final_simps [simp]:
  "is_final None = False" "is_final (Some a) = final_status a"
  by (simp_all add: is_final_def)

locale approval_store =
  fixes step :: "'s \<Rightarrow> timed_op \<Rightarrow> 's store_result"
    and status_of :: "'s \<Rightarrow> string \<Rightarrow> approval_status option"
  assumes final_stays: "is_final (status_of s i) \<Longrightarrow> is_final (status_of (fst (step s op)) i)"
    and complete_finishes:
    "step s (Complete i c, t1, t2) = (s', Inr out) \<Longrightarrow>
       status_of s i = Some Consuming \<and> is_final (status_of s' i)"
    and consume_claims:
    "step s (Consume i k, t1, t2) = (s', Inr out) \<Longrightarrow>
       status_of s i = Some Approved_once \<and> status_of s' i = Some Consuming"

text \<open>Completing an approval spends it; a spent approval is not claimed any more.\<close>

sublocale approval_store \<subseteq> completion: one_shot step "\<lambda>s. is_final (status_of s i)" "completes i"
  for i
  by unfold_locales (auto elim!: completesE dest: complete_finishes final_stays
      simp: final_status_def)

sublocale approval_store \<subseteq> claim: guarded step "\<lambda>s. is_final (status_of s i)" "consumes i"
  for i
  by unfold_locales (auto elim!: consumesE dest: consume_claims final_stays
      simp: final_status_def)

context approval_store
begin

lemma no_claim_after_completion:
  "step s (Complete i c, t1, t2) = (s', Inr out) \<Longrightarrow>
     filter (consumes i) (succeeded_ops step s' ops) = []"
  by (rule claim.none_when_spent) (blast dest: complete_finishes)

end

locale graph_store =
  fixes step :: "'s \<Rightarrow> timed_op \<Rightarrow> 's store_result"
    and status_of :: "'s \<Rightarrow> string \<Rightarrow> approval_status option"
  assumes status_edge:
    "status_of s i = Some a \<Longrightarrow>
       \<exists>b. status_of (fst (step s op)) i = Some b \<and> (b = a \<or> lifecycle_step a b)"
    and completion:
    "step s (Complete i c, t1, t2) = (s', Inr out) \<Longrightarrow>
       status_of s i = Some Consuming \<and> is_final (status_of s' i)"
    and claiming:
    "step s (Consume i k, t1, t2) = (s', Inr out) \<Longrightarrow>
       status_of s i = Some Approved_once \<and> status_of s' i = Some Consuming"

sublocale graph_store \<subseteq> approval_store step status_of
proof
  fix s i op
  assume "is_final (status_of s i)"
  then obtain a where "status_of s i = Some a" "final_status a"
    by (cases "status_of s i") auto
  then show "is_final (status_of (fst (step s op)) i)"
    using status_edge [of s i a op] final_no_step [of a] by auto
qed (use completion claiming in blast)+

context graph_store
begin

text \<open>Over a run, a status moves along a path of the graph; a final status never moves.\<close>

lemma status_path:
  "status_of s i = Some a \<Longrightarrow>
     \<exists>b. status_of (run_ops step s ops) i = Some b \<and> lifecycle_step\<^sup>*\<^sup>* a b"
proof (induction ops arbitrary: s a)
  case (Cons op ops)
  then obtain b where "status_of (fst (step s op)) i = Some b" "b = a \<or> lifecycle_step a b"
    using status_edge by blast
  moreover from Cons.IH [OF this(1)] obtain c
    where "status_of (run_ops step (fst (step s op)) ops) i = Some c" "lifecycle_step\<^sup>*\<^sup>* b c"
    by blast
  ultimately show ?case
    by (auto intro: converse_rtranclp_into_rtranclp)
qed auto

lemma final_frozen:
  assumes "status_of s i = Some a" and "final_status a"
  shows "status_of (run_ops step s ops) i = Some a"
  using status_path [OF assms(1), of ops] final_no_step [OF assms(2)]
  by (auto elim: converse_rtranclpE)

end

end
