(* ===== verification/Memory_Store.thy ===== *)
theory Memory_Store
  imports Approval_Contract
begin

text \<open>
  \<open>InMemoryApprovalStore\<close> of \<^verbatim>\<open>mochi/runtime/approval_lifecycle.py\<close>: its three dictionaries and every
  operation, each run under the store's lock. An operation returns the new store and either the
  raised error or its result; a store is also returned with an error, because an expired approval
  is written before the exception is raised again. The store satisfies \<open>approval_store\<close>.
\<close>

record memory_store =
  mem_items :: "(string, approval_request) dict"
  mem_effects :: "(string, side_effect list) dict"
  mem_execution_keys :: "string list"

definition empty_memory_store :: memory_store where
  "empty_memory_store = \<lparr>mem_items = [], mem_effects = [], mem_execution_keys = []\<rparr>"

definition mem_put :: "memory_store \<Rightarrow> string \<Rightarrow> approval_request \<Rightarrow> memory_store" where
  "mem_put s i r = s\<lparr>mem_items := dput (mem_items s) i r\<rparr>"

definition mem_status :: "memory_store \<Rightarrow> string \<Rightarrow> approval_status option" where
  "mem_status s i = map_option status (dget (mem_items s) i)"

text \<open>The write both stores do before they raise \<open>ApprovalExpired\<close> again.\<close>

definition mem_expire :: "memory_store \<Rightarrow> string \<Rightarrow> approval_request \<Rightarrow> memory_store" where
  "mem_expire s i current = mem_put s i (bump_revision (current\<lparr>status := Expired\<rparr>))"

definition on_expired ::
  "memory_store \<Rightarrow> string \<Rightarrow> approval_request \<Rightarrow> approval_error \<Rightarrow> memory_store store_result" where
  "on_expired s i current e =
     (case e of ApprovalExpired _ \<Rightarrow> (mem_expire s i current, Inl e) | _ \<Rightarrow> (s, Inl e))"

definition mem_create ::
  "store_env \<Rightarrow> memory_store \<Rightarrow> create_args \<Rightarrow> instant \<Rightarrow> memory_store store_result" where
  "mem_create env s a now =
     (case new_request env a now of
        Inl e \<Rightarrow> (s, Inl e)
      | Inr item \<Rightarrow>
          (if dget (mem_items s) (new_id a) \<noteq> None
           then (s, Inl (ApprovalConflict (''Approval '' @ new_id a @ '' already exists.'')))
           else (mem_put s (new_id a) item, Inr (Item item))))"

definition mem_get :: "memory_store \<Rightarrow> string \<Rightarrow> approval_request option" where
  "mem_get s i = dget (mem_items s) i"

text \<open>\<open>sorted(..., key=created_at, reverse=True)\<close> is stable: equal stamps keep their order.\<close>

definition mem_list :: "memory_store \<Rightarrow> approval_status option \<Rightarrow> approval_request list" where
  "mem_list s st =
     sort_key (\<lambda>r. - created_at r)
       (filter (\<lambda>r. case st of None \<Rightarrow> True | Some x \<Rightarrow> status r = x) (map snd (mem_items s)))"

definition mem_resolve ::
  "store_env \<Rightarrow> memory_store \<Rightarrow> string \<Rightarrow> resolve_args \<Rightarrow> instant \<Rightarrow> memory_store store_result" where
  "mem_resolve env s i a now =
     (case rule_effect_for env i a now of
        Inl e \<Rightarrow> (s, Inl e)
      | Inr effect \<Rightarrow>
     (case dget (mem_items s) i of
        None \<Rightarrow> (s, Inr No_item)
      | Some current \<Rightarrow>
     (case resolve_approval (lifecycle_of current) (res_decision a) (res_binding a) now of
        Inl e \<Rightarrow> on_expired s i current e
      | Inr transition \<Rightarrow>
          (let s1 = (case effect of
                       None \<Rightarrow> s
                     | Some e \<Rightarrow> s\<lparr>mem_effects := dput (mem_effects s) i
                         ((case dget (mem_effects s) i of None \<Rightarrow> [] | Some es \<Rightarrow> es) @ [e])\<rparr>);
               merged = (case res_metadata a of
                           None \<Rightarrow> metadata current
                         | Some m \<Rightarrow> dmerge (metadata current) m);
               resolved = bump_revision (current
                 \<lparr>status := status transition,
                  reason := (if res_reason a \<noteq> None then res_reason a else reason current),
                  metadata := merged,
                  execution_result := (case res_execution_result a of
                      Some r \<Rightarrow> Some (audit_details (env_secrets env) r)
                    | None \<Rightarrow> execution_result current),
                  resolved_at := resolved_at transition,
                  resolution_kind := resolution_kind transition\<rparr>)
           in (mem_put s1 i resolved, Inr (Item resolved))))))"

definition mem_consume ::
  "memory_store \<Rightarrow> string \<Rightarrow> consume_args \<Rightarrow> instant \<Rightarrow> memory_store store_result" where
  "mem_consume s i a now =
     (case dget (mem_items s) i of
        None \<Rightarrow> (s, Inl (ApprovalConflict (''Approval '' @ i @ '' does not exist.'')))
      | Some current \<Rightarrow>
     (case claim_approval (lifecycle_of current) (con_key a) (con_lease_owner a) (con_binding a)
             (con_lease_seconds a) None (con_fresh_token a) now of
        Inl e \<Rightarrow> on_expired s i current e
      | Inr transition \<Rightarrow>
          (if con_key a \<in> set (mem_execution_keys s)
              \<and> execution_idempotency_key current \<noteq> Some (con_key a)
           then (s, Inl (ApprovalConflict ''Execution idempotency key is already in use.''))
           else
             let claimed = bump_revision (current
                   \<lparr>status := status transition,
                    execution_idempotency_key := execution_idempotency_key transition,
                    consume_lease_owner := consume_lease_owner transition,
                    consume_lease_token := consume_lease_token transition,
                    consume_lease_expires_at := consume_lease_expires_at transition\<rparr>)
             in (mem_put (s\<lparr>mem_execution_keys := List.insert (con_key a) (mem_execution_keys s)\<rparr>)
                   i claimed,
                 Inr (Item claimed)))))"

definition mem_complete ::
  "store_env \<Rightarrow> memory_store \<Rightarrow> string \<Rightarrow> complete_args \<Rightarrow> instant \<Rightarrow> memory_store store_result" where
  "mem_complete env s i a now =
     (case dget (mem_items s) i of
        None \<Rightarrow> (s, Inl (ApprovalConflict ''Approval consumption is not owned by this lease.''))
      | Some current \<Rightarrow>
     (case complete_approval (lifecycle_of current) (com_key a) (com_lease_owner a)
             (com_lease_token a) (com_succeeded a) now of
        Inl e \<Rightarrow> (s, Inl e)
      | Inr transition \<Rightarrow>
          (let completed = bump_revision (current
                 \<lparr>status := status transition,
                  execution_result := Some (audit_details (env_secrets env) (com_execution_result a)),
                  consume_lease_owner := consume_lease_owner transition,
                  consume_lease_token := consume_lease_token transition,
                  consume_lease_expires_at := consume_lease_expires_at transition,
                  consumed_at := consumed_at transition\<rparr>)
           in (mem_put s i completed, Inr (Item completed)))))"

definition mem_recover ::
  "store_env \<Rightarrow> memory_store \<Rightarrow> string \<Rightarrow> recovery_outcome \<Rightarrow> jdict option \<Rightarrow> instant
    \<Rightarrow> memory_store store_result" where
  "mem_recover env s i outcome result now =
     (case dget (mem_items s) i of
        None \<Rightarrow> (s, Inl (ApprovalConflict ''Approval has no consuming lease to recover.''))
      | Some current \<Rightarrow>
     (case recover_approval (lifecycle_of current) outcome now of
        Inl e \<Rightarrow> (s, Inl e)
      | Inr transition \<Rightarrow>
          (let recovered = bump_revision (current
                 \<lparr>status := status transition,
                  execution_result := (case result of
                      Some r \<Rightarrow> Some (audit_details (env_secrets env) r)
                    | None \<Rightarrow> execution_result current),
                  consume_lease_owner := consume_lease_owner transition,
                  consume_lease_token := consume_lease_token transition,
                  consume_lease_expires_at := consume_lease_expires_at transition,
                  consumed_at := consumed_at transition\<rparr>)
           in (mem_put s i recovered, Inr (Item recovered)))))"

definition mem_record_result ::
  "store_env \<Rightarrow> memory_store \<Rightarrow> string \<Rightarrow> jdict \<Rightarrow> memory_store store_result" where
  "mem_record_result env s i result =
     (case dget (mem_items s) i of
        None \<Rightarrow> (s, Inr No_item)
      | Some current \<Rightarrow>
          (if \<not> can_record_execution_result (lifecycle_of current) then (s, Inr No_item)
           else let updated = bump_revision (current
                  \<lparr>execution_result := Some (audit_details (env_secrets env) result)\<rparr>)
                in (mem_put s i updated, Inr (Item updated))))"

definition mem_supersede ::
  "memory_store \<Rightarrow> string \<Rightarrow> string option \<Rightarrow> instant \<Rightarrow> memory_store store_result" where
  "mem_supersede s i why now =
     (case dget (mem_items s) i of
        None \<Rightarrow> (s, Inl (ApprovalConflict ''Only pending approvals can be superseded.''))
      | Some current \<Rightarrow>
     (case supersede_approval (lifecycle_of current) now of
        Inl e \<Rightarrow> on_expired s i current e
      | Inr transition \<Rightarrow>
          (let updated = bump_revision (current
                 \<lparr>status := status transition,
                  reason := (if why \<noteq> None then why else reason current),
                  resolved_at := resolved_at transition\<rparr>)
           in (mem_put s i updated, Inr (Item updated)))))"

fun mem_recover_each ::
  "store_env \<Rightarrow> memory_store \<Rightarrow> string list \<Rightarrow> approval_request list \<Rightarrow> instant
    \<Rightarrow> memory_store store_result" where
  "mem_recover_each env s [] recovered now = (s, Inr (Items (rev recovered)))"
| "mem_recover_each env s (i # is) recovered now =
     (case dget (mem_items s) i of
        None \<Rightarrow> (s, Inl (ApprovalKeyError i))
      | Some item \<Rightarrow>
     (case mem_recover env s i
             (if result_applied (execution_result item) then Applied else Unknown_outcome) None now of
        (s', Inr (Item r)) \<Rightarrow> mem_recover_each env s' is (r # recovered) now
      | (s', Inr out) \<Rightarrow> (s', Inr out)
      | (s', Inl e) \<Rightarrow> (s', Inl e)))"

definition mem_recover_stale ::
  "store_env \<Rightarrow> memory_store \<Rightarrow> instant \<Rightarrow> instant \<Rightarrow> memory_store store_result" where
  "mem_recover_stale env s now now2 =
     mem_recover_each env s
       (map approval_id (filter (\<lambda>r. stale_consuming r now) (map snd (mem_items s)))) [] now2"

fun memory_step :: "store_env \<Rightarrow> memory_store \<Rightarrow> timed_op \<Rightarrow> memory_store store_result" where
  "memory_step env s (Create a, now, _) = mem_create env s a now"
| "memory_step env s (Resolve i a, now, _) = mem_resolve env s i a now"
| "memory_step env s (Consume i a, now, _) = mem_consume s i a now"
| "memory_step env s (Complete i a, now, _) = mem_complete env s i a now"
| "memory_step env s (Recover i outcome r, now, _) = mem_recover env s i outcome r now"
| "memory_step env s (Record_result i r, now, _) = mem_record_result env s i r"
| "memory_step env s (Supersede i why, now, _) = mem_supersede s i why now"
| "memory_step env s (Recover_stale, now, now2) = mem_recover_stale env s now now2"

section \<open>The contract\<close>

lemma mem_status_put [simp]:
  "mem_status (mem_put s i r) j = (if j = i then Some (status r) else mem_status s j)"
  by (simp add: mem_status_def mem_put_def dget_dput)

lemma mem_status_lookup: "dget (mem_items s) i = Some r \<Longrightarrow> mem_status s i = Some (status r)"
  by (simp add: mem_status_def)

lemma mem_status_other_fields [simp]:
  "mem_status (s\<lparr>mem_effects := e\<rparr>) i = mem_status s i"
  "mem_status (s\<lparr>mem_execution_keys := k\<rparr>) i = mem_status s i"
  by (simp_all add: mem_status_def)

definition finals_kept :: "memory_store \<Rightarrow> memory_store \<Rightarrow> bool" where
  "finals_kept s s' \<longleftrightarrow>
     (\<forall>i. is_final (mem_status s i) \<longrightarrow> is_final (mem_status s' i))"

lemma finals_kept_refl [simp, intro]: "finals_kept s s"
  by (simp add: finals_kept_def)

lemma finals_kept_trans: "finals_kept s t \<Longrightarrow> finals_kept t u \<Longrightarrow> finals_kept s u"
  by (auto simp: finals_kept_def)

lemma finals_kept_put:
  "dget (mem_items s) i = Some cur \<Longrightarrow> (final_status (status cur) \<Longrightarrow> final_status (status r)) \<Longrightarrow>
     finals_kept s (mem_put s i r)"
  by (auto simp: finals_kept_def mem_status_lookup)

lemma finals_kept_put_fields:
  "mem_items t = mem_items s \<Longrightarrow> dget (mem_items s) i = Some cur \<Longrightarrow>
     \<not> final_status (status cur) \<Longrightarrow> finals_kept s (mem_put t i r)"
  by (auto simp: finals_kept_def mem_status_def mem_put_def dget_dput)

lemma final_Expired [simp]: "final_status Expired"
  by (simp add: final_status_def)

lemma not_final [simp]:
  "\<not> final_status Pending" "\<not> final_status Approved_once" "\<not> final_status Consuming"
  by (simp_all add: final_status_def)

lemma on_expired_kept:
  "dget (mem_items s) i = Some cur \<Longrightarrow> finals_kept s (fst (on_expired s i cur e))"
  by (auto simp: on_expired_def mem_expire_def intro: finals_kept_put split: approval_error.split)

lemma mem_create_kept: "finals_kept s (fst (mem_create env s a now))"
  by (auto simp: mem_create_def finals_kept_def mem_status_def mem_put_def dget_dput
      split: sum.split)

lemma mem_resolve_kept: "finals_kept s (fst (mem_resolve env s i a now))"
proof (cases "rule_effect_for env i a now")
  case (Inr effect)
  show ?thesis
  proof (cases "dget (mem_items s) i")
    case (Some current)
    show ?thesis
    proof (cases "resolve_approval (lifecycle_of current) (res_decision a) (res_binding a) now")
      case (Inl e)
      then show ?thesis
        using \<open>rule_effect_for env i a now = Inr effect\<close> Some
        by (simp add: mem_resolve_def on_expired_kept)
    next
      case tr: (Inr transition)
      then have "status current = Pending"
        by (auto simp: resolve_approval_Inr_iff)
      then show ?thesis
        using \<open>rule_effect_for env i a now = Inr effect\<close> Some tr
        by (cases effect)
          (simp_all add: mem_resolve_def Let_def finals_kept_put_fields [OF _ Some])
    qed
  qed (use Inr in \<open>simp add: mem_resolve_def\<close>)
qed (simp add: mem_resolve_def)

lemma mem_consume_kept: "finals_kept s (fst (mem_consume s i a now))"
proof (cases "dget (mem_items s) i")
  case (Some current)
  show ?thesis
  proof (cases "claim_approval (lifecycle_of current) (con_key a) (con_lease_owner a)
      (con_binding a) (con_lease_seconds a) None (con_fresh_token a) now")
    case (Inr transition)
    then have "status current = Approved_once"
      by (simp add: claim_approval_Inr_iff)
    then show ?thesis
      using Some Inr
      by (simp add: mem_consume_def Let_def finals_kept_put_fields [OF _ Some])
  qed (use Some in \<open>simp add: mem_consume_def on_expired_kept\<close>)
qed (simp add: mem_consume_def)

lemma mem_complete_kept: "finals_kept s (fst (mem_complete env s i a now))"
  by (auto simp: mem_complete_def Let_def complete_approval_Inr_iff
      intro!: finals_kept_put split: sum.split option.split)

lemma mem_recover_kept: "finals_kept s (fst (mem_recover env s i outcome r now))"
  by (auto simp: mem_recover_def Let_def recover_approval_Inr_iff
      intro!: finals_kept_put split: sum.split option.split)

lemma mem_record_result_kept: "finals_kept s (fst (mem_record_result env s i r))"
  by (auto simp: mem_record_result_def Let_def intro!: finals_kept_put split: option.split)

lemma mem_supersede_kept: "finals_kept s (fst (mem_supersede s i why now))"
  by (auto simp: mem_supersede_def Let_def supersede_approval_Inr_iff on_expired_kept
      intro!: finals_kept_put split: sum.split option.split)

lemma mem_recover_each_kept: "finals_kept s (fst (mem_recover_each env s is done now))"
proof (induction env s "is" "done" now rule: mem_recover_each.induct)
  case (2 env s i "is" recovered now)
  show ?case
  proof (cases "dget (mem_items s) i")
    case (Some item)
    let ?o = "if result_applied (execution_result item) then Applied else Unknown_outcome"
    obtain s' r where res: "mem_recover env s i ?o None now = (s', r)"
      by fastforce
    with mem_recover_kept [of s env i ?o None now] have "finals_kept s s'" by simp
    then show ?thesis
      using "2.IH" [OF Some] Some res
      by (auto intro: finals_kept_trans split: sum.split store_out.split)
  qed simp
qed simp

lemmas mem_kept =
  mem_create_kept mem_resolve_kept mem_consume_kept mem_complete_kept mem_recover_kept
  mem_record_result_kept mem_supersede_kept mem_recover_each_kept

lemma memory_step_kept: "finals_kept s (fst (memory_step env s op))"
  by (cases "(env, s, op)" rule: memory_step.cases) (auto simp: mem_kept mem_recover_stale_def)

lemma mem_complete_Inr:
  "mem_complete env s i a now = (s', Inr out) \<Longrightarrow>
     mem_status s i = Some Consuming
     \<and> mem_status s' i = Some (if com_succeeded a then Consumed else Execution_failed)"
  by (auto simp: mem_complete_def Let_def complete_approval_Inr_iff mem_status_lookup
      split: sum.splits option.splits)

lemma mem_consume_Inr:
  "mem_consume s i a now = (s', Inr out) \<Longrightarrow>
     mem_status s i = Some Approved_once \<and> mem_status s' i = Some Consuming"
  by (auto simp: mem_consume_def Let_def claim_approval_Inr_iff mem_status_lookup on_expired_def
      split: sum.splits option.splits if_splits approval_error.splits)

lemma final_completion: "final_status (if ok then Consumed else Execution_failed)"
  by (simp add: final_status_def)

interpretation memory: approval_store "memory_step env" mem_status for env
proof
  fix s i op
  assume "is_final (mem_status s i)"
  then show "is_final (mem_status (fst (memory_step env s op)) i)"
    using memory_step_kept [of s env op] by (simp add: finals_kept_def)
next
  fix s i c t1 t2 s' out
  assume "memory_step env s (Complete i c, t1, t2) = (s', Inr out)"
  then show "mem_status s i = Some Consuming \<and> is_final (mem_status s' i)"
    using mem_complete_Inr final_completion by auto
next
  fix s i k t1 t2 s' out
  assume "memory_step env s (Consume i k, t1, t2) = (s', Inr out)"
  then show "mem_status s i = Some Approved_once \<and> mem_status s' i = Some Consuming"
    using mem_consume_Inr by auto
qed

end
