(* ===== verification/Persistent_Store.thy ===== *)
theory Persistent_Store
  imports Approval_Contract
begin

text \<open>
  \<open>PersistentApprovalStore\<close> of \<^verbatim>\<open>mochi/runtime/approval_lifecycle.py\<close>: the three SQLite tables as
  dictionaries keyed by their primary key, \<open>_from_row\<close>, and every operation of the \<open>ApprovalStore\<close>
  protocol with the \<open>WHERE\<close> clause of each \<open>UPDATE\<close>, the unique index on execution keys and the
  unique constraint of the side-effect table.

  A method runs in one \<open>BEGIN IMMEDIATE\<close> transaction, so it is one step; a raised exception rolls
  it back, except where the code commits first. Where a method reads the clock for the Python
  transition and again for the SQL statement, the two readings are two arguments. JSON columns
  hold JSON values. \<open>Persistent_Lifecycle\<close> proves what the operations keep.
\<close>

section \<open>Tables\<close>

record approval_row = approval_request +
  row_updated_at :: instant

datatype continuation_status =
  Cont_pending | Cont_reconciling | Cont_continued | Cont_unknown

record continuation_row =
  cont_status :: continuation_status
  cont_schema_version :: int
  cont_lease_owner :: "string option"
  cont_lease_token :: "string option"
  cont_lease_expires_at :: "instant option"
  cont_reason :: "string option"
  cont_created_at :: instant
  cont_updated_at :: instant

record approval_db =
  db_requests :: "(string, approval_row) dict"
  db_effects :: "(string, side_effect) dict"
  db_continuations :: "(string, continuation_row) dict"

definition empty_db :: approval_db where
  "empty_db = \<lparr>db_requests = [], db_effects = [], db_continuations = []\<rparr>"

definition optional_string :: "string option \<Rightarrow> string option" where
  "optional_string value = (case value of Some s \<Rightarrow> if s = [] then None else Some s | None \<Rightarrow> None)"

definition optional_json_object :: "jdict option \<Rightarrow> jdict option" where
  "optional_json_object value = (case value of Some d \<Rightarrow> if d = [] then None else Some d | None \<Rightarrow> None)"

definition str_or :: "string \<Rightarrow> string \<Rightarrow> string" where
  "str_or s d = (if s = [] then d else s)"

definition from_row :: "approval_row \<Rightarrow> approval_request" where
  "from_row r =
     \<lparr>approval_id = approval_id r,
      status = status r,
      requester_id = str_or (requester_id r) ''legacy'',
      request_digest = request_digest r,
      context_digest = context_digest r,
      expires_at = expires_at r,
      resolution_kind = resolution_kind r,
      resolved_at = resolved_at r,
      execution_idempotency_key = optional_string (execution_idempotency_key r),
      consume_lease_owner = optional_string (consume_lease_owner r),
      consume_lease_token = optional_string (consume_lease_token r),
      consume_lease_expires_at = consume_lease_expires_at r,
      consumed_at = consumed_at r,
      reason = optional_string (reason r),
      command = command r,
      shell = str_or (shell r) ''auto'',
      scope = str_or (scope r) ''dangerous_command'',
      created_at = created_at r,
      metadata = metadata r,
      command_payload = optional_json_object (command_payload r),
      execution_result = optional_json_object (execution_result r),
      approval_revision = (case approval_revision r of
          Some n \<Rightarrow> if n > 0 then Some n else None
        | None \<Rightarrow> None)\<rparr>"

definition to_row :: "approval_request \<Rightarrow> instant \<Rightarrow> approval_row" where
  "to_row r updated_at = approval_request.extend r \<lparr>row_updated_at = updated_at\<rparr>"

text \<open>Every update of a request sets \<open>approval_revision=COALESCE(approval_revision,0)+1\<close>.\<close>

definition sql_bump :: "approval_row \<Rightarrow> approval_row" where
  "sql_bump r = r\<lparr>approval_revision :=
     Some ((case approval_revision r of None \<Rightarrow> 0 | Some n \<Rightarrow> n) + 1)\<rparr>"

text \<open>An \<open>UPDATE ... WHERE approval_id=? AND p\<close>: \<open>None\<close> when its row count is not 1.\<close>

definition update_request ::
  "approval_db \<Rightarrow> string \<Rightarrow> (approval_row \<Rightarrow> bool) \<Rightarrow> (approval_row \<Rightarrow> approval_row) \<Rightarrow> approval_db option"
  where
  "update_request db i p f =
     (case dget (db_requests db) i of
        None \<Rightarrow> None
      | Some r \<Rightarrow>
          if p r then Some (db\<lparr>db_requests := dput (db_requests db) i (sql_bump (f r))\<rparr>) else None)"

definition update_if_matching ::
  "approval_db \<Rightarrow> string \<Rightarrow> (approval_row \<Rightarrow> bool) \<Rightarrow> (approval_row \<Rightarrow> approval_row) \<Rightarrow> approval_db"
  where
  "update_if_matching db i p f = (case update_request db i p f of None \<Rightarrow> db | Some db' \<Rightarrow> db')"

definition db_get :: "approval_db \<Rightarrow> string \<Rightarrow> approval_request option" where
  "db_get db i = map_option from_row (dget (db_requests db) i)"

definition db_status :: "approval_db \<Rightarrow> string \<Rightarrow> approval_status option" where
  "db_status db i = map_option status (dget (db_requests db) i)"

text \<open>\<open>_required\<close>: read the request back after a committed transition.\<close>

definition required :: "approval_db \<Rightarrow> string \<Rightarrow> approval_db store_result" where
  "required db i =
     (db, case db_get db i of
            None \<Rightarrow> Inl (ApprovalConflict ''Approval disappeared after a committed transition.'')
          | Some r \<Rightarrow> Inr (Item r))"

text \<open>The guarded write that marks an approval expired and commits before the error is raised.\<close>

definition expire_guarded ::
  "approval_db \<Rightarrow> string \<Rightarrow> approval_status list \<Rightarrow> instant \<Rightarrow> approval_error
    \<Rightarrow> approval_db store_result" where
  "expire_guarded db i statuses now e =
     (case e of
        ApprovalExpired _ \<Rightarrow>
          (update_if_matching db i (\<lambda>r. status r \<in> set statuses)
             (\<lambda>r. r\<lparr>status := Expired, row_updated_at := now\<rparr>), Inl e)
      | _ \<Rightarrow> (db, Inl e))"

section \<open>Operations\<close>

definition db_create ::
  "store_env \<Rightarrow> approval_db \<Rightarrow> create_args \<Rightarrow> instant \<Rightarrow> approval_db store_result" where
  "db_create env db a now =
     (case new_request env a now of
        Inl e \<Rightarrow> (db, Inl e)
      | Inr item \<Rightarrow>
          (if dget (db_requests db) (new_id a) \<noteq> None
           then (db, Inl (ApprovalConflict (''Approval '' @ new_id a @ '' already exists.'')))
           else (db\<lparr>db_requests := dput (db_requests db) (new_id a) (to_row item (created_at item))\<rparr>,
                 Inr (Item item))))"

text \<open>\<open>ORDER BY datetime(created_at) DESC, approval_id DESC\<close>: \<open>datetime\<close> drops the fraction.\<close>

definition db_list :: "approval_db \<Rightarrow> approval_status option \<Rightarrow> approval_request list" where
  "db_list db st =
     map from_row (rev (sort_key (\<lambda>r. (created_at r div 1000000, approval_id r))
       (filter (\<lambda>r. case st of None \<Rightarrow> True | Some x \<Rightarrow> status r = x) (map snd (db_requests db)))))"

definition insert_effect ::
  "approval_db \<Rightarrow> side_effect option \<Rightarrow> approval_error + approval_db" where
  "insert_effect db effect =
     (case effect of
        None \<Rightarrow> Inr db
      | Some e \<Rightarrow>
          (if dget (db_effects db) (side_effect_id e) \<noteq> None
              \<or> list_ex (\<lambda>(_, x). effect_approval_id x = effect_approval_id e
                  \<and> effect_kind x = effect_kind e \<and> payload_digest x = payload_digest e)
                 (db_effects db)
           then Inl (SqliteIntegrityError ''UNIQUE constraint failed'')
           else Inr (db\<lparr>db_effects := dput (db_effects db) (side_effect_id e) e\<rparr>)))"

definition db_resolve ::
  "store_env \<Rightarrow> approval_db \<Rightarrow> string \<Rightarrow> resolve_args \<Rightarrow> instant \<Rightarrow> instant
    \<Rightarrow> approval_db store_result" where
  "db_resolve env db i a now now2 =
     (case rule_effect_for env i a now of
        Inl e \<Rightarrow> (db, Inl e)
      | Inr effect \<Rightarrow>
     (case db_get db i of
        None \<Rightarrow> (db, Inr No_item)
      | Some current \<Rightarrow>
     (case resolve_approval (lifecycle_of current) (res_decision a) (res_binding a) now of
        Inl e \<Rightarrow> expire_guarded db i [Pending, Approved_once] now2 e
      | Inr transition \<Rightarrow>
     (case update_request db i (\<lambda>r. status r = Pending \<and> expires_at r > now)
             (\<lambda>r. r\<lparr>status := status transition,
                    reason := (if res_reason a \<noteq> None then res_reason a else reason current),
                    metadata := (case res_metadata a of
                        None \<Rightarrow> metadata current
                      | Some m \<Rightarrow> dmerge (metadata current) m),
                    execution_result := map_option (audit_details (env_secrets env))
                        (res_execution_result a),
                    resolved_at := Some now,
                    resolution_kind := resolution_kind transition,
                    row_updated_at := now\<rparr>) of
        None \<Rightarrow> (db, Inl (ApprovalConflict ''Approval resolve lost its compare-and-swap race.''))
      | Some db1 \<Rightarrow>
     (case insert_effect db1 effect of
        Inl e \<Rightarrow> (db, Inl e)
      | Inr db2 \<Rightarrow> required db2 i)))))"

definition key_used_elsewhere :: "approval_db \<Rightarrow> string \<Rightarrow> string \<Rightarrow> bool" where
  "key_used_elsewhere db i key \<longleftrightarrow>
     (\<exists>p \<in> set (db_requests db). fst p \<noteq> i \<and> execution_idempotency_key (snd p) = Some key)"

definition db_consume ::
  "approval_db \<Rightarrow> string \<Rightarrow> consume_args \<Rightarrow> instant \<Rightarrow> instant \<Rightarrow> approval_db store_result" where
  "db_consume db i a now now2 =
     (case db_get db i of
        None \<Rightarrow> (db, Inl (ApprovalConflict (''Approval '' @ i @ '' does not exist.'')))
      | Some current \<Rightarrow>
     (case claim_approval (lifecycle_of current) (con_key a) (con_lease_owner a) (con_binding a)
             (con_lease_seconds a) None (con_fresh_token a) now of
        Inl e \<Rightarrow> expire_guarded db i [Approved_once] now2 e
      | Inr transition \<Rightarrow>
     (case update_request db i (\<lambda>r. status r = Approved_once \<and> expires_at r > now2)
             (\<lambda>r. r\<lparr>status := Consuming,
                    execution_idempotency_key := execution_idempotency_key transition,
                    consume_lease_owner := consume_lease_owner transition,
                    consume_lease_token := consume_lease_token transition,
                    consume_lease_expires_at := consume_lease_expires_at transition,
                    row_updated_at := now2\<rparr>) of
        None \<Rightarrow> (db, Inl (ApprovalConflict ''Approval consume lost its compare-and-swap race.''))
      | Some db1 \<Rightarrow>
          (if key_used_elsewhere db i (con_key a)
           then (db, Inl (ApprovalConflict ''Execution idempotency key is already in use.''))
           else required db1 i))))"

definition db_complete ::
  "store_env \<Rightarrow> approval_db \<Rightarrow> string \<Rightarrow> complete_args \<Rightarrow> instant \<Rightarrow> approval_db store_result" where
  "db_complete env db i a now =
     (case db_get db i of
        None \<Rightarrow> (db, Inl (ApprovalConflict ''Approval consumption is not owned by this lease.''))
      | Some current \<Rightarrow>
     (case complete_approval (lifecycle_of current) (com_key a) (com_lease_owner a)
             (com_lease_token a) (com_succeeded a) now of
        Inl e \<Rightarrow> (db, Inl e)
      | Inr transition \<Rightarrow>
     (case update_request db i
             (\<lambda>r. status r = Consuming \<and> execution_idempotency_key r = Some (com_key a)
                \<and> consume_lease_owner r = Some (com_lease_owner a)
                \<and> consume_lease_token r = Some (com_lease_token a))
             (\<lambda>r. r\<lparr>status := status transition,
                    execution_result := Some (audit_details (env_secrets env) (com_execution_result a)),
                    consume_lease_owner := None,
                    consume_lease_token := None,
                    consume_lease_expires_at := None,
                    consumed_at := consumed_at transition,
                    row_updated_at := now\<rparr>) of
        None \<Rightarrow> (db, Inl (ApprovalConflict ''Approval consumption is not owned by this lease.''))
      | Some db1 \<Rightarrow> required db1 i)))"

text \<open>\<open>consume_lease_expires_at IS NULL OR consume_lease_expires_at<=?\<close>\<close>

definition lease_lapsed :: "'a lifecycle_state_scheme \<Rightarrow> instant \<Rightarrow> bool" where
  "lease_lapsed r now \<longleftrightarrow>
     (case consume_lease_expires_at r of None \<Rightarrow> True | Some t \<Rightarrow> t \<le> now)"

definition db_recover ::
  "store_env \<Rightarrow> approval_db \<Rightarrow> string \<Rightarrow> recovery_outcome \<Rightarrow> jdict option \<Rightarrow> instant \<Rightarrow> instant
    \<Rightarrow> approval_db store_result" where
  "db_recover env db i outcome result now now2 =
     (case db_get db i of
        None \<Rightarrow> (db, Inl (ApprovalConflict (''Approval '' @ i @ '' does not exist.'')))
      | Some current \<Rightarrow>
     (case recover_approval (lifecycle_of current) outcome now of
        Inl e \<Rightarrow> (db, Inl e)
      | Inr transition \<Rightarrow>
     (case update_request db i (\<lambda>r. status r = Consuming \<and> lease_lapsed r now2)
             (\<lambda>r. r\<lparr>status := status transition,
                    execution_result := (case result of
                        Some d \<Rightarrow> Some (audit_details (env_secrets env) d)
                      | None \<Rightarrow> execution_result current),
                    consume_lease_owner := None,
                    consume_lease_token := None,
                    consume_lease_expires_at := None,
                    consumed_at := consumed_at transition,
                    row_updated_at := now2\<rparr>) of
        None \<Rightarrow> (db, Inl (ApprovalConflict ''Approval recovery lost its compare-and-swap race.''))
      | Some db1 \<Rightarrow> required db1 i)))"

definition db_record_result ::
  "store_env \<Rightarrow> approval_db \<Rightarrow> string \<Rightarrow> jdict \<Rightarrow> instant \<Rightarrow> approval_db store_result" where
  "db_record_result env db i result now =
     (case update_request db i
             (\<lambda>r. status r \<in> set [Consuming, Consumed, Execution_failed])
             (\<lambda>r. r\<lparr>execution_result := Some (audit_details (env_secrets env) result),
                    row_updated_at := now\<rparr>) of
        None \<Rightarrow> (db, Inr No_item)
      | Some db1 \<Rightarrow> (db1, case db_get db1 i of None \<Rightarrow> Inr No_item | Some r \<Rightarrow> Inr (Item r)))"

definition db_supersede ::
  "approval_db \<Rightarrow> string \<Rightarrow> string option \<Rightarrow> instant \<Rightarrow> instant \<Rightarrow> approval_db store_result" where
  "db_supersede db i why now now2 =
     (case db_get db i of
        None \<Rightarrow> (db, Inl (ApprovalConflict ''Only pending approvals can be superseded.''))
      | Some current \<Rightarrow>
     (case supersede_approval (lifecycle_of current) now of
        Inl e \<Rightarrow> expire_guarded db i [Pending] now2 e
      | Inr transition \<Rightarrow>
     (case update_request db i (\<lambda>r. status r = Pending \<and> expires_at r > now)
             (\<lambda>r. r\<lparr>status := status transition,
                    reason := why,
                    resolved_at := resolved_at transition,
                    row_updated_at := now\<rparr>) of
        None \<Rightarrow> (db, Inl (ApprovalConflict ''Approval supersede lost its compare-and-swap race.''))
      | Some db1 \<Rightarrow> required db1 i)))"

text \<open>
  Stale recovery: the ids are selected in one transaction, then each is recovered in its own, which
  reads the row again and skips it when it is no longer stale.
\<close>

definition has_ordinary_chat_checkpoint :: "jdict option \<Rightarrow> bool" where
  "has_ordinary_chat_checkpoint payload =
     (case payload of
        None \<Rightarrow> False
      | Some p \<Rightarrow> (case jget p ''ordinary_chat_checkpoint'' of
                     JObj c \<Rightarrow> jget c ''source'' = JStr ''ordinary_chat''
                   | _ \<Rightarrow> False))"

definition is_mapping :: "json \<Rightarrow> bool" where
  "is_mapping v = (case v of JObj _ \<Rightarrow> True | _ \<Rightarrow> False)"

definition stale_status :: "approval_request \<Rightarrow> jdict \<Rightarrow> instant \<Rightarrow> approval_status" where
  "stale_status current result now =
     (if is_expired (expires_at current) now then Expired
      else if result_applied (Some result) then Consumed else Execution_failed)"

definition stale_result :: "approval_request \<Rightarrow> jdict \<Rightarrow> approval_status \<Rightarrow> jdict" where
  "stale_result current result st =
     (if st = Consumed \<and> has_ordinary_chat_checkpoint (command_payload current)
      then
        if jget result ''continuation_started'' = JBool True
           \<and> \<not> is_mapping (jget result ''react_continuation'')
        then AList.delete ''recovery_required''
               (dput result ''continuation_outcome'' (JStr ''unknown''))
        else if \<not> is_mapping (jget result ''react_continuation'')
        then dput result ''recovery_required'' (JStr ''ordinary_chat_continuation'')
        else result
      else result)"

definition recover_stale_row ::
  "store_env \<Rightarrow> approval_db \<Rightarrow> string \<Rightarrow> instant \<Rightarrow> approval_db option" where
  "recover_stale_row env db i now =
     (case db_get db i of
        None \<Rightarrow> None
      | Some current \<Rightarrow>
          (if \<not> stale_consuming current now then None
           else
             let recorded = (case execution_result current of None \<Rightarrow> [] | Some d \<Rightarrow> d);
                 st = stale_status current recorded now;
                 result = stale_result current recorded st
             in update_request db i (\<lambda>r. status r = Consuming \<and> lease_lapsed r now)
                  (\<lambda>r. r\<lparr>status := st,
                         execution_result := (if result = [] then None
                            else Some (audit_details (env_secrets env) result)),
                         consume_lease_owner := None,
                         consume_lease_token := None,
                         consume_lease_expires_at := None,
                         consumed_at := Some now,
                         row_updated_at := now\<rparr>)))"

fun db_recover_each ::
  "store_env \<Rightarrow> approval_db \<Rightarrow> string list \<Rightarrow> approval_request list \<Rightarrow> instant
    \<Rightarrow> approval_db store_result" where
  "db_recover_each env db [] recovered now = (db, Inr (Items (rev recovered)))"
| "db_recover_each env db (i # is) recovered now =
     (case recover_stale_row env db i now of
        None \<Rightarrow> db_recover_each env db is recovered now
      | Some db1 \<Rightarrow>
          (case required db1 i of
             (_, Inr (Item r)) \<Rightarrow> db_recover_each env db1 is (r # recovered) now
           | (_, Inr out) \<Rightarrow> (db1, Inr out)
           | (_, Inl e) \<Rightarrow> (db1, Inl e)))"

definition stale_ids :: "approval_db \<Rightarrow> instant \<Rightarrow> string list" where
  "stale_ids db now =
     map fst (filter (\<lambda>p. status (snd p) = Consuming \<and> lease_lapsed (snd p) now) (db_requests db))"

definition db_recover_stale ::
  "store_env \<Rightarrow> approval_db \<Rightarrow> instant \<Rightarrow> instant \<Rightarrow> approval_db store_result" where
  "db_recover_stale env db now now2 = db_recover_each env db (stale_ids db now) [] now2"

definition db_list_side_effects :: "approval_db \<Rightarrow> string \<Rightarrow> side_effect list" where
  "db_list_side_effects db i =
     sort_key effect_created_at (filter (\<lambda>e. effect_approval_id e = i) (map snd (db_effects db)))"

fun db_step :: "store_env \<Rightarrow> approval_db \<Rightarrow> timed_op \<Rightarrow> approval_db store_result" where
  "db_step env db (Create a, now, _) = db_create env db a now"
| "db_step env db (Resolve i a, now, now2) = db_resolve env db i a now now2"
| "db_step env db (Consume i a, now, now2) = db_consume db i a now now2"
| "db_step env db (Complete i a, now, _) = db_complete env db i a now"
| "db_step env db (Recover i outcome r, now, now2) = db_recover env db i outcome r now now2"
| "db_step env db (Record_result i r, now, _) = db_record_result env db i r now"
| "db_step env db (Supersede i why, now, now2) = db_supersede db i why now now2"
| "db_step env db (Recover_stale, now, now2) = db_recover_stale env db now now2"

end
