(* ===== verification/Persistent_Lifecycle.thy ===== *)
theory Persistent_Lifecycle
  imports Persistent_Store
begin

text \<open>
  What the SQLite store keeps. \<open>row_step\<close> lists the ways a stored approval may change, as the
  \<open>UPDATE\<close> statements write it; every operation either leaves a row alone or takes it one
  \<open>row_step\<close> further (\<open>db_evolves\<close>). The row invariant, the revision as a version number, the
  lifecycle graph and the uniqueness of execution keys follow by rule induction.
\<close>

section \<open>The evolution of a row\<close>

inductive row_step :: "approval_row \<Rightarrow> approval_row \<Rightarrow> bool" where
  resolved:
    "status r = Pending \<Longrightarrow> now < expires_at r \<Longrightarrow>
       row_step r (sql_bump (r\<lparr>status := (if d = Reject then Rejected else Approved_once),
         reason := why, metadata := m, execution_result := e, resolved_at := Some now,
         resolution_kind := Some d, row_updated_at := t\<rparr>))"
| superseded:
    "status r = Pending \<Longrightarrow>
       row_step r (sql_bump (r\<lparr>status := Superseded, reason := why, resolved_at := Some now,
         row_updated_at := t\<rparr>))"
| expired:
    "status r = Pending \<or> status r = Approved_once \<Longrightarrow>
       row_step r (sql_bump (r\<lparr>status := Expired, row_updated_at := t\<rparr>))"
| claimed:
    "status r = Approved_once \<Longrightarrow> t < expires_at r \<Longrightarrow>
       optional_string (execution_idempotency_key r) \<in> {None, Some key} \<Longrightarrow>
       row_step r (sql_bump (r\<lparr>status := Consuming, execution_idempotency_key := Some key,
         consume_lease_owner := Some owner, consume_lease_token := Some token,
         consume_lease_expires_at := Some lease, row_updated_at := t\<rparr>))"
| completed:
    "status r = Consuming \<Longrightarrow> execution_idempotency_key r = Some key \<Longrightarrow>
       consume_lease_owner r = Some owner \<Longrightarrow> consume_lease_token r = Some token \<Longrightarrow>
       st \<in> {Consumed, Execution_failed} \<Longrightarrow>
       row_step r (sql_bump (r\<lparr>status := st,
         execution_result := Some e, consume_lease_owner := None, consume_lease_token := None,
         consume_lease_expires_at := None, consumed_at := Some now, row_updated_at := t\<rparr>))"
| recovered:
    "status r = Consuming \<Longrightarrow> lease_lapsed r t \<Longrightarrow>
       st \<in> {Approved_once, Consumed, Execution_failed, Expired} \<Longrightarrow>
       (st \<in> {Consumed, Execution_failed} \<Longrightarrow> done_at \<noteq> None) \<Longrightarrow>
       row_step r (sql_bump (r\<lparr>status := st, execution_result := e,
         consume_lease_owner := None, consume_lease_token := None,
         consume_lease_expires_at := None, consumed_at := done_at, row_updated_at := t\<rparr>))"
| recorded:
    "status r \<in> {Consuming, Consumed, Execution_failed} \<Longrightarrow>
       row_step r (sql_bump (r\<lparr>execution_result := e, row_updated_at := t\<rparr>))"

definition row_evolves :: "approval_row \<Rightarrow> approval_row \<Rightarrow> bool" where
  "row_evolves r r' \<longleftrightarrow> r' = r \<or> row_step r r'"

definition created_row :: "approval_row \<Rightarrow> bool" where
  "created_row r \<longleftrightarrow>
     status r = Pending \<and> resolution_kind r = None \<and> resolved_at r = None
     \<and> execution_idempotency_key r = None \<and> consume_lease_owner r = None
     \<and> consume_lease_token r = None \<and> consume_lease_expires_at r = None
     \<and> consumed_at r = None \<and> approval_revision r = Some 1"

fun slot_evolves :: "approval_row option \<Rightarrow> approval_row option \<Rightarrow> bool" where
  "slot_evolves None None = True"
| "slot_evolves None (Some r') = created_row r'"
| "slot_evolves (Some r) (Some r') = row_evolves r r'"
| "slot_evolves (Some r) None = False"

definition db_evolves :: "approval_db \<Rightarrow> approval_db \<Rightarrow> bool" where
  "db_evolves db db' \<longleftrightarrow> (\<forall>i. slot_evolves (dget (db_requests db) i) (dget (db_requests db') i))"

lemma row_evolves_refl [simp, intro]: "row_evolves r r"
  by (simp add: row_evolves_def)

lemma slot_evolves_refl [simp, intro]: "slot_evolves x x"
  by (cases x) auto

lemma db_evolves_refl [simp, intro]: "db_evolves db db"
  by (simp add: db_evolves_def)

lemma slot_evolves_Some:
  "slot_evolves (Some r) y \<longleftrightarrow> (\<exists>r'. y = Some r' \<and> row_evolves r r')"
  by (cases y) auto

lemma db_evolvesD:
  "db_evolves db db' \<Longrightarrow> dget (db_requests db) i = Some r \<Longrightarrow>
     \<exists>r'. dget (db_requests db') i = Some r' \<and> row_evolves r r'"
  unfolding db_evolves_def by (metis slot_evolves_Some)

lemma db_evolves_back:
  "db_evolves db db' \<Longrightarrow> dget (db_requests db') i = Some r' \<Longrightarrow>
     created_row r' \<or> (\<exists>r. dget (db_requests db) i = Some r \<and> row_evolves r r')"
  unfolding db_evolves_def by (metis slot_evolves.simps(2,3) option.exhaust)

lemma update_request_Some_iff:
  "update_request db i p f = Some db' \<longleftrightarrow>
     (\<exists>r. dget (db_requests db) i = Some r \<and> p r
        \<and> db' = db\<lparr>db_requests := dput (db_requests db) i (sql_bump (f r))\<rparr>)"
  by (auto simp: update_request_def split: option.split)

lemma update_request_evolves:
  "update_request db i p f = Some db' \<Longrightarrow>
     (\<And>r. dget (db_requests db) i = Some r \<Longrightarrow> p r \<Longrightarrow> row_step r (sql_bump (f r))) \<Longrightarrow>
     db_evolves db db'"
  by (auto simp: update_request_Some_iff db_evolves_def row_evolves_def dget_dput)

text \<open>A transaction that updates one row and goes on when the update matched.\<close>

lemma update_case_evolves:
  assumes "\<And>r. dget (db_requests db) i = Some r \<Longrightarrow> p r \<Longrightarrow> row_step r (sql_bump (f r))"
    and "\<And>db1. db_evolves db db1 \<Longrightarrow> db_evolves db (fst (g db1))"
  shows "db_evolves db (fst (case update_request db i p f of None \<Rightarrow> (db, x) | Some db1 \<Rightarrow> g db1))"
  using assms update_request_evolves [of db i p f] by (auto split: option.split)

lemma update_if_matching_evolves:
  "(\<And>r. p r \<Longrightarrow> row_step r (sql_bump (f r))) \<Longrightarrow> db_evolves db (update_if_matching db i p f)"
  by (auto simp: update_if_matching_def intro: update_request_evolves split: option.split)

lemma expire_guarded_evolves:
  "set sts \<subseteq> {Pending, Approved_once} \<Longrightarrow> db_evolves db (fst (expire_guarded db i sts now e))"
  by (auto simp: expire_guarded_def intro!: update_if_matching_evolves row_step.expired
      split: approval_error.split)

lemma required_fst [simp]: "fst (required db i) = db"
  by (simp add: required_def)

lemma from_row_fields [simp]:
  "status (from_row r) = status r"
  "approval_id (from_row r) = approval_id r"
  "expires_at (from_row r) = expires_at r"
  "execution_idempotency_key (from_row r) = optional_string (execution_idempotency_key r)"
  "consume_lease_expires_at (from_row r) = consume_lease_expires_at r"
  by (simp_all add: from_row_def)

lemma db_get_Some_iff:
  "db_get db i = Some c \<longleftrightarrow> (\<exists>r. dget (db_requests db) i = Some r \<and> c = from_row r)"
  by (auto simp: db_get_def)

lemma to_row_fields [simp]:
  "status (to_row r t) = status r"
  "resolution_kind (to_row r t) = resolution_kind r"
  "resolved_at (to_row r t) = resolved_at r"
  "execution_idempotency_key (to_row r t) = execution_idempotency_key r"
  "consume_lease_owner (to_row r t) = consume_lease_owner r"
  "consume_lease_token (to_row r t) = consume_lease_token r"
  "consume_lease_expires_at (to_row r t) = consume_lease_expires_at r"
  "consumed_at (to_row r t) = consumed_at r"
  "approval_revision (to_row r t) = approval_revision r"
  by (simp_all add: to_row_def approval_request.defs)

lemma new_request_created: "new_request env a now = Inr r \<Longrightarrow> created_row (to_row r t)"
  by (auto simp: new_request_def Let_def result_simps created_row_def)

lemma db_create_evolves: "db_evolves db (fst (db_create env db a now))"
  by (auto simp: db_create_def db_evolves_def dget_dput new_request_created split: sum.split)

lemma insert_effect_requests:
  "insert_effect db e = Inr db' \<Longrightarrow> db_requests db' = db_requests db"
  by (auto simp: insert_effect_def split: option.splits if_splits)

lemma insert_effect_evolves:
  "insert_effect db1 e = Inr db2 \<Longrightarrow> db_evolves db db1 \<Longrightarrow> db_evolves db db2"
  by (simp add: db_evolves_def insert_effect_requests)

lemma db_resolve_evolves: "db_evolves db (fst (db_resolve env db i a now now2))"
proof (cases "rule_effect_for env i a now")
  case eff: (Inr effect)
  show ?thesis
  proof (cases "db_get db i")
    case cur: (Some current)
    show ?thesis
    proof (cases "resolve_approval (lifecycle_of current) (res_decision a) (res_binding a) now")
      case (Inl e)
      then show ?thesis by (simp add: db_resolve_def eff cur expire_guarded_evolves)
    next
      case tr: (Inr transition)
      then obtain d where d: "status transition = (if d = Reject then Rejected else Approved_once)"
        "resolution_kind transition = Some d"
        by (auto simp: resolve_approval_Inr_iff)
      have insert: "db_evolves db (fst (case insert_effect db1 effect of
          Inl e \<Rightarrow> (db, Inl e) | Inr db2 \<Rightarrow> required db2 i))" if "db_evolves db db1" for db1
        using insert_effect_evolves [OF _ that] by (simp split: sum.split)
      show ?thesis
        unfolding db_resolve_def eff cur tr sum.case option.case d
        by (intro update_case_evolves insert row_step.resolved) auto
    qed
  qed (simp add: db_resolve_def eff)
qed (simp add: db_resolve_def)

lemma db_consume_evolves: "db_evolves db (fst (db_consume db i a now now2))"
proof (cases "db_get db i")
  case cur: (Some current)
  then obtain r where r: "dget (db_requests db) i = Some r" "current = from_row r"
    by (auto simp: db_get_Some_iff)
  show ?thesis
  proof (cases "claim_approval (lifecycle_of current) (con_key a) (con_lease_owner a)
      (con_binding a) (con_lease_seconds a) None (con_fresh_token a) now")
    case (Inl e)
    then show ?thesis by (simp add: db_consume_def cur expire_guarded_evolves)
  next
    case tr: (Inr transition)
    then have key: "optional_string (execution_idempotency_key r) \<in> {None, Some (con_key a)}"
      by (auto simp: claim_approval_Inr_iff r)
    have fields: "execution_idempotency_key transition = Some (con_key a)"
      "consume_lease_owner transition = Some (con_lease_owner a)"
      "consume_lease_token transition = Some (choose_token None (con_fresh_token a))"
      "consume_lease_expires_at transition = Some (future_iso (con_lease_seconds a) now)"
      using tr by (simp_all add: claim_approval_Inr_iff)
    have step: "row_step x (sql_bump (x\<lparr>status := Consuming,
        execution_idempotency_key := Some (con_key a),
        consume_lease_owner := Some (con_lease_owner a),
        consume_lease_token := Some (choose_token None (con_fresh_token a)),
        consume_lease_expires_at := Some (future_iso (con_lease_seconds a) now),
        row_updated_at := now2\<rparr>))"
      if "dget (db_requests db) i = Some x" "status x = Approved_once \<and> expires_at x > now2" for x
      using that key r by (intro row_step.claimed) auto
    show ?thesis
      unfolding db_consume_def cur tr sum.case option.case fields
      by (rule update_case_evolves) (use step in auto)
  qed
qed (simp add: db_consume_def)

lemma db_complete_evolves: "db_evolves db (fst (db_complete env db i a now))"
  by (auto simp: db_complete_def complete_approval_Inr_iff
      intro!: update_request_evolves row_step.completed split: sum.split option.split)

lemma recovered_status_cases:
  "recovered_status s outcome now \<in> {Approved_once, Consumed, Execution_failed, Expired}"
  by (simp add: recovered_status_def split: recovery_outcome.split)

lemma db_recover_evolves: "db_evolves db (fst (db_recover env db i outcome result now now2))"
proof (cases "db_get db i")
  case cur: (Some current)
  show ?thesis
  proof (cases "recover_approval (lifecycle_of current) outcome now")
    case tr: (Inr transition)
    then have "status transition \<in> {Approved_once, Consumed, Execution_failed, Expired}"
      and "status transition \<in> {Consumed, Execution_failed} \<Longrightarrow> consumed_at transition \<noteq> None"
      using recovered_status_cases [of current outcome now]
      by (auto simp: recover_approval_Inr_iff terminal_execution_statuses_def)
    then show ?thesis
      by (auto simp: db_recover_def cur tr
          intro!: update_request_evolves row_step.recovered split: option.split)
  qed (simp add: db_recover_def cur)
qed (simp add: db_recover_def)

lemma db_record_result_evolves: "db_evolves db (fst (db_record_result env db i r now))"
  by (auto simp: db_record_result_def intro!: update_request_evolves row_step.recorded
      split: option.split)

lemma db_supersede_evolves: "db_evolves db (fst (db_supersede db i why now now2))"
  by (auto simp: db_supersede_def supersede_approval_Inr_iff expire_guarded_evolves
      intro!: update_request_evolves row_step.superseded split: sum.split option.split)

text \<open>
  In a stale recovery a row changes at most once: a recovered row is not \<open>consuming\<close> any more, so a
  later transaction of the same sweep skips it.
\<close>

definition sweeps :: "approval_db \<Rightarrow> approval_db \<Rightarrow> bool" where
  "sweeps db db' \<longleftrightarrow>
     (\<forall>i. dget (db_requests db') i = dget (db_requests db) i
        \<or> (\<exists>r r'. dget (db_requests db) i = Some r \<and> dget (db_requests db') i = Some r'
               \<and> row_step r r' \<and> status r = Consuming \<and> status r' \<noteq> Consuming))"

lemma sweeps_refl: "sweeps db db"
  by (simp add: sweeps_def)

lemma sweeps_trans: "sweeps a b \<Longrightarrow> sweeps b c \<Longrightarrow> sweeps a c"
  unfolding sweeps_def by (metis option.inject)

lemma sweeps_evolves: "sweeps db db' \<Longrightarrow> db_evolves db db'"
  unfolding sweeps_def db_evolves_def
  by (metis row_evolves_def slot_evolves.simps(3) slot_evolves_refl)

lemma sql_bump_status [simp]: "status (sql_bump r) = status r"
  by (simp add: sql_bump_def)

lemma stale_status_cases: "stale_status c d now \<in> {Consumed, Execution_failed, Expired}"
  by (simp add: stale_status_def)

lemma recover_stale_row_sweeps:
  assumes "recover_stale_row env db i now = Some db'"
  shows "sweeps db db'"
proof -
  obtain current where cur: "db_get db i = Some current" "stale_consuming current now"
    using assms by (auto simp: recover_stale_row_def split: option.splits if_splits)
  define d where "d = (case execution_result current of None \<Rightarrow> [] | Some d \<Rightarrow> d)"
  define st where "st = stale_status current d now"
  define out where "out = stale_result current d st"
  let ?f = "\<lambda>r. r\<lparr>status := st,
      execution_result := (if out = [] then None else Some (audit_details (env_secrets env) out)),
      consume_lease_owner := None, consume_lease_token := None,
      consume_lease_expires_at := None, consumed_at := Some now, row_updated_at := now\<rparr>"
  have "update_request db i (\<lambda>r. status r = Consuming \<and> lease_lapsed r now) ?f = Some db'"
    using assms cur unfolding recover_stale_row_def d_def st_def out_def by (simp add: Let_def)
  then obtain r where r: "dget (db_requests db) i = Some r" "status r = Consuming"
      "lease_lapsed r now"
      "db' = db\<lparr>db_requests := dput (db_requests db) i (sql_bump (?f r))\<rparr>"
    by (auto simp: update_request_Some_iff)
  have "st \<in> {Consumed, Execution_failed, Expired}"
    unfolding st_def by (rule stale_status_cases)
  moreover from this have "row_step r (sql_bump (?f r))"
    using r by (intro row_step.recovered) auto
  ultimately show ?thesis
    using r(1,2) unfolding r(4) by (auto simp: sweeps_def dget_dput)
qed

lemma db_recover_each_sweeps: "sweeps db (fst (db_recover_each env db ids recovered now))"
proof (induction env db ids recovered now rule: db_recover_each.induct)
  case (2 env db i "is" recovered now)
  show ?case
  proof (cases "recover_stale_row env db i now")
    case None
    then show ?thesis using "2.IH"(1) by simp
  next
    case (Some db1)
    note first = recover_stale_row_sweeps [OF Some]
    show ?thesis
      using "2.IH"(2) [OF Some] first Some
      by (auto simp: required_def intro: sweeps_trans split: option.split)
  qed
qed (simp add: sweeps_refl)

lemmas db_evolve =
  db_create_evolves db_resolve_evolves db_consume_evolves db_complete_evolves
  db_recover_evolves db_record_result_evolves db_supersede_evolves
  db_recover_each_sweeps [THEN sweeps_evolves]

lemma db_step_evolves: "db_evolves db (fst (db_step env db op))"
  by (cases "(env, db, op)" rule: db_step.cases) (auto simp: db_evolve db_recover_stale_def)

section \<open>The lifecycle graph\<close>

lemma row_step_status: "row_step r r' \<Longrightarrow> status r' = status r \<or> lifecycle_step (status r) (status r')"
  by (induction rule: row_step.induct) (auto simp: lifecycle_step_from)

lemma db_status_Some_iff:
  "db_status db i = Some a \<longleftrightarrow> (\<exists>r. dget (db_requests db) i = Some r \<and> status r = a)"
  by (auto simp: db_status_def)

lemma db_complete_Inr:
  assumes "db_complete env db i a now = (db', Inr out)"
  shows "db_status db i = Some Consuming \<and> is_final (db_status db' i)"
proof -
  obtain db1 f where "update_request db i (\<lambda>r. status r = Consuming
        \<and> execution_idempotency_key r = Some (com_key a)
        \<and> consume_lease_owner r = Some (com_lease_owner a)
        \<and> consume_lease_token r = Some (com_lease_token a)) f = Some db1"
    and "\<And>r. final_status (status (f r))" and "db' = db1"
    using assms
    by (fastforce simp: db_complete_def complete_approval_Inr_iff required_def final_status_def
        split: option.splits sum.splits)
  then show ?thesis
    by (auto simp: update_request_Some_iff db_status_def dget_dput)
qed

lemma db_consume_Inr:
  assumes "db_consume db i a now now2 = (db', Inr out)"
  shows "db_status db i = Some Approved_once \<and> db_status db' i = Some Consuming"
proof -
  obtain db1 f where "update_request db i (\<lambda>r. status r = Approved_once \<and> expires_at r > now2) f
        = Some db1"
    and "\<And>r. status (f r) = Consuming" and "db' = db1"
    using assms
    by (fastforce simp: db_consume_def claim_approval_Inr_iff required_def expire_guarded_def
        split: option.splits sum.splits if_splits approval_error.splits)
  then show ?thesis
    by (auto simp: update_request_Some_iff db_status_def dget_dput)
qed

interpretation persistent: graph_store "db_step env" db_status for env
proof
  fix db i a op
  assume "db_status db i = Some a"
  then obtain r r' where "dget (db_requests db) i = Some r" "status r = a"
    "dget (db_requests (fst (db_step env db op))) i = Some r'" "row_evolves r r'"
    using db_evolvesD [OF db_step_evolves] unfolding db_status_Some_iff by blast
  then show "\<exists>b. db_status (fst (db_step env db op)) i = Some b \<and> (b = a \<or> lifecycle_step a b)"
    using row_step_status [of r r'] by (auto simp: db_status_Some_iff row_evolves_def)
next
  fix db i c t1 t2 db' out
  assume "db_step env db (Complete i c, t1, t2) = (db', Inr out)"
  then show "db_status db i = Some Consuming \<and> is_final (db_status db' i)"
    using db_complete_Inr by simp
next
  fix db i c t1 t2 db' out
  assume "db_step env db (Consume i c, t1, t2) = (db', Inr out)"
  then show "db_status db i = Some Approved_once \<and> db_status db' i = Some Consuming"
    using db_consume_Inr by simp
qed

end
