(* ===== verification/Persistent_Invariants.thy ===== *)
theory Persistent_Invariants
  imports Persistent_Lifecycle
begin

text \<open>
  The invariants of the SQLite approval store, over any run of its operations: what a row in each
  status has gone through (\<open>row_ok\<close>), the revision as a version number of the row, and the
  uniqueness of execution keys that the partial index enforces.
\<close>

section \<open>What a status says about the past\<close>

text \<open>
  A row that was claimed has been approved before it expired; a lease is held exactly while the row
  is \<open>consuming\<close>; a finished row names its execution key and when it was consumed.
\<close>

definition before :: "instant option \<Rightarrow> instant \<Rightarrow> bool" where
  "before value limit = (case value of None \<Rightarrow> False | Some t \<Rightarrow> t < limit)"

definition positive_revision :: "int option \<Rightarrow> bool" where
  "positive_revision value = (case value of None \<Rightarrow> False | Some n \<Rightarrow> 1 \<le> n)"

definition approved_in_time :: "'a lifecycle_state_scheme \<Rightarrow> bool" where
  "approved_in_time r \<longleftrightarrow>
     resolution_kind r \<in> {Some Approve_once, Some Approve_and_save_rule}
     \<and> before (resolved_at r) (expires_at r)"

definition holds_lease :: "'a lifecycle_state_scheme \<Rightarrow> bool" where
  "holds_lease r \<longleftrightarrow>
     consume_lease_owner r \<noteq> None \<and> consume_lease_token r \<noteq> None
     \<and> consume_lease_expires_at r \<noteq> None"

definition no_lease :: "'a lifecycle_state_scheme \<Rightarrow> bool" where
  "no_lease r \<longleftrightarrow>
     consume_lease_owner r = None \<and> consume_lease_token r = None
     \<and> consume_lease_expires_at r = None"

definition row_ok :: "'a approval_request_scheme \<Rightarrow> bool" where
  "row_ok r \<longleftrightarrow>
     (status r \<in> {Approved_once, Consuming, Consumed, Execution_failed} \<longrightarrow> approved_in_time r)
     \<and> (status r = Rejected \<longrightarrow> resolution_kind r = Some Reject)
     \<and> (status r = Pending \<longrightarrow> resolution_kind r = None \<and> execution_idempotency_key r = None)
     \<and> (if status r = Consuming then holds_lease r else no_lease r)
     \<and> (status r \<in> {Consuming, Consumed, Execution_failed} \<longrightarrow> execution_idempotency_key r \<noteq> None)
     \<and> (status r \<in> {Consumed, Execution_failed} \<longrightarrow> consumed_at r \<noteq> None)
     \<and> positive_revision (approval_revision r)"

lemma created_row_ok: "created_row r \<Longrightarrow> row_ok r"
  by (simp add: created_row_def row_ok_def no_lease_def positive_revision_def)

lemma sql_bump_fields [simp]:
  "resolution_kind (sql_bump r) = resolution_kind r"
  "resolved_at (sql_bump r) = resolved_at r"
  "expires_at (sql_bump r) = expires_at r"
  "execution_idempotency_key (sql_bump r) = execution_idempotency_key r"
  "consume_lease_owner (sql_bump r) = consume_lease_owner r"
  "consume_lease_token (sql_bump r) = consume_lease_token r"
  "consume_lease_expires_at (sql_bump r) = consume_lease_expires_at r"
  "consumed_at (sql_bump r) = consumed_at r"
  by (simp_all add: sql_bump_def)

lemma before_Some [simp]: "before (Some t) limit \<longleftrightarrow> t < limit"
  by (simp add: before_def)

lemma revision_bump_ok [simp]:
  "positive_revision (approval_revision r) \<Longrightarrow> positive_revision (approval_revision (sql_bump r))"
  by (auto simp: positive_revision_def sql_bump_def split: option.splits)

lemma decision_cases: "d \<noteq> Reject \<Longrightarrow> d = Approve_once \<or> d = Approve_and_save_rule"
  by (cases d) auto

text \<open>The invariant read off for each status.\<close>

lemma row_ok_at:
  "status r = Pending \<Longrightarrow> row_ok r \<longleftrightarrow>
     resolution_kind r = None \<and> execution_idempotency_key r = None \<and> no_lease r
     \<and> positive_revision (approval_revision r)"
  "status r = Approved_once \<Longrightarrow> row_ok r \<longleftrightarrow>
     approved_in_time r \<and> no_lease r \<and> positive_revision (approval_revision r)"
  "status r = Rejected \<Longrightarrow> row_ok r \<longleftrightarrow>
     resolution_kind r = Some Reject \<and> no_lease r \<and> positive_revision (approval_revision r)"
  "status r = Consuming \<Longrightarrow> row_ok r \<longleftrightarrow>
     approved_in_time r \<and> holds_lease r \<and> execution_idempotency_key r \<noteq> None
     \<and> positive_revision (approval_revision r)"
  "status r = Consumed \<or> status r = Execution_failed \<Longrightarrow> row_ok r \<longleftrightarrow>
     approved_in_time r \<and> no_lease r \<and> execution_idempotency_key r \<noteq> None
     \<and> consumed_at r \<noteq> None \<and> positive_revision (approval_revision r)"
  "status r = Expired \<or> status r = Superseded \<Longrightarrow> row_ok r \<longleftrightarrow>
     no_lease r \<and> positive_revision (approval_revision r)"
  by (auto simp: row_ok_def)

lemmas lease_defs = approved_in_time_def holds_lease_def no_lease_def

lemma row_step_ok: "row_step r r' \<Longrightarrow> row_ok r \<Longrightarrow> row_ok r'"
proof (induction rule: row_step.induct)
  case (resolved r now t d why m e)
  then show ?case
    by (cases d) (simp_all add: row_ok_at lease_defs)
next
  case (superseded r why now t)
  then show ?case by (simp add: row_ok_at lease_defs)
next
  case (expired r t)
  from expired(1) show ?case
    by (rule disjE) (use expired(2) in \<open>simp_all add: row_ok_at lease_defs\<close>)
next
  case (claimed r t key owner token lease)
  then show ?case by (simp add: row_ok_at lease_defs)
next
  case (completed r key owner token st e now t)
  from completed(5) show ?case
    using completed(1,6) by (elim insertE emptyE) (simp_all add: row_ok_at lease_defs)
next
  case (recovered r t st done_at e)
  from recovered(3) show ?case
    using recovered(1,4,5) by (elim insertE emptyE) (simp_all add: row_ok_at lease_defs)
next
  case (recorded r e t)
  from recorded(1) show ?case
    using recorded(2) by (elim insertE emptyE) (simp_all add: row_ok_at lease_defs)
qed

definition db_ok :: "approval_db \<Rightarrow> bool" where
  "db_ok db \<longleftrightarrow> (\<forall>i r. dget (db_requests db) i = Some r \<longrightarrow> row_ok r)"

lemma row_evolves_ok: "row_evolves r r' \<Longrightarrow> row_ok r \<Longrightarrow> row_ok r'"
  by (auto simp: row_evolves_def intro: row_step_ok)

lemma db_evolves_ok:
  assumes "db_evolves db db'" and "db_ok db" shows "db_ok db'"
  unfolding db_ok_def
proof (intro allI impI)
  fix i r'
  assume "dget (db_requests db') i = Some r'"
  from db_evolves_back [OF assms(1) this] show "row_ok r'"
    using assms(2) created_row_ok row_evolves_ok unfolding db_ok_def by blast
qed

lemma db_run_ok: "db_ok db \<Longrightarrow> db_ok (run_ops (db_step env) db ops)"
  by (rule run_ops_invariant [where P = db_ok]) (auto intro: db_evolves_ok [OF db_step_evolves])

lemma db_ok_empty: "db_ok empty_db"
  by (simp add: db_ok_def empty_db_def)

section \<open>The revision is a version number\<close>

definition revision_of :: "'a approval_request_scheme \<Rightarrow> int" where
  "revision_of r = (case approval_revision r of None \<Rightarrow> 0 | Some n \<Rightarrow> n)"

lemma row_step_revision: "row_step r r' \<Longrightarrow> revision_of r' = revision_of r + 1"
  by (induction rule: row_step.induct) (simp_all add: revision_of_def sql_bump_def)

lemma row_steps_revision:
  "row_step\<^sup>*\<^sup>* r r' \<Longrightarrow> r' = r \<or> revision_of r < revision_of r'"
  by (induction rule: rtranclp_induct) (auto dest: row_step_revision)

lemma db_run_rows:
  "dget (db_requests db) i = Some r \<Longrightarrow>
     \<exists>r'. dget (db_requests (run_ops (db_step env) db ops)) i = Some r' \<and> row_step\<^sup>*\<^sup>* r r'"
proof (induction ops arbitrary: db r)
  case (Cons op ops)
  from db_evolvesD [OF db_step_evolves Cons.prems] obtain r1
    where r1: "dget (db_requests (fst (db_step env db op))) i = Some r1" "row_evolves r r1"
    by blast
  from Cons.IH [OF r1(1)] r1(2) show ?case
    by (auto simp: row_evolves_def intro: converse_rtranclp_into_rtranclp)
qed auto

section \<open>Execution keys are unique\<close>

definition unique_keys :: "approval_db \<Rightarrow> bool" where
  "unique_keys db \<longleftrightarrow>
     (\<forall>i j r q k. dget (db_requests db) i = Some r \<and> dget (db_requests db) j = Some q
        \<and> execution_idempotency_key r = Some k \<and> execution_idempotency_key q = Some k
        \<longrightarrow> i = j)"

definition keys_kept :: "approval_db \<Rightarrow> approval_db \<Rightarrow> bool" where
  "keys_kept db db' \<longleftrightarrow>
     (\<forall>i r' k. dget (db_requests db') i = Some r' \<and> execution_idempotency_key r' = Some k
        \<longrightarrow> (\<exists>r. dget (db_requests db) i = Some r \<and> execution_idempotency_key r = Some k))"

lemma keys_kept_unique: "keys_kept db db' \<Longrightarrow> unique_keys db \<Longrightarrow> unique_keys db'"
  unfolding keys_kept_def unique_keys_def by meson

lemma keys_kept_refl [simp, intro]: "keys_kept db db"
  by (simp add: keys_kept_def)

lemma keys_kept_trans: "keys_kept a b \<Longrightarrow> keys_kept b c \<Longrightarrow> keys_kept a c"
  unfolding keys_kept_def by blast

text \<open>Only a claim writes an execution key; every other update keeps the keys there are.\<close>

lemma update_request_keys:
  "update_request db i p f = Some db' \<Longrightarrow>
     (\<And>r. execution_idempotency_key (f r) = execution_idempotency_key r) \<Longrightarrow> keys_kept db db'"
  by (auto simp: update_request_Some_iff keys_kept_def dget_dput split: if_splits)

lemma expire_guarded_keys: "keys_kept db (fst (expire_guarded db i sts now e))"
  by (auto simp: expire_guarded_def update_if_matching_def intro: update_request_keys
      split: approval_error.split option.split)

lemma keys_kept_requests: "db_requests db' = db_requests db \<Longrightarrow> keys_kept db db'"
  by (simp add: keys_kept_def)

lemma db_create_keys: "keys_kept db (fst (db_create env db a now))"
  by (auto simp: db_create_def keys_kept_def dget_dput new_request_def Let_def result_simps
      split: sum.split)

lemma update_case_keys:
  assumes "\<And>r. execution_idempotency_key (f r) = execution_idempotency_key r"
    and "\<And>db1. keys_kept db db1 \<Longrightarrow> keys_kept db (fst (g db1))"
  shows "keys_kept db (fst (case update_request db i p f of None \<Rightarrow> (db, x) | Some db1 \<Rightarrow> g db1))"
  using assms update_request_keys [of db i p f] by (auto split: option.split)

lemma insert_case_keys:
  "keys_kept db db1 \<Longrightarrow>
     keys_kept db (fst (case insert_effect db1 e of Inl x \<Rightarrow> (db, Inl x) | Inr db2 \<Rightarrow> required db2 i))"
  by (auto simp: keys_kept_def insert_effect_requests split: sum.split)

lemma db_resolve_keys: "keys_kept db (fst (db_resolve env db i a now now2))"
proof (cases "rule_effect_for env i a now")
  case eff: (Inr effect)
  show ?thesis
  proof (cases "db_get db i")
    case cur: (Some current)
    show ?thesis
    proof (cases "resolve_approval (lifecycle_of current) (res_decision a) (res_binding a) now")
      case (Inl e)
      then show ?thesis by (simp add: db_resolve_def eff cur expire_guarded_keys)
    next
      case tr: (Inr transition)
      show ?thesis
        unfolding db_resolve_def eff cur tr sum.case option.case
        by (intro update_case_keys insert_case_keys) auto
    qed
  qed (simp add: db_resolve_def eff)
qed (simp add: db_resolve_def)

lemma db_complete_keys: "keys_kept db (fst (db_complete env db i a now))"
  by (auto simp: db_complete_def intro: update_request_keys split: sum.split option.split)

lemma db_recover_keys: "keys_kept db (fst (db_recover env db i outcome result now now2))"
  by (auto simp: db_recover_def intro: update_request_keys split: sum.split option.split)

lemma db_record_result_keys: "keys_kept db (fst (db_record_result env db i r now))"
  by (auto simp: db_record_result_def intro: update_request_keys split: option.split)

lemma db_supersede_keys: "keys_kept db (fst (db_supersede db i why now now2))"
  by (auto simp: db_supersede_def expire_guarded_keys intro: update_request_keys
      split: sum.split option.split)

lemma recover_stale_row_keys: "recover_stale_row env db i now = Some db' \<Longrightarrow> keys_kept db db'"
  by (auto simp: recover_stale_row_def Let_def intro: update_request_keys
      split: option.splits if_splits)

lemma db_recover_each_keys: "keys_kept db (fst (db_recover_each env db ids recovered now))"
proof (induction env db ids recovered now rule: db_recover_each.induct)
  case (2 env db i "is" recovered now)
  then show ?case
    using recover_stale_row_keys [of env db i now]
    by (auto simp: required_def intro: keys_kept_trans split: option.split)
qed simp

lemma claim_unique:
  assumes "unique_keys db" and "\<not> key_used_elsewhere db i k"
    and "update_request db i p f = Some db'"
    and "\<And>r. execution_idempotency_key (f r) = Some k"
  shows "unique_keys db'"
proof -
  from assms(3) obtain r where db': "dget (db_requests db) i = Some r"
    "db' = db\<lparr>db_requests := dput (db_requests db) i (sql_bump (f r))\<rparr>"
    by (auto simp: update_request_Some_iff)
  have other: "execution_idempotency_key q \<noteq> Some k"
    if "dget (db_requests db) j = Some q" "j \<noteq> i" for j q
    using that assms(2) map_of_SomeD [OF that(1)] unfolding key_used_elsewhere_def by force
  show ?thesis
    unfolding unique_keys_def
  proof (intro allI impI, elim conjE)
    fix m n q s l
    assume "dget (db_requests db') m = Some q" "dget (db_requests db') n = Some s"
      "execution_idempotency_key q = Some l" "execution_idempotency_key s = Some l"
    then show "m = n"
      using other assms(1,4) unfolding unique_keys_def
      by (cases "m = i"; cases "n = i") (auto simp: db' dget_dput)
  qed
qed

lemma db_consume_unique:
  assumes "unique_keys db" shows "unique_keys (fst (db_consume db i a now now2))"
proof (cases "db_get db i")
  case cur: (Some current)
  show ?thesis
  proof (cases "claim_approval (lifecycle_of current) (con_key a) (con_lease_owner a)
      (con_binding a) (con_lease_seconds a) None (con_fresh_token a) now")
    case (Inl e)
    then show ?thesis
      using keys_kept_unique [OF expire_guarded_keys assms] by (simp add: db_consume_def cur)
  next
    case tr: (Inr transition)
    then have key: "execution_idempotency_key transition = Some (con_key a)"
      by (simp add: claim_approval_Inr_iff)
    show ?thesis
      using assms
      by (auto simp: db_consume_def cur tr key split: option.split intro: claim_unique)
  qed
qed (use assms in \<open>simp add: db_consume_def\<close>)

lemma db_step_unique: "unique_keys db \<Longrightarrow> unique_keys (fst (db_step env db op))"
  by (cases "(env, db, op)" rule: db_step.cases)
    (auto simp: db_consume_unique db_recover_stale_def
      intro: keys_kept_unique db_create_keys db_resolve_keys db_complete_keys db_recover_keys
        db_record_result_keys db_supersede_keys db_recover_each_keys)

lemma db_run_unique: "unique_keys db \<Longrightarrow> unique_keys (run_ops (db_step env) db ops)"
  by (rule run_ops_invariant [where P = unique_keys]) (auto intro: db_step_unique)

lemma unique_keys_empty: "unique_keys empty_db"
  by (simp add: unique_keys_def empty_db_def)

end
