(* ===== verification/Continuation.thy ===== *)
theory Continuation
  imports Persistent_Invariants
begin

text \<open>
  Continuation reconciliation of \<open>PersistentApprovalStore\<close> (\<^verbatim>\<open>mochi/runtime/approval_lifecycle.py\<close>):
  after a crash, an applied chat mutation may have its model turn resumed once. The operations list
  candidates, claim one under a lease, and finish it as continued or unknown. They run on the same
  database as the approval operations, so the one-shot facts are proved over mixed runs.
\<close>

section \<open>Trust in the recorded evidence\<close>

definition nonempty_str :: "json \<Rightarrow> bool" where
  "nonempty_str v = (case v of JStr s \<Rightarrow> s \<noteq> [] | _ \<Rightarrow> False)"

definition is_trusted_continuation :: "approval_request \<Rightarrow> bool" where
  "is_trusted_continuation approval =
     (case execution_result approval of
        None \<Rightarrow> False
      | Some result \<Rightarrow>
          (if status approval \<noteq> Consumed
              \<or> jget result ''recovery_required'' \<noteq> JStr ''ordinary_chat_continuation''
              \<or> jget result ''status'' \<notin> set [JStr ''succeeded'', JStr ''completed'']
              \<or> jget result ''continuation_started'' = JBool True
           then False
           else
     (case command_payload approval of
        None \<Rightarrow> False
      | Some payload \<Rightarrow>
     (case jget payload ''ordinary_chat_checkpoint'' of
        JObj checkpoint \<Rightarrow>
          (if jget (metadata approval) ''approval_source'' \<noteq> JStr ''ordinary_chat''
              \<or> jget checkpoint ''source'' \<noteq> JStr ''ordinary_chat''
              \<or> \<not> is_mapping (jget checkpoint ''react_continuation'')
           then False
           else
             let tool_name = jget payload ''tool_name'';
                 operation_id = jget payload ''operation_id'';
                 arguments_digest = jget payload ''arguments_digest''
             in nonempty_str tool_name \<and> nonempty_str operation_id
                \<and> nonempty_str arguments_digest
                \<and> jget checkpoint ''tool_name'' = tool_name
                \<and> jget checkpoint ''operation_id'' = operation_id
                \<and> jget checkpoint ''arguments_digest'' = arguments_digest
                \<and> jget (metadata approval) ''operation_id'' = operation_id
                \<and> jget (metadata approval) ''arguments_digest'' = arguments_digest)
      | _ \<Rightarrow> False))))"

section \<open>Operations\<close>

definition cont_lapsed :: "continuation_row \<Rightarrow> instant \<Rightarrow> bool" where
  "cont_lapsed c now \<longleftrightarrow> (case cont_lease_expires_at c of None \<Rightarrow> True | Some t \<Rightarrow> t \<le> now)"

definition recovery_required :: "jdict option \<Rightarrow> bool" where
  "recovery_required result \<longleftrightarrow>
     (case result of
        None \<Rightarrow> False
      | Some d \<Rightarrow> jget d ''recovery_required'' = JStr ''ordinary_chat_continuation'')"

definition cont_selected :: "approval_db \<Rightarrow> instant \<Rightarrow> string \<times> approval_row \<Rightarrow> bool" where
  "cont_selected db now p \<longleftrightarrow>
     status (snd p) = Consumed \<and> recovery_required (execution_result (snd p))
     \<and> (case dget (db_continuations db) (fst p) of
          None \<Rightarrow> True
        | Some c \<Rightarrow> cont_status c = Cont_pending
            \<or> cont_status c = Cont_reconciling \<and> cont_lapsed c now)"

definition new_continuation ::
  "continuation_status \<Rightarrow> string option \<Rightarrow> string option \<Rightarrow> instant option \<Rightarrow> string option
    \<Rightarrow> instant \<Rightarrow> continuation_row" where
  "new_continuation st owner token lease why now =
     \<lparr>cont_status = st, cont_schema_version = 1, cont_lease_owner = owner,
      cont_lease_token = token, cont_lease_expires_at = lease, cont_reason = why,
      cont_created_at = now, cont_updated_at = now\<rparr>"

definition put_continuation :: "approval_db \<Rightarrow> string \<Rightarrow> continuation_row \<Rightarrow> approval_db" where
  "put_continuation db i c = db\<lparr>db_continuations := dput (db_continuations db) i c\<rparr>"

record continuation_candidate =
  cand_approval :: approval_request
  cand_status :: continuation_status
  cand_schema_version :: int

text \<open>One row of the sweep: the row it writes, and the candidate it reports.\<close>

definition sweep_candidate ::
  "approval_db \<Rightarrow> instant \<Rightarrow> string \<times> approval_row \<Rightarrow> approval_db \<times> continuation_candidate list" where
  "sweep_candidate db now p =
     (let approval = from_row (snd p); i = fst p; current = dget (db_continuations db) i in
      if \<not> recovery_required (execution_result approval) then (db, [])
      else if \<not> is_trusted_continuation approval
      then (if current = None
            then put_continuation db i (new_continuation Cont_unknown None None None
                   (Some ''applied_execution_evidence_missing'') now)
            else db, [])
      else
        (case current of
           None \<Rightarrow> (put_continuation db i (new_continuation Cont_pending None None None None now),
                    [\<lparr>cand_approval = approval, cand_status = Cont_pending,
                      cand_schema_version = 1\<rparr>])
         | Some c \<Rightarrow>
             (db, if cont_status c \<in> set [Cont_pending, Cont_reconciling]
                  then [\<lparr>cand_approval = approval, cand_status = cont_status c,
                         cand_schema_version = (if cont_schema_version c = 0 then 1
                           else cont_schema_version c)\<rparr>]
                  else [])))"

fun sweep_candidates ::
  "approval_db \<Rightarrow> instant \<Rightarrow> (string \<times> approval_row) list
    \<Rightarrow> approval_db \<times> continuation_candidate list" where
  "sweep_candidates db now [] = (db, [])"
| "sweep_candidates db now (p # ps) =
     (let (db1, found) = sweep_candidate db now p;
          (db2, more) = sweep_candidates db1 now ps
      in (db2, found @ more))"

definition list_candidates ::
  "approval_db \<Rightarrow> int \<Rightarrow> instant \<Rightarrow> instant
    \<Rightarrow> approval_db \<times> (approval_error + continuation_candidate list)" where
  "list_candidates db limit now now2 =
     (if limit \<le> 0 then (db, Inl (ApprovalValueError ''limit must be a positive integer.''))
      else
        let rows = take (nat limit)
              (sort_key (\<lambda>p. (row_updated_at (snd p) div 1000000, fst p))
                (filter (cont_selected db now) (db_requests db)));
            (db', found) = sweep_candidates db now2 rows
        in (db', Inr found))"

record continuation_claim =
  claimed_id :: string
  claimed_token :: string
  claimed_expires_at :: instant

definition claim_continuation ::
  "approval_db \<Rightarrow> string \<Rightarrow> string \<Rightarrow> int \<Rightarrow> string \<Rightarrow> instant
    \<Rightarrow> approval_db \<times> (approval_error + continuation_claim)" where
  "claim_continuation db i owner lease_seconds fresh now =
     (case dget (db_requests db) i of
        None \<Rightarrow> (db, Inl (ApprovalConflict
          ''Applied approval evidence is unavailable for reconciliation.''))
      | Some approval \<Rightarrow>
          (if status approval \<noteq> Consumed
           then (db, Inl (ApprovalConflict
             ''Applied approval evidence is unavailable for reconciliation.''))
           else if \<not> recovery_required (execution_result approval)
           then (db, Inl (ApprovalConflict
             ''Approval is not awaiting continuation reconciliation.''))
           else
             let token = ''continuation-'' @ fresh;
                 expires = future_iso lease_seconds now;
                 claim = \<lparr>claimed_id = i, claimed_token = token, claimed_expires_at = expires\<rparr>
             in case dget (db_continuations db) i of
                  None \<Rightarrow>
                    (put_continuation db i (new_continuation Cont_reconciling (Some owner)
                       (Some token) (Some expires) None now), Inr claim)
                | Some c \<Rightarrow>
                    (case cont_status c of
                       Cont_pending \<Rightarrow>
                         (put_continuation db i (c\<lparr>cont_status := Cont_reconciling,
                            cont_lease_owner := Some owner, cont_lease_token := Some token,
                            cont_lease_expires_at := Some expires, cont_reason := None,
                            cont_updated_at := now\<rparr>), Inr claim)
                     | Cont_reconciling \<Rightarrow>
                         (if cont_lapsed c now
                          then (put_continuation db i (c\<lparr>cont_status := Cont_unknown,
                                  cont_updated_at := now\<rparr>),
                                Inl (ApprovalConflict
            ''Continuation lease expired with unknown outcome; manual recovery is required.''))
                          else (db, Inl (ApprovalConflict
            ''Continuation reconciliation is already in progress.'')))
                     | Cont_continued \<Rightarrow> (db, Inl (ApprovalConflict
                         ''Continuation reconciliation is terminal: continued.''))
                     | Cont_unknown \<Rightarrow> (db, Inl (ApprovalConflict
                         ''Continuation reconciliation is terminal: unknown.'')))))"

text \<open>The row an \<open>UPDATE ... WHERE status='reconciling' AND lease_token=?\<close> writes, if it matches.\<close>

definition held_continuation :: "approval_db \<Rightarrow> string \<Rightarrow> string \<Rightarrow> continuation_row option" where
  "held_continuation db i token =
     (case dget (db_continuations db) i of
        None \<Rightarrow> None
      | Some c \<Rightarrow> if cont_status c = Cont_reconciling \<and> cont_lease_token c = Some token
                  then Some c else None)"

definition complete_continuation ::
  "store_env \<Rightarrow> approval_db \<Rightarrow> string \<Rightarrow> string \<Rightarrow> jdict \<Rightarrow> instant \<Rightarrow> approval_db store_result" where
  "complete_continuation env db i token result now =
     (case held_continuation db i token of
        None \<Rightarrow> (db, Inl (ApprovalConflict
          ''Continuation completion lost its lease compare-and-swap race.''))
      | Some c \<Rightarrow>
     (case update_request
             (put_continuation db i (c\<lparr>cont_status := Cont_continued, cont_lease_owner := None,
               cont_lease_token := None, cont_lease_expires_at := None, cont_updated_at := now\<rparr>))
             i (\<lambda>r. status r = Consumed)
             (\<lambda>r. r\<lparr>execution_result := Some (audit_details (env_secrets env) result),
                    row_updated_at := now\<rparr>) of
        None \<Rightarrow> (db, Inl (ApprovalConflict ''Approval disappeared before continuation completion.''))
      | Some db1 \<Rightarrow> required db1 i))"

definition fail_continuation ::
  "approval_db \<Rightarrow> string \<Rightarrow> string \<Rightarrow> string \<Rightarrow> instant \<Rightarrow> approval_db store_result" where
  "fail_continuation db i token why now =
     (case held_continuation db i token of
        None \<Rightarrow> (db, Inl (ApprovalConflict
          ''Continuation failure lost its lease compare-and-swap race.''))
      | Some c \<Rightarrow> required (put_continuation db i (c\<lparr>cont_status := Cont_unknown,
          cont_lease_owner := None, cont_lease_token := None, cont_lease_expires_at := None,
          cont_reason := Some why, cont_updated_at := now\<rparr>)) i)"

section \<open>Mixed runs\<close>

datatype system_op =
    Approval_op timed_op
  | List_candidates int instant instant
  | Claim_continuation string string int string instant
  | Complete_continuation string string jdict instant
  | Fail_continuation string string string instant

datatype system_out =
    Approval_out store_out
  | Candidates "continuation_candidate list"
  | Claimed continuation_claim

definition map_out :: "('a \<Rightarrow> 'b) \<Rightarrow> 's \<times> ('e + 'a) \<Rightarrow> 's \<times> ('e + 'b)" where
  "map_out f x = (fst x, map_sum id f (snd x))"

fun system_step ::
  "store_env \<Rightarrow> approval_db \<Rightarrow> system_op \<Rightarrow> approval_db \<times> (approval_error + system_out)" where
  "system_step env db (Approval_op op) = map_out Approval_out (db_step env db op)"
| "system_step env db (List_candidates limit now now2) =
     map_out Candidates (list_candidates db limit now now2)"
| "system_step env db (Claim_continuation i owner lease_seconds fresh now) =
     map_out Claimed (claim_continuation db i owner lease_seconds fresh now)"
| "system_step env db (Complete_continuation i token result now) =
     map_out Approval_out (complete_continuation env db i token result now)"
| "system_step env db (Fail_continuation i token why now) =
     map_out Approval_out (fail_continuation db i token why now)"

definition claims_continuation :: "string \<Rightarrow> system_op \<Rightarrow> bool" where
  "claims_continuation i op \<longleftrightarrow> (case op of Claim_continuation j _ _ _ _ \<Rightarrow> i = j | _ \<Rightarrow> False)"

definition finishes_continuation :: "string \<Rightarrow> system_op \<Rightarrow> bool" where
  "finishes_continuation i op \<longleftrightarrow>
     (case op of
        Complete_continuation j _ _ _ \<Rightarrow> i = j
      | Fail_continuation j _ _ _ \<Rightarrow> i = j
      | _ \<Rightarrow> False)"

end
