(* ===== verification/Continuation_Proofs.thy ===== *)
theory Continuation_Proofs
  imports Continuation
begin

text \<open>
  Mixed runs of approval and continuation operations on one database: rows evolve by \<open>row_step\<close>, so
  the invariants of \<open>Persistent_Invariants\<close> hold in them too; the status of a continuation moves along
  \<open>cont_step\<close>, so a continuation is claimed at most once and finished at most once.
\<close>

definition cont_status_of :: "approval_db \<Rightarrow> string \<Rightarrow> continuation_status option" where
  "cont_status_of db i = map_option cont_status (dget (db_continuations db) i)"

inductive cont_step :: "continuation_status option \<Rightarrow> continuation_status option \<Rightarrow> bool" where
  discovered: "cont_step None (Some Cont_pending)"
| untrusted: "cont_step None (Some Cont_unknown)"
| claimed_first: "cont_step None (Some Cont_reconciling)"
| claimed: "cont_step (Some Cont_pending) (Some Cont_reconciling)"
| continued: "cont_step (Some Cont_reconciling) (Some Cont_continued)"
| gave_up: "cont_step (Some Cont_reconciling) (Some Cont_unknown)"

code_pred cont_step .

inductive_simps cont_step_from:
  "cont_step None t"
  "cont_step (Some Cont_pending) t"
  "cont_step (Some Cont_reconciling) t"
  "cont_step (Some Cont_continued) t"
  "cont_step (Some Cont_unknown) t"

definition cont_moves :: "approval_db \<Rightarrow> approval_db \<Rightarrow> bool" where
  "cont_moves db db' \<longleftrightarrow>
     (\<forall>i. cont_status_of db' i = cont_status_of db i
        \<or> cont_step (cont_status_of db i) (cont_status_of db' i))"

lemma cont_moves_refl [simp, intro]: "cont_moves db db"
  by (simp add: cont_moves_def)

lemma cont_moves_same: "db_continuations db' = db_continuations db \<Longrightarrow> cont_moves db db'"
  by (simp add: cont_moves_def cont_status_of_def)

lemma cont_status_put [simp]:
  "cont_status_of (put_continuation db i c) j
     = (if j = i then Some (cont_status c) else cont_status_of db j)"
  by (simp add: cont_status_of_def put_continuation_def dget_dput)

lemma put_continuation_requests [simp]: "db_requests (put_continuation db i c) = db_requests db"
  by (simp add: put_continuation_def)

lemma cont_moves_put:
  "cont_step (cont_status_of db i) (Some (cont_status c)) \<Longrightarrow> cont_moves db (put_continuation db i c)"
  by (simp add: cont_moves_def)

section \<open>Approval operations leave continuations alone\<close>

lemma update_request_continuations:
  "update_request db i p f = Some db' \<Longrightarrow> db_continuations db' = db_continuations db"
  by (auto simp: update_request_Some_iff)

lemma expire_guarded_continuations [simp]:
  "db_continuations (fst (expire_guarded db i sts now e)) = db_continuations db"
  by (auto simp: expire_guarded_def update_if_matching_def dest: update_request_continuations
      split: approval_error.split option.split)

lemma insert_effect_continuations:
  "insert_effect db e = Inr db' \<Longrightarrow> db_continuations db' = db_continuations db"
  by (auto simp: insert_effect_def split: option.splits if_splits)

lemma db_recover_each_continuations:
  "db_continuations (fst (db_recover_each env db ids recovered now)) = db_continuations db"
proof (induction env db ids recovered now rule: db_recover_each.induct)
  case (2 env db i "is" recovered now)
  show ?case
  proof (cases "recover_stale_row env db i now")
    case None
    then show ?thesis using "2.IH"(1) by simp
  next
    case (Some db1)
    then have "db_continuations db1 = db_continuations db"
      by (auto simp: recover_stale_row_def Let_def dest: update_request_continuations
          split: option.splits if_splits)
    then show ?thesis
      using "2.IH"(2) [OF Some] Some by (auto simp: required_def split: option.split)
  qed
qed simp

lemma db_resolve_continuations:
  "db_continuations (fst (db_resolve env db i a now now2)) = db_continuations db"
proof (cases "rule_effect_for env i a now")
  case eff: (Inr effect)
  show ?thesis
  proof (cases "db_get db i")
    case cur: (Some current)
    show ?thesis
      by (cases "resolve_approval (lifecycle_of current) (res_decision a) (res_binding a) now")
        (auto simp: db_resolve_def eff cur simp del: fun_upd_apply
          dest!: update_request_continuations insert_effect_continuations split: option.split sum.split)
  qed (simp add: db_resolve_def eff)
qed (simp add: db_resolve_def)

lemma db_step_continuations: "db_continuations (fst (db_step env db op)) = db_continuations db"
proof (cases "(env, db, op)" rule: db_step.cases)
  case (2 env' db' i a now now2) then show ?thesis by (simp add: db_resolve_continuations)
qed (auto simp: db_create_def db_consume_def db_complete_def db_recover_def db_record_result_def
    db_supersede_def db_recover_stale_def db_recover_each_continuations
    dest: update_request_continuations split: sum.split option.split)

section \<open>Continuation operations\<close>

text \<open>A sweep only adds rows to the continuation table.\<close>

definition discovers :: "approval_db \<Rightarrow> approval_db \<Rightarrow> bool" where
  "discovers db db' \<longleftrightarrow>
     db_requests db' = db_requests db
     \<and> (\<forall>i. cont_status_of db' i = cont_status_of db i
          \<or> cont_status_of db i = None
            \<and> cont_status_of db' i \<in> {Some Cont_pending, Some Cont_unknown})"

lemma discovers_refl [simp, intro]: "discovers db db"
  by (simp add: discovers_def)

lemma discovers_trans: "discovers a b \<Longrightarrow> discovers b c \<Longrightarrow> discovers a c"
  unfolding discovers_def by (metis insertE option.distinct(1) singletonD)

lemma discovers_moves: "discovers db db' \<Longrightarrow> cont_moves db db'"
  unfolding discovers_def cont_moves_def by (auto simp: cont_step_from)

lemma sweep_candidate_discovers: "discovers db (fst (sweep_candidate db now p))"
  by (auto simp: sweep_candidate_def Let_def discovers_def new_continuation_def cont_status_of_def
      put_continuation_def dget_dput split: option.split)

lemma sweep_candidates_discovers: "discovers db (fst (sweep_candidates db now ps))"
proof (induction ps arbitrary: db)
  case (Cons p ps)
  show ?case
    using discovers_trans [OF sweep_candidate_discovers Cons.IH]
    by (simp add: Let_def split: prod.split) (metis fst_conv)
qed simp

lemma list_candidates_discovers: "discovers db (fst (list_candidates db limit now now2))"
  by (simp add: list_candidates_def Let_def split_beta sweep_candidates_discovers)

lemma claim_continuation_moves: "cont_moves db (fst (claim_continuation db i owner secs fresh now))"
  by (auto simp: claim_continuation_def Let_def cont_status_of_def new_continuation_def cont_step_from
      intro!: cont_moves_put split: option.split continuation_status.split)

lemma claim_continuation_requests:
  "db_requests (fst (claim_continuation db i owner secs fresh now)) = db_requests db"
  by (auto simp: claim_continuation_def Let_def split: option.split continuation_status.split)

lemma held_continuation_Some:
  "held_continuation db i token = Some c \<Longrightarrow>
     dget (db_continuations db) i = Some c \<and> cont_status_of db i = Some Cont_reconciling
     \<and> cont_lease_token c = Some token"
  by (auto simp: held_continuation_def cont_status_of_def split: option.splits if_splits)

lemma update_request_cont_status:
  "update_request db i p f = Some db' \<Longrightarrow> cont_status_of db' j = cont_status_of db j"
  by (simp add: cont_status_of_def update_request_continuations)

lemma complete_continuation_moves:
  "cont_moves db (fst (complete_continuation env db i token result now))"
  by (auto simp: complete_continuation_def cont_moves_def update_request_cont_status cont_step_from
      dest!: held_continuation_Some split: option.split)

lemma fail_continuation_moves: "cont_moves db (fst (fail_continuation db i token why now))"
  by (auto simp: fail_continuation_def cont_step_from intro!: cont_moves_put
      dest!: held_continuation_Some split: option.split)

lemma complete_continuation_evolves:
  "db_evolves db (fst (complete_continuation env db i token result now))"
proof (cases "held_continuation db i token")
  case (Some c)
  have "db_evolves db db'"
    if "update_request (put_continuation db i c') i (\<lambda>r. status r = Consumed)
          (\<lambda>r. r\<lparr>execution_result := Some e, row_updated_at := now\<rparr>) = Some db'" for db' c' e
  proof -
    have "db_evolves (put_continuation db i c') db'"
      using that by (rule update_request_evolves) (auto intro: row_step.recorded)
    then show ?thesis by (simp add: db_evolves_def)
  qed
  then show ?thesis
    by (auto simp: complete_continuation_def Some split: option.split)
qed (simp add: complete_continuation_def)

lemma complete_continuation_keys:
  "keys_kept db (fst (complete_continuation env db i token result now))"
proof (cases "held_continuation db i token")
  case (Some c)
  have "keys_kept db db'" if "keys_kept (put_continuation db i c') db'" for db' c'
    using that by (simp add: keys_kept_def)
  then show ?thesis
    by (auto simp: complete_continuation_def Some split: option.split
        dest!: update_request_keys)
qed (simp add: complete_continuation_def)

section \<open>Mixed runs\<close>

lemma map_out_fst [simp]: "fst (map_out f x) = fst x"
  by (simp add: map_out_def)

lemma map_out_Inr: "map_out f x = (s, Inr out) \<longleftrightarrow> (\<exists>o'. x = (s, Inr o') \<and> out = f o')"
  by (cases x; cases "snd x") (auto simp: map_out_def)

lemma same_requests_evolves: "db_requests db' = db_requests db \<Longrightarrow> db_evolves db db'"
  by (simp add: db_evolves_def)

lemma fail_continuation_requests:
  "db_requests (fst (fail_continuation db i token why now)) = db_requests db"
  by (simp add: fail_continuation_def split: option.split)

lemma list_candidates_requests:
  "db_requests (fst (list_candidates db limit now now2)) = db_requests db"
  using list_candidates_discovers by (simp add: discovers_def)

lemmas continuation_requests =
  list_candidates_requests claim_continuation_requests fail_continuation_requests

lemma system_step_evolves: "db_evolves db (fst (system_step env db op))"
  by (cases op) (auto simp: db_step_evolves complete_continuation_evolves continuation_requests
      intro: same_requests_evolves)

lemma system_step_moves: "cont_moves db (fst (system_step env db op))"
  by (cases op) (auto simp: claim_continuation_moves complete_continuation_moves
      fail_continuation_moves db_step_continuations
      intro: cont_moves_same discovers_moves list_candidates_discovers)

lemma system_step_unique: "unique_keys db \<Longrightarrow> unique_keys (fst (system_step env db op))"
  by (cases op) (auto simp: db_step_unique continuation_requests
      intro: keys_kept_unique [OF keys_kept_requests] keys_kept_unique [OF complete_continuation_keys])

lemma system_run_ok: "db_ok db \<Longrightarrow> db_ok (run_ops (system_step env) db ops)"
  by (rule run_ops_invariant [where P = db_ok]) (auto intro: db_evolves_ok [OF system_step_evolves])

lemma system_run_unique: "unique_keys db \<Longrightarrow> unique_keys (run_ops (system_step env) db ops)"
  by (rule run_ops_invariant [where P = unique_keys]) (auto intro: system_step_unique)

lemma system_run_rows:
  "dget (db_requests db) i = Some r \<Longrightarrow>
     \<exists>r'. dget (db_requests (run_ops (system_step env) db ops)) i = Some r' \<and> row_step\<^sup>*\<^sup>* r r'"
proof (induction ops arbitrary: db r)
  case (Cons op ops)
  from db_evolvesD [OF system_step_evolves Cons.prems] obtain r1
    where r1: "dget (db_requests (fst (system_step env db op))) i = Some r1" "row_evolves r r1"
    by blast
  from Cons.IH [OF r1(1)] r1(2) show ?case
    by (auto simp: row_evolves_def intro: converse_rtranclp_into_rtranclp)
qed auto

definition cont_started :: "string \<Rightarrow> approval_db \<Rightarrow> bool" where
  "cont_started i db \<longleftrightarrow>
     cont_status_of db i \<in> set [Some Cont_reconciling, Some Cont_continued, Some Cont_unknown]"

definition cont_finished :: "string \<Rightarrow> approval_db \<Rightarrow> bool" where
  "cont_finished i db \<longleftrightarrow> cont_status_of db i \<in> set [Some Cont_continued, Some Cont_unknown]"

lemma cont_moves_started: "cont_moves db db' \<Longrightarrow> cont_started i db \<Longrightarrow> cont_started i db'"
  unfolding cont_moves_def cont_started_def
  by (auto simp: cont_step_from dest!: spec [of _ i])

lemma cont_moves_finished: "cont_moves db db' \<Longrightarrow> cont_finished i db \<Longrightarrow> cont_finished i db'"
  unfolding cont_moves_def cont_finished_def
  by (auto simp: cont_step_from dest!: spec [of _ i])

lemma claim_continuation_Inr:
  "claim_continuation db i owner secs fresh now = (db', Inr claim) \<Longrightarrow>
     db_status db i = Some Consumed
     \<and> cont_status_of db i \<in> {None, Some Cont_pending}
     \<and> cont_status_of db' i = Some Cont_reconciling"
  by (auto simp: claim_continuation_def Let_def db_status_def cont_status_of_def
      put_continuation_def dget_dput new_continuation_def
      split: option.splits continuation_status.splits if_splits)

lemma complete_continuation_Inr:
  "complete_continuation env db i token result now = (db', Inr out) \<Longrightarrow>
     cont_status_of db i = Some Cont_reconciling \<and> cont_status_of db' i = Some Cont_continued"
  by (auto simp: complete_continuation_def required_def update_request_cont_status
      dest!: held_continuation_Some split: option.splits)

lemma fail_continuation_Inr:
  "fail_continuation db i token why now = (db', Inr out) \<Longrightarrow>
     cont_status_of db i = Some Cont_reconciling \<and> cont_status_of db' i = Some Cont_unknown"
  by (auto simp: fail_continuation_def required_def dest!: held_continuation_Some
      split: option.splits)

interpretation cont_claim: one_shot "system_step env" "cont_started i" "claims_continuation i" for env i
proof
  fix db op
  assume "cont_started i db"
  then show "cont_started i (fst (system_step env db op))"
    by (rule cont_moves_started [OF system_step_moves])
next
  fix op db db' out
  assume "claims_continuation i op" "system_step env db op = (db', Inr out)"
  then show "\<not> cont_started i db"
    by (cases op) (auto simp: claims_continuation_def map_out_Inr cont_started_def
        dest!: claim_continuation_Inr)
next
  fix op db db' out
  assume "claims_continuation i op" "system_step env db op = (db', Inr out)"
  then show "cont_started i db'"
    by (cases op) (auto simp: claims_continuation_def map_out_Inr cont_started_def
        dest!: claim_continuation_Inr)
qed

interpretation cont_finish: one_shot "system_step env" "cont_finished i" "finishes_continuation i"
  for env i
proof
  fix db op
  assume "cont_finished i db"
  then show "cont_finished i (fst (system_step env db op))"
    by (rule cont_moves_finished [OF system_step_moves])
next
  fix op db db' out
  assume "finishes_continuation i op" "system_step env db op = (db', Inr out)"
  then show "\<not> cont_finished i db"
    by (cases op) (auto simp: finishes_continuation_def map_out_Inr cont_finished_def
        dest!: complete_continuation_Inr fail_continuation_Inr)
next
  fix op db db' out
  assume "finishes_continuation i op" "system_step env db op = (db', Inr out)"
  then show "cont_finished i db'"
    by (cases op) (auto simp: finishes_continuation_def map_out_Inr cont_finished_def
        dest!: complete_continuation_Inr fail_continuation_Inr)
qed

text \<open>The consume-once facts of the approval operations hold in mixed runs as well.\<close>

definition on_approval :: "(timed_op \<Rightarrow> bool) \<Rightarrow> system_op \<Rightarrow> bool" where
  "on_approval p op \<longleftrightarrow> (case op of Approval_op o' \<Rightarrow> p o' | _ \<Rightarrow> False)"

lemma on_approvalE:
  assumes "on_approval p op" obtains o' where "op = Approval_op o'" "p o'"
  using assms by (auto simp: on_approval_def split: system_op.splits)

lemma db_evolves_final:
  assumes "db_evolves db db'" and "is_final (db_status db i)"
  shows "db_status db' i = db_status db i"
proof -
  obtain r where r: "dget (db_requests db) i = Some r" "final_status (status r)"
    using assms(2) by (cases "db_status db i") (auto simp: db_status_Some_iff)
  from db_evolvesD [OF assms(1) r(1)] obtain r'
    where "dget (db_requests db') i = Some r'" "row_evolves r r'" by blast
  then show ?thesis
    using r row_step_status [of r r'] final_no_step [of "status r"]
    by (auto simp: db_status_def row_evolves_def)
qed

interpretation system_completion:
  one_shot "system_step env" "\<lambda>db. is_final (db_status db i)" "on_approval (completes i)" for env i
proof
  fix db op
  assume "is_final (db_status db i)"
  then show "is_final (db_status (fst (system_step env db op)) i)"
    using db_evolves_final [OF system_step_evolves] by simp
qed (auto elim!: on_approvalE completesE simp: map_out_Inr final_status_def dest!: db_complete_Inr)

interpretation system_claim:
  guarded "system_step env" "\<lambda>db. is_final (db_status db i)" "on_approval (consumes i)" for env i
proof
  fix db op
  assume "is_final (db_status db i)"
  then show "is_final (db_status (fst (system_step env db op)) i)"
    using db_evolves_final [OF system_step_evolves] by simp
qed (auto elim!: on_approvalE consumesE simp: map_out_Inr final_status_def dest!: db_consume_Inr)

lemma row_steps_status: "row_step\<^sup>*\<^sup>* r r' \<Longrightarrow> lifecycle_step\<^sup>*\<^sup>* (status r) (status r')"
proof (induction rule: rtranclp_induct)
  case (step r1 r2)
  then show ?case using row_step_status [of r1 r2] by (auto intro: rtranclp.rtrancl_into_rtrancl)
qed simp

lemma lifecycle_final_stuck: "lifecycle_step\<^sup>*\<^sup>* a b \<Longrightarrow> final_status a \<Longrightarrow> b = a"
  by (auto elim: converse_rtranclpE dest: final_no_step)

end
