(* ===== verification/Approval_Properties.thy ===== *)
theory Approval_Properties
  imports Memory_Store Continuation_Proofs
begin

text \<open>
  What the approval subsystem guarantees, stated over its definitions: the consume-once discipline
  of both stores, the invariants of the SQLite store over mixed runs of approval and continuation
  operations, and what single operations do. The sample run at the start feeds the witnesses.
\<close>

section \<open>A sample run\<close>

definition sample_env :: store_env where
  "sample_env =
     \<lparr>env_secrets = [],
      env_request_digest = (\<lambda>cmd sh sc payload. cmd @ '':'' @ sh),
      env_payload_digest = (\<lambda>payload. ''digest'')\<rparr>"

definition unbound :: binding where
  "unbound = \<lparr>bound_requester = None, bound_request_digest = None, bound_context_digest = None\<rparr>"

definition sample_create :: create_args where
  "sample_create =
     \<lparr>new_id = ''a1'', new_command = ''rm'', new_shell = ''auto'', new_scope = ''dangerous_command'',
      new_reason = None, new_metadata = None, new_command_payload = None, new_requester = None,
      new_request_digest = None, new_context_digest = None, new_expires_at = Some 1000,
      new_ttl_seconds = 900\<rparr>"

definition sample_resolve :: resolve_args where
  "sample_resolve =
     \<lparr>res_decision = ''approve_once'', res_reason = None, res_metadata = None,
      res_execution_result = None, res_binding = unbound, res_rule_side_effect = None,
      res_fresh_id = ''e1''\<rparr>"

definition sample_consume :: consume_args where
  "sample_consume =
     \<lparr>con_key = ''k'', con_lease_owner = ''w'', con_binding = unbound, con_lease_seconds = 30,
      con_fresh_token = ''t''\<rparr>"

definition sample_complete :: complete_args where
  "sample_complete =
     \<lparr>com_key = ''k'', com_lease_owner = ''w'', com_lease_token = ''t'',
      com_execution_result = [], com_succeeded = True\<rparr>"

definition sample_run :: "timed_op list" where
  "sample_run =
     [(Create sample_create, 0, 0), (Resolve ''a1'' sample_resolve, 10, 10),
      (Consume ''a1'' sample_consume, 20, 20), (Complete ''a1'' sample_complete, 30, 30)]"

definition sample_db :: "nat \<Rightarrow> approval_db" where
  "sample_db n = run_ops (db_step sample_env) empty_db (take n sample_run)"

section \<open>Consume once\<close>

text \<open>C1. Whatever the interleaving of calls, an approval's execution is completed at most once: in
  the in-memory store, and in the SQLite store even when continuation reconciliation runs between
  the calls.\<close>

theorem approval_completed_at_most_once:
  "length (filter (completes i) (succeeded_ops (memory_step env) s ops)) \<le> 1
   \<and> length (filter (on_approval (completes i)) (succeeded_ops (system_step env) db sops)) \<le> 1"
  using memory.completion.at_most_once system_completion.at_most_once by blast

text \<open>An approval in a final status (rejected, expired, superseded, consumed or failed) is never
  claimed again by any later run, in either store: no second execution can start from it.\<close>

theorem final_approval_never_claimed:
  assumes "is_final (mem_status s i)" and "is_final (db_status db i)"
  shows "filter (consumes i) (succeeded_ops (memory_step env) s ops) = []
    \<and> filter (on_approval (consumes i)) (succeeded_ops (system_step env) db sops) = []"
  using memory.claim.none_when_spent [OF assms(1)] system_claim.none_when_spent [OF assms(2)]
  by blast

definition sample_memory :: memory_store where
  "sample_memory = run_ops (memory_step sample_env) empty_memory_store sample_run"

lemma sample_finals:
  "is_final (mem_status sample_memory ''a1'')" "is_final (db_status (sample_db 4) ''a1'')"
  by code_simp+

theorem final_approval_never_claimed_witness:
  "is_final (mem_status sample_memory ''a1'') \<and> is_final (db_status (sample_db 4) ''a1'')
   \<and> filter (consumes ''a1'') (succeeded_ops (memory_step sample_env) sample_memory
        [(Consume ''a1'' sample_consume, 40, 40)]) = []
   \<and> filter (on_approval (consumes ''a1'')) (succeeded_ops (system_step sample_env) (sample_db 4)
        [Approval_op (Consume ''a1'' sample_consume, 40, 40)]) = []"
  using final_approval_never_claimed [OF sample_finals] sample_finals by blast

text \<open>C10. In the SQLite store an approval is never lost and its status only moves along the edges of
  the lifecycle graph; once final it never changes.\<close>

theorem approval_status_path:
  assumes "dget (db_requests db) i = Some r"
  shows "\<exists>r'. dget (db_requests (run_ops (system_step env) db ops)) i = Some r'
    \<and> lifecycle_step\<^sup>*\<^sup>* (status r) (status r')
    \<and> (final_status (status r) \<longrightarrow> status r' = status r)"
proof -
  from system_run_rows [OF assms] obtain r'
    where "dget (db_requests (run_ops (system_step env) db ops)) i = Some r'" "row_step\<^sup>*\<^sup>* r r'"
    by blast
  with row_steps_status [of r r'] lifecycle_final_stuck show ?thesis by blast
qed

definition sample_row :: "nat \<Rightarrow> approval_row" where
  "sample_row n = the (dget (db_requests (sample_db n)) ''a1'')"

lemma sample_rows:
  "dget (db_requests (sample_db 2)) ''a1'' = Some (sample_row 2)" "status (sample_row 2) = Approved_once"
  by code_simp+

theorem approval_status_path_witness:
  "\<exists>r'. dget (db_requests (run_ops (system_step sample_env) (sample_db 2)
          [Approval_op (Consume ''a1'' sample_consume, 20, 20)])) ''a1'' = Some r'
     \<and> lifecycle_step\<^sup>*\<^sup>* Approved_once (status r')"
  using approval_status_path [OF sample_rows(1)] sample_rows(2) by metis

section \<open>Invariants of the SQLite store\<close>

text \<open>C8. Starting from an empty database, after any run every stored approval satisfies the row
  invariant: whatever was claimed, consumed or failed had been approved before it expired; a lease
  is held exactly while the status is consuming; a finished row names its execution key and time.\<close>

theorem stored_approvals_well_formed: "db_ok (run_ops (system_step env) empty_db ops)"
  by (rule system_run_ok [OF db_ok_empty])

text \<open>No two stored approvals ever share an execution idempotency key.\<close>

theorem execution_keys_unique: "unique_keys (run_ops (system_step env) empty_db ops)"
  by (rule system_run_unique [OF unique_keys_empty])

text \<open>C9. The approval revision is a version number: it never decreases along a run, and when it is
  the same the whole row is the same, so a reader that compares revisions misses no change.\<close>

theorem revision_identifies_row:
  assumes "dget (db_requests db) i = Some r"
    and "dget (db_requests (run_ops (system_step env) db ops)) i = Some r'"
  shows "revision_of r \<le> revision_of r' \<and> (revision_of r' = revision_of r \<longrightarrow> r' = r)"
  using system_run_rows [OF assms(1), of env ops] row_steps_revision [of r r'] assms(2) by auto

lemma sample_row_4:
  "dget (db_requests (run_ops (system_step sample_env) (sample_db 2)
     (map Approval_op (drop 2 sample_run)))) ''a1'' = Some (sample_row 4)"
  by code_simp

theorem revision_identifies_row_witness:
  "revision_of (sample_row 2) \<le> revision_of (sample_row 4) \<and> status (sample_row 2) = Approved_once"
  using revision_identifies_row [OF sample_rows(1) sample_row_4] sample_rows(2) by blast

section \<open>Operations\<close>

definition lease_presented :: "approval_row \<Rightarrow> complete_args \<Rightarrow> bool" where
  "lease_presented r a \<longleftrightarrow>
     status r = Consuming
     \<and> optional_string (execution_idempotency_key r) = Some (com_key a)
     \<and> optional_string (consume_lease_owner r) = Some (com_lease_owner a)
     \<and> optional_string (consume_lease_token r) = Some (com_lease_token a)"

lemma optional_string_SomeD: "optional_string v = Some s \<Longrightarrow> v = Some s"
  by (auto simp: optional_string_def split: option.splits if_splits)

lemma from_row_lease [simp]:
  "consume_lease_owner (from_row r) = optional_string (consume_lease_owner r)"
  "consume_lease_token (from_row r) = optional_string (consume_lease_token r)"
  by (simp_all add: from_row_def)

lemma db_complete_refused:
  assumes "dget (db_requests db) i = Some r" and "\<not> lease_presented r a"
  shows "\<exists>e. db_complete env db i a now = (db, Inl e)"
proof -
  have "\<exists>e. complete_approval (lifecycle_of (from_row r)) (com_key a) (com_lease_owner a)
      (com_lease_token a) (com_succeeded a) now = Inl e"
    using assms(2) by (auto simp: complete_approval_def lease_presented_def)
  then show ?thesis using assms(1) by (auto simp: db_complete_def db_get_def)
qed

lemma db_complete_accepted:
  assumes "dget (db_requests db) i = Some r" and "lease_presented r a"
  shows "\<exists>out. snd (db_complete env db i a now) = Inr out"
  using assms
  by (auto simp: db_complete_def db_get_def lease_presented_def complete_approval_def
      update_request_def required_def dget_dput dest: optional_string_SomeD)

text \<open>Completing a consumption is fenced: it succeeds exactly when the row is consuming and the
  caller presents the execution key, owner and token of the current lease, and a refused
  completion changes nothing.\<close>

theorem completion_is_fenced:
  "(if (case dget (db_requests db) i of None \<Rightarrow> False | Some r \<Rightarrow> lease_presented r a)
    then \<exists>out. snd (db_complete env db i a now) = Inr out
    else \<exists>e. db_complete env db i a now = (db, Inl e))"
  using db_complete_refused [of db i _ a env now] db_complete_accepted [of db i _ a env now]
  by (auto simp: db_complete_def db_get_def split: option.split)

definition queued_effects ::
  "store_env \<Rightarrow> string \<Rightarrow> resolve_args \<Rightarrow> instant \<Rightarrow> approval_error + store_out \<Rightarrow> side_effect list"
  where
  "queued_effects env i a now res =
     (case res of
        Inr (Item _) \<Rightarrow>
          (if res_decision a = ''approve_and_save_rule''
           then (case build_rule_side_effect env i (res_rule_side_effect a) (res_fresh_id a) now of
                   Inr e \<Rightarrow> [e] | Inl _ \<Rightarrow> [])
           else [])
      | _ \<Rightarrow> [])"

lemma expire_guarded_effects [simp]:
  "db_effects (fst (expire_guarded db i sts now e)) = db_effects db"
  "snd (expire_guarded db i sts now e) = Inl e"
  by (auto simp: expire_guarded_def update_if_matching_def update_request_def
      split: approval_error.split option.split)

lemma insert_effect_effects:
  "insert_effect db e = Inr db' \<Longrightarrow>
     map snd (db_effects db') = map snd (db_effects db) @ (case e of None \<Rightarrow> [] | Some x \<Rightarrow> [x])"
  by (auto simp: insert_effect_def dput_fresh split: option.splits if_splits)

lemma update_request_effects:
  "update_request db i p f = Some db' \<Longrightarrow> db_effects db' = db_effects db"
  by (auto simp: update_request_Some_iff)

lemma update_request_get:
  "update_request db i p f = Some db' \<Longrightarrow> dget (db_requests db') i \<noteq> None"
  by (auto simp: update_request_Some_iff dget_dput)

text \<open>Approving with a saved rule is atomic: the rule's side effect is queued exactly when the
  approval is resolved by \<open>approve_and_save_rule\<close>, once and as pending; every other outcome leaves
  the outbox as it was.\<close>

theorem rule_effect_queued_once:
  "map snd (db_effects (fst (db_resolve env db i a now now2)))
     = map snd (db_effects db) @ queued_effects env i a now (snd (db_resolve env db i a now now2))"
proof (cases "rule_effect_for env i a now")
  case eff: (Inr effect)
  have queued: "queued_effects env i a now (Inr (Item x)) = (case effect of None \<Rightarrow> [] | Some e \<Rightarrow> [e])"
    for x
    using eff
    by (cases "build_rule_side_effect env i (res_rule_side_effect a) (res_fresh_id a) now")
      (auto simp: queued_effects_def rule_effect_for_def split: if_splits)
  show ?thesis
  proof (cases "db_get db i")
    case cur: (Some current)
    show ?thesis
    proof (cases "resolve_approval (lifecycle_of current) (res_decision a) (res_binding a) now")
      case (Inl e)
      then show ?thesis by (simp add: db_resolve_def eff cur queued_effects_def)
    next
      case tr: (Inr transition)
      have step: "map snd (db_effects (fst out)) = map snd (db_effects db) @ queued_effects env i a now (snd out)"
        if out: "out = (case update_request db i p f of
            None \<Rightarrow> (db, Inl x)
          | Some db1 \<Rightarrow> (case insert_effect db1 effect of
              Inl e \<Rightarrow> (db, Inl e) | Inr db2 \<Rightarrow> required db2 i))" for p f x out
      proof (cases "update_request db i p f")
        case None
        then show ?thesis by (simp add: out queued_effects_def)
      next
        case (Some db1)
        show ?thesis
        proof (cases "insert_effect db1 effect")
          case (Inl e)
          then show ?thesis by (simp add: out Some queued_effects_def)
        next
          case (Inr db2)
          from update_request_get [OF Some] obtain r where "db_get db2 i = Some r"
            by (auto simp: db_get_def insert_effect_requests [OF Inr])
          then show ?thesis
            by (simp add: out Some Inr required_def queued insert_effect_effects [OF Inr]
                update_request_effects [OF Some])
        qed
      qed
      show ?thesis
        unfolding db_resolve_def eff cur tr sum.case option.case by (rule step) simp
    qed
  qed (simp add: db_resolve_def eff queued_effects_def)
qed (simp add: db_resolve_def queued_effects_def)

section \<open>Continuations\<close>

text \<open>C2. The model turn after a crash is one-shot: in any mixed run a continuation is claimed at
  most once and finished (continued or given up) at most once.\<close>

theorem continuation_one_shot:
  "length (filter (claims_continuation i) (succeeded_ops (system_step env) db ops)) \<le> 1
   \<and> length (filter (finishes_continuation i) (succeeded_ops (system_step env) db ops)) \<le> 1"
  using cont_claim.at_most_once cont_finish.at_most_once by blast

lemma sweep_candidate_trusted:
  "length (snd (sweep_candidate db now p)) \<le> 1
   \<and> (\<forall>c \<in> set (snd (sweep_candidate db now p)). is_trusted_continuation (cand_approval c))"
  by (auto simp: sweep_candidate_def Let_def split: option.split)

lemma sweep_candidates_trusted:
  "length (snd (sweep_candidates db now ps)) \<le> length ps
   \<and> (\<forall>c \<in> set (snd (sweep_candidates db now ps)). is_trusted_continuation (cand_approval c))"
proof (induction ps arbitrary: db)
  case (Cons p ps)
  show ?case
    using sweep_candidate_trusted [of db now p] Cons.IH [of "fst (sweep_candidate db now p)"]
    by (auto simp: split_beta)
qed simp

lemma trusted_consumed: "is_trusted_continuation a \<Longrightarrow> status a = Consumed"
  by (auto simp: is_trusted_continuation_def split: option.splits if_splits)

text \<open>Listing continuation candidates is safe: it reports at most \<open>limit\<close> of them, each a
  consumed approval whose evidence is trusted, and it never moves an approval or an existing
  continuation row.\<close>

theorem candidates_are_trusted:
  assumes "list_candidates db limit now now2 = (db', Inr found)"
  shows "int (length found) \<le> limit
    \<and> (\<forall>c \<in> set found. is_trusted_continuation (cand_approval c) \<and> status (cand_approval c) = Consumed)
    \<and> db_requests db' = db_requests db
    \<and> (\<forall>i st. cont_status_of db i = Some st \<longrightarrow> cont_status_of db' i = Some st)"
proof -
  define rows where "rows = take (nat limit)
    (sort_key (\<lambda>p. (row_updated_at (snd p) div 1000000, fst p))
      (filter (cont_selected db now) (db_requests db)))"
  have found: "0 < limit" "found = snd (sweep_candidates db now2 rows)"
    using assms by (auto simp: list_candidates_def rows_def split_beta Let_def split: if_splits)
  have "length found \<le> length rows"
    using sweep_candidates_trusted [of db now2 rows] by (simp add: found(2))
  moreover have "length rows \<le> nat limit" by (simp add: rows_def)
  ultimately have "int (length found) \<le> limit" using found(1) by linarith
  moreover have "\<forall>c \<in> set found. is_trusted_continuation (cand_approval c)"
    using sweep_candidates_trusted found(2) by simp
  moreover have "discovers db db'"
    using list_candidates_discovers [of db limit now now2] assms by simp
  ultimately show ?thesis
    using trusted_consumed unfolding discovers_def by (metis option.distinct(1))
qed

definition chat_evidence :: jdict where
  "chat_evidence =
     [(''status'', JStr ''succeeded''), (''recovery_required'', JStr ''ordinary_chat_continuation'')]"

definition chat_payload :: jdict where
  "chat_payload =
     [(''tool_name'', JStr ''shell''), (''operation_id'', JStr ''op''),
      (''arguments_digest'', JStr ''ad''),
      (''ordinary_chat_checkpoint'', JObj
        [(''source'', JStr ''ordinary_chat''), (''react_continuation'', JObj []),
         (''tool_name'', JStr ''shell''), (''operation_id'', JStr ''op''),
         (''arguments_digest'', JStr ''ad'')])]"

definition chat_metadata :: jdict where
  "chat_metadata =
     [(''approval_source'', JStr ''ordinary_chat''), (''operation_id'', JStr ''op''),
      (''arguments_digest'', JStr ''ad'')]"

definition chat_db :: approval_db where
  "chat_db = run_ops (db_step sample_env) empty_db
     [(Create (sample_create\<lparr>new_metadata := Some chat_metadata,
         new_command_payload := Some chat_payload\<rparr>), 0, 0),
      (Resolve ''a1'' sample_resolve, 10, 10), (Consume ''a1'' sample_consume, 20, 20),
      (Complete ''a1'' (sample_complete\<lparr>com_execution_result := chat_evidence\<rparr>), 30, 30)]"

definition chat_found :: "continuation_candidate list" where
  "chat_found = (case snd (list_candidates chat_db 5 40 40) of Inl _ \<Rightarrow> [] | Inr cs \<Rightarrow> cs)"

lemma chat_listed:
  "list_candidates chat_db 5 40 40 = (fst (list_candidates chat_db 5 40 40), Inr chat_found)"
  "chat_found = [hd chat_found]"
  by code_simp+

theorem candidates_are_trusted_witness:
  "int (length chat_found) \<le> 5 \<and> chat_found = [hd chat_found]
   \<and> is_trusted_continuation (cand_approval (hd chat_found))
   \<and> status (cand_approval (hd chat_found)) = Consumed"
  using candidates_are_trusted [OF chat_listed(1)] chat_listed(2) by (metis list.set_intros(1))

section \<open>Where the two stores differ\<close>

lemma resolve_expired:
  assumes "normalize_approval_decision d = Inr x" and "binding_matches s b" and "expires_at s \<le> now"
  shows "\<exists>msg. resolve_approval s d b now = Inl (ApprovalExpired msg)"
proof -
  have "validate_binding s b = Inr ()" using assms(2) by (simp add: validate_binding_Inr)
  with assms(1,3) show ?thesis
    by (simp add: resolve_approval_def raise_if_expired_def is_expired_def expired_error_def)
qed

text \<open>C11. Resolving an approval after its expiry overwrites its status in the in-memory store,
  whatever it was: even a consumed approval becomes expired. The SQLite store guards the same write
  and leaves every status but pending and approved-once alone.\<close>

theorem late_resolve_overwrites_in_memory_only:
  assumes "normalize_approval_decision (res_decision a) = Inr d"
    and "rule_effect_for env i a now = Inr effect"
    and "dget (mem_items s) i = Some m" and "binding_matches m (res_binding a)"
    and "expires_at m \<le> now"
    and "dget (db_requests db) i = Some r" and "status r \<notin> {Pending, Approved_once}"
  shows "mem_status (fst (mem_resolve env s i a now)) i = Some Expired
    \<and> db_status (fst (db_resolve env db i a now now2)) i = Some (status r)"
proof -
  obtain msg where "resolve_approval (lifecycle_of m) (res_decision a) (res_binding a) now
      = Inl (ApprovalExpired msg)"
    using resolve_expired [OF assms(1), of "lifecycle_of m" "res_binding a" now] assms(4,5) by auto
  then have mem: "mem_status (fst (mem_resolve env s i a now)) i = Some Expired"
    using assms(2,3) by (simp add: mem_resolve_def on_expired_def mem_expire_def)
  have refused: "resolve_approval (lifecycle_of (from_row r)) (res_decision a) (res_binding a) now
      \<noteq> Inr t" for t
    using assms(7) by (auto simp: resolve_approval_Inr_iff)
  then obtain e where "resolve_approval (lifecycle_of (from_row r)) (res_decision a) (res_binding a)
      now = Inl e" by (meson sum.exhaust_sel)
  then have "db_status (fst (db_resolve env db i a now now2)) i = Some (status r)"
    using assms(2,6,7)
    by (auto simp: db_resolve_def db_get_def expire_guarded_def update_if_matching_def
        update_request_def db_status_def split: approval_error.split)
  with mem show ?thesis by blast
qed

definition sample_item :: approval_request where
  "sample_item = the (dget (mem_items sample_memory) ''a1'')"

lemma late_facts:
  "normalize_approval_decision (res_decision sample_resolve) = Inr Approve_once"
  "rule_effect_for sample_env ''a1'' sample_resolve 2000 = Inr None"
  "dget (mem_items sample_memory) ''a1'' = Some sample_item"
  "dget (db_requests (sample_db 4)) ''a1'' = Some (sample_row 4)"
  "expires_at sample_item \<le> 2000" "status sample_item = Consumed" "status (sample_row 4) = Consumed"
  by code_simp+

lemma sample_unbound: "binding_matches r (res_binding sample_resolve)"
  by (simp add: binding_matches_def sample_resolve_def unbound_def)

theorem late_resolve_overwrites_in_memory_only_witness:
  "status sample_item = Consumed
   \<and> mem_status (fst (mem_resolve sample_env sample_memory ''a1'' sample_resolve 2000)) ''a1''
       = Some Expired
   \<and> db_status (fst (db_resolve sample_env (sample_db 4) ''a1'' sample_resolve 2000 2000)) ''a1''
       = Some Consumed"
  using late_resolve_overwrites_in_memory_only [OF late_facts(1,2,3) sample_unbound late_facts(5,4),
      of 2000] late_facts(6,7)
  by simp

end
