(* ===== verification/Approval_Outbox.thy ===== *)
theory Approval_Outbox
  imports Persistent_Store
begin

text \<open>
  The outbox of rule side effects (\<^verbatim>\<open>mochi/runtime/approval_side_effects.py\<close>) and its delivery worker
  (\<^verbatim>\<open>mochi/runtime/approval_side_effect_worker.py\<close>): claiming under a lease, the three marks that end a
  lease, and the delivery of a command rule into a config file by compare-and-swap.

  The table is the \<open>approval_side_effects\<close> table of the store, a dictionary by primary key. A config
  file is its rules, the applied side-effect ids and the rest as an opaque value; its revision is a
  digest that is an argument, and what other writers do to the file between a load and a save is an
  argument of each attempt.
\<close>

type_synonym outbox = "(string, side_effect) dict"

section \<open>Claims and marks\<close>

definition effect_due :: "side_effect \<Rightarrow> instant \<Rightarrow> bool" where
  "effect_due e now \<longleftrightarrow>
     effect_status e = Effect_pending
     \<or> (effect_status e = Effect_retrying
        \<and> (case lease_expires_at e of None \<Rightarrow> True | Some t \<Rightarrow> t \<le> now))"

text \<open>\<open>ORDER BY created_at, side_effect_id LIMIT 1\<close>\<close>

definition first_due :: "outbox \<Rightarrow> instant \<Rightarrow> (string \<times> side_effect) option" where
  "first_due box now =
     (case sort_key (\<lambda>p. (effect_created_at (snd p), fst p)) (filter (\<lambda>p. effect_due (snd p) now) box) of
        [] \<Rightarrow> None
      | p # _ \<Rightarrow> Some p)"

definition update_effect ::
  "outbox \<Rightarrow> string \<Rightarrow> (side_effect \<Rightarrow> bool) \<Rightarrow> (side_effect \<Rightarrow> side_effect) \<Rightarrow> outbox option" where
  "update_effect box i p f =
     (case dget box i of
        None \<Rightarrow> None
      | Some e \<Rightarrow> if p e then Some (dput box i (f e)) else None)"

definition claim_side_effect ::
  "outbox \<Rightarrow> string \<Rightarrow> int \<Rightarrow> instant \<Rightarrow> instant \<Rightarrow> outbox \<times> side_effect option" where
  "claim_side_effect box owner lease_seconds now now2 =
     (case first_due box now of
        None \<Rightarrow> (box, None)
      | Some (i, _) \<Rightarrow>
          (case update_effect box i (\<lambda>e. effect_due e now)
                  (\<lambda>e. e\<lparr>effect_status := Effect_retrying,
                         attempts := attempts e + 1,
                         lease_owner := Some owner,
                         lease_expires_at := Some (future_iso (max 1 lease_seconds) now2),
                         effect_updated_at := now\<rparr>) of
             None \<Rightarrow> (box, None)
           | Some box' \<Rightarrow> (box', dget box' i)))"

definition get_side_effect :: "outbox \<Rightarrow> string \<Rightarrow> side_effect option" where
  "get_side_effect box i = dget box i"

definition list_side_effects :: "outbox \<Rightarrow> string option \<Rightarrow> side_effect list" where
  "list_side_effects box i =
     map snd (sort_key (\<lambda>p. (effect_created_at (snd p), fst p))
       (filter (\<lambda>p. case i of None \<Rightarrow> True | Some a \<Rightarrow> effect_approval_id (snd p) = a) box))"

definition effect_transition ::
  "outbox \<Rightarrow> string \<Rightarrow> string \<Rightarrow> effect_status \<Rightarrow> string option \<Rightarrow> instant option \<Rightarrow> instant option
    \<Rightarrow> instant \<Rightarrow> outbox \<times> bool" where
  "effect_transition box i owner st err delivered retry_at now =
     (case update_effect box i
             (\<lambda>e. effect_status e = Effect_retrying \<and> lease_owner e = Some owner)
             (\<lambda>e. e\<lparr>effect_status := st,
                    lease_owner := None,
                    lease_expires_at := retry_at,
                    last_error := err,
                    delivered_at := (if delivered \<noteq> None then delivered else delivered_at e),
                    effect_updated_at := now\<rparr>) of
        None \<Rightarrow> (box, False)
      | Some box' \<Rightarrow> (box', True))"

definition mark_delivered :: "outbox \<Rightarrow> string \<Rightarrow> string \<Rightarrow> instant \<Rightarrow> instant \<Rightarrow> outbox \<times> bool" where
  "mark_delivered box i owner now now2 =
     effect_transition box i owner Effect_delivered None (Some now) None now2"

definition mark_retry ::
  "outbox \<Rightarrow> string \<Rightarrow> string \<Rightarrow> string \<Rightarrow> int \<Rightarrow> instant \<Rightarrow> instant \<Rightarrow> outbox \<times> bool" where
  "mark_retry box i owner err seconds now now2 =
     effect_transition box i owner Effect_retrying (Some err) None
       (Some (future_iso (max 1 seconds) now)) now2"

definition mark_failed :: "outbox \<Rightarrow> string \<Rightarrow> string \<Rightarrow> string \<Rightarrow> instant \<Rightarrow> outbox \<times> bool" where
  "mark_failed box i owner err now =
     effect_transition box i owner Effect_failed (Some err) None None now"

section \<open>The public projection\<close>

fun effect_status_text :: "effect_status \<Rightarrow> string" where
  "effect_status_text Effect_pending = ''pending''"
| "effect_status_text Effect_retrying = ''retrying''"
| "effect_status_text Effect_delivered = ''delivered''"
| "effect_status_text Effect_failed = ''failed''"

record rule_projection =
  rule_persistence_status :: string
  projected_side_effect_id :: "string option"
  rule_persistence_error :: "string option"

definition public_side_effect_projection ::
  "secret_registry \<Rightarrow> side_effect option \<Rightarrow> rule_projection" where
  "public_side_effect_projection secrets item =
     (case item of
        None \<Rightarrow> \<lparr>rule_persistence_status = ''not_requested'', projected_side_effect_id = None,
                 rule_persistence_error = None\<rparr>
      | Some e \<Rightarrow>
          \<lparr>rule_persistence_status = effect_status_text (effect_status e),
           projected_side_effect_id = Some (side_effect_id e),
           rule_persistence_error =
             (case redact_for_persistence secrets 4096 12
                     (JObj [(''path'', case last_error e of None \<Rightarrow> JNull | Some s \<Rightarrow> JStr s)]) of
                JObj d \<Rightarrow> as_str (jget d ''path'')
              | _ \<Rightarrow> None)\<rparr>)"

section \<open>Delivering a rule into a config file\<close>

record command_rule =
  rule_tokens :: "string list"
  rule_decision :: string
  rule_match :: string
  rule_shells :: "string list"

definition strings_of :: "json \<Rightarrow> string list option" where
  "strings_of v =
     (case v of
        JList xs \<Rightarrow>
          (if list_all (\<lambda>x. as_str x \<noteq> None) xs then Some (map (\<lambda>x. the (as_str x)) xs) else None)
      | _ \<Rightarrow> None)"

text \<open>A \<open>Literal\<close> field with a default.\<close>

definition literal_field :: "jdict \<Rightarrow> string \<Rightarrow> string list \<Rightarrow> string \<Rightarrow> string option" where
  "literal_field d k allowed default_value =
     (case dget d k of
        None \<Rightarrow> Some default_value
      | Some (JStr s) \<Rightarrow> if s \<in> set allowed then Some s else None
      | Some _ \<Rightarrow> None)"

definition validate_rule :: "jdict \<Rightarrow> command_rule option" where
  "validate_rule d =
     (case (Option.bind (dget d ''tokens'') strings_of,
            literal_field d ''decision'' [''allow''] ''allow'',
            literal_field d ''match'' [''exact'', ''prefix''] ''prefix'',
            (case dget d ''shells'' of None \<Rightarrow> Some [] | Some v \<Rightarrow> strings_of v)) of
        (Some tokens, Some decision, Some matching, Some shells) \<Rightarrow>
          (if tokens \<noteq> []
              \<and> set shells \<subseteq> set [''bash'', ''sh'', ''pwsh'', ''powershell'', ''cmd'']
           then Some \<lparr>rule_tokens = tokens, rule_decision = decision, rule_match = matching,
                      rule_shells = shells\<rparr>
           else None)
      | _ \<Rightarrow> None)"

record 'c config_file =
  command_rules :: "command_rule list"
  applied_rule_side_effect_ids :: "string list"
  config_rest :: 'c

definition apply_rule :: "'c config_file \<Rightarrow> string \<Rightarrow> command_rule \<Rightarrow> 'c config_file" where
  "apply_rule c i rule =
     (let rules = command_rules c;
          ids = applied_rule_side_effect_ids c @ [i]
      in c\<lparr>command_rules := (if rule \<in> set rules then rules else rules @ [rule]),
           applied_rule_side_effect_ids := drop (length ids - 4096) ids\<rparr>)"

text \<open>
  What happens to the file during one attempt: another process may change it between the load and
  the compare-and-swap, or reading or writing it raises \<open>OSError\<close>.
\<close>

datatype 'c attempt = Other_writer "'c config_file \<Rightarrow> 'c config_file" | Io_error

datatype delivery = Applied_rule | Revision_conflict | Os_error

fun deliver_rule ::
  "('c config_file \<Rightarrow> string) \<Rightarrow> 'c attempt list \<Rightarrow> 'c config_file \<Rightarrow> string \<Rightarrow> command_rule
    \<Rightarrow> 'c config_file \<times> delivery" where
  "deliver_rule digest [] c i rule = (c, Revision_conflict)"
| "deliver_rule digest (Io_error # as) c i rule = (c, Os_error)"
| "deliver_rule digest (Other_writer f # as) c i rule =
     (if i \<in> set (applied_rule_side_effect_ids c) then (c, Applied_rule)
      else if digest (f c) = digest c then (apply_rule c i rule, Applied_rule)
      else deliver_rule digest as (f c) i rule)"

section \<open>The worker\<close>

definition bounded_error_text :: "secret_registry \<Rightarrow> string \<Rightarrow> string" where
  "bounded_error_text secrets msg =
     (case redact_for_persistence secrets 4096 12 (JStr (take 500 msg)) of
        JStr s \<Rightarrow> s
      | _ \<Rightarrow> ''ValueError'')"

definition retry_after :: "int \<Rightarrow> int" where
  "retry_after n = min 60 (2 ^ nat (max 0 (n - 1)))"

text \<open>
  The checks before the file is touched: the kind, the payload, the rule, the target path. The
  \<open>expanduser\<close> of the path is an argument.
\<close>

definition delivery_target ::
  "(string \<Rightarrow> string) \<Rightarrow> side_effect \<Rightarrow> string + (command_rule \<times> string)" where
  "delivery_target expanduser e =
     (if effect_kind e \<noteq> ''save_command_rule''
      then Inl ''Unsupported approval side effect kind.''
      else case effect_payload e of
        JObj payload \<Rightarrow>
          (case validate_rule payload of
             None \<Rightarrow> Inl ''Command rule payload is invalid.''
           | Some rule \<Rightarrow>
               (let path = py_strip (target_config_path e)
                in if path = [] then Inl ''Target config path is missing.''
                   else Inr (rule, expanduser path)))
      | _ \<Rightarrow> Inl ''Command rule payload is missing.'')"

record 'c worker =
  worker_owner :: string
  worker_outbox :: outbox
  worker_files :: "string \<Rightarrow> 'c config_file"

definition deliver_item ::
  "secret_registry \<Rightarrow> (string \<Rightarrow> string) \<Rightarrow> ('c config_file \<Rightarrow> string) \<Rightarrow> 'c attempt list
    \<Rightarrow> 'c worker \<Rightarrow> side_effect \<Rightarrow> instant \<Rightarrow> 'c worker \<times> effect_status" where
  "deliver_item secrets expanduser digest as w e now =
     (let i = side_effect_id e; owner = worker_owner w; box = worker_outbox w in
      case delivery_target expanduser e of
        Inl msg \<Rightarrow>
          (w\<lparr>worker_outbox := fst (mark_failed box i owner (bounded_error_text secrets msg) now)\<rparr>,
           Effect_failed)
      | Inr (rule, path) \<Rightarrow>
          (let (c, outcome) = deliver_rule digest (take 4 as) (worker_files w path) i rule;
               w1 = w\<lparr>worker_files := (worker_files w)(path := c)\<rparr>
           in case outcome of
                Applied_rule \<Rightarrow>
                  (let (box', ok) = mark_delivered box i owner now now
                   in (w1\<lparr>worker_outbox := box'\<rparr>, if ok then Effect_delivered else Effect_retrying))
              | _ \<Rightarrow>
                  (let msg = (if outcome = Revision_conflict
                        then ''Config changed while saving the command rule.''
                        else ''Config persistence failed temporarily (OSError).'')
                   in if attempts e \<ge> 5
                      then (w1\<lparr>worker_outbox := fst (mark_failed box i owner msg now)\<rparr>, Effect_failed)
                      else (w1\<lparr>worker_outbox := fst (mark_retry box i owner msg
                              (retry_after (attempts e)) now now)\<rparr>, Effect_retrying))))"

text \<open>\<open>deliver_available\<close> over one database; each round has its own clock reading and attempts.\<close>

fun deliver_rounds ::
  "secret_registry \<Rightarrow> (string \<Rightarrow> string) \<Rightarrow> ('c config_file \<Rightarrow> string)
    \<Rightarrow> (instant \<times> 'c attempt list) list \<Rightarrow> 'c worker \<Rightarrow> 'c worker \<times> (string \<times> effect_status) list" where
  "deliver_rounds secrets expanduser digest [] w = (w, [])"
| "deliver_rounds secrets expanduser digest ((now, as) # rounds) w =
     (case claim_side_effect (worker_outbox w) (worker_owner w) 30 now now of
        (_, None) \<Rightarrow> (w, [])
      | (box, Some e) \<Rightarrow>
          (let (w1, st) = deliver_item secrets expanduser digest as (w\<lparr>worker_outbox := box\<rparr>) e now;
               (w2, results) = deliver_rounds secrets expanduser digest rounds w1
           in (w2, (side_effect_id e, st) # results)))"

definition deliver_available ::
  "secret_registry \<Rightarrow> (string \<Rightarrow> string) \<Rightarrow> ('c config_file \<Rightarrow> string)
    \<Rightarrow> (instant \<times> 'c attempt list) list \<Rightarrow> int \<Rightarrow> 'c worker \<Rightarrow> 'c worker \<times> (string \<times> effect_status) list"
  where
  "deliver_available secrets expanduser digest rounds max_items w =
     deliver_rounds secrets expanduser digest (take (nat (max 1 max_items)) rounds) w"

end
