(* ===== verification/Outbox_Properties.thy ===== *)
theory Outbox_Properties
  imports Approval_Outbox Runs
begin

text \<open>
  What the outbox and its worker guarantee: an effect ends (delivered or failed) at most once, only
  due effects are claimed and only the lease owner can end a lease, delivering a rule twice changes
  the config file once, and a delivery round always gives the lease back.
\<close>

section \<open>Claims\<close>

lemma update_effect_Some_iff:
  "update_effect box i p f = Some box' \<longleftrightarrow>
     (\<exists>e. dget box i = Some e \<and> p e \<and> box' = dput box i (f e))"
  by (auto simp: update_effect_def split: option.split)

lemma sorted_head_least: "sort_key k xs = p # ps \<Longrightarrow> p \<in> set xs \<and> (\<forall>q \<in> set xs. k p \<le> k q)"
proof -
  assume s: "sort_key k xs = p # ps"
  have "sorted (map k (p # ps))" by (metis s sorted_sort_key)
  moreover have "set xs = set (p # ps)" by (metis s set_sort)
  ultimately show ?thesis by auto
qed

lemma first_due_Some:
  "first_due box now = Some p \<Longrightarrow>
     p \<in> set box \<and> effect_due (snd p) now
     \<and> (\<forall>q \<in> set box. effect_due (snd q) now
          \<longrightarrow> (effect_created_at (snd p), fst p) \<le> (effect_created_at (snd q), fst q))"
proof -
  assume "first_due box now = Some p"
  then obtain ps where "sort_key (\<lambda>p. (effect_created_at (snd p), fst p))
      (filter (\<lambda>p. effect_due (snd p) now) box) = p # ps"
    unfolding first_due_def by (auto split: list.splits)
  from sorted_head_least [OF this] show ?thesis by (simp only: set_filter mem_Collect_eq) blast
qed

lemma first_due_dget:
  assumes "distinct (dkeys box)" and "first_due box now = Some (i, e)"
  shows "dget box i = Some e"
  using first_due_Some [OF assms(2)] assms(1) by auto

lemma claim_side_effect_Some:
  assumes "distinct (dkeys box)" and "claim_side_effect box owner secs now now2 = (box', Some e')"
  obtains i e where "first_due box now = Some (i, e)" "dget box i = Some e" "effect_due e now"
    "e' = e\<lparr>effect_status := Effect_retrying, attempts := attempts e + 1, lease_owner := Some owner,
           lease_expires_at := Some (future_iso (max 1 secs) now2), effect_updated_at := now\<rparr>"
    "box' = dput box i e'"
proof -
  from assms(2) obtain i e where fd: "first_due box now = Some (i, e)"
    by (auto simp: claim_side_effect_def split: option.splits)
  note e = first_due_dget [OF assms(1) fd]
  moreover have "effect_due e now" using first_due_Some [OF fd] by simp
  ultimately show ?thesis
    using that [OF fd e] assms(2) fd
    by (auto simp: claim_side_effect_def update_effect_def split: option.splits)
qed

section \<open>An effect ends once\<close>

datatype outbox_op =
    Claim_effect string int instant instant
  | Mark_delivered string string instant instant
  | Mark_retry string string string int instant instant
  | Mark_failed string string string instant

definition marked :: "outbox \<times> bool \<Rightarrow> outbox \<times> (unit + side_effect option)" where
  "marked x = (fst x, if snd x then Inr None else Inl ())"

fun outbox_step :: "outbox \<Rightarrow> outbox_op \<Rightarrow> outbox \<times> (unit + side_effect option)" where
  "outbox_step box (Claim_effect owner secs now now2) =
     (let (box', found) = claim_side_effect box owner secs now now2
      in (box', case found of None \<Rightarrow> Inl () | Some e \<Rightarrow> Inr (Some e)))"
| "outbox_step box (Mark_delivered i owner now now2) = marked (mark_delivered box i owner now now2)"
| "outbox_step box (Mark_retry i owner err secs now now2) =
     marked (mark_retry box i owner err secs now now2)"
| "outbox_step box (Mark_failed i owner err now) = marked (mark_failed box i owner err now)"

definition finished_status :: "effect_status \<Rightarrow> bool" where
  "finished_status st \<longleftrightarrow> st = Effect_delivered \<or> st = Effect_failed"

definition effect_finished :: "string \<Rightarrow> outbox \<Rightarrow> bool" where
  "effect_finished i box \<longleftrightarrow>
     (case dget box i of None \<Rightarrow> False | Some e \<Rightarrow> finished_status (effect_status e))"

definition finishes_effect :: "string \<Rightarrow> outbox_op \<Rightarrow> bool" where
  "finishes_effect i op \<longleftrightarrow>
     (case op of
        Mark_delivered j _ _ _ \<Rightarrow> i = j
      | Mark_failed j _ _ _ \<Rightarrow> i = j
      | _ \<Rightarrow> False)"

text \<open>Every update of the table needs a row that is not finished.\<close>

lemma update_effect_finished:
  "update_effect box j p f = Some box' \<Longrightarrow> effect_finished i box \<Longrightarrow>
     (\<And>e. p e \<Longrightarrow> \<not> finished_status (effect_status e)) \<Longrightarrow> effect_finished i box'"
  by (auto simp: update_effect_Some_iff effect_finished_def dget_dput split: option.splits)

lemma due_unfinished: "effect_due e now \<Longrightarrow> \<not> finished_status (effect_status e)"
  by (auto simp: effect_due_def finished_status_def)

lemma effect_transition_finished:
  "effect_finished i box \<Longrightarrow>
     effect_finished i (fst (effect_transition box j owner st err d retry_at now))"
  by (auto simp: effect_transition_def finished_status_def split: option.split
      intro: update_effect_finished)

lemma claim_side_effect_finished:
  "effect_finished i box \<Longrightarrow> effect_finished i (fst (claim_side_effect box owner secs now now2))"
  by (auto simp: claim_side_effect_def split: option.split
      elim!: update_effect_finished dest: due_unfinished)

lemmas mark_defs = mark_delivered_def mark_retry_def mark_failed_def

interpretation outbox: one_shot outbox_step "effect_finished i" "finishes_effect i" for i
proof
  fix box op
  assume "effect_finished i box"
  then show "effect_finished i (fst (outbox_step box op))"
    by (cases op)
      (auto simp: marked_def mark_defs effect_transition_finished claim_side_effect_finished split_beta)
next
  fix op box box' out
  assume "finishes_effect i op" "outbox_step box op = (box', Inr out)"
  then show "\<not> effect_finished i box"
    by (cases op)
      (auto simp: finishes_effect_def marked_def mark_defs effect_transition_def effect_finished_def
        update_effect_def finished_status_def split: option.splits if_splits)
next
  fix op box box' out
  assume "finishes_effect i op" "outbox_step box op = (box', Inr out)"
  then show "effect_finished i box'"
    by (cases op)
      (auto simp: finishes_effect_def marked_def mark_defs effect_transition_def effect_finished_def
        update_effect_Some_iff finished_status_def dget_dput split: option.splits if_splits)
qed

text \<open>C38. Whatever workers do and however leases lapse, one side effect is ended (delivered or failed)
  at most once.\<close>

theorem side_effect_ends_once:
  "length (filter (finishes_effect i) (succeeded_ops outbox_step box ops)) \<le> 1"
  by (rule outbox.at_most_once)

text \<open>A claim takes the oldest due effect: it was pending or its lease had lapsed, it becomes
  retrying under the caller's lease with one more attempt, and no other effect changes.\<close>

theorem claim_takes_oldest_due:
  assumes "distinct (dkeys box)" and "claim_side_effect box owner secs now now2 = (box', Some e')"
  shows "\<exists>i e. dget box i = Some e \<and> effect_due e now \<and> dget box' i = Some e'
    \<and> effect_status e' = Effect_retrying \<and> lease_owner e' = Some owner
    \<and> attempts e' = attempts e + 1
    \<and> (\<forall>j q. j \<noteq> i \<longrightarrow> dget box' j = dget box j)
    \<and> (\<forall>j q. dget box j = Some q \<and> effect_due q now
         \<longrightarrow> (effect_created_at e, i) \<le> (effect_created_at q, j))"
proof -
  from claim_side_effect_Some [OF assms] obtain i e where
    c: "first_due box now = Some (i, e)" "dget box i = Some e" "effect_due e now"
    "e' = e\<lparr>effect_status := Effect_retrying, attempts := attempts e + 1, lease_owner := Some owner,
           lease_expires_at := Some (future_iso (max 1 secs) now2), effect_updated_at := now\<rparr>"
    "box' = dput box i e'" .
  have "(effect_created_at e, i) \<le> (effect_created_at q, j)"
    if "dget box j = Some q" "effect_due q now" for j q
    using first_due_Some [OF c(1)] map_of_SomeD [OF that(1)] that(2) by fastforce
  then show ?thesis using c by (intro exI [of _ i] exI [of _ e]) (auto simp: dget_dput)
qed

section \<open>Delivery\<close>

lemma drop_keeps_last: "i \<in> set (drop (length (xs @ [i]) - 4096) (xs @ [i]))"
  by (simp add: drop_append)

lemma deliver_rule_applied:
  "deliver_rule digest as c i rule = (c', Applied_rule) \<Longrightarrow>
     i \<in> set (applied_rule_side_effect_ids c')"
proof (induction digest as c i rule rule: deliver_rule.induct)
  case (3 digest f as c i rule)
  then show ?case using drop_keeps_last [of i "applied_rule_side_effect_ids c"]
    by (auto simp: apply_rule_def Let_def split: if_splits)
qed auto

text \<open>Delivering a rule is idempotent: once a delivery has succeeded the effect's id is recorded
  in the config file, and delivering the same effect again, whatever other writers do, leaves the
  file exactly as it is.\<close>

theorem redelivery_changes_nothing:
  assumes "deliver_rule digest as c i rule = (c', Applied_rule)"
  shows "i \<in> set (applied_rule_side_effect_ids c')
    \<and> deliver_rule digest (Other_writer f # bs) c' i rule = (c', Applied_rule)"
  using deliver_rule_applied [OF assms] by simp

text \<open>With nobody else writing, a first delivery adds the rule and keeps every other one.\<close>

lemma deliver_undisturbed:
  "i \<notin> set (applied_rule_side_effect_ids c) \<Longrightarrow>
     deliver_rule digest (Other_writer id # as) c i rule = (apply_rule c i rule, Applied_rule)
     \<and> set (command_rules (apply_rule c i rule)) = insert rule (set (command_rules c))"
  by (auto simp: apply_rule_def Let_def)

text \<open>A delivery round always gives the lease back: the effect claimed by the worker ends in
  exactly the status the worker reports, without an owner, and after the fifth attempt that status
  is not retrying any more.\<close>

theorem delivery_gives_lease_back:
  assumes "dget (worker_outbox w) (side_effect_id e) = Some e"
    and "effect_status e = Effect_retrying" and "lease_owner e = Some (worker_owner w)"
    and "deliver_item secrets expanduser digest as w e now = (w', st)"
  shows "\<exists>e'. dget (worker_outbox w') (side_effect_id e) = Some e' \<and> effect_status e' = st
    \<and> lease_owner e' = None \<and> (5 \<le> attempts e \<longrightarrow> st \<noteq> Effect_retrying)"
proof (cases "delivery_target expanduser e")
  case (Inl msg)
  then show ?thesis
    using assms by (auto simp: deliver_item_def mark_defs effect_transition_def update_effect_def)
next
  case (Inr target)
  obtain rule path where t: "target = (rule, path)" by (cases target)
  obtain c out where d: "deliver_rule digest (take 4 as) (worker_files w path) (side_effect_id e) rule
      = (c, out)" by (cases "deliver_rule digest (take 4 as) (worker_files w path) (side_effect_id e) rule")
  show ?thesis
    using assms Inr t d
    by (cases out)
      (auto simp: deliver_item_def Let_def mark_defs effect_transition_def update_effect_def
        split: if_splits)
qed

section \<open>Witnesses\<close>

definition sample_rule :: command_rule where
  "sample_rule = \<lparr>rule_tokens = [''git'', ''status''], rule_decision = ''allow'',
     rule_match = ''prefix'', rule_shells = []\<rparr>"

definition sample_effect :: side_effect where
  "sample_effect =
     \<lparr>side_effect_id = ''e1'', effect_approval_id = ''a1'', effect_kind = ''save_command_rule'',
      effect_payload = JObj [(''tokens'', JList [JStr ''git'', JStr ''status''])],
      payload_digest = ''d'', target_config_path = ''c.yaml'', effect_status = Effect_pending,
      attempts = 0, lease_owner = None, lease_expires_at = None, last_error = None,
      effect_created_at = 5, delivered_at = None, effect_updated_at = 5\<rparr>"

definition sample_config :: "nat config_file" where
  "sample_config = \<lparr>command_rules = [], applied_rule_side_effect_ids = [], config_rest = 0\<rparr>"

definition sample_digest :: "nat config_file \<Rightarrow> string" where
  "sample_digest c = concat (applied_rule_side_effect_ids c)"

definition sample_worker :: "nat worker" where
  "sample_worker = \<lparr>worker_owner = ''w'',
     worker_outbox = fst (claim_side_effect [(''e1'', sample_effect)] ''w'' 30 10 10),
     worker_files = (\<lambda>_. sample_config)\<rparr>"

definition sample_claimed :: side_effect where
  "sample_claimed = the (dget (worker_outbox sample_worker) ''e1'')"

lemma sample_claim:
  "claim_side_effect [(''e1'', sample_effect)] ''w'' 30 10 10
     = (worker_outbox sample_worker, Some sample_claimed)"
  "distinct (dkeys [(''e1'', sample_effect)])"
  by (simp_all add: sample_worker_def sample_claimed_def claim_side_effect_def first_due_def
      effect_due_def update_effect_def sample_effect_def)

theorem claim_takes_oldest_due_witness:
  "\<exists>i e. dget [(''e1'', sample_effect)] i = Some e \<and> effect_due e 10
     \<and> attempts sample_claimed = attempts e + 1"
  using claim_takes_oldest_due [OF sample_claim(2,1)]
  by (elim exE conjE) (intro exI conjI, assumption+)

lemma sample_delivery:
  "deliver_rule sample_digest [Other_writer id] sample_config ''e1'' sample_rule
     = (apply_rule sample_config ''e1'' sample_rule, Applied_rule)"
  by (simp add: sample_config_def)

theorem redelivery_changes_nothing_witness:
  "deliver_rule sample_digest [Other_writer id] (apply_rule sample_config ''e1'' sample_rule) ''e1'' sample_rule
     = (apply_rule sample_config ''e1'' sample_rule, Applied_rule)"
  using redelivery_changes_nothing [OF sample_delivery] by blast

lemma sample_leased:
  "dget (worker_outbox sample_worker) (side_effect_id sample_claimed) = Some sample_claimed"
  "effect_status sample_claimed = Effect_retrying"
  "lease_owner sample_claimed = Some (worker_owner sample_worker)"
  by (simp_all add: sample_worker_def sample_claimed_def claim_side_effect_def first_due_def
      effect_due_def update_effect_def sample_effect_def)

theorem delivery_gives_lease_back_witness:
  "\<exists>e' w' st. deliver_item [] id sample_digest [Other_writer id] sample_worker sample_claimed 20 = (w', st)
     \<and> dget (worker_outbox w') (side_effect_id sample_claimed) = Some e' \<and> effect_status e' = st
     \<and> lease_owner e' = None"
  using delivery_gives_lease_back [OF sample_leased]
  by (cases "deliver_item [] id sample_digest [Other_writer id] sample_worker sample_claimed 20") blast

end
