(* ===== verification/Plan_Ledger.thy ===== *)
theory Plan_Ledger
  imports PyData
begin

text \<open>
  The plan ledger contract of \<^verbatim>\<open>mochi/agents/plan_ledger.py\<close>: \<open>PlanItem\<close> and \<open>PlanLedger\<close> with the
  checks of their constructors, the dependency check, serialisation, and the transition rules of
  \<open>PlanLedgerTransitionValidator\<close>. A constructor takes raw JSON values and returns the record or the
  exception; messages keep the field and leave out the offending value.
\<close>

section \<open>Items\<close>

datatype plan_item_status =
  Item_pending | Item_in_progress | Item_completed | Item_blocked | Item_cancelled

fun item_status_text :: "plan_item_status \<Rightarrow> string" where
  "item_status_text Item_pending = ''pending''"
| "item_status_text Item_in_progress = ''in_progress''"
| "item_status_text Item_completed = ''completed''"
| "item_status_text Item_blocked = ''blocked''"
| "item_status_text Item_cancelled = ''cancelled''"

text \<open>\<open>status not in frozenset\<close>: an unhashable value raises \<open>TypeError\<close>.\<close>

definition parse_text :: "('a \<Rightarrow> string) \<Rightarrow> 'a list \<Rightarrow> json \<Rightarrow> string \<Rightarrow> 'a py" where
  "parse_text text_of xs v message =
     (case v of
        JStr s \<Rightarrow> (case find (\<lambda>x. text_of x = s) xs of
                     None \<Rightarrow> Inl (ValueError message) | Some x \<Rightarrow> Inr x)
      | JList _ \<Rightarrow> Inl (TypeError ''unhashable type'')
      | JObj _ \<Rightarrow> Inl (TypeError ''unhashable type'')
      | _ \<Rightarrow> Inl (ValueError message))"

definition plan_item_statuses :: "plan_item_status list" where
  "plan_item_statuses =
     [Item_pending, Item_in_progress, Item_completed, Item_blocked, Item_cancelled]"

definition parse_item_status :: "json \<Rightarrow> plan_item_status py" where
  "parse_item_status v =
     parse_text item_status_text plan_item_statuses v ''unsupported plan item status''"

record plan_item =
  item_id :: string
  item_title :: string
  item_status :: plan_item_status
  dependencies :: "string list"
  success_criteria :: "string list"
  source_turn_ids :: "string list"
  evidence_refs :: "string list"
  blocker_reason :: "string option"
  item_attempts :: int

definition clean_text_tuple ::
  "json list \<Rightarrow> string \<Rightarrow> nat \<Rightarrow> nat \<Rightarrow> nat \<Rightarrow> string list py" where
  "clean_text_tuple values field min_items max_items max_chars =
     bindE (traverseE (\<lambda>v. clean_text v field max_chars) values) (\<lambda>cleaned.
       let xs = dedup cleaned
       in if length xs < min_items then Inl (ValueError (field @ '' must contain more items''))
          else if length xs > max_items then Inl (ValueError (field @ '' exceeds its items''))
          else Inr xs)"

definition clean_optional_text :: "json \<Rightarrow> string \<Rightarrow> nat \<Rightarrow> string option py" where
  "clean_optional_text v field max_chars =
     (if v = JNull then Inr None else bindE (clean_text v field max_chars) (\<lambda>s. Inr (Some s)))"

text \<open>\<open>PlanItem.__post_init__\<close>, with the default limits.\<close>

definition make_plan_item ::
  "json \<Rightarrow> json \<Rightarrow> json \<Rightarrow> json list \<Rightarrow> json list \<Rightarrow> json list \<Rightarrow> json list \<Rightarrow> json \<Rightarrow> json
    \<Rightarrow> plan_item py" where
  "make_plan_item raw_id raw_title raw_status raw_deps raw_criteria raw_turns raw_evidence
     raw_blocker raw_attempts =
     bindE (clean_text raw_id ''item_id'' 128) (\<lambda>i.
     bindE (clean_text raw_title ''title'' 200) (\<lambda>title.
     bindE (parse_item_status raw_status) (\<lambda>st.
     bindE (clean_text_tuple raw_deps ''dependencies'' 0 8 128) (\<lambda>deps.
     bindE (requireE (i \<notin> set deps) (ValueError ''plan item cannot depend on itself'')) (\<lambda>_.
     bindE (clean_text_tuple raw_criteria ''success_criteria'' 1 8 240) (\<lambda>criteria.
     bindE (clean_text_tuple raw_turns ''source_turn_ids'' 1 8 128) (\<lambda>turns.
     bindE (clean_text_tuple raw_evidence ''evidence_refs'' 0 8 128) (\<lambda>evidence.
     bindE (clean_optional_text raw_blocker ''blocker_reason'' 400) (\<lambda>blocker.
     bindE (clean_non_negative_int raw_attempts ''attempts'') (\<lambda>n.
     bindE (requireE (st \<noteq> Item_blocked \<or> blocker \<noteq> None)
              (ValueError ''blocked plan items require blocker_reason'')) (\<lambda>_.
     bindE (requireE (st = Item_blocked \<or> blocker = None)
              (ValueError ''only blocked plan items may carry blocker_reason'')) (\<lambda>_.
     bindE (requireE (st \<noteq> Item_completed \<or> evidence \<noteq> [])
              (ValueError ''completed plan items require evidence_refs'')) (\<lambda>_.
     bindE (requireE (st = Item_completed \<or> evidence = [])
              (ValueError ''only completed plan items may carry evidence_refs'')) (\<lambda>_.
       Inr \<lparr>item_id = i, item_title = title, item_status = st, dependencies = deps,
            success_criteria = criteria, source_turn_ids = turns, evidence_refs = evidence,
            blocker_reason = blocker, item_attempts = n\<rparr>))))))))))))))"

definition strs :: "string list \<Rightarrow> json" where
  "strs xs = JList (map JStr xs)"

definition plan_item_to_dict :: "plan_item \<Rightarrow> jdict" where
  "plan_item_to_dict i =
     [(''item_id'', JStr (item_id i)),
      (''title'', JStr (item_title i)),
      (''status'', JStr (item_status_text (item_status i))),
      (''dependencies'', strs (dependencies i)),
      (''success_criteria'', strs (success_criteria i)),
      (''source_turn_ids'', strs (source_turn_ids i)),
      (''evidence_refs'', strs (evidence_refs i)),
      (''blocker_reason'', opt_str (blocker_reason i)),
      (''attempts'', JInt (item_attempts i))]"

text \<open>\<open>tuple(value)\<close>: a string gives its characters, a dictionary its keys.\<close>

definition py_tuple :: "json \<Rightarrow> json list py" where
  "py_tuple v =
     (case v of
        JList xs \<Rightarrow> Inr xs
      | JStr s \<Rightarrow> Inr (map (\<lambda>c. JStr [c]) s)
      | JObj d \<Rightarrow> Inr (map JStr (dkeys d))
      | _ \<Rightarrow> Inl (TypeError ''object is not iterable''))"

definition plan_item_fields :: "string list" where
  "plan_item_fields = [''item_id'', ''title'', ''status'', ''dependencies'', ''success_criteria'',
     ''source_turn_ids'', ''evidence_refs'', ''blocker_reason'', ''attempts'']"

definition plan_item_from_dict :: "json \<Rightarrow> plan_item py" where
  "plan_item_from_dict v =
     (case v of
        JObj p \<Rightarrow>
          bindE (require_exact_keys p plan_item_fields ''plan item'') (\<lambda>_.
          bindE (py_tuple (jget p ''dependencies'')) (\<lambda>deps.
          bindE (py_tuple (jget p ''success_criteria'')) (\<lambda>criteria.
          bindE (py_tuple (jget p ''source_turn_ids'')) (\<lambda>turns.
          bindE (py_tuple (jget p ''evidence_refs'')) (\<lambda>evidence.
            make_plan_item (jget p ''item_id'') (jget p ''title'') (jget p ''status'')
              deps criteria turns evidence (jget p ''blocker_reason'') (jget p ''attempts''))))))
      | _ \<Rightarrow> Inl (TypeError ''plan item must be an object''))"

section \<open>The dependency check\<close>

definition find_item :: "plan_item list \<Rightarrow> string \<Rightarrow> plan_item option" where
  "find_item items i = map_of (map (\<lambda>x. (item_id x, x)) (rev items)) i"

definition item_ids :: "plan_item list \<Rightarrow> string list" where
  "item_ids items = map item_id items"

definition deps_of :: "plan_item list \<Rightarrow> string \<Rightarrow> string list" where
  "deps_of items i = (case find_item items i of None \<Rightarrow> [] | Some x \<Rightarrow> dependencies x)"

text \<open>
  The nested function \<open>visit\<close> mapped over a list of ids: \<open>visiting\<close> holds the ids on the current
  path, \<open>visited\<close> the finished ones, newest first.
\<close>

function visit_all ::
  "plan_item list \<Rightarrow> string list \<Rightarrow> string list \<Rightarrow> string list \<Rightarrow> string list py" where
  "visit_all items visiting visited [] = Inr visited"
| "visit_all items visiting visited (i # is) =
     (if i \<in> set visited then visit_all items visiting visited is
      else if i \<in> set visiting
      then Inl (ValueError ''plan ledger dependencies must be acyclic'')
      else if i \<notin> set (item_ids items) then Inl (KeyError i)
      else
        (case visit_all items (i # visiting) visited (deps_of items i) of
           Inl e \<Rightarrow> Inl e
         | Inr visited' \<Rightarrow> visit_all items visiting (i # visited') is))"
  by pat_completeness auto
termination
proof (relation "inv_image (less_than <*lex*> less_than)
    (\<lambda>(items, visiting, visited, is). (card (set (item_ids items) - set visiting), length is))",
    goal_cases)
  case (3 items visiting visited i "is")
  then have "set (item_ids items) - set (i # visiting) \<subset> set (item_ids items) - set visiting"
    by auto
  then have "card (set (item_ids items) - set (i # visiting))
      < card (set (item_ids items) - set visiting)"
    by (rule psubset_card_mono [rotated]) simp
  then show ?case by simp
qed auto

declare visit_all.simps [simp del]

definition incomplete_dependencies :: "plan_item list \<Rightarrow> plan_item \<Rightarrow> string list" where
  "incomplete_dependencies items item =
     filter (\<lambda>d. case find_item items d of
               None \<Rightarrow> True | Some x \<Rightarrow> item_status x \<noteq> Item_completed) (dependencies item)"

text \<open>The loop over the items: unknown dependencies, then incomplete ones of a running item.\<close>

fun check_dependencies :: "plan_item list \<Rightarrow> plan_item list \<Rightarrow> unit py" where
  "check_dependencies items [] = Inr ()"
| "check_dependencies items (item # rest) =
     (if \<not> set (dependencies item) \<subseteq> set (item_ids items)
      then Inl (ValueError ''unknown dependency id'')
      else if item_status item = Item_in_progress \<and> incomplete_dependencies items item \<noteq> []
      then Inl (ValueError ''in_progress items require completed dependencies'')
      else check_dependencies items rest)"

definition validate_plan_ledger_items :: "plan_item list \<Rightarrow> unit py" where
  "validate_plan_ledger_items items =
     (if \<not> distinct (item_ids items)
      then Inl (ValueError ''plan ledger item_ids must be unique'')
      else if length (filter (\<lambda>i. item_status i = Item_in_progress) items) > 1
      then Inl (ValueError ''at most one plan item may be in_progress'')
      else
        bindE (check_dependencies items items) (\<lambda>_.
        bindE (visit_all items [] [] (item_ids items)) (\<lambda>_. Inr ())))"

section \<open>Ledgers\<close>

datatype plan_status = Plan_active | Plan_completed | Plan_blocked | Plan_cancelled

fun plan_status_text :: "plan_status \<Rightarrow> string" where
  "plan_status_text Plan_active = ''active''"
| "plan_status_text Plan_completed = ''completed''"
| "plan_status_text Plan_blocked = ''blocked''"
| "plan_status_text Plan_cancelled = ''cancelled''"

definition plan_statuses :: "plan_status list" where
  "plan_statuses = [Plan_active, Plan_completed, Plan_blocked, Plan_cancelled]"

definition parse_plan_status :: "json \<Rightarrow> plan_status py" where
  "parse_plan_status v = parse_text plan_status_text plan_statuses v ''unsupported plan status''"

definition terminal_plan :: "plan_status \<Rightarrow> bool" where
  "terminal_plan s \<longleftrightarrow> s = Plan_completed \<or> s = Plan_cancelled"

definition terminal_item :: "plan_item_status \<Rightarrow> bool" where
  "terminal_item s \<longleftrightarrow> s = Item_completed \<or> s = Item_cancelled"

record plan_ledger =
  ledger_id :: string
  ledger_session_id :: string
  goal_id :: string
  ledger_revision :: int
  ledger_status :: plan_status
  objective :: string
  reason_codes :: "string list"
  ledger_items :: "plan_item list"
  created_turn_id :: string
  updated_turn_id :: string

definition plan_ledger_version :: string where
  "plan_ledger_version = ''plan-ledger-v1''"

text \<open>\<open>PlanLedger.__post_init__\<close>; the items are already constructed.\<close>

definition make_plan_ledger ::
  "json \<Rightarrow> json \<Rightarrow> json \<Rightarrow> json \<Rightarrow> json \<Rightarrow> json \<Rightarrow> json \<Rightarrow> json list \<Rightarrow> plan_item list \<Rightarrow> json \<Rightarrow> json
    \<Rightarrow> plan_ledger py" where
  "make_plan_ledger version raw_id raw_session raw_goal raw_revision raw_status raw_objective
     raw_reasons items raw_created raw_updated =
     bindE (requireE (version = JStr plan_ledger_version)
              (ValueError ''unsupported ledger_version'')) (\<lambda>_.
     bindE (clean_text raw_id ''ledger_id'' 128) (\<lambda>i.
     bindE (clean_text raw_session ''session_id'' 128) (\<lambda>session.
     bindE (clean_text raw_goal ''goal_id'' 128) (\<lambda>goal.
     bindE (clean_text raw_created ''created_turn_id'' 128) (\<lambda>created.
     bindE (clean_text raw_updated ''updated_turn_id'' 128) (\<lambda>updated.
     bindE (clean_non_negative_int raw_revision ''revision'') (\<lambda>revision.
     bindE (parse_plan_status raw_status) (\<lambda>st.
     bindE (clean_text raw_objective ''objective'' 1000) (\<lambda>obj.
     bindE (clean_text_tuple raw_reasons ''reason_codes'' 0 8 128) (\<lambda>reasons.
     bindE (requireE (items \<noteq> []) (ValueError ''plan ledger must contain at least one item'')) (\<lambda>_.
     bindE (requireE (length items \<le> 12) (ValueError ''plan ledger exceeds 12 items'')) (\<lambda>_.
     bindE (validate_plan_ledger_items items) (\<lambda>_.
     bindE (requireE (\<not> (terminal_plan st \<and> updated = created \<and> revision = 0))
              (ValueError ''terminal plan ledgers must be durably advanced'')) (\<lambda>_.
       Inr \<lparr>ledger_id = i, ledger_session_id = session, goal_id = goal,
            ledger_revision = revision, ledger_status = st, objective = obj,
            reason_codes = reasons, ledger_items = items, created_turn_id = created,
            updated_turn_id = updated\<rparr>))))))))))))))"

text \<open>\<open>dataclasses.replace\<close> runs the checks of the constructor again.\<close>

definition rebuild_ledger :: "plan_ledger \<Rightarrow> plan_ledger py" where
  "rebuild_ledger l =
     make_plan_ledger (JStr plan_ledger_version) (JStr (ledger_id l)) (JStr (ledger_session_id l))
       (JStr (goal_id l)) (JInt (ledger_revision l)) (JStr (plan_status_text (ledger_status l)))
       (JStr (objective l)) (map JStr (reason_codes l)) (ledger_items l)
       (JStr (created_turn_id l)) (JStr (updated_turn_id l))"

definition plan_ledger_to_dict :: "plan_ledger \<Rightarrow> jdict" where
  "plan_ledger_to_dict l =
     [(''ledger_version'', JStr plan_ledger_version),
      (''ledger_id'', JStr (ledger_id l)),
      (''session_id'', JStr (ledger_session_id l)),
      (''goal_id'', JStr (goal_id l)),
      (''revision'', JInt (ledger_revision l)),
      (''status'', JStr (plan_status_text (ledger_status l))),
      (''objective'', JStr (objective l)),
      (''reason_codes'', strs (reason_codes l)),
      (''items'', JList (map (\<lambda>i. JObj (plan_item_to_dict i)) (ledger_items l))),
      (''created_turn_id'', JStr (created_turn_id l)),
      (''updated_turn_id'', JStr (updated_turn_id l))]"

definition plan_ledger_fields :: "string list" where
  "plan_ledger_fields = [''ledger_version'', ''ledger_id'', ''session_id'', ''goal_id'', ''revision'',
     ''status'', ''objective'', ''reason_codes'', ''items'', ''created_turn_id'', ''updated_turn_id'']"

definition plan_ledger_from_dict :: "jdict \<Rightarrow> plan_ledger py" where
  "plan_ledger_from_dict p =
     bindE (require_exact_keys p plan_ledger_fields ''plan ledger'') (\<lambda>_.
       (case jget p ''items'' of
          JList raw_items \<Rightarrow>
            bindE (clean_text (jget p ''ledger_version'') ''ledger_version'' 64) (\<lambda>version.
            bindE (py_tuple (jget p ''reason_codes'')) (\<lambda>reasons.
            bindE (traverseE plan_item_from_dict raw_items) (\<lambda>items.
              make_plan_ledger (JStr version) (jget p ''ledger_id'') (jget p ''session_id'')
                (jget p ''goal_id'') (jget p ''revision'') (jget p ''status'') (jget p ''objective'')
                reasons items (jget p ''created_turn_id'') (jget p ''updated_turn_id''))))
        | _ \<Rightarrow> Inl (TypeError ''plan ledger items must be a list'')))"

section \<open>Transitions\<close>

text \<open>\<open>_recognized_subset\<close>: every reference must be one the host knows.\<close>

definition recognized_subset :: "string list \<Rightarrow> string list \<Rightarrow> string list py" where
  "recognized_subset recognized refs =
     bindE (traverseE (\<lambda>v. clean_string v ''evidence_ref'' 128) refs) (\<lambda>cleaned.
       if set cleaned \<subseteq> set recognized then Inr (dedup cleaned)
       else Inl (ValueError ''plan item completion requires host-recognized evidence_refs''))"

fun validate_recognized_evidence :: "string list \<Rightarrow> plan_item list \<Rightarrow> unit py" where
  "validate_recognized_evidence recognized [] = Inr ()"
| "validate_recognized_evidence recognized (i # is) =
     bindE (if item_status i = Item_completed
            then bindE (recognized_subset recognized (evidence_refs i)) (\<lambda>_. Inr ())
            else Inr ()) (\<lambda>_. validate_recognized_evidence recognized is)"

definition validate_replacement ::
  "string list \<Rightarrow> plan_ledger option \<Rightarrow> plan_ledger \<Rightarrow> unit py" where
  "validate_replacement recognized previous proposed =
     bindE (validate_recognized_evidence recognized (ledger_items proposed)) (\<lambda>_.
       case previous of
         None \<Rightarrow> Inr ()
       | Some prev \<Rightarrow>
           (if terminal_plan (ledger_status prev)
            then Inl (ValueError ''terminal plan ledgers cannot be replaced'')
            else if ledger_id prev \<noteq> ledger_id proposed
                    \<or> ledger_session_id prev \<noteq> ledger_session_id proposed
                    \<or> goal_id prev \<noteq> goal_id proposed
            then Inl (ValueError ''replacement ledger must preserve durable identity'')
            else if created_turn_id prev \<noteq> created_turn_id proposed
            then Inl (ValueError ''replacement ledger must preserve created_turn_id'')
            else if list_ex (\<lambda>i. terminal_item (item_status i)
                      \<and> find_item (ledger_items proposed) (item_id i) \<noteq> Some i) (ledger_items prev)
            then Inl (ValueError ''terminal plan item must remain unchanged in replacements'')
            else Inr ()))"

text \<open>The item \<open>set_item_status\<close> constructs in place of the addressed one.\<close>

definition item_with_status ::
  "plan_item_status \<Rightarrow> string list \<Rightarrow> string option \<Rightarrow> plan_item \<Rightarrow> plan_item py" where
  "item_with_status st evidence blocker item =
     make_plan_item (JStr (item_id item)) (JStr (item_title item)) (JStr (item_status_text st))
       (map JStr (dependencies item)) (map JStr (success_criteria item))
       (map JStr (source_turn_ids item))
       (map JStr (if st = Item_completed then evidence else []))
       (if st = Item_blocked then opt_str blocker else JNull)
       (JInt (if st = Item_in_progress \<and> item_status item \<noteq> Item_in_progress
              then item_attempts item + 1 else item_attempts item))"

text \<open>The body of the loop of \<open>set_item_status\<close> for the item that is addressed.\<close>

definition update_plan_item ::
  "plan_ledger \<Rightarrow> plan_item_status \<Rightarrow> string list \<Rightarrow> string option \<Rightarrow> plan_item \<Rightarrow> plan_item py" where
  "update_plan_item ledger st evidence blocker item =
     (if terminal_item (item_status item)
      then
        (if item_status item \<noteq> st
            \<or> evidence_refs item \<noteq> (if st = Item_completed then evidence else [])
            \<or> blocker_reason item \<noteq> (if st = Item_blocked then blocker else None)
         then Inl (ValueError ''terminal plan item cannot be mutated'')
         else Inr item)
      else if st = Item_in_progress \<and> incomplete_dependencies (ledger_items ledger) item \<noteq> []
      then Inl (ValueError ''cannot start item before dependencies complete'')
      else if st = Item_in_progress
              \<and> list_ex (\<lambda>o'. item_status o' = Item_in_progress \<and> item_id o' \<noteq> item_id item)
                  (ledger_items ledger)
      then Inl (ValueError ''at most one plan item may be in_progress'')
      else if st = Item_completed \<and> evidence = []
      then Inl (ValueError ''completed plan items require recognized evidence_refs'')
      else if st = Item_blocked \<and> blocker = None
      then Inl (ValueError ''blocked plan items require blocker_reason'')
      else if st \<noteq> Item_blocked \<and> blocker \<noteq> None
      then Inl (ValueError ''only blocked plan items may carry blocker_reason'')
      else
        item_with_status st evidence blocker item)"

definition set_item_status ::
  "string list \<Rightarrow> plan_ledger \<Rightarrow> string \<Rightarrow> string \<Rightarrow> string \<Rightarrow> string list \<Rightarrow> string option
    \<Rightarrow> plan_ledger py" where
  "set_item_status recognized ledger raw_item raw_status raw_turn refs raw_blocker =
     (if terminal_plan (ledger_status ledger)
      then Inl (ValueError ''terminal plan ledgers cannot be mutated'')
      else
     bindE (parse_item_status (JStr raw_status)) (\<lambda>st.
     bindE (clean_string raw_item ''item_id'' 128) (\<lambda>i.
     bindE (clean_string raw_turn ''updated_turn_id'' 128) (\<lambda>turn.
     bindE (clean_optional_text (opt_str raw_blocker) ''blocker_reason'' 400) (\<lambda>blocker.
     bindE (recognized_subset recognized refs) (\<lambda>evidence.
     bindE (traverseE (\<lambda>item. if item_id item \<noteq> i then Inr item
              else update_plan_item ledger st evidence blocker item) (ledger_items ledger)) (\<lambda>items.
       if i \<notin> set (item_ids (ledger_items ledger))
       then Inl (ValueError ''unknown plan item'')
       else rebuild_ledger (ledger\<lparr>ledger_items := items, updated_turn_id := turn\<rparr>))))))))"

end
