(* ===== verification/Plan_Acyclic.thy ===== *)
theory Plan_Acyclic
  imports Plan_Ledger
begin

text \<open>
  The depth-first search of \<open>validate_plan_ledger_items\<close> decides acyclicity: it fails with the cycle
  error exactly when the dependency relation of the items has a cycle, and the order in which it
  finishes the items is a topological order.
\<close>

definition depends :: "plan_item list \<Rightarrow> (string \<times> string) set" where
  "depends items = {(a, b). b \<in> set (deps_of items a)}"

text \<open>A finished list, newest first: every item comes after its dependencies.\<close>

fun topological :: "plan_item list \<Rightarrow> string list \<Rightarrow> bool" where
  "topological items [] = True"
| "topological items (x # xs) =
     (x \<notin> set xs \<and> set (deps_of items x) \<subseteq> set xs \<and> topological items xs)"

lemma topological_step:
  "topological items xs \<Longrightarrow> a \<in> set xs \<Longrightarrow> (a, b) \<in> depends items \<Longrightarrow> b \<in> set xs"
  by (induction xs) (auto simp: depends_def)

lemma topological_closed:
  assumes "topological items xs" and "x \<in> set xs" and "(x, y) \<in> (depends items)\<^sup>+"
  shows "y \<in> set xs"
  using assms(3) by (induction rule: trancl_induct) (use assms(1,2) topological_step in blast)+

lemma topological_acyclic:
  "topological items xs \<Longrightarrow> x \<in> set xs \<Longrightarrow> (x, x) \<notin> (depends items)\<^sup>+"
proof (induction xs)
  case (Cons z xs)
  show ?case
  proof (cases "x = z")
    case True
    show ?thesis
    proof
      assume "(x, x) \<in> (depends items)\<^sup>+"
      then obtain y where "(x, y) \<in> depends items" "(y, x) \<in> (depends items)\<^sup>*"
        by (meson tranclD)
      moreover from this Cons.prems(1) True have "y \<in> set xs" by (auto simp: depends_def)
      ultimately have "x \<in> set xs"
        using topological_closed [of items xs y x] Cons.prems(1)
        by (auto simp: rtrancl_eq_or_trancl)
      with True Cons.prems(1) show False by simp
    qed
  next
    case False
    with Cons show ?thesis by simp
  qed
qed simp

lemma visit_all_topological:
  "visit_all items visiting visited is = Inr out \<Longrightarrow> topological items visited \<Longrightarrow>
     set visiting \<inter> set visited = {} \<Longrightarrow>
     topological items out \<and> set visited \<union> set is \<subseteq> set out
     \<and> set visiting \<inter> set out = {}"
proof (induction items visiting visited "is" arbitrary: out rule: visit_all.induct)
  case (1 items visiting visited)
  then show ?case by (simp add: visit_all.simps)
next
  case (2 items visiting visited i "is")
  show ?case
  proof (cases "i \<in> set visited")
    case True
    then show ?thesis using 2 by (auto simp: visit_all.simps)
  next
    case False
    then have ok: "i \<notin> set visiting" "i \<in> set (item_ids items)"
      using "2.prems"(1) by (auto simp: visit_all.simps split: if_splits)
    then obtain mid where mid: "visit_all items (i # visiting) visited (deps_of items i) = Inr mid"
      "visit_all items visiting (i # mid) is = Inr out"
      using "2.prems"(1) False by (auto simp: visit_all.simps split: sum.splits)
    have "topological items mid \<and> set visited \<union> set (deps_of items i) \<subseteq> set mid
        \<and> set (i # visiting) \<inter> set mid = {}"
      using "2.IH"(2) [OF False ok(1) _ mid(1)] ok "2.prems"(2,3) False by auto
    then have "topological items (i # mid)" "set visiting \<inter> set (i # mid) = {}"
      "set visited \<subseteq> set mid"
      using ok by auto
    then show ?thesis
      using "2.IH"(3) [OF False ok(1) _ mid(1,2)] ok by auto
  qed
qed

lemma visit_all_cycle:
  "visit_all items visiting visited is = Inl e \<Longrightarrow>
     (\<And>a. set (deps_of items a) \<subseteq> set (item_ids items)) \<Longrightarrow> set is \<subseteq> set (item_ids items) \<Longrightarrow>
     (\<And>v x. v \<in> set visiting \<Longrightarrow> x \<in> set is \<Longrightarrow> (v, x) \<in> (depends items)\<^sup>+) \<Longrightarrow>
     e = ValueError ''plan ledger dependencies must be acyclic''
     \<and> (\<exists>x. (x, x) \<in> (depends items)\<^sup>+)"
proof (induction items visiting visited "is" arbitrary: e rule: visit_all.induct)
  case (1 items visiting visited)
  then show ?case by (simp add: visit_all.simps)
next
  case (2 items visiting visited i "is")
  have i: "i \<in> set (item_ids items)" using "2.prems"(3) by simp
  show ?case
  proof (cases "i \<in> set visited")
    case True
    then show ?thesis using 2 by (auto simp: visit_all.simps)
  next
    case False
    show ?thesis
    proof (cases "i \<in> set visiting")
      case True
      then show ?thesis
        using "2.prems"(1) "2.prems"(4) [OF True, of i] False by (auto simp: visit_all.simps)
    next
      case outside: False
      have path: "(v, x) \<in> (depends items)\<^sup>+"
        if "v \<in> set (i # visiting)" "x \<in> set (deps_of items i)" for v x
      proof -
        have "(i, x) \<in> depends items" using that(2) by (simp add: depends_def)
        then show ?thesis
          using that(1) "2.prems"(4) [of v i] by (auto intro: trancl_into_trancl)
      qed
      show ?thesis
      proof (cases "visit_all items (i # visiting) visited (deps_of items i)")
        case (Inl e')
        then have "e = e'"
          using "2.prems"(1) False outside i by (simp add: visit_all.simps)
        then show ?thesis
          using "2.IH"(2) [OF False outside _ Inl "2.prems"(2,2) path] i by simp
      next
        case (Inr mid)
        then have "visit_all items visiting (i # mid) is = Inl e"
          using "2.prems"(1) False outside i by (simp add: visit_all.simps)
        then show ?thesis
          using "2.IH"(3) [OF False outside _ Inr _ "2.prems"(2)] "2.prems"(3,4) i by simp
      qed
    qed
  qed
qed

section \<open>What a valid plan is\<close>

definition plan_valid :: "plan_item list \<Rightarrow> bool" where
  "plan_valid items \<longleftrightarrow>
     distinct (item_ids items)
     \<and> length (filter (\<lambda>i. item_status i = Item_in_progress) items) \<le> 1
     \<and> (\<forall>i \<in> set items. set (dependencies i) \<subseteq> set (item_ids items))
     \<and> (\<forall>i \<in> set items. item_status i = Item_in_progress
          \<longrightarrow> incomplete_dependencies items i = [])
     \<and> (\<forall>x. (x, x) \<notin> (depends items)\<^sup>+)"

lemma check_dependencies_Inr:
  "check_dependencies items rest = Inr u \<longleftrightarrow>
     (\<forall>i \<in> set rest. set (dependencies i) \<subseteq> set (item_ids items)
        \<and> (item_status i = Item_in_progress \<longrightarrow> incomplete_dependencies items i = []))"
  by (induction items rest rule: check_dependencies.induct) auto

lemma find_item_in: "find_item items i = Some x \<Longrightarrow> x \<in> set items \<and> item_id x = i"
  by (auto simp: find_item_def dest!: map_of_SomeD)

lemma deps_of_memE:
  assumes "b \<in> set (deps_of items a)"
  obtains x where "x \<in> set items" "item_id x = a" "b \<in> set (dependencies x)"
proof (cases "find_item items a")
  case (Some x)
  then show ?thesis using assms that [of x] find_item_in [OF Some] by (simp add: deps_of_def)
qed (use assms in \<open>simp add: deps_of_def\<close>)

lemma deps_of_known:
  assumes "\<forall>i \<in> set items. set (dependencies i) \<subseteq> set (item_ids items)"
  shows "set (deps_of items a) \<subseteq> set (item_ids items)"
  using assms by (blast elim: deps_of_memE)

lemma depends_source:
  assumes "(a, b) \<in> (depends items)\<^sup>+" shows "a \<in> set (item_ids items)"
proof -
  from assms obtain c where "(a, c) \<in> depends items" by (meson tranclD)
  then show ?thesis by (auto simp: depends_def item_ids_def elim!: deps_of_memE)
qed

lemma visit_all_acyclic:
  assumes "\<forall>i \<in> set items. set (dependencies i) \<subseteq> set (item_ids items)"
  shows "(\<exists>out. visit_all items [] [] (item_ids items) = Inr out)
    \<longleftrightarrow> (\<forall>x. (x, x) \<notin> (depends items)\<^sup>+)"
proof
  assume "\<exists>out. visit_all items [] [] (item_ids items) = Inr out"
  then obtain out where "topological items out" "set (item_ids items) \<subseteq> set out"
    using visit_all_topological [of items "[]" "[]" "item_ids items"] by auto
  then show "\<forall>x. (x, x) \<notin> (depends items)\<^sup>+"
    using topological_acyclic depends_source by blast
next
  assume acyclic: "\<forall>x. (x, x) \<notin> (depends items)\<^sup>+"
  show "\<exists>out. visit_all items [] [] (item_ids items) = Inr out"
  proof (cases "visit_all items [] [] (item_ids items)")
    case (Inl e)
    from visit_all_cycle [OF this deps_of_known [OF assms]] acyclic show ?thesis by auto
  qed simp
qed

lemma validate_plan_Inr_iff: "validate_plan_ledger_items items = Inr () \<longleftrightarrow> plan_valid items"
  using visit_all_acyclic [of items]
  by (auto simp: validate_plan_ledger_items_def plan_valid_def result_simps check_dependencies_Inr)

text \<open>C13. The plan check accepts exactly the well-formed plans: distinct ids, at most one running item,
  known dependencies, a running item only after its dependencies completed, and no dependency
  cycle of any length; the depth-first search finds every cycle and reports no other.\<close>

theorem plan_check_decides_validity:
  "validate_plan_ledger_items items = Inr () \<longleftrightarrow> plan_valid items"
  by (rule validate_plan_Inr_iff)

end
