(* ===== verification/Plan_Proofs.thy ===== *)
theory Plan_Proofs
  imports Plan_Acyclic
begin

text \<open>
  The constructors of the plan ledger are projections onto well-formed values (\<open>item_ok\<close>,
  \<open>ledger_ok\<close>), so serialisation round-trips, and the transitions keep what the validator promises:
  identity, terminal items, recognised evidence.
\<close>

section \<open>Well-formed values\<close>

definition tuple_ok :: "nat \<Rightarrow> nat \<Rightarrow> nat \<Rightarrow> string list \<Rightarrow> bool" where
  "tuple_ok min_items max_items n xs \<longleftrightarrow>
     distinct xs \<and> list_all (clean n) xs \<and> min_items \<le> length xs \<and> length xs \<le> max_items"

definition item_ok :: "plan_item \<Rightarrow> bool" where
  "item_ok i \<longleftrightarrow>
     clean 128 (item_id i) \<and> clean 200 (item_title i)
     \<and> tuple_ok 0 8 128 (dependencies i) \<and> item_id i \<notin> set (dependencies i)
     \<and> tuple_ok 1 8 240 (success_criteria i) \<and> tuple_ok 1 8 128 (source_turn_ids i)
     \<and> tuple_ok 0 8 128 (evidence_refs i)
     \<and> (case blocker_reason i of None \<Rightarrow> True | Some s \<Rightarrow> clean 400 s)
     \<and> 0 \<le> item_attempts i
     \<and> (item_status i = Item_blocked \<longleftrightarrow> blocker_reason i \<noteq> None)
     \<and> (item_status i = Item_completed \<longleftrightarrow> evidence_refs i \<noteq> [])"

definition ledger_ok :: "plan_ledger \<Rightarrow> bool" where
  "ledger_ok l \<longleftrightarrow>
     clean 128 (ledger_id l) \<and> clean 128 (ledger_session_id l) \<and> clean 128 (goal_id l)
     \<and> clean 128 (created_turn_id l) \<and> clean 128 (updated_turn_id l)
     \<and> 0 \<le> ledger_revision l \<and> clean 1000 (objective l)
     \<and> tuple_ok 0 8 128 (reason_codes l)
     \<and> ledger_items l \<noteq> [] \<and> length (ledger_items l) \<le> 12
     \<and> list_all item_ok (ledger_items l) \<and> plan_valid (ledger_items l)
     \<and> \<not> (terminal_plan (ledger_status l) \<and> updated_turn_id l = created_turn_id l
          \<and> ledger_revision l = 0)"

lemma clean_text_tuple_ok:
  assumes "clean_text_tuple vs f a b n = Inr xs" shows "tuple_ok a b n xs"
proof -
  obtain ys where ys: "traverseE (\<lambda>v. clean_text v f n) vs = Inr ys" "xs = dedup ys"
    "a \<le> length xs" "length xs \<le> b"
    using assms by (auto simp: clean_text_tuple_def result_simps Let_def split: if_splits)
  have "clean n y" if "y \<in> set ys" for y
    using traverseE_set [OF ys(1) that] clean_text_clean by blast
  with ys show ?thesis by (simp add: tuple_ok_def list_all_iff)
qed

lemma clean_text_tuple_ident:
  assumes "tuple_ok a b n xs" shows "clean_text_tuple (map JStr xs) f a b n = Inr xs"
proof -
  have "traverseE (\<lambda>v. clean_text v f n) (map JStr xs) = Inr xs"
    using assms by (auto simp: traverseE_map tuple_ok_def list_all_iff clean_text_ident
        intro!: traverseE_ident)
  with assms show ?thesis
    by (simp add: clean_text_tuple_def Let_def tuple_ok_def dedup_ident)
qed

lemma clean_optional_text_Inr:
  "clean_optional_text v f n = Inr r \<Longrightarrow> (case r of None \<Rightarrow> True | Some s \<Rightarrow> clean n s)"
  by (auto simp: clean_optional_text_def result_simps dest: clean_text_clean split: if_splits)

lemma clean_optional_text_ident:
  "(case r of None \<Rightarrow> True | Some s \<Rightarrow> clean n s) \<Longrightarrow>
     clean_optional_text (opt_str r) f n = Inr r"
  by (cases r) (simp_all add: clean_optional_text_def clean_text_ident)

lemma parse_item_status_text [simp]: "parse_item_status (JStr (item_status_text s)) = Inr s"
  by (cases s) (simp_all add: parse_item_status_def parse_text_def plan_item_statuses_def)

lemma parse_plan_status_text [simp]: "parse_plan_status (JStr (plan_status_text s)) = Inr s"
  by (cases s) (simp_all add: parse_plan_status_def parse_text_def plan_statuses_def)

lemmas item_checks =
  clean_text_clean clean_text_tuple_ok clean_optional_text_Inr

lemma make_plan_item_ok:
  "make_plan_item a b c d e f g h n = Inr i \<Longrightarrow> item_ok i"
  by (auto simp: make_plan_item_def result_simps item_ok_def clean_non_negative_int_Inr_iff
      dest: item_checks)

lemma make_plan_item_ident:
  "item_ok i \<Longrightarrow>
     make_plan_item (JStr (item_id i)) (JStr (item_title i))
       (JStr (item_status_text (item_status i))) (map JStr (dependencies i))
       (map JStr (success_criteria i)) (map JStr (source_turn_ids i))
       (map JStr (evidence_refs i)) (opt_str (blocker_reason i)) (JInt (item_attempts i)) = Inr i"
  by (cases "blocker_reason i")
    (auto simp: make_plan_item_def item_ok_def clean_text_ident clean_text_tuple_ident
      clean_optional_text_def clean_non_negative_int_def
      parse_item_status_text [of Item_blocked, simplified])

lemma plan_item_from_dict_ok: "plan_item_from_dict v = Inr i \<Longrightarrow> item_ok i"
  by (auto simp: plan_item_from_dict_def result_simps dest: make_plan_item_ok split: json.splits)

lemma plan_item_round_trip:
  "item_ok i \<Longrightarrow> plan_item_from_dict (JObj (plan_item_to_dict i)) = Inr i"
  by (simp add: plan_item_from_dict_def plan_item_to_dict_def require_exact_keys_def
      plan_item_fields_def jget_def strs_def py_tuple_def make_plan_item_ident insert_commute)

lemma make_plan_ledger_ok:
  assumes "make_plan_ledger v a b c d e f g items h j = Inr l" and "list_all item_ok items"
  shows "ledger_ok l"
  using assms
  by (auto simp: make_plan_ledger_def result_simps ledger_ok_def clean_non_negative_int_Inr_iff
      validate_plan_Inr_iff dest: item_checks)

lemma rebuild_ledger_ok:
  "rebuild_ledger l = Inr l' \<Longrightarrow> list_all item_ok (ledger_items l) \<Longrightarrow> ledger_ok l'"
  unfolding rebuild_ledger_def by (rule make_plan_ledger_ok)

lemma make_plan_ledger_ident:
  "ledger_ok l \<Longrightarrow>
     make_plan_ledger (JStr plan_ledger_version) (JStr (ledger_id l)) (JStr (ledger_session_id l))
       (JStr (goal_id l)) (JInt (ledger_revision l)) (JStr (plan_status_text (ledger_status l)))
       (JStr (objective l)) (map JStr (reason_codes l)) (ledger_items l)
       (JStr (created_turn_id l)) (JStr (updated_turn_id l)) = Inr l"
  by (simp add: make_plan_ledger_def ledger_ok_def clean_text_ident clean_text_tuple_ident
      clean_non_negative_int_def iffD2 [OF validate_plan_Inr_iff])

lemma rebuild_ledger_ident: "ledger_ok l \<Longrightarrow> rebuild_ledger l = Inr l"
  unfolding rebuild_ledger_def by (rule make_plan_ledger_ident)

lemma plan_ledger_from_dict_ok:
  assumes "plan_ledger_from_dict p = Inr l" shows "ledger_ok l"
proof -
  obtain raw items v a b c d e f g h j where
    "traverseE plan_item_from_dict raw = Inr items"
    "make_plan_ledger v a b c d e f g items h j = Inr l"
    using assms by (auto simp: plan_ledger_from_dict_def result_simps split: json.splits)
  then show ?thesis
    using make_plan_ledger_ok traverseE_set plan_item_from_dict_ok by (metis list_all_iff)
qed

lemma version_clean: "clean_text (JStr plan_ledger_version) f 64 = Inr plan_ledger_version"
proof -
  have "is_word plan_ledger_version"
    by (simp add: plan_ledger_version_def is_word_def py_space_def)
  then have "squeeze plan_ledger_version = plan_ledger_version"
    by (simp add: squeeze_def py_split_word py_join_def)
  then show ?thesis
    by (intro clean_text_ident) (simp add: clean_def plan_ledger_version_def)
qed

lemma plan_ledger_round_trip:
  assumes "ledger_ok l" shows "plan_ledger_from_dict (plan_ledger_to_dict l) = Inr l"
proof -
  have "traverseE plan_item_from_dict (map (\<lambda>i. JObj (plan_item_to_dict i)) (ledger_items l))
      = Inr (ledger_items l)"
    using assms by (auto simp: traverseE_map ledger_ok_def list_all_iff plan_item_round_trip
        intro!: traverseE_ident)
  then show ?thesis
    using assms
    by (simp add: plan_ledger_from_dict_def plan_ledger_to_dict_def require_exact_keys_def
        plan_ledger_fields_def jget_def version_clean strs_def py_tuple_def
        make_plan_ledger_ident insert_commute)
qed

section \<open>Transitions\<close>

lemma recognized_subset_Inr:
  "recognized_subset recognized refs = Inr out \<Longrightarrow> set out \<subseteq> set recognized"
  by (auto simp: recognized_subset_def result_simps split: if_splits)

text \<open>What \<open>set_item_status\<close> may do to one item of the plan.\<close>

definition item_moves :: "string list \<Rightarrow> plan_item \<Rightarrow> plan_item \<Rightarrow> bool" where
  "item_moves recognized x y \<longleftrightarrow>
     item_id y = item_id x \<and> item_ok y
     \<and> (terminal_item (item_status x) \<longrightarrow> y = x)
     \<and> (item_status y = Item_completed \<longrightarrow> y = x \<or> set (evidence_refs y) \<subseteq> set recognized)
     \<and> item_attempts x \<le> item_attempts y"

lemma make_plan_item_fields:
  assumes "item_ok x"
    and "make_plan_item (JStr (item_id x)) (JStr (item_title x)) st (map JStr (dependencies x))
      (map JStr (success_criteria x)) (map JStr (source_turn_ids x)) (map JStr ev) bl (JInt n) = Inr y"
  shows "item_id y = item_id x \<and> set (evidence_refs y) \<subseteq> squeeze ` set ev \<and> item_attempts y = n
    \<and> st = JStr (item_status_text (item_status y))"
proof -
  have id: "clean_text (JStr (item_id x)) ''item_id'' 128 = Inr (item_id x)"
    using assms(1) by (simp add: item_ok_def clean_text_ident)
  have evidence: "set zs \<subseteq> squeeze ` set ev"
    if "clean_text_tuple (map JStr ev) f a b m = Inr zs" for zs f a b m
  proof -
    from that obtain ys where "traverseE (\<lambda>v. clean_text v f m) (map JStr ev) = Inr ys" "set zs = set ys"
      by (auto simp: clean_text_tuple_def result_simps Let_def split: if_splits)
    then show ?thesis
      by (auto dest!: traverseE_set simp: clean_text_def clean_string_def Let_def split: if_splits)
  qed
  have status: "v = JStr (item_status_text s)" if "parse_item_status v = Inr s" for v s
    using that by (auto simp: parse_item_status_def parse_text_def find_Some_iff
        split: json.splits option.splits)
  have "item_id y = item_id x \<and> item_attempts y = n
      \<and> clean_text_tuple (map JStr ev) ''evidence_refs'' 0 8 128 = Inr (evidence_refs y)
      \<and> parse_item_status st = Inr (item_status y)"
    using assms(2) by (auto simp: make_plan_item_def result_simps id clean_non_negative_int_Inr_iff)
  with evidence status show ?thesis by blast
qed

lemma recognized_subset_clean:
  "recognized_subset recognized refs = Inr out \<Longrightarrow> list_all (clean 128) out"
  by (auto simp: recognized_subset_def result_simps list_all_iff
      dest: traverseE_set clean_string_clean split: if_splits)

lemma squeeze_clean: "list_all (clean n) xs \<Longrightarrow> squeeze ` set xs = set xs"
  by (auto simp: list_all_iff clean_def image_iff)

lemma item_with_status_moves:
  assumes "item_ok x" and "\<not> terminal_item (item_status x)"
    and made: "item_with_status st evidence blocker x = Inr y"
    and "set evidence \<subseteq> set recognized" and "list_all (clean 128) evidence"
  shows "item_moves recognized x y"
proof -
  let ?ev = "if st = Item_completed then evidence else []"
  from make_plan_item_fields [OF assms(1) made [unfolded item_with_status_def]]
  have y: "item_id y = item_id x" "set (evidence_refs y) \<subseteq> squeeze ` set ?ev"
    "item_attempts x \<le> item_attempts y"
    by (simp_all split: if_splits)
  moreover have "squeeze ` set ?ev \<subseteq> set recognized"
    using assms(4) squeeze_clean [OF assms(5)] by (cases "st = Item_completed") simp_all
  ultimately show ?thesis
    using assms(2) make_plan_item_ok [OF made [unfolded item_with_status_def]]
    by (auto simp: item_moves_def)
qed

lemma update_plan_item_Inr:
  assumes "update_plan_item l st evidence blocker x = Inr y"
  shows "if terminal_item (item_status x) then y = x
    else item_with_status st evidence blocker x = Inr y"
  using assms unfolding update_plan_item_def
  by (simp only: sum.simps split: if_splits) simp_all

lemma update_plan_item_moves:
  assumes "item_ok x" and "update_plan_item l st evidence blocker x = Inr y"
    and "set evidence \<subseteq> set recognized" and "list_all (clean 128) evidence"
  shows "item_moves recognized x y"
  using update_plan_item_Inr [OF assms(2)] item_with_status_moves [OF assms(1) _ _ assms(3,4)] assms(1)
  by (auto simp: item_moves_def split: if_splits)

lemma rebuild_ledger_fields:
  assumes "rebuild_ledger l = Inr l'" and "clean 128 (ledger_id l)"
    and "clean 128 (ledger_session_id l)" and "clean 128 (goal_id l)"
    and "clean 128 (created_turn_id l)"
  shows "ledger_items l' = ledger_items l \<and> ledger_id l' = ledger_id l
    \<and> ledger_session_id l' = ledger_session_id l \<and> goal_id l' = goal_id l
    \<and> created_turn_id l' = created_turn_id l \<and> ledger_revision l' = ledger_revision l
    \<and> ledger_status l' = ledger_status l"
  using assms
  by (auto simp: rebuild_ledger_def make_plan_ledger_def result_simps clean_text_ident
      clean_non_negative_int_Inr_iff)

lemma set_item_status_moves:
  assumes "ledger_ok l" and "set_item_status recognized l i st turn refs blocker = Inr l'"
  shows "ledger_ok l' \<and> list_all2 (item_moves recognized) (ledger_items l) (ledger_items l')
    \<and> ledger_id l' = ledger_id l \<and> ledger_session_id l' = ledger_session_id l
    \<and> goal_id l' = goal_id l \<and> created_turn_id l' = created_turn_id l
    \<and> ledger_revision l' = ledger_revision l \<and> ledger_status l' = ledger_status l"
proof -
  from assms(2) obtain s j t b ev items where
    ev: "recognized_subset recognized refs = Inr ev"
    and items: "traverseE (\<lambda>item. if item_id item \<noteq> j then Inr item
        else update_plan_item l s ev b item) (ledger_items l) = Inr items"
    and built: "rebuild_ledger (l\<lparr>ledger_items := items, updated_turn_id := t\<rparr>) = Inr l'"
    by (auto simp: set_item_status_def result_simps split: if_splits)
  have "item_moves recognized x y"
    if "x \<in> set (ledger_items l)"
      and "(if item_id x \<noteq> j then Inr x else update_plan_item l s ev b x) = Inr y" for x y
  proof -
    have "item_ok x" using assms(1) that(1) by (auto simp: ledger_ok_def list_all_iff)
    then show ?thesis
      using that(2) update_plan_item_moves [OF _ _ recognized_subset_Inr [OF ev]
          recognized_subset_clean [OF ev]]
      by (auto simp: item_moves_def split: if_splits)
  qed
  then have moved: "list_all2 (item_moves recognized) (ledger_items l) items"
    using items unfolding traverseE_Inr_iff by (auto intro: list.rel_mono_strong)
  then have "list_all item_ok items"
    by (auto simp: item_moves_def list_all2_conv_all_nth list_all_length)
  then show ?thesis
    using rebuild_ledger_ok [OF built] rebuild_ledger_fields [OF built] moved assms(1)
    by (auto simp: ledger_ok_def)
qed

end
