(* ===== verification/Failures.thy ===== *)
theory Failures
  imports PyData
begin

text \<open>
  The versioned failure envelope of \<^verbatim>\<open>mochi/agents/failures.py\<close>: its validation, the adaptation of
  legacy events to it, and \<open>normalize_persisted_failure_event\<close>, which the session store applies to
  every event it writes and reads. Python's text of a value that is not a string (\<open>str(value)\<close>) is
  the argument \<open>text_of\<close>. The lemmas show that normalisation is a projection.
\<close>

section \<open>The envelope\<close>

datatype failure_kind =
    Backend_error | Tool_error | Tool_denied | Runtime_steering | Context_overflow
  | Output_truncated | Empty_response | Invalid_tool_call | Cancelled

fun kind_text :: "failure_kind \<Rightarrow> string" where
  "kind_text Backend_error = ''backend_error''"
| "kind_text Tool_error = ''tool_error''"
| "kind_text Tool_denied = ''tool_denied''"
| "kind_text Runtime_steering = ''runtime_steering''"
| "kind_text Context_overflow = ''context_overflow''"
| "kind_text Output_truncated = ''output_truncated''"
| "kind_text Empty_response = ''empty_response''"
| "kind_text Invalid_tool_call = ''invalid_tool_call''"
| "kind_text Cancelled = ''cancelled''"

definition failure_kinds :: "string list" where
  "failure_kinds = map kind_text [Backend_error, Tool_error, Tool_denied, Runtime_steering,
     Context_overflow, Output_truncated, Empty_response, Invalid_tool_call, Cancelled]"

definition failure_origins :: "string list" where
  "failure_origins = [''agent'', ''backend'', ''runtime'', ''tool'', ''session'']"

definition retry_policies :: "string list" where
  "retry_policies = [''automatic'', ''manual'', ''none'']"

definition failure_fields :: "string list" where
  "failure_fields = [''schema_version'', ''kind'', ''origin'', ''recoverability'', ''retry_policy'',
     ''terminal'', ''inject_into_model_context'', ''telemetry_key'', ''ui_hint'', ''diagnostics_ref'']"

record failure_envelope =
  fe_schema_version :: string
  fe_kind :: string
  fe_origin :: string
  fe_recoverability :: string
  fe_retry_policy :: string
  fe_terminal :: bool
  fe_inject :: bool
  fe_telemetry_key :: string
  fe_ui_hint :: string
  fe_diagnostics_ref :: "string option"
  fe_extensions :: jdict

definition digit :: "char \<Rightarrow> bool" where
  "digit c \<longleftrightarrow> 48 \<le> (of_char c :: nat) \<and> (of_char c :: nat) \<le> 57"

definition digits_value :: "string \<Rightarrow> nat" where
  "digits_value s = foldl (\<lambda>n c. 10 * n + (of_char c - 48)) 0 s"

text \<open>\<open>^(?P<major>[0-9]+)(?:\.(?P<minor>[0-9]+))?$\<close>, matched in full.\<close>

definition version_matches :: "string \<Rightarrow> bool" where
  "version_matches s \<longleftrightarrow>
     takeWhile digit s \<noteq> []
     \<and> (case dropWhile digit s of
          [] \<Rightarrow> True
        | c # minor \<Rightarrow> c = CHR ''.'' \<and> minor \<noteq> [] \<and> list_all digit minor)"

definition validate_schema_version :: "json \<Rightarrow> string py" where
  "validate_schema_version v =
     (case v of
        JStr s \<Rightarrow>
          (if \<not> version_matches s then Inl (ValueError ''schema_version is malformed'')
           else if digits_value (takeWhile digit s) \<noteq> 1
           then Inl (ValueError (''unsupported failure-envelope major: '' @ s))
           else Inr s)
      | _ \<Rightarrow> Inl (ValueError ''schema_version must be a string''))"

text \<open>\<open>value not in frozenset\<close>: an unhashable value raises \<open>TypeError\<close>.\<close>

definition member_of :: "string list \<Rightarrow> json \<Rightarrow> string \<Rightarrow> string py" where
  "member_of allowed v message =
     (case v of
        JStr s \<Rightarrow> if s \<in> set allowed then Inr s else Inl (ValueError message)
      | JList _ \<Rightarrow> Inl (TypeError ''unhashable type: list'')
      | JObj _ \<Rightarrow> Inl (TypeError ''unhashable type: dict'')
      | _ \<Rightarrow> Inl (ValueError message))"

definition nonblank :: "json \<Rightarrow> string \<Rightarrow> string py" where
  "nonblank v message =
     (case v of
        JStr s \<Rightarrow> if py_strip s = [] then Inl (ValueError message) else Inr s
      | _ \<Rightarrow> Inl (ValueError message))"

definition boolean :: "json \<Rightarrow> string \<Rightarrow> bool py" where
  "boolean v message = (case v of JBool b \<Rightarrow> Inr b | _ \<Rightarrow> Inl (ValueError message))"

definition optional_nonblank :: "json \<Rightarrow> string \<Rightarrow> string option py" where
  "optional_nonblank v message =
     (if v = JNull then Inr None else bindE (nonblank v message) (\<lambda>s. Inr (Some s)))"

text \<open>\<open>FailureEnvelope.from_mapping\<close> with the checks of \<open>__post_init__\<close>, in their order.\<close>

definition failure_from_mapping :: "jdict \<Rightarrow> failure_envelope py" where
  "failure_from_mapping p =
     (if \<not> set failure_fields \<subseteq> set (dkeys p)
      then Inl (ValueError ''failure envelope missing required fields'')
      else
     bindE (validate_schema_version (jget p ''schema_version'')) (\<lambda>version.
     bindE (member_of failure_kinds (jget p ''kind'') ''unsupported failure kind'') (\<lambda>kind.
     bindE (member_of failure_origins (jget p ''origin'') ''unsupported failure origin'') (\<lambda>orig.
     bindE (nonblank (jget p ''recoverability'') ''recoverability must be a non-empty string'') (\<lambda>recov.
     bindE (member_of retry_policies (jget p ''retry_policy'') ''retry_policy is unsupported'') (\<lambda>policy.
     bindE (boolean (jget p ''terminal'') ''terminal must be a boolean'') (\<lambda>term.
     bindE (boolean (jget p ''inject_into_model_context'')
              ''inject_into_model_context must be a boolean'') (\<lambda>inject.
     bindE (nonblank (jget p ''telemetry_key'') ''telemetry_key must be a non-empty string'') (\<lambda>key.
     bindE (nonblank (jget p ''ui_hint'') ''ui_hint must be a non-empty string'') (\<lambda>hint.
     bindE (optional_nonblank (jget p ''diagnostics_ref'')
              ''diagnostics_ref must be null or a non-empty string'') (\<lambda>ref.
       Inr \<lparr>fe_schema_version = version, fe_kind = kind, fe_origin = orig,
            fe_recoverability = recov, fe_retry_policy = policy, fe_terminal = term,
            fe_inject = inject, fe_telemetry_key = key, fe_ui_hint = hint,
            fe_diagnostics_ref = ref,
            fe_extensions = filter (\<lambda>kv. fst kv \<notin> set failure_fields) p\<rparr>)))))))))))"

definition failure_to_dict :: "failure_envelope \<Rightarrow> jdict" where
  "failure_to_dict f =
     [(''schema_version'', JStr (fe_schema_version f)),
      (''kind'', JStr (fe_kind f)),
      (''origin'', JStr (fe_origin f)),
      (''recoverability'', JStr (fe_recoverability f)),
      (''retry_policy'', JStr (fe_retry_policy f)),
      (''terminal'', JBool (fe_terminal f)),
      (''inject_into_model_context'', JBool (fe_inject f)),
      (''telemetry_key'', JStr (fe_telemetry_key f)),
      (''ui_hint'', JStr (fe_ui_hint f)),
      (''diagnostics_ref'', opt_str (fe_diagnostics_ref f))] @ fe_extensions f"

section \<open>Legacy events\<close>

definition status_in :: "string \<Rightarrow> string list \<Rightarrow> bool" where
  "status_in s xs \<longleftrightarrow> s \<in> set xs"

definition is_cancelled :: "string \<Rightarrow> string \<Rightarrow> string \<Rightarrow> jdict \<Rightarrow> bool" where
  "is_cancelled status error_type code metadata \<longleftrightarrow>
     status = ''cancelled'' \<or> jget metadata ''cancelled'' = JBool True
     \<or> contains ''cancel'' error_type \<or> contains ''cancel'' code"

definition is_tool_denial :: "string \<Rightarrow> jdict \<Rightarrow> bool" where
  "is_tool_denial status metadata \<longleftrightarrow>
     status \<in> set [''approval_pending'', ''denied'', ''rejected'', ''blocked'']
     \<or> jget metadata ''requires_approval'' = JBool True
     \<or> as_str (jget metadata ''approval_id'') \<noteq> None"

definition origin_for :: "failure_kind \<Rightarrow> string \<Rightarrow> string \<Rightarrow> jdict \<Rightarrow> string" where
  "origin_for kind event_type error_type metadata =
     (if kind = Tool_error \<or> kind = Tool_denied then ''tool''
      else if kind = Runtime_steering then ''runtime''
      else if kind = Backend_error
      then (if contains ''backend'' error_type \<or> as_obj (jget metadata ''backend'') \<noteq> None
            then ''backend''
            else if event_type = ''error'' then ''runtime'' else ''backend'')
      else if kind = Context_overflow \<or> kind = Invalid_tool_call \<or> kind = Cancelled
      then ''runtime''
      else if kind = Empty_response then ''backend''
      else ''agent'')"

fun default_recoverability :: "failure_kind \<Rightarrow> string" where
  "default_recoverability Backend_error = ''manual_retry''"
| "default_recoverability Tool_error = ''manual_retry''"
| "default_recoverability Tool_denied = ''requires_approval''"
| "default_recoverability Runtime_steering = ''recovered''"
| "default_recoverability Context_overflow = ''requires_replanning''"
| "default_recoverability Output_truncated = ''partial''"
| "default_recoverability Empty_response = ''manual_retry''"
| "default_recoverability Invalid_tool_call = ''retryable_after_repair''"
| "default_recoverability Cancelled = ''manual_resume''"

definition event_terminal :: "failure_kind \<Rightarrow> string \<Rightarrow> jdict \<Rightarrow> bool option \<Rightarrow> bool" where
  "event_terminal kind event_type metadata explicit =
     (case explicit of
        Some b \<Rightarrow> b
      | None \<Rightarrow>
          (case jget metadata ''terminal'' of
             JBool b \<Rightarrow> b
           | _ \<Rightarrow> kind = Cancelled \<or> event_type \<in> set [''error'', ''final_answer'']))"

definition retry_policy_for :: "failure_kind \<Rightarrow> string \<Rightarrow> string" where
  "retry_policy_for kind recoverability =
     (if kind = Runtime_steering then ''none''
      else if kind = Tool_denied \<or> kind = Cancelled then ''manual''
      else if recoverability \<in> set [''retrying'', ''retryable'', ''retryable_after_repair'']
      then ''automatic''
      else ''manual'')"

fun ui_hint_for :: "failure_kind \<Rightarrow> string" where
  "ui_hint_for Backend_error = ''retry''"
| "ui_hint_for Tool_error = ''retry_tool''"
| "ui_hint_for Tool_denied = ''request_approval''"
| "ui_hint_for Runtime_steering = ''continue''"
| "ui_hint_for Context_overflow = ''reduce_context''"
| "ui_hint_for Output_truncated = ''continue''"
| "ui_hint_for Empty_response = ''retry''"
| "ui_hint_for Invalid_tool_call = ''retry''"
| "ui_hint_for Cancelled = ''resume''"

definition diagnostics_ref :: "jdict \<Rightarrow> string option" where
  "diagnostics_ref metadata =
     (case jget metadata ''diagnostics_ref'' of
        JStr s \<Rightarrow> if py_strip s = [] then None else Some (py_strip s)
      | _ \<Rightarrow> None)"

text \<open>\<open>str(value or default)\<close>\<close>

definition text_or :: "(json \<Rightarrow> string) \<Rightarrow> json \<Rightarrow> string \<Rightarrow> string" where
  "text_or text_of v default_text =
     (if \<not> truthy v then default_text else case v of JStr s \<Rightarrow> s | _ \<Rightarrow> text_of v)"

definition legacy_kind ::
  "string \<Rightarrow> string \<Rightarrow> string \<Rightarrow> string \<Rightarrow> string \<Rightarrow> string option \<Rightarrow> jdict \<Rightarrow> failure_kind option" where
  "legacy_kind event_type error_type status category code error metadata =
     (if is_cancelled status error_type code metadata then Some Cancelled
      else if status = ''runtime_steering'' \<or> category = ''runtime_steering''
      then Some Runtime_steering
      else if is_tool_denial status metadata then Some Tool_denied
      else if contains ''output_truncat'' error_type \<or> category = ''truncation''
      then Some Output_truncated
      else if contains ''empty'' error_type \<and> contains ''response'' error_type
      then Some Empty_response
      else if contains ''context'' error_type
              \<and> (contains ''overflow'' error_type \<or> contains ''limit'' error_type)
      then Some Context_overflow
      else if contains ''invalid_tool'' error_type \<or> contains ''tool_call_invalid'' error_type
      then Some Invalid_tool_call
      else if event_type \<in> set [''tool_call_result'', ''tool_call_completed'']
              \<and> (error \<notin> {None, Some []} \<or> error_type \<noteq> [])
      then Some Tool_error
      else if event_type = ''error'' then Some Backend_error
      else None)"

definition legacy_failure_envelope ::
  "(json \<Rightarrow> string) \<Rightarrow> string \<Rightarrow> string option \<Rightarrow> string option \<Rightarrow> jdict option \<Rightarrow> bool option
    \<Rightarrow> failure_envelope option py" where
  "legacy_failure_envelope text_of event_type error code metadata terminal =
     (let md = (case metadata of None \<Rightarrow> [] | Some m \<Rightarrow> m);
          etype = py_lower (py_strip event_type);
          error_type = py_lower (py_strip (text_or text_of (jget md ''error_type'') []));
          status = py_lower (py_strip (text_or text_of (jget md ''status'') []));
          category = py_lower (py_strip (text_or text_of (jget md ''runtime_category'') []));
          ncode = py_lower (py_strip (case code of None \<Rightarrow> [] | Some c \<Rightarrow> c))
      in case legacy_kind etype error_type status category ncode error md of
           None \<Rightarrow> Inr None
         | Some kind \<Rightarrow>
             (let recov = text_or text_of (jget md ''recoverability'') (default_recoverability kind)
              in if py_strip recov = []
                 then Inl (ValueError ''recoverability must be a non-empty string'')
                 else Inr (Some
                   \<lparr>fe_schema_version = ''1.0'',
                    fe_kind = kind_text kind,
                    fe_origin = origin_for kind etype error_type md,
                    fe_recoverability = recov,
                    fe_retry_policy = retry_policy_for kind recov,
                    fe_terminal = event_terminal kind etype md terminal,
                    fe_inject = kind \<in> {Tool_error, Tool_denied, Runtime_steering},
                    fe_telemetry_key = ''failure.'' @ kind_text kind,
                    fe_ui_hint = ui_hint_for kind,
                    fe_diagnostics_ref = diagnostics_ref md,
                    fe_extensions = []\<rparr>)))"

definition coerce_event_failure ::
  "(json \<Rightarrow> string) \<Rightarrow> json \<Rightarrow> string \<Rightarrow> string option \<Rightarrow> string option \<Rightarrow> jdict option \<Rightarrow> bool option
    \<Rightarrow> failure_envelope option py" where
  "coerce_event_failure text_of failure event_type error code metadata terminal =
     (case failure of
        JNull \<Rightarrow> legacy_failure_envelope text_of event_type error code metadata terminal
      | JObj p \<Rightarrow> bindE (failure_from_mapping p) (\<lambda>f. Inr (Some f))
      | _ \<Rightarrow> Inl (ValueError ''failure envelope must be an object''))"

section \<open>Persisted events\<close>

definition normalize_serialized_failure :: "(json \<Rightarrow> string) \<Rightarrow> jdict \<Rightarrow> jdict py" where
  "normalize_serialized_failure text_of event =
     (let event_type = text_or text_of (jget event ''type'') [];
          raw_error = (if truthy (jget event ''error'') then jget event ''error''
                       else jget event ''message'')
      in bindE (coerce_event_failure text_of (jget event ''failure'') event_type
                  (as_str raw_error) (as_str (jget event ''code''))
                  (as_obj (jget event ''metadata''))
                  (if event_type = ''error'' then Some True else None)) (\<lambda>failure.
           Inr (case failure of
                  None \<Rightarrow> event
                | Some f \<Rightarrow> dput event ''failure'' (JObj (failure_to_dict f)))))"

text \<open>The recursion follows the nested \<open>payload\<close>, which is smaller than the event.\<close>

lemma jget_size: "jget d k = JObj p \<Longrightarrow> size (JObj p) < size (JObj d)"
  by (induction d) (auto simp: jget_def split: if_splits)

function normalize_persisted_failure_event :: "(json \<Rightarrow> string) \<Rightarrow> jdict \<Rightarrow> jdict py" where
  "normalize_persisted_failure_event text_of event =
     (case jget event ''payload'' of
        JObj p \<Rightarrow>
          bindE (normalize_persisted_failure_event text_of p) (\<lambda>p'.
            normalize_serialized_failure text_of (dput event ''payload'' (JObj p')))
      | _ \<Rightarrow> normalize_serialized_failure text_of event)"
  by pat_completeness auto
termination
  by (relation "measure (\<lambda>(_, event). size (JObj event))") (use jget_size in auto)

declare normalize_persisted_failure_event.simps [simp del]

section \<open>Normalisation is a projection\<close>

definition envelope_ok :: "failure_envelope \<Rightarrow> bool" where
  "envelope_ok f \<longleftrightarrow>
     validate_schema_version (JStr (fe_schema_version f)) = Inr (fe_schema_version f)
     \<and> fe_kind f \<in> set failure_kinds \<and> fe_origin f \<in> set failure_origins
     \<and> fe_retry_policy f \<in> set retry_policies
     \<and> py_strip (fe_recoverability f) \<noteq> [] \<and> py_strip (fe_telemetry_key f) \<noteq> []
     \<and> py_strip (fe_ui_hint f) \<noteq> []
     \<and> (case fe_diagnostics_ref f of None \<Rightarrow> True | Some s \<Rightarrow> py_strip s \<noteq> [])
     \<and> list_all (\<lambda>kv. fst kv \<notin> set failure_fields) (fe_extensions f)"

lemma member_of_Inr: "member_of xs v m = Inr s \<longleftrightarrow> v = JStr s \<and> s \<in> set xs"
  by (auto simp: member_of_def split: json.splits)

lemma nonblank_Inr: "nonblank v m = Inr s \<longleftrightarrow> v = JStr s \<and> py_strip s \<noteq> []"
  by (auto simp: nonblank_def split: json.splits)

lemma boolean_Inr: "boolean v m = Inr b \<longleftrightarrow> v = JBool b"
  by (auto simp: boolean_def split: json.splits)

lemma optional_nonblank_Inr:
  "optional_nonblank v m = Inr r \<longleftrightarrow>
     (case r of None \<Rightarrow> v = JNull | Some s \<Rightarrow> v = JStr s \<and> py_strip s \<noteq> [])"
  by (cases r) (auto simp: optional_nonblank_def result_simps nonblank_Inr)

lemma schema_version_again:
  "validate_schema_version v = Inr s \<Longrightarrow> validate_schema_version (JStr s) = Inr s"
  by (auto simp: validate_schema_version_def split: json.splits if_splits)

lemmas check_Inr =
  member_of_Inr nonblank_Inr boolean_Inr optional_nonblank_Inr

lemma from_mapping_ok:
  assumes "failure_from_mapping p = Inr f" shows "envelope_ok f"
proof -
  have version: "validate_schema_version (jget p ''schema_version'') = Inr (fe_schema_version f)"
    using assms by (auto simp: failure_from_mapping_def result_simps split: if_splits)
  have ext: "fe_extensions f = filter (\<lambda>kv. fst kv \<notin> set failure_fields) p"
    using assms by (auto simp: failure_from_mapping_def result_simps split: if_splits)
  have "fe_kind f \<in> set failure_kinds \<and> fe_origin f \<in> set failure_origins
     \<and> fe_retry_policy f \<in> set retry_policies
     \<and> py_strip (fe_recoverability f) \<noteq> [] \<and> py_strip (fe_telemetry_key f) \<noteq> []
     \<and> py_strip (fe_ui_hint f) \<noteq> []
     \<and> (case fe_diagnostics_ref f of None \<Rightarrow> True | Some s \<Rightarrow> py_strip s \<noteq> [])"
    using assms
    by (auto simp: failure_from_mapping_def result_simps check_Inr split: if_splits option.splits)
  then show ?thesis
    using schema_version_again [OF version] by (simp add: envelope_ok_def ext list_all_iff)
qed

lemma kind_text_in: "kind_text k \<in> set failure_kinds"
  by (cases k) (simp_all add: failure_kinds_def)

lemma origin_for_in: "origin_for k et err md \<in> set failure_origins"
  by (simp add: origin_for_def failure_origins_def)

lemma retry_policy_for_in: "retry_policy_for k r \<in> set retry_policies"
  by (simp add: retry_policy_for_def retry_policies_def)

lemma not_blank: "\<not> py_space c \<Longrightarrow> py_strip (c # s) \<noteq> []"
  by (auto simp: py_strip_def dropWhile_append)

lemma telemetry_not_blank: "py_strip (''failure.'' @ kind_text k) \<noteq> []"
  using not_blank [of "CHR ''f''"] by (simp add: py_space_def)

lemma ui_hint_not_blank: "py_strip (ui_hint_for k) \<noteq> []"
  by (cases k) (simp_all add: not_blank py_space_def)

lemma diagnostics_ref_ok:
  "diagnostics_ref md = Some s \<Longrightarrow> py_strip s \<noteq> []"
  by (auto simp: diagnostics_ref_def split: json.splits if_splits)

lemma legacy_ok: "legacy_failure_envelope text_of t e c md x = Inr (Some f) \<Longrightarrow> envelope_ok f"
  by (auto simp: legacy_failure_envelope_def Let_def envelope_ok_def kind_text_in origin_for_in
      retry_policy_for_in telemetry_not_blank [simplified] ui_hint_not_blank
      validate_schema_version_def version_matches_def digit_def digits_value_def
      dest: diagnostics_ref_ok split: option.splits if_splits)

lemma coerce_ok: "coerce_event_failure text_of v t e c md x = Inr (Some f) \<Longrightarrow> envelope_ok f"
  by (auto simp: coerce_event_failure_def result_simps legacy_ok from_mapping_ok split: json.splits)

lemma extensions_lookup:
  "list_all (\<lambda>kv. fst kv \<notin> set failure_fields) ext \<Longrightarrow>
     filter (\<lambda>kv. fst kv \<notin> set failure_fields) ext = ext"
  by (induction ext) auto

lemma envelope_round_trip: "envelope_ok f \<Longrightarrow> failure_from_mapping (failure_to_dict f) = Inr f"
proof -
  assume ok: "envelope_ok f"
  have ext: "filter (\<lambda>kv. fst kv \<notin> set failure_fields) (failure_to_dict f) = fe_extensions f"
    using ok extensions_lookup [of "fe_extensions f"]
    by (simp add: failure_to_dict_def envelope_ok_def failure_fields_def)
  have keys: "set failure_fields \<subseteq> set (dkeys (failure_to_dict f))"
    by (simp add: failure_to_dict_def failure_fields_def)
  have get: "jget (failure_to_dict f) ''schema_version'' = JStr (fe_schema_version f)"
    "jget (failure_to_dict f) ''kind'' = JStr (fe_kind f)"
    "jget (failure_to_dict f) ''origin'' = JStr (fe_origin f)"
    "jget (failure_to_dict f) ''recoverability'' = JStr (fe_recoverability f)"
    "jget (failure_to_dict f) ''retry_policy'' = JStr (fe_retry_policy f)"
    "jget (failure_to_dict f) ''terminal'' = JBool (fe_terminal f)"
    "jget (failure_to_dict f) ''inject_into_model_context'' = JBool (fe_inject f)"
    "jget (failure_to_dict f) ''telemetry_key'' = JStr (fe_telemetry_key f)"
    "jget (failure_to_dict f) ''ui_hint'' = JStr (fe_ui_hint f)"
    "jget (failure_to_dict f) ''diagnostics_ref'' = opt_str (fe_diagnostics_ref f)"
    by (simp_all add: jget_def failure_to_dict_def)
  show ?thesis
    using ok
    unfolding failure_from_mapping_def get ext using keys
    by (cases "fe_diagnostics_ref f")
      (simp_all add: envelope_ok_def member_of_def nonblank_def boolean_def optional_nonblank_def)
qed

lemma dput_same: "dget d k = Some v \<Longrightarrow> dput d k v = d"
  by (induction d) (auto split: if_splits)

lemma jget_dput: "jget (dput d k v) k' = (if k' = k then v else jget d k')"
  by (simp add: jget_def dget_dput)

lemma normalize_serialized_idem:
  assumes "normalize_serialized_failure text_of event = Inr event'"
  shows "normalize_serialized_failure text_of event' = Inr event'"
proof -
  obtain r where r: "coerce_event_failure text_of (jget event ''failure'')
      (text_or text_of (jget event ''type'') [])
      (as_str (if truthy (jget event ''error'') then jget event ''error'' else jget event ''message''))
      (as_str (jget event ''code'')) (as_obj (jget event ''metadata''))
      (if text_or text_of (jget event ''type'') [] = ''error'' then Some True else None) = Inr r"
    and e': "event' = (case r of None \<Rightarrow> event
      | Some f \<Rightarrow> dput event ''failure'' (JObj (failure_to_dict f)))"
    using assms by (auto simp: normalize_serialized_failure_def Let_def result_simps)
  show ?thesis
  proof (cases r)
    case None
    then show ?thesis using assms e' by simp
  next
    case (Some f)
    have "failure_from_mapping (failure_to_dict f) = Inr f"
      using coerce_ok r Some envelope_round_trip by blast
    then show ?thesis
      using e' Some
      by (simp add: normalize_serialized_failure_def Let_def jget_dput coerce_event_failure_def)
  qed
qed

lemma normalize_serialized_payload:
  "normalize_serialized_failure text_of event = Inr event' \<Longrightarrow>
     jget event' ''payload'' = jget event ''payload''"
  by (auto simp: normalize_serialized_failure_def Let_def result_simps jget_dput split: option.splits)

lemma normalize_event_idem:
  "normalize_persisted_failure_event text_of event = Inr event' \<Longrightarrow>
     normalize_persisted_failure_event text_of event' = Inr event'"
proof (induction text_of event arbitrary: event' rule: normalize_persisted_failure_event.induct)
  case (1 text_of event)
  note step = normalize_persisted_failure_event.simps [of text_of]
  show ?case
  proof (cases "\<exists>p. jget event ''payload'' = JObj p")
    case True
    then obtain p where p: "jget event ''payload'' = JObj p" by blast
    then obtain p' where p': "normalize_persisted_failure_event text_of p = Inr p'"
      "normalize_serialized_failure text_of (dput event ''payload'' (JObj p')) = Inr event'"
      using "1.prems" step [of event] by (auto simp: result_simps)
    have payload: "jget event' ''payload'' = JObj p'"
      using normalize_serialized_payload [OF p'(2)] by (simp add: jget_dput)
    then have "dput event' ''payload'' (JObj p') = event'"
      by (intro dput_same) (simp add: jget_def split: option.splits)
    then show ?thesis
      using "1.IH" [OF p p'(1)] normalize_serialized_idem [OF p'(2)] payload
      by (simp add: step [of event'])
  next
    case False
    then have plain: "normalize_serialized_failure text_of event = Inr event'"
      using "1.prems" step [of event] by (auto split: json.splits)
    have "\<nexists>p. jget event' ''payload'' = JObj p"
      using False normalize_serialized_payload [OF plain] by simp
    then show ?thesis
      using normalize_serialized_idem [OF plain] step [of event'] by (auto split: json.split)
  qed
qed

text \<open>Normalising a persisted event is a projection: what it accepts it maps to an event it
  leaves as it is, and a failure envelope that it writes is read back as the same envelope.\<close>

theorem normalized_events_are_stable:
  assumes "normalize_persisted_failure_event text_of event = Inr event'"
  shows "normalize_persisted_failure_event text_of event' = Inr event'"
  using assms by (rule normalize_event_idem)

definition sample_error_event :: jdict where
  "sample_error_event =
     [(''type'', JStr ''error''), (''message'', JStr ''boom''),
      (''payload'', JObj [(''type'', JStr ''tool_call_result''), (''error'', JStr ''x'')])]"

definition sample_normalized :: jdict where
  "sample_normalized =
     (case normalize_persisted_failure_event (\<lambda>_. []) sample_error_event of Inl _ \<Rightarrow> [] | Inr e \<Rightarrow> e)"

lemma sample_normalizes:
  "normalize_persisted_failure_event (\<lambda>_. []) sample_error_event = Inr sample_normalized"
  "dkeys sample_normalized = [''type'', ''message'', ''payload'', ''failure'']"
  by code_simp+

theorem normalized_events_are_stable_witness:
  "dkeys sample_normalized = [''type'', ''message'', ''payload'', ''failure'']
   \<and> normalize_persisted_failure_event (\<lambda>_. []) sample_normalized = Inr sample_normalized"
  using normalized_events_are_stable [OF sample_normalizes(1)] sample_normalizes(2) by blast

end
