(* ===== verification/Session_Log.thy ===== *)
theory Session_Log
  imports Failures
begin

text \<open>
  The permissive JSONL history of \<open>SessionStore\<close> (\<^verbatim>\<open>mochi/sessions/store.py\<close>): a file is its lines, a
  line is the JSON value it parses to or text that does not parse. \<open>_load_lines\<close>, \<open>_append_line\<close> and
  \<open>_append_line_if\<close> run under the file's sidecar lock, so each is one step; the predicate of a
  conditional append sees the history the lock protects and may replace the event.

  The theory also holds the interface \<open>event_log\<close> the repositories rely on, interpreted here on the
  store's own definitions.
\<close>

datatype line = Parsed json | Unparsed string

type_synonym session_file = "line list"

definition blank_line :: "string \<Rightarrow> bool" where
  "blank_line s \<longleftrightarrow> py_strip s = []"

text \<open>Lines that do not parse, blank lines and values that are not objects are skipped.\<close>

fun load_lines :: "(json \<Rightarrow> string) \<Rightarrow> session_file \<Rightarrow> jdict list py" where
  "load_lines text_of [] = Inr []"
| "load_lines text_of (Parsed (JObj e) # ls) =
     bindE (normalize_persisted_failure_event text_of e) (\<lambda>e'.
     bindE (load_lines text_of ls) (\<lambda>es. Inr (e' # es)))"
| "load_lines text_of (_ # ls) = load_lines text_of ls"

definition append_line :: "session_file \<Rightarrow> jdict \<Rightarrow> session_file" where
  "append_line f e = f @ [Parsed (JObj e)]"

text \<open>\<open>save_event\<close> without the strict mode: normalise, then append.\<close>

definition save_event :: "(json \<Rightarrow> string) \<Rightarrow> session_file \<Rightarrow> jdict \<Rightarrow> session_file \<times> unit py" where
  "save_event text_of f event =
     (case normalize_persisted_failure_event text_of event of
        Inl e \<Rightarrow> (f, Inl e)
      | Inr event' \<Rightarrow> (append_line f event', Inr ()))"

type_synonym predicate = "jdict list \<Rightarrow> jdict option py"

definition append_line_if ::
  "(json \<Rightarrow> string) \<Rightarrow> session_file \<Rightarrow> predicate \<Rightarrow> session_file \<times> bool py" where
  "append_line_if text_of f predicate =
     (case load_lines text_of f of
        Inl e \<Rightarrow> (f, Inl e)
      | Inr events \<Rightarrow>
     (case predicate events of
        Inl e \<Rightarrow> (f, Inl e)
      | Inr None \<Rightarrow> (f, Inr False)
      | Inr (Some event) \<Rightarrow>
     (case normalize_persisted_failure_event text_of event of
        Inl e \<Rightarrow> (f, Inl e)
      | Inr event' \<Rightarrow> (append_line f event', Inr True))))"

section \<open>The interface\<close>

text \<open>
  What a repository may rely on: a conditional append that succeeds adds exactly the normal form of
  the event its predicate accepted to the history its predicate saw; every other outcome leaves the
  history as it was.
\<close>

locale event_log =
  fixes load :: "'s \<Rightarrow> jdict list py"
    and append_if :: "'s \<Rightarrow> predicate \<Rightarrow> 's \<times> bool py"
    and normal :: "jdict \<Rightarrow> jdict py"
  assumes appended:
    "append_if s p = (s', Inr True) \<Longrightarrow>
       \<exists>h e e'. load s = Inr h \<and> p h = Inr (Some e) \<and> normal e = Inr e' \<and> load s' = Inr (h @ [e'])"
    and unchanged: "append_if s p = (s', r) \<Longrightarrow> r \<noteq> Inr True \<Longrightarrow> s' = s"
    and accepted:
    "load s = Inr h \<Longrightarrow> p h = Inr (Some e) \<Longrightarrow> normal e = Inr e' \<Longrightarrow>
       \<exists>s'. append_if s p = (s', Inr True)"
begin

lemma history_grows:
  assumes "append_if s p = (s', r)" and "load s = Inr h"
  shows "\<exists>es. load s' = Inr (h @ es) \<and> length es \<le> 1"
proof (cases "r = Inr True")
  case True
  then show ?thesis using appended [of s p s'] assms by force
next
  case False
  then show ?thesis using unchanged [OF assms(1)] assms(2) by simp
qed

text \<open>A client whose predicate accepts an event that is its own normal form stores that event.\<close>

lemma stores_exactly:
  assumes "load s = Inr h" and "p h = Inr (Some e)" and "normal e = Inr e"
  shows "\<exists>s'. append_if s p = (s', Inr True) \<and> load s' = Inr (h @ [e])"
proof -
  from accepted [of s h p e e] assms obtain s' where "append_if s p = (s', Inr True)" by blast
  with appended [OF this] assms show ?thesis by auto
qed

end

lemma load_lines_append:
  "load_lines text_of (f @ [Parsed (JObj e)]) =
     bindE (load_lines text_of f) (\<lambda>es.
       bindE (normalize_persisted_failure_event text_of e) (\<lambda>e'. Inr (es @ [e'])))"
proof (induction text_of f rule: load_lines.induct)
  case (2 text_of e' ls)
  then show ?case
    by (cases "normalize_persisted_failure_event text_of e'"; cases "load_lines text_of ls";
        cases "normalize_persisted_failure_event text_of e") auto
qed auto

lemma load_append_line:
  "load_lines text_of f = Inr h \<Longrightarrow> normalize_persisted_failure_event text_of e = Inr e' \<Longrightarrow>
     load_lines text_of (append_line f e') = Inr (h @ [e'])"
  by (simp add: append_line_def load_lines_append normalize_event_idem)

interpretation session: event_log "load_lines text_of" "append_line_if text_of"
  "normalize_persisted_failure_event text_of" for text_of
  by unfold_locales
    (auto simp: append_line_if_def load_append_line
      split: sum.splits option.splits)

text \<open>A saved event is durable and nothing else is lost: after \<open>save_event\<close> the history reads back
  as the old history followed by the event's normal form, and a refused event leaves the file as
  it was.\<close>

theorem saved_event_reads_back:
  assumes "load_lines text_of f = Inr h"
  shows "case normalize_persisted_failure_event text_of event of
      Inl e \<Rightarrow> save_event text_of f event = (f, Inl e)
    | Inr event' \<Rightarrow> load_lines text_of (fst (save_event text_of f event)) = Inr (h @ [event'])"
  using assms by (simp add: save_event_def load_append_line split: sum.split)

definition sample_file :: session_file where
  "sample_file = [Parsed (JObj [(''type'', JStr ''user'')]), Unparsed ''not json'', Parsed (JInt 3)]"

lemma sample_file_loads: "load_lines (\<lambda>_. []) sample_file = Inr [[(''type'', JStr ''user'')]]"
  by code_simp

lemma sample_event_normal:
  "normalize_persisted_failure_event (\<lambda>_. []) sample_error_event = Inr sample_normalized"
  by code_simp

theorem saved_event_reads_back_witness:
  "load_lines (\<lambda>_. []) (fst (save_event (\<lambda>_. []) sample_file sample_error_event))
     = Inr [[(''type'', JStr ''user'')], sample_normalized]"
  using saved_event_reads_back [OF sample_file_loads, of sample_error_event] sample_event_normal
  by simp

end
