(* ===== verification/Versioned_Log.thy ===== *)
theory Versioned_Log
  imports Session_Log Runs
begin

text \<open>
  What the repositories over a session history share. A repository appends an event through a
  predicate that accepts it or leaves an outcome (\<open>decided_append\<close>), and derives a revision from the
  history. The locale \<open>versioned_log\<close> states what its writers promise, that only a winning write
  moves the revision and then by one, and concludes that an expected revision is won once.
\<close>

section \<open>Conditional appends with an outcome\<close>

text \<open>
  The end of a save: append under a predicate that accepts or leaves an outcome, and answer with the
  outcome when the append is rejected. The branch for a rejection without an outcome is not reached.
\<close>

lemma decided_append:
  assumes "(case append_line_if text_of f (\<lambda>events. bindE (decide events) (\<lambda>outcome.
             Inr (case outcome of None \<Rightarrow> Some ev | Some _ \<Rightarrow> None))) of
        (f', Inl e) \<Rightarrow> (f', Inl e)
      | (f', Inr True) \<Rightarrow> (f', Inr answer)
      | (f', Inr False) \<Rightarrow> (f', bindE (load_lines text_of f) (\<lambda>events.
          bindE (decide events) (\<lambda>outcome.
            case outcome of Some r \<Rightarrow> Inr r | None \<Rightarrow> lost events)))) = (f', out)"
    and "normalize_persisted_failure_event text_of ev = Inr ev"
  shows "(\<exists>h. load_lines text_of f = Inr h \<and> decide h = Inr None
        \<and> load_lines text_of f' = Inr (h @ [ev]) \<and> out = Inr answer)
    \<or> (f' = f \<and> ((\<exists>e. out = Inl e)
        \<or> (\<exists>h r. load_lines text_of f = Inr h \<and> decide h = Inr (Some r) \<and> out = Inr r)))"
proof (cases "load_lines text_of f")
  case (Inl e)
  then show ?thesis using assms(1) by (auto simp: append_line_if_def)
next
  case (Inr h)
  show ?thesis
  proof (cases "decide h")
    case (Inl e)
    then show ?thesis using assms(1) Inr by (auto simp: append_line_if_def)
  next
    case decided: (Inr outcome)
    show ?thesis
    proof (cases outcome)
      case None
      then show ?thesis using assms Inr decided load_append_line [OF Inr assms(2)]
        by (auto simp: append_line_if_def)
    next
      case (Some r)
      then show ?thesis using assms(1) Inr decided by (auto simp: append_line_if_def)
    qed
  qed
qed

text \<open>An event of a repository is stored as it is.\<close>

lemma session_meta_plain:
  assumes "jget e ''type'' = JStr ''session_meta''"
    and "jget e ''payload'' = JNull" and "jget e ''failure'' = JNull"
    and "jget e ''metadata'' = JNull" and "jget e ''code'' = JNull"
  shows "normalize_persisted_failure_event text_of e = Inr e"
proof -
  have strip: "py_lower (py_strip []) = []" "py_lower (py_strip ''session_meta'') = ''session_meta''"
    by code_simp+
  have none: "jget [] k = JNull" for k by (simp add: jget_def)
  have "legacy_failure_envelope text_of ''session_meta'' err None None None = Inr None" for err
    by (simp add: legacy_failure_envelope_def legacy_kind_def none text_or_def strip is_cancelled_def
        is_tool_denial_def)
  then show ?thesis
    using assms
    by (simp add: normalize_persisted_failure_event.simps normalize_serialized_failure_def
        coerce_event_failure_def text_or_def Let_def)
qed

text \<open>A saved event of another component is appended under its own name, or nothing changes.\<close>

lemma normalize_keeps_event:
  "normalize_persisted_failure_event text_of e = Inr e' \<Longrightarrow> jget e' ''event'' = jget e ''event''"
proof -
  have serialized: "normalize_serialized_failure text_of d = Inr d' \<Longrightarrow>
      jget d' ''event'' = jget d ''event''" for d d'
    by (auto simp: normalize_serialized_failure_def Let_def result_simps jget_dput split: option.splits)
  assume "normalize_persisted_failure_event text_of e = Inr e'"
  then show ?thesis
    by (auto simp: normalize_persisted_failure_event.simps [of text_of e] result_simps jget_dput
        dest!: serialized split: json.splits)
qed

lemma save_event_cases:
  assumes "save_event text_of f e = (f', r)"
  shows "f' = f \<or> (\<exists>x y. load_lines text_of f = Inl x \<and> load_lines text_of f' = Inl y)
    \<or> (\<exists>h e'. load_lines text_of f = Inr h \<and> jget e' ''event'' = jget e ''event''
        \<and> load_lines text_of f' = Inr (h @ [e']))"
proof (cases "normalize_persisted_failure_event text_of e")
  case (Inl x)
  then show ?thesis using assms by (simp add: save_event_def)
next
  case (Inr e')
  then have f': "f' = append_line f e'" using assms by (simp add: save_event_def)
  show ?thesis
  proof (cases "load_lines text_of f")
    case (Inl x)
    then show ?thesis by (simp add: f' append_line_def load_lines_append)
  next
    case h: (Inr h)
    then show ?thesis
      using load_append_line [OF h Inr] normalize_keeps_event [OF Inr] f' by blast
  qed
qed

section \<open>A revision is won once\<close>

text \<open>
  \<open>revision\<close> is the revision a history stands at, \<open>None\<close> when its state is invalid or written by a
  newer version, which no write repairs.
\<close>

definition revision_passed ::
  "('s \<Rightarrow> jdict list py) \<Rightarrow> (jdict list \<Rightarrow> int option) \<Rightarrow> int \<Rightarrow> 's \<Rightarrow> bool" where
  "revision_passed load revision n s \<longleftrightarrow>
     (case load s of
        Inl _ \<Rightarrow> True
      | Inr h \<Rightarrow> (case revision h of None \<Rightarrow> True | Some m \<Rightarrow> n < m))"

locale versioned_log =
  fixes load :: "'s \<Rightarrow> jdict list py"
    and revision :: "jdict list \<Rightarrow> int option"
    and step :: "'s \<Rightarrow> 'op \<Rightarrow> 's \<times> ('e + 'a)"
    and wins :: "int \<Rightarrow> 'op \<Rightarrow> bool"
  assumes moves: "step s op = (s', r) \<Longrightarrow>
      s' = s \<or> (\<exists>x y. load s = Inl x \<and> load s' = Inl y)
      \<or> (\<exists>h ev. load s = Inr h \<and> load s' = Inr (h @ [ev])
          \<and> (revision (h @ [ev]) = revision h
             \<or> (\<exists>n. revision h = Some n \<and> revision (h @ [ev]) \<in> {None, Some (n + 1)})))"
    and won: "wins n op \<Longrightarrow> step s op = (s', Inr out) \<Longrightarrow>
      \<exists>h h'. load s = Inr h \<and> load s' = Inr h' \<and> revision h = Some n
        \<and> revision h' \<in> {None, Some (n + 1)}"
begin

lemma passed_stays:
  assumes "revision_passed load revision n s"
  shows "revision_passed load revision n (fst (step s op))"
proof -
  obtain s' r where step: "step s op = (s', r)" by fastforce
  from moves [OF step] assms show ?thesis
    unfolding revision_passed_def step by (elim disjE exE conjE) auto
qed

lemma won_passes:
  "wins n op \<Longrightarrow> step s op = (s', Inr out) \<Longrightarrow>
     \<not> revision_passed load revision n s \<and> revision_passed load revision n s'"
  using won [of n op s s' out] by (auto simp: revision_passed_def)

end

sublocale versioned_log \<subseteq> cas: one_shot step "revision_passed load revision n" "wins n" for n
  by unfold_locales (use passed_stays won_passes in blast)+

end
