(* ===== verification/Plan_Repository.thy ===== *)
theory Plan_Repository
  imports Plan_Proofs Versioned_Log
begin

text \<open>
  \<open>PlanLedgerRepository\<close> of \<^verbatim>\<open>mochi/agents/plan_ledger.py\<close>: loading a ledger from a session history and
  the compare-and-swap save. \<open>save\<close> loads once before it builds the event and again, under the store's
  lock, in the predicate; the first history is the argument \<open>seen\<close>, so any interleaving with other
  writers is covered. The branch of \<open>save\<close> after a rejected append without an outcome is not
  reached, because the predicate sets an outcome whenever it rejects. Result messages are left out.
\<close>

section \<open>Loading\<close>

datatype plan_load =
  Plan_loaded plan_ledger | Plan_missing | Plan_invalid | Plan_unsupported

definition plan_ledger_event :: string where
  "plan_ledger_event = ''ordinary_chat_plan_ledger_updated''"

definition plan_event_fields :: "string list" where
  "plan_event_fields = [''type'', ''event'', ''schema_version'', ''session_id'', ''goal_id'',
     ''ledger_id'', ''ledger_revision'', ''turn_id'', ''idempotency_key'', ''plan_ledger'',
     ''timestamp'']"

text \<open>The body of the \<open>try\<close> block of \<open>_load_event\<close>.\<close>

definition parse_plan_event ::
  "string \<Rightarrow> string option \<Rightarrow> json option \<Rightarrow> jdict \<Rightarrow> plan_ledger py" where
  "parse_plan_event session goal wanted event =
     bindE (require_exact_keys event plan_event_fields ''plan ledger event'') (\<lambda>_.
     bindE (requireE (jget event ''type'' = JStr ''session_meta'')
              (ValueError ''plan ledger event type must be session_meta'')) (\<lambda>_.
     bindE (requireE (jget event ''event'' = JStr plan_ledger_event)
              (ValueError ''plan ledger event name is invalid'')) (\<lambda>_.
     bindE (requireE (jget event ''session_id'' = JStr session)
              (ValueError ''plan ledger event session_id does not match request'')) (\<lambda>_.
     bindE (requireE (case goal of None \<Rightarrow> True | Some g \<Rightarrow> jget event ''goal_id'' = JStr g)
              (ValueError ''plan ledger event goal_id does not match request'')) (\<lambda>_.
     bindE (requireE (case wanted of None \<Rightarrow> True | Some w \<Rightarrow> py_eq (jget event ''ledger_id'') w)
              (ValueError ''plan ledger event ledger_id does not match request'')) (\<lambda>_.
     bindE (clean_text (jget event ''timestamp'') ''timestamp'' 128) (\<lambda>_.
     bindE (clean_text (jget event ''turn_id'') ''turn_id'' 128) (\<lambda>_.
     bindE (clean_text (jget event ''idempotency_key'') ''idempotency_key'' 256) (\<lambda>_.
     bindE (clean_non_negative_int (jget event ''ledger_revision'') ''ledger_revision'') (\<lambda>n.
     bindE (case jget event ''plan_ledger'' of
              JObj p \<Rightarrow> plan_ledger_from_dict p
            | _ \<Rightarrow> Inl (TypeError ''plan ledger event plan_ledger must be an object'')) (\<lambda>ledger.
     bindE (requireE (ledger_session_id ledger = session
                \<and> JStr (goal_id ledger) = jget event ''goal_id'')
              (ValueError ''plan ledger payload identity does not match its envelope'')) (\<lambda>_.
     bindE (requireE (JStr (ledger_id ledger) = jget event ''ledger_id'')
              (ValueError ''plan ledger payload ledger_id does not match its envelope'')) (\<lambda>_.
     bindE (requireE (ledger_revision ledger = n)
              (ValueError ''plan ledger payload revision does not match its envelope'')) (\<lambda>_.
       Inr ledger))))))))))))))"

definition load_plan_event ::
  "string \<Rightarrow> string option \<Rightarrow> json option \<Rightarrow> jdict \<Rightarrow> plan_load" where
  "load_plan_event session goal wanted event =
     (case jget event ''schema_version'' of
        JInt version \<Rightarrow>
          (if version \<noteq> 1
           then (if version > 1 then Plan_unsupported else Plan_invalid)
           else case parse_plan_event session goal wanted event of
                  Inl _ \<Rightarrow> Plan_invalid
                | Inr ledger \<Rightarrow> Plan_loaded ledger)
      | _ \<Rightarrow> Plan_invalid)"

text \<open>The newest event of the plan decides; an id of \<open>None\<close> stands for any ledger of the goal.\<close>

definition plan_event_for :: "string \<Rightarrow> string option \<Rightarrow> jdict \<Rightarrow> bool" where
  "plan_event_for goal wanted event \<longleftrightarrow>
     jget event ''event'' = JStr plan_ledger_event
     \<and> jget event ''goal_id'' = JStr goal
     \<and> (case wanted of None \<Rightarrow> True | Some i \<Rightarrow> jget event ''ledger_id'' = JStr i)"

definition load_plan_from_events ::
  "string \<Rightarrow> string \<Rightarrow> string option \<Rightarrow> jdict list \<Rightarrow> plan_load" where
  "load_plan_from_events session goal wanted events =
     (case find (plan_event_for goal wanted) (rev events) of
        None \<Rightarrow> Plan_missing
      | Some event \<Rightarrow>
          load_plan_event session (Some goal)
            (if jget event ''ledger_id'' = JNull then None else Some (jget event ''ledger_id'')) event)"

definition load_active_plan ::
  "string \<Rightarrow> string \<Rightarrow> string option \<Rightarrow> jdict list \<Rightarrow> plan_load" where
  "load_active_plan session goal wanted events =
     (case load_plan_from_events session goal wanted events of
        Plan_loaded ledger \<Rightarrow>
          (if terminal_plan (ledger_status ledger) then Plan_missing else Plan_loaded ledger)
      | other \<Rightarrow> other)"

text \<open>\<open>list_active\<close> walks the history backwards; the ledgers found come newest first.\<close>

fun collect_active ::
  "string \<Rightarrow> string option \<Rightarrow> string list \<Rightarrow> jdict list \<Rightarrow> plan_ledger list py" where
  "collect_active session goal seen [] = Inr []"
| "collect_active session goal seen (event # rest) =
     (if jget event ''event'' \<noteq> JStr plan_ledger_event
      then collect_active session goal seen rest
      else case jget event ''ledger_id'' of
        JStr i \<Rightarrow>
          (if i \<in> set seen then collect_active session goal seen rest
           else case load_plan_event session goal (Some (JStr i)) event of
             Plan_loaded ledger \<Rightarrow>
               bindE (collect_active session goal (i # seen) rest) (\<lambda>ledgers.
                 Inr (if terminal_plan (ledger_status ledger) then ledgers else ledger # ledgers))
           | _ \<Rightarrow> Inl (ValueError ''invalid latest plan ledger event''))
      | _ \<Rightarrow> collect_active session goal seen rest)"

definition list_active_plans ::
  "string \<Rightarrow> string option \<Rightarrow> jdict list \<Rightarrow> plan_ledger list py" where
  "list_active_plans session goal events =
     bindE (collect_active session goal [] (rev events)) (\<lambda>ledgers.
       Inr (sort_key ledger_revision ledgers))"

section \<open>Saving\<close>

datatype save_status = Save_saved | Save_conflict | Save_invalid

record plan_save_result =
  save_status :: save_status
  save_expected :: int
  save_current :: int
  save_ledger :: "plan_ledger option"
  save_replay :: bool

definition loaded_revision :: "plan_load \<Rightarrow> int" where
  "loaded_revision l = (case l of Plan_loaded ledger \<Rightarrow> ledger_revision ledger | _ \<Rightarrow> 0)"

definition unusable :: "plan_load \<Rightarrow> bool" where
  "unusable l \<longleftrightarrow> l = Plan_invalid \<or> l = Plan_unsupported"

definition plan_event ::
  "plan_ledger \<Rightarrow> plan_ledger \<Rightarrow> int \<Rightarrow> string \<Rightarrow> string \<Rightarrow> string \<Rightarrow> jdict" where
  "plan_event ledger next_ledger revision turn key timestamp =
     [(''type'', JStr ''session_meta''),
      (''event'', JStr plan_ledger_event),
      (''schema_version'', JInt 1),
      (''session_id'', JStr (ledger_session_id ledger)),
      (''goal_id'', JStr (goal_id ledger)),
      (''ledger_id'', JStr (ledger_id ledger)),
      (''ledger_revision'', JInt revision),
      (''turn_id'', JStr turn),
      (''idempotency_key'', JStr key),
      (''plan_ledger'', JObj (plan_ledger_to_dict next_ledger)),
      (''timestamp'', JStr timestamp)]"

definition find_idempotent_event ::
  "jdict list \<Rightarrow> string \<Rightarrow> string \<Rightarrow> string \<Rightarrow> string \<Rightarrow> jdict option" where
  "find_idempotent_event events session goal ledger key =
     find (\<lambda>event. jget event ''event'' = JStr plan_ledger_event
             \<and> jget event ''session_id'' = JStr session
             \<and> jget event ''goal_id'' = JStr goal
             \<and> jget event ''ledger_id'' = JStr ledger
             \<and> jget event ''idempotency_key'' = JStr key) (rev events)"

definition events_match_for_idempotency :: "jdict \<Rightarrow> jdict \<Rightarrow> bool" where
  "events_match_for_idempotency persisted candidate \<longleftrightarrow>
     set (dkeys persisted) = set (dkeys candidate)
     \<and> list_all (\<lambda>k. py_eq (jget persisted k) (jget candidate k))
         (filter (\<lambda>k. k \<noteq> ''timestamp'') plan_event_fields)"

text \<open>
  The predicate of \<open>save\<close>: either it accepts, or it leaves an outcome. \<open>seen_revision\<close> is the
  revision of the first load.
\<close>

definition decide_save ::
  "plan_ledger \<Rightarrow> plan_ledger \<Rightarrow> int \<Rightarrow> int \<Rightarrow> jdict \<Rightarrow> string \<Rightarrow> jdict list
    \<Rightarrow> (plan_save_result option) py" where
  "decide_save ledger next_ledger expected seen_revision event key events =
     (let loaded = load_plan_from_events (ledger_session_id ledger) (goal_id ledger)
                     (Some (ledger_id ledger)) events
      in if unusable loaded
         then Inr (Some \<lparr>save_status = Save_invalid, save_expected = expected, save_current = 0,
                         save_ledger = None, save_replay = False\<rparr>)
         else case find_idempotent_event events (ledger_session_id ledger) (goal_id ledger)
                     (ledger_id ledger) key of
           Some duplicate \<Rightarrow>
             (if events_match_for_idempotency duplicate event
              then bindE (case jget duplicate ''plan_ledger'' of
                            JObj p \<Rightarrow> plan_ledger_from_dict p
                          | _ \<Rightarrow> Inr next_ledger) (\<lambda>stored.
                     Inr (Some \<lparr>save_status = Save_saved, save_expected = expected,
                                save_current = expected, save_ledger = Some stored,
                                save_replay = True\<rparr>))
              else Inr (Some \<lparr>save_status = Save_invalid, save_expected = expected,
                              save_current = seen_revision, save_ledger = None,
                              save_replay = False\<rparr>))
         | None \<Rightarrow>
             (if loaded_revision loaded \<noteq> expected
              then Inr (Some \<lparr>save_status = Save_conflict, save_expected = expected,
                              save_current = loaded_revision loaded,
                              save_ledger = (case loaded of Plan_loaded l \<Rightarrow> Some l | _ \<Rightarrow> None),
                              save_replay = False\<rparr>)
              else Inr None))"

record save_args =
  arg_ledger :: plan_ledger
  arg_expected :: int
  arg_turn :: string
  arg_key :: string
  arg_timestamp :: string

definition save_candidate :: "save_args \<Rightarrow> (plan_ledger \<times> string \<times> jdict) py" where
  "save_candidate a =
     bindE (rebuild_ledger ((arg_ledger a)\<lparr>ledger_revision := arg_expected a + 1\<rparr>)) (\<lambda>next_ledger.
     bindE (clean_string (arg_turn a) ''turn_id'' 128) (\<lambda>turn.
     bindE (clean_string (arg_key a) ''idempotency_key'' 256) (\<lambda>key.
       Inr (next_ledger, key,
            plan_event (arg_ledger a) next_ledger (arg_expected a + 1) turn key
              (arg_timestamp a)))))"

text \<open>
  \<open>save\<close> on a session file: \<open>seen\<close> is the history of the first load, the second one is read under
  the lock by \<open>append_line_if\<close>.
\<close>

definition plan_save ::
  "(json \<Rightarrow> string) \<Rightarrow> session_file \<Rightarrow> jdict list \<Rightarrow> save_args \<Rightarrow> session_file \<times> plan_save_result py"
  where
  "plan_save text_of f seen a =
     (let ledger = arg_ledger a;
          current = load_plan_from_events (ledger_session_id ledger) (goal_id ledger)
                      (Some (ledger_id ledger)) seen
      in if unusable current
         then (f, Inr \<lparr>save_status = Save_invalid, save_expected = arg_expected a, save_current = 0,
                       save_ledger = None, save_replay = False\<rparr>)
         else case save_candidate a of
           Inl e \<Rightarrow> (f, Inl e)
         | Inr (next_ledger, key, event) \<Rightarrow>
             (let decide = decide_save ledger next_ledger (arg_expected a) (loaded_revision current)
                             event key
              in case append_line_if text_of f
                        (\<lambda>events. bindE (decide events) (\<lambda>outcome.
                           Inr (case outcome of None \<Rightarrow> Some event | Some _ \<Rightarrow> None))) of
                   (f', Inl e) \<Rightarrow> (f', Inl e)
                 | (f', Inr True) \<Rightarrow>
                     (f', Inr \<lparr>save_status = Save_saved, save_expected = arg_expected a,
                               save_current = arg_expected a, save_ledger = Some next_ledger,
                               save_replay = False\<rparr>)
                 | (f', Inr False) \<Rightarrow>
                     (f', bindE (load_lines text_of f) (\<lambda>events.
                            bindE (decide events) (\<lambda>outcome.
                              case outcome of
                                Some r \<Rightarrow> Inr r
                              | None \<Rightarrow> Inl (ValueError ''no outcome''))))))"

end
