(* ===== verification/Plan_Repository_Proofs.thy ===== *)
theory Plan_Repository_Proofs
  imports Plan_Repository
begin

text \<open>
  The save of the plan repository is a compare-and-swap: an append happens only at the expected
  revision, advances it by one and reads back as the ledger that was saved; every other outcome
  leaves the file alone. Over any interleaving of saves and other events, a revision is won once.
\<close>

section \<open>Plan events are stored as they are\<close>

lemma plan_event_get:
  "jget (plan_event l n r turn key ts) ''type'' = JStr ''session_meta''"
  "jget (plan_event l n r turn key ts) ''event'' = JStr plan_ledger_event"
  "jget (plan_event l n r turn key ts) ''schema_version'' = JInt 1"
  "jget (plan_event l n r turn key ts) ''session_id'' = JStr (ledger_session_id l)"
  "jget (plan_event l n r turn key ts) ''goal_id'' = JStr (goal_id l)"
  "jget (plan_event l n r turn key ts) ''ledger_id'' = JStr (ledger_id l)"
  "jget (plan_event l n r turn key ts) ''ledger_revision'' = JInt r"
  "jget (plan_event l n r turn key ts) ''turn_id'' = JStr turn"
  "jget (plan_event l n r turn key ts) ''idempotency_key'' = JStr key"
  "jget (plan_event l n r turn key ts) ''plan_ledger'' = JObj (plan_ledger_to_dict n)"
  "jget (plan_event l n r turn key ts) ''timestamp'' = JStr ts"
  "jget (plan_event l n r turn key ts) ''payload'' = JNull"
  "jget (plan_event l n r turn key ts) ''failure'' = JNull"
  "jget (plan_event l n r turn key ts) ''metadata'' = JNull"
  "jget (plan_event l n r turn key ts) ''code'' = JNull"
  by (simp_all add: plan_event_def jget_def)

lemma plan_event_normal:
  "normalize_persisted_failure_event text_of (plan_event l n r turn key ts)
     = Inr (plan_event l n r turn key ts)"
  by (rule session_meta_plain) (simp_all add: plan_event_get)

lemma plan_event_keys: "fst ` set (plan_event l n r turn key ts) = set plan_event_fields"
  by (auto simp: plan_event_def plan_event_fields_def)

section \<open>What an append means\<close>

definition append_won :: "plan_save_result py \<Rightarrow> bool" where
  "append_won r \<longleftrightarrow>
     (case r of Inl _ \<Rightarrow> False | Inr x \<Rightarrow> save_status x = Save_saved \<and> \<not> save_replay x)"

definition plan_of :: "save_args \<Rightarrow> jdict list \<Rightarrow> plan_load" where
  "plan_of a h =
     load_plan_from_events (ledger_session_id (arg_ledger a)) (goal_id (arg_ledger a))
       (Some (ledger_id (arg_ledger a))) h"

lemma decide_save_outcome:
  "decide_save l n x s ev key h = Inr (Some r) \<Longrightarrow> \<not> append_won (Inr r)"
  by (auto simp: decide_save_def Let_def append_won_def result_simps
      split: if_splits option.splits)

lemma decide_save_accepts:
  "decide_save l n x s ev key h = Inr None \<Longrightarrow>
     \<not> unusable (load_plan_from_events (ledger_session_id l) (goal_id l) (Some (ledger_id l)) h)
     \<and> loaded_revision (load_plan_from_events (ledger_session_id l) (goal_id l)
          (Some (ledger_id l)) h) = x
     \<and> find_idempotent_event h (ledger_session_id l) (goal_id l) (ledger_id l) key = None"
  by (auto simp: decide_save_def Let_def result_simps split: if_splits option.splits)

lemma plan_save_cases:
  assumes "plan_save text_of f seen a = (f', r)"
  shows "(f' = f \<and> \<not> append_won r) \<or>
    (append_won r \<and> (\<exists>h n key ev turn. load_lines text_of f = Inr h
       \<and> save_candidate a = Inr (n, key, ev)
       \<and> ev = plan_event (arg_ledger a) n (arg_expected a + 1) turn key (arg_timestamp a)
       \<and> r = Inr \<lparr>save_status = Save_saved, save_expected = arg_expected a,
                   save_current = arg_expected a, save_ledger = Some n, save_replay = False\<rparr>
       \<and> \<not> unusable (plan_of a h) \<and> loaded_revision (plan_of a h) = arg_expected a
       \<and> find_idempotent_event h (ledger_session_id (arg_ledger a)) (goal_id (arg_ledger a))
           (ledger_id (arg_ledger a)) key = None
       \<and> load_lines text_of f' = Inr (h @ [ev])))"
proof (cases "unusable (load_plan_from_events (ledger_session_id (arg_ledger a))
    (goal_id (arg_ledger a)) (Some (ledger_id (arg_ledger a))) seen)")
  case True
  then show ?thesis using assms by (auto simp: plan_save_def Let_def append_won_def)
next
  case False
  show ?thesis
  proof (cases "save_candidate a")
    case (Inl e)
    then show ?thesis using assms False by (auto simp: plan_save_def Let_def append_won_def)
  next
    case (Inr c)
    obtain n key ev where c: "c = (n, key, ev)" by (cases c)
    obtain turn where ev: "ev = plan_event (arg_ledger a) n (arg_expected a + 1) turn key (arg_timestamp a)"
      using Inr c by (auto simp: save_candidate_def result_simps)
    have normal: "normalize_persisted_failure_event text_of ev = Inr ev"
      using ev plan_event_normal by simp
    have run: "(case append_line_if text_of f (\<lambda>events.
          bindE (decide_save (arg_ledger a) n (arg_expected a) (loaded_revision
            (load_plan_from_events (ledger_session_id (arg_ledger a)) (goal_id (arg_ledger a))
              (Some (ledger_id (arg_ledger a))) seen)) ev key events) (\<lambda>outcome.
            Inr (case outcome of None \<Rightarrow> Some ev | Some _ \<Rightarrow> None))) of
        (f', Inl e) \<Rightarrow> (f', Inl e)
      | (f', Inr True) \<Rightarrow> (f', Inr \<lparr>save_status = Save_saved, save_expected = arg_expected a,
          save_current = arg_expected a, save_ledger = Some n, save_replay = False\<rparr>)
      | (f', Inr False) \<Rightarrow> (f', bindE (load_lines text_of f) (\<lambda>events.
          bindE (decide_save (arg_ledger a) n (arg_expected a) (loaded_revision
            (load_plan_from_events (ledger_session_id (arg_ledger a)) (goal_id (arg_ledger a))
              (Some (ledger_id (arg_ledger a))) seen)) ev key events) (\<lambda>outcome.
            case outcome of Some r \<Rightarrow> Inr r | None \<Rightarrow> Inl (ValueError ''no outcome'')))))
      = (f', r)"
      using assms by (simp only: plan_save_def Let_def False Inr c if_False sum.case prod.case)
    from decided_append [OF run normal] show ?thesis
    proof (elim disjE exE conjE)
      fix h
      assume h: "load_lines text_of f = Inr h" "load_lines text_of f' = Inr (h @ [ev])"
        "r = Inr \<lparr>save_status = Save_saved, save_expected = arg_expected a,
          save_current = arg_expected a, save_ledger = Some n, save_replay = False\<rparr>"
        and accepted: "decide_save (arg_ledger a) n (arg_expected a) (loaded_revision
            (load_plan_from_events (ledger_session_id (arg_ledger a)) (goal_id (arg_ledger a))
              (Some (ledger_id (arg_ledger a))) seen)) ev key h = Inr None"
      from decide_save_accepts [OF accepted] show ?thesis
        using h Inr c ev unfolding plan_of_def append_won_def by auto
    qed (auto simp: append_won_def dest: decide_save_outcome)
  qed
qed

section \<open>The compare-and-swap\<close>

lemma rebuild_ledger_eq:
  assumes "rebuild_ledger (l\<lparr>ledger_revision := n\<rparr>) = Inr l'" and "ledger_ok l"
  shows "l' = l\<lparr>ledger_revision := n\<rparr> \<and> ledger_ok l'"
proof -
  have "list_all item_ok (ledger_items (l\<lparr>ledger_revision := n\<rparr>))"
    using assms(2) by (simp add: ledger_ok_def)
  from rebuild_ledger_ok [OF assms(1) this] have ok: "ledger_ok l'" .
  have "l' = l\<lparr>ledger_revision := n\<rparr>"
    using assms
    by (auto simp: rebuild_ledger_def make_plan_ledger_def result_simps ledger_ok_def
        clean_text_ident clean_text_tuple_ident clean_non_negative_int_Inr_iff)
  with ok show ?thesis by simp
qed

lemma save_candidate_Inr:
  assumes "save_candidate a = Inr (n, key, ev)" and "ledger_ok (arg_ledger a)"
  shows "n = (arg_ledger a)\<lparr>ledger_revision := arg_expected a + 1\<rparr> \<and> ledger_ok n
    \<and> (\<exists>turn. clean 128 turn \<and> clean 256 key
        \<and> ev = plan_event (arg_ledger a) n (arg_expected a + 1) turn key (arg_timestamp a))"
  using assms rebuild_ledger_eq
  by (auto simp: save_candidate_def result_simps dest: clean_string_clean)

lemma plan_event_for_own:
  "plan_event_for (goal_id l) (Some (ledger_id l)) (plan_event l n r turn key ts)"
  by (simp add: plan_event_for_def plan_event_get)

lemma load_after_append:
  "plan_event_for goal wanted ev \<Longrightarrow>
     load_plan_from_events session goal wanted (h @ [ev])
       = load_plan_event session (Some goal)
           (if jget ev ''ledger_id'' = JNull then None else Some (jget ev ''ledger_id'')) ev"
  by (simp add: load_plan_from_events_def)

lemma load_after_other:
  "\<not> plan_event_for goal wanted ev \<Longrightarrow>
     load_plan_from_events session goal wanted (h @ [ev])
       = load_plan_from_events session goal wanted h"
  by (simp add: load_plan_from_events_def)

lemma parse_own_event:
  assumes "ledger_ok n" and "n = l\<lparr>ledger_revision := r\<rparr>" and "clean 128 turn" and "clean 256 key"
    and "clean_text (JStr ts) ''timestamp'' 128 = Inr t"
  shows "load_plan_event (ledger_session_id l) (Some (goal_id l)) (Some (JStr (ledger_id l)))
    (plan_event l n r turn key ts) = Plan_loaded n"
proof -
  have "0 \<le> r" using assms(1,2) by (simp add: ledger_ok_def)
  then have "parse_plan_event (ledger_session_id l) (Some (goal_id l)) (Some (JStr (ledger_id l)))
      (plan_event l n r turn key ts) = Inr n"
    using assms
    by (simp add: parse_plan_event_def plan_event_get require_exact_keys_def plan_event_keys
        clean_text_ident plan_ledger_round_trip clean_non_negative_int_def)
  then show ?thesis by (simp add: load_plan_event_def plan_event_get)
qed

lemma append_reads_back:
  assumes "plan_save text_of f seen a = (f', r)" and "append_won r" and "ledger_ok (arg_ledger a)"
    and "clean_text (JStr (arg_timestamp a)) ''timestamp'' 128 = Inr t"
  shows "\<exists>h ev. load_lines text_of f = Inr h \<and> load_lines text_of f' = Inr (h @ [ev])
    \<and> loaded_revision (plan_of a h) = arg_expected a
    \<and> plan_of a (h @ [ev])
        = Plan_loaded ((arg_ledger a)\<lparr>ledger_revision := arg_expected a + 1\<rparr>)"
proof -
  from plan_save_cases [OF assms(1)] assms(2) obtain h n key ev where
    c: "load_lines text_of f = Inr h" "save_candidate a = Inr (n, key, ev)"
      "loaded_revision (plan_of a h) = arg_expected a" "load_lines text_of f' = Inr (h @ [ev])"
    by blast
  from save_candidate_Inr [OF c(2) assms(3)] obtain turn where
    n: "n = (arg_ledger a)\<lparr>ledger_revision := arg_expected a + 1\<rparr>" "ledger_ok n"
      "clean 128 turn" "clean 256 key"
      "ev = plan_event (arg_ledger a) n (arg_expected a + 1) turn key (arg_timestamp a)"
    by blast
  have "plan_of a (h @ [ev]) = Plan_loaded n"
    using parse_own_event [OF n(2,1,3,4) assms(4)] load_after_append [OF plan_event_for_own] n(5)
    by (simp add: plan_of_def plan_event_get)
  with c n(1) show ?thesis by blast
qed

section \<open>A revision is won once\<close>

datatype plan_op = Plan_save "jdict list" save_args | Other_event jdict

text \<open>
  A step on the file of one session: a save succeeds when it appends, another component's event
  when it is not a plan event and normalises.
\<close>

fun plan_step ::
  "(json \<Rightarrow> string) \<Rightarrow> string \<Rightarrow> session_file \<Rightarrow> plan_op \<Rightarrow> session_file \<times> (unit + plan_save_result option)"
  where
  "plan_step text_of session f (Plan_save seen a) =
     (if ledger_session_id (arg_ledger a) \<noteq> session then (f, Inl ())
      else let (f', r) = plan_save text_of f seen a
           in (f', case r of
                     Inr x \<Rightarrow> if append_won r then Inr (Some x) else Inl ()
                   | Inl _ \<Rightarrow> Inl ()))"
| "plan_step text_of session f (Other_event e) =
     (if jget e ''event'' = JStr plan_ledger_event then (f, Inl ())
      else let (f', r) = save_event text_of f e
           in (f', case r of Inl _ \<Rightarrow> Inl () | Inr _ \<Rightarrow> Inr None))"

definition wins_revision :: "string \<Rightarrow> string \<Rightarrow> int \<Rightarrow> plan_op \<Rightarrow> bool" where
  "wins_revision goal ledger n op \<longleftrightarrow>
     (case op of
        Plan_save _ a \<Rightarrow> goal_id (arg_ledger a) = goal \<and> ledger_id (arg_ledger a) = ledger
          \<and> arg_expected a = n
      | Other_event _ \<Rightarrow> False)"

text \<open>The revision of a ledger in a history, none when its newest event is not usable.\<close>

definition plan_revision_of :: "string \<Rightarrow> string \<Rightarrow> string \<Rightarrow> jdict list \<Rightarrow> int option" where
  "plan_revision_of session goal ledger h =
     (let l = load_plan_from_events session goal (Some ledger) h
      in if unusable l then None else Some (loaded_revision l))"

lemma parsed_revision:
  "load_plan_event session goal wanted ev = Plan_loaded l \<Longrightarrow>
     jget ev ''ledger_revision'' = JInt (ledger_revision l)"
  by (auto simp: load_plan_event_def parse_plan_event_def result_simps clean_non_negative_int_Inr_iff
      split: json.splits if_splits sum.splits)

lemma load_plan_event_not_missing: "load_plan_event session goal wanted ev \<noteq> Plan_missing"
  by (simp add: load_plan_event_def split: json.split sum.split)

lemma own_event_revision:
  "unusable (load_plan_event session goal wanted (plan_event l x r turn key ts))
     \<or> loaded_revision (load_plan_event session goal wanted (plan_event l x r turn key ts)) = r"
  using parsed_revision [of session goal wanted "plan_event l x r turn key ts"]
    load_plan_event_not_missing [of session goal wanted "plan_event l x r turn key ts"]
  by (cases "load_plan_event session goal wanted (plan_event l x r turn key ts)")
    (auto simp: unusable_def loaded_revision_def plan_event_get)

lemma won_revision:
  assumes "plan_save text_of f seen a = (f', r)" and "f' \<noteq> f \<or> append_won r"
  shows "\<exists>h ev. load_lines text_of f = Inr h \<and> load_lines text_of f' = Inr (h @ [ev])
    \<and> jget ev ''goal_id'' = JStr (goal_id (arg_ledger a))
    \<and> jget ev ''ledger_id'' = JStr (ledger_id (arg_ledger a))
    \<and> plan_revision_of (ledger_session_id (arg_ledger a)) (goal_id (arg_ledger a))
        (ledger_id (arg_ledger a)) h = Some (arg_expected a)
    \<and> plan_revision_of (ledger_session_id (arg_ledger a)) (goal_id (arg_ledger a))
        (ledger_id (arg_ledger a)) (h @ [ev]) \<in> {None, Some (arg_expected a + 1)}"
proof -
  from plan_save_cases [OF assms(1)] assms(2) obtain h m key ev turn where
    h: "load_lines text_of f = Inr h" "load_lines text_of f' = Inr (h @ [ev])"
      "ev = plan_event (arg_ledger a) m (arg_expected a + 1) turn key (arg_timestamp a)"
      "loaded_revision (plan_of a h) = arg_expected a" "\<not> unusable (plan_of a h)"
    by blast
  have own: "plan_event_for (goal_id (arg_ledger a)) (Some (ledger_id (arg_ledger a))) ev"
    using plan_event_for_own by (simp add: h(3))
  have "unusable (plan_of a (h @ [ev])) \<or> loaded_revision (plan_of a (h @ [ev])) = arg_expected a + 1"
    by (simp add: plan_of_def h(3) load_after_append [OF own [unfolded h(3)]] plan_event_get
        own_event_revision)
  with h(1,2,4,5) show ?thesis
    by (intro exI [of _ h] exI [of _ ev])
      (auto simp: plan_revision_of_def plan_of_def Let_def h(3) plan_event_get)
qed

lemma plan_step_moves:
  assumes "plan_step text_of session f op = (f', r)"
  shows "f' = f \<or> (\<exists>x y. load_lines text_of f = Inl x \<and> load_lines text_of f' = Inl y)
    \<or> (\<exists>h ev. load_lines text_of f = Inr h \<and> load_lines text_of f' = Inr (h @ [ev])
        \<and> (plan_revision_of session goal ledger (h @ [ev]) = plan_revision_of session goal ledger h
           \<or> (\<exists>n. plan_revision_of session goal ledger h = Some n
                \<and> plan_revision_of session goal ledger (h @ [ev]) \<in> {None, Some (n + 1)})))"
proof (cases op)
  case (Plan_save seen a)
  show ?thesis
  proof (cases "f' = f")
    case moved: False
    obtain x where own: "ledger_session_id (arg_ledger a) = session"
      and sv: "plan_save text_of f seen a = (f', x)"
      using assms moved Plan_save by (auto split: if_splits prod.splits)
    from won_revision [OF sv] moved obtain h ev where
      h: "load_lines text_of f = Inr h" "load_lines text_of f' = Inr (h @ [ev])"
        "jget ev ''goal_id'' = JStr (goal_id (arg_ledger a))"
        "jget ev ''ledger_id'' = JStr (ledger_id (arg_ledger a))"
        "plan_revision_of session (goal_id (arg_ledger a)) (ledger_id (arg_ledger a)) h
           = Some (arg_expected a)"
        "plan_revision_of session (goal_id (arg_ledger a)) (ledger_id (arg_ledger a)) (h @ [ev])
           \<in> {None, Some (arg_expected a + 1)}"
      unfolding own by blast
    show ?thesis
    proof (cases "goal_id (arg_ledger a) = goal \<and> ledger_id (arg_ledger a) = ledger")
      case False
      then have "\<not> plan_event_for goal (Some ledger) ev" using h(3,4) by (auto simp: plan_event_for_def)
      then show ?thesis using h(1,2) by (auto simp: plan_revision_of_def load_after_other)
    qed (use h in blast)
  qed simp
next
  case (Other_event e)
  then show ?thesis
  proof (cases "jget e ''event'' = JStr plan_ledger_event")
    case False
    obtain x where "save_event text_of f e = (f', x)"
      using assms False Other_event by (auto split: prod.splits)
    from save_event_cases [OF this] show ?thesis
    proof (elim disjE exE conjE)
      fix h e'
      assume e': "jget e' ''event'' = jget e ''event''" "load_lines text_of f = Inr h"
        "load_lines text_of f' = Inr (h @ [e'])"
      have "\<not> plan_event_for goal (Some ledger) e'" using e'(1) False by (simp add: plan_event_for_def)
      then show ?thesis using e'(2,3) by (auto simp: plan_revision_of_def load_after_other)
    qed blast+
  qed (use assms in simp)
qed

lemma plan_step_won:
  assumes "wins_revision goal ledger n op" and "plan_step text_of session f op = (f', Inr out)"
  shows "\<exists>h h'. load_lines text_of f = Inr h \<and> load_lines text_of f' = Inr h'
    \<and> plan_revision_of session goal ledger h = Some n
    \<and> plan_revision_of session goal ledger h' \<in> {None, Some (n + 1)}"
proof -
  obtain seen a where op: "op = Plan_save seen a" "goal_id (arg_ledger a) = goal"
    "ledger_id (arg_ledger a) = ledger" "arg_expected a = n"
    using assms(1) by (auto simp: wins_revision_def split: plan_op.splits)
  obtain r where sv: "plan_save text_of f seen a = (f', r)" "append_won r"
    and own: "ledger_session_id (arg_ledger a) = session"
    using assms(2) op(1) by (auto split: if_splits prod.splits sum.splits)
  from won_revision [OF sv(1)] sv(2) show ?thesis unfolding own op(2-4) by blast
qed

interpretation plan_log: versioned_log "load_lines text_of" "plan_revision_of session goal ledger"
  "plan_step text_of session" "wins_revision goal ledger"
  for text_of session goal ledger
  by unfold_locales (erule plan_step_moves, erule (1) plan_step_won)

text \<open>C12. Optimistic locking of plans: however saves of several writers and other events interleave on
  a session, and whatever history each writer had loaded first, at most one save of a ledger at a
  given expected revision is appended.\<close>

theorem plan_revision_won_once:
  "length (filter (wins_revision goal ledger n)
     (succeeded_ops (plan_step text_of session) f ops)) \<le> 1"
  by (rule plan_log.cas.at_most_once)

text \<open>A save that is appended is a compare-and-swap: the durable revision was the expected one,
  the history grows by one event, and loading the plan gives exactly the saved ledger one revision
  later; a save that is not appended leaves the file as it was.\<close>

theorem plan_save_compare_and_swap:
  assumes "ledger_ok (arg_ledger a)"
    and "clean_text (JStr (arg_timestamp a)) ''timestamp'' 128 = Inr t"
    and "plan_save text_of f seen a = (f', r)"
  shows "if append_won r
    then \<exists>h ev. load_lines text_of f = Inr h \<and> load_lines text_of f' = Inr (h @ [ev])
      \<and> loaded_revision (plan_of a h) = arg_expected a
      \<and> plan_of a (h @ [ev])
          = Plan_loaded ((arg_ledger a)\<lparr>ledger_revision := arg_expected a + 1\<rparr>)
    else f' = f"
  using append_reads_back [OF assms(3) _ assms(1,2)] plan_save_cases [OF assms(3)] by auto

end
