(* ===== verification/Plan_Properties.thy ===== *)
theory Plan_Properties
  imports Plan_Repository_Proofs
begin

text \<open>
  The guarantees of the plan ledger's serialisation and transitions, with a sample plan that feeds
  the witnesses of these and of the repository's theorems.
\<close>

definition sample_item :: "string \<Rightarrow> plan_item_status \<Rightarrow> string list \<Rightarrow> string list \<Rightarrow> plan_item" where
  "sample_item i st deps evidence =
     \<lparr>item_id = i, item_title = ''do'', item_status = st, dependencies = deps,
      success_criteria = [''ok''], source_turn_ids = [''t0''], evidence_refs = evidence,
      blocker_reason = None, item_attempts = 0\<rparr>"

definition sample_plan :: plan_ledger where
  "sample_plan =
     \<lparr>ledger_id = ''l'', ledger_session_id = ''s'', goal_id = ''g'', ledger_revision = 0,
      ledger_status = Plan_active, objective = ''ship'', reason_codes = [],
      ledger_items = [sample_item ''a'' Item_completed [] [''e0''],
                      sample_item ''b'' Item_pending [''a''] []],
      created_turn_id = ''t0'', updated_turn_id = ''t0''\<rparr>"

lemma sample_plan_parses: "plan_ledger_from_dict (plan_ledger_to_dict sample_plan) = Inr sample_plan"
  by code_simp

lemma sample_plan_ok: "ledger_ok sample_plan"
  by (rule plan_ledger_from_dict_ok [OF sample_plan_parses])

text \<open>Whatever a payload holds, if it is read as a plan ledger then the ledger is well formed
  (bounded clean text, valid plan) and writing it out and reading it again gives the same ledger.\<close>

theorem parsed_ledgers_round_trip:
  assumes "plan_ledger_from_dict p = Inr l"
  shows "ledger_ok l \<and> plan_ledger_from_dict (plan_ledger_to_dict l) = Inr l"
  using plan_ledger_from_dict_ok [OF assms] plan_ledger_round_trip by blast

theorem parsed_ledgers_round_trip_witness:
  "ledger_ok sample_plan \<and> plan_ledger_from_dict (plan_ledger_to_dict sample_plan) = Inr sample_plan"
  using parsed_ledgers_round_trip [OF sample_plan_parses] .

text \<open>C14. Setting an item's status is a safe step: the result is again a valid plan with the same
  identity and revision and the same items in order, terminal items are untouched, attempts never
  decrease, and an item can only become completed with evidence the host recognises.\<close>

theorem set_item_status_is_safe:
  assumes "ledger_ok l" and "set_item_status recognized l i st turn refs blocker = Inr l'"
  shows "ledger_ok l' \<and> ledger_id l' = ledger_id l \<and> goal_id l' = goal_id l
    \<and> ledger_revision l' = ledger_revision l
    \<and> list_all2 (\<lambda>x y. item_id y = item_id x
         \<and> (terminal_item (item_status x) \<longrightarrow> y = x)
         \<and> (item_status y = Item_completed \<longrightarrow> y = x \<or> set (evidence_refs y) \<subseteq> set recognized)
         \<and> item_attempts x \<le> item_attempts y) (ledger_items l) (ledger_items l')"
  using set_item_status_moves [OF assms]
  by (auto simp: item_moves_def elim!: list_all2_mono)

definition sample_started :: plan_ledger where
  "sample_started = sample_plan\<lparr>ledger_items :=
     [sample_item ''a'' Item_completed [] [''e0''],
      (sample_item ''b'' Item_in_progress [''a''] [])\<lparr>item_attempts := 1\<rparr>], updated_turn_id := ''t1''\<rparr>"

lemma sample_starts:
  "set_item_status [''e0''] sample_plan ''b'' ''in_progress'' ''t1'' [] None = Inr sample_started"
  by code_simp

theorem set_item_status_is_safe_witness:
  "ledger_ok sample_started \<and> ledger_revision sample_started = ledger_revision sample_plan"
  using set_item_status_is_safe [OF sample_plan_ok sample_starts] by blast

lemma validate_recognized_evidence_Inr:
  "validate_recognized_evidence recognized items = Inr u \<Longrightarrow>
     \<forall>x \<in> set items. item_status x = Item_completed
        \<longrightarrow> squeeze ` set (evidence_refs x) \<subseteq> set recognized"
proof (induction recognized items rule: validate_recognized_evidence.induct)
  case (2 recognized i "is")
  have "squeeze ` set refs \<subseteq> set recognized"
    if "recognized_subset recognized refs = Inr out" for refs out
  proof -
    from that obtain ys where ys: "traverseE (\<lambda>v. clean_string v ''evidence_ref'' 128) refs = Inr ys"
      "set ys \<subseteq> set recognized"
      by (auto simp: recognized_subset_def result_simps split: if_splits)
    then have "list_all2 (\<lambda>x y. clean_string x ''evidence_ref'' 128 = Inr y) refs ys"
      by (simp add: traverseE_Inr_iff)
    then have "map squeeze refs = ys"
      by (induction rule: list_all2_induct) (auto simp: clean_string_def Let_def split: if_splits)
    with ys(2) show ?thesis by (metis set_map)
  qed
  with 2 show ?case by (auto simp: result_simps split: if_splits)
qed simp

text \<open>Replacing a plan keeps what is finished: an accepted replacement of a ledger keeps its
  identity and every completed or cancelled item exactly, a terminal ledger is never replaced, and
  every completed item of the replacement carries recognised evidence only.\<close>

theorem replacement_keeps_finished_items:
  assumes "ledger_ok proposed"
    and "validate_replacement recognized (Some prev) proposed = Inr ()"
  shows "\<not> terminal_plan (ledger_status prev)
    \<and> ledger_id proposed = ledger_id prev \<and> goal_id proposed = goal_id prev
    \<and> created_turn_id proposed = created_turn_id prev
    \<and> (\<forall>x \<in> set (ledger_items prev). terminal_item (item_status x)
         \<longrightarrow> x \<in> set (ledger_items proposed))
    \<and> (\<forall>x \<in> set (ledger_items proposed). item_status x = Item_completed
         \<longrightarrow> set (evidence_refs x) \<subseteq> set recognized)"
proof -
  have evidence: "validate_recognized_evidence recognized (ledger_items proposed) = Inr ()"
    and rest: "\<not> terminal_plan (ledger_status prev)" "ledger_id prev = ledger_id proposed"
      "goal_id prev = goal_id proposed" "created_turn_id prev = created_turn_id proposed"
      "\<not> list_ex (\<lambda>i. terminal_item (item_status i)
          \<and> find_item (ledger_items proposed) (item_id i) \<noteq> Some i) (ledger_items prev)"
    using assms(2) by (auto simp: validate_replacement_def result_simps split: if_splits)
  have "squeeze ` set (evidence_refs x) = set (evidence_refs x)"
    if "x \<in> set (ledger_items proposed)" for x
    using assms(1) that squeeze_clean [of 128 "evidence_refs x"]
    by (auto simp: ledger_ok_def item_ok_def tuple_ok_def list_all_iff)
  then show ?thesis
    using rest validate_recognized_evidence_Inr [OF evidence] find_item_in
    by (auto simp: list_ex_iff)
qed

lemma sample_replacement:
  "validate_replacement [''e0''] (Some sample_plan) sample_started = Inr ()"
  by code_simp

lemma sample_started_ok: "ledger_ok sample_started"
  using set_item_status_moves [OF sample_plan_ok sample_starts] by blast

theorem replacement_keeps_finished_items_witness:
  "\<not> terminal_plan (ledger_status sample_plan) \<and> ledger_id sample_started = ledger_id sample_plan"
  using replacement_keeps_finished_items [OF sample_started_ok sample_replacement] by blast

definition sample_save :: save_args where
  "sample_save = \<lparr>arg_ledger = sample_plan, arg_expected = 0, arg_turn = ''t0'', arg_key = ''k'',
     arg_timestamp = ''2026-01-01''\<rparr>"

lemma sample_save_runs:
  "plan_save (\<lambda>_. []) [] [] sample_save
     = (fst (plan_save (\<lambda>_. []) [] [] sample_save), snd (plan_save (\<lambda>_. []) [] [] sample_save))"
  "append_won (snd (plan_save (\<lambda>_. []) [] [] sample_save))"
  "clean_text (JStr (arg_timestamp sample_save)) ''timestamp'' 128 = Inr ''2026-01-01''"
  "ledger_ok (arg_ledger sample_save)"
  by (simp, code_simp, code_simp, simp add: sample_save_def sample_plan_ok)

theorem plan_save_compare_and_swap_witness:
  "\<exists>h ev. load_lines (\<lambda>_. []) (fst (plan_save (\<lambda>_. []) [] [] sample_save)) = Inr (h @ [ev])
     \<and> plan_of sample_save (h @ [ev])
         = Plan_loaded ((arg_ledger sample_save)\<lparr>ledger_revision := arg_expected sample_save + 1\<rparr>)"
  using plan_save_compare_and_swap [OF sample_save_runs(4,3,1)] sample_save_runs(2) by auto

end
