(* ===== verification/Session_Lineage.thy ===== *)
theory Session_Lineage
  imports PyData
begin

text \<open>
  Session lineage (\<^verbatim>\<open>mochi/sessions/lineage.py\<close>): the parent pointer a session's
  \<^verbatim>\<open>session_meta.created\<close> event carries, its parser, and the resolver that walks the pointers to the
  root. The resolver is a loop that ends at a root or at the first error; the ids it has met are its
  only guard against a cycle. It is a \<open>partial_function\<close>, so that its return is a theorem.
\<close>

section \<open>Envelopes\<close>

datatype lineage_error =
    Malformed_id
  | Record_not_found
  | Dangling_parent
  | Self_parent
  | Lineage_cycle
  | Cross_store_parent
  | Conflicting_record
  | Invalid_resolution
  | Resolver_unavailable

record envelope =
  ln_storage_id :: string
  ln_session_id :: string
  ln_parent_session_id :: "string option"
  ln_parent_storage_id :: "string option"
  ln_fork_until_turn_id :: "string option"

definition require_persisted_identifier :: "json \<Rightarrow> lineage_error + string" where
  "require_persisted_identifier value =
     (case value of
        JStr s \<Rightarrow> (if s = [] \<or> s \<noteq> py_strip s then Inl Malformed_id else Inr s)
      | _ \<Rightarrow> Inl Malformed_id)"

definition require_optional_persisted_identifier ::
  "json \<Rightarrow> lineage_error + string option" where
  "require_optional_persisted_identifier value =
     (if value = JNull then Inr None
      else bindE (require_persisted_identifier value) (\<lambda>s. Inr (Some s)))"

definition validate_envelope :: "envelope \<Rightarrow> string \<Rightarrow> string \<Rightarrow> lineage_error + unit" where
  "validate_envelope e expected_storage_id expected_session_id =
     (if ln_storage_id e \<noteq> expected_storage_id \<or> ln_session_id e \<noteq> expected_session_id
      then Inl Invalid_resolution
      else if ln_parent_session_id e = None
      then (if ln_parent_storage_id e \<noteq> None \<or> ln_fork_until_turn_id e \<noteq> None
            then Inl Invalid_resolution else Inr ())
      else if ln_parent_storage_id e \<noteq> Some expected_storage_id then Inl Cross_store_parent
      else if ln_fork_until_turn_id e = None then Inl Invalid_resolution
      else Inr ())"

definition read_envelope :: "json \<Rightarrow> json \<Rightarrow> json \<Rightarrow> json \<Rightarrow> json \<Rightarrow> lineage_error + envelope" where
  "read_envelope storage session parent parent_storage fork =
     bindE (require_persisted_identifier storage) (\<lambda>st.
     bindE (require_persisted_identifier session) (\<lambda>se.
     bindE (require_optional_persisted_identifier parent) (\<lambda>pa.
     bindE (require_optional_persisted_identifier parent_storage) (\<lambda>ps.
     bindE (require_optional_persisted_identifier fork) (\<lambda>fo.
       Inr \<lparr>ln_storage_id = st, ln_session_id = se, ln_parent_session_id = pa,
            ln_parent_storage_id = ps, ln_fork_until_turn_id = fo\<rparr>)))))"

definition envelope_payload :: "envelope \<Rightarrow> jdict" where
  "envelope_payload e =
     [(''schema_version'', JInt 1),
      (''storage_id'', JStr (ln_storage_id e)),
      (''session_id'', JStr (ln_session_id e)),
      (''parent_session_id'', opt_str (ln_parent_session_id e)),
      (''parent_storage_id'', opt_str (ln_parent_storage_id e)),
      (''fork_until_turn_id'', opt_str (ln_fork_until_turn_id e))]"

definition build_session_lineage_envelope ::
  "json \<Rightarrow> json \<Rightarrow> json \<Rightarrow> json \<Rightarrow> json \<Rightarrow> lineage_error + jdict" where
  "build_session_lineage_envelope storage session parent parent_storage fork =
     bindE (read_envelope storage session parent parent_storage fork) (\<lambda>e.
     bindE (validate_envelope e (ln_storage_id e) (ln_session_id e)) (\<lambda>_.
       Inr (envelope_payload e)))"

text \<open>The lineage entries of the created events of a history, in order.\<close>

fun lineage_candidates :: "json list \<Rightarrow> lineage_error + jdict list" where
  "lineage_candidates [] = Inr []"
| "lineage_candidates (event # events) =
     (case event of
        JObj d \<Rightarrow>
          (if jget d ''type'' \<noteq> JStr ''session_meta'' \<or> jget d ''event'' \<noteq> JStr ''created''
           then lineage_candidates events
           else case dget d ''lineage'' of
               None \<Rightarrow> lineage_candidates events
             | Some (JObj c) \<Rightarrow> bindE (lineage_candidates events) (\<lambda>cs. Inr (c # cs))
             | Some _ \<Rightarrow> Inl Invalid_resolution)
      | _ \<Rightarrow> Inl Invalid_resolution)"

definition lineage_envelope_from_events ::
  "json list \<Rightarrow> string \<Rightarrow> string \<Rightarrow> lineage_error + envelope option" where
  "lineage_envelope_from_events events expected_storage_id expected_session_id =
     bindE (lineage_candidates events) (\<lambda>candidates.
       (case candidates of
          [] \<Rightarrow> Inr None
        | [payload] \<Rightarrow>
            (if \<not> py_eq (jget payload ''schema_version'') (JInt 1) then Inl Invalid_resolution
             else bindE (read_envelope (jget payload ''storage_id'') (jget payload ''session_id'')
                          (jget payload ''parent_session_id'') (jget payload ''parent_storage_id'')
                          (jget payload ''fork_until_turn_id'')) (\<lambda>e.
                  bindE (validate_envelope e expected_storage_id expected_session_id) (\<lambda>_.
                    Inr (Some e))))
        | _ \<Rightarrow> Inl Conflicting_record))"

section \<open>Resolution\<close>

text \<open>
  What the envelope loader does with one session id: it returns an envelope, nothing (a history
  from before lineage was recorded), a value of another type, or raises.
\<close>

datatype loaded = Loaded "envelope option" | Foreign_value | Lineage_raised lineage_error | Raised

type_synonym loader = "string \<Rightarrow> loaded"

datatype step = Stop "lineage_error + unit" | Goto string

text \<open>One round of the loop of \<open>SessionLineageResolver.resolve\<close> after the cycle check.\<close>

definition lineage_step :: "string \<Rightarrow> loader \<Rightarrow> bool \<Rightarrow> string \<Rightarrow> step" where
  "lineage_step storage_id load initial current =
     (case load current of
        Raised \<Rightarrow> Stop (Inl Resolver_unavailable)
      | Lineage_raised e \<Rightarrow>
          Stop (Inl (if e = Record_not_found \<and> \<not> initial then Dangling_parent else e))
      | Foreign_value \<Rightarrow> Stop (Inl Invalid_resolution)
      | Loaded None \<Rightarrow> Stop (Inr ())
      | Loaded (Some e) \<Rightarrow>
          (case validate_envelope e storage_id current of
             Inl err \<Rightarrow> Stop (Inl err)
           | Inr _ \<Rightarrow>
               (case ln_parent_session_id e of
                  None \<Rightarrow> Stop (Inr ())
                | Some parent \<Rightarrow>
                    (if ln_parent_storage_id e \<noteq> Some storage_id then Stop (Inl Cross_store_parent)
                     else if parent = current then Stop (Inl Self_parent)
                     else Goto parent))))"

partial_function (option) resolve_from ::
  "string \<Rightarrow> loader \<Rightarrow> string list \<Rightarrow> bool \<Rightarrow> string \<Rightarrow> (lineage_error + string) option" where
  "resolve_from storage_id load visited initial current =
     (if current \<in> set visited then Some (Inl Lineage_cycle)
      else case lineage_step storage_id load initial current of
          Stop (Inl e) \<Rightarrow> Some (Inl e)
        | Stop (Inr _) \<Rightarrow> Some (Inr current)
        | Goto parent \<Rightarrow> resolve_from storage_id load (current # visited) False parent)"

declare resolve_from.simps [code]

definition resolve_lineage :: "string \<Rightarrow> loader \<Rightarrow> json \<Rightarrow> (lineage_error + string) option" where
  "resolve_lineage storage_id load session_id =
     (case require_persisted_identifier session_id of
        Inl e \<Rightarrow> Some (Inl e)
      | Inr requested \<Rightarrow> resolve_from storage_id load [] True requested)"

section \<open>Building and parsing an envelope\<close>

lemma require_identifier_Inr [result_simps]:
  "require_persisted_identifier v = Inr s \<longleftrightarrow> v = JStr s \<and> s \<noteq> [] \<and> py_strip s = s"
  by (cases v) (auto simp: require_persisted_identifier_def)

lemma require_optional_identifier_Inr [result_simps]:
  "require_optional_persisted_identifier v = Inr x \<longleftrightarrow>
     (case x of None \<Rightarrow> v = JNull | Some s \<Rightarrow> v = JStr s \<and> s \<noteq> [] \<and> py_strip s = s)"
  by (auto simp: require_optional_persisted_identifier_def result_simps split: option.split)

definition id_ok :: "string \<Rightarrow> bool" where
  "id_ok s \<longleftrightarrow> s \<noteq> [] \<and> py_strip s = s"

definition lineage_ok :: "envelope \<Rightarrow> bool" where
  "lineage_ok e \<longleftrightarrow>
     id_ok (ln_storage_id e) \<and> id_ok (ln_session_id e) \<and>
     pred_option id_ok (ln_parent_session_id e) \<and> pred_option id_ok (ln_parent_storage_id e) \<and>
     pred_option id_ok (ln_fork_until_turn_id e)"

lemma require_optional_opt_str:
  "require_optional_persisted_identifier (opt_str x) = Inr x \<longleftrightarrow> pred_option id_ok x"
  by (cases x) (auto simp: result_simps id_ok_def)

lemma read_envelope_ok:
  "read_envelope st se pa ps fo = Inr e \<longleftrightarrow>
     st = JStr (ln_storage_id e) \<and> se = JStr (ln_session_id e) \<and>
     pa = opt_str (ln_parent_session_id e) \<and> ps = opt_str (ln_parent_storage_id e) \<and>
     fo = opt_str (ln_fork_until_turn_id e) \<and> lineage_ok e"
  by (cases e)
    (auto simp: read_envelope_def result_simps lineage_ok_def id_ok_def split: option.splits)

lemma envelope_payload_get [simp]:
  "jget (envelope_payload e) ''schema_version'' = JInt 1"
  "jget (envelope_payload e) ''storage_id'' = JStr (ln_storage_id e)"
  "jget (envelope_payload e) ''session_id'' = JStr (ln_session_id e)"
  "jget (envelope_payload e) ''parent_session_id'' = opt_str (ln_parent_session_id e)"
  "jget (envelope_payload e) ''parent_storage_id'' = opt_str (ln_parent_storage_id e)"
  "jget (envelope_payload e) ''fork_until_turn_id'' = opt_str (ln_fork_until_turn_id e)"
  by (simp_all add: envelope_payload_def jget_def)

lemma build_envelope_Inr:
  "build_session_lineage_envelope st se pa ps fo = Inr d \<longleftrightarrow>
     (\<exists>e. read_envelope st se pa ps fo = Inr e \<and>
          validate_envelope e (ln_storage_id e) (ln_session_id e) = Inr () \<and> d = envelope_payload e)"
  by (auto simp: build_session_lineage_envelope_def result_simps)

definition created_with :: "jdict \<Rightarrow> jdict" where
  "created_with lineage =
     [(''type'', JStr ''session_meta''), (''event'', JStr ''created''), (''lineage'', JObj lineage)]"

lemma candidates_created:
  "jget d ''type'' = JStr ''session_meta'' \<Longrightarrow> jget d ''event'' = JStr ''created'' \<Longrightarrow>
   dget d ''lineage'' = Some (JObj c) \<Longrightarrow>
   lineage_candidates (JObj d # events) = bindE (lineage_candidates events) (\<lambda>cs. Inr (c # cs))"
  by simp

text \<open>Events that are not created metadata do not take part.\<close>

lemma candidates_other:
  assumes "\<And>ev. ev \<in> set events \<Longrightarrow>
    \<exists>d. ev = JObj d \<and> (jget d ''type'' \<noteq> JStr ''session_meta'' \<or> jget d ''event'' \<noteq> JStr ''created'')"
  shows "lineage_candidates events = Inr []"
  using assms by (induction events) force+

lemma envelope_from_created:
  assumes "lineage_ok e" and "validate_envelope e st se = Inr ()"
    and "lineage_candidates events = Inr [envelope_payload e]"
  shows "lineage_envelope_from_events events st se = Inr (Some e)"
  using assms by (simp add: lineage_envelope_from_events_def read_envelope_ok [THEN iffD2]
      float_eq_refl)

section \<open>Walks of parent pointers\<close>

text \<open>The specification of a resolution: the walk of parent pointers that ends at a root.\<close>

inductive lineage_root :: "string \<Rightarrow> loader \<Rightarrow> bool \<Rightarrow> string \<Rightarrow> string \<Rightarrow> bool"
  for storage_id :: string and load :: loader where
  here: "lineage_step storage_id load i s = Stop (Inr ()) \<Longrightarrow> lineage_root storage_id load i s s"
| up: "lineage_step storage_id load i s = Goto p \<Longrightarrow> lineage_root storage_id load False p r \<Longrightarrow>
    lineage_root storage_id load i s r"

inductive_cases lineage_rootE: "lineage_root st load i s r"

lemma lineage_step_Goto: "lineage_step st load i s = Goto p \<Longrightarrow> lineage_step st load j s = Goto p"
  by (auto simp: lineage_step_def split: loaded.splits option.splits sum.splits if_splits)

lemma lineage_step_root: "lineage_step st load i s = Stop (Inr ()) \<Longrightarrow> lineage_step st load j s = Stop (Inr ())"
  by (auto simp: lineage_step_def split: loaded.splits option.splits sum.splits if_splits)

lemma lineage_root_first: "lineage_root st load i s r \<Longrightarrow> lineage_root st load j s r"
  by (erule lineage_rootE) (blast intro: lineage_root.intros lineage_step_Goto lineage_step_root)+

definition parents :: "string \<Rightarrow> loader \<Rightarrow> (string \<times> string) set" where
  "parents st load = {(s, p). lineage_step st load False s = Goto p}"

lemma parentsI: "lineage_step st load i s = Goto p \<Longrightarrow> (s, p) \<in> parents st load"
  unfolding parents_def by (drule lineage_step_Goto [where j = False]) simp

lemma parentsD: "(s, p) \<in> parents st load \<Longrightarrow> lineage_step st load i s = Goto p"
  unfolding parents_def by (drule CollectD, clarify, erule lineage_step_Goto)

lemma parents_single: "(s, p) \<in> parents st load \<Longrightarrow> (s, q) \<in> parents st load \<Longrightarrow> p = q"
  by (simp add: parents_def)

lemma parents_trancl_via:
  assumes "(s, p) \<in> parents st load" and "(s, t) \<in> (parents st load)\<^sup>+"
  shows "(p, t) \<in> (parents st load)\<^sup>*"
  using assms(2) assms(1) by (metis converse_tranclE parents_single rtrancl.simps trancl_into_rtrancl)

lemma no_cycle_below_root:
  "lineage_root st load i s r \<Longrightarrow> (s, s) \<notin> (parents st load)\<^sup>+"
proof (induction rule: lineage_root.induct)
  case (here i s)
  then have "(s, p) \<notin> parents st load" for p
    using parentsD [of s p st load i] by auto
  then show ?case by (metis converse_tranclE)
next
  case (up i s p r)
  from up.hyps(1) have sp: "(s, p) \<in> parents st load"
    by (rule parentsI)
  show ?case
  proof
    assume "(s, s) \<in> (parents st load)\<^sup>+"
    then have "(p, s) \<in> (parents st load)\<^sup>*"
      using parents_trancl_via [OF sp] by blast
    with sp up.IH show False by (meson rtrancl_into_trancl1)
  qed
qed

text \<open>The resolver finds the root of a walk, and what it returns is one.\<close>

lemma resolve_complete:
  assumes "lineage_root st load i s r"
    and "\<forall>v \<in> set visited. (v, s) \<in> (parents st load)\<^sup>+"
  shows "resolve_from st load visited i s = Some (Inr r)"
  using assms
proof (induction arbitrary: visited rule: lineage_root.induct)
  case (here i s)
  have "s \<notin> set visited"
    using here no_cycle_below_root lineage_root.here by blast
  with here.hyps show ?case by (simp add: resolve_from.simps)
next
  case (up i s p r)
  have "s \<notin> set visited"
    using up.prems no_cycle_below_root lineage_root.up [OF up.hyps] by blast
  moreover have "(s, p) \<in> parents st load"
    using up.hyps(1) by (rule parentsI)
  then have "\<forall>v \<in> set (s # visited). (v, p) \<in> (parents st load)\<^sup>+"
    using up.prems by (auto intro: trancl_into_trancl)
  then have "resolve_from st load (s # visited) False p = Some (Inr r)"
    by (rule up.IH)
  ultimately show ?case using up.hyps(1) by (simp add: resolve_from.simps)
qed

lemma resolve_sound:
  assumes "resolve_from st load visited i s = Some (Inr r)"
  shows "lineage_root st load i s r"
proof -
  have "\<forall>r. out = Inr r \<longrightarrow> lineage_root st load i s r"
    if "resolve_from st load visited i s = Some out" for out
    using that
    by (rule resolve_from.raw_induct [rotated,
          where P = "\<lambda>st load visited i s out. \<forall>r. out = Inr r \<longrightarrow> lineage_root st load i s r"])
      (auto split: if_splits step.splits sum.splits intro: lineage_root.intros)
  with assms show ?thesis by blast
qed

text \<open>Each further round adds a session with a parent to the ids met.\<close>

lemma resolve_returns_aux:
  assumes "finite (Domain (parents st load))"
    and "distinct visited" and "set visited \<subseteq> Domain (parents st load)"
  shows "resolve_from st load visited i s \<noteq> None"
  using assms(2,3)
proof (induction "card (Domain (parents st load)) - length visited" arbitrary: visited i s
    rule: less_induct)
  case less
  show ?case
  proof (cases "s \<in> set visited \<or> (\<exists>x. lineage_step st load i s = Stop x)")
    case True
    then show ?thesis by (subst resolve_from.simps) (auto split: sum.split)
  next
    case False
    then obtain p where p: "lineage_step st load i s = Goto p" and new: "s \<notin> set visited"
      by (cases "lineage_step st load i s") auto
    then have dom: "s \<in> Domain (parents st load)"
      by (auto dest: parentsI)
    have "length (s # visited) \<le> card (Domain (parents st load))"
      using less.prems new dom assms(1)
      by (metis card_mono distinct.simps(2) distinct_card insert_subset list.simps(15))
    then have "card (Domain (parents st load)) - length (s # visited)
        < card (Domain (parents st load)) - length visited"
      by simp
    from less.hyps [OF this] less.prems new dom
    have "resolve_from st load (s # visited) False p \<noteq> None" by simp
    then show ?thesis using p new by (subst resolve_from.simps) simp
  qed
qed

section \<open>The loader of the session store\<close>

text \<open>
  \<^verbatim>\<open>SessionStore._load_session_lineage_envelope\<close>: the strict history of a session, when it can be read
  and exists, is parsed for its envelope.
\<close>

definition store_loader :: "string \<Rightarrow> (string \<Rightarrow> unit + json list option) \<Rightarrow> loader" where
  "store_loader storage_id snapshot s =
     (case snapshot (py_strip s) of
        Inl _ \<Rightarrow> Lineage_raised Resolver_unavailable
      | Inr None \<Rightarrow> Lineage_raised Record_not_found
      | Inr (Some events) \<Rightarrow>
          (case lineage_envelope_from_events events storage_id (py_strip s) of
             Inl e \<Rightarrow> Lineage_raised e
           | Inr x \<Rightarrow> Loaded x))"

lemma envelope_from_events_ok:
  assumes "lineage_envelope_from_events events st se = Inr (Some e)"
  shows "lineage_ok e"
proof -
  from assms obtain cs where "lineage_candidates events = Inr cs"
    unfolding lineage_envelope_from_events_def bindE_eq_Inr by blast
  with assms show ?thesis
    by (cases cs rule: remdups_adj.cases)
      (auto simp: lineage_envelope_from_events_def bindE_eq_Inr read_envelope_ok split: if_splits)
qed

lemma store_loader_Goto:
  "lineage_step st (store_loader st' snapshot) i s = Goto p \<Longrightarrow> id_ok p"
  by (auto simp: lineage_step_def store_loader_def lineage_ok_def dest!: envelope_from_events_ok
      split: loaded.splits option.splits sum.splits if_splits)

lemma lineage_root_ok:
  "lineage_root st (store_loader st' snapshot) i s r \<Longrightarrow> id_ok s \<Longrightarrow> id_ok r"
  by (induction rule: lineage_root.induct) (auto dest: store_loader_Goto)

end
