(* ===== verification/Session_Search.thy ===== *)
theory Session_Search
  imports Session_Lineage
begin

text \<open>
  The lineage-aware query layer over the full-text index (\<^verbatim>\<open>mochi/sessions/search.py\<close>). The index
  itself is SQLite and stays a parameter: the bounded documents it returns for a query, or its
  error. What is modelled is everything the service adds: the checks of the arguments, the double
  resolution of a root, the exclusion of lineages, one result per lineage, and the limit.
\<close>

datatype search_error =
    Search_argument py_error
  | Search_lineage string
  | Search_unsafe string
  | Index_error string

record document =
  doc_session_id :: string
  doc_event_index :: json
  doc_turn_id :: json
  doc_timestamp :: json
  doc_source :: json
  doc_preview :: json
  doc_artifact_ref :: json
  doc_content_kind :: string
  doc_score :: json

record search_result =
  hit_session_id :: string
  hit_root_session_id :: string
  hit_event_index :: int
  hit_turn_id :: string
  hit_timestamp :: "string option"
  hit_source_kind :: string
  hit_preview :: string
  hit_artifact_ref :: "string option"
  hit_score :: json

text \<open>A resolver is a callable, which may raise, or a complete mapping.\<close>

datatype root_resolver = Callable "string \<Rightarrow> unit + json" | Complete_mapping "(string, json) dict"

definition require_identifier :: "json \<Rightarrow> string \<Rightarrow> string py" where
  "require_identifier value name =
     (case value of
        JStr s \<Rightarrow> (if py_strip s = [] then Inl (ValueError (name @ '' must be a non-empty string''))
                   else Inr (py_strip s))
      | _ \<Rightarrow> Inl (ValueError (name @ '' must be a non-empty string'')))"

definition require_query :: "json \<Rightarrow> unit py" where
  "require_query query =
     (case query of
        JStr s \<Rightarrow> requireE (py_strip s \<noteq> []) (ValueError ''query must contain searchable text'')
      | _ \<Rightarrow> Inl (TypeError ''query must be a string''))"

definition require_limit :: "json \<Rightarrow> nat py" where
  "require_limit limit =
     (case limit of
        JInt n \<Rightarrow> (if 1 \<le> n \<and> n \<le> 100 then Inr (nat n)
                   else Inl (ValueError ''limit must be an integer from 1 through 100''))
      | _ \<Rightarrow> Inl (ValueError ''limit must be an integer from 1 through 100''))"

definition checked_text :: "json \<Rightarrow> bool \<Rightarrow> nat option \<Rightarrow> search_error + string" where
  "checked_text value allow_empty maximum =
     (case value of
        JStr s \<Rightarrow>
          (if \<not> allow_empty \<and> s = [] then Inl (Search_unsafe ''invalid text'')
           else if (case maximum of Some m \<Rightarrow> length s > m | None \<Rightarrow> False)
           then Inl (Search_unsafe ''unbounded text'') else Inr s)
      | _ \<Rightarrow> Inl (Search_unsafe ''invalid text''))"

definition checked_optional_text :: "json \<Rightarrow> nat \<Rightarrow> search_error + string option" where
  "checked_optional_text value maximum =
     (if value = JNull then Inr None
      else bindE (checked_text value False (Some maximum)) (\<lambda>s. Inr (Some s)))"

definition checked_event_index :: "json \<Rightarrow> search_error + int" where
  "checked_event_index value =
     (case value of
        JInt n \<Rightarrow> (if n < 0 then Inl (Search_unsafe ''invalid event_index'') else Inr n)
      | _ \<Rightarrow> Inl (Search_unsafe ''invalid event_index''))"

definition checked_score :: "json \<Rightarrow> search_error + json" where
  "checked_score value =
     (case value of
        JNull \<Rightarrow> Inr JNull
      | JInt n \<Rightarrow> Inr (JFloat (Fin (of_int n)))
      | JFloat (Fin x) \<Rightarrow> Inr (JFloat (Fin x))
      | _ \<Rightarrow> Inl (Search_unsafe ''invalid score''))"

definition bounded_result :: "document \<Rightarrow> string \<Rightarrow> search_error + search_result" where
  "bounded_result d rt =
     bindE (checked_text (JStr (doc_session_id d)) False None) (\<lambda>sid.
     bindE (checked_text (doc_turn_id d) False (Some 256)) (\<lambda>turn.
     bindE (checked_optional_text (doc_timestamp d) 256) (\<lambda>ts.
     bindE (checked_text (doc_source d) False (Some 128)) (\<lambda>src.
     bindE (checked_text (doc_preview d) True (Some 512)) (\<lambda>preview.
     bindE (checked_optional_text (doc_artifact_ref d) 2048) (\<lambda>art.
     bindE (requireE (doc_content_kind d \<in>
               set [''bounded_text'', ''bounded_text_and_artifact'', ''artifact_only''])
             (Search_unsafe ''unknown content kind'')) (\<lambda>_.
     bindE (requireE (\<not> (doc_content_kind d = ''artifact_only'' \<and> preview \<noteq> []))
             (Search_unsafe ''artifact-only index document contains a preview'')) (\<lambda>_.
     bindE (checked_score (doc_score d)) (\<lambda>score.
     bindE (checked_event_index (doc_event_index d)) (\<lambda>idx.
       Inr \<lparr>hit_session_id = sid, hit_root_session_id = rt, hit_event_index = idx,
            hit_turn_id = turn, hit_timestamp = ts, hit_source_kind = src, hit_preview = preview,
            hit_artifact_ref = art, hit_score = score\<rparr>))))))))))"

definition resolve_once :: "root_resolver \<Rightarrow> string \<Rightarrow> search_error + json" where
  "resolve_once resolver session_id =
     (case resolver of
        Complete_mapping m \<Rightarrow>
          (case dget m session_id of
             None \<Rightarrow> Inl (Search_lineage ''session lineage mapping is incomplete'')
           | Some v \<Rightarrow> Inr v)
      | Callable f \<Rightarrow>
          (case f session_id of
             Inl _ \<Rightarrow> Inl (Search_lineage ''session lineage cannot be resolved'')
           | Inr v \<Rightarrow> Inr v))"

definition valid_root :: "json \<Rightarrow> search_error + string" where
  "valid_root v =
     (case require_identifier v ''root_session_id'' of
        Inl _ \<Rightarrow> Inl (Search_lineage ''session lineage resolver returned an invalid root'')
      | Inr r \<Rightarrow> Inr r)"

definition root_for :: "root_resolver \<Rightarrow> string \<Rightarrow> search_error + string" where
  "root_for resolver session_id =
     bindE (resolve_once resolver session_id) (\<lambda>resolved.
     bindE (valid_root resolved) (\<lambda>root.
     bindE (resolve_once resolver root) (\<lambda>resolved_root.
     bindE (valid_root resolved_root) (\<lambda>canonical.
     bindE (requireE (canonical = root)
             (Search_lineage ''session lineage resolver is not idempotent'')) (\<lambda>_.
       Inr root)))))"

definition argument :: "'a py \<Rightarrow> search_error + 'a" where
  "argument r = (case r of Inl e \<Rightarrow> Inl (Search_argument e) | Inr x \<Rightarrow> Inr x)"

definition iterable_ids :: "json \<Rightarrow> json list py" where
  "iterable_ids v =
     (case v of
        JList xs \<Rightarrow> Inr xs
      | JObj d \<Rightarrow> Inr (map JStr (dkeys d))
      | _ \<Rightarrow> Inl (TypeError ''exclude_lineage_ids must be an iterable of session ids''))"

definition identified_root :: "root_resolver \<Rightarrow> string \<Rightarrow> json \<Rightarrow> search_error + string" where
  "identified_root resolver name v =
     bindE (argument (require_identifier v name)) (root_for resolver)"

definition excluded_roots :: "root_resolver \<Rightarrow> json \<Rightarrow> json \<Rightarrow> search_error + string list" where
  "excluded_roots resolver current exclude =
     bindE (if current = JNull then Inr []
            else bindE (identified_root resolver ''current_session_id'' current) (\<lambda>r. Inr [r]))
       (\<lambda>cur.
     bindE (argument (iterable_ids exclude)) (\<lambda>requested.
     bindE (traverseE (identified_root resolver ''exclude_lineage_ids item'') requested) (\<lambda>roots.
       Inr (cur @ roots))))"

text \<open>The loop over the index documents: \<open>seen\<close> holds the roots selected so far.\<close>

fun select_documents ::
  "root_resolver \<Rightarrow> nat \<Rightarrow> string list \<Rightarrow> string list \<Rightarrow> document list
     \<Rightarrow> search_error + search_result list" where
  "select_documents resolver limit excluded seen [] = Inr []"
| "select_documents resolver limit excluded seen (d # ds) =
     bindE (root_for resolver (doc_session_id d)) (\<lambda>root.
     bindE (bounded_result d root) (\<lambda>r.
       if root \<in> set excluded \<or> root \<in> set seen
       then select_documents resolver limit excluded seen ds
       else if Suc (length seen) = limit then Inr [r]
       else bindE (select_documents resolver limit excluded (root # seen) ds) (\<lambda>rs.
              Inr (r # rs))))"

definition search_sessions ::
  "(string \<Rightarrow> search_error + document list) \<Rightarrow> root_resolver \<Rightarrow> json \<Rightarrow> json \<Rightarrow> json \<Rightarrow> json
     \<Rightarrow> search_error + search_result list" where
  "search_sessions index resolver query limit current exclude =
     bindE (argument (require_query query)) (\<lambda>_.
     bindE (argument (require_limit limit)) (\<lambda>n.
     bindE (excluded_roots resolver current exclude) (\<lambda>excluded.
     bindE (index (case query of JStr s \<Rightarrow> s | _ \<Rightarrow> [])) (\<lambda>documents.
       select_documents resolver n excluded [] documents))))"

text \<open>\<^verbatim>\<open>SessionStore.resolve_session_root\<close>, the resolver the search endpoint passes.\<close>

definition store_resolver :: "string \<Rightarrow> (string \<Rightarrow> unit + json list option) \<Rightarrow> root_resolver" where
  "store_resolver storage_id snapshot =
     Callable (\<lambda>s. case resolve_lineage storage_id (store_loader storage_id snapshot)
                     (JStr (py_strip s)) of
        Some (Inr r) \<Rightarrow> Inr (JStr r)
      | _ \<Rightarrow> Inl ())"

section \<open>Results come from distinct lineages that were not excluded\<close>

lemma bounded_result_root:
  "bounded_result d rt = Inr r \<Longrightarrow>
     hit_root_session_id r = rt \<and> hit_session_id r = doc_session_id d"
  by (auto simp: bounded_result_def result_simps checked_text_def split: if_splits)

lemma search_identifier_Inr [result_simps]:
  "require_identifier v name = Inr r \<longleftrightarrow> (\<exists>s. v = JStr s \<and> py_strip s = r \<and> r \<noteq> [])"
  by (cases v) (auto simp: require_identifier_def)

lemma valid_root_Inr [result_simps]:
  "valid_root v = Inr r \<longleftrightarrow> (\<exists>s. v = JStr s \<and> py_strip s = r \<and> r \<noteq> [])"
  by (cases v) (auto simp: valid_root_def require_identifier_def)

lemma argument_Inr [result_simps]: "argument m = Inr x \<longleftrightarrow> m = Inr x"
  by (cases m) (auto simp: argument_def)

lemma resolve_once_store [result_simps]:
  "resolve_once (store_resolver st snapshot) s = Inr v \<longleftrightarrow>
     (\<exists>r. v = JStr r \<and> resolve_lineage st (store_loader st snapshot) (JStr (py_strip s)) = Some (Inr r))"
  by (auto simp: resolve_once_def store_resolver_def split: option.splits sum.splits)

lemma root_for_idem: "root_for resolver s = Inr r \<Longrightarrow> root_for resolver r = Inr r"
  by (auto simp: root_for_def result_simps)

text \<open>What a selection over the documents \<open>ds\<close> is, when the roots \<open>seen\<close> are already taken.\<close>

definition selection ::
  "root_resolver \<Rightarrow> nat \<Rightarrow> string list \<Rightarrow> string list \<Rightarrow> document list \<Rightarrow> search_result list \<Rightarrow> bool" where
  "selection resolver limit excluded seen ds rs \<longleftrightarrow>
     length seen + length rs \<le> limit \<and>
     distinct (map hit_root_session_id rs) \<and>
     (\<forall>r \<in> set rs. hit_root_session_id r \<notin> set excluded \<union> set seen \<and>
        root_for resolver (hit_session_id r) = Inr (hit_root_session_id r) \<and>
        (\<exists>d \<in> set ds. bounded_result d (hit_root_session_id r) = Inr r)) \<and>
     (length seen + length rs < limit \<longrightarrow>
        (\<forall>d \<in> set ds. \<exists>rt. root_for resolver (doc_session_id d) = Inr rt \<and>
           rt \<in> set excluded \<union> set seen \<union> hit_root_session_id ` set rs))"

lemma selection_skip:
  "selection resolver limit excluded seen ds rs \<Longrightarrow> root_for resolver (doc_session_id d) = Inr rt \<Longrightarrow>
   rt \<in> set excluded \<or> rt \<in> set seen \<Longrightarrow> selection resolver limit excluded seen (d # ds) rs"
  unfolding selection_def by auto

lemma selection_last:
  "root_for resolver (doc_session_id d) = Inr rt \<Longrightarrow> bounded_result d rt = Inr r \<Longrightarrow>
   rt \<notin> set excluded \<Longrightarrow> rt \<notin> set seen \<Longrightarrow> Suc (length seen) = limit \<Longrightarrow>
   selection resolver limit excluded seen (d # ds) [r]"
  by (frule bounded_result_root) (auto simp: selection_def)

lemma selection_take:
  "selection resolver limit excluded (rt # seen) ds rs \<Longrightarrow>
   root_for resolver (doc_session_id d) = Inr rt \<Longrightarrow> bounded_result d rt = Inr r \<Longrightarrow>
   rt \<notin> set excluded \<Longrightarrow> rt \<notin> set seen \<Longrightarrow> selection resolver limit excluded seen (d # ds) (r # rs)"
  by (frule bounded_result_root) (auto simp: selection_def)

lemma select_documents_selection:
  "select_documents resolver limit excluded seen ds = Inr rs \<Longrightarrow> length seen < limit \<Longrightarrow>
     selection resolver limit excluded seen ds rs"
proof (induction resolver limit excluded seen ds arbitrary: rs rule: select_documents.induct)
  case (1 resolver limit excluded seen)
  then show ?case by (simp add: selection_def)
next
  case (2 resolver limit excluded seen d ds)
  from "2.prems"(1) obtain rt r
    where rt: "root_for resolver (doc_session_id d) = Inr rt" and r: "bounded_result d rt = Inr r"
      and rest: "(if rt \<in> set excluded \<or> rt \<in> set seen
         then select_documents resolver limit excluded seen ds
         else if Suc (length seen) = limit then Inr [r]
         else bindE (select_documents resolver limit excluded (rt # seen) ds) (\<lambda>rs. Inr (r # rs)))
           = Inr rs"
    by (auto simp: bindE_eq_Inr)
  consider (skip) "rt \<in> set excluded \<or> rt \<in> set seen"
    | (last) "rt \<notin> set excluded" "rt \<notin> set seen" "Suc (length seen) = limit"
    | (take) "rt \<notin> set excluded" "rt \<notin> set seen" "Suc (length seen) \<noteq> limit"
    by blast
  then show ?case
  proof cases
    case skip
    then show ?thesis
      using selection_skip [OF "2.IH"(1) [OF skip] rt] rest "2.prems"(2) by simp
  next
    case last
    then show ?thesis using selection_last [OF rt r] rest by simp
  next
    case take
    then obtain rs' where "select_documents resolver limit excluded (rt # seen) ds = Inr rs'"
      and "rs = r # rs'"
      using rest by (auto simp: bindE_eq_Inr)
    then show ?thesis
      using selection_take [OF "2.IH"(2) rt r] take "2.prems"(2) by simp
  qed
qed

end
