(* ===== verification/Session_Properties.thy ===== *)
theory Session_Properties
  imports Session_Search
begin

text \<open>
  The properties of session lineage and of the search that relies on it: the walk to the root
  returns, returns the root and nothing else, an envelope survives its event, and a search never
  shows a lineage twice or one that was excluded. Each is followed by its instance on concrete
  sessions.
\<close>

lemma resolve_lineage_str:
  "resolve_lineage st load (JStr s) =
     (if id_ok s then resolve_from st load [] True s else Some (Inl Malformed_id))"
  by (auto simp: resolve_lineage_def require_persisted_identifier_def id_ok_def)

text \<open>C29. Resolving a lineage always returns when only finitely many sessions name a parent, whatever
  their pointers are: a chain that runs into itself is reported, not followed for ever.\<close>

theorem lineage_resolution_returns:
  assumes "finite (Domain (parents storage_id load))"
  shows "\<exists>r. resolve_lineage storage_id load session_id = Some r"
  unfolding resolve_lineage_def
  using resolve_returns_aux [OF assms, of "[]"] by (auto split: sum.split)

definition two_cycle :: loader where
  "two_cycle s =
     (if s = ''a'' then Loaded (Some \<lparr>ln_storage_id = ''st'', ln_session_id = ''a'',
        ln_parent_session_id = Some ''b'', ln_parent_storage_id = Some ''st'',
        ln_fork_until_turn_id = Some ''t''\<rparr>)
      else if s = ''b'' then Loaded (Some \<lparr>ln_storage_id = ''st'', ln_session_id = ''b'',
        ln_parent_session_id = Some ''a'', ln_parent_storage_id = Some ''st'',
        ln_fork_until_turn_id = Some ''t''\<rparr>)
      else Lineage_raised Record_not_found)"

lemma two_cycle_parents: "Domain (parents ''st'' two_cycle) \<subseteq> {''a'', ''b''}"
  by (auto simp: parents_def lineage_step_def two_cycle_def)

theorem lineage_resolution_returns_witness:
  "(\<exists>r. resolve_lineage ''st'' two_cycle (JStr ''a'') = Some r) \<and>
   resolve_lineage ''st'' two_cycle (JStr ''a'') = Some (Inl Lineage_cycle)"
proof
  show "\<exists>r. resolve_lineage ''st'' two_cycle (JStr ''a'') = Some r"
    by (rule lineage_resolution_returns) (meson finite.simps finite_subset two_cycle_parents)
  show "resolve_lineage ''st'' two_cycle (JStr ''a'') = Some (Inl Lineage_cycle)"
    by (simp add: resolve_lineage_str id_ok_def py_strip_def py_space_def resolve_from.simps
        lineage_step_def validate_envelope_def two_cycle_def)
qed

lemma lineage_walk:
  "resolve_lineage storage_id load (JStr s) = Some (Inr r) \<longleftrightarrow>
     id_ok s \<and> lineage_root storage_id load True s r"
  using resolve_sound [of storage_id load "[]" True s r]
    resolve_complete [of storage_id load True s r "[]"]
  by (auto simp: resolve_lineage_str)

text \<open>C30. The resolver returns a root exactly when the walk of parent pointers from a well-formed session
  id ends there: never another session, and never an error on a chain that has a root.\<close>

theorem lineage_resolves_to_root:
  "resolve_lineage storage_id load (JStr s) = Some (Inr r) \<longleftrightarrow>
     id_ok s \<and> lineage_root storage_id load True s r"
  by (rule lineage_walk)

text \<open>A lineage envelope built for a session reads back from the created event that carries it,
  among any events that are not created metadata; a second one is refused as a conflict.\<close>

theorem lineage_envelope_round_trip:
  assumes "build_session_lineage_envelope (JStr st) (JStr se) parent parent_storage fork = Inr d"
    and "\<And>ev. ev \<in> set others \<Longrightarrow> \<exists>x. ev = JObj x \<and>
      (jget x ''type'' \<noteq> JStr ''session_meta'' \<or> jget x ''event'' \<noteq> JStr ''created'')"
  shows "(\<exists>e. lineage_envelope_from_events (JObj (created_with d) # others) st se = Inr (Some e) \<and>
      envelope_payload e = d) \<and>
    lineage_envelope_from_events (JObj (created_with d) # JObj (created_with d) # others) st se
      = Inl Conflicting_record"
proof -
  from assms(1) obtain e where e: "lineage_ok e" "validate_envelope e st se = Inr ()"
      "d = envelope_payload e"
    by (auto simp: build_envelope_Inr read_envelope_ok)
  have others: "lineage_candidates others = Inr []"
    using assms(2) by (rule candidates_other)
  have cons: "lineage_candidates (JObj (created_with d) # evs) =
      bindE (lineage_candidates evs) (\<lambda>cs. Inr (d # cs))" for evs
    by (simp add: created_with_def jget_def)
  have "lineage_candidates (JObj (created_with d) # others) = Inr [d]"
    unfolding cons others by simp
  then have "lineage_envelope_from_events (JObj (created_with d) # others) st se = Inr (Some e)"
    unfolding e(3) by (rule envelope_from_created [OF e(1,2)])
  moreover have "lineage_envelope_from_events
      (JObj (created_with d) # JObj (created_with d) # others) st se = Inl Conflicting_record"
    unfolding lineage_envelope_from_events_def cons by (simp add: others)
  ultimately show ?thesis using e(3) by blast
qed

definition fork_envelope :: envelope where
  "fork_envelope = \<lparr>ln_storage_id = ''st'', ln_session_id = ''b'',
     ln_parent_session_id = Some ''a'', ln_parent_storage_id = Some ''st'',
     ln_fork_until_turn_id = Some ''t1''\<rparr>"

theorem lineage_envelope_round_trip_witness:
  "(\<exists>e. lineage_envelope_from_events
       [JObj (created_with (envelope_payload fork_envelope)), JObj [(''type'', JStr ''message'')]]
       ''st'' ''b'' = Inr (Some e) \<and> envelope_payload e = envelope_payload fork_envelope)"
proof -
  have "build_session_lineage_envelope (JStr ''st'') (JStr ''b'') (JStr ''a'') (JStr ''st'')
      (JStr ''t1'') = Inr (envelope_payload fork_envelope)"
    by code_simp
  from lineage_envelope_round_trip [OF this, of "[JObj [(''type'', JStr ''message'')]]"]
  show ?thesis by (simp add: jget_def)
qed

section \<open>Search\<close>

text \<open>The session ids a request excludes: the current session and the listed ones.\<close>

definition excluded_ids :: "json \<Rightarrow> json list \<Rightarrow> string set" where
  "excluded_ids current exclude =
     {py_strip s |s. current = JStr s \<or> JStr s \<in> set exclude}"

lemma root_for_store:
  assumes "root_for (store_resolver st snapshot) s = Inr r"
  shows "lineage_root st (store_loader st snapshot) True (py_strip s) r"
proof -
  from assms obtain w where "resolve_once (store_resolver st snapshot) s = Inr w"
      and "valid_root w = Inr r"
    by (auto simp: root_for_def bindE_eq_Inr)
  then obtain v where "w = JStr v"
      and v: "resolve_lineage st (store_loader st snapshot) (JStr (py_strip s)) = Some (Inr v)"
    unfolding resolve_once_store by blast
  with \<open>valid_root w = Inr r\<close> have strip: "py_strip v = r"
    by (simp only: valid_root_Inr json.inject) blast
  have walk: "id_ok (py_strip s) \<and> lineage_root st (store_loader st snapshot) True (py_strip s) v"
    using lineage_walk v by blast
  then have "id_ok v" by (blast intro: lineage_root_ok)
  with walk strip show ?thesis by (simp add: id_ok_def)
qed

text \<open>The excluded roots are the roots of the excluded sessions.\<close>

lemma lineage_root_unique:
  "lineage_root st load i s r \<Longrightarrow> lineage_root st load i s r' \<Longrightarrow> r = r'"
proof (induction arbitrary: r' rule: lineage_root.induct)
  case (here i s)
  show ?case by (rule lineage_rootE [OF here.prems]) (use here.hyps in simp_all)
next
  case (up i s p r)
  show ?case
  proof (rule lineage_rootE [OF up.prems])
    fix q assume "lineage_step st load i s = Goto q" and "lineage_root st load False q r'"
    with up.hyps(1) show "r = r'" by (intro up.IH) simp
  qed (use up.hyps(1) in simp)
qed

lemma identified_root_store:
  assumes "identified_root (store_resolver st snapshot) name v = Inr r"
  shows "\<exists>s. v = JStr s \<and> lineage_root st (store_loader st snapshot) True (py_strip s) r"
proof -
  from assms obtain s where "v = JStr s" and "root_for (store_resolver st snapshot) (py_strip s) = Inr r"
    unfolding identified_root_def result_simps by blast
  then show ?thesis using root_for_store by fastforce
qed

lemma excluded_roots_root:
  assumes "excluded_roots (store_resolver st snapshot) current (JList ids) = Inr excluded"
    and "x \<in> excluded_ids current ids"
  shows "\<exists>r \<in> set excluded. lineage_root st (store_loader st snapshot) True x r"
proof -
  let ?root = "identified_root (store_resolver st snapshot)"
  from assms(1) obtain cur roots
    where cur: "if current = JNull then cur = []
        else (\<exists>r. ?root ''current_session_id'' current = Inr r \<and> cur = [r])"
      and roots: "traverseE (?root ''exclude_lineage_ids item'') ids = Inr roots"
      and out: "excluded = cur @ roots"
    unfolding excluded_roots_def iterable_ids_def result_simps
    by (auto simp: bindE_eq_Inr split: if_splits)
  from assms(2) obtain s where x: "x = py_strip s" and "current = JStr s \<or> JStr s \<in> set ids"
    by (auto simp: excluded_ids_def)
  then consider "current = JStr s" | "JStr s \<in> set ids" by blast
  then show ?thesis
  proof cases
    case 1
    then obtain r where "?root ''current_session_id'' (JStr s) = Inr r" and "r \<in> set excluded"
      using cur out by auto
    then show ?thesis using identified_root_store x by blast
  next
    case 2
    then obtain r where "?root ''exclude_lineage_ids item'' (JStr s) = Inr r" and "r \<in> set roots"
      using roots unfolding traverseE_Inr_iff list_all2_conv_all_nth in_set_conv_nth by metis
    then show ?thesis using identified_root_store x out by fastforce
  qed
qed

text \<open>A search shows at most as many results as asked for and at most 100, each from another lineage,
  with the root the walk of parent pointers gives; no result belongs to the lineage of the current
  session or of an excluded one. When it shows fewer than asked for, the index documents hold no
  further lineage.\<close>

theorem search_shows_each_lineage_once:
  assumes "search_sessions index (store_resolver st snapshot) query (JInt limit) current (JList ids)
      = Inr results"
  shows "int (length results) \<le> limit \<and> limit \<le> 100 \<and>
    distinct (map hit_root_session_id results) \<and>
    (\<forall>r \<in> set results.
       lineage_root st (store_loader st snapshot) True (py_strip (hit_session_id r))
         (hit_root_session_id r) \<and>
       (\<forall>x \<in> excluded_ids current ids.
          \<not> lineage_root st (store_loader st snapshot) True x (hit_root_session_id r)))"
proof -
  let ?res = "store_resolver st snapshot"
  from assms obtain n excluded documents
    where n: "require_limit (JInt limit) = Inr n"
      and ex: "excluded_roots ?res current (JList ids) = Inr excluded"
      and sel: "select_documents ?res n excluded [] documents = Inr results"
    unfolding search_sessions_def result_simps by blast
  from n have lim: "limit \<le> 100" "int n = limit" "0 < n"
    by (auto simp: require_limit_def split: if_splits)
  have "selection ?res n excluded [] documents results"
    using select_documents_selection [OF sel] lim by simp
  note S = this [unfolded selection_def]
  have "\<not> lineage_root st (store_loader st snapshot) True x (hit_root_session_id r)"
    if "x \<in> excluded_ids current ids" and "r \<in> set results" for x r
    using excluded_roots_root [OF ex that(1)] S that(2) lineage_root_unique by blast
  then show ?thesis using S lim by (auto intro: root_for_store)
qed


definition one_document :: "string \<Rightarrow> search_error + document list" where
  "one_document query = Inr [\<lparr>doc_session_id = ''b'', doc_event_index = JInt 0, doc_turn_id = JStr ''t1'',
     doc_timestamp = JNull, doc_source = JStr ''user'', doc_preview = JStr ''hello'',
     doc_artifact_ref = JNull, doc_content_kind = ''bounded_text'', doc_score = JNull\<rparr>]"

definition fork_snapshot :: "string \<Rightarrow> unit + json list option" where
  "fork_snapshot s =
     (if s = ''a'' then Inr (Some [JObj [(''type'', JStr ''message'')]])
      else if s = ''b'' then Inr (Some [JObj (created_with (envelope_payload fork_envelope))])
      else if s = ''c'' then Inr (Some [JObj [(''type'', JStr ''message'')]])
      else Inr None)"

lemma fork_search:
  "search_sessions one_document (store_resolver ''st'' fork_snapshot) (JStr ''hello'') (JInt 5)
     (JStr ''c'') (JList []) = Inr [\<lparr>hit_session_id = ''b'', hit_root_session_id = ''a'',
       hit_event_index = 0, hit_turn_id = ''t1'', hit_timestamp = None, hit_source_kind = ''user'',
       hit_preview = ''hello'', hit_artifact_ref = None, hit_score = JNull\<rparr>]"
  by code_simp

theorem search_shows_each_lineage_once_witness:
  "lineage_root ''st'' (store_loader ''st'' fork_snapshot) True (py_strip ''b'') ''a'' \<and>
   \<not> lineage_root ''st'' (store_loader ''st'' fork_snapshot) True ''c'' ''a''"
proof -
  have "''c'' \<in> excluded_ids (JStr ''c'') []"
    unfolding excluded_ids_def by (rule CollectI, rule exI [of _ "''c''"]) code_simp
  then show ?thesis
    using search_shows_each_lineage_once [OF fork_search] by simp
qed

end
