(* ===== verification/Security_Policy.thy ===== *)
theory Security_Policy
  imports PyData
begin

text \<open>
  The effective permission policy (\<^verbatim>\<open>mochi/security/policy.py\<close>): the autonomy presets, the overlay of
  a policy layer, the restriction of a policy by a layer that must not widen it, the resolver that
  composes the layers, the parser of a snapshot and the match of a hard deny; and the baseline of
  the tool exposure (\<^verbatim>\<open>mochi/agents/tool_exposure.py\<close>) that reads the resolved autonomy mode.

  SHA-256 of the canonical JSON text is the parameter \<open>digest\<close>. The diagnostics an exposure plan
  carries for display are left out.
\<close>

section \<open>Modes, scopes and policies\<close>

datatype autonomy_mode = Strict | Trusted_workspace | Auto_review | High_autonomy

datatype policy_scope = Workspace | Any_path

text \<open>Scopes are ordered by what they allow.\<close>

instantiation policy_scope :: linorder
begin

fun less_eq_policy_scope :: "policy_scope \<Rightarrow> policy_scope \<Rightarrow> bool" where
  "less_eq_policy_scope Workspace _ = True"
| "less_eq_policy_scope Any_path s = (s = Any_path)"

definition less_policy_scope :: "policy_scope \<Rightarrow> policy_scope \<Rightarrow> bool" where
  "less_policy_scope a b \<longleftrightarrow> a \<le> b \<and> a \<noteq> b"

instance
proof
  fix a b c :: policy_scope
  show "a < b \<longleftrightarrow> a \<le> b \<and> \<not> b \<le> a"
    by (cases a; cases b) (auto simp: less_policy_scope_def)
  show "a \<le> a" by (cases a) auto
  show "a \<le> b \<Longrightarrow> b \<le> c \<Longrightarrow> a \<le> c" by (cases a; cases b) auto
  show "a \<le> b \<Longrightarrow> b \<le> a \<Longrightarrow> a = b" by (cases a; cases b) auto
  show "a \<le> b \<or> b \<le> a" by (cases a; cases b) auto
qed

end

fun mode_text :: "autonomy_mode \<Rightarrow> string" where
  "mode_text Strict = ''strict''"
| "mode_text Trusted_workspace = ''trusted_workspace''"
| "mode_text Auto_review = ''auto_review''"
| "mode_text High_autonomy = ''high_autonomy''"

fun scope_text :: "policy_scope \<Rightarrow> string" where
  "scope_text Workspace = ''workspace''"
| "scope_text Any_path = ''any''"

record policy =
  pol_mode :: autonomy_mode
  pol_write_approval :: bool
  pol_exec_approval :: bool
  pol_read_scope :: policy_scope
  pol_write_scope :: policy_scope

fun autonomy_mode_defaults :: "autonomy_mode \<Rightarrow> policy" where
  "autonomy_mode_defaults Strict =
     \<lparr>pol_mode = Strict, pol_write_approval = True, pol_exec_approval = True,
      pol_read_scope = Workspace, pol_write_scope = Workspace\<rparr>"
| "autonomy_mode_defaults Trusted_workspace =
     \<lparr>pol_mode = Trusted_workspace, pol_write_approval = False, pol_exec_approval = True,
      pol_read_scope = Workspace, pol_write_scope = Workspace\<rparr>"
| "autonomy_mode_defaults Auto_review =
     \<lparr>pol_mode = Auto_review, pol_write_approval = False, pol_exec_approval = False,
      pol_read_scope = Workspace, pol_write_scope = Workspace\<rparr>"
| "autonomy_mode_defaults High_autonomy =
     \<lparr>pol_mode = High_autonomy, pol_write_approval = False, pol_exec_approval = False,
      pol_read_scope = Workspace, pol_write_scope = Workspace\<rparr>"

definition infer_autonomy_mode :: "bool \<Rightarrow> bool \<Rightarrow> string \<Rightarrow> autonomy_mode" where
  "infer_autonomy_mode exec_approval write_approval write_scope =
     (if \<not> exec_approval \<and> \<not> write_approval \<and> write_scope = ''any'' then High_autonomy
      else if \<not> exec_approval \<and> \<not> write_approval \<and> write_scope = ''workspace'' then Auto_review
      else if exec_approval \<and> \<not> write_approval \<and> write_scope = ''workspace''
      then Trusted_workspace
      else Strict)"

definition normalized_mode :: "json \<Rightarrow> autonomy_mode option" where
  "normalized_mode v =
     (if v = JStr ''strict'' then Some Strict
      else if v = JStr ''trusted_workspace'' then Some Trusted_workspace
      else if v = JStr ''auto_review'' then Some Auto_review
      else if v = JStr ''high_autonomy'' then Some High_autonomy
      else None)"

definition normalized_scope :: "json \<Rightarrow> policy_scope option" where
  "normalized_scope v =
     (if v = JStr ''workspace'' then Some Workspace
      else if v = JStr ''any'' then Some Any_path
      else None)"

fun as_bool :: "json \<Rightarrow> bool option" where
  "as_bool (JBool b) = Some b"
| "as_bool _ = None"

text \<open>The non-blank strings of a list, stripped, without repetition, in order.\<close>

definition normalized_hard_denies :: "json \<Rightarrow> string list" where
  "normalized_hard_denies v =
     (case v of
        JList xs \<Rightarrow>
          sort (remdups (filter (\<lambda>s. s \<noteq> [])
            (map py_strip (List.map_filter as_str xs))))
      | _ \<Rightarrow> [])"

section \<open>Layers\<close>

definition policy_fields :: "string list" where
  "policy_fields =
     [''autonomy_mode'', ''require_approval_for_file_write'', ''require_approval_for_exec'',
      ''file_ops_scope'', ''file_read_scope'', ''file_write_scope'', ''hard_denies'']"

text \<open>A layer is a mapping or nothing; a missing layer reads as the empty mapping.\<close>

definition has_policy_inputs :: "jdict option \<Rightarrow> bool" where
  "has_policy_inputs layer =
     (case layer of None \<Rightarrow> False | Some d \<Rightarrow> list_ex (\<lambda>k. k \<in> set policy_fields) (dkeys d))"

definition layer_of :: "jdict option \<Rightarrow> jdict" where
  "layer_of layer = (case layer of None \<Rightarrow> [] | Some d \<Rightarrow> d)"

definition override :: "'a option \<Rightarrow> 'a \<Rightarrow> 'a" where
  "override x old = (case x of None \<Rightarrow> old | Some y \<Rightarrow> y)"

text \<open>\<open>_overlay_policy\<close>: the preset first, then the explicit approvals and scopes.\<close>

definition overlay_policy :: "policy \<Rightarrow> jdict \<Rightarrow> policy" where
  "overlay_policy current overlay =
     (let p = override (map_option autonomy_mode_defaults
                         (normalized_mode (jget overlay ''autonomy_mode''))) current;
          legacy = normalized_scope (jget overlay ''file_ops_scope'');
          read = override legacy (pol_read_scope p);
          write = override legacy (pol_write_scope p)
      in p\<lparr>pol_write_approval :=
             override (as_bool (jget overlay ''require_approval_for_file_write''))
               (pol_write_approval p),
           pol_exec_approval :=
             override (as_bool (jget overlay ''require_approval_for_exec'')) (pol_exec_approval p),
           pol_read_scope := override (normalized_scope (jget overlay ''file_read_scope'')) read,
           pol_write_scope :=
             override (normalized_scope (jget overlay ''file_write_scope'')) write\<rparr>)"

definition narrower_scope :: "policy_scope \<Rightarrow> policy_scope \<Rightarrow> policy_scope" where
  "narrower_scope left right = (if Workspace \<in> set [left, right] then Workspace else Any_path)"

definition same_permissions :: "policy \<Rightarrow> policy \<Rightarrow> bool" where
  "same_permissions p q \<longleftrightarrow>
     pol_write_approval p = pol_write_approval q \<and> pol_exec_approval p = pol_exec_approval q \<and>
     pol_read_scope p = pol_read_scope q \<and> pol_write_scope p = pol_write_scope q"

text \<open>\<open>_restrict_policy\<close>.\<close>

definition restrict_policy :: "policy \<Rightarrow> jdict \<Rightarrow> policy" where
  "restrict_policy current restrictions =
     (let requested = overlay_policy current restrictions;
          resolved = current\<lparr>
            pol_write_approval := pol_write_approval current \<or> pol_write_approval requested,
            pol_exec_approval := pol_exec_approval current \<or> pol_exec_approval requested,
            pol_read_scope := narrower_scope (pol_read_scope current) (pol_read_scope requested),
            pol_write_scope :=
              narrower_scope (pol_write_scope current) (pol_write_scope requested)\<rparr>
      in (case normalized_mode (jget restrictions ''autonomy_mode'') of
            Some m \<Rightarrow>
              (if same_permissions resolved requested then resolved\<lparr>pol_mode := m\<rparr> else resolved)
          | None \<Rightarrow> resolved))"

section \<open>The resolver\<close>

record snapshot =
  snap_id :: string
  snap_version :: string
  snap_chain :: "string list"
  snap_policy :: policy
  snap_denies :: "string list"

definition apply_layer ::
  "(policy \<Rightarrow> jdict \<Rightarrow> policy) \<Rightarrow> string \<Rightarrow> jdict option \<Rightarrow> policy \<times> string list
     \<Rightarrow> policy \<times> string list" where
  "apply_layer combine name layer pc =
     (if has_policy_inputs layer
      then (combine (fst pc) (layer_of layer), snd pc @ [name]) else pc)"

definition policy_json :: "policy \<Rightarrow> jdict" where
  "policy_json p =
     [(''autonomy_mode'', JStr (mode_text (pol_mode p))),
      (''require_approval_for_file_write'', JBool (pol_write_approval p)),
      (''require_approval_for_exec'', JBool (pol_exec_approval p)),
      (''file_read_scope'', JStr (scope_text (pol_read_scope p))),
      (''file_write_scope'', JStr (scope_text (pol_write_scope p)))]"

definition layered_policy ::
  "policy \<Rightarrow> jdict option \<Rightarrow> jdict option \<Rightarrow> jdict option \<Rightarrow> jdict option
     \<Rightarrow> policy \<times> string list" where
  "layered_policy security workspace session run hard =
     apply_layer restrict_policy ''hard_constraint'' hard
    (apply_layer restrict_policy ''run_restriction'' run
    (apply_layer overlay_policy ''session_override'' session
    (apply_layer overlay_policy ''workspace_policy'' workspace
      (security, [''security_config'']))))"

definition resolved_denies :: "jdict option \<Rightarrow> jdict option \<Rightarrow> string list" where
  "resolved_denies run hard =
     sort (remdups (normalized_hard_denies (jget (layer_of run) ''hard_denies'') @
                    normalized_hard_denies (jget (layer_of hard) ''hard_denies'')))"

text \<open>\<open>policy_projection_version\<close> and \<open>rsplit(":", maxsplit=1)[-1]\<close>.\<close>

definition policy_projection_version :: "(json \<Rightarrow> string) \<Rightarrow> string \<Rightarrow> json \<Rightarrow> string" where
  "policy_projection_version digest namespace projection =
     namespace @ ''-v1:'' @ digest projection"

definition after_last_colon :: "string \<Rightarrow> string" where
  "after_last_colon s = rev (takeWhile (\<lambda>c. c \<noteq> CHR '':'') (rev s))"

definition resolve_policy ::
  "(json \<Rightarrow> string) \<Rightarrow> policy \<Rightarrow> jdict option \<Rightarrow> jdict option \<Rightarrow> jdict option \<Rightarrow> jdict option
     \<Rightarrow> snapshot" where
  "resolve_policy digest security workspace session run hard =
     (let pc = layered_policy security workspace session run hard;
          denies = resolved_denies run hard;
          version = policy_projection_version digest ''effective-policy''
            (JObj ([(''schema_version'', JInt 1), (''source_chain'', JList (map JStr (snd pc)))]
                   @ policy_json (fst pc) @ [(''hard_denies'', JList (map JStr denies))]))
      in \<lparr>snap_id = ''policy-'' @ after_last_colon version, snap_version = version,
          snap_chain = snd pc, snap_policy = fst pc, snap_denies = denies\<rparr>)"

definition resolve_runtime_permission_policy :: "policy \<Rightarrow> jdict option \<Rightarrow> policy" where
  "resolve_runtime_permission_policy security overrides =
     snap_policy (resolve_policy (\<lambda>_. []) security None overrides None None)"

definition build_runtime_permission_policy_dict :: "policy \<Rightarrow> jdict option \<Rightarrow> jdict" where
  "build_runtime_permission_policy_dict security overrides =
     foldl (\<lambda>payload (k, v).
        if k \<noteq> ''file_ops_scope'' \<and> dget payload k = None then dput payload k v else payload)
       (policy_json (resolve_runtime_permission_policy security overrides)) (layer_of overrides)"

section \<open>Snapshots carried by a tool call\<close>

definition snapshot_json :: "snapshot \<Rightarrow> jdict" where
  "snapshot_json s =
     [(''policy_snapshot_id'', JStr (snap_id s)),
      (''policy_version'', JStr (snap_version s)),
      (''source_chain'', JList (map JStr (snap_chain s)))]
     @ policy_json (snap_policy s) @ [(''hard_denies'', JList (map JStr (snap_denies s)))]"

definition stripped_text :: "json \<Rightarrow> string option" where
  "stripped_text v = (case v of JStr s \<Rightarrow> (if py_strip s = [] then None else Some (py_strip s)) | _ \<Rightarrow> None)"

fun all_nonblank :: "json list \<Rightarrow> string list option" where
  "all_nonblank [] = Some []"
| "all_nonblank (v # vs) =
     (case (stripped_text v, all_nonblank vs) of (Some s, Some ss) \<Rightarrow> Some (s # ss) | _ \<Rightarrow> None)"

definition snapshot_policy_of :: "jdict \<Rightarrow> policy option" where
  "snapshot_policy_of d =
     (case (normalized_mode (jget d ''autonomy_mode''), normalized_scope (jget d ''file_read_scope''),
            normalized_scope (jget d ''file_write_scope''),
            as_bool (jget d ''require_approval_for_file_write''),
            as_bool (jget d ''require_approval_for_exec'')) of
        (Some m, Some r, Some w, Some f, Some e) \<Rightarrow>
          Some \<lparr>pol_mode = m, pol_write_approval = f, pol_exec_approval = e,
                pol_read_scope = r, pol_write_scope = w\<rparr>
      | _ \<Rightarrow> None)"

definition effective_policy_snapshot_from_mapping :: "json \<Rightarrow> snapshot option" where
  "effective_policy_snapshot_from_mapping value =
     (case value of
        JObj d \<Rightarrow>
          (case (stripped_text (jget d ''policy_snapshot_id''), stripped_text (jget d ''policy_version''),
                 (case jget d ''source_chain'' of JList xs \<Rightarrow> all_nonblank xs | _ \<Rightarrow> None),
                 snapshot_policy_of d) of
             (Some i, Some v, Some c, Some p) \<Rightarrow>
               Some \<lparr>snap_id = i, snap_version = v, snap_chain = c, snap_policy = p,
                     snap_denies = normalized_hard_denies (jget d ''hard_denies'')\<rparr>
           | _ \<Rightarrow> None)
      | _ \<Rightarrow> None)"

text \<open>The denies a tool is checked against come from a snapshot, from a mapping, or there are none.\<close>

datatype deny_source = From_snapshot snapshot | From_value json

definition matching_tool_hard_deny :: "deny_source \<Rightarrow> string \<Rightarrow> string option \<Rightarrow> string option" where
  "matching_tool_hard_deny source tool_name capability =
     (let denies = (case source of
            From_snapshot s \<Rightarrow> snap_denies s
          | From_value (JObj d) \<Rightarrow> normalized_hard_denies (jget d ''hard_denies'')
          | From_value _ \<Rightarrow> []);
          tool = py_lower (py_strip tool_name);
          cap = py_lower (py_strip (override capability []));
          selectors = [tool, ''tool:'' @ tool] @
            (if cap = [] then [] else [cap, cap @ '':*'', ''tool:'' @ cap])
      in List.find (\<lambda>deny. py_lower (py_strip deny) \<in> set selectors) denies)"

section \<open>Tool exposure\<close>

record exposure_plan =
  plan_tool_names :: "string list"
  plan_limit :: nat
  plan_discoverable :: "string list"
  plan_workspace_bound :: bool
  plan_attachments :: int

definition strict_blocked_tools :: "string list" where
  "strict_blocked_tools =
     [''exec_command'', ''execute_code'', ''execute_code_v2'', ''write_stdin'', ''kill_session'',
      ''process_poll'', ''process_stop'', ''mcp_call'']"

definition schema_limit :: "string \<Rightarrow> nat option" where
  "schema_limit mode =
     map_of [(''strict'', 4), (''trusted_workspace'', 6), (''auto_review'', 8),
             (''high_autonomy'', 10)] mode"

definition disabled_plan :: "bool \<Rightarrow> int \<Rightarrow> exposure_plan" where
  "disabled_plan bound attachments =
     \<lparr>plan_tool_names = [], plan_limit = 0, plan_discoverable = [],
      plan_workspace_bound = bound, plan_attachments = attachments\<rparr>"

definition plan_contract_baseline ::
  "string list \<Rightarrow> string \<Rightarrow> json \<Rightarrow> bool \<Rightarrow> string option \<Rightarrow> int \<Rightarrow> string \<Rightarrow> exposure_plan" where
  "plan_contract_baseline available backend_type backend_metadata bound mode attachments tool_mode =
     (let attachments' = max 0 attachments;
          metadata = (case backend_metadata of JObj d \<Rightarrow> d | _ \<Rightarrow> []);
          protocol = (if truthy (jget metadata ''tool_calling_protocol'')
                      then jget metadata ''tool_calling_protocol''
                      else jget metadata ''tool_calling_style'');
          prompt_guided = backend_type = ''ollama'' \<and> protocol = JStr ''prompt_guided'';
          blocked = jget metadata ''tool_calling_blocked'' = JBool True \<or>
            (jget metadata ''tool_call_mode'' = JStr ''unavailable'' \<and> \<not> prompt_guided)
      in if tool_mode = ''disabled'' \<or> blocked then disabled_plan bound attachments'
         else
           (let base_limit = (if backend_type \<in> set [''gguf'', ''safetensors''] then 6 else 10);
                effective = (case mode of
                    None \<Rightarrow> ''trusted_workspace''
                  | Some m \<Rightarrow> if m = [] then ''trusted_workspace'' else m);
                discoverable = filter
                  (\<lambda>n. \<not> (effective = ''strict'' \<and> n \<in> set strict_blocked_tools))
                  (dedup available)
            in \<lparr>plan_tool_names = filter (\<lambda>n. n \<in> set discoverable) [''tool_search''],
                plan_limit = min base_limit (override (schema_limit effective) base_limit),
                plan_discoverable = discoverable,
                plan_workspace_bound = bound, plan_attachments = attachments'\<rparr>))"

end
