(* ===== verification/Policy_Properties.thy ===== *)
theory Policy_Properties
  imports Security_Policy
begin

text \<open>
  What the policy layers promise. The interface \<open>narrowing\<close> states what a restriction is: the
  greatest policy below both the current and the requested one; it is interpreted on
  \<open>restrict_policy\<close>. The properties say that no restriction layer widens approvals or scopes, that
  a hard deny reaches the tool it names, that a snapshot survives its mapping, and where the
  autonomy mode escapes that promise.
\<close>

section \<open>Restrictions as meets\<close>

locale narrowing =
  fixes below :: "'p \<Rightarrow> 'p \<Rightarrow> bool"
    and restrict :: "'p \<Rightarrow> 'l \<Rightarrow> 'p"
    and requested :: "'p \<Rightarrow> 'l \<Rightarrow> 'p"
  assumes below_refl: "below p p"
    and below_trans: "below p q \<Longrightarrow> below q r \<Longrightarrow> below p r"
    and restrict_current: "below (restrict p l) p"
    and restrict_requested: "below (restrict p l) (requested p l)"
    and restrict_greatest: "below q p \<Longrightarrow> below q (requested p l) \<Longrightarrow> below q (restrict p l)"
begin

lemma layers_below: "below (foldl restrict p ls) p"
  by (induction ls arbitrary: p) (auto intro: below_refl below_trans restrict_current)

lemma later_layers_keep: "below (foldl restrict p (ls @ ms)) (foldl restrict p ls)"
  by (simp add: layers_below)

lemma no_request_no_change: "below p (requested p l) \<Longrightarrow> below p (restrict p l)"
  by (rule restrict_greatest [OF below_refl])

end

text \<open>A policy allows no more than another: it asks for approval wherever that one does, and its
  scopes are within that one's.\<close>

definition at_most :: "policy \<Rightarrow> policy \<Rightarrow> bool" where
  "at_most p q \<longleftrightarrow>
     (pol_write_approval q \<longrightarrow> pol_write_approval p) \<and>
     (pol_exec_approval q \<longrightarrow> pol_exec_approval p) \<and>
     pol_read_scope p \<le> pol_read_scope q \<and> pol_write_scope p \<le> pol_write_scope q"

lemma narrower_scope_min: "narrower_scope a b = min a b"
  by (cases a; cases b) (auto simp: narrower_scope_def min_def)

lemma restrict_permissions:
  "pol_write_approval (restrict_policy p l) =
     (pol_write_approval p \<or> pol_write_approval (overlay_policy p l))"
  "pol_exec_approval (restrict_policy p l) =
     (pol_exec_approval p \<or> pol_exec_approval (overlay_policy p l))"
  "pol_read_scope (restrict_policy p l) =
     min (pol_read_scope p) (pol_read_scope (overlay_policy p l))"
  "pol_write_scope (restrict_policy p l) =
     min (pol_write_scope p) (pol_write_scope (overlay_policy p l))"
  by (simp_all add: restrict_policy_def Let_def narrower_scope_min split: option.split)

interpretation permissions: narrowing at_most restrict_policy overlay_policy
  by unfold_locales (auto simp: at_most_def restrict_permissions)

lemma apply_restriction:
  "at_most (fst (apply_layer restrict_policy name layer pc)) (fst pc)"
  by (simp add: apply_layer_def permissions.restrict_current permissions.below_refl)

lemma layered_below:
  "at_most (fst (layered_policy security workspace session run hard))
     (fst (layered_policy security workspace session None None))"
  unfolding layered_policy_def
  by (simp add: apply_layer_def [of _ _ None] has_policy_inputs_def)
    (rule permissions.below_trans [OF apply_restriction apply_restriction])

lemma set_resolved_denies:
  "set (resolved_denies run hard) =
     set (normalized_hard_denies (jget (layer_of run) ''hard_denies'')) \<union>
     set (normalized_hard_denies (jget (layer_of hard) ''hard_denies''))"
  by (simp add: resolved_denies_def)

text \<open>C39. Whatever a run restriction and the hard constraints contain, the resolved policy asks for
  approval wherever the policy without them does, its file scopes stay within that policy's, and
  its hard denies are exactly those the two layers name.\<close>

theorem restrictions_never_widen:
  "at_most (snap_policy (resolve_policy digest security workspace session run hard))
       (snap_policy (resolve_policy digest security workspace session None None)) \<and>
   set (snap_denies (resolve_policy digest security workspace session run hard)) =
     set (normalized_hard_denies (jget (layer_of run) ''hard_denies'')) \<union>
     set (normalized_hard_denies (jget (layer_of hard) ''hard_denies''))"
  by (simp add: resolve_policy_def Let_def layered_below set_resolved_denies)

section \<open>The autonomy mode is not restricted\<close>

definition lifting_restriction :: jdict where
  "lifting_restriction =
     [(''autonomy_mode'', JStr ''trusted_workspace''),
      (''require_approval_for_file_write'', JBool True)]"

lemma names_mode_inputs:
  assumes "normalized_mode (jget d ''autonomy_mode'') = Some m"
  shows "has_policy_inputs (Some d)"
proof -
  have "dget d ''autonomy_mode'' \<noteq> None"
    using assms by (cases "dget d ''autonomy_mode''") (simp_all add: normalized_mode_def jget_def)
  then have "''autonomy_mode'' \<in> set (dkeys d)"
    by (simp add: map_of_eq_None_iff)
  then show ?thesis
    by (force simp: has_policy_inputs_def list_ex_iff policy_fields_def)
qed

text \<open>A restriction that asks for no more than the policy has is taken over whole, its mode included.\<close>

lemma restrict_takes_mode:
  assumes "normalized_mode (jget l ''autonomy_mode'') = Some m" and "at_most (overlay_policy p l) p"
  shows "pol_mode (restrict_policy p l) = m"
proof -
  have "same_permissions (p\<lparr>
      pol_write_approval := pol_write_approval p \<or> pol_write_approval (overlay_policy p l),
      pol_exec_approval := pol_exec_approval p \<or> pol_exec_approval (overlay_policy p l),
      pol_read_scope := narrower_scope (pol_read_scope p) (pol_read_scope (overlay_policy p l)),
      pol_write_scope := narrower_scope (pol_write_scope p) (pol_write_scope (overlay_policy p l))\<rparr>)
    (overlay_policy p l)"
    using assms(2) by (auto simp: same_permissions_def at_most_def narrower_scope_min)
  then show ?thesis
    using assms(1) by (simp add: restrict_policy_def Let_def)
qed

lemma run_restricted:
  "has_policy_inputs (Some l) \<Longrightarrow>
     snap_policy (resolve_policy digest security workspace session (Some l) None)
       = restrict_policy (snap_policy (resolve_policy digest security workspace session None None)) l"
  by (simp add: resolve_policy_def Let_def layered_policy_def layer_of_def
      apply_layer_def [of restrict_policy] has_policy_inputs_def [of None])

text \<open>The tools a turn may discover under a policy, whatever the backend.\<close>

definition exposure_under ::
  "snapshot \<Rightarrow> string list \<Rightarrow> string \<Rightarrow> json \<Rightarrow> bool \<Rightarrow> int \<Rightarrow> string \<Rightarrow> exposure_plan" where
  "exposure_under s available backend metadata bound attachments tool_mode =
     plan_contract_baseline available backend metadata bound (Some (mode_text (pol_mode (snap_policy s))))
       attachments tool_mode"

lemma mode_text_strict: "mode_text m = ''strict'' \<longleftrightarrow> m = Strict" "mode_text m \<noteq> []"
  by (cases m; simp)+

lemma exposed_tool:
  assumes "plan_limit (exposure_under s available backend metadata bound attachments tool_mode) \<noteq> 0"
    and "tool \<in> set available" and "tool \<in> set strict_blocked_tools"
  shows "tool \<in> set (plan_discoverable (exposure_under s available backend metadata bound attachments tool_mode))
    \<longleftrightarrow> pol_mode (snap_policy s) \<noteq> Strict"
  using assms
  by (auto simp: exposure_under_def plan_contract_baseline_def Let_def disabled_plan_def mode_text_strict
      split: if_splits)

lemma exposure_on:
  assumes "plan_limit (exposure_under s available backend metadata bound attachments tool_mode) \<noteq> 0"
  shows "plan_limit (exposure_under s' available backend metadata bound attachments tool_mode) \<noteq> 0"
proof -
  have "schema_limit (mode_text m) \<noteq> Some 0" for m
    by (cases m) (simp_all add: schema_limit_def)
  then show ?thesis
    using assms
    by (cases "pol_mode (snap_policy s')")
      (auto simp: exposure_under_def plan_contract_baseline_def Let_def disabled_plan_def override_def
        schema_limit_def split: if_splits option.splits)
qed

text \<open>C40. A run restriction can replace the strict mode by a looser one. Whatever the configured,
  workspace and session policies are, when they resolve to the strict mode and a run restriction
  names another preset while the approvals and scopes it asks for are no looser than those in force,
  its preset is taken over as the mode; and with it every available tool the strict mode hides
  (\<^verbatim>\<open>exec_command\<close> among them) becomes a tool the turn may discover, as long as tool calling is not
  switched off altogether, although approvals and scopes are no looser than before.\<close>

theorem restriction_lifts_strict_mode:
  assumes "base = resolve_policy digest security workspace session None None"
    and "restricted = resolve_policy digest security workspace session (Some restriction) None"
    and "pol_mode (snap_policy base) = Strict"
    and "normalized_mode (jget restriction ''autonomy_mode'') = Some m" and "m \<noteq> Strict"
    and "at_most (overlay_policy (snap_policy base) restriction) (snap_policy base)"
    and "tool \<in> set available" and "tool \<in> set strict_blocked_tools"
    and "plan_limit (exposure_under base available backend metadata bound attachments tool_mode) \<noteq> 0"
  shows "pol_mode (snap_policy restricted) = m
    \<and> at_most (snap_policy restricted) (snap_policy base)
    \<and> tool \<notin> set (plan_discoverable (exposure_under base available backend metadata bound attachments tool_mode))
    \<and> tool \<in> set (plan_discoverable
        (exposure_under restricted available backend metadata bound attachments tool_mode))"
proof -
  have r: "snap_policy restricted = restrict_policy (snap_policy base) restriction"
    unfolding assms(1,2) by (rule run_restricted [OF names_mode_inputs [OF assms(4)]])
  then have m: "pol_mode (snap_policy restricted) = m"
    using restrict_takes_mode [OF assms(4,6)] by simp
  have "plan_limit (exposure_under restricted available backend metadata bound attachments tool_mode) \<noteq> 0"
    using assms(9) exposure_on by blast
  from exposed_tool [OF this assms(7,8)] exposed_tool [OF assms(9,7,8)] m r assms(3,5)
  show ?thesis by (simp add: permissions.restrict_current)
qed

lemma lifting_sample:
  "pol_mode (snap_policy (resolve_policy (\<lambda>_. []) (autonomy_mode_defaults Strict) None None None None)) = Strict"
  "normalized_mode (jget lifting_restriction ''autonomy_mode'') = Some Trusted_workspace"
  "at_most (overlay_policy (snap_policy (resolve_policy (\<lambda>_. []) (autonomy_mode_defaults Strict)
      None None None None)) lifting_restriction)
     (snap_policy (resolve_policy (\<lambda>_. []) (autonomy_mode_defaults Strict) None None None None))"
  "''exec_command'' \<in> set [''exec_command'', ''read_file'']" "''exec_command'' \<in> set strict_blocked_tools"
  "plan_limit (exposure_under (resolve_policy (\<lambda>_. []) (autonomy_mode_defaults Strict) None None None None)
     [''exec_command'', ''read_file''] ''openai'' (JObj []) True 0 ''auto'') \<noteq> 0"
  by code_simp+

theorem restriction_lifts_strict_mode_witness:
  "''exec_command'' \<in> set (plan_discoverable (exposure_under
     (resolve_policy (\<lambda>_. []) (autonomy_mode_defaults Strict) None None (Some lifting_restriction) None)
     [''exec_command'', ''read_file''] ''openai'' (JObj []) True 0 ''auto''))"
  using restriction_lifts_strict_mode [OF refl refl lifting_sample(1,2) _ lifting_sample(3-6)] by simp

section \<open>Hard denies and snapshots\<close>

lemma normalized_denies_mem:
  "JStr s \<in> set xs \<Longrightarrow> py_strip s \<noteq> [] \<Longrightarrow> py_strip s \<in> set (normalized_hard_denies (JList xs))"
  by (force simp: normalized_hard_denies_def map_filter_def)

lemma find_some: "x \<in> set xs \<Longrightarrow> P x \<Longrightarrow> List.find P xs \<noteq> None"
  by (auto simp: find_None_iff)

lemma normalized_denies_fixed:
  assumes "sorted xs" and "distinct xs" and "\<forall>s \<in> set xs. s \<noteq> [] \<and> py_strip s = s"
  shows "normalized_hard_denies (JList (map JStr xs)) = xs"
proof -
  have "List.map_filter as_str (map JStr xs) = xs"
    by (induction xs) (auto simp: map_filter_def)
  moreover have "map py_strip xs = xs" and "filter (\<lambda>s. s \<noteq> []) xs = xs"
    using assms(3) by (auto intro: map_idI)
  ultimately show ?thesis
    using assms(1,2) by (simp add: normalized_hard_denies_def sorted_sort_id)
qed

lemma normalized_denies_ok:
  "s \<in> set (normalized_hard_denies v) \<Longrightarrow> s \<noteq> [] \<and> py_strip s = s"
  by (auto simp: normalized_hard_denies_def split: json.splits)

lemma resolved_denies_fixed:
  "normalized_hard_denies (JList (map JStr (resolved_denies run hard))) = resolved_denies run hard"
  by (rule normalized_denies_fixed)
    (auto simp: resolved_denies_def dest: normalized_denies_ok)

lemma policy_json_parses:
  assumes "\<And>k. k \<in> set (dkeys (policy_json p)) \<Longrightarrow> jget d k = jget (policy_json p) k"
  shows "snapshot_policy_of d = Some p"
proof -
  have m: "normalized_mode (JStr (mode_text m)) = Some m" for m
    by (cases m) (simp_all add: normalized_mode_def)
  have s: "normalized_scope (JStr (scope_text s)) = Some s" for s
    by (cases s) (simp_all add: normalized_scope_def)
  have "jget d ''autonomy_mode'' = JStr (mode_text (pol_mode p))"
    "jget d ''require_approval_for_file_write'' = JBool (pol_write_approval p)"
    "jget d ''require_approval_for_exec'' = JBool (pol_exec_approval p)"
    "jget d ''file_read_scope'' = JStr (scope_text (pol_read_scope p))"
    "jget d ''file_write_scope'' = JStr (scope_text (pol_write_scope p))"
    by (simp_all add: assms policy_json_def) (simp_all add: jget_def)
  then show ?thesis by (simp add: snapshot_policy_of_def m s)
qed

lemma all_nonblank_strs:
  "\<forall>s \<in> set ss. s \<noteq> [] \<and> py_strip s = s \<Longrightarrow> all_nonblank (map JStr ss) = Some ss"
  by (induction ss) (auto simp: stripped_text_def)

lemma snapshot_json_get:
  "jget (snapshot_json s) ''policy_snapshot_id'' = JStr (snap_id s)"
  "jget (snapshot_json s) ''policy_version'' = JStr (snap_version s)"
  "jget (snapshot_json s) ''source_chain'' = JList (map JStr (snap_chain s))"
  "jget (snapshot_json s) ''hard_denies'' = JList (map JStr (snap_denies s))"
  "k \<in> set (dkeys (policy_json p)) \<Longrightarrow>
     jget (snapshot_json s) k = jget (policy_json (snap_policy s)) k"
  by (auto simp: snapshot_json_def policy_json_def jget_def)

lemma snapshot_parses:
  assumes "\<forall>t \<in> set (snap_id s # snap_version s # snap_chain s). t \<noteq> [] \<and> py_strip t = t"
    and "normalized_hard_denies (JList (map JStr (snap_denies s))) = snap_denies s"
  shows "effective_policy_snapshot_from_mapping (JObj (snapshot_json s)) = Some s"
proof -
  have "snapshot_policy_of (snapshot_json s) = Some (snap_policy s)"
    by (rule policy_json_parses) (rule snapshot_json_get)
  then show ?thesis
    using assms all_nonblank_strs [of "snap_chain s"]
    by (simp add: effective_policy_snapshot_from_mapping_def snapshot_json_get(1-4) stripped_text_def)
qed

lemma layered_chain:
  "set (snd (layered_policy security workspace session run hard)) \<subseteq>
     {''security_config'', ''workspace_policy'', ''session_override'', ''run_restriction'',
      ''hard_constraint''}"
  by (auto simp: layered_policy_def apply_layer_def)

lemma no_space_ok: "is_word t \<Longrightarrow> t \<noteq> [] \<and> py_strip t = t"
  by (simp add: is_word_def py_strip_no_space)

definition plain_words :: "string list" where
  "plain_words = [''security_config'', ''workspace_policy'', ''session_override'',
     ''run_restriction'', ''hard_constraint'', ''effective-policy'', ''-v1:'', ''policy-'']"

lemma plain_words: "w \<in> set plain_words \<Longrightarrow> is_word w"
proof -
  have "list_all (\<lambda>w. w \<noteq> [] \<and> list_all (\<lambda>c. \<not> py_space c) w) plain_words"
    by code_simp
  then show "w \<in> set plain_words \<Longrightarrow> is_word w"
    by (simp add: list_all_iff is_word_def)
qed

lemma is_word_append: "is_word u \<Longrightarrow> \<forall>c \<in> set v. \<not> py_space c \<Longrightarrow> is_word (u @ v)"
  by (auto simp: is_word_def)

lemma is_word_append3:
  "is_word t \<Longrightarrow> is_word u \<Longrightarrow> \<forall>c \<in> set v. \<not> py_space c \<Longrightarrow> is_word (t @ u @ v)"
  by (auto simp: is_word_def)

lemma word_constants:
  "is_word ''effective-policy''" "is_word ''-v1:''" "is_word ''policy-''"
  by (rule plain_words, simp add: plain_words_def)+

lemma layered_chain_words:
  "t \<in> set (snd (layered_policy security workspace session run hard)) \<Longrightarrow> is_word t"
  using layered_chain [of security workspace session run hard]
  by (intro plain_words) (force simp only: plain_words_def list.set)

lemma after_last_colon_set: "set (after_last_colon s) \<subseteq> set s"
  by (auto simp: after_last_colon_def dest: set_takeWhileD)

lemma version_words:
  assumes "\<forall>c \<in> set (digest j). \<not> py_space c"
  shows "is_word (policy_projection_version digest ''effective-policy'' j)"
    and "is_word (''policy-'' @ after_last_colon
      (policy_projection_version digest ''effective-policy'' j))"
proof -
  show w: "is_word (policy_projection_version digest ''effective-policy'' j)"
    unfolding policy_projection_version_def
    by (rule is_word_append3 [OF word_constants(1,2) assms])
  then have "\<forall>c \<in> set (after_last_colon (policy_projection_version digest ''effective-policy'' j)).
      \<not> py_space c"
    using after_last_colon_set unfolding is_word_def by blast
  then show "is_word (''policy-'' @ after_last_colon
      (policy_projection_version digest ''effective-policy'' j))"
    by (rule is_word_append [OF word_constants(3)])
qed

lemma resolved_words:
  assumes "\<forall>j. \<forall>c \<in> set (digest j). \<not> py_space c"
    and "t \<in> set (snap_id (resolve_policy digest security workspace session run hard)
      # snap_version (resolve_policy digest security workspace session run hard)
      # snap_chain (resolve_policy digest security workspace session run hard))"
  shows "is_word t"
proof -
  have d: "\<forall>c \<in> set (digest j). \<not> py_space c" for j
    using assms(1) by blast
  let ?s = "resolve_policy digest security workspace session run hard"
  from assms(2) consider "t = snap_id ?s" | "t = snap_version ?s" | "t \<in> set (snap_chain ?s)"
    by (simp only: list.set insert_iff) blast
  then show ?thesis
  proof cases
    case 1
    then show ?thesis
      by (simp only: resolve_policy_def Let_def snapshot.select_convs version_words(2) [OF d])
  next
    case 2
    then show ?thesis
      by (simp only: resolve_policy_def Let_def snapshot.select_convs version_words(1) [OF d])
  next
    case 3
    then show ?thesis
      by (simp only: resolve_policy_def Let_def snapshot.select_convs layered_chain_words)
  qed
qed

text \<open>The snapshot a resolver issued reads back from its mapping as it was issued, so a tool call
  that carries it is checked against the same policy and the same hard denies. The digest has no
  white space, as a hexadecimal digest has none.\<close>

theorem snapshot_round_trip:
  assumes "\<forall>j. \<forall>c \<in> set (digest j). \<not> py_space c"
  shows "effective_policy_snapshot_from_mapping
      (JObj (snapshot_json (resolve_policy digest security workspace session run hard))) =
    Some (resolve_policy digest security workspace session run hard)"
proof (rule snapshot_parses)
  let ?s = "resolve_policy digest security workspace session run hard"
  show "\<forall>t \<in> set (snap_id ?s # snap_version ?s # snap_chain ?s). t \<noteq> [] \<and> py_strip t = t"
    using resolved_words [OF assms] no_space_ok by blast
  show "normalized_hard_denies (JList (map JStr (snap_denies ?s))) = snap_denies ?s"
    by (simp add: resolve_policy_def Let_def resolved_denies_fixed)
qed

definition hex_digest :: "json \<Rightarrow> string" where
  "hex_digest j = ''0a1b''"

theorem snapshot_round_trip_witness:
  "effective_policy_snapshot_from_mapping (JObj (snapshot_json
       (resolve_policy hex_digest (autonomy_mode_defaults Auto_review) None None
         (Some [(''hard_denies'', JList [JStr '' exec:* '', JStr ''kill_session''])]) None))) =
     Some (resolve_policy hex_digest (autonomy_mode_defaults Auto_review) None None
         (Some [(''hard_denies'', JList [JStr '' exec:* '', JStr ''kill_session''])]) None)"
  by (rule snapshot_round_trip) (simp add: hex_digest_def py_space_def)

text \<open>A hard deny that a run restriction or a hard constraint lists for a tool, in any case and with
  any surrounding space, is found for that tool in the resolved snapshot and in its mapping,
  whatever the other layers contain.\<close>

theorem hard_deny_reaches_its_tool:
  assumes "py_lower (py_strip deny) = py_lower (py_strip tool)" and "py_strip deny \<noteq> []"
    and "run = Some r \<and> jget r ''hard_denies'' = JList ds \<or>
         hard = Some h \<and> jget h ''hard_denies'' = JList ds"
    and "JStr deny \<in> set ds"
  shows "matching_tool_hard_deny
      (From_snapshot (resolve_policy digest security workspace session run hard)) tool capability
        \<noteq> None \<and>
    matching_tool_hard_deny (From_value (JObj (snapshot_json
      (resolve_policy digest security workspace session run hard)))) tool capability \<noteq> None"
proof -
  have mem: "py_strip deny \<in> set (resolved_denies run hard)"
    using normalized_denies_mem [OF assms(4,2)] assms(3)
    by (auto simp: set_resolved_denies layer_of_def)
  have "snap_denies (resolve_policy digest security workspace session run hard) =
      resolved_denies run hard"
    by (simp add: resolve_policy_def Let_def)
  then show ?thesis
    using find_some [OF mem] assms(1)
    by (simp add: matching_tool_hard_deny_def Let_def snapshot_json_get(4) resolved_denies_fixed)
qed

theorem hard_deny_reaches_its_tool_witness:
  "matching_tool_hard_deny (From_snapshot (resolve_policy hex_digest
       (autonomy_mode_defaults High_autonomy) None None None
       (Some [(''hard_denies'', JList [JStr '' Exec_Command ''])]))) ''exec_command'' None \<noteq> None"
  by (rule conjunct1 [OF hard_deny_reaches_its_tool
        [where deny = "'' Exec_Command ''" and ds = "[JStr '' Exec_Command '']"
          and h = "[(''hard_denies'', JList [JStr '' Exec_Command ''])]" and r = "[]"]]) code_simp+

end
