(* ===== verification/Cancellation.thy ===== *)
theory Cancellation
  imports Runs PyData
begin

text \<open>
  Cancellation capabilities and the commit fence (\<^verbatim>\<open>mochi/runtime/cancellation.py\<close>). The fence holds
  its lock for the whole of each operation, so an operation is one step; the interleavings of
  concurrent callers are the sequences of steps.
\<close>

datatype capability = Immediate | Deferred | Unsupported

datatype commit_state = Open | Cancellation_requested | Committed

datatype commit_outcome = Outcome_committed | Cancelled_pre_commit | Already_committed

record cancellation_decision =
  cd_target :: string
  cd_capability :: capability
  cd_requested_at :: "int option"
  cd_safe_point :: string
  cd_reason :: string

record fence_decision =
  fd_state :: commit_state
  fd_outcome :: commit_outcome
  fd_safe_point :: string
  fd_cancellation_requested :: bool
  fd_commit_permitted :: bool

definition normalized_name :: "json \<Rightarrow> string \<Rightarrow> string py" where
  "normalized_name value field =
     (case value of
        JStr s \<Rightarrow> (if py_lower (py_strip s) = []
                   then Inl (ValueError (field @ '' must be a non-empty string''))
                   else Inr (py_lower (py_strip s)))
      | _ \<Rightarrow> Inl (ValueError (field @ '' must be a non-empty string'')))"

section \<open>The capability registry\<close>

text \<open>A registered capability is a member of the enumeration or a value that must name one.\<close>

datatype capability_value = Member capability | Value json

definition coerce_capability :: "capability_value \<Rightarrow> capability py" where
  "coerce_capability v =
     (case v of
        Member c \<Rightarrow> Inr c
      | Value (JStr s) \<Rightarrow>
          (let n = py_lower (py_strip s)
           in if n = ''immediate'' then Inr Immediate
              else if n = ''deferred'' then Inr Deferred
              else if n = ''unsupported'' then Inr Unsupported
              else Inl (ValueError ''unsupported cancellation capability''))
      | Value _ \<Rightarrow> Inl (ValueError ''capability must be a CancellationCapability or string''))"

type_synonym registry = "(string, capability) dict"

fun build_registry :: "registry \<Rightarrow> (json \<times> capability_value) list \<Rightarrow> registry py" where
  "build_registry r [] = Inr r"
| "build_registry r ((target, value) # entries) =
     bindE (normalized_name target ''target'') (\<lambda>t.
     bindE (coerce_capability value) (\<lambda>c. build_registry (dput r t c) entries))"

definition validate_requested_at :: "json \<Rightarrow> int option py" where
  "validate_requested_at value =
     (case value of
        JNull \<Rightarrow> Inr None
      | JInt n \<Rightarrow> (if n < 0 then Inl (ValueError ''requested_at must be a non-negative integer or None'')
                   else Inr (Some n))
      | _ \<Rightarrow> Inl (ValueError ''requested_at must be a non-negative integer or None''))"

fun capability_reason :: "capability \<Rightarrow> string" where
  "capability_reason Immediate = ''immediate_cancellation_supported''"
| "capability_reason Deferred = ''safe_point_required''"
| "capability_reason Unsupported = ''unknown_cancellation_target''"

definition resolve_capability ::
  "registry \<Rightarrow> json \<Rightarrow> json \<Rightarrow> json \<Rightarrow> cancellation_decision py" where
  "resolve_capability r target requested_at safe_point =
     bindE (normalized_name target ''target'') (\<lambda>t.
     bindE (normalized_name safe_point ''safe_point'') (\<lambda>sp.
     bindE (validate_requested_at requested_at) (\<lambda>at'.
       let c = (case dget r t of None \<Rightarrow> Unsupported | Some c \<Rightarrow> c)
       in Inr \<lparr>cd_target = t, cd_capability = c, cd_requested_at = at', cd_safe_point = sp,
               cd_reason = capability_reason c\<rparr>)))"

section \<open>The commit fence\<close>

definition fence_decide :: "commit_state \<Rightarrow> commit_outcome \<Rightarrow> string \<Rightarrow> fence_decision" where
  "fence_decide s outcome safe_point =
     \<lparr>fd_state = s, fd_outcome = outcome, fd_safe_point = safe_point,
      fd_cancellation_requested = (s = Cancellation_requested),
      fd_commit_permitted = (outcome = Outcome_committed)\<rparr>"

definition request_cancellation ::
  "commit_state \<Rightarrow> json \<Rightarrow> commit_state \<times> fence_decision py" where
  "request_cancellation s safe_point =
     (case normalized_name safe_point ''safe_point'' of
        Inl e \<Rightarrow> (s, Inl e)
      | Inr sp \<Rightarrow>
          (if s = Committed then (s, Inr (fence_decide s Already_committed sp))
           else (Cancellation_requested,
                 Inr (fence_decide Cancellation_requested Cancelled_pre_commit sp))))"

definition try_commit :: "commit_state \<Rightarrow> json \<Rightarrow> commit_state \<times> fence_decision py" where
  "try_commit s safe_point =
     (case normalized_name safe_point ''safe_point'' of
        Inl e \<Rightarrow> (s, Inl e)
      | Inr sp \<Rightarrow>
          (if s = Open then (Committed, Inr (fence_decide Committed Outcome_committed sp))
           else if s = Cancellation_requested
           then (s, Inr (fence_decide s Cancelled_pre_commit sp))
           else (s, Inr (fence_decide s Already_committed sp))))"

datatype fence_op = Request_cancellation json | Try_commit json

fun fence_step :: "commit_state \<Rightarrow> fence_op \<Rightarrow> commit_state \<times> fence_decision py" where
  "fence_step s (Request_cancellation sp) = request_cancellation s sp"
| "fence_step s (Try_commit sp) = try_commit s sp"

text \<open>The decisions of a sequence of operations, refused ones left out.\<close>

fun fence_decisions :: "commit_state \<Rightarrow> fence_op list \<Rightarrow> fence_decision list" where
  "fence_decisions s [] = []"
| "fence_decisions s (op # ops) =
     (case snd (fence_step s op) of Inl _ \<Rightarrow> [] | Inr d \<Rightarrow> [d])
       @ fence_decisions (fst (fence_step s op)) ops"

lemmas fence_defs = request_cancellation_def try_commit_def fence_decide_def

lemma fence_left: "s \<noteq> Open \<Longrightarrow> fst (fence_step s op) = s"
  by (cases op; cases s) (auto simp: fence_defs split: sum.split)

lemma fence_left_run: "s \<noteq> Open \<Longrightarrow> run_ops fence_step s ops = s"
  by (induction ops) (simp_all add: fence_left)

lemma fence_cancelled_decisions:
  "d \<in> set (fence_decisions Cancellation_requested ops) \<Longrightarrow> \<not> fd_commit_permitted d"
proof (induction ops)
  case (Cons op ops)
  then show ?case
    using fence_left [of Cancellation_requested op]
    by (cases op) (auto simp: fence_defs split: sum.splits)
qed simp

lemma fence_committed_decisions:
  "d \<in> set (fence_decisions Committed ops) \<Longrightarrow>
     \<not> fd_commit_permitted d \<and> fd_outcome d = Already_committed"
proof (induction ops)
  case (Cons op ops)
  then show ?case
    using fence_left [of Committed op]
    by (cases op) (auto simp: fence_defs split: sum.splits)
qed simp

lemma filter_none: "(\<And>x. x \<in> set xs \<Longrightarrow> \<not> P x) \<Longrightarrow> filter P xs = []"
  by (induction xs) auto

end
