(* ===== verification/Run_Cancellation.thy ===== *)
theory Run_Cancellation
  imports Cancellation
begin

text \<open>
  The run-level cancellation of \<^verbatim>\<open>mochi/tools/base.py\<close>: \<open>RunCancellationContext\<close> over one commit fence
  and one \<open>ActiveToolController\<close>. No lock of either object is held across an \<open>await\<close>, so between two
  real suspension points a coroutine runs as one step. A cancel request suspends in two places
  only, where it awaits the callback of the tool and the callback of the generation; there it is a
  member of \<open>wd_waiting\<close> and any other operation may run before its answer arrives.
\<close>

section \<open>The active tool\<close>

record tool_ctl =
  tc_active :: bool
  tc_cancellable :: bool
  tc_callback :: bool
  tc_cancel_requested :: bool
  tc_call_id :: "string option"
  tc_name :: "string option"
  tc_session_id :: "string option"
  tc_pending :: "jdict list"
  tc_applied :: "jdict list"

definition or_none :: "string \<Rightarrow> string option" where
  "or_none s = (if py_strip s = [] then None else Some (py_strip s))"

definition activate_tool :: "tool_ctl \<Rightarrow> string \<Rightarrow> string \<Rightarrow> bool \<Rightarrow> tool_ctl" where
  "activate_tool t call_id tool_name cancellable = t\<lparr>tc_call_id := or_none call_id,
     tc_name := or_none tool_name, tc_session_id := None, tc_active := True,
     tc_cancellable := cancellable, tc_cancel_requested := False, tc_callback := False\<rparr>"

definition bind_tool_callback :: "tool_ctl \<Rightarrow> string \<Rightarrow> tool_ctl" where
  "bind_tool_callback t session_id =
     (if \<not> tc_active t then t
      else t\<lparr>tc_session_id := or_none session_id, tc_callback := True, tc_cancellable := True\<rparr>)"

definition finish_tool :: "tool_ctl \<Rightarrow> tool_ctl" where
  "finish_tool t = t\<lparr>tc_call_id := None, tc_name := None, tc_session_id := None,
     tc_active := False, tc_cancellable := False, tc_cancel_requested := False,
     tc_callback := False\<rparr>"

definition queue_post_tool_message :: "tool_ctl \<Rightarrow> jdict \<Rightarrow> tool_ctl" where
  "queue_post_tool_message t m = t\<lparr>tc_pending := tc_pending t @ [m]\<rparr>"

definition consume_post_tool_messages :: "tool_ctl \<Rightarrow> tool_ctl \<times> jdict list" where
  "consume_post_tool_messages t =
     (if tc_pending t = [] then (t, [])
      else (t\<lparr>tc_pending := [], tc_applied := tc_applied t @ tc_pending t\<rparr>, tc_pending t))"

definition drain_applied_post_tool_messages :: "tool_ctl \<Rightarrow> tool_ctl \<times> jdict list" where
  "drain_applied_post_tool_messages t =
     (if tc_applied t = [] then (t, []) else (t\<lparr>tc_applied := []\<rparr>, tc_applied t))"

text \<open>The first half of \<open>request_cancel\<close>: a refusal, or the callback is awaited.\<close>

datatype tool_request = Tool_refused string | Tool_awaited

definition tool_request_cancel :: "tool_ctl \<Rightarrow> tool_ctl \<times> tool_request" where
  "tool_request_cancel t =
     (if \<not> tc_active t then (t, Tool_refused ''no_active_tool'')
      else if \<not> tc_cancellable t \<or> \<not> tc_callback t then (t, Tool_refused ''tool_in_progress'')
      else (t\<lparr>tc_cancel_requested := True\<rparr>, Tool_awaited))"

section \<open>The run context\<close>

datatype run_state = Running | Cancelling | Cancelled | Completed

record run_ctx =
  rc_state :: run_state
  rc_requested :: bool
  rc_confirmed :: bool
  rc_generation_bound :: bool
  rc_tool_bound :: bool
  rc_fence :: commit_state
  rc_tool :: tool_ctl

datatype result_state = Result_cancelled | Result_completed | Result_pending

record cancel_result =
  cr_cancelled :: bool
  cr_state :: result_state
  cr_boundary :: "string option"
  cr_reason :: "string option"
  cr_durable :: "commit_outcome option"

definition make_cancel_result ::
  "bool \<Rightarrow> result_state \<Rightarrow> string option \<Rightarrow> string option \<Rightarrow> commit_outcome option \<Rightarrow> cancel_result" where
  "make_cancel_result c s b r d =
     \<lparr>cr_cancelled = c, cr_state = s, cr_boundary = b, cr_reason = r, cr_durable = d\<rparr>"

definition mark_completed :: "run_ctx \<Rightarrow> run_ctx" where
  "mark_completed c =
     (if rc_state c \<noteq> Cancelled \<and> rc_fence c \<noteq> Cancellation_requested
      then c\<lparr>rc_state := Completed\<rparr> else c)"

text \<open>The fence operations the context issues carry constant safe points.\<close>

definition fence_cancel :: "commit_state \<Rightarrow> commit_state \<times> commit_outcome" where
  "fence_cancel f =
     (case request_cancellation f (JStr ''run_cancelled'') of
        (f', Inr d) \<Rightarrow> (f', fd_outcome d)
      | (f', Inl _) \<Rightarrow> (f', Already_committed))"

definition mark_cancelled :: "run_ctx \<Rightarrow> run_ctx" where
  "mark_cancelled c =
     (case fence_cancel (rc_fence c) of
        (f, outcome) \<Rightarrow>
          (if outcome = Already_committed
           then c\<lparr>rc_fence := f, rc_requested := True, rc_state := Completed\<rparr>
           else c\<lparr>rc_fence := f, rc_requested := True, rc_confirmed := True,
                  rc_state := Cancelled\<rparr>))"

definition try_commit_durable_effect :: "run_ctx \<Rightarrow> json \<Rightarrow> run_ctx \<times> fence_decision py" where
  "try_commit_durable_effect c safe_point =
     (case try_commit (rc_fence c) safe_point of
        (f, Inl e) \<Rightarrow> (c\<lparr>rc_fence := f\<rparr>, Inl e)
      | (f, Inr d) \<Rightarrow>
          (if fd_outcome d \<in> set [Outcome_committed, Already_committed]
           then (c\<lparr>rc_fence := f, rc_state := Completed, rc_confirmed := False\<rparr>, Inr d)
           else (c\<lparr>rc_fence := f\<rparr>, Inr d)))"

text \<open>Where a cancel request is suspended: \<open>From_run\<close> remembers whether a tool was active.\<close>

datatype origin = From_run bool | From_generation | From_tool

datatype pending = Wait_tool origin | Wait_generation origin

datatype progress = Done cancel_result | Waits pending

definition finish_generation :: "origin \<Rightarrow> cancel_result \<Rightarrow> cancel_result" where
  "finish_generation orig r =
     (case orig of
        From_run tool_active \<Rightarrow>
          (if \<not> cr_cancelled r \<and> cr_state r = Result_completed \<and> tool_active
           then make_cancel_result False Result_completed (Some ''tool'')
                  (Some ''run_completed_before_cancellation'') None
           else r)
      | _ \<Rightarrow> r)"

text \<open>\<open>request_generation_cancel\<close> up to its \<open>await\<close>, and after it.\<close>

definition begin_generation_cancel :: "run_ctx \<Rightarrow> origin \<Rightarrow> run_ctx \<times> progress" where
  "begin_generation_cancel c orig =
     (if rc_state c = Completed
      then (c, Done (finish_generation orig (make_cancel_result False Result_completed (Some ''generation'') None
                 (if rc_fence c = Committed then Some Already_committed else None))))
      else if rc_state c = Cancelled
      then (c, Done (finish_generation orig (make_cancel_result True Result_cancelled (Some ''generation'') None
                 (Some Cancelled_pre_commit))))
      else let c' = c\<lparr>rc_requested := True, rc_state := Cancelling\<rparr>
           in if rc_generation_bound c then (c', Waits (Wait_generation orig))
              else (c', Done (finish_generation orig (make_cancel_result False Result_pending (Some ''generation'')
                      (Some ''generation_not_bound'') None))))"

datatype task_outcome = Task_cancelled | Task_completed | Task_pending

definition resume_generation_cancel ::
  "run_ctx \<Rightarrow> origin \<Rightarrow> task_outcome \<Rightarrow> run_ctx \<times> progress" where
  "resume_generation_cancel c orig outcome =
     (case outcome of
        Task_cancelled \<Rightarrow>
          (mark_cancelled c, Done (finish_generation orig (make_cancel_result True Result_cancelled
             (Some ''generation'') None (Some Cancelled_pre_commit))))
      | Task_completed \<Rightarrow>
          (mark_completed c, Done (finish_generation orig (make_cancel_result False Result_completed
             (Some ''generation'') None None)))
      | Task_pending \<Rightarrow>
          (c, Done (finish_generation orig (make_cancel_result False Result_pending (Some ''generation'')
             (Some ''generation_in_progress'') None))))"

text \<open>\<open>request_active_tool_cancel\<close>, and what \<open>request_run_cancel\<close> does with its result.\<close>

definition tool_pending :: "string \<Rightarrow> cancel_result" where
  "tool_pending reason =
     make_cancel_result False Result_pending (Some ''tool'') (Some reason) None"

definition begin_tool_cancel :: "run_ctx \<Rightarrow> origin \<Rightarrow> run_ctx \<times> progress" where
  "begin_tool_cancel c orig =
     (if \<not> rc_tool_bound c then (c, Done (tool_pending ''no_active_tool''))
      else case tool_request_cancel (rc_tool c) of
          (t, Tool_refused reason) \<Rightarrow> (c\<lparr>rc_tool := t\<rparr>, Done (tool_pending reason))
        | (t, Tool_awaited) \<Rightarrow> (c\<lparr>rc_tool := t\<rparr>, Waits (Wait_tool orig)))"

definition resume_tool_cancel ::
  "run_ctx \<Rightarrow> origin \<Rightarrow> bool \<Rightarrow> string option \<Rightarrow> run_ctx \<times> progress" where
  "resume_tool_cancel c orig cancelled reason =
     (if \<not> cancelled
      then (c, Done (tool_pending (case reason of
                None \<Rightarrow> ''tool_in_progress''
              | Some r \<Rightarrow> (if r = [] then ''tool_in_progress'' else r))))
      else case orig of
          From_run active \<Rightarrow> begin_generation_cancel c (From_run active)
        | _ \<Rightarrow> (c, Done (make_cancel_result True Result_cancelled (Some ''tool'') reason None)))"

definition begin_run_cancel :: "run_ctx \<Rightarrow> run_ctx \<times> progress" where
  "begin_run_cancel c0 =
     (let c = (if rc_state c0 \<in> set [Completed, Cancelled] then c0
               else c0\<lparr>rc_requested := True, rc_state := Cancelling\<rparr>)
      in if rc_state c = Completed
         then (c, Done (make_cancel_result False Result_completed None None (Some Already_committed)))
         else if rc_state c = Cancelled
         then (c, Done (make_cancel_result True Result_cancelled None None (Some Cancelled_pre_commit)))
         else case fence_cancel (rc_fence c) of
             (f, outcome) \<Rightarrow>
               (let c' = c\<lparr>rc_fence := f\<rparr>
                in if outcome = Already_committed
                   then (mark_completed c', Done (make_cancel_result False Result_completed None
                           (Some ''already_committed'') (Some outcome)))
                   else if rc_tool_bound c' \<and> tc_active (rc_tool c')
                   then begin_tool_cancel c' (From_run True)
                   else begin_generation_cancel c' (From_run False)))"

section \<open>Interleavings\<close>

record world =
  wd_ctx :: run_ctx
  wd_waiting :: "pending list"

text \<open>
  What may happen next: an operation of another task, a new cancel request, or the answer to the
  \<open>n\<close>-th suspended request.
\<close>

datatype event =
    Bind_generation bool
  | Bind_tool bool
  | Tool_started string string bool
  | Tool_bound string
  | Tool_finished
  | Mark_completed
  | Mark_cancelled
  | Commit_effect json
  | Cancel_run
  | Cancel_generation
  | Cancel_tool
  | Tool_answer nat bool "string option"
  | Generation_answer nat task_outcome

datatype reply = Reply origin cancel_result | Decision fence_decision

definition origin_of :: "pending \<Rightarrow> origin" where
  "origin_of p = (case p of Wait_tool orig \<Rightarrow> orig | Wait_generation orig \<Rightarrow> orig)"

definition settle :: "pending list \<Rightarrow> origin \<Rightarrow> run_ctx \<times> progress \<Rightarrow> world \<times> reply list" where
  "settle waiting orig cp =
     (case snd cp of
        Done r \<Rightarrow> (\<lparr>wd_ctx = fst cp, wd_waiting = waiting\<rparr>, [Reply orig r])
      | Waits p \<Rightarrow> (\<lparr>wd_ctx = fst cp, wd_waiting = waiting @ [p]\<rparr>, []))"

definition remove_nth :: "nat \<Rightarrow> 'a list \<Rightarrow> 'a list" where
  "remove_nth n xs = take n xs @ drop (Suc n) xs"

fun run_event :: "world \<Rightarrow> event \<Rightarrow> world \<times> reply list" where
  "run_event w (Bind_generation b) =
     (w\<lparr>wd_ctx := (wd_ctx w)\<lparr>rc_generation_bound := b\<rparr>\<rparr>, [])"
| "run_event w (Bind_tool b) = (w\<lparr>wd_ctx := (wd_ctx w)\<lparr>rc_tool_bound := b\<rparr>\<rparr>, [])"
| "run_event w (Tool_started i n c) =
     (w\<lparr>wd_ctx := (wd_ctx w)\<lparr>rc_tool := activate_tool (rc_tool (wd_ctx w)) i n c\<rparr>\<rparr>, [])"
| "run_event w (Tool_bound s) =
     (w\<lparr>wd_ctx := (wd_ctx w)\<lparr>rc_tool := bind_tool_callback (rc_tool (wd_ctx w)) s\<rparr>\<rparr>, [])"
| "run_event w Tool_finished =
     (w\<lparr>wd_ctx := (wd_ctx w)\<lparr>rc_tool := finish_tool (rc_tool (wd_ctx w))\<rparr>\<rparr>, [])"
| "run_event w Mark_completed = (w\<lparr>wd_ctx := mark_completed (wd_ctx w)\<rparr>, [])"
| "run_event w Mark_cancelled = (w\<lparr>wd_ctx := mark_cancelled (wd_ctx w)\<rparr>, [])"
| "run_event w (Commit_effect sp) =
     (case try_commit_durable_effect (wd_ctx w) sp of
        (c, Inl _) \<Rightarrow> (w\<lparr>wd_ctx := c\<rparr>, [])
      | (c, Inr d) \<Rightarrow> (w\<lparr>wd_ctx := c\<rparr>, [Decision d]))"
| "run_event w Cancel_run =
     settle (wd_waiting w) (From_run (rc_tool_bound (wd_ctx w) \<and> tc_active (rc_tool (wd_ctx w))))
       (begin_run_cancel (wd_ctx w))"
| "run_event w Cancel_generation =
     settle (wd_waiting w) From_generation (begin_generation_cancel (wd_ctx w) From_generation)"
| "run_event w Cancel_tool =
     settle (wd_waiting w) From_tool (begin_tool_cancel (wd_ctx w) From_tool)"
| "run_event w (Tool_answer n cancelled reason) =
     (if n < length (wd_waiting w)
      then (case wd_waiting w ! n of
              Wait_tool orig \<Rightarrow> settle (remove_nth n (wd_waiting w)) orig
                (resume_tool_cancel (wd_ctx w) orig cancelled reason)
            | Wait_generation _ \<Rightarrow> (w, []))
      else (w, []))"
| "run_event w (Generation_answer n outcome) =
     (if n < length (wd_waiting w)
      then (case wd_waiting w ! n of
              Wait_generation orig \<Rightarrow> settle (remove_nth n (wd_waiting w)) orig
                (resume_generation_cancel (wd_ctx w) orig outcome)
            | Wait_tool _ \<Rightarrow> (w, []))
      else (w, []))"

fun run_events :: "world \<Rightarrow> event list \<Rightarrow> reply list" where
  "run_events w [] = []"
| "run_events w (e # es) = snd (run_event w e) @ run_events (fst (run_event w e)) es"

definition idle_tool :: tool_ctl where
  "idle_tool = \<lparr>tc_active = False, tc_cancellable = False, tc_callback = False,
     tc_cancel_requested = False, tc_call_id = None, tc_name = None, tc_session_id = None,
     tc_pending = [], tc_applied = []\<rparr>"

definition new_run :: world where
  "new_run = \<lparr>wd_ctx = \<lparr>rc_state = Running, rc_requested = False, rc_confirmed = False,
     rc_generation_bound = False, rc_tool_bound = False, rc_fence = Open, rc_tool = idle_tool\<rparr>,
     wd_waiting = []\<rparr>"

end
