(* ===== verification/Cancellation_Properties.thy ===== *)
theory Cancellation_Properties
  imports Run_Cancellation
begin

text \<open>
  Cancellation and commit exclude each other: on the fence for every sequence of operations, and on
  the run context for every interleaving of its operations with suspended cancel requests. The
  invariant of the context ties what a request will report to what the fence has recorded.
\<close>

section \<open>The fence\<close>

lemma fence_open_cases:
  "fence_step Open op = (s, Inr d) \<Longrightarrow>
     s = Committed \<and> fd_commit_permitted d \<and> fd_outcome d = Outcome_committed \<or>
     s = Cancellation_requested \<and> \<not> fd_commit_permitted d \<and> fd_outcome d = Cancelled_pre_commit"
  by (cases op) (auto simp: fence_defs split: sum.splits)

lemma fence_open_refused: "fence_step Open op = (s, Inl e) \<Longrightarrow> s = Open"
  by (cases op) (auto simp: fence_defs split: sum.splits)

text \<open>C27. Over any sequence of commit and cancellation requests on a fence, at most one commit is
  permitted, and if any request was told that it cancelled before the commit, none is.\<close>

theorem commit_excludes_cancellation:
  "length (filter fd_commit_permitted (fence_decisions Open ops)) +
     of_bool (\<exists>d \<in> set (fence_decisions Open ops). fd_outcome d = Cancelled_pre_commit) \<le> (1::nat)"
proof (induction ops)
  case (Cons op ops)
  obtain s r where step: "fence_step Open op = (s, r)" by fastforce
  show ?case
  proof (cases r)
    case (Inl e)
    then show ?thesis using Cons.IH step fence_open_refused [of op s e] by simp
  next
    case (Inr d)
    with step fence_open_cases [of op s d] consider
        (committed) "s = Committed" "fd_commit_permitted d" "fd_outcome d = Outcome_committed"
      | (cancelled) "s = Cancellation_requested" "\<not> fd_commit_permitted d"
          "fd_outcome d = Cancelled_pre_commit"
      by blast
    then show ?thesis
    proof cases
      case committed
      then have "filter fd_commit_permitted (fence_decisions s ops) = []"
        and "\<not> (\<exists>x \<in> set (fence_decisions s ops). fd_outcome x = Cancelled_pre_commit)"
        using fence_committed_decisions by (fastforce intro!: filter_none)+
      then show ?thesis using step Inr committed by simp
    next
      case cancelled
      then have "filter fd_commit_permitted (fence_decisions s ops) = []"
        using fence_cancelled_decisions by (fastforce intro!: filter_none)
      then show ?thesis using step Inr cancelled by simp
    qed
  qed
qed simp

section \<open>The run context\<close>

definition ctx_ok :: "run_ctx \<Rightarrow> bool" where
  "ctx_ok c \<longleftrightarrow> (rc_state c = Cancelled \<longrightarrow> rc_fence c = Cancellation_requested)"

fun from_run :: "origin \<Rightarrow> bool" where
  "from_run (From_run _) = True"
| "from_run _ = False"

definition world_ok :: "world \<Rightarrow> bool" where
  "world_ok w \<longleftrightarrow> ctx_ok (wd_ctx w) \<and>
     (\<forall>p \<in> set (wd_waiting w). from_run (origin_of p) \<longrightarrow> rc_fence (wd_ctx w) = Cancellation_requested)"

text \<open>What one piece of a request does to the context and promises of its reply.\<close>

definition piece_ok :: "run_ctx \<Rightarrow> origin \<Rightarrow> run_ctx \<times> progress \<Rightarrow> bool" where
  "piece_ok c orig cp \<longleftrightarrow>
     ctx_ok (fst cp) \<and>
     (rc_fence c \<noteq> Open \<longrightarrow> rc_fence (fst cp) = rc_fence c) \<and>
     (case snd cp of
        Done r \<Rightarrow> from_run orig \<longrightarrow> cr_durable r = Some Cancelled_pre_commit \<longrightarrow>
          rc_fence (fst cp) = Cancellation_requested
      | Waits p \<Rightarrow> (from_run (origin_of p) = from_run orig) \<and>
          (from_run orig \<longrightarrow> rc_fence (fst cp) = Cancellation_requested))"

lemma fence_cancel_cases:
  "fence_cancel f = (if f = Committed then (Committed, Already_committed)
                     else (Cancellation_requested, Cancelled_pre_commit))"
proof -
  have "normalized_name (JStr ''run_cancelled'') ''safe_point'' = Inr ''run_cancelled''"
    by code_simp
  then show ?thesis by (simp add: fence_cancel_def fence_defs)
qed

lemma ctx_ok_simps [simp]:
  "ctx_ok (c\<lparr>rc_requested := b\<rparr>) = ctx_ok c"
  "ctx_ok (c\<lparr>rc_confirmed := b\<rparr>) = ctx_ok c"
  "ctx_ok (c\<lparr>rc_generation_bound := b\<rparr>) = ctx_ok c"
  "ctx_ok (c\<lparr>rc_tool_bound := b\<rparr>) = ctx_ok c"
  "ctx_ok (c\<lparr>rc_tool := t\<rparr>) = ctx_ok c"
  "s \<noteq> Cancelled \<Longrightarrow> ctx_ok (c\<lparr>rc_state := s\<rparr>)"
  by (simp_all add: ctx_ok_def)

lemma mark_completed_ok:
  "ctx_ok c \<Longrightarrow> ctx_ok (mark_completed c) \<and> rc_fence (mark_completed c) = rc_fence c"
  by (simp add: mark_completed_def)

lemma mark_cancelled_ok:
  "ctx_ok c \<Longrightarrow> ctx_ok (mark_cancelled c) \<and>
     (rc_fence c \<noteq> Open \<longrightarrow> rc_fence (mark_cancelled c) = rc_fence c)"
  by (cases "rc_fence c") (simp_all add: mark_cancelled_def fence_cancel_cases ctx_ok_def)

lemma finish_generation_durable:
  "cr_durable (finish_generation orig r) = Some Cancelled_pre_commit \<Longrightarrow>
     cr_durable r = Some Cancelled_pre_commit"
  by (auto simp: finish_generation_def make_cancel_result_def split: origin.splits if_splits)

lemma begin_generation_ok:
  assumes "ctx_ok c" and "from_run orig \<Longrightarrow> rc_fence c = Cancellation_requested"
  shows "piece_ok c orig (begin_generation_cancel c orig)"
  using assms
  by (auto simp: piece_ok_def begin_generation_cancel_def Let_def origin_of_def ctx_ok_def)

lemma resume_generation_ok:
  assumes "ctx_ok c" and "from_run orig \<Longrightarrow> rc_fence c = Cancellation_requested"
  shows "piece_ok c orig (resume_generation_cancel c orig outcome)"
  using assms mark_cancelled_ok [of c] mark_completed_ok [of c]
  by (auto simp: piece_ok_def resume_generation_cancel_def split: task_outcome.split)

lemma begin_tool_ok:
  assumes "ctx_ok c" and "from_run orig \<Longrightarrow> rc_fence c = Cancellation_requested"
  shows "piece_ok c orig (begin_tool_cancel c orig)"
  using assms
  by (auto simp: piece_ok_def begin_tool_cancel_def tool_request_cancel_def origin_of_def
      split: prod.split tool_request.split)

lemma resume_tool_ok:
  assumes "ctx_ok c" and "from_run orig \<Longrightarrow> rc_fence c = Cancellation_requested"
  shows "piece_ok c orig (resume_tool_cancel c orig cancelled reason)"
proof (cases "cancelled \<and> from_run orig")
  case True
  then obtain b where "orig = From_run b" by (cases orig) auto
  then show ?thesis using True begin_generation_ok [OF assms] by (simp add: resume_tool_cancel_def)
next
  case False
  then show ?thesis
    using assms
    by (auto simp: piece_ok_def resume_tool_cancel_def tool_pending_def make_cancel_result_def
        split: origin.split)
qed

lemma piece_ok_origin:
  "piece_ok c orig cp \<Longrightarrow> from_run orig' = from_run orig \<Longrightarrow> piece_ok c orig' cp"
  by (cases "snd cp") (auto simp: piece_ok_def)

lemma piece_ok_before:
  "piece_ok c' orig cp \<Longrightarrow> (rc_fence c \<noteq> Open \<Longrightarrow> rc_fence c' = rc_fence c) \<Longrightarrow> piece_ok c orig cp"
  by (auto simp: piece_ok_def)

lemma begin_run_ok:
  assumes ok: "ctx_ok c0"
  shows "piece_ok c0 (From_run b) (begin_run_cancel c0)"
proof (cases "rc_state c0 = Completed \<or> rc_state c0 = Cancelled")
  case True
  then show ?thesis
    using ok by (auto simp: begin_run_cancel_def Let_def piece_ok_def make_cancel_result_def ctx_ok_def)
next
  case False
  let ?c = "c0\<lparr>rc_requested := True, rc_state := Cancelling\<rparr>"
  let ?c' = "?c\<lparr>rc_fence := Cancellation_requested\<rparr>"
  have states: "rc_state c0 \<notin> set [Completed, Cancelled]" using False by simp
  show ?thesis
  proof (cases "rc_fence c0 = Committed")
    case True
    then show ?thesis
      using states
      by (auto simp: begin_run_cancel_def Let_def fence_cancel_cases piece_ok_def
          make_cancel_result_def mark_completed_def ctx_ok_def)
  next
    case open': False
    have "ctx_ok ?c'" and f: "rc_fence ?c' = Cancellation_requested"
      by (simp_all add: ctx_ok_def)
    then have pieces: "piece_ok ?c' (From_run True) (begin_tool_cancel ?c' (From_run True))"
      "piece_ok ?c' (From_run False) (begin_generation_cancel ?c' (From_run False))"
      by (blast intro: begin_tool_ok begin_generation_ok)+
    have "begin_run_cancel c0 =
        (if rc_tool_bound ?c' \<and> tc_active (rc_tool ?c')
         then begin_tool_cancel ?c' (From_run True) else begin_generation_cancel ?c' (From_run False))"
      using states open' by (simp add: begin_run_cancel_def Let_def fence_cancel_cases)
    then have "\<exists>b'. piece_ok ?c' (From_run b') (begin_run_cancel c0)"
      using pieces by (metis (full_types))
    moreover have "rc_fence c0 \<noteq> Open \<Longrightarrow> rc_fence ?c' = rc_fence c0"
      using open' by (cases "rc_fence c0") simp_all
    ultimately show ?thesis
      by (elim exE) (rule piece_ok_before, rule piece_ok_origin, auto)
  qed
qed

lemma commit_ok:
  assumes "ctx_ok c" and "try_commit_durable_effect c sp = (c', r)"
  shows "ctx_ok c' \<and> (rc_fence c \<noteq> Open \<longrightarrow> rc_fence c' = rc_fence c) \<and>
    (\<forall>d. r = Inr d \<longrightarrow> fd_commit_permitted d \<longrightarrow> rc_fence c' = Committed)"
  using assms
  by (cases "rc_fence c")
    (auto simp: try_commit_durable_effect_def fence_defs ctx_ok_def split: sum.splits if_splits)

text \<open>One event: the invariant stays, the fence is left once, and what is replied agrees with it.\<close>

definition event_ok :: "world \<Rightarrow> world \<times> reply list \<Rightarrow> bool" where
  "event_ok w wr \<longleftrightarrow>
     world_ok (fst wr) \<and>
     (rc_fence (wd_ctx w) \<noteq> Open \<longrightarrow> rc_fence (wd_ctx (fst wr)) = rc_fence (wd_ctx w)) \<and>
     (\<forall>d. Decision d \<in> set (snd wr) \<longrightarrow> fd_commit_permitted d \<longrightarrow>
        rc_fence (wd_ctx (fst wr)) = Committed) \<and>
     (\<forall>b r. Reply (From_run b) r \<in> set (snd wr) \<longrightarrow> cr_durable r = Some Cancelled_pre_commit \<longrightarrow>
        rc_fence (wd_ctx (fst wr)) = Cancellation_requested)"

lemma settle_ok:
  assumes "piece_ok (wd_ctx w) orig cp" and "set waiting \<subseteq> set (wd_waiting w)" and "world_ok w"
  shows "event_ok w (settle waiting orig cp)"
proof -
  have closed: "rc_fence (fst cp) = Cancellation_requested"
    if "p \<in> set waiting" and "from_run (origin_of p)" for p
    using assms that by (fastforce simp: world_ok_def piece_ok_def)
  show ?thesis
    using assms(1) closed
    by (auto simp: event_ok_def settle_def piece_ok_def world_ok_def split: progress.splits)
qed

lemma set_remove_nth: "set (remove_nth n xs) \<subseteq> set xs"
  unfolding remove_nth_def using set_take_subset [of n xs] set_drop_subset [of "Suc n" xs] by auto

lemma event_ok_quiet:
  "world_ok w \<Longrightarrow> ctx_ok c \<Longrightarrow> rc_fence c = rc_fence (wd_ctx w) \<Longrightarrow>
     event_ok w (w\<lparr>wd_ctx := c\<rparr>, [])"
  by (auto simp: event_ok_def world_ok_def)

lemma event_ok_same: "world_ok w \<Longrightarrow> event_ok w (w, [])"
  by (simp add: event_ok_def)

lemma waiting_ok:
  "world_ok w \<Longrightarrow> n < length (wd_waiting w) \<Longrightarrow> from_run (origin_of (wd_waiting w ! n)) \<Longrightarrow>
     rc_fence (wd_ctx w) = Cancellation_requested"
  unfolding world_ok_def by (meson nth_mem)

lemma run_event_ok:
  assumes ok: "world_ok w"
  shows "event_ok w (run_event w e)"
proof (cases e)
  case Mark_completed
  then show ?thesis
    using ok mark_completed_ok [of "wd_ctx w"] by (simp add: world_ok_def event_ok_quiet)
next
  case Mark_cancelled
  then show ?thesis
    using ok mark_cancelled_ok [of "wd_ctx w"] by (auto simp: event_ok_def world_ok_def)
next
  case (Commit_effect sp)
  obtain c r where step: "try_commit_durable_effect (wd_ctx w) sp = (c, r)" by fastforce
  have "ctx_ok (wd_ctx w)" using ok by (simp add: world_ok_def)
  from commit_ok [OF this step] show ?thesis
    using ok Commit_effect step by (auto simp: event_ok_def world_ok_def split: sum.split)
next
  case Cancel_run
  show ?thesis
    unfolding Cancel_run run_event.simps
    by (rule settle_ok [OF begin_run_ok]) (use ok in \<open>simp_all add: world_ok_def\<close>)
next
  case Cancel_generation
  show ?thesis
    unfolding Cancel_generation run_event.simps
    by (rule settle_ok [OF begin_generation_ok]) (use ok in \<open>simp_all add: world_ok_def\<close>)
next
  case Cancel_tool
  show ?thesis
    unfolding Cancel_tool run_event.simps
    by (rule settle_ok [OF begin_tool_ok]) (use ok in \<open>simp_all add: world_ok_def\<close>)
next
  case (Tool_answer n cancelled reason)
  show ?thesis
  proof (cases "n < length (wd_waiting w) \<and> (\<exists>orig. wd_waiting w ! n = Wait_tool orig)")
    case True
    then obtain orig where n: "n < length (wd_waiting w)" and p: "wd_waiting w ! n = Wait_tool orig"
      by blast
    have "event_ok w (settle (remove_nth n (wd_waiting w)) orig
        (resume_tool_cancel (wd_ctx w) orig cancelled reason))"
      using waiting_ok [OF ok n] ok
      by (intro settle_ok resume_tool_ok set_remove_nth) (simp_all add: p origin_of_def world_ok_def)
    then show ?thesis using Tool_answer n p by simp
  next
    case False
    then have "run_event w e = (w, [])"
      using Tool_answer by (auto split: pending.split)
    then show ?thesis using event_ok_same [OF ok] by simp
  qed
next
  case (Generation_answer n outcome)
  show ?thesis
  proof (cases "n < length (wd_waiting w) \<and> (\<exists>orig. wd_waiting w ! n = Wait_generation orig)")
    case True
    then obtain orig where n: "n < length (wd_waiting w)"
      and p: "wd_waiting w ! n = Wait_generation orig"
      by blast
    have "event_ok w (settle (remove_nth n (wd_waiting w)) orig
        (resume_generation_cancel (wd_ctx w) orig outcome))"
      using waiting_ok [OF ok n] ok
      by (intro settle_ok resume_generation_ok set_remove_nth)
        (simp_all add: p origin_of_def world_ok_def)
    then show ?thesis using Generation_answer n p by simp
  next
    case False
    then have "run_event w e = (w, [])"
      using Generation_answer by (auto split: pending.split)
    then show ?thesis using event_ok_same [OF ok] by simp
  qed
qed (use ok in \<open>simp_all add: event_ok_quiet world_ok_def\<close>)

section \<open>Whole runs\<close>

fun world_after :: "world \<Rightarrow> event list \<Rightarrow> world" where
  "world_after w [] = w"
| "world_after w (e # es) = world_after (fst (run_event w e)) es"

lemma fence_kept:
  "world_ok w \<Longrightarrow> rc_fence (wd_ctx w) \<noteq> Open \<Longrightarrow>
     rc_fence (wd_ctx (world_after w es)) = rc_fence (wd_ctx w)"
proof (induction es arbitrary: w)
  case (Cons e es)
  from run_event_ok [OF Cons.prems(1), of e] Cons.prems(2)
  have "world_ok (fst (run_event w e))"
    and "rc_fence (wd_ctx (fst (run_event w e))) = rc_fence (wd_ctx w)"
    by (auto simp: event_ok_def)
  then show ?case using Cons.IH Cons.prems(2) by simp
qed simp

lemma run_outputs:
  "world_ok w \<Longrightarrow>
     (Decision d \<in> set (run_events w es) \<longrightarrow> fd_commit_permitted d \<longrightarrow>
        rc_fence (wd_ctx (world_after w es)) = Committed) \<and>
     (Reply (From_run b) r \<in> set (run_events w es) \<longrightarrow>
        cr_durable r = Some Cancelled_pre_commit \<longrightarrow>
        rc_fence (wd_ctx (world_after w es)) = Cancellation_requested)"
proof (induction es arbitrary: w)
  case (Cons e es)
  note ok = run_event_ok [OF Cons.prems, of e, unfolded event_ok_def]
  then have w': "world_ok (fst (run_event w e))" by blast
  from ok Cons.IH [OF w'] fence_kept [OF w', of es] show ?case by auto
qed simp

lemma new_run_ok: "world_ok new_run"
  by (simp add: world_ok_def new_run_def ctx_ok_def)

text \<open>A request to cancel a run that is answered ``cancelled before the commit'' tells the truth in
  every interleaving: no durable effect of that run is permitted, before the answer or after it.\<close>

theorem run_cancel_answer_is_final:
  assumes "Reply (From_run b) r \<in> set (run_events new_run events)"
    and "cr_durable r = Some Cancelled_pre_commit"
  shows "filter (\<lambda>out. \<exists>d. out = Decision d \<and> fd_commit_permitted d) (run_events new_run events) = []"
  using run_outputs [OF new_run_ok, of _ events b r] assms by (fastforce intro!: filter_none)

definition cancelled_run :: "event list" where
  "cancelled_run = [Bind_generation True, Cancel_run, Commit_effect (JStr ''final''),
     Generation_answer 0 Task_cancelled]"

lemma cancelled_run_outputs:
  "run_events new_run cancelled_run =
     [Decision (fence_decide Cancellation_requested Cancelled_pre_commit ''final''),
      Reply (From_run False) (make_cancel_result True Result_cancelled (Some ''generation'') None
        (Some Cancelled_pre_commit))]"
  by code_simp

theorem run_cancel_answer_is_final_witness:
  "length (run_events new_run cancelled_run) = 2 \<and>
   filter (\<lambda>out. \<exists>d. out = Decision d \<and> fd_commit_permitted d) (run_events new_run cancelled_run) = []"
  using run_cancel_answer_is_final [of False "make_cancel_result True Result_cancelled
      (Some ''generation'') None (Some Cancelled_pre_commit)" cancelled_run]
  by (simp add: cancelled_run_outputs make_cancel_result_def)

section \<open>The generation request reports without the fence\<close>

lemma commit_open:
  assumes "rc_fence c = Open" and "normalized_name sp ''safe_point'' = Inr n"
  shows "try_commit_durable_effect c sp
    = (c\<lparr>rc_fence := Committed, rc_state := Completed, rc_confirmed := False\<rparr>,
       Inr (fence_decide Committed Outcome_committed n))"
  using assms by (simp add: try_commit_durable_effect_def try_commit_def fence_decide_def)

lemma last_waiting [simp]: "remove_nth (length ps) (ps @ [p]) = ps"
  by (simp add: remove_nth_def)

text \<open>C28. A request to cancel the generation alone contradicts the commit fence, in whatever state a live
  run is: a run that is neither completed nor cancelled, whose fence is open and which has a
  generation, with any tool and any other requests under way. If a durable effect commits while the
  request awaits the generation, the commit is permitted and the request still answers ``cancelled
  before the commit''. And if the generation had completed, a later request to cancel the run
  answers ``already committed'' while the fence is open: nothing was committed, and a commit is still
  permitted afterwards.\<close>

theorem generation_cancel_contradicts_the_fence:
  assumes "rc_state (wd_ctx w) = Running \<or> rc_state (wd_ctx w) = Cancelling"
    and "rc_fence (wd_ctx w) = Open" and "rc_generation_bound (wd_ctx w)"
    and "normalized_name sp ''safe_point'' = Inr n"
    and "k = length (wd_waiting w)"
  shows "run_events w [Cancel_generation, Commit_effect sp, Generation_answer k Task_cancelled] =
       [Decision (fence_decide Committed Outcome_committed n),
        Reply From_generation (make_cancel_result True Result_cancelled (Some ''generation'') None
          (Some Cancelled_pre_commit))]
    \<and> run_events w [Cancel_generation, Generation_answer k Task_completed, Cancel_run, Commit_effect sp] =
       [Reply From_generation (make_cancel_result False Result_completed (Some ''generation'') None None),
        Reply (From_run (rc_tool_bound (wd_ctx w) \<and> tc_active (rc_tool (wd_ctx w))))
          (make_cancel_result False Result_completed None None (Some Already_committed)),
        Decision (fence_decide Committed Outcome_committed n)]
    \<and> rc_fence (wd_ctx (world_after w [Cancel_generation, Generation_answer k Task_completed, Cancel_run])) = Open"
proof -
  let ?c = "(wd_ctx w)\<lparr>rc_requested := True, rc_state := Cancelling\<rparr>"
  have wait: "run_event w Cancel_generation =
      (\<lparr>wd_ctx = ?c, wd_waiting = wd_waiting w @ [Wait_generation From_generation]\<rparr>, [])"
    using assms(1,3) by (auto simp: begin_generation_cancel_def settle_def Let_def)
  have "rc_fence ?c = Open" using assms(2) by simp
  note commit = commit_open [OF this assms(4)]
  have completed: "mark_completed ?c = ?c\<lparr>rc_state := Completed\<rparr>"
    using assms(2) by (simp add: mark_completed_def)
  have "rc_fence (?c\<lparr>rc_state := Completed\<rparr>) = Open" using assms(2) by simp
  note late = commit_open [OF this assms(4)]
  show ?thesis
    using assms(2,5) wait commit late completed
    by (simp add: resume_generation_cancel_def settle_def finish_generation_def begin_run_cancel_def Let_def)
qed

definition live_run :: world where
  "live_run = fst (run_event new_run (Bind_generation True))"

theorem generation_cancel_contradicts_the_fence_witness:
  "run_events live_run [Cancel_generation, Commit_effect (JStr ''final''), Generation_answer 0 Task_cancelled] =
     [Decision (fence_decide Committed Outcome_committed ''final''),
      Reply From_generation (make_cancel_result True Result_cancelled (Some ''generation'') None
        (Some Cancelled_pre_commit))]"
proof -
  have "normalized_name (JStr ''final'') ''safe_point'' = Inr ''final''" by code_simp
  from generation_cancel_contradicts_the_fence [of live_run, OF _ _ _ this] show ?thesis
    by (simp add: live_run_def new_run_def)
qed

end
