(* ===== verification/Run_Store.thy ===== *)
theory Run_Store
  imports Runs Failures
begin

text \<open>
  The durable state of standalone agent runs (\<^verbatim>\<open>mochi/runtime/store.py\<close>): the tables \<open>agent_runs\<close>,
  \<open>agent_run_leases\<close>, \<open>agent_run_lease_epochs\<close> and \<open>agent_run_events\<close>, and the operations on them:
  creating a run, the lease with its fencing epoch, status updates with and without the fence, and
  the older resume lease kept in the run's summary. An operation that opens its transaction with
  \<open>BEGIN IMMEDIATE\<close> is one step; the resume lease is read outside a transaction, so it takes the
  operations of other connections between its read and its write as an argument.

  A timestamp is the instant it denotes; a text that is no timestamp is \<open>None\<close> where an operation
  checks it. The columns of a run that no modelled operation reads are left out.
  \<open>update_agent_run_status\<close> and \<open>append_agent_run_event\<close> also read before their transaction opens; they
  are modelled without interference of other connections.
\<close>

type_synonym time = int

record agent_run =
  ar_status :: string
  ar_summary :: jdict
  ar_latest_error :: "string option"
  ar_started_at :: "time option"
  ar_finished_at :: "time option"
  ar_updated_at :: time

record run_lease =
  rl_owner :: string
  rl_epoch :: int
  rl_acquired_at :: time
  rl_heartbeat_at :: time
  rl_expires_at :: time
  rl_metadata :: jdict
  rl_updated_at :: time

record run_db =
  db_agent_runs :: "(string, agent_run) dict"
  db_leases :: "(string, run_lease) dict"
  db_epochs :: "(string, int) dict"
  db_run_events :: "(string \<times> nat \<times> jdict) list"

datatype lease_status =
    Lease_missing
  | Lease_acquired
  | Lease_renewed
  | Lease_taken_over
  | Lease_held_by_other
  | Lease_stale_fence
  | Lease_lapsed
  | Lease_released

type_synonym lease_result = "lease_status \<times> run_lease option"

definition require_lease_identifier :: "string \<Rightarrow> string \<Rightarrow> unit py" where
  "require_lease_identifier name value =
     requireE (py_strip value \<noteq> []) (ValueError (name @ '' must be a non-empty string''))"

definition require_lease_epoch :: "int \<Rightarrow> unit py" where
  "require_lease_epoch n = requireE (1 \<le> n) (ValueError ''lease_epoch must be a positive integer'')"

definition require_timestamp :: "string \<Rightarrow> time option \<Rightarrow> time py" where
  "require_timestamp name value =
     (case value of
        None \<Rightarrow> Inl (ValueError (name @ '' must be an ISO-8601 timestamp''))
      | Some t \<Rightarrow> Inr t)"

text \<open>An optional argument that is absent takes the time of the call.\<close>

definition timestamp_or_now :: "string \<Rightarrow> time option option \<Rightarrow> time \<Rightarrow> time py" where
  "timestamp_or_now name value now =
     (case value of None \<Rightarrow> Inr now | Some v \<Rightarrow> require_timestamp name v)"

definition lease_stale :: "run_lease \<Rightarrow> time \<Rightarrow> bool" where
  "lease_stale l now \<longleftrightarrow> rl_expires_at l \<le> now"

section \<open>Runs\<close>

text \<open>The values of \<open>latest_error\<close> and \<open>failure\<close> include the sentinel \<open>_UNSET\<close>.\<close>

datatype 'a arg = Unset | Given 'a

datatype failure_arg =
    No_failure
  | Envelope failure_envelope
  | Failure_mapping jdict

definition persisted_failure_key :: string where
  "persisted_failure_key = ''failure_envelope''"

definition normalize_persisted_failure ::
  "(json \<Rightarrow> string) \<Rightarrow> failure_arg arg \<Rightarrow> string \<Rightarrow> string option arg \<Rightarrow> jdict option arg py" where
  "normalize_persisted_failure text_of failure status latest_error =
     (case failure of
        Given No_failure \<Rightarrow> Inr (Given None)
      | Given (Envelope f) \<Rightarrow> Inr (Given (Some (failure_to_dict f)))
      | Given (Failure_mapping d) \<Rightarrow>
          bindE (failure_from_mapping d) (\<lambda>f. Inr (Given (Some (failure_to_dict f))))
      | Unset \<Rightarrow>
     (case latest_error of
        Unset \<Rightarrow> Inr Unset
      | Given None \<Rightarrow> Inr (Given None)
      | Given (Some e) \<Rightarrow>
          (if py_strip e = [] then Inr (Given None)
           else
             (let s = py_lower (py_strip status);
                  md = [(''status'', JStr s)] @
                    (if s = ''cancelled'' then [(''cancelled'', JBool True)]
                     else if s \<in> set [''waiting_approval'', ''awaiting_approval'']
                     then [(''requires_approval'', JBool True)]
                     else [(''error_type'', JStr ''runtime_status_failure'')])
              in bindE (legacy_failure_envelope text_of ''error'' None None (Some md)
                          (Some (s \<in> set [''cancelled'', ''failed'']))) (\<lambda>envelope.
                   case envelope of
                     None \<Rightarrow> Inl (ValueError ''unable to classify persisted runtime failure'')
                   | Some f \<Rightarrow> Inr (Given (Some (failure_to_dict f))))))))"

definition summary_with_persisted_failure ::
  "(json \<Rightarrow> string) \<Rightarrow> jdict \<Rightarrow> failure_arg arg \<Rightarrow> string \<Rightarrow> string option arg \<Rightarrow> jdict py" where
  "summary_with_persisted_failure text_of summary failure status latest_error =
     bindE (normalize_persisted_failure text_of failure status latest_error) (\<lambda>n.
       Inr (case n of
              Unset \<Rightarrow> summary
            | Given None \<Rightarrow> AList.delete persisted_failure_key summary
            | Given (Some f) \<Rightarrow> dput summary persisted_failure_key (JObj f)))"

definition arg_or :: "'a arg \<Rightarrow> 'a \<Rightarrow> 'a" where
  "arg_or a old = (case a of Unset \<Rightarrow> old | Given x \<Rightarrow> x)"

definition terminal_for_finish :: "string list" where
  "terminal_for_finish = [''cancelled'', ''failed'', ''succeeded'', ''partial'']"

text \<open>\<open>create_agent_run\<close>: the run and, when it has none, its epoch counter. A second run with the
  same id violates the primary key.\<close>

definition create_agent_run ::
  "(json \<Rightarrow> string) \<Rightarrow> run_db \<Rightarrow> string \<Rightarrow> jdict \<Rightarrow> string option \<Rightarrow> failure_arg arg \<Rightarrow> time
     \<Rightarrow> run_db \<times> unit py" where
  "create_agent_run text_of db run_id summary latest_error failure now =
     (case summary_with_persisted_failure text_of summary failure ''created'' (Given latest_error) of
        Inl e \<Rightarrow> (db, Inl e)
      | Inr s \<Rightarrow>
          (if dget (db_agent_runs db) run_id \<noteq> None
           then (db, Inl (ValueError ''UNIQUE constraint failed: agent_runs.id''))
           else
             (db\<lparr>db_agent_runs := dput (db_agent_runs db) run_id
                   \<lparr>ar_status = ''created'', ar_summary = s, ar_latest_error = latest_error,
                    ar_started_at = None, ar_finished_at = None, ar_updated_at = now\<rparr>,
                 db_epochs := (if dget (db_epochs db) run_id = None
                               then dput (db_epochs db) run_id 0 else db_epochs db)\<rparr>, Inr ())))"

definition put_run :: "run_db \<Rightarrow> string \<Rightarrow> agent_run \<Rightarrow> run_db" where
  "put_run db run_id r = db\<lparr>db_agent_runs := dput (db_agent_runs db) run_id r\<rparr>"

definition update_agent_run_status ::
  "(json \<Rightarrow> string) \<Rightarrow> run_db \<Rightarrow> string \<Rightarrow> string \<Rightarrow> string option arg \<Rightarrow> failure_arg arg \<Rightarrow> bool \<Rightarrow> bool
     \<Rightarrow> time \<Rightarrow> run_db \<times> unit py" where
  "update_agent_run_status text_of db run_id new_status latest_error failure reset_started
     reset_finished now =
     (case dget (db_agent_runs db) run_id of
        None \<Rightarrow> (db, Inr ())
      | Some r \<Rightarrow>
          (case summary_with_persisted_failure text_of (ar_summary r) failure new_status latest_error of
             Inl e \<Rightarrow> (db, Inl e)
           | Inr s \<Rightarrow>
               (put_run db run_id (r\<lparr>ar_status := new_status, ar_summary := s,
                  ar_latest_error := arg_or latest_error (ar_latest_error r),
                  ar_started_at := (if new_status = ''running'' then Some now
                                    else if reset_started then None else ar_started_at r),
                  ar_finished_at := (if new_status \<in> set terminal_for_finish then Some now
                                     else if reset_finished then None else ar_finished_at r),
                  ar_updated_at := now\<rparr>), Inr ())))"

section \<open>The run lease\<close>

text \<open>A new lease row under the given epoch, which becomes the last one of the run.\<close>

definition grant_lease ::
  "run_db \<Rightarrow> string \<Rightarrow> run_lease \<Rightarrow> lease_status \<Rightarrow> run_db \<times> lease_result" where
  "grant_lease db run_id l status =
     (db\<lparr>db_epochs := dput (db_epochs db) run_id (rl_epoch l),
         db_leases := dput (db_leases db) run_id l\<rparr>, (status, Some l))"

text \<open>A later deadline under the same owner and epoch.\<close>

definition extend_lease ::
  "run_db \<Rightarrow> string \<Rightarrow> run_lease \<Rightarrow> time \<Rightarrow> time \<Rightarrow> jdict option \<Rightarrow> time \<Rightarrow> run_db \<times> lease_result" where
  "extend_lease db run_id l heartbeat expires metadata now =
     (let l' = l\<lparr>rl_heartbeat_at := heartbeat, rl_expires_at := expires,
                 rl_metadata := (case metadata of None \<Rightarrow> rl_metadata l | Some m \<Rightarrow> m),
                 rl_updated_at := now\<rparr>
      in (db\<lparr>db_leases := dput (db_leases db) run_id l'\<rparr>, (Lease_renewed, Some l')))"

text \<open>The transaction of \<open>acquire_agent_run_lease\<close> and the checks before it.\<close>

definition acquire_lease_tx ::
  "run_db \<Rightarrow> string \<Rightarrow> string \<Rightarrow> time \<Rightarrow> jdict option \<Rightarrow> time \<Rightarrow> time \<Rightarrow> time
     \<Rightarrow> run_db \<times> lease_result" where
  "acquire_lease_tx db run_id owner expires metadata acquired heartbeat now =
     (let fresh = (\<lambda>epoch. \<lparr>rl_owner = owner, rl_epoch = epoch, rl_acquired_at = acquired,
            rl_heartbeat_at = heartbeat, rl_expires_at = expires,
            rl_metadata = (case metadata of None \<Rightarrow> [] | Some m \<Rightarrow> m), rl_updated_at = now\<rparr>)
      in if dget (db_agent_runs db) run_id = None then (db, (Lease_missing, None))
         else case dget (db_leases db) run_id of
             None \<Rightarrow>
               grant_lease db run_id
                 (fresh ((case dget (db_epochs db) run_id of None \<Rightarrow> 0 | Some n \<Rightarrow> n) + 1))
                 Lease_acquired
           | Some l \<Rightarrow>
               (if \<not> lease_stale l now
                then (if rl_owner l \<noteq> owner then (db, (Lease_held_by_other, Some l))
                      else extend_lease db run_id l heartbeat expires metadata now)
                else grant_lease db run_id
                  (fresh (max (case dget (db_epochs db) run_id of None \<Rightarrow> rl_epoch l | Some n \<Rightarrow> n)
                            (rl_epoch l) + 1))
                  Lease_taken_over))"

definition acquire_agent_run_lease ::
  "run_db \<Rightarrow> string \<Rightarrow> string \<Rightarrow> time option \<Rightarrow> jdict option \<Rightarrow> time option option \<Rightarrow> time option option
     \<Rightarrow> time \<Rightarrow> run_db \<times> lease_result py" where
  "acquire_agent_run_lease db run_id owner expires_at metadata acquired_at heartbeat_at now =
     (case bindE (require_lease_identifier ''run_id'' run_id) (\<lambda>_.
           bindE (require_lease_identifier ''owner_id'' owner) (\<lambda>_.
           bindE (require_timestamp ''expires_at'' expires_at) (\<lambda>expires.
           bindE (timestamp_or_now ''acquired_at'' acquired_at now) (\<lambda>acquired.
           bindE (timestamp_or_now ''heartbeat_at'' heartbeat_at now) (\<lambda>heartbeat.
             Inr (acquire_lease_tx db run_id owner expires metadata acquired heartbeat now)))))) of
        Inl e \<Rightarrow> (db, Inl e)
      | Inr (db', r) \<Rightarrow> (db', Inr r))"

definition check_token :: "string \<Rightarrow> string \<Rightarrow> int \<Rightarrow> unit py" where
  "check_token run_id owner epoch =
     bindE (require_lease_identifier ''run_id'' run_id) (\<lambda>_.
     bindE (require_lease_identifier ''owner_id'' owner) (\<lambda>_. require_lease_epoch epoch))"

text \<open>The fencing token of a call is current when the lease row carries it.\<close>

definition holds_token :: "run_lease \<Rightarrow> string \<Rightarrow> int \<Rightarrow> bool" where
  "holds_token l owner epoch \<longleftrightarrow> rl_owner l = owner \<and> rl_epoch l = epoch"

definition renew_agent_run_lease ::
  "run_db \<Rightarrow> string \<Rightarrow> string \<Rightarrow> int \<Rightarrow> time option \<Rightarrow> jdict option \<Rightarrow> time option option \<Rightarrow> time
     \<Rightarrow> run_db \<times> lease_result py" where
  "renew_agent_run_lease db run_id owner epoch expires_at metadata heartbeat_at now =
     (case bindE (check_token run_id owner epoch) (\<lambda>_.
           bindE (require_timestamp ''expires_at'' expires_at) (\<lambda>expires.
           bindE (timestamp_or_now ''heartbeat_at'' heartbeat_at now) (\<lambda>heartbeat.
             Inr (expires, heartbeat)))) of
        Inl e \<Rightarrow> (db, Inl e)
      | Inr (expires, heartbeat) \<Rightarrow>
     (case dget (db_leases db) run_id of
        None \<Rightarrow> (db, Inr (Lease_missing, None))
      | Some l \<Rightarrow>
          (if \<not> holds_token l owner epoch then (db, Inr (Lease_stale_fence, Some l))
           else if lease_stale l now then (db, Inr (Lease_lapsed, Some l))
           else map_prod id Inr (extend_lease db run_id l heartbeat expires metadata now))))"

definition release_agent_run_lease ::
  "run_db \<Rightarrow> string \<Rightarrow> string \<Rightarrow> int \<Rightarrow> run_db \<times> lease_result py" where
  "release_agent_run_lease db run_id owner epoch =
     (case check_token run_id owner epoch of
        Inl e \<Rightarrow> (db, Inl e)
      | Inr _ \<Rightarrow>
     (case dget (db_leases db) run_id of
        None \<Rightarrow> (db, Inr (Lease_missing, None))
      | Some l \<Rightarrow>
          (if \<not> holds_token l owner epoch then (db, Inr (Lease_stale_fence, Some l))
           else (db\<lparr>db_leases := AList.delete run_id (db_leases db)\<rparr>,
                 Inr (Lease_released, Some l)))))"

definition update_status_if_lease_current ::
  "(json \<Rightarrow> string) \<Rightarrow> run_db \<Rightarrow> string \<Rightarrow> string \<Rightarrow> string \<Rightarrow> int \<Rightarrow> string option arg \<Rightarrow> failure_arg arg
     \<Rightarrow> time \<Rightarrow> run_db \<times> bool py" where
  "update_status_if_lease_current text_of db run_id new_status owner epoch latest_error failure now =
     (case check_token run_id owner epoch of
        Inl e \<Rightarrow> (db, Inl e)
      | Inr _ \<Rightarrow>
     (case (dget (db_agent_runs db) run_id, dget (db_leases db) run_id) of
        (Some r, Some l) \<Rightarrow>
          (if \<not> holds_token l owner epoch \<or> lease_stale l now then (db, Inr False)
           else
             (case summary_with_persisted_failure text_of (ar_summary r) failure new_status
                     latest_error of
                Inl e \<Rightarrow> (db, Inl e)
              | Inr s \<Rightarrow>
                  (put_run db run_id (r\<lparr>ar_status := new_status, ar_summary := s,
                     ar_latest_error := arg_or latest_error (ar_latest_error r),
                     ar_started_at := (if new_status = ''running'' then Some now
                                       else ar_started_at r),
                     ar_finished_at := (if new_status \<in> set terminal_for_finish then Some now
                                        else ar_finished_at r),
                     ar_updated_at := now\<rparr>), Inr True)))
      | _ \<Rightarrow> (db, Inr False)))"

section \<open>Events\<close>

definition max_seq :: "run_db \<Rightarrow> string \<Rightarrow> nat" where
  "max_seq db run_id =
     fold (\<lambda>e m. if fst e = run_id then max m (fst (snd e)) else m) (db_run_events db) 0"

definition append_agent_run_event :: "run_db \<Rightarrow> string \<Rightarrow> jdict \<Rightarrow> time \<Rightarrow> run_db" where
  "append_agent_run_event db run_id event now =
     (let db' = db\<lparr>db_run_events := db_run_events db @ [(run_id, max_seq db run_id + 1, event)]\<rparr>
      in case dget (db_agent_runs db) run_id of
           None \<Rightarrow> db'
         | Some r \<Rightarrow> put_run db' run_id (r\<lparr>ar_updated_at := now\<rparr>))"

definition get_agent_run_events :: "run_db \<Rightarrow> string \<Rightarrow> jdict list" where
  "get_agent_run_events db run_id =
     map (\<lambda>e. snd (snd e)) (sort_key (\<lambda>e. fst (snd e))
       (filter (\<lambda>e. fst e = run_id) (db_run_events db)))"

section \<open>The resume lease in the summary\<close>

datatype resume_outcome =
    Run_not_found | Already_running | Invalid_status | Lease_conflict | Resume_acquired

definition obj_or_empty :: "json \<Rightarrow> jdict" where
  "obj_or_empty v = (case v of JObj d \<Rightarrow> d | _ \<Rightarrow> [])"

definition resume_runtime_of :: "jdict \<Rightarrow> jdict" where
  "resume_runtime_of summary =
     obj_or_empty (jget (obj_or_empty (jget summary ''recovery_state'')) ''resume_runtime'')"

definition with_resume_runtime :: "jdict \<Rightarrow> jdict \<Rightarrow> jdict" where
  "with_resume_runtime summary runtime =
     dput summary ''recovery_state''
       (JObj (dput (obj_or_empty (jget summary ''recovery_state'')) ''resume_runtime'' (JObj runtime)))"

definition lease_id_set :: "jdict \<Rightarrow> bool" where
  "lease_id_set runtime =
     (case jget runtime ''lease_id'' of JStr s \<Rightarrow> py_strip s \<noteq> [] | _ \<Rightarrow> False)"

text \<open>The decision taken on the row the \<open>SELECT\<close> returned.\<close>

definition resume_decision :: "(json \<Rightarrow> string) \<Rightarrow> agent_run \<Rightarrow> string list \<Rightarrow> resume_outcome" where
  "resume_decision text_of r expected =
     (let status = (if ar_status r = [] then ''created'' else ar_status r);
          runtime = resume_runtime_of (ar_summary r);
          active = py_lower (py_strip (text_or text_of (jget runtime ''status'') []))
      in if status \<notin> set expected
         then (if status = ''running'' \<and> lease_id_set runtime then Already_running
               else Invalid_status)
         else if lease_id_set runtime \<and> active = ''active'' then Lease_conflict
         else Resume_acquired)"

text \<open>
  \<open>acquire_agent_run_resume_lease\<close>. The \<open>SELECT\<close> runs in its own implicit transaction and the
  \<open>UPDATE\<close> in the next one: \<open>between\<close> is what other connections do in the meantime. The values
  written come from the row read before.
\<close>

definition acquire_resume_lease ::
  "(json \<Rightarrow> string) \<Rightarrow> (run_db \<Rightarrow> run_db) \<Rightarrow> run_db \<Rightarrow> string \<Rightarrow> string list \<Rightarrow> jdict \<Rightarrow> time
     \<Rightarrow> run_db \<times> resume_outcome" where
  "acquire_resume_lease text_of between db run_id expected lease now =
     (case dget (db_agent_runs db) run_id of
        None \<Rightarrow> (db, Run_not_found)
      | Some r \<Rightarrow>
          (case resume_decision text_of r expected of
             Resume_acquired \<Rightarrow>
               (let db' = between db
                in case dget (db_agent_runs db') run_id of
                     None \<Rightarrow> (db', Resume_acquired)
                   | Some r' \<Rightarrow>
                       (put_run db' run_id (r'\<lparr>ar_status := ''running'', ar_latest_error := None,
                          ar_summary := with_resume_runtime (ar_summary r) lease,
                          ar_started_at := (case ar_started_at r' of None \<Rightarrow> Some now | t \<Rightarrow> t),
                          ar_updated_at := now\<rparr>), Resume_acquired))
           | outcome \<Rightarrow> (db, outcome)))"

definition release_resume_lease ::
  "(json \<Rightarrow> string) \<Rightarrow> (run_db \<Rightarrow> run_db) \<Rightarrow> run_db \<Rightarrow> string \<Rightarrow> string \<Rightarrow> string \<Rightarrow> (time \<Rightarrow> string) \<Rightarrow> time
     \<Rightarrow> run_db" where
  "release_resume_lease text_of between db run_id lease_id status iso_text now =
     (case dget (db_agent_runs db) run_id of
        None \<Rightarrow> db
      | Some r \<Rightarrow>
          (let runtime = resume_runtime_of (ar_summary r)
           in if py_strip (text_or text_of (jget runtime ''lease_id'') []) \<noteq> lease_id then db
              else let db' = between db
                   in case dget (db_agent_runs db') run_id of
                        None \<Rightarrow> db'
                      | Some r' \<Rightarrow>
                          put_run db' run_id (r'\<lparr>ar_summary := with_resume_runtime (ar_summary r)
                             (dput (dput runtime ''status'' (JStr status))
                                ''released_at'' (JStr (iso_text now))),
                             ar_updated_at := now\<rparr>)))"

end
