(* ===== verification/Run_Fencing.thy ===== *)
theory Run_Fencing
  imports Run_Store
begin

text \<open>
  The fencing of agent runs: the sequences of store operations, what each does to the lease table
  and the epoch counters, and the two facts the rest of the runtime relies on. An epoch is granted
  once, in increasing order; and an epoch that is no longer in the lease row is spent for good,
  which makes the operations that carry a token an instance of the interface \<open>guarded\<close>.
\<close>

datatype run_op =
    Op_create string jdict "string option" "failure_arg arg" time
  | Op_acquire string string "time option" "jdict option" "time option option" "time option option"
      time
  | Op_renew string string int "time option" "jdict option" "time option option" time
  | Op_release string string int
  | Op_fenced_update string string string int "string option arg" "failure_arg arg" time
  | Op_update string string "string option arg" "failure_arg arg" bool bool time
  | Op_event string jdict time
  | Op_resume string "string list" jdict time

datatype run_reply = Granted string int | Accepted

definition grant_of :: "string \<Rightarrow> lease_result py \<Rightarrow> unit + run_reply" where
  "grant_of run_id r =
     (case r of
        Inr (st, Some l) \<Rightarrow>
          (if st \<in> {Lease_acquired, Lease_taken_over} then Inr (Granted run_id (rl_epoch l))
           else if st \<in> {Lease_renewed, Lease_released} then Inr Accepted
           else Inl ())
      | _ \<Rightarrow> Inl ())"

fun run_step :: "(json \<Rightarrow> string) \<Rightarrow> run_db \<Rightarrow> run_op \<Rightarrow> run_db \<times> (unit + run_reply)" where
  "run_step text_of db (Op_create i s e f now) =
     (case create_agent_run text_of db i s e f now of
        (db', Inl _) \<Rightarrow> (db', Inl ()) | (db', Inr _) \<Rightarrow> (db', Inr Accepted))"
| "run_step text_of db (Op_acquire i owner expires md acq hb now) =
     map_prod id (grant_of i) (acquire_agent_run_lease db i owner expires md acq hb now)"
| "run_step text_of db (Op_renew i owner e expires md hb now) =
     map_prod id (grant_of i) (renew_agent_run_lease db i owner e expires md hb now)"
| "run_step text_of db (Op_release i owner e) =
     map_prod id (grant_of i) (release_agent_run_lease db i owner e)"
| "run_step text_of db (Op_fenced_update i st owner e err f now) =
     (case update_status_if_lease_current text_of db i st owner e err f now of
        (db', Inr True) \<Rightarrow> (db', Inr Accepted) | (db', _) \<Rightarrow> (db', Inl ()))"
| "run_step text_of db (Op_update i st err f rs rf now) =
     (case update_agent_run_status text_of db i st err f rs rf now of
        (db', Inl _) \<Rightarrow> (db', Inl ()) | (db', Inr _) \<Rightarrow> (db', Inr Accepted))"
| "run_step text_of db (Op_event i ev now) = (append_agent_run_event db i ev now, Inr Accepted)"
| "run_step text_of db (Op_resume i expected lease now) =
     (case acquire_resume_lease text_of id db i expected lease now of
        (db', Resume_acquired) \<Rightarrow> (db', Inr Accepted) | (db', _) \<Rightarrow> (db', Inl ()))"

definition empty_run_db :: run_db where
  "empty_run_db = \<lparr>db_agent_runs = [], db_leases = [], db_epochs = [], db_run_events = []\<rparr>"

definition high_water :: "run_db \<Rightarrow> string \<Rightarrow> int" where
  "high_water db i = (case dget (db_epochs db) i of None \<Rightarrow> 0 | Some n \<Rightarrow> n)"

text \<open>The counter of a leased run is the epoch of its lease; counters are not negative.\<close>

definition epochs_ok :: "run_db \<Rightarrow> bool" where
  "epochs_ok db \<longleftrightarrow>
     (\<forall>i l. dget (db_leases db) i = Some l \<longrightarrow> dget (db_epochs db) i = Some (rl_epoch l)) \<and>
     (\<forall>i. 0 \<le> high_water db i)"

lemma dget_delete: "dget (AList.delete k d) k' = (if k' = k then None else dget d k')"
  by (simp add: delete_conv')

section \<open>What an operation does to leases and counters\<close>

lemma put_run_view [simp]:
  "db_leases (put_run db i r) = db_leases db" "db_epochs (put_run db i r) = db_epochs db"
  by (simp_all add: put_run_def)

lemma event_view [simp]:
  "db_leases (append_agent_run_event db i ev now) = db_leases db"
  "db_epochs (append_agent_run_event db i ev now) = db_epochs db"
  by (simp_all add: append_agent_run_event_def Let_def split: option.split)

lemma update_view:
  "update_agent_run_status text_of db i st err f rs rf now = (db', r) \<Longrightarrow>
     db_leases db' = db_leases db \<and> db_epochs db' = db_epochs db"
  by (auto simp: update_agent_run_status_def split: option.splits sum.splits)

lemma fenced_view:
  "update_status_if_lease_current text_of db i st owner e err f now = (db', r) \<Longrightarrow>
     db_leases db' = db_leases db \<and> db_epochs db' = db_epochs db"
  by (auto simp: update_status_if_lease_current_def split: option.splits sum.splits if_splits)

lemma resume_view:
  "acquire_resume_lease text_of id db i expected lease now = (db', r) \<Longrightarrow>
     db_leases db' = db_leases db \<and> db_epochs db' = db_epochs db"
  by (auto simp: acquire_resume_lease_def Let_def split: option.splits resume_outcome.splits)

lemma create_view:
  assumes "create_agent_run text_of db i s e f now = (db', r)"
  shows "db_leases db' = db_leases db"
    and "dget (db_epochs db') j =
      (if r = Inr () \<and> j = i \<and> dget (db_epochs db) i = None then Some 0 else dget (db_epochs db) j)"
  using assms by (auto simp: create_agent_run_def split: sum.splits if_splits)

text \<open>
  What an operation may do to the lease of a run and its counter: nothing, a new epoch above the
  counter, a longer lease under the same token, its removal, or the creation of a counter at zero.
\<close>

definition lease_unchanged :: "run_db \<Rightarrow> run_db \<Rightarrow> bool" where
  "lease_unchanged db db' \<longleftrightarrow> db_leases db' = db_leases db \<and>
     (\<forall>j. dget (db_epochs db') j = dget (db_epochs db) j \<or>
          dget (db_epochs db) j = None \<and> dget (db_epochs db') j = Some 0)"

definition lease_granted :: "run_db \<Rightarrow> string \<Rightarrow> int \<Rightarrow> run_db \<Rightarrow> bool" where
  "lease_granted db i e db' \<longleftrightarrow> high_water db i < e \<and>
     (\<exists>l. rl_epoch l = e \<and> db_leases db' = dput (db_leases db) i l) \<and>
     db_epochs db' = dput (db_epochs db) i e"

definition lease_extended :: "run_db \<Rightarrow> string \<Rightarrow> run_db \<Rightarrow> bool" where
  "lease_extended db i db' \<longleftrightarrow> db_epochs db' = db_epochs db \<and>
     (\<exists>l l'. dget (db_leases db) i = Some l \<and> rl_epoch l' = rl_epoch l \<and> rl_owner l' = rl_owner l \<and>
        db_leases db' = dput (db_leases db) i l')"

definition lease_removed :: "run_db \<Rightarrow> string \<Rightarrow> run_db \<Rightarrow> bool" where
  "lease_removed db i db' \<longleftrightarrow> db_epochs db' = db_epochs db \<and>
     db_leases db' = AList.delete i (db_leases db)"

lemma lease_unchanged_refl [simp]: "lease_unchanged db db"
  by (simp add: lease_unchanged_def)

lemma extend_extended:
  assumes "dget (db_leases db) i = Some l" and "extend_lease db i l hb ex md now = (db', r)"
  shows "lease_extended db i db' \<and> (\<exists>l'. r = (Lease_renewed, Some l'))"
proof -
  let ?l = "l\<lparr>rl_heartbeat_at := hb, rl_expires_at := ex,
     rl_metadata := (case md of None \<Rightarrow> rl_metadata l | Some m \<Rightarrow> m), rl_updated_at := now\<rparr>"
  have "db' = db\<lparr>db_leases := dput (db_leases db) i ?l\<rparr>" and "r = (Lease_renewed, Some ?l)"
    using assms(2) by (auto simp: extend_lease_def Let_def)
  moreover have "rl_epoch ?l = rl_epoch l" "rl_owner ?l = rl_owner l" by simp_all
  ultimately show ?thesis
    unfolding lease_extended_def using assms(1) by (metis run_db.select_convs run_db.update_convs(2) run_db.surjective)
qed

lemma grant_granted:
  "high_water db i < rl_epoch l \<Longrightarrow> grant_lease db i l st = (db', r) \<Longrightarrow>
     lease_granted db i (rl_epoch l) db' \<and> r = (st, Some l)"
  by (auto simp: grant_lease_def lease_granted_def)

lemma acquire_tx_cases:
  assumes ok: "epochs_ok db"
    and tx: "acquire_lease_tx db i owner expires md acq hb now = (db', r)"
  shows "(\<exists>st l. r = (st, Some l) \<and> st \<in> {Lease_acquired, Lease_taken_over} \<and>
        lease_granted db i (rl_epoch l) db') \<or>
    (\<exists>l. r = (Lease_renewed, Some l) \<and> lease_extended db i db') \<or>
    (db' = db \<and> fst r \<in> {Lease_missing, Lease_held_by_other})"
proof -
  let ?new = "\<lambda>e. \<lparr>rl_owner = owner, rl_epoch = e, rl_acquired_at = acq, rl_heartbeat_at = hb,
     rl_expires_at = expires, rl_metadata = (case md of None \<Rightarrow> [] | Some m \<Rightarrow> m), rl_updated_at = now\<rparr>"
  let ?granted = "\<exists>st l. r = (st, Some l) \<and> st \<in> {Lease_acquired, Lease_taken_over} \<and>
     lease_granted db i (rl_epoch l) db'"
  have grant: ?granted
    if "grant_lease db i (?new e) st = (db', r)" and "high_water db i < e"
      and "st \<in> {Lease_acquired, Lease_taken_over}" for e st
    using grant_granted [OF _ that(1)] that(2,3) by auto
  consider (none) "dget (db_agent_runs db) i = None"
    | (free) "dget (db_agent_runs db) i \<noteq> None" "dget (db_leases db) i = None"
    | (held) l where "dget (db_agent_runs db) i \<noteq> None" "dget (db_leases db) i = Some l"
    by (cases "dget (db_leases db) i") auto
  then show ?thesis
  proof cases
    case none
    then show ?thesis using tx by (auto simp: acquire_lease_tx_def Let_def)
  next
    case free
    then have "grant_lease db i (?new (high_water db i + 1)) Lease_acquired = (db', r)"
      using tx unfolding acquire_lease_tx_def Let_def high_water_def by (simp add: free)
    from grant [OF this] show ?thesis by simp
  next
    case (held l)
    then have hw: "high_water db i = rl_epoch l"
      and e: "dget (db_epochs db) i = Some (rl_epoch l)"
      using ok by (simp_all add: epochs_ok_def high_water_def)
    show ?thesis
    proof (cases "lease_stale l now")
      case True
      then have "grant_lease db i (?new (rl_epoch l + 1)) Lease_taken_over = (db', r)"
        using tx unfolding acquire_lease_tx_def Let_def by (simp add: held e True)
      from grant [OF this] hw show ?thesis by simp
    next
      case False
      then have "(db', r) = (db, (Lease_held_by_other, Some l)) \<or>
          extend_lease db i l hb expires md now = (db', r)"
        using tx unfolding acquire_lease_tx_def Let_def by (auto simp: held False split: if_splits)
      then show ?thesis
      proof
        assume "extend_lease db i l hb expires md now = (db', r)"
        from extend_extended [OF held(2) this] show ?thesis by blast
      qed simp
    qed
  qed
qed

text \<open>Every operation, with what its reply says.\<close>

definition step_effect :: "run_db \<Rightarrow> run_db \<Rightarrow> unit + run_reply \<Rightarrow> bool" where
  "step_effect db db' r \<longleftrightarrow>
     (\<exists>i e. r = Inr (Granted i e) \<and> lease_granted db i e db') \<or>
     (\<forall>i e. r \<noteq> Inr (Granted i e)) \<and>
       (lease_unchanged db db' \<or> (\<exists>i. lease_extended db i db') \<or> (\<exists>i. lease_removed db i db'))"

lemma acquire_effect:
  assumes "epochs_ok db" and "acquire_agent_run_lease db i owner expires md acq hb now = (db', r)"
  shows "step_effect db db' (grant_of i r)"
proof -
  from assms(2) consider e where "r = Inl e" "db' = db"
    | ex ac h x where "acquire_lease_tx db i owner ex md ac h now = (db', x)" "r = Inr x"
    by (auto simp: acquire_agent_run_lease_def bindE_eq_Inr split: sum.splits prod.splits)
  then show ?thesis
  proof cases
    case 1
    then show ?thesis by (simp add: step_effect_def grant_of_def)
  next
    case 2
    from acquire_tx_cases [OF assms(1) 2(1)] show ?thesis
      using 2(2)
      by (auto simp: step_effect_def grant_of_def split: option.splits prod.splits if_splits)
  qed
qed

lemma renew_effect:
  assumes "renew_agent_run_lease db i owner e expires md hb now = (db', r)"
  shows "step_effect db db' (grant_of i r)"
proof -
  from assms consider "db' = db" "grant_of i r = Inl ()"
    | l ex h x where "dget (db_leases db) i = Some l" "extend_lease db i l h ex md now = (db', x)"
        "r = Inr x"
    by (auto simp: renew_agent_run_lease_def grant_of_def map_prod_def
        split: sum.splits option.splits if_splits prod.splits)
  then show ?thesis
  proof cases
    case 1
    then show ?thesis by (simp add: step_effect_def)
  next
    case 2
    from extend_extended [OF 2(1,2)] show ?thesis
      using 2(3) by (auto simp: step_effect_def grant_of_def)
  qed
qed

lemma release_effect:
  "release_agent_run_lease db i owner e = (db', r) \<Longrightarrow> step_effect db db' (grant_of i r)"
  by (auto simp: release_agent_run_lease_def step_effect_def grant_of_def lease_removed_def
      split: sum.splits option.splits if_splits)

lemma quiet_effect:
  "db_leases db' = db_leases db \<and> db_epochs db' = db_epochs db \<Longrightarrow> \<forall>i e. r \<noteq> Inr (Granted i e) \<Longrightarrow>
     step_effect db db' r"
  by (simp add: step_effect_def lease_unchanged_def)

lemma run_step_effect:
  assumes ok: "epochs_ok db" and step: "run_step text_of db op = (db', r)"
  shows "step_effect db db' r"
proof (cases op)
  case (Op_create i s e f now)
  obtain db'' x where c: "create_agent_run text_of db i s e f now = (db'', x)" by fastforce
  have "lease_unchanged db db''"
    unfolding lease_unchanged_def using create_view [OF c] by auto
  moreover have "db' = db''" and "\<forall>i e. r \<noteq> Inr (Granted i e)"
    using step c Op_create by (auto split: sum.splits)
  ultimately show ?thesis by (simp add: step_effect_def)
next
  case (Op_acquire i owner expires md acq hb now)
  then show ?thesis using step acquire_effect [OF ok] by (auto simp: map_prod_def split: prod.splits)
next
  case (Op_renew i owner e expires md hb now)
  then show ?thesis using step renew_effect by (auto simp: map_prod_def split: prod.splits)
next
  case (Op_release i owner e)
  then show ?thesis using step release_effect by (auto simp: map_prod_def split: prod.splits)
next
  case (Op_fenced_update i st owner e err f now)
  obtain db'' x where c: "update_status_if_lease_current text_of db i st owner e err f now = (db'', x)"
    by fastforce
  show ?thesis
    by (rule quiet_effect) (use fenced_view [OF c] step c Op_fenced_update in
      \<open>auto split: sum.splits bool.splits\<close>)
next
  case (Op_update i st err f rs rf now)
  obtain db'' x where c: "update_agent_run_status text_of db i st err f rs rf now = (db'', x)"
    by fastforce
  show ?thesis
    by (rule quiet_effect) (use update_view [OF c] step c Op_update in \<open>auto split: sum.splits\<close>)
next
  case (Op_event i ev now)
  then show ?thesis using step by (auto intro: quiet_effect)
next
  case (Op_resume i expected lease now)
  obtain db'' x where c: "acquire_resume_lease text_of id db i expected lease now = (db'', x)"
    by fastforce
  show ?thesis
    by (rule quiet_effect) (use resume_view [OF c] step c Op_resume in
      \<open>auto split: resume_outcome.splits\<close>)
qed

section \<open>Epochs grow, and a superseded one stays superseded\<close>

lemma high_water_unchanged:
  "lease_unchanged db db' \<Longrightarrow> high_water db' j = high_water db j"
  by (auto simp: lease_unchanged_def high_water_def split: option.split dest: spec [of _ j])

lemma high_water_dput:
  "db_epochs db' = dput (db_epochs db) i e \<Longrightarrow>
     high_water db' j = (if j = i then e else high_water db j)"
  by (simp add: high_water_def dget_dput)

lemma high_water_same: "db_epochs db' = db_epochs db \<Longrightarrow> high_water db' j = high_water db j"
  by (simp add: high_water_def)

lemma effect_ok:
  assumes ok: "epochs_ok db" and eff: "step_effect db db' r"
  shows "epochs_ok db'" and "high_water db j \<le> high_water db' j"
proof -
  note cases = eff [unfolded step_effect_def]
  show mono: "high_water db j \<le> high_water db' j" for j
    using cases
  proof (elim disjE exE conjE)
    fix i e assume "lease_granted db i e db'"
    then show ?thesis 
      by (auto simp: lease_granted_def high_water_dput [where db = db])
  next
    assume "lease_unchanged db db'"
    then show ?thesis by (simp only: high_water_unchanged)
  next
    fix i assume "lease_extended db i db'"
    then show ?thesis using high_water_same [where db = db and db' = db'] by (simp add: lease_extended_def)
  next
    fix i assume "lease_removed db i db'"
    then show ?thesis using high_water_same [where db = db and db' = db'] by (simp add: lease_removed_def)
  qed
  show "epochs_ok db'"
    unfolding epochs_ok_def
  proof (intro conjI allI impI)
    show "0 \<le> high_water db' i" for i
      using mono [of i] ok order_trans unfolding epochs_ok_def by blast
    show "dget (db_epochs db') i = Some (rl_epoch l)" if l: "dget (db_leases db') i = Some l" for i l
      using cases
    proof (elim disjE conjE exE)
      assume "lease_unchanged db db'"
      then show ?thesis using ok l unfolding epochs_ok_def lease_unchanged_def
        by (metis option.distinct(1))
    qed (use ok l in \<open>auto simp: epochs_ok_def lease_granted_def lease_extended_def
        lease_removed_def dget_dput dget_delete split: if_splits\<close>)
  qed
qed

definition superseded :: "string \<Rightarrow> int \<Rightarrow> run_db \<Rightarrow> bool" where
  "superseded i e db \<longleftrightarrow> epochs_ok db \<and> e \<le> high_water db i \<and>
     (\<forall>l. dget (db_leases db) i = Some l \<longrightarrow> rl_epoch l \<noteq> e)"

lemma superseded_step:
  assumes "superseded i e db" and "step_effect db db' r"
  shows "superseded i e db'"
proof -
  have ok: "epochs_ok db" using assms(1) by (simp add: superseded_def)
  note eff = effect_ok [OF ok assms(2)]
  have "rl_epoch l \<noteq> e" if l: "dget (db_leases db') i = Some l" for l
    using assms(2) [unfolded step_effect_def] assms(1) l
    by (auto simp: superseded_def lease_unchanged_def lease_granted_def lease_extended_def
        lease_removed_def dget_dput dget_delete split: if_splits)
  then show ?thesis
    using assms(1) eff(1) eff(2) [of i] by (auto simp: superseded_def)
qed

text \<open>The operations that carry the token of a run.\<close>

fun carries :: "string \<Rightarrow> int \<Rightarrow> run_op \<Rightarrow> bool" where
  "carries i e (Op_renew j _ e' _ _ _ _) = (j = i \<and> e' = e)"
| "carries i e (Op_release j _ e') = (j = i \<and> e' = e)"
| "carries i e (Op_fenced_update j _ _ e' _ _ _) = (j = i \<and> e' = e)"
| "carries _ _ _ = False"

lemma superseded_refused:
  assumes "superseded i e db" and "carries i e op"
  shows "run_step text_of db op = (db, Inl ())"
proof -
  have "\<not> holds_token l owner e" if "dget (db_leases db) i = Some l" for l owner
    using assms(1) that by (auto simp: superseded_def holds_token_def)
  then show ?thesis
    using assms(2)
    by (cases op)
      (auto simp: renew_agent_run_lease_def release_agent_run_lease_def
        update_status_if_lease_current_def grant_of_def map_prod_def split: sum.split option.split)
qed

interpretation fence: guarded "run_step text_of" "superseded i e" "carries i e" for text_of i e
proof
  fix db op
  assume s: "superseded i e db"
  obtain db' r where "run_step text_of db op = (db', r)" by fastforce
  moreover from s have "epochs_ok db" by (simp add: superseded_def)
  ultimately show "superseded i e (fst (run_step text_of db op))"
    using run_step_effect superseded_step [OF s] by (metis fst_conv)
next
  fix op db db' out
  assume "carries i e op" and "run_step text_of db op = (db', Inr out)"
  then show "\<not> superseded i e db" using superseded_refused by fastforce
qed

lemma epochs_ok_run: "epochs_ok db \<Longrightarrow> epochs_ok (run_ops (run_step text_of) db ops)"
proof (rule run_ops_invariant)
  fix db op
  assume "epochs_ok db"
  then show "epochs_ok (fst (run_step text_of db op))"
    using run_step_effect effect_ok(1) by (metis prod.collapse)
qed

lemma epochs_ok_empty: "epochs_ok empty_run_db"
  by (simp add: epochs_ok_def empty_run_db_def high_water_def)

end
