(* ===== verification/Run_Adoption.thy ===== *)
theory Run_Adoption
  imports Run_Fencing Cancellation
begin

text \<open>
  What the runtime does with durable agent runs when it starts: the pure classification of a run
  (\<^verbatim>\<open>mochi/runtime/run_adoption.py\<close>), the facts it derives from a snapshot
  (\<^verbatim>\<open>mochi/runtime/supervision.py\<close>), the admission by capacity (\<^verbatim>\<open>mochi/runtime/resource_policy.py\<close>)
  and the startup reconciler of \<^verbatim>\<open>mochi/runtime/service.py\<close>, which acquires the lease, classifies and
  then projects a completion or schedules the run.
\<close>

section \<open>Classification\<close>

datatype classification =
    Adopt | Project_completion | Adoption_cancelled | Adoption_terminal | Operator_required
  | Adoption_unknown

datatype lease_ownership = Owned | Stale | Missing_lease | Unknown_lease

datatype worker_identity = Verified | Missing_worker | Unverifiable | Unknown_worker

record adoption_snapshot =
  as_run_id :: string
  as_status :: string
  as_owner_lease :: lease_ownership
  as_worker :: worker_identity
  as_checkpoint_revision :: int
  as_projection_sequence :: int
  as_durable_outcome :: "commit_outcome option"

record adoption_decision =
  ad_run_id :: string
  ad_classification :: classification
  ad_operator_action :: "string option"
  ad_reason :: string

definition active_statuses :: "string list" where
  "active_statuses = [''queued'', ''running'', ''cancelling'', ''recoverable'']"

definition terminal_statuses :: "string list" where
  "terminal_statuses = [''completed'', ''succeeded'', ''failed'', ''cancelled'', ''partial'']"

text \<open>The checks of \<open>RunAdoptionSnapshot.__post_init__\<close>.\<close>

definition check_snapshot :: "adoption_snapshot \<Rightarrow> unit py" where
  "check_snapshot s =
     bindE (requireE (py_strip (as_run_id s) \<noteq> []) (ValueError ''run_id must be a non-empty string''))
       (\<lambda>_.
     bindE (requireE (py_strip (as_status s) \<noteq> []) (ValueError ''status must be a non-empty string''))
       (\<lambda>_.
     bindE (requireE (0 \<le> as_checkpoint_revision s)
             (ValueError ''checkpoint_revision must be a non-negative integer'')) (\<lambda>_.
       requireE (0 \<le> as_projection_sequence s)
         (ValueError ''projection_sequence must be a non-negative integer''))))"

definition make_adoption_decision ::
  "adoption_snapshot \<Rightarrow> classification \<Rightarrow> string \<Rightarrow> string option \<Rightarrow> adoption_decision" where
  "make_adoption_decision s c reason action =
     \<lparr>ad_run_id = as_run_id s, ad_classification = c, ad_operator_action = action,
      ad_reason = reason\<rparr>"

definition classify :: "adoption_snapshot \<Rightarrow> adoption_decision" where
  "classify s =
     (let status = py_lower (py_strip (as_status s))
      in if as_durable_outcome s = Some Cancelled_pre_commit
         then make_adoption_decision s Adoption_cancelled ''cancelled_pre_commit'' None
         else if as_durable_outcome s = Some Already_committed
         then make_adoption_decision s Project_completion ''already_committed_requires_projection'' None
         else if status \<in> set terminal_statuses
         then (if as_checkpoint_revision s > as_projection_sequence s
               then make_adoption_decision s Project_completion ''terminal_checkpoint_not_projected'' None
               else make_adoption_decision s Adoption_terminal ''terminal_run'' None)
         else if status \<notin> set active_statuses
         then make_adoption_decision s Adoption_unknown ''unknown_run_status'' None
         else if as_owner_lease s \<noteq> Owned
         then make_adoption_decision s Operator_required ''run_lease_not_owned''
                (Some ''reacquire_or_confirm_lease'')
         else if as_worker s \<noteq> Verified
         then make_adoption_decision s Operator_required ''worker_identity_not_verified''
                (Some ''verify_worker_identity'')
         else make_adoption_decision s Adopt ''verified_active_run'' None)"

definition may_schedule :: "adoption_decision \<Rightarrow> bool" where
  "may_schedule d \<longleftrightarrow> ad_classification d = Adopt"

section \<open>Facts derived from a run snapshot\<close>

text \<open>\<open>str(value or "").strip().lower()\<close>.\<close>

definition lowered :: "(json \<Rightarrow> string) \<Rightarrow> json \<Rightarrow> string" where
  "lowered text_of v = py_lower (py_strip (text_or text_of v []))"

definition is_goal_backed :: "(json \<Rightarrow> string) \<Rightarrow> jdict \<Rightarrow> bool" where
  "is_goal_backed text_of run =
     (case jget run ''summary'' of
        JObj s \<Rightarrow> py_strip (text_or text_of (jget s ''goal_id'') []) \<noteq> []
      | _ \<Rightarrow> False)"

definition artifact_items :: "json \<Rightarrow> jdict list" where
  "artifact_items artifact =
     (case artifact of
        JObj a \<Rightarrow>
          (if jget a ''artifact_type'' \<noteq> JStr ''detached_exec_jobs'' then []
           else case jget a ''metadata'' of
               JObj m \<Rightarrow>
                 (case jget m ''content'' of
                    JObj c \<Rightarrow>
                      (case jget c ''items'' of
                         JList xs \<Rightarrow> List.map_filter as_obj xs
                       | _ \<Rightarrow> [])
                  | _ \<Rightarrow> [])
             | _ \<Rightarrow> [])
      | _ \<Rightarrow> [])"

definition detached_job_items :: "jdict \<Rightarrow> jdict list" where
  "detached_job_items run =
     (case jget run ''artifacts'' of JList xs \<Rightarrow> concat (map artifact_items xs) | _ \<Rightarrow> [])"

definition active_detached_session_ids :: "(json \<Rightarrow> string) \<Rightarrow> jdict \<Rightarrow> string list" where
  "active_detached_session_ids text_of run =
     remdups (map (\<lambda>item. py_strip (text_or text_of (jget item ''session_id'') []))
       (filter (\<lambda>item. py_strip (text_or text_of (jget item ''session_id'') []) \<noteq> [] \<and>
                  lowered text_of (jget item ''status'') \<in> set [''running'', ''pending''])
         (detached_job_items run)))"

definition has_unverifiable_detached_job :: "(json \<Rightarrow> string) \<Rightarrow> jdict \<Rightarrow> bool" where
  "has_unverifiable_detached_job text_of run =
     list_ex (\<lambda>item. lowered text_of (jget item ''status'') = ''orphaned'' \<or>
        lowered text_of (jget item ''identity_state'') \<in> set [''unknown'', ''mismatch'', ''legacy''])
       (detached_job_items run)"

definition worker_identity_state :: "(json \<Rightarrow> string) \<Rightarrow> jdict \<Rightarrow> string list \<Rightarrow> worker_identity" where
  "worker_identity_state text_of run verified =
     (if has_unverifiable_detached_job text_of run then Unverifiable
      else if active_detached_session_ids text_of run = [] then Verified
      else if list_all (\<lambda>s. s \<in> set verified) (active_detached_session_ids text_of run)
      then Verified else Unverifiable)"

definition durable_resource_counters :: "(json \<Rightarrow> string) \<Rightarrow> jdict list \<Rightarrow> nat \<times> nat" where
  "durable_resource_counters text_of runs =
     (length (filter (\<lambda>run. lowered text_of (jget run ''status'') = ''running'') runs),
      length (remdups (concat (map (active_detached_session_ids text_of) runs))))"

text \<open>The last committed completion that needs its status projected.\<close>

fun committed_completion_status :: "(json \<Rightarrow> string) \<Rightarrow> string option \<Rightarrow> jdict list \<Rightarrow> string option" where
  "committed_completion_status text_of found [] = found"
| "committed_completion_status text_of found (e # es) =
     committed_completion_status text_of
       (if jget e ''type'' = JStr ''run_completion_committed'' \<and>
           lowered text_of (jget e ''durable_outcome'') \<in> set [''committed'', ''already_committed''] \<and>
           lowered text_of (jget e ''completion_status'') \<in> set [''failed'', ''succeeded'']
        then Some (lowered text_of (jget e ''completion_status'')) else found) es"

section \<open>Admission by capacity\<close>

datatype resource_action = Admit | Defer

record resource_decision =
  rd_action :: resource_action
  rd_reason :: string

record resource_policy =
  rp_max_active_runs :: int
  rp_max_detached_execs :: int

definition check_resource_policy :: "resource_policy \<Rightarrow> unit py" where
  "check_resource_policy p =
     bindE (requireE (0 < rp_max_active_runs p)
             (ValueError ''max_active_runs must be a positive integer'')) (\<lambda>_.
       requireE (0 < rp_max_detached_execs p)
         (ValueError ''max_detached_execs must be a positive integer''))"

definition resource_decide ::
  "resource_policy \<Rightarrow> int \<Rightarrow> int \<Rightarrow> bool \<Rightarrow> resource_decision py" where
  "resource_decide p active detached requires_detached =
     bindE (requireE (0 \<le> active) (ValueError ''active_runs must be a non-negative integer'')) (\<lambda>_.
     bindE (requireE (0 \<le> detached) (ValueError ''detached_execs must be a non-negative integer''))
       (\<lambda>_.
       Inr (if active \<ge> rp_max_active_runs p
            then \<lparr>rd_action = Defer, rd_reason = ''active_run_capacity_exhausted''\<rparr>
            else if requires_detached \<and> detached \<ge> rp_max_detached_execs p
            then \<lparr>rd_action = Defer, rd_reason = ''detached_exec_capacity_exhausted''\<rparr>
            else \<lparr>rd_action = Admit, rd_reason = ''capacity_available''\<rparr>)))"

section \<open>The startup reconciler\<close>

record runtime =
  rt_db :: run_db
  rt_owner :: string
  rt_ttl :: time
  rt_leases :: "(string, int) dict"
  rt_jobs :: "string list"

definition acquire_fresh_lease :: "runtime \<Rightarrow> string \<Rightarrow> time \<Rightarrow> runtime \<times> int option py" where
  "acquire_fresh_lease rt run_id now =
     (case acquire_agent_run_lease (rt_db rt) run_id (rt_owner rt) (Some (now + rt_ttl rt))
             (Some [(''source'', JStr ''runtime_service''),
                    (''runtime_owner_id'', JStr (rt_owner rt))]) None None now of
        (db, Inl e) \<Rightarrow> (rt\<lparr>rt_db := db\<rparr>, Inl e)
      | (db, Inr (st, row)) \<Rightarrow>
          (case row of
             Some l \<Rightarrow>
               (if st \<in> set [Lease_acquired, Lease_renewed, Lease_taken_over]
                then (rt\<lparr>rt_db := db, rt_leases := dput (rt_leases rt) run_id (rl_epoch l)\<rparr>,
                      Inr (Some (rl_epoch l)))
                else (rt\<lparr>rt_db := db\<rparr>, Inr None))
           | None \<Rightarrow> (rt\<lparr>rt_db := db\<rparr>, Inr None)))"

definition acquire_standalone_lease :: "runtime \<Rightarrow> string \<Rightarrow> time \<Rightarrow> runtime \<times> int option py" where
  "acquire_standalone_lease rt run_id now =
     (case dget (rt_leases rt) run_id of
        None \<Rightarrow> acquire_fresh_lease rt run_id now
      | Some epoch \<Rightarrow>
          (case renew_agent_run_lease (rt_db rt) run_id (rt_owner rt) epoch
                  (Some (now + rt_ttl rt)) None None now of
             (db, Inl e) \<Rightarrow> (rt\<lparr>rt_db := db\<rparr>, Inl e)
           | (db, Inr (st, _)) \<Rightarrow>
               (if st = Lease_renewed then (rt\<lparr>rt_db := db\<rparr>, Inr (Some epoch))
                else acquire_fresh_lease
                       (rt\<lparr>rt_db := db, rt_leases := AList.delete run_id (rt_leases rt)\<rparr>)
                       run_id now)))"

definition run_payload :: "agent_run \<Rightarrow> jdict" where
  "run_payload r =
     [(''status'', JStr (ar_status r)),
      (''summary'', JObj (AList.delete persisted_failure_key (ar_summary r)))]"

definition update_status_with_ownership ::
  "(json \<Rightarrow> string) \<Rightarrow> runtime \<Rightarrow> string \<Rightarrow> string \<Rightarrow> string option \<Rightarrow> time \<Rightarrow> runtime \<times> bool py" where
  "update_status_with_ownership text_of rt run_id status latest_error now =
     (case dget (db_agent_runs (rt_db rt)) run_id of
        None \<Rightarrow> (rt, Inr False)
      | Some r \<Rightarrow>
          (if is_goal_backed text_of (run_payload r)
           then (case update_agent_run_status text_of (rt_db rt) run_id status (Given latest_error)
                        Unset False False now of
                   (db, Inl e) \<Rightarrow> (rt\<lparr>rt_db := db\<rparr>, Inl e)
                 | (db, Inr _) \<Rightarrow> (rt\<lparr>rt_db := db\<rparr>, Inr True))
           else
             (case acquire_standalone_lease rt run_id now of
                (rt', Inl e) \<Rightarrow> (rt', Inl e)
              | (rt', Inr None) \<Rightarrow> (rt', Inr False)
              | (rt', Inr (Some epoch)) \<Rightarrow>
                  (case update_status_if_lease_current text_of (rt_db rt') run_id status
                          (rt_owner rt') epoch (Given latest_error) Unset now of
                     (db, x) \<Rightarrow> (rt'\<lparr>rt_db := db\<rparr>, x)))))"

definition release_standalone_lease :: "runtime \<Rightarrow> string \<Rightarrow> runtime" where
  "release_standalone_lease rt run_id =
     (case dget (rt_leases rt) run_id of
        None \<Rightarrow> rt
      | Some epoch \<Rightarrow>
          rt\<lparr>rt_leases := AList.delete run_id (rt_leases rt),
             rt_db := fst (release_agent_run_lease (rt_db rt) run_id (rt_owner rt) epoch)\<rparr>)"

definition startup_snapshot ::
  "(json \<Rightarrow> string) \<Rightarrow> string \<Rightarrow> jdict \<Rightarrow> string list \<Rightarrow> int option \<Rightarrow> string option
     \<Rightarrow> adoption_snapshot" where
  "startup_snapshot text_of run_id run verified lease completion =
     \<lparr>as_run_id = run_id, as_status = lowered text_of (jget run ''status''),
      as_owner_lease = (if lease = None then Unknown_lease else Owned),
      as_worker = worker_identity_state text_of run verified,
      as_checkpoint_revision = 0, as_projection_sequence = 0,
      as_durable_outcome = (if completion = None then None else Some Already_committed)\<rparr>"

definition schedule_adopted :: "runtime \<Rightarrow> string \<Rightarrow> int option \<Rightarrow> nat \<times> nat \<Rightarrow> time \<Rightarrow> runtime" where
  "schedule_adopted rt run_id lease counters now =
     rt\<lparr>rt_db := append_agent_run_event (rt_db rt) run_id
           [(''type'', JStr ''run_adopted''), (''source'', JStr ''startup_reconciler''),
            (''lease_epoch'', (case lease of None \<Rightarrow> JNull | Some n \<Rightarrow> JInt n)),
            (''active_runs'', JInt (int (fst counters))),
            (''detached_execs'', JInt (int (snd counters)))] now,
        rt_jobs := rt_jobs rt @ [run_id]\<rparr>"

text \<open>The body of the loop for one run of the list.\<close>

definition reconcile_run ::
  "(json \<Rightarrow> string) \<Rightarrow> string list \<Rightarrow> nat \<times> nat \<Rightarrow> runtime \<Rightarrow> jdict \<Rightarrow> time \<Rightarrow> runtime \<times> unit py" where
  "reconcile_run text_of verified counters rt run now =
     (let run_id = py_strip (text_or text_of (jget run ''id'') []);
          status = lowered text_of (jget run ''status'')
      in if is_goal_backed text_of run \<or> run_id = [] \<or> status \<notin> set active_statuses
         then (rt, Inr ())
         else
           (case acquire_standalone_lease rt run_id now of
              (rt1, Inl e) \<Rightarrow> (rt1, Inl e)
            | (rt1, Inr lease) \<Rightarrow>
                (let completion = committed_completion_status text_of None
                       (get_agent_run_events (rt_db rt1) run_id);
                     d = classify (startup_snapshot text_of run_id run verified lease completion)
                 in if ad_classification d = Project_completion
                    then (case completion of
                            None \<Rightarrow> (rt1, Inr ())
                          | Some c \<Rightarrow>
                              (case update_status_with_ownership text_of rt1 run_id c
                                      (as_str (jget run ''latest_error'')) now of
                                 (rt2, Inl e) \<Rightarrow> (rt2, Inl e)
                               | (rt2, Inr True) \<Rightarrow> (release_standalone_lease rt2 run_id, Inr ())
                               | (rt2, Inr False) \<Rightarrow> (rt2, Inr ())))
                    else if may_schedule d
                    then (schedule_adopted rt1 run_id lease counters now, Inr ())
                    else (rt1, Inr ()))))"

fun reconcile_runs ::
  "(json \<Rightarrow> string) \<Rightarrow> string list \<Rightarrow> nat \<times> nat \<Rightarrow> runtime \<Rightarrow> (jdict \<times> time) list
     \<Rightarrow> runtime \<times> unit py" where
  "reconcile_runs text_of verified counters rt [] = (rt, Inr ())"
| "reconcile_runs text_of verified counters rt ((run, now) # rest) =
     (case reconcile_run text_of verified counters rt run now of
        (rt', Inl e) \<Rightarrow> (rt', Inl e)
      | (rt', Inr _) \<Rightarrow> reconcile_runs text_of verified counters rt' rest)"

definition reconcile_on_startup ::
  "(json \<Rightarrow> string) \<Rightarrow> string list \<Rightarrow> runtime \<Rightarrow> (jdict \<times> time) list \<Rightarrow> runtime \<times> unit py" where
  "reconcile_on_startup text_of verified rt runs =
     reconcile_runs text_of verified (durable_resource_counters text_of (map fst runs)) rt runs"

end
