(* ===== verification/Run_Properties.thy ===== *)
theory Run_Properties
  imports Run_Adoption
begin

text \<open>
  The properties of agent runs: fencing epochs are granted once and in order, a superseded token is
  dead, a run whose completion is committed is not scheduled again at startup, what an adopted run
  satisfies; and two places where the code falls short of its contract.
\<close>

section \<open>Epochs\<close>

text \<open>The epochs granted for one run along a sequence of operations.\<close>

fun granted_epochs :: "(json \<Rightarrow> string) \<Rightarrow> string \<Rightarrow> run_db \<Rightarrow> run_op list \<Rightarrow> int list" where
  "granted_epochs text_of i db [] = []"
| "granted_epochs text_of i db (op # ops) =
     (case snd (run_step text_of db op) of
        Inr (Granted j e) \<Rightarrow> (if j = i then [e] else [])
      | _ \<Rightarrow> []) @ granted_epochs text_of i (fst (run_step text_of db op)) ops"

lemma granted_above:
  "epochs_ok db \<Longrightarrow>
     sorted_wrt (<) (granted_epochs text_of i db ops) \<and>
     (\<forall>e \<in> set (granted_epochs text_of i db ops). high_water db i < e)"
proof (induction ops arbitrary: db)
  case (Cons op ops)
  obtain db' r where step: "run_step text_of db op = (db', r)" by fastforce
  have eff: "step_effect db db' r" by (rule run_step_effect [OF Cons.prems step])
  note ok = effect_ok [OF Cons.prems eff]
  note IH = Cons.IH [OF ok(1)]
  have now: "high_water db i < e \<and> high_water db' i = e" if "r = Inr (Granted i e)" for e
    using eff that by (auto simp: step_effect_def lease_granted_def high_water_dput [where db = db])
  show ?case
    using IH ok(2) [of i] now step
    by (auto split: sum.split run_reply.split intro: order.strict_trans1)
qed simp

text \<open>C22. The fencing epochs granted for a run strictly increase along any sequence of operations on the
  store, so no two grants, to the same owner or to different ones, share a token.\<close>

theorem epochs_are_granted_once:
  "sorted_wrt (<) (granted_epochs text_of i empty_run_db ops) \<and>
   distinct (granted_epochs text_of i empty_run_db ops)"
  using granted_above [OF epochs_ok_empty] strict_sorted_iff by blast

text \<open>C23. Once a run's lease has been granted anew, after an expiry or a release, no operation that carries
  an earlier epoch of the run ever succeeds again: not a renewal, not a release and not a status
  update of the former owner, and none of them changes anything.\<close>

theorem superseded_token_is_dead:
  assumes "db = run_ops (run_step text_of) empty_run_db before"
    and "run_step text_of db (Op_acquire i owner expires md acq hb now) = (db', Inr (Granted i e'))"
    and "e < e'"
  shows "filter (carries i e) (succeeded_ops (run_step text_of) db' after) = [] \<and>
    (carries i e op \<longrightarrow>
       run_step text_of (run_ops (run_step text_of) db' after) op =
         (run_ops (run_step text_of) db' after, Inl ()))"
proof -
  have ok: "epochs_ok db" unfolding assms(1) by (rule epochs_ok_run [OF epochs_ok_empty])
  have eff: "step_effect db db' (Inr (Granted i e'))" by (rule run_step_effect [OF ok assms(2)])
  have "superseded i e db'"
    using eff effect_ok(1) [OF ok eff] assms(3)
    by (auto simp: step_effect_def superseded_def lease_granted_def dget_dput
        high_water_dput [where db = db])
  then show ?thesis
    using fence.none_when_spent fence.spent_run superseded_refused by blast
qed

definition takeover_history :: "run_op list" where
  "takeover_history = [Op_create ''r'' [] None Unset 0,
     Op_acquire ''r'' ''old'' (Some 100) None None None 1]"

lemma takeover_grants:
  "run_step (\<lambda>_. []) (run_ops (run_step (\<lambda>_. [])) empty_run_db takeover_history)
     (Op_acquire ''r'' ''new'' (Some 300) None None None 200) =
   (fst (run_step (\<lambda>_. []) (run_ops (run_step (\<lambda>_. [])) empty_run_db takeover_history)
     (Op_acquire ''r'' ''new'' (Some 300) None None None 200)), Inr (Granted ''r'' 2))"
  by code_simp

theorem superseded_token_is_dead_witness:
  "filter (carries ''r'' 1) (succeeded_ops (run_step (\<lambda>_. []))
     (fst (run_step (\<lambda>_. []) (run_ops (run_step (\<lambda>_. [])) empty_run_db takeover_history)
       (Op_acquire ''r'' ''new'' (Some 300) None None None 200)))
     [Op_renew ''r'' ''old'' 1 (Some 400) None None 210,
      Op_fenced_update ''r'' ''succeeded'' ''old'' 1 Unset Unset 220]) = []"
  by (rule conjunct1 [OF superseded_token_is_dead [OF refl takeover_grants]]) simp

section \<open>Startup\<close>

lemma insort_key_snoc:
  "f y \<le> f x \<Longrightarrow> insort_key f y (zs @ [x]) = insort_key f y zs @ [x]"
  by (induction zs) auto

lemma sort_key_snoc:
  "\<forall>y \<in> set xs. f y \<le> f x \<Longrightarrow> sort_key f (xs @ [x]) = sort_key f xs @ [x]"
  by (induction xs) (auto simp: insort_key_snoc)

lemma max_seq_fold:
  "e \<in> set es \<or> n \<le> m \<Longrightarrow> fst e = i \<and> snd (snd e) = snd (snd e) \<Longrightarrow>
     (e \<in> set es \<longrightarrow> fst (snd e) \<le> fold (\<lambda>e m. if fst e = i then max m (fst (snd e)) else m) es m) \<and>
     (n \<le> m \<longrightarrow> n \<le> fold (\<lambda>e m. if fst e = i then max m (fst (snd e)) else m) es m)"
  for e :: "string \<times> nat \<times> jdict" and n :: nat
  by (induction es arbitrary: m n) (fastforce simp: max_def)+

lemma max_seq_ge:
  "e \<in> set (db_run_events db) \<Longrightarrow> fst e = i \<Longrightarrow> fst (snd e) \<le> max_seq db i"
  unfolding max_seq_def using max_seq_fold [of e "db_run_events db" 0 0 i] by auto

lemma events_of_put [simp]: "get_agent_run_events (put_run db j r) i = get_agent_run_events db i"
  by (simp add: get_agent_run_events_def put_run_def)

lemma events_append:
  "get_agent_run_events (append_agent_run_event db j ev now) i =
     get_agent_run_events db i @ (if i = j then [ev] else [])"
proof -
  have le: "\<forall>y \<in> set (filter (\<lambda>e. fst e = j) (db_run_events db)). fst (snd y) \<le> fst (snd (j, max_seq db j + 1, ev))"
    using max_seq_ge by fastforce
  have "get_agent_run_events
      (db\<lparr>db_run_events := db_run_events db @ [(j, max_seq db j + 1, ev)]\<rparr>) i =
    get_agent_run_events db i @ (if i = j then [ev] else [])"
    using sort_key_snoc [where f = "\<lambda>e. fst (snd e)", OF le]
    by (auto simp: get_agent_run_events_def)
  then show ?thesis
    by (cases "i = j") (simp_all add: append_agent_run_event_def Let_def split: option.split)
qed

lemma events_eq: "db_run_events db' = db_run_events db \<Longrightarrow>
    get_agent_run_events db' i = get_agent_run_events db i"
  by (simp add: get_agent_run_events_def)

lemma acquire_tx_events:
  "acquire_lease_tx db i owner ex md ac hb now = (db', r) \<Longrightarrow> db_run_events db' = db_run_events db"
  by (auto simp: acquire_lease_tx_def grant_lease_def extend_lease_def Let_def
      split: if_splits option.splits)

lemma acquire_events:
  "acquire_agent_run_lease db i owner ex md ac hb now = (db', r) \<Longrightarrow>
     db_run_events db' = db_run_events db"
  by (auto simp: acquire_agent_run_lease_def bindE_eq_Inr dest: acquire_tx_events
      split: sum.splits prod.splits)

lemma renew_events:
  "renew_agent_run_lease db i owner e ex md hb now = (db', r) \<Longrightarrow>
     db_run_events db' = db_run_events db"
  by (auto simp: renew_agent_run_lease_def extend_lease_def Let_def map_prod_def
      split: sum.splits option.splits if_splits)

lemma release_events:
  "db_run_events (fst (release_agent_run_lease db i owner e)) = db_run_events db"
  by (auto simp: release_agent_run_lease_def split: sum.splits option.splits)

lemma update_events:
  "update_agent_run_status text_of db i st err f rs rf now = (db', r) \<Longrightarrow>
     db_run_events db' = db_run_events db"
  by (auto simp: update_agent_run_status_def put_run_def split: option.splits sum.splits)

lemma fenced_events:
  "update_status_if_lease_current text_of db i st owner e err f now = (db', r) \<Longrightarrow>
     db_run_events db' = db_run_events db"
  by (auto simp: update_status_if_lease_current_def put_run_def
      split: option.splits sum.splits if_splits)

text \<open>Acquiring a lease leaves events and jobs alone; when it yields an epoch, the row carries it.\<close>

definition holds_row :: "runtime \<Rightarrow> string \<Rightarrow> int \<Rightarrow> time \<Rightarrow> bool" where
  "holds_row rt i e now \<longleftrightarrow>
     (\<exists>l. dget (db_leases (rt_db rt)) i = Some l \<and> holds_token l (rt_owner rt) e \<and>
        rl_expires_at l = now + rt_ttl rt)"

definition same_work :: "runtime \<Rightarrow> runtime \<Rightarrow> bool" where
  "same_work rt rt' \<longleftrightarrow> db_run_events (rt_db rt') = db_run_events (rt_db rt) \<and>
     rt_jobs rt' = rt_jobs rt \<and> rt_owner rt' = rt_owner rt \<and> rt_ttl rt' = rt_ttl rt"

lemma grant_row:
  "acquire_agent_run_lease db i owner (Some ex) md ac hb now = (db', Inr (st, Some l)) \<Longrightarrow>
   st \<in> {Lease_acquired, Lease_renewed, Lease_taken_over} \<Longrightarrow>
     dget (db_leases db') i = Some l \<and> rl_owner l = owner \<and> rl_expires_at l = ex"
  by (auto simp: acquire_agent_run_lease_def acquire_lease_tx_def grant_lease_def extend_lease_def
      require_timestamp_def bindE_eq_Inr Let_def split: sum.splits prod.splits option.splits if_splits)

lemma renew_row:
  "renew_agent_run_lease db i owner e (Some ex) md hb now = (db', Inr (Lease_renewed, l)) \<Longrightarrow>
     \<exists>l. dget (db_leases db') i = Some l \<and> holds_token l owner e \<and> rl_expires_at l = ex"
  by (auto simp: renew_agent_run_lease_def extend_lease_def holds_token_def require_timestamp_def
      bindE_eq_Inr Let_def map_prod_def split: sum.splits prod.splits option.splits if_splits)

lemma acquire_fresh_row:
  assumes "acquire_fresh_lease rt i now = (rt', r)"
  shows "same_work rt rt'" and "r = Inr (Some e) \<Longrightarrow> holds_row rt' i e now"
  using assms
  by (auto simp: acquire_fresh_lease_def same_work_def holds_row_def holds_token_def
      dest: acquire_events grant_row split: prod.splits sum.splits option.splits if_splits)

lemma acquire_standalone_row:
  assumes "acquire_standalone_lease rt i now = (rt', r)"
  shows "same_work rt rt'" and "r = Inr (Some e) \<Longrightarrow> holds_row rt' i e now"
proof -
  have "same_work rt rt' \<and> (r = Inr (Some e) \<longrightarrow> holds_row rt' i e now)"
  proof (cases "dget (rt_leases rt) i")
    case None
    with assms have "acquire_fresh_lease rt i now = (rt', r)"
      by (simp add: acquire_standalone_lease_def)
    from acquire_fresh_row [OF this] show ?thesis by simp
  next
    case (Some epoch)
    obtain db x where renew: "renew_agent_run_lease (rt_db rt) i (rt_owner rt) epoch
        (Some (now + rt_ttl rt)) None None now = (db, x)" by fastforce
    note ev = renew_events [OF renew]
    show ?thesis
    proof (cases "\<exists>st l. x = Inr (st, l) \<and> st \<noteq> Lease_renewed")
      case True
      then have "acquire_fresh_lease (rt\<lparr>rt_db := db,
          rt_leases := AList.delete i (rt_leases rt)\<rparr>) i now = (rt', r)"
        using assms Some renew by (auto simp: acquire_standalone_lease_def)
      from acquire_fresh_row [OF this] ev show ?thesis by (auto simp: same_work_def)
    next
      case False
      then show ?thesis
        using assms Some renew ev renew_row
        by (fastforce simp: acquire_standalone_lease_def same_work_def holds_row_def
            split: sum.splits prod.splits)
    qed
  qed
  then show "same_work rt rt'" and "r = Inr (Some e) \<Longrightarrow> holds_row rt' i e now" by simp_all
qed

lemma ownership_update_work:
  assumes "update_status_with_ownership text_of rt i st err now = (rt', r)"
  shows "same_work rt rt'"
proof -
  obtain rt1 x where acq: "acquire_standalone_lease rt i now = (rt1, x)" by fastforce
  note work = acquire_standalone_row(1) [OF acq]
  show ?thesis
    using assms acq work
    by (auto simp: update_status_with_ownership_def same_work_def
        dest!: update_events fenced_events
        split: option.splits if_splits prod.splits sum.splits)
qed

lemma release_work: "same_work rt (release_standalone_lease rt i)"
  by (simp add: release_standalone_lease_def same_work_def release_events split: option.split)

lemma same_work_trans: "same_work a b \<Longrightarrow> same_work b c \<Longrightarrow> same_work a c"
  by (simp add: same_work_def)

text \<open>The only two ends of the loop body: no new work, or one adopted run.\<close>

definition run_id_of :: "(json \<Rightarrow> string) \<Rightarrow> jdict \<Rightarrow> string" where
  "run_id_of text_of run = py_strip (text_or text_of (jget run ''id'') [])"

definition adopts :: "(json \<Rightarrow> string) \<Rightarrow> string list \<Rightarrow> runtime \<Rightarrow> jdict \<Rightarrow> bool" where
  "adopts text_of verified rt run \<longleftrightarrow>
     \<not> is_goal_backed text_of run \<and> lowered text_of (jget run ''status'') \<in> set active_statuses \<and>
     worker_identity_state text_of run verified = Verified \<and>
     committed_completion_status text_of None
       (get_agent_run_events (rt_db rt) (run_id_of text_of run)) = None"

lemma reconcile_run_cases:
  assumes "reconcile_run text_of verified counters rt run now = (rt', r)"
  shows "same_work rt rt' \<or>
    (\<exists>rt1 e. acquire_standalone_lease rt (run_id_of text_of run) now = (rt1, Inr (Some e)) \<and>
       adopts text_of verified rt run \<and>
       rt' = schedule_adopted rt1 (run_id_of text_of run) (Some e) counters now)"
proof -
  let ?i = "run_id_of text_of run"
  obtain rt1 x where acq: "acquire_standalone_lease rt ?i now = (rt1, x)" by fastforce
  note work = acquire_standalone_row(1) [OF acq]
  have ev: "get_agent_run_events (rt_db rt1) ?i = get_agent_run_events (rt_db rt) ?i"
    using work by (intro events_eq) (simp add: same_work_def)
  show ?thesis
  proof (cases x)
    case (Inl e)
    with assms acq work show ?thesis
      by (auto simp: reconcile_run_def run_id_of_def Let_def same_work_def split: if_splits)
  next
    case (Inr lease)
    let ?c = "committed_completion_status text_of None (get_agent_run_events (rt_db rt) ?i)"
    let ?d = "classify (startup_snapshot text_of ?i run verified lease ?c)"
    consider (skip) "rt' = rt" | (project) c rt2 y where
        "update_status_with_ownership text_of rt1 ?i c (as_str (jget run ''latest_error'')) now =
           (rt2, y)" "rt' = rt2 \<or> rt' = release_standalone_lease rt2 ?i"
      | (adopt) "\<not> is_goal_backed text_of run"
          "lowered text_of (jget run ''status'') \<in> set active_statuses"
          "may_schedule ?d" "rt' = schedule_adopted rt1 ?i lease counters now"
      | (rest) "rt' = rt1"
      using assms acq Inr ev
      by (auto simp: reconcile_run_def run_id_of_def Let_def
          split: if_splits option.splits prod.splits sum.splits bool.splits)
    then show ?thesis
    proof cases
      case project
      from ownership_update_work [OF project(1)] project(2) work show ?thesis
        using release_work same_work_trans by blast
    next
      case adopt
      then have "?c = None" and "lease \<noteq> None" and "worker_identity_state text_of run verified = Verified"
        by (auto simp: may_schedule_def classify_def startup_snapshot_def make_adoption_decision_def Let_def
            split: if_splits)
      with adopt acq Inr show ?thesis by (auto simp: adopts_def)
    qed (use work in \<open>simp_all add: same_work_def\<close>)
  qed
qed

text \<open>C25. A run the startup reconciler schedules is a standalone run in an active status, whose detached
  workers are all verified and whose stored events hold no committed completion; and when it is
  scheduled this runtime holds the lease of the run, under the current epoch and for a whole lease
  period. Every other run leaves the job list as it was.\<close>

theorem adopted_runs_are_owned_and_verified:
  assumes "reconcile_run text_of verified counters rt run now = (rt', r)"
    and "rt_jobs rt' \<noteq> rt_jobs rt"
  shows "rt_jobs rt' = rt_jobs rt @ [run_id_of text_of run] \<and>
    \<not> is_goal_backed text_of run \<and>
    lowered text_of (jget run ''status'') \<in> set active_statuses \<and>
    worker_identity_state text_of run verified = Verified \<and>
    committed_completion_status text_of None
      (get_agent_run_events (rt_db rt) (run_id_of text_of run)) = None \<and>
    (\<exists>e l. dget (db_leases (rt_db rt')) (run_id_of text_of run) = Some l \<and>
       holds_token l (rt_owner rt) e \<and> rl_expires_at l = now + rt_ttl rt)"
proof -
  from reconcile_run_cases [OF assms(1)] assms(2) obtain rt1 e where
    acq: "acquire_standalone_lease rt (run_id_of text_of run) now = (rt1, Inr (Some e))"
    and ad: "adopts text_of verified rt run"
    and rt': "rt' = schedule_adopted rt1 (run_id_of text_of run) (Some e) counters now"
    by (auto simp: same_work_def)
  note row = acquire_standalone_row [OF acq]
  have "db_leases (rt_db rt') = db_leases (rt_db rt1)"
    by (simp add: rt' schedule_adopted_def append_agent_run_event_def Let_def split: option.split)
  with row ad show ?thesis
    by (auto simp: rt' schedule_adopted_def adopts_def holds_row_def same_work_def)
qed

lemma reconcile_run_spares:
  assumes "reconcile_run text_of verified counters rt run now = (rt', r)"
    and c: "committed_completion_status text_of None (get_agent_run_events (rt_db rt) i) \<noteq> None"
  shows "count_list (rt_jobs rt') i = count_list (rt_jobs rt) i \<and>
    get_agent_run_events (rt_db rt') i = get_agent_run_events (rt_db rt) i"
  using reconcile_run_cases [OF assms(1)]
proof
  assume "same_work rt rt'"
  then show ?thesis by (simp add: same_work_def get_agent_run_events_def)
next
  assume "\<exists>rt1 e. acquire_standalone_lease rt (run_id_of text_of run) now = (rt1, Inr (Some e)) \<and>
       adopts text_of verified rt run \<and>
       rt' = schedule_adopted rt1 (run_id_of text_of run) (Some e) counters now"
  then obtain rt1 e where
    acq: "acquire_standalone_lease rt (run_id_of text_of run) now = (rt1, Inr (Some e))"
    and ad: "adopts text_of verified rt run"
    and rt': "rt' = schedule_adopted rt1 (run_id_of text_of run) (Some e) counters now"
    by blast
  have "run_id_of text_of run \<noteq> i" using ad c by (auto simp: adopts_def)
  then show ?thesis
    using acquire_standalone_row(1) [OF acq] events_eq [of "rt_db rt1" "rt_db rt" i]
    by (simp add: rt' schedule_adopted_def same_work_def events_append)
qed

lemma reconcile_runs_spare:
  "reconcile_runs text_of verified counters rt runs = (rt', r) \<Longrightarrow>
   committed_completion_status text_of None (get_agent_run_events (rt_db rt) i) \<noteq> None \<Longrightarrow>
     count_list (rt_jobs rt') i = count_list (rt_jobs rt) i"
proof (induction runs arbitrary: rt)
  case (Cons x xs)
  obtain run now where x: "x = (run, now)" by fastforce
  obtain rt1 y where step: "reconcile_run text_of verified counters rt run now = (rt1, y)" by fastforce
  note spare = reconcile_run_spares [OF step Cons.prems(2)]
  show ?case
    using Cons.prems(1) Cons.IH [of rt1] spare Cons.prems(2) x step by (cases y) auto
qed simp

text \<open>What happens to the row of a run: leases leave it alone, a status update gives it the status.\<close>

definition set_to :: "string \<Rightarrow> agent_run option \<Rightarrow> agent_run option \<Rightarrow> bool" where
  "set_to c ro ro' \<longleftrightarrow>
     (\<exists>r r'. ro = Some r \<and> ro' = Some r' \<and> ar_status r' = c \<and>
        (c \<in> set terminal_for_finish \<longrightarrow> ar_finished_at r' \<noteq> None))"

definition only_projected :: "string \<Rightarrow> agent_run option \<Rightarrow> agent_run option \<Rightarrow> bool" where
  "only_projected c ro ro' \<longleftrightarrow> ro' = ro \<or> set_to c ro ro'"

lemma only_projected_refl [simp]: "only_projected c ro ro"
  by (simp add: only_projected_def)

lemma only_projected_trans:
  "only_projected c a b \<Longrightarrow> only_projected c b d \<Longrightarrow> only_projected c a d"
  by (auto simp: only_projected_def set_to_def)

definition run_row :: "runtime \<Rightarrow> string \<Rightarrow> agent_run option" where
  "run_row rt i = dget (db_agent_runs (rt_db rt)) i"

lemma acquire_runs:
  "acquire_agent_run_lease db i owner ex md ac hb now = (db', r) \<Longrightarrow>
     db_agent_runs db' = db_agent_runs db"
  by (auto simp: acquire_agent_run_lease_def acquire_lease_tx_def grant_lease_def extend_lease_def
      bindE_eq_Inr Let_def split: sum.splits prod.splits if_splits option.splits)

lemma renew_runs:
  "renew_agent_run_lease db i owner e ex md hb now = (db', r) \<Longrightarrow>
     db_agent_runs db' = db_agent_runs db"
  by (auto simp: renew_agent_run_lease_def extend_lease_def Let_def map_prod_def
      split: sum.splits option.splits if_splits)

lemma acquire_standalone_runs:
  "acquire_standalone_lease rt i now = (rt', r) \<Longrightarrow> db_agent_runs (rt_db rt') = db_agent_runs (rt_db rt)"
  by (auto simp: acquire_standalone_lease_def acquire_fresh_lease_def
      dest!: acquire_runs renew_runs split: option.splits prod.splits sum.splits if_splits)

lemma release_row [simp]: "run_row (release_standalone_lease rt j) i = run_row rt i"
  by (simp add: run_row_def release_standalone_lease_def release_agent_run_lease_def
      split: option.split sum.split)

lemma update_row:
  "update_agent_run_status text_of db j st err f rs rf now = (db', r) \<Longrightarrow>
     dget (db_agent_runs db') i = dget (db_agent_runs db) i \<or>
     i = j \<and> set_to st (dget (db_agent_runs db) i) (dget (db_agent_runs db') i)"
  by (cases "i = j") (auto simp: update_agent_run_status_def put_run_def set_to_def dget_dput
      split: option.splits sum.splits)

lemma fenced_row:
  "update_status_if_lease_current text_of db j st owner e err f now = (db', r) \<Longrightarrow>
     dget (db_agent_runs db') i = dget (db_agent_runs db) i \<or>
     i = j \<and> set_to st (dget (db_agent_runs db) i) (dget (db_agent_runs db') i)"
  by (cases "i = j") (auto simp: update_status_if_lease_current_def put_run_def set_to_def dget_dput
      split: option.splits sum.splits if_splits)

lemma ownership_row:
  assumes "update_status_with_ownership text_of rt j st err now = (rt', r)"
  shows "run_row rt' i = run_row rt i \<or> i = j \<and> set_to st (run_row rt i) (run_row rt' i)"
proof -
  obtain rt1 x where acq: "acquire_standalone_lease rt j now = (rt1, x)" by fastforce
  show ?thesis
    using assms acq acquire_standalone_runs [OF acq]
    by (auto simp: update_status_with_ownership_def run_row_def
        dest!: update_row [where i = i] fenced_row [where i = i]
        split: option.splits if_splits prod.splits sum.splits)
qed

lemma reconcile_run_row:
  assumes "reconcile_run text_of verified counters rt run now = (rt', r)"
    and c: "committed_completion_status text_of None (get_agent_run_events (rt_db rt) i) = Some c"
  shows "only_projected c (run_row rt i) (run_row rt' i)"
proof -
  let ?j = "run_id_of text_of run"
  obtain rt1 x where acq: "acquire_standalone_lease rt ?j now = (rt1, x)" by fastforce
  have row: "run_row rt1 i = run_row rt i"
    using acquire_standalone_runs [OF acq] by (simp add: run_row_def)
  have ev: "get_agent_run_events (rt_db rt1) k = get_agent_run_events (rt_db rt) k" for k
    using acquire_standalone_row(1) [OF acq] by (intro events_eq) (simp add: same_work_def)
  let ?c = "committed_completion_status text_of None (get_agent_run_events (rt_db rt) ?j)"
  consider "rt' = rt" | "rt' = rt1"
    | (project) d rt2 y where "?c = Some d"
        "update_status_with_ownership text_of rt1 ?j d (as_str (jget run ''latest_error'')) now = (rt2, y)"
        "rt' = rt2 \<or> rt' = release_standalone_lease rt2 ?j"
    | (adopt) lease where "?c = None" "rt' = schedule_adopted rt1 ?j lease counters now"
    using assms(1) acq ev
    by (auto simp: reconcile_run_def run_id_of_def Let_def may_schedule_def classify_def
        startup_snapshot_def make_adoption_decision_def
        split: if_splits option.splits prod.splits sum.splits bool.splits)
  then show ?thesis
  proof cases
    case project
    then have "run_row rt' i = run_row rt2 i" by auto
    with ownership_row [OF project(2), of i] project(1) c row show ?thesis
      by (auto simp: only_projected_def)
  next
    case adopt
    then have "?j \<noteq> i" using c by auto
    then have "run_row rt' i = run_row rt1 i"
      using adopt(2) by (auto simp: schedule_adopted_def run_row_def append_agent_run_event_def Let_def
          put_run_def dget_dput split: option.split)
    with row show ?thesis by simp
  qed (simp_all add: row)
qed

lemma reconcile_runs_row:
  "reconcile_runs text_of verified counters rt runs = (rt', r) \<Longrightarrow>
   committed_completion_status text_of None (get_agent_run_events (rt_db rt) i) = Some c \<Longrightarrow>
     only_projected c (run_row rt i) (run_row rt' i)
       \<and> get_agent_run_events (rt_db rt') i = get_agent_run_events (rt_db rt) i"
proof (induction runs arbitrary: rt)
  case (Cons x xs)
  obtain run now where x: "x = (run, now)" by fastforce
  obtain rt1 y where step: "reconcile_run text_of verified counters rt run now = (rt1, y)" by fastforce
  have ev: "get_agent_run_events (rt_db rt1) i = get_agent_run_events (rt_db rt) i"
    using reconcile_run_spares [OF step] Cons.prems(2) by simp
  note row = reconcile_run_row [OF step Cons.prems(2)]
  show ?case
  proof (cases y)
    case (Inl e)
    then show ?thesis using Cons.prems(1) x step row ev by simp
  next
    case (Inr u)
    then have "reconcile_runs text_of verified counters rt1 xs = (rt', r)"
      using Cons.prems(1) x step by simp
    from Cons.IH [OF this] Cons.prems(2) ev only_projected_trans [OF row] show ?thesis by simp
  qed
qed simp

text \<open>A run at the head of the list is projected when its lease can be had.\<close>

definition projectable :: "(json \<Rightarrow> string) \<Rightarrow> runtime \<Rightarrow> string \<Rightarrow> (jdict \<times> time) list \<Rightarrow> bool" where
  "projectable text_of rt i runs =
     (case runs of
        [] \<Rightarrow> False
      | (run, now) # _ \<Rightarrow>
          run_id_of text_of run = i \<and> \<not> is_goal_backed text_of run
          \<and> lowered text_of (jget run ''status'') \<in> set active_statuses
          \<and> run_row rt i \<noteq> None \<and> 0 < rt_ttl rt
          \<and> (case acquire_standalone_lease rt i now of (_, Inr (Some _)) \<Rightarrow> True | _ \<Rightarrow> False))"

lemma acquire_fresh_held:
  "acquire_fresh_lease rt i now = (rt', Inr (Some e)) \<Longrightarrow> dget (rt_leases rt') i = Some e"
  by (auto simp: acquire_fresh_lease_def dget_dput split: prod.splits sum.splits option.splits if_splits)

lemma acquire_standalone_held:
  "acquire_standalone_lease rt i now = (rt', Inr (Some e)) \<Longrightarrow> dget (rt_leases rt') i = Some e"
  by (auto simp: acquire_standalone_lease_def dest: acquire_fresh_held
      split: option.splits prod.splits sum.splits if_splits)

lemma unnamed: "require_lease_identifier name [] = Inl (ValueError (name @ '' must be a non-empty string''))"
proof -
  have "py_strip [] = []" by code_simp
  then show ?thesis by (simp add: require_lease_identifier_def)
qed

lemma acquire_standalone_named:
  assumes "acquire_standalone_lease rt i now = (rt', Inr (Some e))"
  shows "i \<noteq> []"
proof
  assume "i = []"
  moreover have "acquire_fresh_lease x [] now \<noteq> (rt', Inr (Some e))" for x
    by (simp add: acquire_fresh_lease_def acquire_agent_run_lease_def unnamed)
  ultimately show False
    using assms
    by (simp add: acquire_standalone_lease_def renew_agent_run_lease_def check_token_def unnamed
        split: option.splits)
qed

text \<open>With the lease just acquired, the update renews it and writes the status.\<close>

lemma ownership_writes:
  assumes upd: "update_status_with_ownership text_of rt i st err now = (rt', Inr b)"
    and lease: "dget (rt_leases rt) i = Some e" and row: "holds_row rt i e now" and ttl: "0 < rt_ttl rt"
    and stored: "run_row rt i \<noteq> None"
  shows "b \<and> set_to st (run_row rt i) (run_row rt' i)"
proof -
  obtain r where r: "dget (db_agent_runs (rt_db rt)) i = Some r"
    using stored by (auto simp: run_row_def)
  show ?thesis
  proof (cases "is_goal_backed text_of (run_payload r)")
    case True
    then show ?thesis
      using upd r by (auto simp: update_status_with_ownership_def update_agent_run_status_def run_row_def
          set_to_def put_run_def dget_dput split: sum.splits)
  next
    case False
    obtain l where l: "dget (db_leases (rt_db rt)) i = Some l" "holds_token l (rt_owner rt) e"
      "rl_expires_at l = now + rt_ttl rt"
      using row by (auto simp: holds_row_def)
    then have live: "\<not> lease_stale l now" using ttl by (simp add: lease_stale_def)
    obtain rt1 x where acq: "acquire_standalone_lease rt i now = (rt1, x)" by fastforce
    have x: "x = Inr (Some e) \<and> rt_owner rt1 = rt_owner rt \<or> (\<exists>y. x = Inl y)"
      using acq l live lease
      by (auto simp: acquire_standalone_lease_def renew_agent_run_lease_def extend_lease_def Let_def
          require_timestamp_def timestamp_or_now_def split: sum.splits prod.splits)
    with upd acq r False have x': "x = Inr (Some e)" and "rt_owner rt1 = rt_owner rt"
      by (auto simp: update_status_with_ownership_def)
    from acquire_standalone_row(2) [OF acq x'] acquire_standalone_row(1) [OF acq] obtain l' where
      l': "dget (db_leases (rt_db rt1)) i = Some l'" "holds_token l' (rt_owner rt1) e"
        "\<not> lease_stale l' now"
      using ttl by (auto simp: holds_row_def same_work_def lease_stale_def)
    have "dget (db_agent_runs (rt_db rt1)) i = Some r"
      using r acquire_standalone_runs [OF acq] by simp
    then show ?thesis
      using upd acq r False x' l'
      by (auto simp: update_status_with_ownership_def update_status_if_lease_current_def run_row_def
          set_to_def put_run_def dget_dput split: sum.splits prod.splits)
  qed
qed

lemma reconcile_run_projects:
  assumes step: "reconcile_run text_of verified counters rt run now = (rt', Inr ())"
    and c: "committed_completion_status text_of None (get_agent_run_events (rt_db rt) i) = Some c"
    and p: "projectable text_of rt i ((run, now) # rest)"
  shows "set_to c (run_row rt i) (run_row rt' i)"
proof -
  obtain rt1 e where acq: "acquire_standalone_lease rt i now = (rt1, Inr (Some e))"
    and run: "run_id_of text_of run = i" "\<not> is_goal_backed text_of run"
      "lowered text_of (jget run ''status'') \<in> set active_statuses"
    and stored: "run_row rt i \<noteq> None" and ttl: "0 < rt_ttl rt"
    using p by (auto simp: projectable_def split: prod.splits sum.splits option.splits)
  note work = acquire_standalone_row [OF acq]
  have ev: "get_agent_run_events (rt_db rt1) i = get_agent_run_events (rt_db rt) i"
    using work(1) by (intro events_eq) (simp add: same_work_def)
  have row: "run_row rt1 i = run_row rt i"
    using acquire_standalone_runs [OF acq] by (simp add: run_row_def)
  have i: "i \<noteq> []" using acquire_standalone_named [OF acq] .
  obtain rt2 y where upd: "update_status_with_ownership text_of rt1 i c
      (as_str (jget run ''latest_error'')) now = (rt2, y)" by fastforce
  have "y \<noteq> Inl z" and row': "run_row rt' i = run_row rt2 i" for z
    using step acq run i ev c upd
    by (auto simp: reconcile_run_def run_id_of_def Let_def classify_def startup_snapshot_def
        make_adoption_decision_def split: sum.splits bool.splits)
  then obtain b where "y = Inr b" by (cases y) auto
  from ownership_writes [OF upd [unfolded this] acquire_standalone_held [OF acq] work(2) [OF refl]]
  show ?thesis
    using ttl stored row row' work(1) by (simp add: same_work_def)
qed

lemma reconcile_runs_project:
  assumes "reconcile_runs text_of verified counters rt runs = (rt', Inr ())"
    and c: "committed_completion_status text_of None (get_agent_run_events (rt_db rt) i) = Some c"
    and p: "projectable text_of rt i runs"
  shows "set_to c (run_row rt i) (run_row rt' i)"
proof -
  obtain run now rest where runs: "runs = (run, now) # rest"
    using p by (auto simp: projectable_def split: list.splits)
  obtain rt1 where step: "reconcile_run text_of verified counters rt run now = (rt1, Inr ())"
    and rest: "reconcile_runs text_of verified counters rt1 rest = (rt', Inr ())"
    using assms(1) runs by (auto split: prod.splits sum.splits)
  have "committed_completion_status text_of None (get_agent_run_events (rt_db rt1) i) = Some c"
    using reconcile_run_spares [OF step] c by simp
  from reconcile_runs_row [OF rest this] reconcile_run_projects [OF step c p [unfolded runs]]
  show ?thesis by (auto simp: only_projected_def set_to_def)
qed

text \<open>C24. A run whose event log holds a committed completion is never scheduled by the startup
  reconciler, whatever its stored status, its lease and the number of times it is listed, and its
  events stay as they are: its row is left alone or gets the status of the committed completion,
  together with a finishing time. It does get that status when it comes first in the list as an active
  standalone run, the runtime (with a positive lease period) can have its lease and no step raises. A
  run that is left alone may keep the lease the reconciler took.\<close>

theorem committed_run_is_not_rescheduled:
  assumes "committed_completion_status text_of None (get_agent_run_events (rt_db rt) i) = Some c"
    and "reconcile_on_startup text_of verified rt runs = (rt', r)"
  shows "count_list (rt_jobs rt') i = count_list (rt_jobs rt) i
    \<and> get_agent_run_events (rt_db rt') i = get_agent_run_events (rt_db rt) i
    \<and> only_projected c (run_row rt i) (run_row rt' i)
    \<and> (projectable text_of rt i runs \<and> r = Inr () \<longrightarrow> set_to c (run_row rt i) (run_row rt' i))"
proof -
  note run = assms(2) [unfolded reconcile_on_startup_def]
  have "count_list (rt_jobs rt') i = count_list (rt_jobs rt) i"
    using reconcile_runs_spare [OF run] assms(1) by simp
  moreover have "set_to c (run_row rt i) (run_row rt' i)" if "projectable text_of rt i runs" and "r = Inr ()"
    using reconcile_runs_project [OF run [unfolded that(2)] assms(1) that(1)] .
  ultimately show ?thesis
    using reconcile_runs_row [OF run assms(1)] by blast
qed

definition restarted :: "jdict list \<Rightarrow> runtime" where
  "restarted events =
     \<lparr>rt_db = foldl (\<lambda>db ev. append_agent_run_event db ''r'' ev 4)
        (run_ops (run_step (\<lambda>_. [])) empty_run_db
          [Op_create ''r'' [] None Unset 0, Op_acquire ''r'' ''old'' (Some 5) None None None 1,
           Op_update ''r'' ''running'' Unset Unset False False 2]) events,
      rt_owner = ''new'', rt_ttl = 30, rt_leases = [], rt_jobs = []\<rparr>"

definition running_run :: jdict where
  "running_run = [(''id'', JStr ''r''), (''status'', JStr ''running'')]"

definition committed_event :: jdict where
  "committed_event = [(''type'', JStr ''run_completion_committed''),
     (''durable_outcome'', JStr ''committed''), (''completion_status'', JStr ''succeeded'')]"

definition text_of_sample :: "json \<Rightarrow> string" where
  "text_of_sample j = (case j of JStr s \<Rightarrow> s | _ \<Rightarrow> [])"

lemma restart_adopts:
  "reconcile_run text_of_sample [] (0, 0) (restarted []) running_run 10 =
     (fst (reconcile_run text_of_sample [] (0, 0) (restarted []) running_run 10), Inr ())"
  "rt_jobs (fst (reconcile_run text_of_sample [] (0, 0) (restarted []) running_run 10)) \<noteq>
     rt_jobs (restarted [])"
  by code_simp+

theorem adopted_runs_are_owned_and_verified_witness:
  "\<exists>e l. dget (db_leases (rt_db (fst (reconcile_run text_of_sample [] (0, 0) (restarted [])
       running_run 10)))) (run_id_of text_of_sample running_run) = Some l \<and>
     holds_token l ''new'' e \<and> rl_expires_at l = 40"
  using adopted_runs_are_owned_and_verified [OF restart_adopts] by (simp add: restarted_def)

lemma restart_projects:
  "committed_completion_status text_of_sample None
     (get_agent_run_events (rt_db (restarted [committed_event])) ''r'') = Some ''succeeded''"
  "reconcile_on_startup text_of_sample [] (restarted [committed_event]) [(running_run, 10)] =
     (fst (reconcile_on_startup text_of_sample [] (restarted [committed_event]) [(running_run, 10)]),
      Inr ())"
  "projectable text_of_sample (restarted [committed_event]) ''r'' [(running_run, 10)]"
  by code_simp+

theorem committed_run_is_not_rescheduled_witness:
  "count_list (rt_jobs (fst (reconcile_on_startup text_of_sample [] (restarted [committed_event])
     [(running_run, 10)]))) ''r'' = 0 \<and>
   set_to ''succeeded'' (run_row (restarted [committed_event]) ''r'')
     (run_row (fst (reconcile_on_startup text_of_sample [] (restarted [committed_event])
        [(running_run, 10)])) ''r'')"
  using committed_run_is_not_rescheduled [OF restart_projects(1,2)] restart_projects(3)
  by (simp add: restarted_def)

section \<open>Where the code falls short of its contract\<close>

text \<open>The classifier adopts, that is reruns, an active run whose durable outcome says that its effect
  is committed: only the outcome of a second commit attempt is projected. Its comment promises that
  a committed effect is projected or escalated instead of rerun.\<close>

theorem classifier_reruns_committed_effect:
  "\<exists>s. check_snapshot s = Inr () \<and> as_durable_outcome s = Some Outcome_committed \<and>
     may_schedule (classify s) \<and>
     ad_classification (classify (s\<lparr>as_durable_outcome := Some Already_committed\<rparr>)) =
       Project_completion"
proof -
  let ?s = "\<lparr>as_run_id = ''r'', as_status = ''running'', as_owner_lease = Owned,
     as_worker = Verified, as_checkpoint_revision = 1, as_projection_sequence = 0,
     as_durable_outcome = Some Outcome_committed\<rparr>"
  have "check_snapshot ?s = Inr ()" and "may_schedule (classify ?s)" and
    "ad_classification (classify (?s\<lparr>as_durable_outcome := Some Already_committed\<rparr>)) =
       Project_completion"
    by code_simp+
  then show ?thesis by (intro exI [of _ ?s]) simp
qed

lemma resume_runtime_with [simp]: "resume_runtime_of (with_resume_runtime s l) = l"
  by (simp add: resume_runtime_of_def with_resume_runtime_def jget_def dget_dput obj_or_empty_def)

text \<open>A resume call that saw the row before another connection wrote it.\<close>

lemma resume_writes:
  assumes "dget (db_agent_runs db) i = Some r" and "resume_decision text_of r expected = Resume_acquired"
    and "dget (db_agent_runs (between db)) i = Some r'"
  shows "snd (acquire_resume_lease text_of between db i expected lease now) = Resume_acquired"
    and "\<exists>r2. dget (db_agent_runs (fst (acquire_resume_lease text_of between db i expected lease now))) i
      = Some r2 \<and> ar_status r2 = ''running'' \<and> ar_summary r2 = with_resume_runtime (ar_summary r) lease"
  using assms by (simp_all add: acquire_resume_lease_def Let_def put_run_def dget_dput)

lemma resume_conflict:
  assumes "dget (db_agent_runs db) i = Some r" and "lease_id_set (resume_runtime_of (ar_summary r))"
    and "py_lower (py_strip (text_or text_of (jget (resume_runtime_of (ar_summary r)) ''status'') [])) = ''active''"
  shows "fst (acquire_resume_lease text_of between db i expected lease now) = db
    \<and> snd (acquire_resume_lease text_of between db i expected lease now) \<noteq> Resume_acquired"
proof -
  have "resume_decision text_of r expected \<noteq> Resume_acquired"
    using assms(2,3) by (simp add: resume_decision_def Let_def)
  then show ?thesis
    using assms(1) by (cases "resume_decision text_of r expected") (simp_all add: acquire_resume_lease_def)
qed

text \<open>C26. Two operators that resume the same run at the same time both receive its resume lease when one
  of them reads the row before the other has written it: for every stored run that can be resumed,
  every two leases and times, both calls answer acquired. The call that writes last overwrites the
  lease the other one was given: the stored summary is the one it would have written alone. When the
  leases are active ones a call that starts after either of them is refused, so the lease is meant to
  exclude the second operator.\<close>

theorem resume_lease_granted_twice:
  assumes "dget (db_agent_runs db) i = Some r"
    and "resume_decision text_of r expected1 = Resume_acquired"
    and "resume_decision text_of r expected2 = Resume_acquired"
    and "one = acquire_resume_lease text_of (\<lambda>d. fst (acquire_resume_lease text_of id d i expected2 lease2 now2))
           db i expected1 lease1 now1"
    and "two = acquire_resume_lease text_of id db i expected2 lease2 now2"
  shows "snd two = Resume_acquired \<and> snd one = Resume_acquired
    \<and> (\<exists>r2. dget (db_agent_runs (fst two)) i = Some r2 \<and> resume_runtime_of (ar_summary r2) = lease2)
    \<and> (\<exists>r1. dget (db_agent_runs (fst one)) i = Some r1 \<and> resume_runtime_of (ar_summary r1) = lease1
         \<and> ar_summary r1 = with_resume_runtime (ar_summary r) lease1)
    \<and> (lease_id_set lease1 \<and> py_lower (py_strip (text_or text_of (jget lease1 ''status'') [])) = ''active'' \<longrightarrow>
         snd (acquire_resume_lease text_of id (fst one) i expected3 lease3 now3) \<noteq> Resume_acquired)
    \<and> (lease_id_set lease2 \<and> py_lower (py_strip (text_or text_of (jget lease2 ''status'') [])) = ''active'' \<longrightarrow>
         snd (acquire_resume_lease text_of id (fst two) i expected3 lease3 now3) \<noteq> Resume_acquired)"
proof -
  have stored: "dget (db_agent_runs (id db)) i = Some r" using assms(1) by simp
  note b = resume_writes [where between = id, OF assms(1,3) stored, of lease2 now2, folded assms(5)]
  from b(2) obtain r2 where r2: "dget (db_agent_runs (fst two)) i = Some r2"
    "ar_summary r2 = with_resume_runtime (ar_summary r) lease2" by blast
  note a = resume_writes [OF assms(1,2), where between = "\<lambda>d. fst (acquire_resume_lease text_of id d i expected2 lease2 now2)",
      folded assms(5), OF r2(1), of lease1 now1, folded assms(4)]
  from a(2) obtain r1 where r1: "dget (db_agent_runs (fst one)) i = Some r1"
    "ar_summary r1 = with_resume_runtime (ar_summary r) lease1" by blast
  show ?thesis
    using a(1) b(1) r1 r2 resume_conflict [OF r1(1)] resume_conflict [OF r2(1)] by simp
qed

definition resumable_db :: run_db where
  "resumable_db = run_ops (run_step text_of_sample) empty_run_db [Op_create ''r'' [] None Unset 0]"

definition sample_lease :: "string \<Rightarrow> jdict" where
  "sample_lease s = [(''lease_id'', JStr s), (''status'', JStr ''active'')]"

definition resumable_run :: agent_run where
  "resumable_run = the (dget (db_agent_runs resumable_db) ''r'')"

lemma resumable:
  "dget (db_agent_runs resumable_db) ''r'' = Some resumable_run"
  "resume_decision text_of_sample resumable_run [''created''] = Resume_acquired"
  by code_simp+

theorem resume_lease_granted_twice_witness:
  "snd (acquire_resume_lease text_of_sample
     (\<lambda>d. fst (acquire_resume_lease text_of_sample id d ''r'' [''created''] (sample_lease ''b'') 2))
     resumable_db ''r'' [''created''] (sample_lease ''a'') 3) = Resume_acquired \<and>
   snd (acquire_resume_lease text_of_sample id (fst (acquire_resume_lease text_of_sample
     (\<lambda>d. fst (acquire_resume_lease text_of_sample id d ''r'' [''created''] (sample_lease ''b'') 2))
     resumable_db ''r'' [''created''] (sample_lease ''a'') 3)) ''r'' [''running''] (sample_lease ''c'') 4)
   \<noteq> Resume_acquired"
proof -
  have "lease_id_set (sample_lease ''a'')"
    "py_lower (py_strip (text_or text_of_sample (jget (sample_lease ''a'') ''status'') [])) = ''active''"
    by code_simp+
  with resume_lease_granted_twice [OF resumable(1,2,2) refl refl] show ?thesis by blast
qed

end
