(* ===== verification/Outcome_Verifier.thy ===== *)
theory Outcome_Verifier
  imports Plan_Ledger
begin

text \<open>
  The completion gate of ordinary chat turns, \<^verbatim>\<open>mochi/agents/outcome_verifier.py\<close>: criteria, the
  evidence of a turn, the six verifiers, the registry that runs them over the criteria and
  aggregates their receipts, and the compiler from deliverables and plan items to criteria.

  The judge behind the semantic verifier is a language model: its answer to the \<open>n\<close>-th question is
  an argument, a time-out, an exception or a value. The digests (SHA-256 of a JSON text) are an
  argument too. Of an artifact receipt and of tool evidence (\<^verbatim>\<open>mochi/agents/artifact_verifier.py\<close>)
  the fields the verifiers read are kept.
\<close>

section \<open>Values\<close>

datatype criterion_kind =
  Kind_artifact | Kind_tool_execution | Kind_state | Kind_response_shape | Kind_semantic | Kind_manual

fun kind_name :: "criterion_kind \<Rightarrow> string" where
  "kind_name Kind_artifact = ''artifact''"
| "kind_name Kind_tool_execution = ''tool_execution''"
| "kind_name Kind_state = ''state''"
| "kind_name Kind_response_shape = ''response_shape''"
| "kind_name Kind_semantic = ''semantic''"
| "kind_name Kind_manual = ''manual''"

definition criterion_kinds :: "criterion_kind list" where
  "criterion_kinds = [Kind_artifact, Kind_tool_execution, Kind_state, Kind_response_shape,
     Kind_semantic, Kind_manual]"

datatype verdict = Verdict_verified | Verdict_failed | Verdict_unverified | Verdict_not_applicable

fun verdict_text :: "verdict \<Rightarrow> string" where
  "verdict_text Verdict_verified = ''verified''"
| "verdict_text Verdict_failed = ''failed''"
| "verdict_text Verdict_unverified = ''unverified''"
| "verdict_text Verdict_not_applicable = ''not_applicable''"

definition verdicts :: "verdict list" where
  "verdicts = [Verdict_verified, Verdict_failed, Verdict_unverified, Verdict_not_applicable]"

datatype disposition =
  Retry_none | Retry_retryable | Retry_requires_replan | Retry_requires_approval | Retry_terminal

fun disposition_text :: "disposition \<Rightarrow> string" where
  "disposition_text Retry_none = ''none''"
| "disposition_text Retry_retryable = ''retryable''"
| "disposition_text Retry_requires_replan = ''requires_replan''"
| "disposition_text Retry_requires_approval = ''requires_approval''"
| "disposition_text Retry_terminal = ''terminal''"

definition dispositions :: "disposition list" where
  "dispositions = [Retry_none, Retry_retryable, Retry_requires_replan, Retry_requires_approval,
     Retry_terminal]"

fun retry_precedence :: "disposition \<Rightarrow> nat" where
  "retry_precedence Retry_terminal = 4"
| "retry_precedence Retry_requires_approval = 3"
| "retry_precedence Retry_requires_replan = 2"
| "retry_precedence Retry_retryable = 1"
| "retry_precedence Retry_none = 0"

text \<open>\<open>max(values, key=...)\<close>: the first of the greatest.\<close>

fun max_disposition :: "disposition \<Rightarrow> disposition list \<Rightarrow> disposition" where
  "max_disposition best [] = best"
| "max_disposition best (d # ds) =
     max_disposition (if retry_precedence best < retry_precedence d then d else best) ds"

definition retry_disposition_max :: "disposition list \<Rightarrow> disposition" where
  "retry_disposition_max ds = (case ds of [] \<Rightarrow> Retry_none | d # ds' \<Rightarrow> max_disposition d ds')"

definition require_literal :: "json \<Rightarrow> disposition py" where
  "require_literal v =
     bindE (clean_text v ''retry_disposition'' 128) (\<lambda>s.
       parse_text disposition_text dispositions (JStr s) ''unsupported retry_disposition'')"

definition clean_bool :: "json \<Rightarrow> string \<Rightarrow> bool py" where
  "clean_bool v field =
     (case v of JBool b \<Rightarrow> Inr b | _ \<Rightarrow> Inl (TypeError (field @ '' must be a boolean'')))"

definition in_unit_range :: "pyfloat \<Rightarrow> bool" where
  "in_unit_range x \<longleftrightarrow> \<not> float_less x (Fin 0) \<and> \<not> float_less (Fin 1) x"

definition clean_confidence :: "json \<Rightarrow> pyfloat option py" where
  "clean_confidence v =
     (case (case v of JInt n \<Rightarrow> Some (Fin (of_int n)) | JFloat x \<Rightarrow> Some x | _ \<Rightarrow> None) of
        Some x \<Rightarrow> (if in_unit_range x then Inr (Some x)
                   else Inl (ValueError ''confidence must be between 0.0 and 1.0''))
      | None \<Rightarrow> (if v = JNull then Inr None
                 else Inl (TypeError ''confidence must be a number or null'')))"

text \<open>\<open>_clean_text\<close> with \<open>allow_empty\<close>.\<close>

definition clean_text_or_empty :: "json \<Rightarrow> string \<Rightarrow> nat \<Rightarrow> string py" where
  "clean_text_or_empty v field max_chars =
     (case v of
        JStr s \<Rightarrow> (if length (squeeze s) > max_chars
                   then Inl (ValueError (field @ '' exceeds its limit'')) else Inr (squeeze s))
      | _ \<Rightarrow> Inl (TypeError (field @ '' must be a string'')))"

definition frozen_mapping :: "json \<Rightarrow> string \<Rightarrow> jdict py" where
  "frozen_mapping v field =
     (case v of JObj d \<Rightarrow> Inr d | _ \<Rightarrow> Inl (TypeError (field @ '' must be an object'')))"

section \<open>Criteria\<close>

record criterion =
  vc_id :: string
  vc_kind :: criterion_kind
  vc_required :: bool
  vc_description :: string
  vc_turns :: "string list"
  vc_verifier :: "string option"
  vc_payload :: jdict

definition make_criterion ::
  "json \<Rightarrow> json \<Rightarrow> json \<Rightarrow> json \<Rightarrow> json list \<Rightarrow> json \<Rightarrow> json \<Rightarrow> criterion py" where
  "make_criterion raw_id raw_kind raw_required raw_description raw_turns raw_verifier raw_payload =
     bindE (clean_text raw_id ''criterion_id'' 128) (\<lambda>i.
     bindE (parse_text kind_name criterion_kinds raw_kind ''unsupported criterion kind'') (\<lambda>kind.
     bindE (clean_bool raw_required ''required'') (\<lambda>req.
     bindE (clean_text raw_description ''description'' 400) (\<lambda>description.
     bindE (clean_text_tuple raw_turns ''source_turn_ids'' 1 16 128) (\<lambda>turns.
     bindE (clean_optional_text raw_verifier ''verifier_id'' 128) (\<lambda>verifier.
     bindE (frozen_mapping raw_payload ''payload'') (\<lambda>payload.
       Inr \<lparr>vc_id = i, vc_kind = kind, vc_required = req, vc_description = description,
            vc_turns = turns, vc_verifier = verifier, vc_payload = payload\<rparr>)))))))"

definition criterion_to_dict :: "criterion \<Rightarrow> jdict" where
  "criterion_to_dict c =
     [(''criterion_id'', JStr (vc_id c)),
      (''kind'', JStr (kind_name (vc_kind c))),
      (''required'', JBool (vc_required c)),
      (''description'', JStr (vc_description c)),
      (''source_turn_ids'', strs (vc_turns c)),
      (''verifier_id'', opt_str (vc_verifier c)),
      (''payload'', JObj (vc_payload c))]"

definition criterion_from_dict :: "jdict \<Rightarrow> criterion py" where
  "criterion_from_dict p =
     bindE (require_exact_keys p [''criterion_id'', ''kind'', ''required'', ''description'',
              ''source_turn_ids'', ''verifier_id'', ''payload''] ''verification criterion'') (\<lambda>_.
     bindE (py_tuple (jget p ''source_turn_ids'')) (\<lambda>turns.
       make_criterion (jget p ''criterion_id'') (jget p ''kind'') (jget p ''required'')
         (jget p ''description'') turns (jget p ''verifier_id'') (jget p ''payload'')))"

section \<open>Receipts\<close>

record criterion_receipt =
  cr_id :: string
  cr_verdict :: verdict
  cr_verifier :: string
  cr_refs :: "string list"
  cr_reason :: string
  cr_retry :: disposition
  cr_confidence :: "pyfloat option"

definition make_criterion_receipt ::
  "json \<Rightarrow> json \<Rightarrow> json \<Rightarrow> json list \<Rightarrow> json \<Rightarrow> json \<Rightarrow> json \<Rightarrow> criterion_receipt py" where
  "make_criterion_receipt raw_id raw_verdict raw_verifier raw_refs raw_reason raw_retry
     raw_confidence =
     bindE (clean_text raw_id ''criterion_id'' 128) (\<lambda>i.
     bindE (parse_text verdict_text verdicts raw_verdict ''unsupported criterion verdict'') (\<lambda>v.
     bindE (clean_text raw_verifier ''verifier_id'' 128) (\<lambda>verifier.
     bindE (clean_text_tuple raw_refs ''evidence_refs'' 0 16 128) (\<lambda>refs.
     bindE (clean_text raw_reason ''reason_code'' 128) (\<lambda>reason.
     bindE (require_literal raw_retry) (\<lambda>retry.
     bindE (clean_confidence raw_confidence) (\<lambda>confidence.
       Inr \<lparr>cr_id = i, cr_verdict = v, cr_verifier = verifier, cr_refs = refs, cr_reason = reason,
            cr_retry = retry, cr_confidence = confidence\<rparr>)))))))"

fun opt_float :: "pyfloat option \<Rightarrow> json" where
  "opt_float None = JNull"
| "opt_float (Some x) = JFloat x"

definition criterion_receipt_to_dict :: "criterion_receipt \<Rightarrow> jdict" where
  "criterion_receipt_to_dict r =
     [(''criterion_id'', JStr (cr_id r)),
      (''verdict'', JStr (verdict_text (cr_verdict r))),
      (''verifier_id'', JStr (cr_verifier r)),
      (''evidence_refs'', strs (cr_refs r)),
      (''reason_code'', JStr (cr_reason r)),
      (''retry_disposition'', JStr (disposition_text (cr_retry r))),
      (''confidence'', opt_float (cr_confidence r))]"

text \<open>An entry that is no object raises one way or another; the model raises \<open>TypeError\<close>.\<close>

definition criterion_receipt_from_dict :: "json \<Rightarrow> criterion_receipt py" where
  "criterion_receipt_from_dict v =
     (case v of
        JObj p \<Rightarrow>
          bindE (require_exact_keys p [''criterion_id'', ''verdict'', ''verifier_id'',
                   ''evidence_refs'', ''reason_code'', ''retry_disposition'', ''confidence'']
                   ''criterion receipt'') (\<lambda>_.
          bindE (py_tuple (jget p ''evidence_refs'')) (\<lambda>refs.
            make_criterion_receipt (jget p ''criterion_id'') (jget p ''verdict'')
              (jget p ''verifier_id'') refs (jget p ''reason_code'') (jget p ''retry_disposition'')
              (jget p ''confidence'')))
      | _ \<Rightarrow> Inl (TypeError ''criterion receipt must be an object''))"

record verification_receipt =
  vr_id :: string
  vr_turn_id :: string
  vr_goal_id :: "string option"
  vr_verdict :: verdict
  vr_criteria :: "criterion_receipt list"
  vr_hard_failure :: bool
  vr_retry :: disposition

definition receipt_version :: string where
  "receipt_version = ''verification-receipt-v1''"

definition make_verification_receipt ::
  "json \<Rightarrow> json \<Rightarrow> json \<Rightarrow> json \<Rightarrow> json \<Rightarrow> criterion_receipt list \<Rightarrow> json \<Rightarrow> json
    \<Rightarrow> verification_receipt py" where
  "make_verification_receipt version raw_id raw_turn raw_goal raw_verdict criteria raw_hard
     raw_retry =
     bindE (requireE (version = JStr receipt_version)
              (ValueError ''unsupported receipt_version'')) (\<lambda>_.
     bindE (clean_text raw_id ''receipt_id'' 128) (\<lambda>i.
     bindE (clean_text raw_turn ''turn_id'' 128) (\<lambda>turn.
     bindE (clean_optional_text raw_goal ''goal_id'' 128) (\<lambda>goal.
     bindE (parse_text verdict_text verdicts raw_verdict ''unsupported aggregate verdict'') (\<lambda>v.
     bindE (clean_bool raw_hard ''hard_failure'') (\<lambda>hard.
     bindE (require_literal raw_retry) (\<lambda>retry.
       Inr \<lparr>vr_id = i, vr_turn_id = turn, vr_goal_id = goal, vr_verdict = v, vr_criteria = criteria,
            vr_hard_failure = hard, vr_retry = retry\<rparr>)))))))"

definition verification_receipt_to_dict :: "verification_receipt \<Rightarrow> jdict" where
  "verification_receipt_to_dict r =
     [(''receipt_version'', JStr receipt_version),
      (''receipt_id'', JStr (vr_id r)),
      (''turn_id'', JStr (vr_turn_id r)),
      (''goal_id'', opt_str (vr_goal_id r)),
      (''verdict'', JStr (verdict_text (vr_verdict r))),
      (''criteria'', JList (map (\<lambda>c. JObj (criterion_receipt_to_dict c)) (vr_criteria r))),
      (''hard_failure'', JBool (vr_hard_failure r)),
      (''retry_disposition'', JStr (disposition_text (vr_retry r)))]"

definition verification_receipt_from_dict :: "jdict \<Rightarrow> verification_receipt py" where
  "verification_receipt_from_dict p =
     bindE (require_exact_keys p [''receipt_version'', ''receipt_id'', ''turn_id'', ''goal_id'',
              ''verdict'', ''criteria'', ''hard_failure'', ''retry_disposition'']
              ''verification receipt'') (\<lambda>_.
       (case jget p ''criteria'' of
          JList raw \<Rightarrow>
            bindE (traverseE criterion_receipt_from_dict raw) (\<lambda>criteria.
              make_verification_receipt (jget p ''receipt_version'') (jget p ''receipt_id'')
                (jget p ''turn_id'') (jget p ''goal_id'') (jget p ''verdict'') criteria
                (jget p ''hard_failure'') (jget p ''retry_disposition''))
        | _ \<Rightarrow> Inl (TypeError ''verification receipt criteria must be a list'')))"

section \<open>Evidence\<close>

record artifact_target =
  at_requested_path :: string
  at_verification_status :: string

record artifact_receipt =
  art_verification_status :: string
  art_retry :: string
  art_targets :: "artifact_target list"

record tool_evidence =
  te_call_id :: string
  te_tool_name :: string
  te_arguments_digest :: string
  te_operation_id :: string
  te_turn_id :: string
  te_exit_code :: "int option"
  te_status :: string
  te_approval_pending :: bool
  te_error :: "string option"

record evidence =
  ev_artifacts :: "(string, artifact_receipt) dict"
  ev_tools :: "tool_evidence list"
  ev_state :: jdict
  ev_response_json :: "jdict option"
  ev_response_text :: "string option"

definition make_evidence ::
  "(string, artifact_receipt) dict \<Rightarrow> tool_evidence list \<Rightarrow> json \<Rightarrow> json \<Rightarrow> json \<Rightarrow> evidence py" where
  "make_evidence artifacts tools raw_state raw_json raw_text =
     bindE (frozen_mapping raw_state ''state'') (\<lambda>state.
     bindE (if raw_json = JNull then Inr None
            else bindE (frozen_mapping raw_json ''response_json'') (\<lambda>d. Inr (Some d))) (\<lambda>rj.
     bindE (if raw_text = JNull then Inr None
            else bindE (clean_text_or_empty raw_text ''response_text'' 12000) (\<lambda>t. Inr (Some t)))
       (\<lambda>rt.
       Inr \<lparr>ev_artifacts = artifacts, ev_tools = tools, ev_state = state,
            ev_response_json = rj, ev_response_text = rt\<rparr>)))"

text \<open>\<open>value.strip().replace("\\", "/")\<close> and every leading \<open>./\<close> removed.\<close>

fun drop_dot_slash :: "string \<Rightarrow> string" where
  "drop_dot_slash (a # b # s) =
     (if a = CHR ''.'' \<and> b = CHR ''/'' then drop_dot_slash s else a # b # s)"
| "drop_dot_slash s = s"

definition normalized_artifact_target :: "string \<Rightarrow> string" where
  "normalized_artifact_target value =
     drop_dot_slash (map (\<lambda>c. if c = CHR 0x5C then CHR ''/'' else c) (py_strip value))"

text \<open>The first argument stands for \<open>sha256(...).hexdigest()[:12]\<close>.\<close>

definition artifact_target_evidence_ref ::
  "(string \<Rightarrow> string) \<Rightarrow> string \<Rightarrow> string \<Rightarrow> string" where
  "artifact_target_evidence_ref digest receipt_id path =
     receipt_id @ '':target:'' @ digest (normalized_artifact_target path)"

definition recognized_evidence_refs :: "(string \<Rightarrow> string) \<Rightarrow> evidence \<Rightarrow> string list" where
  "recognized_evidence_refs digest ev =
     dkeys (ev_artifacts ev) @
     concat (map (\<lambda>(i, r). map (\<lambda>t. artifact_target_evidence_ref digest i (at_requested_path t))
                             (art_targets r)) (ev_artifacts ev)) @
     concat (map (\<lambda>e. te_call_id e # (if te_operation_id e = [] then [] else [te_operation_id e]))
               (ev_tools ev)) @
     (if ev_response_text ev \<noteq> None \<or> ev_response_json ev \<noteq> None then [''response''] else [])"

section \<open>The verifiers\<close>

text \<open>The receipt a verifier builds for a criterion, through the constructor of the receipt.\<close>

definition receipt_for ::
  "criterion \<Rightarrow> string \<Rightarrow> verdict \<Rightarrow> string list \<Rightarrow> string \<Rightarrow> string \<Rightarrow> criterion_receipt py" where
  "receipt_for c verifier v refs reason retry =
     make_criterion_receipt (JStr (vc_id c)) (JStr (verdict_text v)) (JStr verifier)
       (map JStr refs) (JStr reason) (JStr retry) JNull"

text \<open>\<open>isinstance(value, str) and value.strip()\<close>.\<close>

definition text_given :: "json \<Rightarrow> string option" where
  "text_given v =
     (case v of JStr s \<Rightarrow> (if py_strip s = [] then None else Some s) | _ \<Rightarrow> None)"

definition artifact_verify ::
  "(string \<Rightarrow> string) \<Rightarrow> criterion \<Rightarrow> evidence \<Rightarrow> criterion_receipt py" where
  "artifact_verify digest c ev =
     (let answer = receipt_for c ''artifact''
      in case text_given (jget (vc_payload c) ''receipt_id'') of
           None \<Rightarrow> answer Verdict_unverified [] ''artifact_receipt_id_missing'' ''requires_replan''
         | Some receipt_id \<Rightarrow>
       (case dget (ev_artifacts ev) receipt_id of
          None \<Rightarrow> answer Verdict_unverified [] ''artifact_receipt_missing'' ''requires_replan''
        | Some receipt \<Rightarrow>
       (let verdict_of = (\<lambda>st. if st = ''verified'' then Verdict_verified else Verdict_failed);
            reason_of = (\<lambda>scope st. scope @ ''_'' @ (if st = ''verified'' then ''verified'' else st))
        in case text_given (jget (vc_payload c) ''target_hint'') of
             None \<Rightarrow>
               answer (verdict_of (art_verification_status receipt)) [receipt_id]
                 (reason_of ''artifact'' (art_verification_status receipt)) (art_retry receipt)
           | Some hint \<Rightarrow>
               (case filter (\<lambda>t. normalized_artifact_target (at_requested_path t) =
                                 normalized_artifact_target hint) (art_targets receipt) of
                  [] \<Rightarrow>
                    answer Verdict_unverified [receipt_id] ''artifact_target_missing''
                      ''requires_replan''
                | [t] \<Rightarrow>
                    answer (verdict_of (at_verification_status t))
                      [artifact_target_evidence_ref digest receipt_id (at_requested_path t)]
                      (reason_of ''artifact_target'' (at_verification_status t)) (art_retry receipt)
                | _ \<Rightarrow>
                    answer Verdict_unverified [receipt_id] ''artifact_target_ambiguous''
                      ''requires_replan''))))"

text \<open>A field the criterion leaves open, or binds to the value of the evidence.\<close>

definition field_matches :: "jdict \<Rightarrow> string \<Rightarrow> string \<Rightarrow> bool" where
  "field_matches payload field value \<longleftrightarrow>
     jget payload field = JNull \<or> jget payload field = JStr value"

definition tool_matches :: "jdict \<Rightarrow> string \<Rightarrow> tool_evidence \<Rightarrow> bool" where
  "tool_matches payload tool e \<longleftrightarrow>
     te_tool_name e = tool \<and>
     field_matches payload ''call_id'' (te_call_id e) \<and>
     field_matches payload ''arguments_digest'' (te_arguments_digest e) \<and>
     field_matches payload ''operation_id'' (te_operation_id e) \<and>
     field_matches payload ''turn_id'' (te_turn_id e)"

definition tool_succeeded :: "tool_evidence \<Rightarrow> int \<Rightarrow> bool" where
  "tool_succeeded e expected \<longleftrightarrow>
     te_error e = None \<and> te_exit_code e = Some expected \<and>
     te_status e \<in> set [''completed'', ''succeeded'']"

definition tool_verify :: "criterion \<Rightarrow> evidence \<Rightarrow> criterion_receipt py" where
  "tool_verify c ev =
     (let answer = receipt_for c ''tool_execution''
      in case text_given (jget (vc_payload c) ''tool_name'') of
           None \<Rightarrow> answer Verdict_unverified [] ''tool_name_missing'' ''requires_replan''
         | Some tool \<Rightarrow>
       (case (case dget (vc_payload c) ''expected_exit_code'' of
                None \<Rightarrow> Some 0 | Some v \<Rightarrow> as_int v) of
          None \<Rightarrow> answer Verdict_unverified [] ''expected_exit_code_invalid'' ''requires_replan''
        | Some expected \<Rightarrow>
       (case filter (tool_matches (vc_payload c) tool) (ev_tools ev) of
          [] \<Rightarrow>
            answer Verdict_unverified [] ''tool_execution_evidence_missing'' ''requires_replan''
        | [e] \<Rightarrow>
            (if te_approval_pending e
             then answer Verdict_failed [te_call_id e] ''tool_execution_requires_approval''
                    ''requires_approval''
             else if tool_succeeded e expected
             then answer Verdict_verified [te_call_id e] ''tool_execution_verified'' ''none''
             else answer Verdict_failed [te_call_id e] ''tool_execution_failed'' ''requires_replan'')
        | es \<Rightarrow>
            answer Verdict_unverified (map te_call_id es) ''tool_execution_evidence_ambiguous''
              ''requires_replan'')))"

text \<open>\<open>path.split(".")\<close>: empty segments are kept.\<close>

fun split_on :: "char \<Rightarrow> string \<Rightarrow> string list" where
  "split_on sep [] = [[]]"
| "split_on sep (c # s) =
     (if c = sep then [] # split_on sep s
      else case split_on sep s of [] \<Rightarrow> [[c]] | w # ws \<Rightarrow> (c # w) # ws)"

fun resolve_segments :: "json \<Rightarrow> string list \<Rightarrow> json option" where
  "resolve_segments v [] = Some v"
| "resolve_segments v (k # ks) =
     (case v of
        JObj d \<Rightarrow> (case dget d k of None \<Rightarrow> None | Some w \<Rightarrow> resolve_segments w ks)
      | _ \<Rightarrow> None)"

definition resolve_state_path :: "jdict \<Rightarrow> string \<Rightarrow> json option" where
  "resolve_state_path state path = resolve_segments (JObj state) (split_on CHR ''.'' path)"

definition state_contains :: "json \<Rightarrow> json \<Rightarrow> bool" where
  "state_contains container expected =
     (case container of
        JStr text \<Rightarrow> (case expected of JStr needle \<Rightarrow> contains needle text | _ \<Rightarrow> False)
      | JList xs \<Rightarrow> list_ex (\<lambda>x. py_eq x expected) xs
      | _ \<Rightarrow> False)"

definition state_verify :: "criterion \<Rightarrow> evidence \<Rightarrow> criterion_receipt py" where
  "state_verify c ev =
     (let answer = receipt_for c ''state''
      in case text_given (jget (vc_payload c) ''path'') of
           None \<Rightarrow> answer Verdict_unverified [] ''state_path_missing'' ''requires_replan''
         | Some path \<Rightarrow>
       (case resolve_state_path (ev_state ev) path of
          None \<Rightarrow> answer Verdict_unverified [] ''state_path_missing'' ''requires_replan''
        | Some resolved \<Rightarrow>
       (case dget (vc_payload c) ''equals'' of
          Some expected \<Rightarrow>
            (if py_eq resolved expected
             then answer Verdict_verified [''state:'' @ path] ''state_equals_match'' ''none''
             else answer Verdict_failed [''state:'' @ path] ''state_equals_mismatch''
                    ''requires_replan'')
        | None \<Rightarrow>
       (case dget (vc_payload c) ''contains'' of
          Some expected \<Rightarrow>
            (if state_contains resolved expected
             then answer Verdict_verified [''state:'' @ path] ''state_contains_match'' ''none''
             else answer Verdict_failed [''state:'' @ path] ''state_contains_mismatch''
                    ''requires_replan'')
        | None \<Rightarrow>
            answer Verdict_unverified [''state:'' @ path] ''state_verifier_payload_unsupported''
              ''requires_replan''))))"

text \<open>\<open>key not in response_json\<close>: testing an unhashable key raises.\<close>

definition key_missing :: "jdict option \<Rightarrow> json \<Rightarrow> bool py" where
  "key_missing response key =
     (case response of
        None \<Rightarrow> Inr True
      | Some d \<Rightarrow>
          (case key of
             JStr k \<Rightarrow> Inr (dget d k = None)
           | JList _ \<Rightarrow> Inl (TypeError ''unhashable type'')
           | JObj _ \<Rightarrow> Inl (TypeError ''unhashable type'')
           | _ \<Rightarrow> Inr True))"

definition section_missing :: "string option \<Rightarrow> json \<Rightarrow> bool" where
  "section_missing response sect =
     (case (sect, response) of (JStr s, Some text) \<Rightarrow> \<not> contains s text | _ \<Rightarrow> True)"

definition list_or_empty :: "json \<Rightarrow> json list" where
  "list_or_empty v = (case v of JList xs \<Rightarrow> xs | _ \<Rightarrow> [])"

definition shape_verify :: "criterion \<Rightarrow> evidence \<Rightarrow> criterion_receipt py" where
  "shape_verify c ev =
     (let answer = receipt_for c ''response_shape''
      in if ev_response_json ev = None \<and> ev_response_text ev = None
         then answer Verdict_unverified [] ''response_missing'' ''requires_replan''
         else
           bindE (traverseE (key_missing (ev_response_json ev))
                    (list_or_empty (jget (vc_payload c) ''required_keys''))) (\<lambda>missing.
             if list_ex id missing \<or>
                list_ex (section_missing (ev_response_text ev))
                  (list_or_empty (jget (vc_payload c) ''required_sections''))
             then answer Verdict_failed [''response''] ''response_shape_mismatch''
                    ''requires_replan''
             else answer Verdict_verified [''response''] ''response_shape_verified'' ''none''))"

definition manual_verify :: "criterion \<Rightarrow> criterion_receipt py" where
  "manual_verify c =
     receipt_for c ''manual_review'' Verdict_unverified [] ''manual_review_required''
       ''requires_replan''"

text \<open>
  The semantic verifier: a budget of questions, and an answer that counts only when it is well
  formed, refers to evidence the host knows, and gives some for a positive verdict. The state is
  the number of questions asked.
\<close>

datatype judge_reply = Judge_timeout | Judge_raised | Judged json

type_synonym judge = "nat \<Rightarrow> criterion \<Rightarrow> evidence \<Rightarrow> judge_reply"

definition semantic_receipt ::
  "(string \<Rightarrow> string) \<Rightarrow> criterion \<Rightarrow> evidence \<Rightarrow> json \<Rightarrow> criterion_receipt py" where
  "semantic_receipt digest c ev raw =
     (case raw of
        JObj d \<Rightarrow>
          bindE (require_exact_keys d [''verdict'', ''evidence_refs'', ''reason_code'',
                   ''retry_disposition'', ''confidence''] ''semantic judge result'') (\<lambda>_.
          bindE (py_tuple (jget d ''evidence_refs'')) (\<lambda>refs.
          bindE (make_criterion_receipt (JStr (vc_id c)) (jget d ''verdict'')
                   (JStr ''semantic_judge'') refs (jget d ''reason_code'')
                   (jget d ''retry_disposition'') (jget d ''confidence'')) (\<lambda>r.
          bindE (requireE (set (cr_refs r) \<subseteq> set (recognized_evidence_refs digest ev))
                   (ValueError ''semantic judge referenced evidence not recognized by the host''))
            (\<lambda>_.
          bindE (requireE (cr_verdict r \<noteq> Verdict_verified \<or> cr_refs r \<noteq> [])
                   (ValueError ''verified semantic verdict requires host evidence'')) (\<lambda>_.
            Inr r)))))
      | _ \<Rightarrow> Inl (TypeError ''semantic judge result must be an object''))"

definition semantic_verify ::
  "(string \<Rightarrow> string) \<Rightarrow> judge \<Rightarrow> nat \<Rightarrow> nat \<Rightarrow> criterion \<Rightarrow> evidence
     \<Rightarrow> nat \<times> criterion_receipt py" where
  "semantic_verify digest judge max_criteria used c ev =
     (let refuse = (\<lambda>reason. receipt_for c ''semantic_judge'' Verdict_unverified [] reason
            ''requires_replan'')
      in if used \<ge> max_criteria then (used, refuse ''semantic_judge_budget_exhausted'')
         else
           (used + 1,
            (case judge used c ev of
               Judge_timeout \<Rightarrow> refuse ''semantic_judge_timeout''
             | Judge_raised \<Rightarrow> refuse ''semantic_judge_error''
             | Judged raw \<Rightarrow>
                 (case semantic_receipt digest c ev raw of
                    Inl _ \<Rightarrow> refuse ''semantic_judge_malformed''
                  | Inr r \<Rightarrow> Inr r))))"

section \<open>The registry\<close>

datatype verifier =
  Artifact_verifier | Tool_verifier | State_verifier | Shape_verifier | Manual_verifier
| Semantic_verifier nat

fun verifier_name :: "verifier \<Rightarrow> string" where
  "verifier_name Artifact_verifier = ''artifact''"
| "verifier_name Tool_verifier = ''tool_execution''"
| "verifier_name State_verifier = ''state''"
| "verifier_name Shape_verifier = ''response_shape''"
| "verifier_name Manual_verifier = ''manual_review''"
| "verifier_name (Semantic_verifier _) = ''semantic_judge''"

fun supported_kind :: "verifier \<Rightarrow> criterion_kind" where
  "supported_kind Artifact_verifier = Kind_artifact"
| "supported_kind Tool_verifier = Kind_tool_execution"
| "supported_kind State_verifier = Kind_state"
| "supported_kind Shape_verifier = Kind_response_shape"
| "supported_kind Manual_verifier = Kind_manual"
| "supported_kind (Semantic_verifier _) = Kind_semantic"

fun run_verifier ::
  "(string \<Rightarrow> string) \<Rightarrow> judge \<Rightarrow> verifier \<Rightarrow> nat \<Rightarrow> criterion \<Rightarrow> evidence
     \<Rightarrow> nat \<times> criterion_receipt py" where
  "run_verifier digest judge Artifact_verifier used c ev = (used, artifact_verify digest c ev)"
| "run_verifier digest judge Tool_verifier used c ev = (used, tool_verify c ev)"
| "run_verifier digest judge State_verifier used c ev = (used, state_verify c ev)"
| "run_verifier digest judge Shape_verifier used c ev = (used, shape_verify c ev)"
| "run_verifier digest judge Manual_verifier used c ev = (used, manual_verify c)"
| "run_verifier digest judge (Semantic_verifier n) used c ev =
     semantic_verify digest judge n used c ev"

definition default_verifiers :: "verifier list" where
  "default_verifiers =
     [Artifact_verifier, Tool_verifier, State_verifier, Shape_verifier, Manual_verifier]"

definition make_verifier_registry :: "verifier list \<Rightarrow> verifier list py" where
  "make_verifier_registry vs =
     (let resolved = (if vs = [] then default_verifiers else vs)
      in bindE (requireE (distinct (map verifier_name resolved))
                  (ValueError ''verifier ids must be unique'')) (\<lambda>_. Inr resolved))"

text \<open>The first verifier of the kind, unless the criterion names another one.\<close>

definition responsible :: "criterion \<Rightarrow> verifier \<Rightarrow> bool" where
  "responsible c v \<longleftrightarrow> supported_kind v = vc_kind c \<and>
     (vc_verifier c = None \<or> vc_verifier c = Some (verifier_name v))"

definition verify_one ::
  "(string \<Rightarrow> string) \<Rightarrow> judge \<Rightarrow> verifier list \<Rightarrow> nat \<Rightarrow> criterion \<Rightarrow> evidence
     \<Rightarrow> nat \<times> criterion_receipt py" where
  "verify_one digest judge vs used c ev =
     (case find (responsible c) vs of
        Some v \<Rightarrow> run_verifier digest judge v used c ev
      | None \<Rightarrow>
          (used, receipt_for c (case vc_verifier c of None \<Rightarrow> ''unsupported'' | Some i \<Rightarrow> i)
                   Verdict_unverified [] ''unsupported_criterion'' ''requires_replan''))"

fun verify_each ::
  "(string \<Rightarrow> string) \<Rightarrow> judge \<Rightarrow> verifier list \<Rightarrow> nat \<Rightarrow> criterion list \<Rightarrow> evidence
     \<Rightarrow> nat \<times> criterion_receipt list py" where
  "verify_each digest judge vs used [] ev = (used, Inr [])"
| "verify_each digest judge vs used (c # cs) ev =
     (case verify_one digest judge vs used c ev of
        (used', Inl e) \<Rightarrow> (used', Inl e)
      | (used', Inr r) \<Rightarrow>
          (case verify_each digest judge vs used' cs ev of
             (used'', Inl e) \<Rightarrow> (used'', Inl e)
           | (used'', Inr rs) \<Rightarrow> (used'', Inr (r # rs))))"

definition required_pairs ::
  "criterion list \<Rightarrow> criterion_receipt list \<Rightarrow> (criterion \<times> criterion_receipt) list" where
  "required_pairs cs rs = filter (\<lambda>(c, r). vc_required c) (zip cs rs)"

definition aggregate_verdict ::
  "criterion list \<Rightarrow> criterion_receipt list \<Rightarrow> nat \<Rightarrow> nat \<Rightarrow> verdict" where
  "aggregate_verdict cs rs required_count verified_count =
     (if cs = [] then Verdict_not_applicable
      else if list_ex (\<lambda>(c, r). vc_required c \<and> cr_verdict r = Verdict_failed) (zip cs rs)
      then Verdict_failed
      else if list_ex (\<lambda>(c, r). vc_required c \<and>
                cr_verdict r \<in> set [Verdict_unverified, Verdict_not_applicable]) (zip cs rs)
      then Verdict_unverified
      else if required_count = 0
      then (if list_ex (\<lambda>r. cr_verdict r = Verdict_verified) rs then Verdict_verified
            else if list_ex (\<lambda>r. cr_verdict r = Verdict_failed) rs then Verdict_failed
            else if list_ex (\<lambda>r. cr_verdict r = Verdict_unverified) rs then Verdict_unverified
            else Verdict_not_applicable)
      else if verified_count = 0 then Verdict_unverified
      else Verdict_verified)"

definition hard_failure_of :: "criterion list \<Rightarrow> criterion_receipt list \<Rightarrow> bool" where
  "hard_failure_of cs rs =
     list_ex (\<lambda>(c, r). cr_verdict r = Verdict_failed \<and> vc_kind c \<noteq> Kind_semantic)
       (required_pairs cs rs)"

definition verify_all ::
  "(string \<Rightarrow> string) \<Rightarrow> judge \<Rightarrow> verifier list \<Rightarrow> nat \<Rightarrow> criterion list \<Rightarrow> evidence
     \<Rightarrow> json \<Rightarrow> json \<Rightarrow> json \<Rightarrow> nat \<times> verification_receipt py" where
  "verify_all digest judge vs used cs ev raw_id raw_turn raw_goal =
     (case verify_each digest judge vs used cs ev of
        (used', Inl e) \<Rightarrow> (used', Inl e)
      | (used', Inr rs) \<Rightarrow>
          (used',
           bindE (clean_text raw_id ''receipt_id'' 128) (\<lambda>i.
           bindE (clean_text raw_turn ''turn_id'' 128) (\<lambda>turn.
           bindE (clean_optional_text raw_goal ''goal_id'' 128) (\<lambda>goal.
             make_verification_receipt (JStr receipt_version) (JStr i) (JStr turn) (opt_str goal)
               (JStr (verdict_text (aggregate_verdict cs rs (length (required_pairs cs rs))
                  (length (filter (\<lambda>(c, r). cr_verdict r = Verdict_verified)
                     (required_pairs cs rs))))))
               rs (JBool (hard_failure_of cs rs))
               (JStr (disposition_text (retry_disposition_max (map cr_retry rs)))))))))"

section \<open>Compiling criteria\<close>

definition hex_digits :: "char list" where
  "hex_digits = ''0123456789abcdef''"

text \<open>\<open>value.partition(":")[2].strip()\<close> of a value that starts with the prefix.\<close>

definition after_prefix :: "string \<Rightarrow> string \<Rightarrow> string option" where
  "after_prefix prefix value =
     (if starts_with prefix value then Some (py_strip (drop (length prefix) value)) else None)"

definition legacy_artifact_payload :: "string \<Rightarrow> jdict option" where
  "legacy_artifact_payload value =
     (if value = ''exists'' then Some [(''check'', JStr ''exists'')]
      else if value \<in> set [''non-empty'', ''non_empty''] then Some [(''check'', JStr ''non_empty'')]
      else
        (case after_prefix ''contains:'' value of
           Some needle \<Rightarrow>
             (if needle = [] then None
              else Some [(''check'', JStr ''contains''), (''value'', JStr needle)])
         | None \<Rightarrow>
        (case after_prefix ''sha256:'' value of
           Some d \<Rightarrow>
             (if length (py_lower d) = 64 \<and> set (py_lower d) \<subseteq> set hex_digits
              then Some [(''check'', JStr ''sha256''), (''value'', JStr (py_lower d))] else None)
         | None \<Rightarrow> None)))"

text \<open>
  \<open>_criterion_identity\<close>; the first argument stands for the first twelve digits of the SHA-256 of
  the canonical JSON text of the seed.
\<close>

definition criterion_identity ::
  "(json \<Rightarrow> string) \<Rightarrow> string \<Rightarrow> json list \<Rightarrow> nat \<Rightarrow> jdict \<Rightarrow> string option \<Rightarrow> string" where
  "criterion_identity seed_digest prefix turns index owner hint =
     prefix @ '':'' @ seed_digest (JObj
       [(''prefix'', JStr prefix), (''source_turn_ids'', JList turns), (''index'', JInt (int index)),
        (''owner_identity'', JObj owner), (''target_hint'', opt_str hint)])"

record deliverable =
  dl_kind :: string
  dl_turns :: "string list"
  dl_hint :: "string option"
  dl_required :: bool
  dl_acceptance :: "json list"

text \<open>What the acceptance compiles to: the kind, the verifier and the payload.\<close>

definition compiled_acceptance ::
  "bool \<Rightarrow> json \<Rightarrow> string option \<Rightarrow> criterion_kind \<times> string \<times> json" where
  "compiled_acceptance semantic_fallback acceptance hint =
     (case acceptance of
        JStr s \<Rightarrow>
          (case legacy_artifact_payload s of
             Some d \<Rightarrow>
               (Kind_artifact, ''artifact'',
                JObj (case hint of None \<Rightarrow> d | Some h \<Rightarrow> dput d ''target_hint'' (JStr h)))
           | None \<Rightarrow>
               (if semantic_fallback then Kind_semantic else Kind_manual,
                if semantic_fallback then ''semantic_judge'' else ''manual_review'',
                JObj [(''rubric'', JStr s), (''target_hint'', opt_str hint)]))
      | JObj d \<Rightarrow>
          (if jget d ''kind'' = JStr ''file''
           then (Kind_artifact, ''artifact'',
                 JObj (case hint of
                         None \<Rightarrow> d
                       | Some h \<Rightarrow> if dget d ''target_hint'' = None
                                   then dput d ''target_hint'' (JStr h) else d))
           else if jget d ''kind'' = JStr ''tool_execution''
           then (Kind_tool_execution, ''tool_execution'', JObj d)
           else (Kind_manual, ''manual_review'',
                 JObj [(''reason'', JStr ''unsupported_acceptance_shape'')]))
      | _ \<Rightarrow> (Kind_manual, ''manual_review'',
              JObj [(''reason'', JStr ''unsupported_acceptance_shape'')]))"

definition compile_acceptance ::
  "(json \<Rightarrow> string) \<Rightarrow> bool \<Rightarrow> json \<Rightarrow> string \<Rightarrow> bool \<Rightarrow> string list \<Rightarrow> nat \<Rightarrow> jdict
     \<Rightarrow> string option \<Rightarrow> criterion py" where
  "compile_acceptance seed_digest semantic_fallback acceptance description req turns ordinal owner
     hint =
     (case compiled_acceptance semantic_fallback acceptance hint of
        (kind, verifier, payload) \<Rightarrow>
          make_criterion
            (JStr (criterion_identity seed_digest (kind_name kind) (map JStr turns) ordinal owner hint))
            (JStr (kind_name kind)) (JBool req) (JStr description) (map JStr turns)
            (JStr verifier) payload)"

text \<open>\<open>str(n)\<close>.\<close>

fun nat_text :: "nat \<Rightarrow> string" where
  "nat_text n = (if n < 10 then [char_of (48 + n)]
                 else nat_text (n div 10) @ [char_of (48 + n mod 10)])"

declare nat_text.simps [simp del]

definition enumerated :: "'a list \<Rightarrow> (nat \<times> 'a) list" where
  "enumerated xs = zip [0..<length xs] xs"

definition compile_deliverable ::
  "(json \<Rightarrow> string) \<Rightarrow> bool \<Rightarrow> nat \<Rightarrow> deliverable \<Rightarrow> criterion list py" where
  "compile_deliverable seed_digest semantic_fallback n d =
     traverseE (\<lambda>(i, acceptance).
       compile_acceptance seed_digest semantic_fallback acceptance
         (dl_kind d @ '' acceptance '' @ nat_text (i + 1)) (dl_required d) (dl_turns d) i
         [(''scope'', JStr ''deliverable''), (''ordinal'', JInt (int n)),
          (''kind'', JStr (dl_kind d)), (''target_hint'', opt_str (dl_hint d))] (dl_hint d))
       (enumerated (dl_acceptance d))"

text \<open>\<open>payload.get(key, default)\<close>.\<close>

definition jget_or :: "jdict \<Rightarrow> string \<Rightarrow> json \<Rightarrow> json" where
  "jget_or d k v = (case dget d k of None \<Rightarrow> v | Some w \<Rightarrow> w)"

text \<open>\<open>str(payload.get("target_hint") or payload.get("path") or "") or None\<close>; \<open>str\<close> is an argument.\<close>

definition obligation_hint :: "(json \<Rightarrow> string) \<Rightarrow> jdict \<Rightarrow> string option" where
  "obligation_hint text_of d =
     (let v = (if truthy (jget d ''target_hint'') then jget d ''target_hint''
               else if truthy (jget d ''path'') then jget d ''path'' else JStr []);
          s = (case v of JStr t \<Rightarrow> t | _ \<Rightarrow> text_of v)
      in if s = [] then None else Some s)"

definition compile_obligation ::
  "(json \<Rightarrow> string) \<Rightarrow> (json \<Rightarrow> string) \<Rightarrow> nat \<Rightarrow> json \<Rightarrow> criterion py" where
  "compile_obligation seed_digest text_of n obligation =
     bindE (frozen_mapping obligation ''artifact_obligation'') (\<lambda>d.
     bindE (py_tuple (jget_or d ''source_turn_ids'' (JList []))) (\<lambda>raw_turns.
     let turns = (if raw_turns = [] then [JStr ''artifact''] else raw_turns)
     in bindE (clean_text (jget_or d ''description'' (JStr ''artifact obligation''))
                ''artifact obligation description'' 400) (\<lambda>description.
        bindE (clean_text_tuple turns ''artifact obligation source_turn_ids'' 1 16 128)
          (\<lambda>clean_turns.
          make_criterion
            (JStr (criterion_identity seed_digest ''artifact'' turns n
               [(''scope'', JStr ''artifact_obligation''), (''ordinal'', JInt (int n))]
               (obligation_hint text_of d)))
            (JStr ''artifact'') (JBool (truthy (jget_or d ''required'' (JBool True))))
            (JStr description) (map JStr clean_turns) (JStr ''artifact'') (JObj d)))))"

definition compile_plan_item ::
  "(json \<Rightarrow> string) \<Rightarrow> bool \<Rightarrow> nat \<Rightarrow> plan_item \<Rightarrow> criterion list py" where
  "compile_plan_item seed_digest semantic_fallback n item =
     traverseE (\<lambda>(i, criterion).
       compile_acceptance seed_digest semantic_fallback (JStr criterion)
         (item_title item @ '' success criterion '' @ nat_text (i + 1)) True
         (source_turn_ids item) i
         [(''scope'', JStr ''plan_item''), (''ordinal'', JInt (int n)),
          (''item_id'', JStr (item_id item))] None)
       (enumerated (success_criteria item))"

definition compile_response_shape :: "(json \<Rightarrow> string) \<Rightarrow> json \<Rightarrow> criterion py" where
  "compile_response_shape seed_digest shape =
     bindE (frozen_mapping shape ''response_shape'') (\<lambda>d.
     bindE (clean_text (jget_or d ''description'' (JStr ''response shape''))
              ''response_shape.description'' 400) (\<lambda>description.
       make_criterion
         (JStr (criterion_identity seed_digest ''response_shape'' [JStr ''response''] 0 [] None))
         (JStr ''response_shape'') (JBool (truthy (jget_or d ''required'' (JBool True))))
         (JStr description) [JStr ''response''] (JStr ''response_shape'') (JObj d)))"

text \<open>\<open>VerificationPlanCompiler.compile\<close>.\<close>

definition compile_plan ::
  "(json \<Rightarrow> string) \<Rightarrow> (json \<Rightarrow> string) \<Rightarrow> bool \<Rightarrow> deliverable list \<Rightarrow> plan_item list \<Rightarrow> json list
     \<Rightarrow> json \<Rightarrow> criterion list py" where
  "compile_plan seed_digest text_of semantic_fallback deliverables items obligations shape =
     bindE (traverseE (\<lambda>(n, d). compile_deliverable seed_digest semantic_fallback n d)
              (enumerated deliverables)) (\<lambda>ds.
     bindE (traverseE (\<lambda>(n, ob). compile_obligation seed_digest text_of n ob)
              (enumerated obligations)) (\<lambda>os.
     bindE (traverseE (\<lambda>(n, i). compile_plan_item seed_digest semantic_fallback n i)
              (enumerated items)) (\<lambda>ps.
     bindE (if shape = JNull then Inr []
            else bindE (compile_response_shape seed_digest shape) (\<lambda>c. Inr [c])) (\<lambda>ss.
       Inr (concat ds @ os @ concat ps @ ss)))))"

text \<open>\<open>_bind_artifact_receipt_to_criteria\<close> of \<^verbatim>\<open>mochi/agents/engine.py\<close>.\<close>

definition bind_artifact_receipt :: "criterion list \<Rightarrow> string \<Rightarrow> criterion list py" where
  "bind_artifact_receipt cs receipt_id =
     (if receipt_id = [] then Inr cs
      else traverseE (\<lambda>c.
        if vc_kind c \<noteq> Kind_artifact \<or> dget (vc_payload c) ''receipt_id'' \<noteq> None then Inr c
        else make_criterion (JStr (vc_id c)) (JStr (kind_name (vc_kind c))) (JBool (vc_required c))
               (JStr (vc_description c)) (map JStr (vc_turns c)) (opt_str (vc_verifier c))
               (JObj (dput (vc_payload c) ''receipt_id'' (JStr receipt_id)))) cs)"

end
