(* ===== verification/Outcome_Proofs.thy ===== *)
theory Outcome_Proofs
  imports Outcome_Verifier
begin

text \<open>
  The lemmas on the completion gate: what a receipt built by a verifier carries, what each verifier
  needs for a positive verdict, the aggregation over the criteria and the budget of the judge.
\<close>

section \<open>Receipts built by the verifiers\<close>

lemma parse_verdict_text [simp]:
  "parse_text verdict_text verdicts (JStr (verdict_text v)) m = Inr v"
  by (cases v) (simp_all add: parse_text_def verdicts_def)

lemma parse_disposition_text [simp]:
  "parse_text disposition_text dispositions (JStr (disposition_text d)) m = Inr d"
  by (cases d) (simp_all add: parse_text_def dispositions_def)

lemma parse_kind_name [simp]:
  "parse_text kind_name criterion_kinds (JStr (kind_name k)) m = Inr k"
  by (cases k) (simp_all add: parse_text_def criterion_kinds_def)

lemma clean_disposition [simp]: "clean 128 (disposition_text d)"
  by (cases d) (simp_all, code_simp+)

lemma require_literal_text [simp]: "require_literal (JStr (disposition_text d)) = Inr d"
  by (simp add: require_literal_def clean_text_ident)

lemma clean_string_Inr: "clean_string v f n = Inr s \<longleftrightarrow> s = squeeze v \<and> clean n (squeeze v)"
  by (auto simp: clean_string_def clean_def Let_def)

lemma clean_texts_Inr:
  "clean_text_tuple (map JStr xs) f lo hi n = Inr ys \<longleftrightarrow>
     ys = dedup (map squeeze xs) \<and> (\<forall>x \<in> set xs. clean n (squeeze x)) \<and>
     lo \<le> length ys \<and> length ys \<le> hi"
proof -
  have t: "traverseE (\<lambda>v. clean_text v f n) (map JStr xs) = Inr zs \<longleftrightarrow>
      zs = map squeeze xs \<and> (\<forall>x \<in> set xs. clean n (squeeze x))" for zs
    unfolding traverseE_map
    by (induction xs arbitrary: zs) (auto simp: clean_text_def clean_string_Inr result_simps)
  show ?thesis
    by (auto simp: clean_text_tuple_def bindE_eq_Inr t Let_def split: if_splits)
qed

text \<open>A receipt for a criterion exists when its texts are clean, and it is the one written down.\<close>

lemma receipt_for_Inr:
  "receipt_for c i v refs reason (disposition_text d) = Inr r \<longleftrightarrow>
     clean 128 (squeeze (vc_id c)) \<and> clean 128 (squeeze i) \<and>
     (\<forall>x \<in> set refs. clean 128 (squeeze x)) \<and> length (dedup (map squeeze refs)) \<le> 16 \<and>
     clean 128 (squeeze reason) \<and>
     r = \<lparr>cr_id = squeeze (vc_id c), cr_verdict = v, cr_verifier = squeeze i,
          cr_refs = dedup (map squeeze refs), cr_reason = squeeze reason, cr_retry = d,
          cr_confidence = None\<rparr>"
  by (auto simp: receipt_for_def make_criterion_receipt_def result_simps clean_text_def
      clean_string_Inr clean_texts_Inr clean_confidence_def)

lemma receipt_for_fields:
  assumes "receipt_for c i v refs reason retry = Inr r"
  shows "cr_verdict r = v" and "cr_refs r = dedup (map squeeze refs)"
  using assms
  by (auto simp: receipt_for_def make_criterion_receipt_def result_simps clean_texts_Inr)

section \<open>What a positive verdict needs\<close>

lemma receipt_not_verified:
  "receipt_for c i v refs reason retry = Inr r \<Longrightarrow> v \<noteq> Verdict_verified \<Longrightarrow>
     cr_verdict r \<noteq> Verdict_verified"
  by (simp add: receipt_for_fields)

lemma text_given_Some: "text_given v = Some s \<longleftrightarrow> v = JStr s \<and> py_strip s \<noteq> []"
  by (cases v) (auto simp: text_given_def)

definition tool_backs :: "criterion \<Rightarrow> evidence \<Rightarrow> bool" where
  "tool_backs c ev \<longleftrightarrow>
     (\<exists>tool e expected. jget (vc_payload c) ''tool_name'' = JStr tool \<and>
        (dget (vc_payload c) ''expected_exit_code'' = None \<and> expected = 0 \<or>
         dget (vc_payload c) ''expected_exit_code'' = Some (JInt expected)) \<and>
        filter (tool_matches (vc_payload c) tool) (ev_tools ev) = [e] \<and>
        \<not> te_approval_pending e \<and> tool_succeeded e expected)"

definition artifact_backs :: "criterion \<Rightarrow> evidence \<Rightarrow> bool" where
  "artifact_backs c ev \<longleftrightarrow>
     (\<exists>receipt_id r. jget (vc_payload c) ''receipt_id'' = JStr receipt_id \<and>
        dget (ev_artifacts ev) receipt_id = Some r \<and>
        (text_given (jget (vc_payload c) ''target_hint'') = None \<and>
           art_verification_status r = ''verified'' \<or>
         (\<exists>hint t. jget (vc_payload c) ''target_hint'' = JStr hint \<and>
            filter (\<lambda>t. normalized_artifact_target (at_requested_path t) =
                        normalized_artifact_target hint) (art_targets r) = [t] \<and>
            at_verification_status t = ''verified'')))"

definition state_backs :: "criterion \<Rightarrow> evidence \<Rightarrow> bool" where
  "state_backs c ev \<longleftrightarrow>
     (\<exists>path v. jget (vc_payload c) ''path'' = JStr path \<and>
        resolve_state_path (ev_state ev) path = Some v \<and>
        ((\<exists>x. dget (vc_payload c) ''equals'' = Some x \<and> py_eq v x) \<or>
         (\<exists>x. dget (vc_payload c) ''contains'' = Some x \<and> state_contains v x)))"

definition shape_backs :: "criterion \<Rightarrow> evidence \<Rightarrow> bool" where
  "shape_backs c ev \<longleftrightarrow>
     (\<forall>k \<in> set (list_or_empty (jget (vc_payload c) ''required_keys'')).
        \<exists>d s. ev_response_json ev = Some d \<and> k = JStr s \<and> dget d s \<noteq> None) \<and>
     (\<forall>k \<in> set (list_or_empty (jget (vc_payload c) ''required_sections'')).
        \<exists>t s. ev_response_text ev = Some t \<and> k = JStr s \<and> contains s t)"

lemmas verdict_of_receipt = receipt_for_fields(1)

lemma tool_verified:
  assumes "tool_verify c ev = Inr r" and "cr_verdict r = Verdict_verified"
  shows "tool_backs c ev"
proof -
  note v = assms [unfolded tool_verify_def Let_def]
  obtain tool where tool: "text_given (jget (vc_payload c) ''tool_name'') = Some tool"
    using v by (auto dest: verdict_of_receipt split: option.splits)
  obtain expected where expected:
    "(case dget (vc_payload c) ''expected_exit_code'' of None \<Rightarrow> Some 0 | Some v \<Rightarrow> as_int v) =
       Some expected"
    using v tool
    by (cases "case dget (vc_payload c) ''expected_exit_code'' of None \<Rightarrow> Some 0 | Some v \<Rightarrow> as_int v")
      (auto dest: verdict_of_receipt)
  note v' = v [unfolded tool expected option.case]
  obtain e where e: "filter (tool_matches (vc_payload c) tool) (ev_tools ev) = [e]"
    using v' by (auto dest: verdict_of_receipt split: list.splits)
  have "\<not> te_approval_pending e \<and> tool_succeeded e expected"
    using v' unfolding e by (auto dest: verdict_of_receipt split: if_splits)
  with tool expected e show ?thesis
    by (auto simp: tool_backs_def text_given_Some split: option.splits)
qed

lemma artifact_verified:
  assumes "artifact_verify digest c ev = Inr r" and "cr_verdict r = Verdict_verified"
  shows "artifact_backs c ev"
proof -
  note v = assms [unfolded artifact_verify_def Let_def]
  obtain i where i: "text_given (jget (vc_payload c) ''receipt_id'') = Some i"
    using v by (auto dest: verdict_of_receipt split: option.splits)
  note v1 = v [unfolded i option.case]
  obtain a where a: "dget (ev_artifacts ev) i = Some a"
    using v1 by (cases "dget (ev_artifacts ev) i") (auto dest: verdict_of_receipt)
  note v2 = v1 [unfolded a option.case]
  show ?thesis
  proof (cases "text_given (jget (vc_payload c) ''target_hint'')")
    case None
    then show ?thesis
      using v2 i a by (auto simp: artifact_backs_def text_given_Some dest!: verdict_of_receipt
          split: if_splits)
  next
    case (Some hint)
    note v3 = v2 [unfolded Some option.case]
    obtain t where t: "filter (\<lambda>t. normalized_artifact_target (at_requested_path t) =
        normalized_artifact_target hint) (art_targets a) = [t]"
      using v3 by (auto dest: verdict_of_receipt split: list.splits)
    have "at_verification_status t = ''verified''"
      using v3 unfolding t by (auto dest!: verdict_of_receipt split: if_splits)
    with i a Some t show ?thesis by (auto simp: artifact_backs_def text_given_Some)
  qed
qed

lemma state_verified:
  assumes "state_verify c ev = Inr r" and "cr_verdict r = Verdict_verified"
  shows "state_backs c ev"
proof -
  note v = assms [unfolded state_verify_def Let_def]
  obtain path where path: "text_given (jget (vc_payload c) ''path'') = Some path"
    using v by (auto dest: verdict_of_receipt split: option.splits)
  note v1 = v [unfolded path option.case]
  obtain x where x: "resolve_state_path (ev_state ev) path = Some x"
    using v1 by (cases "resolve_state_path (ev_state ev) path") (auto dest: verdict_of_receipt)
  note v2 = v1 [unfolded x option.case]
  have "(\<exists>y. dget (vc_payload c) ''equals'' = Some y \<and> py_eq x y) \<or>
      (\<exists>y. dget (vc_payload c) ''contains'' = Some y \<and> state_contains x y)"
    using v2
    by (cases "dget (vc_payload c) ''equals''"; cases "dget (vc_payload c) ''contains''")
      (auto dest: verdict_of_receipt split: if_splits)
  with path x show ?thesis by (auto simp: state_backs_def text_given_Some)
qed

lemma key_present: "key_missing response k = Inr False \<longleftrightarrow>
    (\<exists>d s. response = Some d \<and> k = JStr s \<and> dget d s \<noteq> None)"
  by (auto simp: key_missing_def split: option.splits json.splits)

lemma shape_verified:
  assumes "shape_verify c ev = Inr r" and "cr_verdict r = Verdict_verified"
  shows "shape_backs c ev"
proof -
  let ?keys = "list_or_empty (jget (vc_payload c) ''required_keys'')"
  have given: "\<not> (ev_response_json ev = None \<and> ev_response_text ev = None)"
  proof
    assume "ev_response_json ev = None \<and> ev_response_text ev = None"
    then have "receipt_for c ''response_shape'' Verdict_unverified [] ''response_missing''
        ''requires_replan'' = Inr r"
      using assms(1) by (simp add: shape_verify_def)
    from verdict_of_receipt [OF this] assms(2) show False by simp
  qed
  then have "bindE (traverseE (key_missing (ev_response_json ev)) ?keys) (\<lambda>missing.
       if list_ex id missing \<or> list_ex (section_missing (ev_response_text ev))
            (list_or_empty (jget (vc_payload c) ''required_sections''))
       then receipt_for c ''response_shape'' Verdict_failed [''response'']
              ''response_shape_mismatch'' ''requires_replan''
       else receipt_for c ''response_shape'' Verdict_verified [''response'']
              ''response_shape_verified'' ''none'') = Inr r"
    using assms(1) unfolding shape_verify_def Let_def by (simp only: if_False)
  then obtain missing where m: "traverseE (key_missing (ev_response_json ev)) ?keys = Inr missing"
    and out: "\<not> (list_ex id missing \<or> list_ex (section_missing (ev_response_text ev))
         (list_or_empty (jget (vc_payload c) ''required_sections'')))"
    using assms(2) by (auto simp: bindE_eq_Inr dest: verdict_of_receipt split: if_splits)
  have "key_missing (ev_response_json ev) k = Inr False" if "k \<in> set ?keys" for k
    using m that out
    by (auto simp: traverseE_Inr_iff list_all2_conv_all_nth list_ex_iff in_set_conv_nth)
  moreover have "\<exists>t u. ev_response_text ev = Some t \<and> k = JStr u \<and> contains u t"
    if "k \<in> set (list_or_empty (jget (vc_payload c) ''required_sections''))" for k
  proof -
    have "\<not> section_missing (ev_response_text ev) k" using out that by (auto simp: list_ex_iff)
    then show ?thesis by (auto simp: section_missing_def split: json.splits option.splits)
  qed
  ultimately show ?thesis unfolding shape_backs_def key_present by blast
qed

lemma semantic_verified:
  assumes "semantic_verify digest judge m used c ev = (used', Inr r)"
    and "cr_verdict r = Verdict_verified"
  shows "used < m \<and> cr_refs r \<noteq> [] \<and> set (cr_refs r) \<subseteq> set (recognized_evidence_refs digest ev) \<and>
    (\<exists>raw. judge used c ev = Judged raw)"
proof -
  have "used < m"
    using assms by (auto simp: semantic_verify_def Let_def dest: verdict_of_receipt split: if_splits)
  moreover obtain raw where raw: "judge used c ev = Judged raw"
    using assms \<open>used < m\<close>
    by (auto simp: semantic_verify_def Let_def dest: verdict_of_receipt split: judge_reply.splits)
  moreover have "semantic_receipt digest c ev raw = Inr r"
    using assms \<open>used < m\<close> raw
    by (auto simp: semantic_verify_def Let_def dest: verdict_of_receipt split: sum.splits)
  ultimately show ?thesis
    using assms(2) by (auto simp: semantic_receipt_def result_simps split: json.splits)
qed

lemma manual_not_verified: "manual_verify c = Inr r \<Longrightarrow> cr_verdict r \<noteq> Verdict_verified"
  by (auto simp: manual_verify_def dest: verdict_of_receipt)

text \<open>What stands behind a positive verdict, by the kind of the criterion.\<close>

fun backed ::
  "(string \<Rightarrow> string) \<Rightarrow> criterion \<Rightarrow> evidence \<Rightarrow> criterion_receipt \<Rightarrow> criterion_kind \<Rightarrow> bool" where
  "backed digest c ev r Kind_artifact = artifact_backs c ev"
| "backed digest c ev r Kind_tool_execution = tool_backs c ev"
| "backed digest c ev r Kind_state = state_backs c ev"
| "backed digest c ev r Kind_response_shape = shape_backs c ev"
| "backed digest c ev r Kind_semantic =
     (cr_refs r \<noteq> [] \<and> set (cr_refs r) \<subseteq> set (recognized_evidence_refs digest ev))"
| "backed digest c ev r Kind_manual = False"

lemma run_verifier_backed:
  assumes "run_verifier digest judge v used c ev = (used', Inr r)"
    and "cr_verdict r = Verdict_verified"
  shows "backed digest c ev r (supported_kind v)"
  using assms
  by (cases v)
    (auto dest: artifact_verified tool_verified state_verified shape_verified semantic_verified
      manual_not_verified)

lemma verify_one_backed:
  assumes "verify_one digest judge vs used c ev = (used', Inr r)"
    and "cr_verdict r = Verdict_verified"
  shows "backed digest c ev r (vc_kind c)"
proof (cases "find (responsible c) vs")
  case None
  then show ?thesis using assms by (auto simp: verify_one_def dest: verdict_of_receipt)
next
  case (Some v)
  then have "responsible c v" by (auto simp: find_Some_iff)
  then have "supported_kind v = vc_kind c" by (simp add: responsible_def)
  with run_verifier_backed [of digest judge v used c ev used' r] assms Some show ?thesis
    by (simp add: verify_one_def)
qed

lemma verify_each_backed:
  "verify_each digest judge vs used cs ev = (used', Inr rs) \<Longrightarrow>
     list_all2 (\<lambda>c r. cr_verdict r = Verdict_verified \<longrightarrow> backed digest c ev r (vc_kind c)) cs rs"
proof (induction cs arbitrary: used used' rs)
  case (Cons c cs)
  from Cons.prems obtain u r rs' where one: "verify_one digest judge vs used c ev = (u, Inr r)"
    and each: "verify_each digest judge vs u cs ev = (used', Inr rs')" and rs: "rs = r # rs'"
    by (auto split: prod.splits sum.splits)
  show ?case
    using Cons.IH [OF each] verify_one_backed [OF one] rs by simp
qed simp

section \<open>The budget of the judge\<close>

text \<open>The questions the registry may ask: the limit of its semantic verifier.\<close>

fun judge_limit :: "verifier list \<Rightarrow> nat" where
  "judge_limit [] = 0"
| "judge_limit (Semantic_verifier n # vs) = max n (judge_limit vs)"
| "judge_limit (_ # vs) = judge_limit vs"

lemma judge_limit_mem: "Semantic_verifier n \<in> set vs \<Longrightarrow> n \<le> judge_limit vs"
  by (induction vs rule: judge_limit.induct) auto

lemma run_verifier_used:
  assumes "run_verifier digest judge v used c ev = (used', x)"
  shows "used' = used \<or>
    (\<exists>n. v = Semantic_verifier n \<and> used < n \<and> used' = Suc used)"
  using assms by (cases v) (auto simp: semantic_verify_def Let_def split: if_splits)

lemma verify_one_used:
  assumes "verify_one digest judge vs used c ev = (used', x)"
  shows "used \<le> used' \<and> used' \<le> max used (judge_limit vs) \<and>
    used' \<le> used + of_bool (vc_kind c = Kind_semantic)"
proof (cases "find (responsible c) vs")
  case None
  then show ?thesis using assms by (simp add: verify_one_def)
next
  case (Some v)
  then have v: "v \<in> set vs" and kind: "supported_kind v = vc_kind c"
    by (auto simp: find_Some_iff responsible_def)
  have "run_verifier digest judge v used c ev = (used', x)"
    using assms Some by (simp add: verify_one_def)
  from run_verifier_used [OF this] show ?thesis
  proof
    assume "\<exists>n. v = Semantic_verifier n \<and> used < n \<and> used' = Suc used"
    then obtain n where n: "v = Semantic_verifier n" "used < n" "used' = Suc used" by blast
    have "n \<le> judge_limit vs" using judge_limit_mem v n(1) by blast
    with n kind show ?thesis by auto
  qed simp
qed

lemma verify_each_used:
  "verify_each digest judge vs used cs ev = (used', x) \<Longrightarrow>
     used \<le> used' \<and> used' \<le> max used (judge_limit vs) \<and>
     used' \<le> used + length (filter (\<lambda>c. vc_kind c = Kind_semantic) cs)"
proof (induction cs arbitrary: used used' x)
  case (Cons c cs)
  obtain u y where one: "verify_one digest judge vs used c ev = (u, y)" by fastforce
  note bound = verify_one_used [OF one]
  show ?case
  proof (cases y)
    case (Inl e)
    with Cons.prems one bound show ?thesis by (auto split: if_splits)
  next
    case (Inr r)
    obtain u' z where each: "verify_each digest judge vs u cs ev = (u', z)" by fastforce
    have "used' = u'" using Cons.prems one Inr each by (auto split: sum.splits)
    with Cons.IH [OF each] bound show ?thesis by (auto split: if_splits)
  qed
qed simp

section \<open>Aggregation\<close>

lemma verify_all_parts:
  assumes "verify_all digest judge vs used cs ev i t g = (used', Inr r)"
  shows "verify_each digest judge vs used cs ev = (used', Inr (vr_criteria r))"
    and "vr_verdict r = aggregate_verdict cs (vr_criteria r)
      (length (required_pairs cs (vr_criteria r)))
      (length (filter (\<lambda>(c, r). cr_verdict r = Verdict_verified)
         (required_pairs cs (vr_criteria r))))"
    and "vr_hard_failure r = hard_failure_of cs (vr_criteria r)"
    and "vr_retry r = retry_disposition_max (map cr_retry (vr_criteria r))"
proof -
  from assms obtain rs where each: "verify_each digest judge vs used cs ev = (used', Inr rs)"
    by (auto simp: verify_all_def split: prod.splits sum.splits)
  have "vr_criteria r = rs \<and> vr_verdict r = aggregate_verdict cs rs (length (required_pairs cs rs))
      (length (filter (\<lambda>(c, r). cr_verdict r = Verdict_verified) (required_pairs cs rs))) \<and>
    vr_hard_failure r = hard_failure_of cs rs \<and>
    vr_retry r = retry_disposition_max (map cr_retry rs)"
    using assms each
    by (auto simp: verify_all_def make_verification_receipt_def result_simps clean_bool_def)
  with each show "verify_each digest judge vs used cs ev = (used', Inr (vr_criteria r))"
    and "vr_verdict r = aggregate_verdict cs (vr_criteria r)
      (length (required_pairs cs (vr_criteria r)))
      (length (filter (\<lambda>(c, r). cr_verdict r = Verdict_verified)
         (required_pairs cs (vr_criteria r))))"
    and "vr_hard_failure r = hard_failure_of cs (vr_criteria r)"
    and "vr_retry r = retry_disposition_max (map cr_retry (vr_criteria r))"
    by auto
qed

lemma max_disposition_max:
  "max_disposition d ds \<in> set (d # ds) \<and>
     (\<forall>x \<in> set (d # ds). retry_precedence x \<le> retry_precedence (max_disposition d ds))"
proof (induction ds arbitrary: d)
  case (Cons a ds)
  show ?case
    using Cons.IH [of a] Cons.IH [of d]
    by (cases "retry_precedence d < retry_precedence a") auto
qed simp

lemma retry_max_spec:
  "retry_disposition_max ds \<in> insert Retry_none (set ds) \<and>
     (\<forall>x \<in> set ds. retry_precedence x \<le> retry_precedence (retry_disposition_max ds))"
  using max_disposition_max by (cases ds) (simp_all add: retry_disposition_max_def)

lemma required_pairs_empty:
  "length (required_pairs cs rs) = 0 \<longleftrightarrow> (\<forall>(c, r) \<in> set (zip cs rs). \<not> vc_required c)"
  by (auto simp: required_pairs_def filter_empty_conv)

lemma verified_pairs_empty:
  "length (filter (\<lambda>(c, r). cr_verdict r = Verdict_verified) (required_pairs cs rs)) = 0 \<longleftrightarrow>
     (\<forall>(c, r) \<in> set (zip cs rs). vc_required c \<longrightarrow> cr_verdict r \<noteq> Verdict_verified)"
  by (auto simp: required_pairs_def filter_empty_conv)

text \<open>The verdict as a statement on the pairs of criterion and receipt.\<close>

lemma verdict_cases: "v \<in> {Verdict_verified, Verdict_failed, Verdict_unverified, Verdict_not_applicable}"
  by (cases v) simp_all

lemma some_receipt:
  "length rs = length cs \<Longrightarrow> r \<in> set rs \<Longrightarrow> \<exists>c. (c, r) \<in> set (zip cs rs)"
  by (metis in_set_impl_in_set_zip2)

lemma aggregate_verified:
  assumes "length rs = length cs"
  shows "aggregate_verdict cs rs (length (required_pairs cs rs))
      (length (filter (\<lambda>(c, r). cr_verdict r = Verdict_verified) (required_pairs cs rs))) =
        Verdict_verified \<longleftrightarrow>
    (\<forall>(c, r) \<in> set (zip cs rs). vc_required c \<longrightarrow> cr_verdict r = Verdict_verified) \<and>
    (\<exists>(c, r) \<in> set (zip cs rs). cr_verdict r = Verdict_verified)"
proof (cases "\<forall>(c, r) \<in> set (zip cs rs). vc_required c \<longrightarrow> cr_verdict r = Verdict_verified")
  case False
  then obtain c r where "(c, r) \<in> set (zip cs rs)" "vc_required c" "cr_verdict r \<noteq> Verdict_verified"
    by blast
  then have "list_ex (\<lambda>(c, r). vc_required c \<and> cr_verdict r = Verdict_failed) (zip cs rs) \<or>
      list_ex (\<lambda>(c, r). vc_required c \<and>
        cr_verdict r \<in> set [Verdict_unverified, Verdict_not_applicable]) (zip cs rs)"
    using verdict_cases [of "cr_verdict r"] unfolding list_ex_iff by fastforce
  with False show ?thesis by (auto simp: aggregate_verdict_def)
next
  case True
  then have no: "\<not> list_ex (\<lambda>(c, r). vc_required c \<and> cr_verdict r = Verdict_failed) (zip cs rs)"
    "\<not> list_ex (\<lambda>(c, r). vc_required c \<and>
        cr_verdict r \<in> set [Verdict_unverified, Verdict_not_applicable]) (zip cs rs)"
    by (auto simp: list_ex_iff)
  have any: "list_ex (\<lambda>r. cr_verdict r = Verdict_verified) rs \<longleftrightarrow>
      (\<exists>(c, r) \<in> set (zip cs rs). cr_verdict r = Verdict_verified)"
    using some_receipt [OF assms] by (auto simp: list_ex_iff dest: set_zip_rightD)
  show ?thesis
  proof (cases "\<exists>(c, r) \<in> set (zip cs rs). vc_required c")
    case True
    then have "length (required_pairs cs rs) \<noteq> 0"
      "length (filter (\<lambda>(c, r). cr_verdict r = Verdict_verified) (required_pairs cs rs)) \<noteq> 0"
      unfolding required_pairs_empty verified_pairs_empty
      using \<open>\<forall>(c, r) \<in> set (zip cs rs). vc_required c \<longrightarrow> cr_verdict r = Verdict_verified\<close> by auto
    moreover have "cs \<noteq> []" using True by auto
    moreover have "\<exists>(c, r) \<in> set (zip cs rs). cr_verdict r = Verdict_verified"
      using True \<open>\<forall>(c, r) \<in> set (zip cs rs). vc_required c \<longrightarrow> cr_verdict r = Verdict_verified\<close>
      by blast
    ultimately show ?thesis
      unfolding aggregate_verdict_def if_not_P [OF no(1)] if_not_P [OF no(2)]
      using \<open>\<forall>(c, r) \<in> set (zip cs rs). vc_required c \<longrightarrow> cr_verdict r = Verdict_verified\<close>
      by simp
  next
    case False
    then have "length (required_pairs cs rs) = 0" unfolding required_pairs_empty by auto
    then show ?thesis
      unfolding aggregate_verdict_def if_not_P [OF no(1)] if_not_P [OF no(2)] any
      using True by auto
  qed
qed

lemma hard_failure_pairs:
  "hard_failure_of cs rs \<longleftrightarrow> (\<exists>(c, r) \<in> set (zip cs rs).
     vc_required c \<and> vc_kind c \<noteq> Kind_semantic \<and> cr_verdict r = Verdict_failed)"
  by (auto simp: hard_failure_of_def list_ex_iff required_pairs_def)

lemma hard_failure_failed: "hard_failure_of cs rs \<Longrightarrow> aggregate_verdict cs rs n m = Verdict_failed"
  unfolding hard_failure_pairs
  by (fastforce simp: aggregate_verdict_def list_ex_iff)

end
