(* ===== verification/Outcome_Total.thy ===== *)
theory Outcome_Total
  imports Outcome_Proofs
begin

text \<open>
  When verification answers: every constructor a verifier calls may raise on a text that is blank or
  too long, so a turn has a receipt when its criteria and its evidence keep the limits stated here.
\<close>

lemma length_dedup_acc: "length (dedup_acc seen xs) \<le> length xs"
  by (induction xs arbitrary: seen) (auto intro: le_SucI)

lemma length_dedup: "length (dedup xs) \<le> length xs"
  by (simp add: dedup_def length_dedup_acc)

definition gate_literals :: "string list" where
  "gate_literals =
     [''artifact'', ''tool_execution'', ''state'', ''response_shape'', ''semantic_judge'',
      ''manual_review'', ''unsupported'', ''unsupported_criterion'',
      ''artifact_receipt_id_missing'', ''artifact_receipt_missing'', ''artifact_target_missing'',
      ''artifact_target_ambiguous'', ''tool_name_missing'', ''expected_exit_code_invalid'',
      ''tool_execution_evidence_missing'', ''tool_execution_evidence_ambiguous'',
      ''tool_execution_requires_approval'', ''tool_execution_verified'', ''tool_execution_failed'',
      ''state_path_missing'', ''state_equals_match'', ''state_equals_mismatch'',
      ''state_contains_match'', ''state_contains_mismatch'', ''state_verifier_payload_unsupported'',
      ''response_missing'', ''response_shape_mismatch'', ''response_shape_verified'', ''response'',
      ''semantic_judge_budget_exhausted'', ''semantic_judge_timeout'', ''semantic_judge_error'',
      ''semantic_judge_malformed'', ''manual_review_required'',
      ''artifact_verified'', ''artifact_failed'', ''artifact_partial'', ''artifact_not_run'',
      ''artifact_target_verified'', ''artifact_target_failed'', ''artifact_target_partial'',
      ''artifact_target_not_run'']"

text \<open>The code points from 64 to 127, letters and the underscore among them, are no white space.\<close>

definition letter_like :: "char \<Rightarrow> bool" where
  "letter_like c \<longleftrightarrow> digit6 c \<and> \<not> digit7 c"

lemma letter_no_space: "letter_like c \<Longrightarrow> \<not> py_space c"
proof (cases c)
  case (Char b0 b1 b2 b3 b4 b5 b6 b7)
  assume "letter_like c"
  then have "64 \<le> (of_char c :: nat)" "(of_char c :: nat) < 128"
    by (simp_all add: Char letter_like_def of_char_Char)
  then show ?thesis by (auto simp: py_space_def)
qed

lemma gate_literals_words: "list_all (\<lambda>s. s \<noteq> [] \<and> length s \<le> 128 \<and> list_all letter_like s) gate_literals"
  by code_simp

lemma word_clean: "is_word s \<Longrightarrow> length s \<le> n \<Longrightarrow> clean n s"
  by (simp add: clean_def squeeze_def py_split_word py_join_def) (simp add: is_word_def)

lemma gate_literals_clean: "list_all (clean 128) gate_literals"
  unfolding list_all_iff
proof
  fix s assume "s \<in> set gate_literals"
  then have "s \<noteq> []" "length s \<le> 128" "list_all letter_like s"
    using gate_literals_words by (auto simp: list_all_iff)
  then show "clean 128 s"
    by (intro word_clean) (auto simp: is_word_def list_all_iff letter_no_space)
qed

lemma gate_literal [simp]:
  "''artifact'' \<in> set gate_literals"
  "''tool_execution'' \<in> set gate_literals"
  "''state'' \<in> set gate_literals"
  "''response_shape'' \<in> set gate_literals"
  "''semantic_judge'' \<in> set gate_literals"
  "''manual_review'' \<in> set gate_literals"
  "''unsupported'' \<in> set gate_literals"
  "''unsupported_criterion'' \<in> set gate_literals"
  "''artifact_receipt_id_missing'' \<in> set gate_literals"
  "''artifact_receipt_missing'' \<in> set gate_literals"
  "''artifact_target_missing'' \<in> set gate_literals"
  "''artifact_target_ambiguous'' \<in> set gate_literals"
  "''tool_name_missing'' \<in> set gate_literals"
  "''expected_exit_code_invalid'' \<in> set gate_literals"
  "''tool_execution_evidence_missing'' \<in> set gate_literals"
  "''tool_execution_evidence_ambiguous'' \<in> set gate_literals"
  "''tool_execution_requires_approval'' \<in> set gate_literals"
  "''tool_execution_verified'' \<in> set gate_literals"
  "''tool_execution_failed'' \<in> set gate_literals"
  "''state_path_missing'' \<in> set gate_literals"
  "''state_equals_match'' \<in> set gate_literals"
  "''state_equals_mismatch'' \<in> set gate_literals"
  "''state_contains_match'' \<in> set gate_literals"
  "''state_contains_mismatch'' \<in> set gate_literals"
  "''state_verifier_payload_unsupported'' \<in> set gate_literals"
  "''response_missing'' \<in> set gate_literals"
  "''response_shape_mismatch'' \<in> set gate_literals"
  "''response_shape_verified'' \<in> set gate_literals"
  "''response'' \<in> set gate_literals"
  "''semantic_judge_budget_exhausted'' \<in> set gate_literals"
  "''semantic_judge_timeout'' \<in> set gate_literals"
  "''semantic_judge_error'' \<in> set gate_literals"
  "''semantic_judge_malformed'' \<in> set gate_literals"
  "''manual_review_required'' \<in> set gate_literals"
  "''artifact_verified'' \<in> set gate_literals"
  "''artifact_failed'' \<in> set gate_literals"
  "''artifact_partial'' \<in> set gate_literals"
  "''artifact_not_run'' \<in> set gate_literals"
  "''artifact_target_verified'' \<in> set gate_literals"
  "''artifact_target_failed'' \<in> set gate_literals"
  "''artifact_target_partial'' \<in> set gate_literals"
  "''artifact_target_not_run'' \<in> set gate_literals"
  by (simp_all only: gate_literals_def list.set insert_iff simp_thms)

lemma literal_clean: "s \<in> set gate_literals \<Longrightarrow> clean 128 (squeeze s)"
  using gate_literals_clean by (auto simp: list_all_iff clean_def)

definition verification_statuses :: "string list" where
  "verification_statuses = [''verified'', ''failed'', ''partial'', ''not_run'']"

definition disposition_texts :: "string list" where
  "disposition_texts = map disposition_text dispositions"

lemma disposition_text_mem: "s \<in> set disposition_texts \<longleftrightarrow> (\<exists>d. s = disposition_text d)"
proof
  assume "\<exists>d. s = disposition_text d"
  then obtain d where "s = disposition_text d" by blast
  then show "s \<in> set disposition_texts" by (cases d) (auto simp: disposition_texts_def dispositions_def)
qed (auto simp: disposition_texts_def)

text \<open>A criterion as its constructor leaves it.\<close>

definition criterion_ok :: "criterion \<Rightarrow> bool" where
  "criterion_ok c \<longleftrightarrow> clean 128 (vc_id c) \<and> pred_option (clean 128) (vc_verifier c)"

definition short_text :: "string \<Rightarrow> bool" where
  "short_text s \<longleftrightarrow> clean 128 (squeeze s)"

fun hashable :: "json \<Rightarrow> bool" where
  "hashable (JList _) = False"
| "hashable (JObj _) = False"
| "hashable _ = True"

definition artifact_ok :: "(string \<Rightarrow> string) \<Rightarrow> string \<Rightarrow> artifact_receipt \<Rightarrow> bool" where
  "artifact_ok digest i a \<longleftrightarrow> short_text i \<and> art_retry a \<in> set disposition_texts \<and>
     art_verification_status a \<in> set verification_statuses \<and>
     list_all (\<lambda>t. at_verification_status t \<in> set verification_statuses \<and>
        short_text (artifact_target_evidence_ref digest i (at_requested_path t))) (art_targets a)"

fun answerable :: "(string \<Rightarrow> string) \<Rightarrow> evidence \<Rightarrow> jdict \<Rightarrow> criterion_kind \<Rightarrow> bool" where
  "answerable digest ev p Kind_artifact = list_all (\<lambda>(i, a). artifact_ok digest i a) (ev_artifacts ev)"
| "answerable digest ev p Kind_tool_execution =
     (length (ev_tools ev) \<le> 16 \<and> list_all (\<lambda>e. short_text (te_call_id e)) (ev_tools ev))"
| "answerable digest ev p Kind_state =
     (case text_given (jget p ''path'') of None \<Rightarrow> True | Some path \<Rightarrow> short_text (''state:'' @ path))"
| "answerable digest ev p Kind_response_shape =
     list_all hashable (list_or_empty (jget p ''required_keys''))"
| "answerable digest ev p Kind_semantic = True"
| "answerable digest ev p Kind_manual = True"

lemma receipt_exists:
  assumes "criterion_ok c" and "short_text i" and "\<forall>x \<in> set refs. short_text x"
    and "length refs \<le> 16" and "short_text reason" and "retry \<in> set disposition_texts"
  shows "\<exists>r. receipt_for c i v refs reason retry = Inr r"
proof -
  obtain d where d: "retry = disposition_text d"
    using assms(6) unfolding disposition_text_mem by blast
  have "length (dedup (map squeeze refs)) \<le> 16"
    using length_dedup [of "map squeeze refs"] assms(4) by simp
  then show ?thesis
    using assms unfolding d receipt_for_Inr by (auto simp: criterion_ok_def short_text_def clean_def)
qed

lemma fixed_receipt:
  assumes "criterion_ok c" and "i \<in> set gate_literals" and "\<forall>x \<in> set refs. short_text x"
    and "length refs \<le> 16" and "reason \<in> set gate_literals" and "retry \<in> set disposition_texts"
  shows "\<exists>r. receipt_for c i v refs reason retry = Inr r"
  by (rule receipt_exists) (use assms literal_clean in \<open>auto simp: short_text_def\<close>)

lemma retry_texts [simp]:
  "''none'' \<in> set disposition_texts" "''requires_replan'' \<in> set disposition_texts"
  "''requires_approval'' \<in> set disposition_texts"
  by (simp_all add: disposition_texts_def dispositions_def)

lemma response_short [simp]: "short_text ''response''"
  by (simp add: short_text_def literal_clean)

lemma tool_answers:
  assumes ok: "criterion_ok c" and "answerable digest ev p Kind_tool_execution"
  shows "\<exists>r. tool_verify c ev = Inr r"
proof -
  let ?code = "case dget (vc_payload c) ''expected_exit_code'' of None \<Rightarrow> Some 0 | Some v \<Rightarrow> as_int v"
  have sub: "\<forall>x \<in> set (map te_call_id (filter P (ev_tools ev))). short_text x"
    and len: "length (map te_call_id (filter P (ev_tools ev))) \<le> 16" for P
    using assms(2) by (auto simp: list_all_iff intro: order.trans [OF length_filter_le])
  have answer: "\<exists>r. receipt_for c ''tool_execution'' v [] reason retry = Inr r"
    if "reason \<in> set gate_literals" "retry \<in> set disposition_texts" for v reason retry
    by (rule fixed_receipt) (use ok that in simp_all)
  show ?thesis
  proof (cases "text_given (jget (vc_payload c) ''tool_name'')")
    case None
    then show ?thesis by (simp add: tool_verify_def answer)
  next
    case (Some tool)
    define es where "es = filter (tool_matches (vc_payload c) tool) (ev_tools ev)"
    have es: "\<forall>x \<in> set (map te_call_id es). short_text x" "length (map te_call_id es) \<le> 16"
      unfolding es_def by (rule sub, rule len)
    have with_refs: "\<exists>r. receipt_for c ''tool_execution'' v (map te_call_id es) reason retry = Inr r"
      if "reason \<in> set gate_literals" "retry \<in> set disposition_texts" for v reason retry
      by (rule fixed_receipt) (use ok that es in simp_all)
    show ?thesis
    proof (cases ?code)
      case None
      with Some show ?thesis by (simp add: tool_verify_def answer)
    next
      case code: (Some expected)
      note unfold = tool_verify_def Let_def Some code option.case es_def [symmetric]
      consider "es = []" | e where "es = [e]" | e e' r where "es = e # e' # r"
        by (metis list.exhaust)
      then show ?thesis
      proof cases
        case 1
        then show ?thesis unfolding unfold by (simp add: answer)
      next
        case 2
        then show ?thesis unfolding unfold using with_refs by simp
      next
        case 3
        then show ?thesis unfolding unfold using with_refs by simp
      qed
    qed
  qed
qed

lemma artifact_answers:
  assumes ok: "criterion_ok c" and "answerable digest ev p Kind_artifact"
  shows "\<exists>r. artifact_verify digest c ev = Inr r"
proof -
  have answer: "\<exists>r. receipt_for c ''artifact'' v [] reason retry = Inr r"
    if "reason \<in> set gate_literals" "retry \<in> set disposition_texts" for v reason retry
    by (rule fixed_receipt) (use ok that in simp_all)
  show ?thesis
  proof (cases "text_given (jget (vc_payload c) ''receipt_id'')")
    case None
    then show ?thesis by (simp add: artifact_verify_def answer)
  next
    case (Some i)
    show ?thesis
    proof (cases "dget (ev_artifacts ev) i")
      case None
      with Some show ?thesis by (simp add: artifact_verify_def answer)
    next
      case a: (Some a)
      then have "(i, a) \<in> set (ev_artifacts ev)" by (rule map_of_SomeD)
      then have fit: "artifact_ok digest i a" using assms(2) by (auto simp: list_all_iff)
      have one: "\<exists>r. receipt_for c ''artifact'' v [ref] reason retry = Inr r"
        if "short_text ref" "reason \<in> set gate_literals" "retry \<in> set disposition_texts"
        for v ref reason retry
        by (rule fixed_receipt) (use ok that in simp_all)
      have lit: "st \<in> set verification_statuses \<Longrightarrow> ''artifact_'' @ st \<in> set gate_literals"
        "st \<in> set verification_statuses \<Longrightarrow> ''artifact_target_'' @ st \<in> set gate_literals" for st
        by (auto simp: verification_statuses_def)
      note unfold = artifact_verify_def Let_def Some a option.case
      show ?thesis
      proof (cases "text_given (jget (vc_payload c) ''target_hint'')")
        case None
        have "\<exists>r. receipt_for c ''artifact'' v [i] (''artifact_'' @ art_verification_status a)
            (art_retry a) = Inr r" for v
          by (rule one) (use fit lit in \<open>auto simp: artifact_ok_def\<close>)
        then show ?thesis unfolding unfold None by simp
      next
        case hint: (Some hint)
        define ts where "ts = filter (\<lambda>t. normalized_artifact_target (at_requested_path t) =
            normalized_artifact_target hint) (art_targets a)"
        consider "ts = []" | t where "ts = [t]" | t t' r where "ts = t # t' # r"
          by (metis list.exhaust)
        then show ?thesis
        proof cases
          case 2
          then have "t \<in> set ts" by simp
          then have "t \<in> set (art_targets a)" by (simp add: ts_def)
          then have "\<exists>r. receipt_for c ''artifact'' v
              [artifact_target_evidence_ref digest i (at_requested_path t)]
              (''artifact_target_'' @ at_verification_status t) (art_retry a) = Inr r" for v
            by (intro one) (use fit lit in \<open>auto simp: artifact_ok_def list_all_iff\<close>)
          then show ?thesis unfolding unfold hint ts_def [symmetric] 2 by simp
        qed (use fit one in \<open>simp_all add: unfold hint ts_def [symmetric] artifact_ok_def\<close>)
      qed
    qed
  qed
qed

lemma state_answers:
  assumes ok: "criterion_ok c" and fit: "answerable digest ev (vc_payload c) Kind_state"
  shows "\<exists>r. state_verify c ev = Inr r"
proof (cases "text_given (jget (vc_payload c) ''path'')")
  case None
  have "\<exists>r. receipt_for c ''state'' Verdict_unverified [] ''state_path_missing'' ''requires_replan'' = Inr r"
    by (rule fixed_receipt) (use ok in simp_all)
  with None show ?thesis by (simp add: state_verify_def)
next
  case (Some path)
  have at: "\<exists>r. receipt_for c ''state'' v refs reason retry = Inr r"
    if "reason \<in> set gate_literals" "retry \<in> set disposition_texts"
      "refs = [] \<or> refs = [''state:'' @ path]" for v refs reason retry
    by (rule fixed_receipt) (use ok that fit Some in auto)
  show ?thesis
    unfolding state_verify_def Let_def Some option.case
    by (cases "resolve_state_path (ev_state ev) path"; cases "dget (vc_payload c) ''equals''";
        cases "dget (vc_payload c) ''contains''") (simp_all add: at)
qed

lemma traverseE_total: "(\<And>x. x \<in> set xs \<Longrightarrow> \<exists>y. f x = Inr y) \<Longrightarrow> \<exists>ys. traverseE f xs = Inr ys"
  by (induction xs) fastforce+

lemma shape_answers:
  assumes ok: "criterion_ok c" and fit: "answerable digest ev (vc_payload c) Kind_response_shape"
  shows "\<exists>r. shape_verify c ev = Inr r"
proof -
  have at: "\<exists>r. receipt_for c ''response_shape'' v refs reason retry = Inr r"
    if "reason \<in> set gate_literals" "retry \<in> set disposition_texts"
      "refs = [] \<or> refs = [''response'']" for v refs reason retry
    by (rule fixed_receipt) (use ok that in auto)
  have "\<exists>b. key_missing (ev_response_json ev) k = Inr b"
    if "k \<in> set (list_or_empty (jget (vc_payload c) ''required_keys''))" for k
    using fit that by (cases k) (auto simp: key_missing_def list_all_iff split: option.split)
  then obtain missing where "traverseE (key_missing (ev_response_json ev))
      (list_or_empty (jget (vc_payload c) ''required_keys'')) = Inr missing"
    using traverseE_total by blast
  then show ?thesis
    unfolding shape_verify_def Let_def by (simp add: at)
qed

lemma semantic_answers:
  assumes ok: "criterion_ok c"
  shows "\<exists>r. snd (semantic_verify digest judge n used c ev) = Inr r"
proof -
  have refuse: "\<exists>r. receipt_for c ''semantic_judge'' Verdict_unverified [] reason ''requires_replan'' =
      Inr r" if "reason \<in> set gate_literals" for reason
    by (rule fixed_receipt) (use ok that in simp_all)
  show ?thesis
  proof (cases "used \<ge> n")
    case True
    then show ?thesis by (simp add: semantic_verify_def refuse)
  next
    case False
    show ?thesis
    proof (cases "judge used c ev")
      case (Judged raw)
      with False show ?thesis
        by (cases "semantic_receipt digest c ev raw") (simp_all add: semantic_verify_def refuse)
    qed (use False in \<open>simp_all add: semantic_verify_def refuse\<close>)
  qed
qed

lemma verify_one_answers:
  assumes ok: "criterion_ok c" and fit: "answerable digest ev (vc_payload c) (vc_kind c)"
  shows "\<exists>r. snd (verify_one digest judge vs used c ev) = Inr r"
proof (cases "find (responsible c) vs")
  case None
  let ?i = "case vc_verifier c of None \<Rightarrow> ''unsupported'' | Some i \<Rightarrow> i"
  have "short_text ?i"
    using ok literal_clean [of "''unsupported''"]
    by (cases "vc_verifier c") (auto simp: criterion_ok_def short_text_def clean_def)
  then have "\<exists>r. receipt_for c ?i Verdict_unverified [] ''unsupported_criterion'' ''requires_replan'' =
      Inr r"
    by (intro receipt_exists) (use ok literal_clean in \<open>simp_all add: short_text_def\<close>)
  with None show ?thesis by (simp add: verify_one_def)
next
  case (Some v)
  then have kind: "supported_kind v = vc_kind c" by (auto simp: find_Some_iff responsible_def)
  have "\<exists>r. manual_verify c = Inr r"
    unfolding manual_verify_def by (rule fixed_receipt) (use ok in simp_all)
  with Some kind fit ok show ?thesis
    by (cases v) (auto simp: verify_one_def intro: artifact_answers tool_answers state_answers
        shape_answers semantic_answers)
qed

lemma verify_each_answers:
  "\<forall>c \<in> set cs. criterion_ok c \<and> answerable digest ev (vc_payload c) (vc_kind c) \<Longrightarrow>
     \<exists>u rs. verify_each digest judge vs used cs ev = (u, Inr rs)"
proof (induction cs arbitrary: used)
  case (Cons c cs)
  obtain u r where one: "verify_one digest judge vs used c ev = (u, Inr r)"
    using verify_one_answers [of c digest ev judge vs used] Cons.prems
    by (metis list.set_intros(1) prod.collapse)
  moreover obtain u' rs where "verify_each digest judge vs u cs ev = (u', Inr rs)"
    using Cons.IH [of u] Cons.prems by auto
  ultimately show ?case by simp
qed simp

lemma make_criterion_ok: "make_criterion i k q d ts v p = Inr c \<Longrightarrow> criterion_ok c"
  by (auto simp: make_criterion_def result_simps criterion_ok_def clean_optional_text_def
      dest: clean_text_clean split: if_splits)

end
