(* ===== verification/Outcome_Properties.thy ===== *)
theory Outcome_Properties
  imports Outcome_Total
begin

text \<open>
  The properties of the completion gate: the verdict of a turn as a statement on its criteria, the
  evidence behind a positive verdict, the budget of the judge, and when verification answers at all.
\<close>

section \<open>The verdict of a turn\<close>

text \<open>C31. The receipt of a turn holds one receipt per criterion, in order. Its verdict is verified
  exactly when every required criterion is verified and at least one criterion is. It is a hard
  failure exactly when a required criterion that is not left to the judge has failed, and then the
  verdict is failed. The retry disposition is the most restrictive one of the criteria.\<close>

theorem turn_verdict_specification:
  assumes "verify_all digest judge vs used cs ev i t g = (used', Inr r)"
  shows "length (vr_criteria r) = length cs \<and>
    (vr_verdict r = Verdict_verified \<longleftrightarrow>
       (\<forall>(c, x) \<in> set (zip cs (vr_criteria r)). vc_required c \<longrightarrow> cr_verdict x = Verdict_verified) \<and>
       (\<exists>(c, x) \<in> set (zip cs (vr_criteria r)). cr_verdict x = Verdict_verified)) \<and>
    (vr_hard_failure r \<longleftrightarrow>
       (\<exists>(c, x) \<in> set (zip cs (vr_criteria r)).
          vc_required c \<and> vc_kind c \<noteq> Kind_semantic \<and> cr_verdict x = Verdict_failed)) \<and>
    (vr_hard_failure r \<longrightarrow> vr_verdict r = Verdict_failed) \<and>
    vr_retry r \<in> insert Retry_none (cr_retry ` set (vr_criteria r)) \<and>
    (\<forall>x \<in> set (vr_criteria r). retry_precedence (cr_retry x) \<le> retry_precedence (vr_retry r))"
proof -
  note parts = verify_all_parts [OF assms]
  have len: "length (vr_criteria r) = length cs"
    using list_all2_lengthD [OF verify_each_backed [OF parts(1)]] by simp
  show ?thesis
    using retry_max_spec [of "map cr_retry (vr_criteria r)"]
    by (simp add: parts(2-4) len aggregate_verified hard_failure_pairs [symmetric]
        hard_failure_failed)
qed

text \<open>C32. No criterion counts as verified without evidence: when a turn is verified, every required
  criterion is backed by the evidence of the turn, a tool call by exactly one matching call that
  needed no pending approval and ended with the expected exit code, an artifact by its receipt or
  its one target, a state criterion by the value at its path, a response by every key and section;
  a criterion left to the judge by references the host recognises; and a manual one never.\<close>

theorem verified_turn_is_backed:
  assumes "verify_all digest judge vs used cs ev i t g = (used', Inr r)"
    and "vr_verdict r = Verdict_verified"
    and "(c, x) \<in> set (zip cs (vr_criteria r))" and "vc_required c"
  shows "cr_verdict x = Verdict_verified \<and> backed digest c ev x (vc_kind c)"
proof -
  note parts = verify_all_parts [OF assms(1)]
  note all = verify_each_backed [OF parts(1)]
  have "cr_verdict x = Verdict_verified"
    using assms(2-4) aggregate_verified [OF list_all2_lengthD [OF all, symmetric]]
    unfolding parts(2) by auto
  with all assms(3) show ?thesis by (auto simp: list_all2_iff)
qed

text \<open>Verifying a turn asks the judge at most as many questions as the limit of its semantic
  verifier and at most one per semantic criterion, whatever the judge answers and also when the
  verification raises.\<close>

theorem judge_questions_bounded:
  "fst (verify_all digest judge vs 0 cs ev i t g) \<le>
     min (judge_limit vs) (length (filter (\<lambda>c. vc_kind c = Kind_semantic) cs))"
proof -
  obtain used x where each: "verify_each digest judge vs 0 cs ev = (used, x)" by fastforce
  have "fst (verify_all digest judge vs 0 cs ev i t g) = used"
    using each by (cases x) (simp_all add: verify_all_def)
  with verify_each_used [OF each] show ?thesis by simp
qed

text \<open>C33. When verification answers. For every list of criteria that criteria constructors accept,
  every list of verifiers and every judge, and as long as the evidence keeps the limits of a
  criterion receipt (references of at most 128 characters that are not blank, at most 16 tool calls,
  known artifact statuses, hashable response keys, and short state paths), verification returns a
  receipt exactly when the receipt id, the turn id and the goal id it was called with are texts that
  are not blank and have at most 128 characters once squeezed (the goal id may be missing); the
  receipt carries them. Otherwise, and for no other reason, it raises.\<close>

theorem verification_answers:
  assumes "\<forall>c \<in> set cs. (\<exists>q k b d ts v p. make_criterion q k b d ts v p = Inr c) \<and>
      answerable digest ev (vc_payload c) (vc_kind c)"
  shows "case snd (verify_all digest judge vs used cs ev i t g) of
      Inr r \<Rightarrow> clean_text i ''receipt_id'' 128 = Inr (vr_id r)
        \<and> clean_text t ''turn_id'' 128 = Inr (vr_turn_id r)
        \<and> clean_optional_text g ''goal_id'' 128 = Inr (vr_goal_id r)
    | Inl e \<Rightarrow> \<not> (\<exists>i' t' g'. clean_text i ''receipt_id'' 128 = Inr i'
        \<and> clean_text t ''turn_id'' 128 = Inr t' \<and> clean_optional_text g ''goal_id'' 128 = Inr g')"
proof -
  have "\<forall>c \<in> set cs. criterion_ok c \<and> answerable digest ev (vc_payload c) (vc_kind c)"
    using assms(1) make_criterion_ok by blast
  from verify_each_answers [OF this] obtain u rs where
    each: "verify_each digest judge vs used cs ev = (u, Inr rs)" by blast
  have again: "clean_text (JStr i') ''receipt_id'' 128 = Inr i'"
    if "clean_text i ''receipt_id'' 128 = Inr i'" for i'
    using that by (simp add: clean_text_ident clean_text_clean)
  have again': "clean_text (JStr t') ''turn_id'' 128 = Inr t'"
    if "clean_text t ''turn_id'' 128 = Inr t'" for t'
    using that by (simp add: clean_text_ident clean_text_clean)
  have again'': "clean_optional_text (opt_str g') ''goal_id'' 128 = Inr g'"
    if "clean_optional_text g ''goal_id'' 128 = Inr g'" for g'
    using that by (auto simp: clean_text_ident clean_optional_text_def result_simps
        dest!: clean_text_clean split: if_splits)
  show ?thesis
    using again again' again''
    by (cases "clean_text i ''receipt_id'' 128"; cases "clean_text t ''turn_id'' 128";
        cases "clean_optional_text g ''goal_id'' 128")
      (simp_all add: verify_all_def each make_verification_receipt_def clean_bool_def)
qed

section \<open>Witnesses\<close>

definition tool_criterion :: criterion where
  "tool_criterion =
     \<lparr>vc_id = ''c1'', vc_kind = Kind_tool_execution, vc_required = True,
      vc_description = ''tests pass'', vc_turns = [''t''], vc_verifier = None,
      vc_payload = [(''tool_name'', JStr ''exec_command'')]\<rparr>"

definition judged_criterion :: criterion where
  "judged_criterion =
     \<lparr>vc_id = ''c2'', vc_kind = Kind_semantic, vc_required = False,
      vc_description = ''is clear'', vc_turns = [''t''], vc_verifier = None, vc_payload = []\<rparr>"

definition turn_evidence :: evidence where
  "turn_evidence =
     \<lparr>ev_artifacts = [],
      ev_tools = [\<lparr>te_call_id = ''call-1'', te_tool_name = ''exec_command'',
        te_arguments_digest = '''', te_operation_id = '''', te_turn_id = ''t'',
        te_exit_code = Some 0, te_status = ''completed'', te_approval_pending = False,
        te_error = None\<rparr>],
      ev_state = [], ev_response_json = None, ev_response_text = Some ''done''\<rparr>"

definition sample_gate :: "nat \<times> verification_receipt py" where
  "sample_gate = verify_all (\<lambda>s. s) (\<lambda>_ _ _. Judge_timeout)
     (Semantic_verifier 2 # default_verifiers) 0 [tool_criterion, judged_criterion] turn_evidence
     (JStr ''verification:t'') (JStr ''t'') JNull"

definition tool_receipt :: criterion_receipt where
  "tool_receipt = \<lparr>cr_id = ''c1'', cr_verdict = Verdict_verified, cr_verifier = ''tool_execution'',
     cr_refs = [''call-1''], cr_reason = ''tool_execution_verified'', cr_retry = Retry_none,
     cr_confidence = None\<rparr>"

definition judged_receipt :: criterion_receipt where
  "judged_receipt = \<lparr>cr_id = ''c2'', cr_verdict = Verdict_unverified,
     cr_verifier = ''semantic_judge'', cr_refs = [], cr_reason = ''semantic_judge_timeout'',
     cr_retry = Retry_requires_replan, cr_confidence = None\<rparr>"

definition turn_receipt :: verification_receipt where
  "turn_receipt = \<lparr>vr_id = ''verification:t'', vr_turn_id = ''t'', vr_goal_id = None,
     vr_verdict = Verdict_verified, vr_criteria = [tool_receipt, judged_receipt],
     vr_hard_failure = False, vr_retry = Retry_requires_replan\<rparr>"

lemma sample_gate_runs: "sample_gate = (1, Inr turn_receipt)"
  by code_simp

lemma sample_pair:
  "vr_verdict turn_receipt = Verdict_verified"
  "(tool_criterion, tool_receipt) \<in>
     set (zip [tool_criterion, judged_criterion] (vr_criteria turn_receipt))"
  "vc_required tool_criterion"
  by (simp_all add: turn_receipt_def tool_criterion_def)

theorem turn_verdict_specification_witness:
  "length (vr_criteria turn_receipt) = 2 \<and>
   vr_retry turn_receipt \<in> insert Retry_none (cr_retry ` set (vr_criteria turn_receipt))"
  using turn_verdict_specification [OF sample_gate_runs [unfolded sample_gate_def]] by simp

theorem verified_turn_is_backed_witness: "tool_backs tool_criterion turn_evidence"
  using verified_turn_is_backed [OF sample_gate_runs [unfolded sample_gate_def] sample_pair]
  by (simp add: tool_criterion_def)

lemma tool_criterion_made:
  "make_criterion (JStr ''c1'') (JStr ''tool_execution'') (JBool True) (JStr ''tests pass'')
     [JStr ''t''] JNull (JObj [(''tool_name'', JStr ''exec_command'')]) = Inr tool_criterion"
  by code_simp

lemma tool_criterion_answerable:
  "answerable (\<lambda>s. s) turn_evidence (vc_payload tool_criterion) (vc_kind tool_criterion)"
  by code_simp

lemma sample_ids:
  "clean_text (JStr ''v'') ''receipt_id'' 128 = Inr ''v''"
  "clean_text (JStr ''t'') ''turn_id'' 128 = Inr ''t''"
  "clean_optional_text JNull ''goal_id'' 128 = Inr None"
  by code_simp+

theorem verification_answers_witness:
  "\<exists>used r. verify_all (\<lambda>s. s) (\<lambda>_ _ _. Judge_raised) default_verifiers 0 [tool_criterion]
     turn_evidence (JStr ''v'') (JStr ''t'') JNull = (used, Inr r) \<and> vr_turn_id r = ''t''"
proof -
  have "\<exists>q k b d ts v p. make_criterion q k b d ts v p = Inr tool_criterion"
    using tool_criterion_made by blast
  with tool_criterion_answerable
  have "\<forall>c \<in> set [tool_criterion]. (\<exists>q k b d ts v p. make_criterion q k b d ts v p = Inr c) \<and>
      answerable (\<lambda>s. s) turn_evidence (vc_payload c) (vc_kind c)" by simp
  from verification_answers [OF this, where judge = "\<lambda>_ _ _. Judge_raised" and vs = default_verifiers
      and used = 0 and i = "JStr ''v''" and t = "JStr ''t''" and g = JNull] sample_ids
  show ?thesis
    by (cases "verify_all (\<lambda>s. s) (\<lambda>_ _ _. Judge_raised) default_verifiers 0 [tool_criterion]
      turn_evidence (JStr ''v'') (JStr ''t'') JNull") (auto split: sum.splits)
qed

end
