(* ===== verification/Receipt_Repository.thy ===== *)
theory Receipt_Repository
  imports Outcome_Proofs Plan_Repository_Proofs
begin

text \<open>
  \<open>VerificationReceiptRepository\<close> of \<^verbatim>\<open>mochi/agents/outcome_verifier.py\<close>, which keeps the receipt of a
  verified turn in the session history, and the engine's call of it,
  \<open>_persist_aggregate_verification_receipt\<close> of \<^verbatim>\<open>mochi/agents/engine.py\<close>. A save loads the history once
  before it builds the event and again, under the store's lock, in its predicate; the engine loads
  it a third time before. The earlier histories are arguments, so other writers may come between.
  Result messages are left out.
\<close>

section \<open>Loading\<close>

definition receipt_event :: string where
  "receipt_event = ''ordinary_chat_verification_receipt_recorded''"

definition receipt_event_version :: int where
  "receipt_event_version = 1"

definition receipt_event_fields :: "string list" where
  "receipt_event_fields = [''type'', ''event'', ''schema_version'', ''session_id'', ''turn_id'',
     ''receipt_revision'', ''idempotency_key'', ''verification_receipt'', ''timestamp'']"

datatype receipt_load_status =
  Load_missing | Load_loaded | Load_invalid | Load_unsupported

record receipt_load =
  rl_status :: receipt_load_status
  rl_receipt :: "verification_receipt option"
  rl_revision :: int
  rl_index :: "nat option"

definition load_refused :: "receipt_load_status \<Rightarrow> nat \<Rightarrow> receipt_load" where
  "load_refused status i =
     \<lparr>rl_status = status, rl_receipt = None, rl_revision = 0, rl_index = Some i\<rparr>"

text \<open>The walk from the newest event back; the index counts from the oldest one.\<close>

fun newest_receipt_event :: "string \<Rightarrow> jdict list \<Rightarrow> (nat \<times> jdict) option" where
  "newest_receipt_event turn [] = None"
| "newest_receipt_event turn (event # rest) =
     (if jget event ''event'' \<noteq> JStr receipt_event \<or> jget event ''turn_id'' \<noteq> JStr turn
      then newest_receipt_event turn rest
      else Some (length rest, event))"

text \<open>The body of the \<open>try\<close> block of \<open>_load_from_events\<close>.\<close>

definition parse_receipt_event ::
  "string \<Rightarrow> string \<Rightarrow> jdict \<Rightarrow> (verification_receipt \<times> int) py" where
  "parse_receipt_event session turn event =
     bindE (require_exact_keys event receipt_event_fields ''verification receipt event'') (\<lambda>_.
     bindE (requireE (jget event ''type'' = JStr ''session_meta'')
              (ValueError ''verification receipt event type must be session_meta'')) (\<lambda>_.
     bindE (requireE (jget event ''session_id'' = JStr session)
              (ValueError ''verification receipt event session_id does not match request'')) (\<lambda>_.
     bindE (case jget event ''receipt_revision'' of
              JInt n \<Rightarrow> (if n \<le> 0 then Inl (ValueError ''receipt_revision must be a positive integer'')
                         else Inr n)
            | _ \<Rightarrow> Inl (ValueError ''receipt_revision must be a positive integer'')) (\<lambda>revision.
     bindE (clean_text (jget event ''idempotency_key'') ''idempotency_key'' 256) (\<lambda>_.
     bindE (clean_text (jget event ''timestamp'') ''timestamp'' 128) (\<lambda>_.
     bindE (case jget event ''verification_receipt'' of
              JObj p \<Rightarrow> verification_receipt_from_dict p
            | _ \<Rightarrow> Inl (TypeError ''verification_receipt must be an object'')) (\<lambda>receipt.
     bindE (requireE (vr_turn_id receipt = turn)
              (ValueError ''verification receipt payload turn_id does not match envelope'')) (\<lambda>_.
       Inr (receipt, revision)))))))))"

definition load_receipt :: "string \<Rightarrow> string \<Rightarrow> jdict list \<Rightarrow> receipt_load" where
  "load_receipt session turn events =
     (case newest_receipt_event turn (rev events) of
        None \<Rightarrow>
          \<lparr>rl_status = Load_missing, rl_receipt = None, rl_revision = 0, rl_index = None\<rparr>
      | Some (i, event) \<Rightarrow>
          (case jget event ''schema_version'' of
             JInt version \<Rightarrow>
               (if version \<noteq> receipt_event_version
                then load_refused
                       (if version > receipt_event_version then Load_unsupported
                        else Load_invalid) i
                else case parse_receipt_event session turn event of
                       Inl _ \<Rightarrow> load_refused Load_invalid i
                     | Inr (receipt, revision) \<Rightarrow>
                         \<lparr>rl_status = Load_loaded, rl_receipt = Some receipt,
                          rl_revision = revision, rl_index = Some i\<rparr>)
           | _ \<Rightarrow> load_refused Load_invalid i))"

definition receipt_unusable :: "receipt_load \<Rightarrow> bool" where
  "receipt_unusable l \<longleftrightarrow> rl_status l = Load_invalid \<or> rl_status l = Load_unsupported"

text \<open>\<open>load\<close> of the repository on a history.\<close>

definition repository_load :: "string \<Rightarrow> string \<Rightarrow> jdict list \<Rightarrow> receipt_load py" where
  "repository_load session turn events =
     bindE (clean_string session ''session_id'' 256) (\<lambda>s.
     bindE (clean_string turn ''turn_id'' 128) (\<lambda>t.
       Inr (load_receipt s t events)))"

section \<open>The conversion of a stored revision\<close>

text \<open>
  \<open>int(text)\<close>: surrounding white space, one sign, digits with single underscores between them, and
  at most 4300 digits.
\<close>

fun digits_from :: "bool \<Rightarrow> int \<Rightarrow> string \<Rightarrow> int option" where
  "digits_from after_digit acc [] = (if after_digit then Some acc else None)"
| "digits_from after_digit acc (c # s) =
     (if digit c then digits_from True (10 * acc + (of_char c - 48)) s
      else if c = CHR ''_'' \<and> after_digit then digits_from False acc s
      else None)"

definition int_of_text :: "string \<Rightarrow> int option" where
  "int_of_text text =
     (let s = py_strip text
      in if length (filter digit s) > 4300 then None
         else case s of
           [] \<Rightarrow> None
         | c # r \<Rightarrow>
             (if c = CHR ''-'' then map_option uminus (digits_from False 0 r)
              else if c = CHR ''+'' then digits_from False 0 r
              else digits_from False 0 s))"

text \<open>
  \<open>int(value)\<close>, truncating a float towards zero. The \<open>OverflowError\<close> of an infinite float is a
  \<open>ValueError\<close> here.
\<close>

fun int_of_json :: "json \<Rightarrow> int py" where
  "int_of_json (JInt n) = Inr n"
| "int_of_json (JBool b) = Inr (of_bool b)"
| "int_of_json (JFloat (Fin x)) = Inr (if x < 0 then - \<lfloor>- x\<rfloor> else \<lfloor>x\<rfloor>)"
| "int_of_json (JFloat _) = Inl (ValueError ''cannot convert float to integer'')"
| "int_of_json (JStr s) =
     (case int_of_text s of
        None \<Rightarrow> Inl (ValueError ''invalid literal for int()'')
      | Some n \<Rightarrow> Inr n)"
| "int_of_json _ = Inl (TypeError ''int() argument must be a string or a number'')"

section \<open>Saving\<close>

record receipt_save_result =
  rs_status :: save_status
  rs_expected :: int
  rs_current :: int
  rs_receipt :: "verification_receipt option"
  rs_replay :: bool

record receipt_save_args =
  sa_session :: string
  sa_receipt :: verification_receipt
  sa_expected :: int
  sa_key :: string
  sa_timestamp :: string

definition receipt_event_dict ::
  "string \<Rightarrow> verification_receipt \<Rightarrow> int \<Rightarrow> string \<Rightarrow> string \<Rightarrow> jdict" where
  "receipt_event_dict session r revision key timestamp =
     [(''type'', JStr ''session_meta''),
      (''event'', JStr receipt_event),
      (''schema_version'', JInt receipt_event_version),
      (''session_id'', JStr session),
      (''turn_id'', JStr (vr_turn_id r)),
      (''receipt_revision'', JInt revision),
      (''idempotency_key'', JStr key),
      (''verification_receipt'', JObj (verification_receipt_to_dict r)),
      (''timestamp'', JStr timestamp)]"

definition same_receipt_request :: "string \<Rightarrow> string \<Rightarrow> string \<Rightarrow> jdict \<Rightarrow> bool" where
  "same_receipt_request session turn key event \<longleftrightarrow>
     jget event ''event'' = JStr receipt_event
     \<and> jget event ''session_id'' = JStr session
     \<and> jget event ''turn_id'' = JStr turn
     \<and> jget event ''idempotency_key'' = JStr key"

definition find_receipt_event ::
  "jdict list \<Rightarrow> string \<Rightarrow> string \<Rightarrow> string \<Rightarrow> jdict option" where
  "find_receipt_event events session turn key =
     find (same_receipt_request session turn key) (rev events)"

text \<open>The predicate of \<open>save\<close>: it accepts (\<open>None\<close>) or leaves an outcome.\<close>

definition decide_receipt ::
  "string \<Rightarrow> verification_receipt \<Rightarrow> int \<Rightarrow> string \<Rightarrow> jdict list
     \<Rightarrow> (receipt_save_result option) py" where
  "decide_receipt session r expected key events =
     (let loaded = load_receipt session (vr_turn_id r) events;
          refused = \<lparr>rs_status = Save_invalid, rs_expected = expected,
                     rs_current = rl_revision loaded, rs_receipt = None, rs_replay = False\<rparr>
      in if receipt_unusable loaded then Inr (Some refused)
         else case find_receipt_event events session (vr_turn_id r) key of
           Some duplicate \<Rightarrow>
             (if py_eq (jget duplicate ''verification_receipt'')
                   (JObj (verification_receipt_to_dict r))
              then bindE (case dget duplicate ''receipt_revision'' of
                            None \<Rightarrow> Inl (KeyError ''receipt_revision'')
                          | Some v \<Rightarrow> int_of_json v) (\<lambda>current.
                     Inr (Some \<lparr>rs_status = Save_saved, rs_expected = expected,
                                rs_current = current, rs_receipt = Some r, rs_replay = True\<rparr>))
              else Inr (Some refused))
         | None \<Rightarrow>
             (if rl_revision loaded \<noteq> expected
              then Inr (Some \<lparr>rs_status = Save_conflict, rs_expected = expected,
                              rs_current = rl_revision loaded, rs_receipt = rl_receipt loaded,
                              rs_replay = False\<rparr>)
              else Inr None))"

text \<open>The answer after a lost append that left no outcome, from the history loaded once more.\<close>

definition lost_append :: "int \<Rightarrow> receipt_load \<Rightarrow> receipt_save_result" where
  "lost_append expected reloaded =
     \<lparr>rs_status = (if rl_status reloaded = Load_loaded then Save_conflict else Save_invalid),
      rs_expected = expected, rs_current = rl_revision reloaded,
      rs_receipt = rl_receipt reloaded, rs_replay = False\<rparr>"

text \<open>
  \<open>save\<close> on a session file: \<open>seen\<close> is the history of the first load, the second one is read under
  the lock by \<open>append_line_if\<close>.
\<close>

definition receipt_save ::
  "(json \<Rightarrow> string) \<Rightarrow> session_file \<Rightarrow> jdict list \<Rightarrow> receipt_save_args
     \<Rightarrow> session_file \<times> receipt_save_result py" where
  "receipt_save text_of f seen a =
     (case bindE (clean_string (sa_session a) ''session_id'' 256) (\<lambda>session.
           bindE (requireE (sa_expected a \<ge> 0)
                    (ValueError ''expected_revision must be a non-negative integer'')) (\<lambda>_.
           bindE (clean_string (sa_key a) ''idempotency_key'' 256) (\<lambda>key.
           bindE (repository_load session (vr_turn_id (sa_receipt a)) seen) (\<lambda>current.
             Inr (session, key, current))))) of
        Inl e \<Rightarrow> (f, Inl e)
      | Inr (session, key, current) \<Rightarrow>
     (let r = sa_receipt a; expected = sa_expected a
      in if receipt_unusable current
         then (f, Inr \<lparr>rs_status = Save_invalid, rs_expected = expected,
                       rs_current = rl_revision current, rs_receipt = None, rs_replay = False\<rparr>)
         else
           (let event = receipt_event_dict session r (expected + 1) key (sa_timestamp a);
                decide = decide_receipt session r expected key
            in case append_line_if text_of f
                      (\<lambda>events. bindE (decide events) (\<lambda>outcome.
                         Inr (case outcome of None \<Rightarrow> Some event | Some _ \<Rightarrow> None))) of
                 (f', Inl e) \<Rightarrow> (f', Inl e)
               | (f', Inr True) \<Rightarrow>
                   (f', Inr \<lparr>rs_status = Save_saved, rs_expected = expected,
                             rs_current = expected + 1, rs_receipt = Some r, rs_replay = False\<rparr>)
               | (f', Inr False) \<Rightarrow>
                   (f', bindE (load_lines text_of f) (\<lambda>events.
                          bindE (decide events) (\<lambda>outcome.
                            case outcome of
                              Some answer \<Rightarrow> Inr answer
                            | None \<Rightarrow> bindE (repository_load session (vr_turn_id r) events)
                                        (\<lambda>reloaded. Inr (lost_append expected reloaded))))))))"

section \<open>The engine's call\<close>

text \<open>
  \<open>_persist_aggregate_verification_receipt\<close>: whether the receipt was persisted; the error text is
  left out. \<open>seen\<close> and \<open>seen'\<close> are the histories of its own load and of the first load of \<open>save\<close>,
  \<open>digest\<close> the SHA-256 of the canonical JSON text of the receipt and \<open>now\<close> the clock reading.
\<close>

definition receipt_key :: "(json \<Rightarrow> string) \<Rightarrow> verification_receipt \<Rightarrow> string" where
  "receipt_key digest r =
     ''verification-host-finalize:'' @ digest (JObj (verification_receipt_to_dict r))"

definition persist_receipt ::
  "(json \<Rightarrow> string) \<Rightarrow> (json \<Rightarrow> string) \<Rightarrow> string \<Rightarrow> session_file \<Rightarrow> jdict list \<Rightarrow> jdict list
     \<Rightarrow> string \<Rightarrow> string \<Rightarrow> jdict \<Rightarrow> session_file \<times> bool" where
  "persist_receipt text_of digest now f seen seen' session turn payload =
     (case bindE (verification_receipt_from_dict payload) (\<lambda>r.
           bindE (repository_load session turn seen) (\<lambda>loaded. Inr (r, loaded))) of
        Inl _ \<Rightarrow> (f, False)
      | Inr (r, loaded) \<Rightarrow>
          (if receipt_unusable loaded then (f, False)
           else
             (case receipt_save text_of f seen'
                     \<lparr>sa_session = session, sa_receipt = r, sa_expected = rl_revision loaded,
                      sa_key = receipt_key digest r, sa_timestamp = now\<rparr> of
                (f', Inl _) \<Rightarrow> (f', False)
              | (f', Inr answer) \<Rightarrow> (f', rs_status answer = Save_saved))))"

end
