(* ===== verification/Receipt_Proofs.thy ===== *)
theory Receipt_Proofs
  imports Receipt_Repository
begin

text \<open>
  The lemmas on the repository of verification receipts: receipts round-trip through their payload,
  a stored event reads back as the receipt it was built from, and a save either appends exactly one
  event at the expected revision or leaves the file alone.
\<close>

section \<open>Well-formed receipts\<close>

definition criterion_receipt_ok :: "criterion_receipt \<Rightarrow> bool" where
  "criterion_receipt_ok r \<longleftrightarrow>
     clean 128 (cr_id r) \<and> clean 128 (cr_verifier r) \<and> tuple_ok 0 16 128 (cr_refs r)
     \<and> clean 128 (cr_reason r)
     \<and> (case cr_confidence r of None \<Rightarrow> True | Some x \<Rightarrow> in_unit_range x)"

definition receipt_ok :: "verification_receipt \<Rightarrow> bool" where
  "receipt_ok r \<longleftrightarrow>
     clean 128 (vr_id r) \<and> clean 128 (vr_turn_id r)
     \<and> (case vr_goal_id r of None \<Rightarrow> True | Some g \<Rightarrow> clean 128 g)
     \<and> list_all criterion_receipt_ok (vr_criteria r)"

lemma clean_confidence_ok:
  "clean_confidence v = Inr c \<Longrightarrow> (case c of None \<Rightarrow> True | Some x \<Rightarrow> in_unit_range x)"
  by (auto simp: clean_confidence_def split: json.splits if_splits option.splits)

lemma make_criterion_receipt_ok:
  "make_criterion_receipt a b c d e f g = Inr r \<Longrightarrow> criterion_receipt_ok r"
  by (auto simp: make_criterion_receipt_def result_simps criterion_receipt_ok_def
      dest: clean_text_clean clean_text_tuple_ok clean_confidence_ok)

lemma criterion_receipt_from_dict_ok:
  "criterion_receipt_from_dict v = Inr r \<Longrightarrow> criterion_receipt_ok r"
  by (auto simp: criterion_receipt_from_dict_def result_simps dest: make_criterion_receipt_ok
      split: json.splits)

lemma make_verification_receipt_ok:
  "make_verification_receipt a b c d e cs f g = Inr r \<Longrightarrow> list_all criterion_receipt_ok cs
     \<Longrightarrow> receipt_ok r"
  by (auto simp: make_verification_receipt_def result_simps receipt_ok_def
      dest: clean_text_clean clean_optional_text_Inr)

lemma verification_receipt_from_dict_ok:
  assumes "verification_receipt_from_dict p = Inr r" shows "receipt_ok r"
proof -
  obtain raw cs a b c d e f g where "traverseE criterion_receipt_from_dict raw = Inr cs"
    "make_verification_receipt a b c d e cs f g = Inr r"
    using assms by (auto simp: verification_receipt_from_dict_def result_simps split: json.splits)
  then show ?thesis
    using make_verification_receipt_ok traverseE_set criterion_receipt_from_dict_ok
    by (metis list_all_iff)
qed

lemma clean_confidence_ident:
  "(case c of None \<Rightarrow> True | Some x \<Rightarrow> in_unit_range x) \<Longrightarrow>
     clean_confidence (Outcome_Verifier.opt_float c) = Inr c"
  by (cases c) (simp_all add: clean_confidence_def)

lemma criterion_receipt_round_trip:
  "criterion_receipt_ok r \<Longrightarrow>
     criterion_receipt_from_dict (JObj (criterion_receipt_to_dict r)) = Inr r"
  by (simp add: criterion_receipt_from_dict_def criterion_receipt_to_dict_def
      require_exact_keys_def jget_def strs_def py_tuple_def make_criterion_receipt_def
      criterion_receipt_ok_def clean_text_ident clean_text_tuple_ident clean_confidence_ident
      insert_commute)

lemma receipt_round_trip:
  assumes "receipt_ok r"
  shows "verification_receipt_from_dict (verification_receipt_to_dict r) = Inr r"
proof -
  have "traverseE criterion_receipt_from_dict
      (map (\<lambda>c. JObj (criterion_receipt_to_dict c)) (vr_criteria r)) = Inr (vr_criteria r)"
    using assms by (auto simp: traverseE_map receipt_ok_def list_all_iff
        criterion_receipt_round_trip intro!: traverseE_ident)
  then show ?thesis
    using assms
    by (simp add: verification_receipt_from_dict_def verification_receipt_to_dict_def
        require_exact_keys_def jget_def make_verification_receipt_def receipt_ok_def
        clean_text_ident clean_optional_text_ident clean_bool_def insert_commute)
qed

section \<open>Receipt events\<close>

lemma receipt_event_get:
  "jget (receipt_event_dict s r n key ts) ''type'' = JStr ''session_meta''"
  "jget (receipt_event_dict s r n key ts) ''event'' = JStr receipt_event"
  "jget (receipt_event_dict s r n key ts) ''schema_version'' = JInt receipt_event_version"
  "jget (receipt_event_dict s r n key ts) ''session_id'' = JStr s"
  "jget (receipt_event_dict s r n key ts) ''turn_id'' = JStr (vr_turn_id r)"
  "jget (receipt_event_dict s r n key ts) ''receipt_revision'' = JInt n"
  "dget (receipt_event_dict s r n key ts) ''receipt_revision'' = Some (JInt n)"
  "jget (receipt_event_dict s r n key ts) ''idempotency_key'' = JStr key"
  "jget (receipt_event_dict s r n key ts) ''verification_receipt''
     = JObj (verification_receipt_to_dict r)"
  "jget (receipt_event_dict s r n key ts) ''timestamp'' = JStr ts"
  "jget (receipt_event_dict s r n key ts) ''payload'' = JNull"
  "jget (receipt_event_dict s r n key ts) ''failure'' = JNull"
  "jget (receipt_event_dict s r n key ts) ''metadata'' = JNull"
  "jget (receipt_event_dict s r n key ts) ''code'' = JNull"
  by (simp_all add: receipt_event_dict_def jget_def)

lemma receipt_event_normal:
  "normalize_persisted_failure_event text_of (receipt_event_dict s r n key ts)
     = Inr (receipt_event_dict s r n key ts)"
  by (rule session_meta_plain) (simp_all add: receipt_event_get)

lemma receipt_event_keys:
  "fst ` set (receipt_event_dict s r n key ts) = set receipt_event_fields"
  by (auto simp: receipt_event_dict_def receipt_event_fields_def)

text \<open>An event of the turn decides alone; other events change nothing.\<close>

definition receipt_event_of :: "string \<Rightarrow> jdict \<Rightarrow> bool" where
  "receipt_event_of turn ev \<longleftrightarrow>
     jget ev ''event'' = JStr receipt_event \<and> jget ev ''turn_id'' = JStr turn"

lemma newest_receipt_event_Cons:
  "newest_receipt_event turn (ev # rest) =
     (if receipt_event_of turn ev then Some (length rest, ev)
      else newest_receipt_event turn rest)"
  by (auto simp: receipt_event_of_def)

lemma receipt_after_other:
  "\<not> receipt_event_of turn ev \<Longrightarrow>
     load_receipt session turn (h @ [ev]) = load_receipt session turn h"
  by (simp add: load_receipt_def newest_receipt_event_Cons del: newest_receipt_event.simps)

lemma newest_after_own:
  "receipt_event_of turn ev \<Longrightarrow>
     newest_receipt_event turn (rev (h @ [ev])) = Some (length h, ev)"
  by (simp add: newest_receipt_event_Cons del: newest_receipt_event.simps)

lemma own_receipt_event: "receipt_event_of (vr_turn_id r) (receipt_event_dict s r n key ts)"
  by (simp add: receipt_event_of_def receipt_event_get)

lemma receipt_reads_back:
  assumes "receipt_ok r" and "0 < n" and "clean 256 key"
    and "clean_text (JStr ts) ''timestamp'' 128 = Inr t"
  shows "load_receipt s (vr_turn_id r) (h @ [receipt_event_dict s r n key ts])
    = \<lparr>rl_status = Load_loaded, rl_receipt = Some r, rl_revision = n, rl_index = Some (length h)\<rparr>"
proof -
  let ?ev = "receipt_event_dict s r n key ts"
  have "parse_receipt_event s (vr_turn_id r) ?ev = Inr (r, n)"
    using assms
    by (simp add: parse_receipt_event_def receipt_event_get require_exact_keys_def
        receipt_event_keys clean_text_ident receipt_round_trip)
  then show ?thesis
    unfolding load_receipt_def newest_after_own [OF own_receipt_event]
    by (simp add: receipt_event_get)
qed

text \<open>Whatever the turn's last event holds, its revision is the one that is loaded.\<close>

lemma loaded_receipt_revision:
  assumes "receipt_event_of turn ev" and "jget ev ''receipt_revision'' = JInt n"
  shows "receipt_unusable (load_receipt session turn (h @ [ev]))
    \<or> rl_revision (load_receipt session turn (h @ [ev])) = n"
  unfolding load_receipt_def newest_after_own [OF assms(1)]
  using assms(2)
  by (auto simp: receipt_unusable_def load_refused_def parse_receipt_event_def result_simps
      split: json.splits sum.splits if_splits)

section \<open>What a save does\<close>

definition receipt_won :: "receipt_save_result py \<Rightarrow> bool" where
  "receipt_won r \<longleftrightarrow>
     (case r of Inl _ \<Rightarrow> False | Inr x \<Rightarrow> rs_status x = Save_saved \<and> \<not> rs_replay x)"

lemma decide_receipt_accepts:
  "decide_receipt s r x key h = Inr None \<Longrightarrow>
     \<not> receipt_unusable (load_receipt s (vr_turn_id r) h)
     \<and> rl_revision (load_receipt s (vr_turn_id r) h) = x
     \<and> find_receipt_event h s (vr_turn_id r) key = None"
  by (auto simp: decide_receipt_def Let_def result_simps split: if_splits option.splits)

text \<open>A rejected save that reports success found the same receipt under the same key.\<close>

definition recorded :: "string \<Rightarrow> verification_receipt \<Rightarrow> string \<Rightarrow> jdict list \<Rightarrow> bool" where
  "recorded s r key h \<longleftrightarrow>
     (\<exists>ev \<in> set h. same_receipt_request s (vr_turn_id r) key ev
        \<and> py_eq (jget ev ''verification_receipt'') (JObj (verification_receipt_to_dict r)))"

lemma found_receipt:
  assumes "find_receipt_event h s (vr_turn_id r) key = Some ev"
    and "py_eq (jget ev ''verification_receipt'') (JObj (verification_receipt_to_dict r))"
  shows "recorded s r key h"
proof -
  from assms(1) obtain i where i: "i < length (rev h)"
    "same_receipt_request s (vr_turn_id r) key (rev h ! i)" "ev = rev h ! i"
    unfolding find_receipt_event_def find_Some_iff by blast
  then have "ev \<in> set h" using nth_mem [OF i(1)] by simp
  with i assms(2) show ?thesis unfolding recorded_def by blast
qed

lemma decide_receipt_outcome:
  assumes "decide_receipt s r x key h = Inr (Some out)"
  shows "\<not> receipt_won (Inr out)" and "rs_status out = Save_saved \<Longrightarrow> recorded s r key h"
proof -
  have "\<not> receipt_won (Inr out) \<and> (rs_status out = Save_saved \<longrightarrow> recorded s r key h)"
  proof (cases "find_receipt_event h s (vr_turn_id r) key")
    case None
    then show ?thesis using assms
      by (auto simp: decide_receipt_def Let_def receipt_won_def split: if_splits)
  next
    case (Some ev)
    show ?thesis
    proof (cases "py_eq (jget ev ''verification_receipt'') (JObj (verification_receipt_to_dict r))")
      case True
      from found_receipt [OF Some True] show ?thesis using assms Some True
        by (auto simp: decide_receipt_def Let_def receipt_won_def result_simps split: if_splits)
    next
      case False
      then show ?thesis using assms Some
        by (auto simp: decide_receipt_def Let_def receipt_won_def split: if_splits)
    qed
  qed
  then show "\<not> receipt_won (Inr out)" and "rs_status out = Save_saved \<Longrightarrow> recorded s r key h"
    by auto
qed

text \<open>What a save has checked before it appends or refuses.\<close>

definition save_checked ::
  "receipt_save_args \<Rightarrow> string \<Rightarrow> string \<Rightarrow> bool" where
  "save_checked a s key \<longleftrightarrow>
     clean_string (sa_session a) ''session_id'' 256 = Inr s
     \<and> clean_string (sa_key a) ''idempotency_key'' 256 = Inr key \<and> 0 \<le> sa_expected a"

abbreviation own_load :: "receipt_save_args \<Rightarrow> string \<Rightarrow> jdict list \<Rightarrow> receipt_load" where
  "own_load a s \<equiv> load_receipt s (vr_turn_id (sa_receipt a))"

abbreviation own_event :: "receipt_save_args \<Rightarrow> string \<Rightarrow> string \<Rightarrow> jdict" where
  "own_event a s key \<equiv>
     receipt_event_dict s (sa_receipt a) (sa_expected a + 1) key (sa_timestamp a)"

definition save_refused ::
  "(json \<Rightarrow> string) \<Rightarrow> session_file \<Rightarrow> receipt_save_args \<Rightarrow> receipt_save_result py \<Rightarrow> bool" where
  "save_refused text_of f a out \<longleftrightarrow>
     \<not> receipt_won out
     \<and> (\<forall>x. out = Inr x \<and> rs_status x = Save_saved \<longrightarrow>
          (\<exists>s key h. save_checked a s key \<and> load_lines text_of f = Inr h
             \<and> recorded s (sa_receipt a) key h))"

definition save_appended ::
  "(json \<Rightarrow> string) \<Rightarrow> session_file \<Rightarrow> session_file \<Rightarrow> receipt_save_args \<Rightarrow> bool" where
  "save_appended text_of f f' a \<longleftrightarrow>
     (\<exists>s key h. save_checked a s key \<and> load_lines text_of f = Inr h
        \<and> \<not> receipt_unusable (own_load a s h) \<and> rl_revision (own_load a s h) = sa_expected a
        \<and> find_receipt_event h s (vr_turn_id (sa_receipt a)) key = None
        \<and> load_lines text_of f' = Inr (h @ [own_event a s key]))"

lemma receipt_save_cases:
  assumes "receipt_save text_of f seen a = (f', out)"
  shows "f' = f \<and> save_refused text_of f a out \<or> receipt_won out \<and> save_appended text_of f f' a"
proof (cases "bindE (clean_string (sa_session a) ''session_id'' 256) (\<lambda>session.
      bindE (requireE (sa_expected a \<ge> 0)
               (ValueError ''expected_revision must be a non-negative integer'')) (\<lambda>_.
      bindE (clean_string (sa_key a) ''idempotency_key'' 256) (\<lambda>key.
      bindE (repository_load session (vr_turn_id (sa_receipt a)) seen) (\<lambda>current.
        Inr (session, key, current)))))")
  case (Inl e)
  then show ?thesis using assms by (auto simp: receipt_save_def receipt_won_def save_refused_def)
next
  case (Inr c)
  obtain s key current where c: "c = (s, key, current)" by (cases c)
  have checked: "save_checked a s key" using Inr c by (auto simp: save_checked_def result_simps)
  show ?thesis
  proof (cases "receipt_unusable current")
    case True
    then show ?thesis
      using assms Inr c by (auto simp: receipt_save_def receipt_won_def save_refused_def Let_def)
  next
    case False
    note run = assms [unfolded receipt_save_def Inr c sum.case prod.case Let_def if_not_P [OF False]]
    from decided_append [OF run receipt_event_normal] show ?thesis
    proof (elim disjE exE conjE)
      fix h
      assume "load_lines text_of f = Inr h"
        "load_lines text_of f' = Inr (h @ [own_event a s key])"
        "out = Inr \<lparr>rs_status = Save_saved, rs_expected = sa_expected a,
          rs_current = sa_expected a + 1, rs_receipt = Some (sa_receipt a), rs_replay = False\<rparr>"
        and accepted: "decide_receipt s (sa_receipt a) (sa_expected a) key h = Inr None"
      with decide_receipt_accepts [OF accepted] checked show ?thesis
        by (auto simp: receipt_won_def save_appended_def)
    next
      fix h answer
      assume "f' = f" "load_lines text_of f = Inr h" "out = Inr answer"
        and rejected: "decide_receipt s (sa_receipt a) (sa_expected a) key h = Inr (Some answer)"
      with decide_receipt_outcome [OF rejected] checked show ?thesis
        by (auto simp: save_refused_def)
    qed (auto simp: save_refused_def receipt_won_def)
  qed
qed

end
