(* ===== verification/Receipt_Properties.thy ===== *)
theory Receipt_Properties
  imports Receipt_Proofs
begin

text \<open>
  What the repository of verification receipts guarantees: a save is a compare-and-swap that reads
  back exactly, a revision of a turn is won once whatever writers interleave, what the engine
  reports as persisted is in the history, and the two ways a receipt can be reported wrongly.
\<close>

section \<open>A revision is won once\<close>

datatype receipt_op = Receipt_save "jdict list" receipt_save_args | Foreign_event jdict

text \<open>
  A step on the file of one session: a save succeeds when it appends, another component's event
  when it is not a receipt event and normalises.
\<close>

fun receipt_step ::
  "(json \<Rightarrow> string) \<Rightarrow> string \<Rightarrow> session_file \<Rightarrow> receipt_op
     \<Rightarrow> session_file \<times> (unit + receipt_save_result option)" where
  "receipt_step text_of session f (Receipt_save seen a) =
     (if clean_string (sa_session a) ''session_id'' 256 \<noteq> Inr session then (f, Inl ())
      else let (f', out) = receipt_save text_of f seen a
           in (f', case out of
                     Inr x \<Rightarrow> if receipt_won out then Inr (Some x) else Inl ()
                   | Inl _ \<Rightarrow> Inl ()))"
| "receipt_step text_of session f (Foreign_event e) =
     (if jget e ''event'' = JStr receipt_event then (f, Inl ())
      else let (f', out) = save_event text_of f e
           in (f', case out of Inl _ \<Rightarrow> Inl () | Inr _ \<Rightarrow> Inr None))"

definition wins_receipt :: "string \<Rightarrow> int \<Rightarrow> receipt_op \<Rightarrow> bool" where
  "wins_receipt turn n op \<longleftrightarrow>
     (case op of
        Receipt_save _ a \<Rightarrow> vr_turn_id (sa_receipt a) = turn \<and> sa_expected a = n
      | Foreign_event _ \<Rightarrow> False)"

definition receipt_revision_of :: "string \<Rightarrow> string \<Rightarrow> jdict list \<Rightarrow> int option" where
  "receipt_revision_of session turn h =
     (let l = load_receipt session turn h
      in if receipt_unusable l then None else Some (rl_revision l))"

lemma own_receipt_revision:
  "receipt_revision_of session (vr_turn_id r) (h @ [receipt_event_dict s r n key ts])
     \<in> {None, Some n}"
  using loaded_receipt_revision [OF own_receipt_event [of r s n key ts]
      receipt_event_get(6) [of s r n key ts], of session h]
  by (auto simp: receipt_revision_of_def Let_def)

lemma other_receipt_revision:
  "\<not> receipt_event_of turn ev \<Longrightarrow>
     receipt_revision_of session turn (h @ [ev]) = receipt_revision_of session turn h"
  by (simp add: receipt_revision_of_def receipt_after_other)

lemma appended_revision:
  assumes "save_appended text_of f f' a"
    and "clean_string (sa_session a) ''session_id'' 256 = Inr session"
  shows "\<exists>h ev. load_lines text_of f = Inr h \<and> load_lines text_of f' = Inr (h @ [ev])
    \<and> jget ev ''turn_id'' = JStr (vr_turn_id (sa_receipt a))
    \<and> receipt_revision_of session (vr_turn_id (sa_receipt a)) h = Some (sa_expected a)
    \<and> receipt_revision_of session (vr_turn_id (sa_receipt a)) (h @ [ev])
        \<in> {None, Some (sa_expected a + 1)}"
proof -
  from assms obtain key h where h: "load_lines text_of f = Inr h"
    "\<not> receipt_unusable (own_load a session h)" "rl_revision (own_load a session h) = sa_expected a"
    "load_lines text_of f' = Inr (h @ [own_event a session key])"
    by (auto simp: save_appended_def save_checked_def)
  show ?thesis
    using h own_receipt_revision
    by (intro exI [of _ h] exI [of _ "own_event a session key"])
      (simp add: receipt_event_get receipt_revision_of_def)
qed

lemma receipt_step_moves:
  assumes "receipt_step text_of session f op = (f', r)"
  shows "f' = f \<or> (\<exists>x y. load_lines text_of f = Inl x \<and> load_lines text_of f' = Inl y)
    \<or> (\<exists>h ev. load_lines text_of f = Inr h \<and> load_lines text_of f' = Inr (h @ [ev])
        \<and> (receipt_revision_of session turn (h @ [ev]) = receipt_revision_of session turn h
           \<or> (\<exists>n. receipt_revision_of session turn h = Some n
                \<and> receipt_revision_of session turn (h @ [ev]) \<in> {None, Some (n + 1)})))"
proof (cases op)
  case (Receipt_save seen a)
  show ?thesis
  proof (cases "f' = f")
    case moved: False
    obtain out where own: "clean_string (sa_session a) ''session_id'' 256 = Inr session"
      and sv: "receipt_save text_of f seen a = (f', out)"
      using assms moved Receipt_save by (auto split: if_splits prod.splits)
    from receipt_save_cases [OF sv] moved have "save_appended text_of f f' a" by blast
    from appended_revision [OF this own] obtain h ev where
      h: "load_lines text_of f = Inr h" "load_lines text_of f' = Inr (h @ [ev])"
        "jget ev ''turn_id'' = JStr (vr_turn_id (sa_receipt a))"
        "receipt_revision_of session (vr_turn_id (sa_receipt a)) h = Some (sa_expected a)"
        "receipt_revision_of session (vr_turn_id (sa_receipt a)) (h @ [ev])
           \<in> {None, Some (sa_expected a + 1)}"
      by blast
    show ?thesis
    proof (cases "vr_turn_id (sa_receipt a) = turn")
      case False
      then have "\<not> receipt_event_of turn ev" using h(3) by (auto simp: receipt_event_of_def)
      then show ?thesis using h(1,2) by (auto simp: other_receipt_revision)
    qed (use h in blast)
  qed simp
next
  case (Foreign_event e)
  show ?thesis
  proof (cases "jget e ''event'' = JStr receipt_event")
    case False
    obtain x where "save_event text_of f e = (f', x)"
      using assms False Foreign_event by (auto split: prod.splits)
    from save_event_cases [OF this] show ?thesis
    proof (elim disjE exE conjE)
      fix h e'
      assume e': "jget e' ''event'' = jget e ''event''" "load_lines text_of f = Inr h"
        "load_lines text_of f' = Inr (h @ [e'])"
      have "\<not> receipt_event_of turn e'" using e'(1) False by (simp add: receipt_event_of_def)
      then show ?thesis using e'(2,3) by (auto simp: other_receipt_revision)
    qed blast+
  qed (use assms Foreign_event in simp)
qed

lemma receipt_step_won:
  assumes "wins_receipt turn n op" and "receipt_step text_of session f op = (f', Inr out)"
  shows "\<exists>h h'. load_lines text_of f = Inr h \<and> load_lines text_of f' = Inr h'
    \<and> receipt_revision_of session turn h = Some n
    \<and> receipt_revision_of session turn h' \<in> {None, Some (n + 1)}"
proof -
  obtain seen a where op: "op = Receipt_save seen a" "vr_turn_id (sa_receipt a) = turn"
    "sa_expected a = n"
    using assms(1) by (auto simp: wins_receipt_def split: receipt_op.splits)
  obtain r where sv: "receipt_save text_of f seen a = (f', r)" "receipt_won r"
    and own: "clean_string (sa_session a) ''session_id'' 256 = Inr session"
    using assms(2) op(1) by (auto split: if_splits prod.splits sum.splits)
  from receipt_save_cases [OF sv(1)] sv(2) have "save_appended text_of f f' a"
    by (auto simp: save_refused_def)
  from appended_revision [OF this own] show ?thesis unfolding op(2,3) by blast
qed

interpretation receipt_log: versioned_log "load_lines text_of" "receipt_revision_of session turn"
  "receipt_step text_of session" "wins_receipt turn"
  for text_of session turn
  by unfold_locales (erule receipt_step_moves, erule (1) receipt_step_won)

text \<open>Optimistic locking of receipts: however saves and other events interleave on a session, at most
  one save for a turn at a given expected revision is appended.\<close>

theorem receipt_revision_won_once:
  "length (filter (wins_receipt turn n)
     (succeeded_ops (receipt_step text_of session) f ops)) \<le> 1"
  by (rule receipt_log.cas.at_most_once)

section \<open>The compare-and-swap\<close>

text \<open>A save that is appended found the expected revision, adds one event, and loading the turn
  afterwards gives exactly the saved receipt one revision later; one that is not leaves the file
  alone.\<close>

theorem receipt_save_compare_and_swap:
  assumes "receipt_ok (sa_receipt a)"
    and "clean_text (JStr (sa_timestamp a)) ''timestamp'' 128 = Inr t"
    and "receipt_save text_of f seen a = (f', out)"
  shows "if receipt_won out
    then \<exists>s h h'. clean_string (sa_session a) ''session_id'' 256 = Inr s
      \<and> load_lines text_of f = Inr h \<and> load_lines text_of f' = Inr h' \<and> length h' = length h + 1
      \<and> rl_revision (load_receipt s (vr_turn_id (sa_receipt a)) h) = sa_expected a
      \<and> load_receipt s (vr_turn_id (sa_receipt a)) h'
          = \<lparr>rl_status = Load_loaded, rl_receipt = Some (sa_receipt a),
             rl_revision = sa_expected a + 1, rl_index = Some (length h)\<rparr>
    else f' = f"
proof (cases "receipt_won out")
  case True
  with receipt_save_cases [OF assms(3)] obtain s key h where
    h: "save_checked a s key" "load_lines text_of f = Inr h"
      "rl_revision (own_load a s h) = sa_expected a"
      "load_lines text_of f' = Inr (h @ [own_event a s key])"
    by (auto simp: save_refused_def save_appended_def)
  then have "0 < sa_expected a + 1" "clean 256 key"
    by (auto simp: save_checked_def dest: clean_string_clean)
  from receipt_reads_back [OF assms(1) this assms(2), of s h] h True show ?thesis
    by (auto simp: save_checked_def)
qed (use receipt_save_cases [OF assms(3)] in auto)

section \<open>What the engine reports\<close>

lemma recorded_append:
  assumes "json_wf (JObj (verification_receipt_to_dict r))"
  shows "recorded s r key (h @ [receipt_event_dict s r n key ts])"
  using py_eq_refl [OF assms]
  by (auto simp: recorded_def same_receipt_request_def receipt_event_get)

lemma criterion_receipt_wf:
  "cr_confidence c \<noteq> Some NaN \<Longrightarrow> json_wf (JObj (criterion_receipt_to_dict c))"
  by (cases "cr_confidence c") (auto simp: criterion_receipt_to_dict_def strs_def list_all_iff)

lemma receipt_dict_wf:
  "list_all (\<lambda>c. cr_confidence c \<noteq> Some NaN) (vr_criteria r) \<Longrightarrow>
     json_wf (JObj (verification_receipt_to_dict r))"
  using criterion_receipt_wf
  by (cases "vr_goal_id r") (auto simp: verification_receipt_to_dict_def list_all_iff)

lemma found_is_recorded:
  "find_receipt_event h s (vr_turn_id r) key = None \<Longrightarrow> \<not> recorded s r key h"
  by (auto simp: find_receipt_event_def recorded_def find_None_iff)

text \<open>A save reports success exactly when it appended or found the receipt under the same key.\<close>

lemma save_reports_recorded:
  assumes "receipt_save text_of f seen a = (f', Inr answer)" and "rs_status answer = Save_saved"
    and "json_wf (JObj (verification_receipt_to_dict (sa_receipt a)))"
  shows "\<exists>s key h h'. save_checked a s key \<and> load_lines text_of f = Inr h
    \<and> load_lines text_of f' = Inr h' \<and> recorded s (sa_receipt a) key h'
    \<and> (f' = f \<or> \<not> recorded s (sa_receipt a) key h \<and> length h' = length h + 1)"
  using receipt_save_cases [OF assms(1)]
proof
  assume "f' = f \<and> save_refused text_of f a (Inr answer)"
  then show ?thesis using assms(2) by (auto simp: save_refused_def)
next
  assume "receipt_won (Inr answer) \<and> save_appended text_of f f' a"
  then obtain s key h where "save_checked a s key" "load_lines text_of f = Inr h"
    "find_receipt_event h s (vr_turn_id (sa_receipt a)) key = None"
    "load_lines text_of f' = Inr (h @ [own_event a s key])"
    by (auto simp: save_appended_def)
  with found_is_recorded recorded_append [OF assms(3)] show ?thesis
    by (intro exI [of _ s] exI [of _ key] exI [of _ h] exI [of _ "h @ [own_event a s key]"]) simp
qed

abbreviation engine_save ::
  "(json \<Rightarrow> string) \<Rightarrow> string \<Rightarrow> string \<Rightarrow> verification_receipt \<Rightarrow> int \<Rightarrow> receipt_save_args" where
  "engine_save digest now session r n \<equiv>
     \<lparr>sa_session = session, sa_receipt = r, sa_expected = n, sa_key = receipt_key digest r,
      sa_timestamp = now\<rparr>"

lemma persist_receipt_cases:
  assumes "persist_receipt text_of digest now f seen seen' session turn payload = (f', ok)"
    and "verification_receipt_from_dict payload = Inr r"
  shows "f' = f \<and> \<not> ok \<or>
    (\<exists>n out. receipt_save text_of f seen' (engine_save digest now session r n) = (f', out)
      \<and> (ok \<longleftrightarrow> (\<exists>answer. out = Inr answer \<and> rs_status answer = Save_saved)))"
proof (cases "repository_load session turn seen")
  case (Inl e)
  then show ?thesis using assms by (simp add: persist_receipt_def)
next
  case (Inr loaded)
  obtain g out where sv:
    "receipt_save text_of f seen' (engine_save digest now session r (rl_revision loaded)) = (g, out)"
    by fastforce
  show ?thesis
  proof (cases "receipt_unusable loaded")
    case True
    then show ?thesis using assms Inr by (simp add: persist_receipt_def)
  next
    case False
    with assms Inr sv have "f' = g"
      "ok \<longleftrightarrow> (\<exists>answer. out = Inr answer \<and> rs_status answer = Save_saved)"
      by (cases out; simp add: persist_receipt_def)+
    with sv show ?thesis by blast
  qed
qed

text \<open>C34. The engine reports a receipt as persisted only when the history holds an event of the
  session, the turn and the receipt's digest with that very payload, as long as no confidence is
  NaN, and at most one event was added. When it reports a failure nothing was written.\<close>

theorem persisted_receipt_is_recorded:
  assumes "verification_receipt_from_dict payload = Inr r"
    and "list_all (\<lambda>c. cr_confidence c \<noteq> Some NaN) (vr_criteria r)"
    and "persist_receipt text_of digest now f seen seen' session turn payload = (f', ok)"
  shows "if ok
    then \<exists>s key h h'. clean_string session ''session_id'' 256 = Inr s
      \<and> clean_string (receipt_key digest r) ''idempotency_key'' 256 = Inr key
      \<and> load_lines text_of f = Inr h \<and> load_lines text_of f' = Inr h' \<and> recorded s r key h'
      \<and> (f' = f \<or> \<not> recorded s r key h \<and> length h' = length h + 1)
    else f' = f"
  using persist_receipt_cases [OF assms(3,1)]
proof (elim disjE exE conjE)
  fix n out
  assume sv: "receipt_save text_of f seen' (engine_save digest now session r n) = (f', out)"
    and ok: "ok \<longleftrightarrow> (\<exists>answer. out = Inr answer \<and> rs_status answer = Save_saved)"
  show ?thesis
  proof (cases ok)
    case True
    with ok obtain answer where answer: "out = Inr answer" "rs_status answer = Save_saved" by blast
    from save_reports_recorded [OF sv [unfolded answer(1)] answer(2)] receipt_dict_wf [OF assms(2)]
      True
    show ?thesis by (simp add: save_checked_def) blast
  next
    case False
    with ok have "\<not> receipt_won out" by (auto simp: receipt_won_def split: sum.splits)
    with receipt_save_cases [OF sv] False show ?thesis by auto
  qed
qed simp

section \<open>Two receipts that are reported wrongly\<close>

lemma py_eq_obj_mem:
  "py_eq_obj a b \<Longrightarrow> (k, v) \<in> set a \<Longrightarrow> \<exists>w. dget b k = Some w \<and> py_eq v w"
  by (induction a) (auto split: option.splits)

lemma py_eq_list_mem: "py_eq_list xs ys \<Longrightarrow> y \<in> set ys \<Longrightarrow> \<exists>x. py_eq x y"
  by (induction xs arbitrary: ys) (auto split: list.splits)

lemma py_eq_field:
  assumes "py_eq v (JObj b)" and "dget b k = Some w" shows "\<exists>u. py_eq u w"
proof -
  obtain a where v: "v = JObj a" using assms(1) by (cases v) auto
  with assms obtain u where "(k, u) \<in> set a" by (force dest: map_of_SomeD)
  with py_eq_obj_mem [of a b k u] assms v show ?thesis by auto
qed

lemma float_eq_NaN [simp]: "\<not> float_eq x NaN"
  by (cases x) auto

lemma py_eq_NaN [simp]: "\<not> py_eq v (JFloat NaN)"
  by (cases v) auto

lemma nan_payload_differs:
  assumes "c \<in> set (vr_criteria r)" and "cr_confidence c = Some NaN"
  shows "\<not> py_eq v (JObj (verification_receipt_to_dict r))"
proof
  assume "py_eq v (JObj (verification_receipt_to_dict r))"
  from py_eq_field [OF this, of "''criteria''"] obtain u
    where u: "py_eq u (JList (map (\<lambda>c. JObj (criterion_receipt_to_dict c)) (vr_criteria r)))"
    by (auto simp: verification_receipt_to_dict_def)
  then obtain us where
    "py_eq_list us (map (\<lambda>c. JObj (criterion_receipt_to_dict c)) (vr_criteria r))"
    by (cases u) auto
  from py_eq_list_mem [OF this] assms(1) obtain x where "py_eq x (JObj (criterion_receipt_to_dict c))"
    by fastforce
  from py_eq_field [OF this, of "''confidence''" "JFloat NaN"] assms(2) show False
    by (simp add: criterion_receipt_to_dict_def)
qed

text \<open>The bound on a confidence lets NaN through, which equals nothing: once a receipt that holds
  one is saved, saving it again under the same key is refused, whatever revision is expected and
  whatever was loaded before.\<close>

theorem nan_receipt_is_never_replayed:
  assumes "c \<in> set (vr_criteria (sa_receipt a))" and "cr_confidence c = Some NaN"
    and "receipt_save text_of f seen a = (f', out)" and "receipt_won out"
    and "receipt_save text_of f' seen' (a\<lparr>sa_expected := n, sa_timestamp := ts\<rparr>) = (f'', out')"
  shows "f'' = f' \<and> (\<forall>answer. out' = Inr answer \<longrightarrow> rs_status answer \<noteq> Save_saved)"
proof -
  from receipt_save_cases [OF assms(3)] assms(4) obtain s key h where first:
    "save_checked a s key" "load_lines text_of f' = Inr (h @ [own_event a s key])"
    by (auto simp: save_refused_def save_appended_def)
  have never: "\<not> recorded s' (sa_receipt a) key' h'" for s' key' h'
    using nan_payload_differs [OF assms(1,2)] by (auto simp: recorded_def)
  have "\<not> save_appended text_of f' f'' (a\<lparr>sa_expected := n, sa_timestamp := ts\<rparr>)"
    using first by (auto simp: save_appended_def save_checked_def find_receipt_event_def
        same_receipt_request_def receipt_event_get)
  with receipt_save_cases [OF assms(5)] never show ?thesis
    by (auto simp: save_refused_def)
qed

section \<open>A turn that is verified three times\<close>

definition kept_criterion :: "pyfloat option \<Rightarrow> criterion_receipt" where
  "kept_criterion x = \<lparr>cr_id = ''c'', cr_verdict = Verdict_verified, cr_verifier = ''v'',
     cr_refs = [], cr_reason = ''r'', cr_retry = Retry_none, cr_confidence = x\<rparr>"

definition kept_receipt :: "verdict \<Rightarrow> pyfloat option \<Rightarrow> verification_receipt" where
  "kept_receipt v x = \<lparr>vr_id = ''i'', vr_turn_id = ''t'', vr_goal_id = None, vr_verdict = v,
     vr_criteria = [kept_criterion x], vr_hard_failure = False, vr_retry = Retry_none\<rparr>"

definition verdict_digest :: "json \<Rightarrow> string" where
  "verdict_digest v =
     (case v of JObj d \<Rightarrow> (case jget d ''verdict'' of JStr s \<Rightarrow> s | _ \<Rightarrow> []) | _ \<Rightarrow> [])"

text \<open>One finalisation of the turn with no other writer: every load sees the history of the file.\<close>

definition finalize_turn :: "session_file \<Rightarrow> verification_receipt \<Rightarrow> session_file \<times> bool" where
  "finalize_turn f r =
     (case load_lines (\<lambda>_. []) f of
        Inl _ \<Rightarrow> (f, False)
      | Inr h \<Rightarrow> persist_receipt (\<lambda>_. []) verdict_digest ''2026'' f h h ''s'' ''t''
                   (verification_receipt_to_dict r))"

definition first_file :: session_file where
  "first_file = [Parsed (JObj (receipt_event_dict ''s'' (kept_receipt Verdict_failed None) 1
     ''verification-host-finalize:failed'' ''2026''))]"

definition second_file :: session_file where
  "second_file = first_file @
     [Parsed (JObj (receipt_event_dict ''s'' (kept_receipt Verdict_unverified None) 2
     ''verification-host-finalize:unverified'' ''2026''))]"

lemma finalize_first:
  "finalize_turn [] (kept_receipt Verdict_failed None) = (first_file, True)"
  by code_simp

lemma first_receipt_parses:
  "verification_receipt_from_dict (verification_receipt_to_dict (kept_receipt Verdict_failed None))
     = Inr (kept_receipt Verdict_failed None)"
  by code_simp

lemma first_without_nan:
  "list_all (\<lambda>c. cr_confidence c \<noteq> Some NaN) (vr_criteria (kept_receipt Verdict_failed None))"
  by code_simp

theorem persisted_receipt_is_recorded_witness:
  "\<exists>s key h. clean_string ''s'' ''session_id'' 256 = Inr s
     \<and> load_lines (\<lambda>_. []) first_file = Inr h
     \<and> recorded s (kept_receipt Verdict_failed None) key h"
  using persisted_receipt_is_recorded [OF first_receipt_parses first_without_nan
      finalize_first [unfolded finalize_turn_def load_lines.simps sum.case]]
  by auto

lemma finalize_second:
  "finalize_turn first_file (kept_receipt Verdict_unverified None) = (second_file, True)"
  by code_simp

text \<open>The key of a receipt is its digest, and a save that finds the key succeeds whatever the newest
  receipt is: a turn that failed, was then unverified, and then failed again in the same way is
  reported as persisted each time, and its durable receipt still says unverified.\<close>

theorem repeated_receipt_is_not_current:
  "finalize_turn second_file (kept_receipt Verdict_failed None) = (second_file, True)
   \<and> bindE (load_lines (\<lambda>_. []) second_file) (\<lambda>h. Inr (rl_receipt (load_receipt ''s'' ''t'' h)))
     = Inr (Some (kept_receipt Verdict_unverified None))"
  by (rule conjI; code_simp)

end
