(* ===== verification/Controlled_Recovery.thy ===== *)
theory Controlled_Recovery
  imports Outcome_Verifier
begin

text \<open>
  The coordinator of \<^verbatim>\<open>mochi/agents/controlled_recovery.py\<close>: from the durable state of one tool
  operation, the summary of its receipt and the state of its approval to a directive. The texts the
  code restricts to literals are datatypes; the constructors check what they combine.
\<close>

datatype operation_status =
  Op_precommitted | Op_started | Op_succeeded | Op_failed | Op_unknown

datatype effect_boundary = Boundary_not_started | Boundary_started | Boundary_unknown

datatype approval_state =
  Approval_not_required | Approval_waiting | Approval_applied | Approval_rejected
| Approval_lapsed | Approval_drifted | Approval_unknown

datatype continuation_state =
  Cont_not_required | Cont_not_started | Cont_continuing | Cont_completed | Cont_failed
| Cont_state_unknown

datatype execution_status = Exec_succeeded | Exec_failed | Exec_partial | Exec_unknown

datatype controlled_action =
  Model_replan | Corrective_replan | New_operation | Approval_continuation | Blocked_unknown
| Act_terminal

record operation_state =
  op_id :: string
  op_status :: operation_status

record approval_continuation =
  ac_approval :: approval_state
  ac_continuation :: continuation_state

record controlled_decision =
  cd_action :: controlled_action
  cd_reason :: string
  cd_operation :: "string option"
  cd_supersedes :: "string option"

fun expected_boundary :: "operation_status \<Rightarrow> effect_boundary" where
  "expected_boundary Op_precommitted = Boundary_not_started"
| "expected_boundary Op_started = Boundary_started"
| "expected_boundary Op_succeeded = Boundary_started"
| "expected_boundary Op_failed = Boundary_started"
| "expected_boundary Op_unknown = Boundary_unknown"

text \<open>The boundary is a function of the status, so the record keeps the status only.\<close>

definition make_operation_state ::
  "string \<Rightarrow> operation_status \<Rightarrow> effect_boundary \<Rightarrow> operation_state py" where
  "make_operation_state i st boundary =
     bindE (requireE (py_strip i \<noteq> []) (ValueError ''operation_id must be non-empty'')) (\<lambda>_.
     bindE (requireE (boundary = expected_boundary st)
              (ValueError ''operation status and side-effect boundary are inconsistent'')) (\<lambda>_.
       Inr \<lparr>op_id = py_strip i, op_status = st\<rparr>))"

definition make_approval_continuation ::
  "approval_state \<Rightarrow> continuation_state \<Rightarrow> approval_continuation py" where
  "make_approval_continuation a c =
     (if a = Approval_applied
      then bindE (requireE (c \<noteq> Cont_not_required)
                    (ValueError ''applied approval requires an explicit continuation_state'')) (\<lambda>_.
             Inr \<lparr>ac_approval = a, ac_continuation = c\<rparr>)
      else bindE (requireE (c = Cont_not_required)
                    (ValueError ''non-applied approval requires continuation_state not_required''))
             (\<lambda>_. Inr \<lparr>ac_approval = a, ac_continuation = c\<rparr>))"

definition default_approval :: approval_continuation where
  "default_approval = \<lparr>ac_approval = Approval_not_required, ac_continuation = Cont_not_required\<rparr>"

definition normalize_optional_operation_id :: "string option \<Rightarrow> string \<Rightarrow> string option py" where
  "normalize_optional_operation_id v field =
     (case v of
        None \<Rightarrow> Inr None
      | Some s \<Rightarrow>
          (if py_strip s = []
           then Inl (ValueError (field @ '' must be a non-empty string when provided''))
           else Inr (Some (py_strip s))))"

definition make_controlled_decision ::
  "controlled_action \<Rightarrow> string \<Rightarrow> string option \<Rightarrow> string option \<Rightarrow> controlled_decision py" where
  "make_controlled_decision action reason operation supersedes =
     bindE (requireE (py_strip reason \<noteq> []) (ValueError ''reason_code must be non-empty'')) (\<lambda>_.
     bindE (normalize_optional_operation_id operation ''operation_id'') (\<lambda>oid.
     bindE (normalize_optional_operation_id supersedes ''supersedes_operation_id'') (\<lambda>sup.
     bindE (if action \<in> set [New_operation, Corrective_replan]
            then bindE (requireE (oid \<noteq> None \<and> sup \<noteq> None)
                          (ValueError ''replacement decisions require operation_id and supersedes_operation_id'')) (\<lambda>_.
                   requireE (oid = sup)
                     (ValueError ''replacement decision lineage must bind the exact prior operation''))
            else requireE (sup = None)
                   (ValueError ''only replacement decisions may declare supersedes_operation_id''))
       (\<lambda>_.
     bindE (requireE (action \<noteq> Approval_continuation \<or> oid \<noteq> None)
              (ValueError ''approval_continuation requires an exact operation_id'')) (\<lambda>_.
       Inr \<lparr>cd_action = action, cd_reason = py_strip reason, cd_operation = oid,
            cd_supersedes = sup\<rparr>)))))"

text \<open>The directives; the operation is the one the caller passed, if any.\<close>

definition directive ::
  "controlled_action \<Rightarrow> operation_state option \<Rightarrow> string \<Rightarrow> controlled_decision py" where
  "directive action operation reason =
     make_controlled_decision action reason (map_option op_id operation) None"

definition replacement ::
  "controlled_action \<Rightarrow> operation_state \<Rightarrow> string \<Rightarrow> controlled_decision py" where
  "replacement action operation reason =
     make_controlled_decision action reason (Some (op_id operation)) (Some (op_id operation))"

fun approval_state_text :: "approval_state \<Rightarrow> string" where
  "approval_state_text Approval_not_required = ''not_required''"
| "approval_state_text Approval_waiting = ''pending''"
| "approval_state_text Approval_applied = ''applied''"
| "approval_state_text Approval_rejected = ''rejected''"
| "approval_state_text Approval_lapsed = ''expired''"
| "approval_state_text Approval_drifted = ''drifted''"
| "approval_state_text Approval_unknown = ''unknown''"

definition applied_approval_decision ::
  "operation_state option \<Rightarrow> continuation_state \<Rightarrow> controlled_decision py" where
  "applied_approval_decision operation continuation =
     (case operation of
        None \<Rightarrow> directive Act_terminal None ''approval_applied_operation_missing''
      | Some op \<Rightarrow>
          (if op_status op \<in> set [Op_started, Op_unknown]
           then directive Blocked_unknown operation ''approval_applied_operation_outcome_unknown''
           else if op_status op = Op_precommitted
           then directive Act_terminal operation ''approval_applied_operation_not_completed''
           else if continuation \<in> set [Cont_not_started, Cont_continuing]
           then directive Approval_continuation operation ''approval_applied_continue_exact_result''
           else if continuation = Cont_state_unknown
           then directive Blocked_unknown operation ''approval_continuation_outcome_unknown''
           else directive Act_terminal operation
                  (if continuation = Cont_completed then ''approval_result_already_continued''
                   else ''approval_continuation_failed'')))"

text \<open>The part of \<open>decide\<close> after the approval: the retry disposition, then the operation.\<close>

definition decide_operation ::
  "operation_state option \<Rightarrow> execution_status \<Rightarrow> disposition \<Rightarrow> controlled_decision py" where
  "decide_operation operation execution retry =
     (if retry = Retry_terminal then directive Act_terminal operation ''receipt_terminal''
      else if retry = Retry_requires_approval
      then directive Act_terminal operation ''receipt_requires_approval''
      else
        (case operation of
           None \<Rightarrow>
             (if execution = Exec_failed
              then directive Model_replan None ''known_pre_side_effect_failure''
              else directive Act_terminal None ''operation_state_missing'')
         | Some op \<Rightarrow>
             (if op_status op = Op_precommitted
              then directive Model_replan operation ''operation_not_started''
              else if op_status op = Op_failed
              then (if execution \<in> set [Exec_failed, Exec_partial]
                    then replacement New_operation op ''known_operation_failure''
                    else directive Act_terminal operation ''operation_failure_receipt_inconsistent'')
              else if op_status op = Op_succeeded \<and> execution \<noteq> Exec_succeeded
              then directive Act_terminal operation ''operation_success_receipt_inconsistent''
              else if op_status op = Op_succeeded \<and> retry = Retry_requires_replan
              then replacement Corrective_replan op ''receipt_requires_replan_after_known_success''
              else directive Act_terminal operation ''operation_already_succeeded'')))"

definition controlled_decide ::
  "operation_state option \<Rightarrow> execution_status \<Rightarrow> disposition \<Rightarrow> approval_continuation option
     \<Rightarrow> controlled_decision py" where
  "controlled_decide operation execution retry approval =
     (let a = (case approval of None \<Rightarrow> default_approval | Some x \<Rightarrow> x);
          uncertain = (case operation of
             None \<Rightarrow> False | Some op \<Rightarrow> op_status op \<in> set [Op_started, Op_unknown])
      in if uncertain then directive Blocked_unknown operation ''side_effect_outcome_unknown''
         else if execution = Exec_unknown
         then directive Blocked_unknown operation ''execution_outcome_unknown''
         else if ac_approval a = Approval_unknown
         then directive Blocked_unknown operation ''approval_outcome_unknown''
         else if ac_approval a = Approval_applied
         then applied_approval_decision operation (ac_continuation a)
         else if ac_approval a = Approval_waiting
         then directive Act_terminal operation ''approval_pending''
         else if ac_approval a \<in> set [Approval_rejected, Approval_lapsed, Approval_drifted]
         then (if (case operation of None \<Rightarrow> True | Some op \<Rightarrow> op_status op = Op_precommitted)
               then directive Model_replan operation
                      (''approval_'' @ approval_state_text (ac_approval a) @ ''_before_side_effect'')
               else directive Act_terminal operation
                      (''approval_'' @ approval_state_text (ac_approval a) @ ''_after_side_effect''))
         else decide_operation operation execution retry)"

end
