(* ===== verification/Recovery_Policy.thy ===== *)
theory Recovery_Policy
  imports Controlled_Recovery
begin

text \<open>
  The budgeted recovery policy of \<^verbatim>\<open>mochi/agents/recovery_policy.py\<close>: budgets and decisions with the
  checks of their constructors and their serialisation, the classification of a verification
  failure, and the bounded corrective context. The exhaustion of a budget, which the policy catches, is told apart
  from every other exception; those all count as policy errors.
\<close>

datatype recovery_error = Policy_error string | Budget_exhausted string

type_synonym 'a rp = "recovery_error + 'a"

section \<open>Checks\<close>

definition strip_text :: "json \<Rightarrow> string \<Rightarrow> nat \<Rightarrow> string rp" where
  "strip_text v field max_chars =
     (case v of
        JStr s \<Rightarrow>
          (if py_strip s = [] then Inl (Policy_error (field @ '' must be a non-empty string''))
           else if length (py_strip s) > max_chars
           then Inl (Policy_error (field @ '' exceeds its limit''))
           else Inr (py_strip s))
      | _ \<Rightarrow> Inl (Policy_error (field @ '' must be a non-empty string'')))"

definition strip_optional_text :: "json \<Rightarrow> string \<Rightarrow> nat \<Rightarrow> string option rp" where
  "strip_optional_text v field max_chars =
     (if v = JNull then Inr None
      else bindE (strip_text v field max_chars) (\<lambda>s. Inr (Some s)))"

definition natural :: "json \<Rightarrow> string \<Rightarrow> int rp" where
  "natural v field =
     (case v of
        JInt n \<Rightarrow> (if n < 0 then Inl (Policy_error (field @ '' must be a non-negative integer''))
                   else Inr n)
      | _ \<Rightarrow> Inl (Policy_error (field @ '' must be a non-negative integer'')))"

definition non_negative_float :: "json \<Rightarrow> string \<Rightarrow> pyfloat rp" where
  "non_negative_float v field =
     (case v of
        JInt n \<Rightarrow> (if n < 0 then Inl (Policy_error (field @ '' must be a non-negative number''))
                   else Inr (Fin (of_int n)))
      | JFloat x \<Rightarrow> (if float_less x (Fin 0)
                     then Inl (Policy_error (field @ '' must be a non-negative number''))
                     else Inr x)
      | _ \<Rightarrow> Inl (Policy_error (field @ '' must be a non-negative number'')))"

text \<open>A sequence of texts, bounded and without duplicates after stripping.\<close>

definition strip_texts :: "json list \<Rightarrow> string \<Rightarrow> nat \<Rightarrow> nat \<Rightarrow> string list rp" where
  "strip_texts values field max_items max_chars =
     bindE (requireE (length values \<le> max_items) (Policy_error (field @ '' exceeds its items'')))
       (\<lambda>_.
     bindE (traverseE (\<lambda>v. strip_text v field max_chars) values) (\<lambda>xs.
     bindE (requireE (distinct xs) (Policy_error (field @ '' must contain unique values''))) (\<lambda>_.
       Inr xs)))"

definition exact_keys :: "jdict \<Rightarrow> string list \<Rightarrow> string \<Rightarrow> unit rp" where
  "exact_keys payload expected field =
     requireE (set (dkeys payload) = set expected)
       (Policy_error (field @ '' has unexpected or missing keys''))"

section \<open>Budgets\<close>

record budget =
  rb_attempts :: int
  rb_model_calls :: int
  rb_tool_calls :: int
  rb_wall_seconds :: pyfloat

definition budget_version :: string where
  "budget_version = ''recovery-budget-v1''"

definition make_budget :: "json \<Rightarrow> json \<Rightarrow> json \<Rightarrow> json \<Rightarrow> json \<Rightarrow> budget rp" where
  "make_budget version raw_attempts raw_model raw_tool raw_wall =
     bindE (requireE (version = JStr budget_version) (Policy_error ''unsupported budget_version''))
       (\<lambda>_.
     bindE (natural raw_attempts ''remaining_attempts'') (\<lambda>attempts.
     bindE (natural raw_model ''remaining_extra_model_calls'') (\<lambda>model.
     bindE (natural raw_tool ''remaining_extra_tool_calls'') (\<lambda>tool.
     bindE (non_negative_float raw_wall ''remaining_extra_wall_seconds'') (\<lambda>wall.
       Inr \<lparr>rb_attempts = attempts, rb_model_calls = model, rb_tool_calls = tool,
            rb_wall_seconds = wall\<rparr>)))))"

definition initial_budget :: "json \<Rightarrow> json \<Rightarrow> json \<Rightarrow> json \<Rightarrow> budget rp" where
  "initial_budget attempts model tool wall =
     make_budget (JStr budget_version) attempts model tool wall"

definition legacy_budget_fields :: "string list" where
  "legacy_budget_fields = [''remaining_attempts'', ''remaining_extra_model_calls'',
     ''remaining_extra_tool_calls'', ''remaining_extra_wall_seconds'']"

definition budget_from_legacy_checkpoint :: "jdict \<Rightarrow> budget rp" where
  "budget_from_legacy_checkpoint p =
     bindE (exact_keys p legacy_budget_fields ''legacy recovery budget'') (\<lambda>_.
       make_budget (JStr budget_version) (jget p ''remaining_attempts'')
         (jget p ''remaining_extra_model_calls'') (jget p ''remaining_extra_tool_calls'')
         (jget p ''remaining_extra_wall_seconds''))"

definition budget_to_dict :: "budget \<Rightarrow> jdict" where
  "budget_to_dict b =
     [(''budget_version'', JStr budget_version),
      (''remaining_attempts'', JInt (rb_attempts b)),
      (''remaining_extra_model_calls'', JInt (rb_model_calls b)),
      (''remaining_extra_tool_calls'', JInt (rb_tool_calls b)),
      (''remaining_extra_wall_seconds'', JFloat (rb_wall_seconds b))]"

definition budget_from_dict :: "jdict \<Rightarrow> budget rp" where
  "budget_from_dict p =
     bindE (exact_keys p (''budget_version'' # legacy_budget_fields) ''recovery budget'') (\<lambda>_.
       make_budget (jget p ''budget_version'') (jget p ''remaining_attempts'')
         (jget p ''remaining_extra_model_calls'') (jget p ''remaining_extra_tool_calls'')
         (jget p ''remaining_extra_wall_seconds''))"

definition consume_budget :: "budget \<Rightarrow> json \<Rightarrow> json \<Rightarrow> json \<Rightarrow> json \<Rightarrow> budget rp" where
  "consume_budget b raw_attempts raw_model raw_tool raw_wall =
     bindE (natural raw_attempts ''attempts'') (\<lambda>attempts.
     bindE (natural raw_model ''model_calls'') (\<lambda>model.
     bindE (natural raw_tool ''tool_calls'') (\<lambda>tool.
     bindE (non_negative_float raw_wall ''wall_seconds'') (\<lambda>wall.
     bindE (requireE (attempts \<le> rb_attempts b)
              (Budget_exhausted ''recovery budget exhausted for attempts'')) (\<lambda>_.
     bindE (requireE (model \<le> rb_model_calls b)
              (Budget_exhausted ''recovery budget exhausted for model_calls'')) (\<lambda>_.
     bindE (requireE (tool \<le> rb_tool_calls b)
              (Budget_exhausted ''recovery budget exhausted for tool_calls'')) (\<lambda>_.
     bindE (requireE (\<not> float_less (rb_wall_seconds b) wall)
              (Budget_exhausted ''recovery budget exhausted for wall_seconds'')) (\<lambda>_.
       make_budget (JStr budget_version) (JInt (rb_attempts b - attempts))
         (JInt (rb_model_calls b - model)) (JInt (rb_tool_calls b - tool))
         (JFloat (float_minus (rb_wall_seconds b) wall))))))))))"

definition reserve_recovery :: "budget \<Rightarrow> budget rp" where
  "reserve_recovery b = consume_budget b (JInt 1) (JInt 1) (JInt 0) (JFloat (Fin 0))"

section \<open>Decisions\<close>

datatype recovery_action =
  Act_model_replan | Act_new_operation | Act_corrective_replan | Act_approval_continuation
| Act_await_approval | Act_blocked | Act_partial | Act_finish

fun action_text :: "recovery_action \<Rightarrow> string" where
  "action_text Act_model_replan = ''model_replan''"
| "action_text Act_new_operation = ''new_operation''"
| "action_text Act_corrective_replan = ''corrective_replan''"
| "action_text Act_approval_continuation = ''approval_continuation''"
| "action_text Act_await_approval = ''await_approval''"
| "action_text Act_blocked = ''blocked''"
| "action_text Act_partial = ''partial''"
| "action_text Act_finish = ''terminal''"

definition recovery_actions :: "recovery_action list" where
  "recovery_actions = [Act_model_replan, Act_new_operation, Act_corrective_replan,
     Act_approval_continuation, Act_await_approval, Act_blocked, Act_partial, Act_finish]"

text \<open>\<open>action not in frozenset\<close>; an unhashable value raises a \<open>TypeError\<close>, which the model does
  not tell apart from the policy error.\<close>

definition parse_action :: "json \<Rightarrow> recovery_action rp" where
  "parse_action v =
     (case v of
        JStr s \<Rightarrow> (case find (\<lambda>a. action_text a = s) recovery_actions of
                     Some a \<Rightarrow> Inr a
                   | None \<Rightarrow> Inl (Policy_error ''unsupported recovery action''))
      | _ \<Rightarrow> Inl (Policy_error ''unsupported recovery action''))"

definition replacement_actions :: "recovery_action list" where
  "replacement_actions = [Act_new_operation, Act_corrective_replan]"

definition budget_actions :: "recovery_action list" where
  "budget_actions = [Act_model_replan, Act_new_operation, Act_corrective_replan]"

record recovery_decision =
  rd_act :: recovery_action
  rd_reason_code :: string
  rd_failed :: "string list"
  rd_operation :: "string option"
  rd_supersedes :: "string option"
  rd_budget :: budget

definition decision_version :: string where
  "decision_version = ''recovery-decision-v1''"

definition make_decision ::
  "json \<Rightarrow> json \<Rightarrow> json \<Rightarrow> json list \<Rightarrow> json \<Rightarrow> json \<Rightarrow> budget \<Rightarrow> recovery_decision rp" where
  "make_decision version raw_action raw_reason raw_failed raw_operation raw_supersedes b =
     bindE (requireE (version = JStr decision_version)
              (Policy_error ''unsupported decision_version'')) (\<lambda>_.
     bindE (parse_action raw_action) (\<lambda>action.
     bindE (strip_text raw_reason ''reason_code'' 128) (\<lambda>reason.
     bindE (strip_texts raw_failed ''failed_criterion_ids'' 16 128) (\<lambda>failed.
     bindE (strip_optional_text raw_operation ''operation_id'' 128) (\<lambda>operation.
     bindE (strip_optional_text raw_supersedes ''supersedes_operation_id'' 128) (\<lambda>supersedes.
     bindE (if action \<in> set replacement_actions
            then bindE (requireE (operation \<noteq> None \<and> supersedes \<noteq> None)
                          (Policy_error ''replacement decisions require fresh operation lineage''))
                   (\<lambda>_. requireE (operation \<noteq> supersedes)
                          (Policy_error ''replacement operation ID must be fresh''))
            else requireE (supersedes = None)
                   (Policy_error ''only replacement decisions may declare supersedes_operation_id''))
       (\<lambda>_.
     bindE (requireE (action \<noteq> Act_approval_continuation \<or> operation \<noteq> None)
              (Policy_error ''approval continuation requires operation_id'')) (\<lambda>_.
       Inr \<lparr>rd_act = action, rd_reason_code = reason, rd_failed = failed,
            rd_operation = operation, rd_supersedes = supersedes, rd_budget = b\<rparr>))))))))"

definition decision_to_dict :: "recovery_decision \<Rightarrow> jdict" where
  "decision_to_dict d =
     [(''decision_version'', JStr decision_version),
      (''action'', JStr (action_text (rd_act d))),
      (''reason_code'', JStr (rd_reason_code d)),
      (''failed_criterion_ids'', strs (rd_failed d)),
      (''operation_id'', opt_str (rd_operation d)),
      (''supersedes_operation_id'', opt_str (rd_supersedes d)),
      (''remaining_budget'', JObj (budget_to_dict (rd_budget d)))]"

definition decision_from_dict :: "jdict \<Rightarrow> recovery_decision rp" where
  "decision_from_dict p =
     bindE (exact_keys p [''decision_version'', ''action'', ''reason_code'',
              ''failed_criterion_ids'', ''operation_id'', ''supersedes_operation_id'',
              ''remaining_budget''] ''recovery decision'') (\<lambda>_.
       (case jget p ''remaining_budget'' of
          JObj raw \<Rightarrow>
            (case py_tuple (jget p ''failed_criterion_ids'') of
               Inl e \<Rightarrow> Inl (Policy_error (error_text e))
             | Inr failed \<Rightarrow>
                 bindE (budget_from_dict raw) (\<lambda>b.
                   make_decision (jget p ''decision_version'') (jget p ''action'')
                     (jget p ''reason_code'') failed (jget p ''operation_id'')
                     (jget p ''supersedes_operation_id'') b))
        | _ \<Rightarrow> Inl (Policy_error ''remaining_budget must be an object'')))"

section \<open>The policy\<close>

definition operation_execution_status ::
  "operation_state option \<Rightarrow> verification_receipt \<Rightarrow> execution_status" where
  "operation_execution_status operation receipt =
     (case operation of
        None \<Rightarrow> (if vr_verdict receipt \<in> set [Verdict_failed, Verdict_unverified]
                 then Exec_failed else Exec_succeeded)
      | Some op \<Rightarrow>
          (if op_status op \<in> set [Op_started, Op_unknown] then Exec_unknown
           else if op_status op = Op_succeeded then Exec_succeeded else Exec_failed))"

definition failed_criterion_ids :: "verification_receipt \<Rightarrow> string list" where
  "failed_criterion_ids receipt =
     map cr_id (filter (\<lambda>c. cr_verdict c \<in> set [Verdict_failed, Verdict_unverified])
       (vr_criteria receipt))"

text \<open>The plan ledger argument: absent, a ledger, or a mapping that must parse.\<close>

datatype ledger_arg = No_ledger | Ledger plan_ledger | Ledger_mapping json

definition coerce_ledger :: "ledger_arg \<Rightarrow> plan_ledger option rp" where
  "coerce_ledger v =
     (case v of
        No_ledger \<Rightarrow> Inr None
      | Ledger l \<Rightarrow> Inr (Some l)
      | Ledger_mapping (JObj p) \<Rightarrow>
          (case plan_ledger_from_dict p of
             Inl e \<Rightarrow> Inl (Policy_error (error_text e))
           | Inr l \<Rightarrow> Inr (Some l))
      | Ledger_mapping _ \<Rightarrow> Inl (Policy_error ''plan_ledger must be a PlanLedger or object''))"

fun action_of :: "controlled_action \<Rightarrow> recovery_action" where
  "action_of Model_replan = Act_model_replan"
| "action_of Corrective_replan = Act_corrective_replan"
| "action_of New_operation = Act_new_operation"
| "action_of Approval_continuation = Act_approval_continuation"
| "action_of Blocked_unknown = Act_blocked"
| "action_of Act_terminal = Act_finish"

definition decided ::
  "recovery_action \<Rightarrow> string \<Rightarrow> string list \<Rightarrow> string option \<Rightarrow> string option \<Rightarrow> budget
     \<Rightarrow> recovery_decision rp" where
  "decided action reason failed operation supersedes b =
     make_decision (JStr decision_version) (JStr (action_text action)) (JStr reason)
       (map JStr failed) (opt_str operation) (opt_str supersedes) b"

text \<open>The end of \<open>decide\<close>: an action that uses the budget.\<close>

definition decide_with_budget ::
  "controlled_decision \<Rightarrow> string list \<Rightarrow> budget \<Rightarrow> json \<Rightarrow> recovery_decision rp" where
  "decide_with_budget cd failed b fresh_id =
     (case reserve_recovery b of
        Inl (Budget_exhausted _) \<Rightarrow>
          decided Act_partial ''recovery_budget_exhausted'' failed (cd_operation cd) None b
      | Inl (Policy_error m) \<Rightarrow> Inl (Policy_error m)
      | Inr next_budget \<Rightarrow>
          (if action_of (cd_action cd) \<in> set replacement_actions
           then
             bindE (strip_optional_text fresh_id ''fresh_operation_id'' 128) (\<lambda>fresh.
               case fresh of
                 None \<Rightarrow>
                   decided Act_blocked ''fresh_operation_id_required'' failed
                     (cd_operation cd) None b
               | Some i \<Rightarrow>
                   (if cd_supersedes cd = None \<or> cd_supersedes cd = Some i
                    then decided Act_blocked ''fresh_operation_id_reused'' failed
                           (cd_operation cd) None b
                    else decided (action_of (cd_action cd)) (cd_reason cd) failed (Some i)
                           (cd_supersedes cd) next_budget))
           else decided (action_of (cd_action cd)) (cd_reason cd) failed (cd_operation cd)
                  None next_budget))"

definition policy_decide ::
  "verification_receipt \<Rightarrow> operation_state option \<Rightarrow> ledger_arg \<Rightarrow> budget
     \<Rightarrow> approval_continuation option \<Rightarrow> json \<Rightarrow> recovery_decision rp" where
  "policy_decide receipt operation ledger b approval fresh_id =
     bindE (coerce_ledger ledger) (\<lambda>_.
     let failed = failed_criterion_ids receipt;
         own = map_option op_id operation
     in if vr_verdict receipt \<in> set [Verdict_verified, Verdict_not_applicable] \<and>
           \<not> vr_hard_failure receipt
        then decided Act_finish ''verification_satisfied'' failed own None b
        else if \<not> vr_hard_failure receipt
        then decided Act_finish ''verification_non_blocking'' failed own None b
        else
          (case controlled_decide operation (operation_execution_status operation receipt)
                  (vr_retry receipt) approval of
             Inl e \<Rightarrow> Inl (Policy_error (error_text e))
           | Inr cd \<Rightarrow>
               (if cd_action cd = Blocked_unknown
                then decided Act_blocked (cd_reason cd) failed (cd_operation cd) None b
                else if cd_action cd = Approval_continuation
                then decided Act_approval_continuation (cd_reason cd) failed
                       (cd_operation cd) None b
                else if cd_reason cd \<in> set [''approval_pending'', ''receipt_requires_approval'']
                then decided Act_await_approval (cd_reason cd) failed
                       (cd_operation cd) None b
                else if cd_action cd = Act_terminal
                then decided Act_finish (cd_reason cd) failed (cd_operation cd) None b
                else decide_with_budget cd failed b fresh_id)))"

section \<open>The corrective context\<close>

text \<open>
  \<open>build_corrective_context\<close>; the first argument stands for \<open>len(str(context))\<close>.
\<close>

definition failed_payload :: "verification_receipt \<Rightarrow> string list \<Rightarrow> json" where
  "failed_payload receipt failed =
     JList (map (\<lambda>c. JObj [(''criterion_id'', JStr (cr_id c)), (''reason_code'', JStr (cr_reason c)),
                         (''evidence_refs'', strs (cr_refs c))])
       (filter (\<lambda>c. cr_id c \<in> set failed) (vr_criteria receipt)))"

definition active_item_payload :: "plan_ledger option \<Rightarrow> json" where
  "active_item_payload ledger =
     (case ledger of
        None \<Rightarrow> JNull
      | Some l \<Rightarrow>
          (case find (\<lambda>i. item_status i = Item_in_progress) (ledger_items l) of
             None \<Rightarrow> JNull
           | Some i \<Rightarrow> JObj [(''item_id'', JStr (item_id i)), (''title'', JStr (item_title i)),
                (''success_criteria'', strs (success_criteria i)),
                (''attempts'', JInt (item_attempts i))]))"

definition corrective_context ::
  "(jdict \<Rightarrow> nat) \<Rightarrow> verification_receipt \<Rightarrow> recovery_decision \<Rightarrow> ledger_arg \<Rightarrow> json list \<Rightarrow> int
     \<Rightarrow> jdict rp" where
  "corrective_context text_length receipt d ledger allowed_targets max_chars =
     bindE (requireE (500 \<le> max_chars \<and> max_chars \<le> 20000)
              (Policy_error ''max_chars must be between 500 and 20000'')) (\<lambda>_.
     bindE (requireE (rd_act d \<in> set budget_actions)
              (Policy_error ''corrective context requires a recovery decision'')) (\<lambda>_.
     bindE (coerce_ledger ledger) (\<lambda>l.
     bindE (strip_texts allowed_targets ''allowed_targets'' 16 240) (\<lambda>targets.
     let prior = opt_str (case rd_supersedes d of None \<Rightarrow> rd_operation d | s \<Rightarrow> s);
         context =
           [(''context_version'', JStr ''recovery-context-v1''),
            (''failed_criteria'', failed_payload receipt (rd_failed d)),
            (''prior_operation_id'', prior),
            (''allowed_targets'', strs targets),
            (''active_plan_item'', active_item_payload l),
            (''remaining_budget'', JObj (budget_to_dict (rd_budget d))),
            (''prohibited_repeats'', JList [prior]),
            (''scope_rule'',
               JStr ''Correct only failed criteria within the existing task scope.''),
            (''instruction'',
               JStr (''Mint a fresh corrective operation. Do not replay the prior operation, '' @
                 ''claim success without new evidence, or expand the task scope.''))]
     in bindE (requireE (int (text_length context) \<le> max_chars)
                 (Policy_error ''corrective context exceeds max_chars'')) (\<lambda>_. Inr context)))))"

end
