(* ===== verification/Recovery_Properties.thy ===== *)
theory Recovery_Properties
  imports Recovery_Policy Outcome_Proofs
begin

text \<open>
  The properties of recovery: an old operation is never run again and an uncertain one is never
  touched, a chain of recoveries ends with its budget, decisions survive serialisation, and the one
  input on which the policy raises instead of deciding.
\<close>

lemma decided_Inr:
  assumes "decided action reason failed operation supersedes b = Inr d"
  shows "rd_act d = action" and "rd_budget d = b"
    and "rd_operation d = map_option py_strip operation"
    and "rd_supersedes d = map_option py_strip supersedes"
proof -
  have act: "parse_action (JStr (action_text a)) = Inr a" for a
    by (cases a) (simp_all add: parse_action_def recovery_actions_def)
  have opt: "strip_optional_text (opt_str x) f n = Inr y \<Longrightarrow> y = map_option py_strip x" for x f n y
    by (cases x) (auto simp: strip_optional_text_def strip_text_def result_simps split: if_splits)
  show "rd_act d = action" and "rd_budget d = b"
    and "rd_operation d = map_option py_strip operation"
    and "rd_supersedes d = map_option py_strip supersedes"
    using assms by (auto simp: decided_def make_decision_def result_simps act dest!: opt)
qed

lemma decided_all:
  "decided action reason failed operation supersedes b = Inr d \<Longrightarrow>
     rd_act d = action \<and> rd_budget d = b \<and> rd_operation d = map_option py_strip operation \<and>
     rd_supersedes d = map_option py_strip supersedes"
  by (simp add: decided_Inr)

lemma directive_Inr:
  assumes "directive a op reason = Inr cd"
  shows "cd_action cd = a" and "cd_operation cd = map_option (\<lambda>x. py_strip (op_id x)) op"
    and "cd_supersedes cd = None"
  using assms
  by (auto simp: directive_def make_controlled_decision_def result_simps
      normalize_optional_operation_id_def split: option.splits if_splits)

lemma replacement_Inr:
  assumes "replacement a op reason = Inr cd"
  shows "cd_action cd = a" and "cd_operation cd = Some (py_strip (op_id op))"
    and "cd_supersedes cd = Some (py_strip (op_id op))"
  using assms
  by (auto simp: replacement_def make_controlled_decision_def result_simps
      normalize_optional_operation_id_def split: option.splits if_splits)

text \<open>What the coordinator promises: replacements bind a finished operation, replans happen before
  the side effect, and nothing but a block answers uncertainty.\<close>

definition settled :: "operation_state option \<Rightarrow> bool" where
  "settled op \<longleftrightarrow> (\<forall>x. op = Some x \<longrightarrow> op_status x \<notin> {Op_started, Op_unknown})"

definition replaces :: "operation_state option \<Rightarrow> controlled_decision \<Rightarrow> disposition \<Rightarrow> bool" where
  "replaces op cd retry \<longleftrightarrow>
     (\<exists>x. op = Some x \<and> cd_supersedes cd = Some (py_strip (op_id x)) \<and>
        (op_status x = Op_failed \<and> cd_action cd = New_operation \<or>
         op_status x = Op_succeeded \<and> cd_action cd = Corrective_replan \<and>
           retry = Retry_requires_replan))"

definition approval_quiet :: "approval_continuation option \<Rightarrow> bool" where
  "approval_quiet approval \<longleftrightarrow> (\<forall>a. approval = Some a \<longrightarrow>
     ac_approval a \<notin> {Approval_applied, Approval_waiting, Approval_unknown})"

definition replans_early :: "operation_state option \<Rightarrow> bool" where
  "replans_early op \<longleftrightarrow> (\<forall>x. op = Some x \<longrightarrow> op_status x = Op_precommitted)"

lemma decide_operation_safe:
  assumes "decide_operation op execution retry = Inr cd"
  shows "(cd_action cd \<in> {New_operation, Corrective_replan} \<longrightarrow> replaces op cd retry) \<and>
    (cd_action cd = Model_replan \<longrightarrow> replans_early op \<and> cd_supersedes cd = None)"
proof (cases op)
  case None
  with assms show ?thesis
    by (auto simp: decide_operation_def replans_early_def dest: directive_Inr split: if_splits)
next
  case (Some x)
  with assms show ?thesis
    by (cases "op_status x")
      (auto simp: decide_operation_def replans_early_def replaces_def
        dest: directive_Inr replacement_Inr split: if_splits)
qed

lemma applied_safe:
  "applied_approval_decision op continuation = Inr cd \<Longrightarrow>
     cd_action cd \<in> {Act_terminal, Blocked_unknown, Approval_continuation}"
  by (auto simp: applied_approval_decision_def dest: directive_Inr split: option.splits if_splits)

lemma controlled_safe:
  assumes "controlled_decide op execution retry approval = Inr cd"
  shows "(cd_action cd \<in> {New_operation, Corrective_replan} \<longrightarrow> replaces op cd retry) \<and>
    (cd_action cd = Model_replan \<longrightarrow> replans_early op \<and> cd_supersedes cd = None) \<and>
    (cd_action cd \<in> {New_operation, Corrective_replan, Model_replan} \<longrightarrow>
       settled op \<and> approval_quiet approval \<and> execution \<noteq> Exec_unknown) \<and>
    (\<not> settled op \<longrightarrow> cd_action cd = Blocked_unknown)"
proof (cases "settled op \<and> execution \<noteq> Exec_unknown \<and> approval_quiet approval")
  case True
  then have quiet: "(case op of None \<Rightarrow> False | Some x \<Rightarrow> op_status x \<in> set [Op_started, Op_unknown]) = False"
    by (auto simp: settled_def split: option.split)
  define a where "a = (case approval of None \<Rightarrow> default_approval | Some x \<Rightarrow> x)"
  have qa: "ac_approval a \<notin> {Approval_applied, Approval_waiting, Approval_unknown}"
    using True by (cases approval) (auto simp: a_def approval_quiet_def default_approval_def)
  show ?thesis
  proof (cases "ac_approval a \<in> set [Approval_rejected, Approval_lapsed, Approval_drifted]")
    case rejected: True
    have "cd_action cd \<in> {Model_replan, Act_terminal} \<and> cd_supersedes cd = None \<and>
        (cd_action cd = Model_replan \<longrightarrow> replans_early op)"
      using assms True rejected qa quiet
      unfolding controlled_decide_def Let_def a_def [symmetric]
      by (cases op) (auto simp: replans_early_def dest: directive_Inr split: if_splits)
    with True show ?thesis by auto
  next
    case False
    have "decide_operation op execution retry = Inr cd"
      using assms True False qa
      unfolding controlled_decide_def Let_def a_def [symmetric] quiet by (auto split: if_splits)
    from decide_operation_safe [OF this] True show ?thesis by simp
  qed
next
  case False
  have "cd_action cd \<in> {Act_terminal, Blocked_unknown, Approval_continuation} \<and>
      (\<not> settled op \<longrightarrow> cd_action cd = Blocked_unknown)"
    using assms False
    by (auto simp: controlled_decide_def Let_def settled_def approval_quiet_def default_approval_def
        dest: directive_Inr applied_safe split: if_splits option.splits)
  with False show ?thesis by auto
qed

section \<open>No replay\<close>

lemma reserve_Inr:
  assumes "reserve_recovery b = Inr b'"
  shows "rb_attempts b' = rb_attempts b - 1" and "rb_model_calls b' = rb_model_calls b - 1"
    and "rb_tool_calls b' = rb_tool_calls b" and "1 \<le> rb_attempts b" and "1 \<le> rb_model_calls b"
  using assms
  by (auto simp: reserve_recovery_def consume_budget_def make_budget_def natural_def
      non_negative_float_def result_simps split: if_splits)

lemma with_budget_cases:
  assumes "decide_with_budget cd failed b fresh = Inr d"
    and cd: "cd_action cd \<in> {New_operation, Corrective_replan, Model_replan}"
    and "cd_action cd = Model_replan \<longrightarrow> cd_supersedes cd = None"
  shows "rd_act d \<in> {Act_partial, Act_blocked} \<and> rd_budget d = b \<or>
    reserve_recovery b = Inr (rd_budget d) \<and> rd_act d = action_of (cd_action cd) \<and>
      rd_supersedes d = map_option py_strip (cd_supersedes cd) \<and>
      (rd_act d \<in> set replacement_actions \<longrightarrow>
         (\<exists>i. rd_operation d = Some i \<and> cd_supersedes cd \<noteq> Some i))"
proof (cases "reserve_recovery b")
  case (Inl e)
  with assms(1) show ?thesis
    by (cases e) (auto simp: decide_with_budget_def dest!: decided_all)
next
  case (Inr b')
  have strip: "strip_optional_text v f n = Inr (Some x) \<Longrightarrow> py_strip x = x" for v f n x
    by (auto simp: strip_optional_text_def strip_text_def result_simps split: json.splits if_splits)
  show ?thesis
  proof (cases "action_of (cd_action cd) \<in> set replacement_actions")
    case True
    from assms(1) Inr True obtain fr where fr: "strip_optional_text fresh ''fresh_operation_id'' 128 = Inr fr"
      by (auto simp: decide_with_budget_def bindE_eq_Inr)
    show ?thesis
      using assms(1) Inr True fr strip
      by (auto simp: decide_with_budget_def dest!: decided_all split: option.splits if_splits)
  next
    case False
    then have "cd_action cd = Model_replan" using cd by (auto simp: replacement_actions_def)
    with False assms Inr show ?thesis
      by (auto simp: decide_with_budget_def replacement_actions_def dest!: decided_all)
  qed
qed

lemma policy_cases:
  assumes "policy_decide receipt op ledger b approval fresh = Inr d"
  shows "rd_act d \<notin> set budget_actions \<and> rd_budget d = b \<or>
    (\<exists>cd failed. vr_hard_failure receipt \<and>
       controlled_decide op (operation_execution_status op receipt) (vr_retry receipt) approval =
         Inr cd \<and>
       cd_action cd \<in> {New_operation, Corrective_replan, Model_replan} \<and>
       decide_with_budget cd failed b fresh = Inr d)"
proof (cases "vr_hard_failure receipt")
  case False
  with assms show ?thesis
    by (auto simp: policy_decide_def bindE_eq_Inr Let_def budget_actions_def dest!: decided_all
        split: if_splits)
next
  case True
  obtain cd where cd: "controlled_decide op (operation_execution_status op receipt)
      (vr_retry receipt) approval = Inr cd"
    using assms True by (auto simp: policy_decide_def bindE_eq_Inr Let_def split: sum.splits)
  show ?thesis
  proof (cases "cd_action cd \<in> {New_operation, Corrective_replan, Model_replan} \<and>
      cd_reason cd \<notin> set [''approval_pending'', ''receipt_requires_approval'']")
    case inner: True
    then have "decide_with_budget cd (failed_criterion_ids receipt) b fresh = Inr d"
      using assms True cd by (auto simp: policy_decide_def bindE_eq_Inr Let_def)
    with True cd inner show ?thesis by blast
  next
    case False
    with assms True cd show ?thesis
      by (cases "cd_action cd")
        (auto simp: policy_decide_def bindE_eq_Inr Let_def budget_actions_def dest!: decided_all
          split: if_splits)
  qed
qed

text \<open>A hard failure whose operation has not settled is blocked.\<close>

lemma unsettled_is_blocked:
  assumes "policy_decide receipt op ledger b approval fresh = Inr d"
    and hard: "vr_hard_failure receipt" and unsettled: "\<not> settled op"
  shows "rd_act d = Act_blocked"
proof -
  obtain cd where cd: "controlled_decide op (operation_execution_status op receipt)
      (vr_retry receipt) approval = Inr cd"
    using assms(1) hard by (auto simp: policy_decide_def bindE_eq_Inr Let_def split: sum.splits)
  with controlled_safe [OF cd] unsettled have "cd_action cd = Blocked_unknown" by simp
  with assms(1) hard cd show ?thesis
    by (auto simp: policy_decide_def bindE_eq_Inr Let_def dest!: decided_all)
qed

text \<open>A decision that replaces an operation names it and gives the replacement a new identifier.\<close>

lemma replacement_names_operation:
  assumes "replaces op cd retry" and "rd_supersedes d = map_option py_strip (cd_supersedes cd)"
    and "map_option py_strip (cd_supersedes cd) = cd_supersedes cd"
    and "rd_operation d = Some i" and "cd_supersedes cd \<noteq> Some i"
  shows "\<exists>x. op = Some x \<and> rd_supersedes d = Some (py_strip (op_id x)) \<and> i \<noteq> py_strip (op_id x)
    \<and> (op_status x = Op_failed \<or> op_status x = Op_succeeded \<and> retry = Retry_requires_replan)"
  using assms by (auto simp: replaces_def)

text \<open>C35. Recovery never runs an old operation again. A decision to replace an operation names an
  operation whose outcome is known, a failed one or a succeeded one whose receipt asks for a replan,
  and gives the replacement an id of its own; a decision to replan leaves every operation that may
  have had an effect alone; both need a hard failure, no pending, applied or unknown approval, and
  take one attempt and one model call from the budget. Every other decision leaves the budget as it
  was, and an operation of unknown outcome with a hard failure is always blocked.\<close>

theorem recovery_never_replays:
  assumes "policy_decide receipt op ledger b approval fresh = Inr d"
  shows "(rd_act d \<in> set replacement_actions \<longrightarrow>
       (\<exists>x i. op = Some x \<and> rd_supersedes d = Some (py_strip (op_id x)) \<and> rd_operation d = Some i \<and>
          i \<noteq> py_strip (op_id x) \<and>
          (op_status x = Op_failed \<or>
           op_status x = Op_succeeded \<and> vr_retry receipt = Retry_requires_replan))) \<and>
    (rd_act d = Act_model_replan \<longrightarrow> replans_early op) \<and>
    (rd_act d \<in> set budget_actions \<longrightarrow>
       vr_hard_failure receipt \<and> settled op \<and> approval_quiet approval \<and>
       rb_attempts (rd_budget d) = rb_attempts b - 1 \<and>
       rb_model_calls (rd_budget d) = rb_model_calls b - 1) \<and>
    (rd_act d \<notin> set budget_actions \<longrightarrow> rd_budget d = b) \<and>
    (vr_hard_failure receipt \<and> \<not> settled op \<longrightarrow> rd_act d = Act_blocked)"
  using policy_cases [OF assms]
proof (elim disjE exE conjE)
  assume keep: "rd_act d \<notin> set budget_actions" "rd_budget d = b"
  with unsettled_is_blocked [OF assms] show ?thesis
    by (auto simp: budget_actions_def replacement_actions_def)
next
  fix cd failed
  assume hard: "vr_hard_failure receipt"
    and cd: "controlled_decide op (operation_execution_status op receipt) (vr_retry receipt) approval =
      Inr cd"
    and action: "cd_action cd \<in> {New_operation, Corrective_replan, Model_replan}"
    and dec: "decide_with_budget cd failed b fresh = Inr d"
  note safe = controlled_safe [OF cd]
  have st: "settled op" "approval_quiet approval"
    using safe action by blast+
  have strip: "replaces op cd r \<Longrightarrow> map_option py_strip (cd_supersedes cd) = cd_supersedes cd" for r
    by (auto simp: replaces_def)
  have early: "cd_action cd = Model_replan \<longrightarrow> replans_early op"
    and "cd_action cd = Model_replan \<longrightarrow> cd_supersedes cd = None"
    using safe by blast+
  from with_budget_cases [OF dec action this(2)] show ?thesis
  proof
    assume "rd_act d \<in> {Act_partial, Act_blocked} \<and> rd_budget d = b"
    with st show ?thesis by (auto simp: budget_actions_def replacement_actions_def)
  next
    assume used: "reserve_recovery b = Inr (rd_budget d) \<and> rd_act d = action_of (cd_action cd) \<and>
      rd_supersedes d = map_option py_strip (cd_supersedes cd) \<and>
      (rd_act d \<in> set replacement_actions \<longrightarrow>
         (\<exists>i. rd_operation d = Some i \<and> cd_supersedes cd \<noteq> Some i))"
    then have res: "reserve_recovery b = Inr (rd_budget d)" by blast
    note spent = reserve_Inr [OF res]
    show ?thesis
    proof (cases "cd_action cd = Model_replan")
      case True
      then have "rd_act d = Act_model_replan" using used by simp
      with True early hard st spent(1,2) show ?thesis
        by (simp add: budget_actions_def replacement_actions_def)
    next
      case False
      then have rep: "replaces op cd (vr_retry receipt)" using safe action by blast
      have act: "rd_act d \<in> set replacement_actions" "rd_act d \<noteq> Act_model_replan"
        using False action used by (auto simp: replacement_actions_def)
      from used act(1) obtain i where i: "rd_operation d = Some i" "cd_supersedes cd \<noteq> Some i" by blast
      from used have "rd_supersedes d = map_option py_strip (cd_supersedes cd)" by blast
      from replacement_names_operation [OF rep this strip [OF rep] i] i(1) act(2) hard st spent(1,2)
      show ?thesis using act(1) by (auto simp: budget_actions_def replacement_actions_def)
    qed
  qed
qed

section \<open>A chain of recoveries ends with its budget\<close>

type_synonym recovery_case =
  "verification_receipt \<times> operation_state option \<times> ledger_arg \<times> approval_continuation option \<times> json"

text \<open>The decisions of a turn, each taken on the budget the one before left; a call that raises
  leaves the budget alone.\<close>

fun recovery_chain :: "budget \<Rightarrow> recovery_case list \<Rightarrow> recovery_decision list" where
  "recovery_chain b [] = []"
| "recovery_chain b ((receipt, op, ledger, approval, fresh) # cases) =
     (case policy_decide receipt op ledger b approval fresh of
        Inl _ \<Rightarrow> recovery_chain b cases
      | Inr d \<Rightarrow> d # recovery_chain (rd_budget d) cases)"

lemma decision_budget:
  assumes "policy_decide receipt op ledger b approval fresh = Inr d"
  shows "rd_act d \<notin> set budget_actions \<and> rd_budget d = b \<or>
    rb_attempts (rd_budget d) = rb_attempts b - 1 \<and>
      rb_model_calls (rd_budget d) = rb_model_calls b - 1 \<and>
      1 \<le> rb_attempts b \<and> 1 \<le> rb_model_calls b"
  using policy_cases [OF assms]
proof (elim disjE exE conjE)
  fix cd failed
  assume cd: "controlled_decide op (operation_execution_status op receipt) (vr_retry receipt)
      approval = Inr cd"
    and action: "cd_action cd \<in> {New_operation, Corrective_replan, Model_replan}"
    and dec: "decide_with_budget cd failed b fresh = Inr d"
  have "cd_action cd = Model_replan \<longrightarrow> cd_supersedes cd = None"
    using controlled_safe [OF cd] by blast
  from with_budget_cases [OF dec action this] show ?thesis
    using reserve_Inr by (auto simp: budget_actions_def)
qed simp

text \<open>C36. Along any chain of decisions, over whatever receipts, operations and approvals, the number of
  recoveries that start new work is at most the attempts and at most the extra model calls of the
  budget the turn began with.\<close>

theorem recovery_is_bounded:
  "length (filter (\<lambda>d. rd_act d \<in> set budget_actions) (recovery_chain b cases)) \<le>
     nat (min (rb_attempts b) (rb_model_calls b))"
proof (induction b cases rule: recovery_chain.induct)
  case (2 b receipt op ledger approval fresh cases)
  show ?case
  proof (cases "policy_decide receipt op ledger b approval fresh")
    case (Inl e)
    with 2(1) [OF Inl] show ?thesis by simp
  next
    case (Inr d)
    from decision_budget [OF Inr] 2(2) [OF Inr] Inr show ?thesis
      by (auto simp: min_def split: if_splits)
  qed
qed simp

section \<open>Serialisation\<close>

lemma strip_text_again:
  "strip_text v f n = Inr s \<Longrightarrow> strip_text (JStr s) f n = Inr s"
  by (auto simp: strip_text_def split: json.splits if_splits)

lemma strip_optional_again:
  "strip_optional_text v f n = Inr s \<Longrightarrow> strip_optional_text (opt_str s) f n = Inr s"
  by (cases s) (auto simp: strip_optional_text_def result_simps strip_text_again split: if_splits)

lemma strip_texts_again:
  assumes "strip_texts vs f k n = Inr xs"
  shows "strip_texts (map JStr xs) f k n = Inr xs"
proof -
  have t: "traverseE (\<lambda>v. strip_text v f n) vs = Inr xs" and k: "length vs \<le> k" "distinct xs"
    using assms by (auto simp: strip_texts_def result_simps)
  have "traverseE (\<lambda>v. strip_text v f n) (map JStr xs) = Inr xs"
    unfolding traverseE_map
    by (rule traverseE_ident) (use traverseE_set [OF t] strip_text_again in blast)
  with k traverseE_length [OF t] show ?thesis by (simp add: strip_texts_def)
qed

lemma parse_action_text: "parse_action (JStr (action_text a)) = Inr a"
  by (cases a) (simp_all add: parse_action_def recovery_actions_def)

lemma parse_action_Inr: "parse_action v = Inr a \<Longrightarrow> v = JStr (action_text a)"
  by (auto simp: parse_action_def find_Some_iff split: json.splits option.splits)

lemma budget_again:
  assumes "make_budget v a m t w = Inr b"
  shows "budget_from_dict (budget_to_dict b) = Inr b"
  using assms
  by (auto simp: budget_from_dict_def budget_to_dict_def make_budget_def exact_keys_def
      legacy_budget_fields_def jget_def natural_def non_negative_float_def result_simps
      split: json.splits if_splits)

lemma make_decision_again:
  assumes "make_decision v a r f o1 s1 b = Inr d"
  shows "make_decision (JStr decision_version) (JStr (action_text (rd_act d)))
      (JStr (rd_reason_code d)) (map JStr (rd_failed d)) (opt_str (rd_operation d))
      (opt_str (rd_supersedes d)) b = Inr d"
proof -
  from assms obtain action reason failed oid sup where
    r: "strip_text r ''reason_code'' 128 = Inr reason"
    and f: "strip_texts f ''failed_criterion_ids'' 16 128 = Inr failed"
    and oid: "strip_optional_text o1 ''operation_id'' 128 = Inr oid"
    and sup: "strip_optional_text s1 ''supersedes_operation_id'' 128 = Inr sup"
    and lineage: "(if action \<in> set replacement_actions
        then bindE (requireE (oid \<noteq> None \<and> sup \<noteq> None)
               (Policy_error ''replacement decisions require fresh operation lineage''))
             (\<lambda>_. requireE (oid \<noteq> sup) (Policy_error ''replacement operation ID must be fresh''))
        else requireE (sup = None)
               (Policy_error ''only replacement decisions may declare supersedes_operation_id'')) =
        Inr ()"
    and cont: "action \<noteq> Act_approval_continuation \<or> oid \<noteq> None"
    and d: "d = \<lparr>rd_act = action, rd_reason_code = reason, rd_failed = failed, rd_operation = oid,
        rd_supersedes = sup, rd_budget = b\<rparr>"
    unfolding make_decision_def bindE_eq_Inr requireE_Inr by auto
  show ?thesis
    unfolding d make_decision_def
    by (simp only: recovery_decision.simps parse_action_text strip_text_again [OF r]
        strip_texts_again [OF f] strip_optional_again [OF oid] strip_optional_again [OF sup]
        requireE_def refl if_True bindE_Inr lineage [unfolded requireE_def] cont)
qed

text \<open>A recovery decision read from a checkpoint and written back reads as the same decision, with
  its budget, its lineage and its failed criteria.\<close>

theorem recovery_decision_round_trip:
  assumes "decision_from_dict p = Inr d"
  shows "decision_from_dict (decision_to_dict d) = Inr d"
proof -
  obtain raw failed where b: "budget_from_dict raw = Inr (rd_budget d)"
    and m: "make_decision (jget p ''decision_version'') (jget p ''action'') (jget p ''reason_code'')
      failed (jget p ''operation_id'') (jget p ''supersedes_operation_id'') (rd_budget d) = Inr d"
    using assms
    by (auto simp: decision_from_dict_def result_simps make_decision_def
        split: json.splits sum.splits)
  have bud: "budget_from_dict (budget_to_dict (rd_budget d)) = Inr (rd_budget d)"
    using b budget_again by (auto simp: budget_from_dict_def result_simps)
  note again = make_decision_again [OF m]
  with bud show ?thesis
    by (simp add: again decision_from_dict_def decision_to_dict_def exact_keys_def jget_def strs_def
        py_tuple_def)
qed

section \<open>Where the policy raises\<close>

lemma decided_many:
  "16 < length failed \<Longrightarrow> decided action reason failed operation supersedes b \<noteq> Inr d"
  by (auto simp: decided_def make_decision_def strip_texts_def result_simps)

text \<open>The policy cannot classify a turn with more than sixteen failed or unverified criteria: the
  constructor of the decision rejects the list of their ids, so every call raises, also when the
  verification was satisfied or not blocking, where there is nothing to recover.\<close>

theorem many_failures_are_not_classified:
  assumes "16 < length (failed_criterion_ids receipt)"
  shows "policy_decide receipt op ledger b approval fresh \<noteq> Inr d"
proof
  assume "policy_decide receipt op ledger b approval fresh = Inr d"
  then show False
    using decided_many [OF assms]
    by (auto simp: policy_decide_def decide_with_budget_def bindE_eq_Inr Let_def
        split: if_splits sum.splits recovery_error.splits option.splits)
qed

section \<open>Witnesses\<close>

definition failed_receipt :: "string \<Rightarrow> criterion_receipt" where
  "failed_receipt i = \<lparr>cr_id = i, cr_verdict = Verdict_failed, cr_verifier = ''tool_execution'',
     cr_refs = [], cr_reason = ''tool_execution_failed'', cr_retry = Retry_requires_replan,
     cr_confidence = None\<rparr>"

definition failed_turn :: "string list \<Rightarrow> verification_receipt" where
  "failed_turn ids = \<lparr>vr_id = ''v'', vr_turn_id = ''t'', vr_goal_id = None,
     vr_verdict = Verdict_failed, vr_criteria = map failed_receipt ids, vr_hard_failure = True,
     vr_retry = Retry_requires_replan\<rparr>"

definition turn_budget :: budget where
  "turn_budget = \<lparr>rb_attempts = 1, rb_model_calls = 1, rb_tool_calls = 4,
     rb_wall_seconds = Fin 120\<rparr>"

definition failed_operation :: operation_state where
  "failed_operation = \<lparr>op_id = ''op-1'', op_status = Op_failed\<rparr>"

definition replacement_decision :: recovery_decision where
  "replacement_decision = \<lparr>rd_act = Act_new_operation, rd_reason_code = ''known_operation_failure'',
     rd_failed = [''c1''], rd_operation = Some ''op-2'', rd_supersedes = Some ''op-1'',
     rd_budget = \<lparr>rb_attempts = 0, rb_model_calls = 0, rb_tool_calls = 4,
       rb_wall_seconds = Fin 120\<rparr>\<rparr>"

lemma replacement_decided:
  "policy_decide (failed_turn [''c1'']) (Some failed_operation) No_ledger turn_budget None
     (JStr ''op-2'') = Inr replacement_decision"
  by code_simp

theorem recovery_never_replays_witness:
  "replans_early None \<and> settled (Some failed_operation) \<and>
     rb_attempts (rd_budget replacement_decision) = rb_attempts turn_budget - 1"
  using recovery_never_replays [OF replacement_decided]
  by (simp add: replans_early_def replacement_decision_def budget_actions_def)

lemma replacement_parses:
  "decision_from_dict (decision_to_dict replacement_decision) = Inr replacement_decision"
  by code_simp

theorem recovery_decision_round_trip_witness:
  "decision_from_dict (decision_to_dict replacement_decision) = Inr replacement_decision"
  by (rule recovery_decision_round_trip [OF replacement_parses])

theorem many_failures_are_not_classified_witness:
  "policy_decide (failed_turn (replicate 17 ''c1'')) (Some failed_operation) No_ledger turn_budget None
     (JStr ''op-2'') \<noteq> Inr replacement_decision"
  by (rule many_failures_are_not_classified)
    (simp add: failed_criterion_ids_def failed_turn_def failed_receipt_def)

end
