(* ===== verification/Discovery_State.thy ===== *)
theory Discovery_State
  imports Plan_Proofs
begin

text \<open>
  The values of \<^verbatim>\<open>mochi/agents/tool_discovery_state.py\<close>: what a session remembers of the tools its
  chat turns have discovered. A state is bounded by pruning, which drops the entries of another tool
  catalogue and those not used for a number of turns, and keeps the most recently used ones.
\<close>

section \<open>Observations and entries\<close>

record observation =
  ob_tool :: string
  ob_query :: string
  ob_turn :: string
  ob_index :: int
  ob_fingerprint :: string
  ob_generation :: int
  ob_risk :: string

definition make_observation ::
  "json \<Rightarrow> json \<Rightarrow> json \<Rightarrow> json \<Rightarrow> json \<Rightarrow> json \<Rightarrow> json \<Rightarrow> observation py" where
  "make_observation raw_tool raw_query raw_turn raw_index raw_fingerprint raw_generation raw_risk =
     bindE (clean_text raw_tool ''tool_name'' 256) (\<lambda>tool.
     bindE (clean_text raw_query ''source_query_hash'' 128) (\<lambda>query.
     bindE (clean_text raw_turn ''turn_id'' 256) (\<lambda>turn.
     bindE (clean_non_negative_int raw_index ''turn_index'') (\<lambda>i.
     bindE (clean_text raw_fingerprint ''catalog_fingerprint'' 128) (\<lambda>fingerprint.
     bindE (clean_non_negative_int raw_generation ''catalog_generation'') (\<lambda>generation.
     bindE (clean_text raw_risk ''capability_risk_class'' 128) (\<lambda>risk.
       Inr \<lparr>ob_tool = tool, ob_query = query, ob_turn = turn, ob_index = i,
            ob_fingerprint = fingerprint, ob_generation = generation, ob_risk = risk\<rparr>)))))))"

record discovered =
  en_tool :: string
  en_query :: string
  en_found_turn :: string
  en_found_index :: int
  en_used_turn :: string
  en_used_index :: int
  en_fingerprint :: string
  en_generation :: int
  en_risk :: string

definition make_discovered ::
  "json \<Rightarrow> json \<Rightarrow> json \<Rightarrow> json \<Rightarrow> json \<Rightarrow> json \<Rightarrow> json \<Rightarrow> json \<Rightarrow> json \<Rightarrow> discovered py" where
  "make_discovered raw_tool raw_query raw_found raw_found_index raw_used raw_used_index
     raw_fingerprint raw_generation raw_risk =
     bindE (clean_text raw_tool ''tool_name'' 256) (\<lambda>tool.
     bindE (clean_text raw_query ''source_query_hash'' 128) (\<lambda>query.
     bindE (clean_text raw_found ''discovered_turn_id'' 256) (\<lambda>found.
     bindE (clean_non_negative_int raw_found_index ''discovered_turn_index'') (\<lambda>found_index.
     bindE (clean_text raw_used ''last_used_turn_id'' 256) (\<lambda>used.
     bindE (clean_non_negative_int raw_used_index ''last_used_turn_index'') (\<lambda>used_index.
     bindE (requireE (used_index \<ge> found_index)
              (ValueError ''last_used_turn_index must not precede discovered_turn_index'')) (\<lambda>_.
     bindE (clean_text raw_fingerprint ''catalog_fingerprint'' 128) (\<lambda>fingerprint.
     bindE (clean_non_negative_int raw_generation ''catalog_generation'') (\<lambda>generation.
     bindE (clean_text raw_risk ''capability_risk_class'' 128) (\<lambda>risk.
       Inr \<lparr>en_tool = tool, en_query = query, en_found_turn = found,
            en_found_index = found_index, en_used_turn = used, en_used_index = used_index,
            en_fingerprint = fingerprint, en_generation = generation, en_risk = risk\<rparr>))))))))))"

definition entry_fields :: "string list" where
  "entry_fields = [''tool_name'', ''source_query_hash'', ''discovered_turn_id'',
     ''discovered_turn_index'', ''last_used_turn_id'', ''last_used_turn_index'',
     ''catalog_fingerprint'', ''catalog_generation'', ''capability_risk_class'']"

definition entry_to_dict :: "discovered \<Rightarrow> jdict" where
  "entry_to_dict e =
     [(''tool_name'', JStr (en_tool e)),
      (''source_query_hash'', JStr (en_query e)),
      (''discovered_turn_id'', JStr (en_found_turn e)),
      (''discovered_turn_index'', JInt (en_found_index e)),
      (''last_used_turn_id'', JStr (en_used_turn e)),
      (''last_used_turn_index'', JInt (en_used_index e)),
      (''catalog_fingerprint'', JStr (en_fingerprint e)),
      (''catalog_generation'', JInt (en_generation e)),
      (''capability_risk_class'', JStr (en_risk e))]"

text \<open>An entry that is no object raises one way or another; the model raises \<open>TypeError\<close>.\<close>

definition entry_from_dict :: "json \<Rightarrow> discovered py" where
  "entry_from_dict v =
     (case v of
        JObj p \<Rightarrow>
          bindE (require_exact_keys p entry_fields ''discovered tool entry'') (\<lambda>_.
            make_discovered (jget p ''tool_name'') (jget p ''source_query_hash'')
              (jget p ''discovered_turn_id'') (jget p ''discovered_turn_index'')
              (jget p ''last_used_turn_id'') (jget p ''last_used_turn_index'')
              (jget p ''catalog_fingerprint'') (jget p ''catalog_generation'')
              (jget p ''capability_risk_class''))
      | _ \<Rightarrow> Inl (TypeError ''discovered tool entry must be an object''))"

section \<open>States\<close>

record discovery_state =
  ds_session :: string
  ds_revision :: int
  ds_generation :: int
  ds_fingerprint :: string
  ds_entries :: "discovered list"

definition discovery_version :: string where
  "discovery_version = ''tool-discovery-state-v1''"

definition entry_key :: "discovered \<Rightarrow> string \<times> string" where
  "entry_key e = (en_tool e, en_query e)"

definition make_discovery_state ::
  "json \<Rightarrow> json \<Rightarrow> json \<Rightarrow> json \<Rightarrow> json \<Rightarrow> discovered list \<Rightarrow> discovery_state py" where
  "make_discovery_state version raw_session raw_revision raw_generation raw_fingerprint entries =
     bindE (requireE (version = JStr discovery_version)
              (ValueError ''unsupported tool discovery state version'')) (\<lambda>_.
     bindE (clean_text raw_session ''session_id'' 256) (\<lambda>session.
     bindE (clean_non_negative_int raw_revision ''revision'') (\<lambda>revision.
     bindE (clean_non_negative_int raw_generation ''catalog_generation'') (\<lambda>generation.
     bindE (clean_text raw_fingerprint ''catalog_fingerprint'' 128) (\<lambda>fingerprint.
     bindE (requireE (distinct (map entry_key entries))
              (ValueError ''duplicate discovery entry for tool_name/source_query_hash'')) (\<lambda>_.
       Inr \<lparr>ds_session = session, ds_revision = revision, ds_generation = generation,
            ds_fingerprint = fingerprint, ds_entries = entries\<rparr>))))))"

text \<open>\<open>replace(state, ...)\<close>: the constructor runs again on the changed fields.\<close>

definition rebuild_discovery :: "discovery_state \<Rightarrow> discovery_state py" where
  "rebuild_discovery s =
     make_discovery_state (JStr discovery_version) (JStr (ds_session s)) (JInt (ds_revision s))
       (JInt (ds_generation s)) (JStr (ds_fingerprint s)) (ds_entries s)"

definition empty_discovery :: "string \<Rightarrow> int \<Rightarrow> string \<Rightarrow> discovery_state py" where
  "empty_discovery session generation fingerprint =
     make_discovery_state (JStr discovery_version) (JStr session) (JInt 0) (JInt generation)
       (JStr fingerprint) []"

definition discovery_fields :: "string list" where
  "discovery_fields = [''state_version'', ''session_id'', ''revision'', ''catalog_generation'',
     ''catalog_fingerprint'', ''entries'']"

definition discovery_to_dict :: "discovery_state \<Rightarrow> jdict" where
  "discovery_to_dict s =
     [(''state_version'', JStr discovery_version),
      (''session_id'', JStr (ds_session s)),
      (''revision'', JInt (ds_revision s)),
      (''catalog_generation'', JInt (ds_generation s)),
      (''catalog_fingerprint'', JStr (ds_fingerprint s)),
      (''entries'', JList (map (\<lambda>e. JObj (entry_to_dict e)) (ds_entries s)))]"

definition discovery_from_dict :: "jdict \<Rightarrow> discovery_state py" where
  "discovery_from_dict p =
     bindE (require_exact_keys p discovery_fields ''tool discovery state'') (\<lambda>_.
       (case jget p ''entries'' of
          JList raw \<Rightarrow>
            bindE (traverseE entry_from_dict raw) (\<lambda>entries.
              make_discovery_state (jget p ''state_version'') (jget p ''session_id'')
                (jget p ''revision'') (jget p ''catalog_generation'')
                (jget p ''catalog_fingerprint'') entries)
        | _ \<Rightarrow> Inl (TypeError ''tool discovery state entries must be a list'')))"

section \<open>Pruning and recording\<close>

text \<open>The arguments \<open>prune\<close> and \<open>record_observations\<close> share.\<close>

record prune_args =
  pa_current :: int
  pa_limit :: int
  pa_ttl :: int
  pa_generation :: int
  pa_fingerprint :: string

definition clean_positive_int :: "int \<Rightarrow> string \<Rightarrow> int py" where
  "clean_positive_int n field =
     (if n \<le> 0 then Inl (ValueError (field @ '' must be a positive integer'')) else Inr n)"

definition check_prune_args :: "prune_args \<Rightarrow> prune_args py" where
  "check_prune_args a =
     bindE (clean_non_negative_int (JInt (pa_current a)) ''current_turn_index'') (\<lambda>current.
     bindE (clean_non_negative_int (JInt (pa_limit a)) ''max_entries'') (\<lambda>limit.
     bindE (clean_positive_int (pa_ttl a) ''ttl_turns'') (\<lambda>ttl.
     bindE (clean_non_negative_int (JInt (pa_generation a)) ''catalog_generation'') (\<lambda>generation.
     bindE (clean_text (JStr (pa_fingerprint a)) ''catalog_fingerprint'' 128) (\<lambda>fingerprint.
       Inr \<lparr>pa_current = current, pa_limit = limit, pa_ttl = ttl, pa_generation = generation,
            pa_fingerprint = fingerprint\<rparr>)))))"

definition retained :: "prune_args \<Rightarrow> discovered \<Rightarrow> bool" where
  "retained a e \<longleftrightarrow>
     en_generation e = pa_generation a \<and> en_fingerprint e = pa_fingerprint a
     \<and> pa_current a - en_used_index e \<le> pa_ttl a"

definition recency :: "discovered \<Rightarrow> int \<times> int \<times> string \<times> string" where
  "recency e = (- en_used_index e, - en_found_index e, en_tool e, en_query e)"

definition prune_entries :: "prune_args \<Rightarrow> discovered list \<Rightarrow> discovered list" where
  "prune_entries a es = take (nat (pa_limit a)) (sort_key recency (filter (retained a) es))"

definition prune_discovery :: "discovery_state \<Rightarrow> prune_args \<Rightarrow> discovery_state py" where
  "prune_discovery s raw =
     bindE (check_prune_args raw) (\<lambda>a.
       rebuild_discovery (s\<lparr>ds_generation := pa_generation a, ds_fingerprint := pa_fingerprint a,
         ds_entries := prune_entries a (ds_entries s)\<rparr>))"

text \<open>An observation of a known tool and query moves its last use; another one adds an entry.\<close>

definition observe :: "discovered option \<Rightarrow> observation \<Rightarrow> discovered py" where
  "observe existing o1 =
     (case existing of
        None \<Rightarrow>
          make_discovered (JStr (ob_tool o1)) (JStr (ob_query o1)) (JStr (ob_turn o1))
            (JInt (ob_index o1)) (JStr (ob_turn o1)) (JInt (ob_index o1))
            (JStr (ob_fingerprint o1)) (JInt (ob_generation o1)) (JStr (ob_risk o1))
      | Some e \<Rightarrow>
          make_discovered (JStr (en_tool e)) (JStr (en_query e)) (JStr (en_found_turn e))
            (JInt (en_found_index e)) (JStr (ob_turn o1)) (JInt (ob_index o1))
            (JStr (ob_fingerprint o1)) (JInt (ob_generation o1)) (JStr (ob_risk o1)))"

fun observe_all ::
  "(string \<times> string, discovered) dict \<Rightarrow> observation list
     \<Rightarrow> ((string \<times> string, discovered) dict) py" where
  "observe_all by_key [] = Inr by_key"
| "observe_all by_key (o1 # obs) =
     bindE (observe (dget by_key (ob_tool o1, ob_query o1)) o1) (\<lambda>e.
       observe_all (dput by_key (ob_tool o1, ob_query o1) e) obs)"

definition record_observations ::
  "discovery_state \<Rightarrow> observation list \<Rightarrow> prune_args \<Rightarrow> discovery_state py" where
  "record_observations s obs a =
     bindE (prune_discovery s a) (\<lambda>next_state.
     bindE (observe_all (map (\<lambda>e. (entry_key e, e)) (ds_entries next_state)) obs) (\<lambda>by_key.
     bindE (rebuild_discovery (next_state\<lparr>ds_entries := map snd by_key\<rparr>)) (\<lambda>merged.
       prune_discovery merged a)))"

end
