(* ===== verification/Discovery_Repository.thy ===== *)
theory Discovery_Repository
  imports Discovery_State Versioned_Log
begin

text \<open>
  \<open>ToolDiscoveryStateRepository\<close> of \<^verbatim>\<open>mochi/agents/tool_discovery_state.py\<close>: the discovery state of a
  session lives in its history, the newest event decides, and a save is a compare-and-swap on the
  revision with a check for replays. Histories read before the lock is taken are arguments. Result
  messages are left out.
\<close>

section \<open>Loading\<close>

definition discovery_event :: string where
  "discovery_event = ''ordinary_chat_tool_discovery_updated''"

definition discovery_event_version :: int where
  "discovery_event_version = 1"

definition discovery_event_fields :: "string list" where
  "discovery_event_fields = [''type'', ''event'', ''schema_version'', ''session_id'',
     ''state_revision'', ''turn_id'', ''catalog_generation'', ''idempotency_key'',
     ''tool_discovery_state'', ''timestamp'']"

datatype discovery_status =
  Discovery_loaded | Discovery_missing | Discovery_invalid | Discovery_unsupported

record discovery_load =
  dl_status :: discovery_status
  dl_state :: "discovery_state option"
  dl_index :: "nat option"

text \<open>The body of the \<open>try\<close> block of \<open>_load_event\<close>.\<close>

definition parse_discovery_event :: "string \<Rightarrow> jdict \<Rightarrow> discovery_state py" where
  "parse_discovery_event session event =
     bindE (require_exact_keys event discovery_event_fields ''tool discovery event'') (\<lambda>_.
     bindE (requireE (jget event ''type'' = JStr ''session_meta'')
              (ValueError ''tool discovery event type must be session_meta'')) (\<lambda>_.
     bindE (requireE (jget event ''event'' = JStr discovery_event)
              (ValueError ''tool discovery event name is invalid'')) (\<lambda>_.
     bindE (requireE (jget event ''session_id'' = JStr session)
              (ValueError ''tool discovery event session_id does not match request'')) (\<lambda>_.
     bindE (clean_text (jget event ''turn_id'') ''turn_id'' 256) (\<lambda>_.
     bindE (clean_non_negative_int (jget event ''state_revision'') ''state_revision'') (\<lambda>revision.
     bindE (clean_non_negative_int (jget event ''catalog_generation'') ''catalog_generation'')
       (\<lambda>generation.
     bindE (clean_text (jget event ''timestamp'') ''timestamp'' 128) (\<lambda>_.
     bindE (clean_text (jget event ''idempotency_key'') ''idempotency_key'' 256) (\<lambda>_.
     bindE (case jget event ''tool_discovery_state'' of
              JObj p \<Rightarrow> discovery_from_dict p
            | _ \<Rightarrow> Inl (TypeError ''tool_discovery_state must be an object'')) (\<lambda>state.
     bindE (requireE (ds_session state = session)
              (ValueError ''tool discovery payload session_id does not match its envelope'')) (\<lambda>_.
     bindE (requireE (ds_revision state = revision)
              (ValueError ''tool discovery payload revision does not match its envelope'')) (\<lambda>_.
     bindE (requireE (ds_generation state = generation)
              (ValueError ''tool discovery payload generation does not match its envelope'')) (\<lambda>_.
       Inr state)))))))))))))"

definition load_discovery_event :: "string \<Rightarrow> jdict \<Rightarrow> nat \<Rightarrow> discovery_load" where
  "load_discovery_event session event i =
     (let refused = (\<lambda>status. \<lparr>dl_status = status, dl_state = None, dl_index = Some i\<rparr>)
      in case jget event ''schema_version'' of
           JInt version \<Rightarrow>
             (if version \<noteq> discovery_event_version
              then refused (if version > discovery_event_version then Discovery_unsupported
                            else Discovery_invalid)
              else case parse_discovery_event session event of
                     Inl _ \<Rightarrow> refused Discovery_invalid
                   | Inr state \<Rightarrow>
                       \<lparr>dl_status = Discovery_loaded, dl_state = Some state, dl_index = Some i\<rparr>)
         | _ \<Rightarrow> refused Discovery_invalid)"

text \<open>The walk from the newest event back; the index counts from the oldest one.\<close>

fun scan_discovery :: "string \<Rightarrow> jdict list \<Rightarrow> discovery_load" where
  "scan_discovery session [] =
     \<lparr>dl_status = Discovery_missing, dl_state = None, dl_index = None\<rparr>"
| "scan_discovery session (event # rest) =
     (if jget event ''event'' \<noteq> JStr discovery_event then scan_discovery session rest
      else load_discovery_event session event (length rest))"

definition load_discovery :: "string \<Rightarrow> jdict list \<Rightarrow> discovery_load" where
  "load_discovery session events = scan_discovery session (rev events)"

text \<open>\<open>load\<close> of the repository on a history.\<close>

definition discovery_load_session :: "string \<Rightarrow> jdict list \<Rightarrow> discovery_load py" where
  "discovery_load_session session events =
     bindE (clean_string session ''session_id'' 256) (\<lambda>s. Inr (load_discovery s events))"

definition discovery_unusable :: "discovery_load \<Rightarrow> bool" where
  "discovery_unusable l \<longleftrightarrow>
     dl_status l = Discovery_invalid \<or> dl_status l = Discovery_unsupported"

definition durable_revision :: "discovery_load \<Rightarrow> int" where
  "durable_revision l = (case dl_state l of None \<Rightarrow> 0 | Some s \<Rightarrow> ds_revision s)"

section \<open>Saving\<close>

datatype discovery_saved = Discovery_saved | Discovery_conflict | Discovery_refused

record discovery_save_result =
  dv_status :: discovery_saved
  dv_expected :: int
  dv_current :: int
  dv_state :: "discovery_state option"
  dv_replay :: bool

record discovery_save_args =
  dsa_state :: discovery_state
  dsa_expected :: int
  dsa_turn :: string
  dsa_key :: string
  dsa_timestamp :: string

definition discovery_event_dict ::
  "discovery_state \<Rightarrow> string \<Rightarrow> string \<Rightarrow> string \<Rightarrow> jdict" where
  "discovery_event_dict s turn key timestamp =
     [(''type'', JStr ''session_meta''),
      (''event'', JStr discovery_event),
      (''schema_version'', JInt discovery_event_version),
      (''session_id'', JStr (ds_session s)),
      (''state_revision'', JInt (ds_revision s)),
      (''turn_id'', JStr turn),
      (''catalog_generation'', JInt (ds_generation s)),
      (''idempotency_key'', JStr key),
      (''tool_discovery_state'', JObj (discovery_to_dict s)),
      (''timestamp'', JStr timestamp)]"

definition same_discovery_request :: "string \<Rightarrow> string \<Rightarrow> jdict \<Rightarrow> bool" where
  "same_discovery_request session key event \<longleftrightarrow>
     jget event ''event'' = JStr discovery_event
     \<and> jget event ''session_id'' = JStr session
     \<and> jget event ''idempotency_key'' = JStr key"

definition find_discovery_event :: "jdict list \<Rightarrow> string \<Rightarrow> string \<Rightarrow> jdict option" where
  "find_discovery_event events session key =
     find (same_discovery_request session key) (rev events)"

text \<open>
  \<open>_duplicate_matches_requested_state\<close>, behind the check that the payload is an object. The payloads
  hold only strings and integers, on which \<open>==\<close> is equality.
\<close>

definition duplicate_state :: "jdict \<Rightarrow> discovery_state \<Rightarrow> string \<Rightarrow> discovery_state option" where
  "duplicate_state duplicate requested turn =
     (case jget duplicate ''tool_discovery_state'' of
        JObj p \<Rightarrow>
          (case discovery_from_dict p of
             Inl _ \<Rightarrow> None
           | Inr stored \<Rightarrow>
               if jget duplicate ''turn_id'' \<noteq> JStr turn then None
               else if \<not> py_eq (jget duplicate ''catalog_generation'')
                         (JInt (ds_generation requested)) then None
               else if discovery_to_dict stored \<noteq> discovery_to_dict requested then None
               else Some stored)
      | _ \<Rightarrow> None)"

text \<open>The predicate of \<open>save\<close>: it accepts (\<open>None\<close>) or leaves an outcome.\<close>

definition decide_discovery ::
  "discovery_save_args \<Rightarrow> string \<Rightarrow> jdict list \<Rightarrow> (discovery_save_result option) py" where
  "decide_discovery a key events =
     (let s = dsa_state a; expected = dsa_expected a;
          loaded = load_discovery (ds_session s) events;
          refused = \<lparr>dv_status = Discovery_refused, dv_expected = expected,
                     dv_current = durable_revision loaded, dv_state = None, dv_replay = False\<rparr>
      in if discovery_unusable loaded then Inr (Some refused)
         else case find_discovery_event events (ds_session s) key of
           Some duplicate \<Rightarrow>
             (case duplicate_state duplicate s (dsa_turn a) of
                Some stored \<Rightarrow>
                  Inr (Some \<lparr>dv_status = Discovery_saved, dv_expected = expected,
                             dv_current = ds_revision stored, dv_state = Some stored,
                             dv_replay = True\<rparr>)
              | None \<Rightarrow> Inr (Some refused))
         | None \<Rightarrow>
             (if durable_revision loaded \<noteq> expected
              then Inr (Some \<lparr>dv_status = Discovery_conflict, dv_expected = expected,
                              dv_current = durable_revision loaded, dv_state = dl_state loaded,
                              dv_replay = False\<rparr>)
              else Inr None))"

text \<open>The answer after a lost append that left no outcome, from the history loaded once more.\<close>

definition lost_discovery ::
  "int \<Rightarrow> discovery_load \<Rightarrow> discovery_load \<Rightarrow> discovery_save_result" where
  "lost_discovery expected current reloaded =
     (case dl_state reloaded of
        Some s \<Rightarrow>
          \<lparr>dv_status = Discovery_conflict, dv_expected = expected, dv_current = ds_revision s,
           dv_state = Some s, dv_replay = False\<rparr>
      | None \<Rightarrow>
          \<lparr>dv_status = Discovery_refused, dv_expected = expected,
           dv_current = durable_revision current, dv_state = None, dv_replay = False\<rparr>)"

text \<open>What \<open>save\<close> builds before it appends: the next state and the event.\<close>

definition discovery_candidate ::
  "discovery_save_args \<Rightarrow> (discovery_state \<times> string \<times> jdict) py" where
  "discovery_candidate a =
     bindE (clean_non_negative_int (JInt (dsa_expected a)) ''expected_revision'') (\<lambda>n.
     bindE (rebuild_discovery ((dsa_state a)\<lparr>ds_revision := n + 1\<rparr>)) (\<lambda>next_state.
     bindE (clean_string (dsa_turn a) ''turn_id'' 256) (\<lambda>turn.
     bindE (clean_string (dsa_key a) ''idempotency_key'' 256) (\<lambda>key.
       Inr (next_state, key, discovery_event_dict next_state turn key (dsa_timestamp a))))))"

definition discovery_save ::
  "(json \<Rightarrow> string) \<Rightarrow> session_file \<Rightarrow> jdict list \<Rightarrow> discovery_save_args
     \<Rightarrow> session_file \<times> discovery_save_result py" where
  "discovery_save text_of f seen a =
     (case discovery_load_session (ds_session (dsa_state a)) seen of
        Inl e \<Rightarrow> (f, Inl e)
      | Inr current \<Rightarrow>
     (if discovery_unusable current
      then (f, Inr \<lparr>dv_status = Discovery_refused, dv_expected = dsa_expected a,
                    dv_current = durable_revision current, dv_state = None, dv_replay = False\<rparr>)
      else
     (case discovery_candidate a of
        Inl e \<Rightarrow> (f, Inl e)
      | Inr (next_state, key, event) \<Rightarrow>
          (case append_line_if text_of f
                  (\<lambda>events. bindE (decide_discovery a key events) (\<lambda>outcome.
                     Inr (case outcome of None \<Rightarrow> Some event | Some _ \<Rightarrow> None))) of
             (f', Inl e) \<Rightarrow> (f', Inl e)
           | (f', Inr True) \<Rightarrow>
               (f', Inr \<lparr>dv_status = Discovery_saved, dv_expected = dsa_expected a,
                         dv_current = dsa_expected a, dv_state = Some next_state,
                         dv_replay = False\<rparr>)
           | (f', Inr False) \<Rightarrow>
               (f', bindE (load_lines text_of f) (\<lambda>events.
                      bindE (decide_discovery a key events) (\<lambda>outcome.
                        case outcome of
                          Some answer \<Rightarrow> Inr answer
                        | None \<Rightarrow>
                            bindE (discovery_load_session (ds_session (dsa_state a)) events)
                              (\<lambda>reloaded.
                                 Inr (lost_discovery (dsa_expected a) current reloaded)))))))))"

section \<open>Recording observations\<close>

record record_args =
  ra_session :: string
  ra_turn :: string
  ra_observations :: "observation list"
  ra_key :: string
  ra_prune :: prune_args
  ra_timestamp :: string

text \<open>
  \<open>seen\<close> is the history of the load in \<open>record_observations\<close>, \<open>seen'\<close> the one of the first load in
  \<open>save\<close>.
\<close>

definition record_discovery ::
  "(json \<Rightarrow> string) \<Rightarrow> session_file \<Rightarrow> jdict list \<Rightarrow> jdict list \<Rightarrow> record_args
     \<Rightarrow> session_file \<times> discovery_save_result py" where
  "record_discovery text_of f seen seen' a =
     (case bindE (clean_string (ra_session a) ''session_id'' 256) (\<lambda>session.
           bindE (discovery_load_session session seen) (\<lambda>loaded. Inr (session, loaded))) of
        Inl e \<Rightarrow> (f, Inl e)
      | Inr (session, loaded) \<Rightarrow>
     (if discovery_unusable loaded
      then (f, Inr \<lparr>dv_status = Discovery_refused, dv_expected = 0,
                    dv_current = durable_revision loaded, dv_state = None, dv_replay = False\<rparr>)
      else
     (case bindE (case dl_state loaded of
                    Some s \<Rightarrow> Inr s
                  | None \<Rightarrow> empty_discovery session (pa_generation (ra_prune a))
                              (pa_fingerprint (ra_prune a))) (\<lambda>base.
           bindE (record_observations base (ra_observations a) (ra_prune a)) (\<lambda>next_state.
             Inr (base, next_state))) of
        Inl e \<Rightarrow> (f, Inl e)
      | Inr (base, next_state) \<Rightarrow>
          discovery_save text_of f seen'
            \<lparr>dsa_state = next_state, dsa_expected = ds_revision base, dsa_turn = ra_turn a,
             dsa_key = ra_key a, dsa_timestamp = ra_timestamp a\<rparr>)))"

end
