(* ===== verification/Discovery_Proofs.thy ===== *)
theory Discovery_Proofs
  imports Discovery_Repository
begin

text \<open>
  The lemmas on tool discovery: the constructors are projections onto well-formed values, so states
  round-trip; pruning and recording keep a state well formed and bounded; recording again what a
  state already holds changes nothing; and a save appends one event at the expected revision or
  leaves the file alone.
\<close>

section \<open>Well-formed values\<close>

definition observation_ok :: "observation \<Rightarrow> bool" where
  "observation_ok o1 \<longleftrightarrow>
     clean 256 (ob_tool o1) \<and> clean 128 (ob_query o1) \<and> clean 256 (ob_turn o1) \<and> 0 \<le> ob_index o1
     \<and> clean 128 (ob_fingerprint o1) \<and> 0 \<le> ob_generation o1 \<and> clean 128 (ob_risk o1)"

definition entry_ok :: "discovered \<Rightarrow> bool" where
  "entry_ok e \<longleftrightarrow>
     clean 256 (en_tool e) \<and> clean 128 (en_query e) \<and> clean 256 (en_found_turn e)
     \<and> 0 \<le> en_found_index e \<and> clean 256 (en_used_turn e) \<and> en_found_index e \<le> en_used_index e
     \<and> clean 128 (en_fingerprint e) \<and> 0 \<le> en_generation e \<and> clean 128 (en_risk e)"

definition discovery_ok :: "discovery_state \<Rightarrow> bool" where
  "discovery_ok s \<longleftrightarrow>
     clean 256 (ds_session s) \<and> 0 \<le> ds_revision s \<and> 0 \<le> ds_generation s
     \<and> clean 128 (ds_fingerprint s) \<and> distinct (map entry_key (ds_entries s))
     \<and> list_all entry_ok (ds_entries s)"

lemma make_observation_ok:
  "make_observation a b c d e f g = Inr o1 \<Longrightarrow> observation_ok o1"
  by (auto simp: make_observation_def result_simps observation_ok_def
      clean_non_negative_int_Inr_iff dest: clean_text_clean)

lemma make_discovered_ok: "make_discovered a b c d e f g h i = Inr x \<Longrightarrow> entry_ok x"
  by (auto simp: make_discovered_def result_simps entry_ok_def clean_non_negative_int_Inr_iff
      dest: clean_text_clean)

lemma make_discovered_ident:
  "entry_ok e \<Longrightarrow>
     make_discovered (JStr (en_tool e)) (JStr (en_query e)) (JStr (en_found_turn e))
       (JInt (en_found_index e)) (JStr (en_used_turn e)) (JInt (en_used_index e))
       (JStr (en_fingerprint e)) (JInt (en_generation e)) (JStr (en_risk e)) = Inr e"
  by (simp add: make_discovered_def entry_ok_def clean_text_ident clean_non_negative_int_def)

lemma entry_from_dict_ok: "entry_from_dict v = Inr e \<Longrightarrow> entry_ok e"
  by (auto simp: entry_from_dict_def result_simps dest: make_discovered_ok split: json.splits)

lemma entry_round_trip: "entry_ok e \<Longrightarrow> entry_from_dict (JObj (entry_to_dict e)) = Inr e"
  by (simp add: entry_from_dict_def entry_to_dict_def require_exact_keys_def entry_fields_def
      jget_def make_discovered_ident insert_commute)

lemma make_discovery_state_ok:
  "make_discovery_state v a b c d es = Inr s \<Longrightarrow> list_all entry_ok es \<Longrightarrow> discovery_ok s"
  by (auto simp: make_discovery_state_def result_simps discovery_ok_def
      clean_non_negative_int_Inr_iff dest: clean_text_clean)

lemma rebuild_discovery_ident: "discovery_ok s \<Longrightarrow> rebuild_discovery s = Inr s"
  by (simp add: rebuild_discovery_def make_discovery_state_def discovery_ok_def clean_text_ident
      clean_non_negative_int_def)

lemma rebuild_discovery_Inr:
  assumes "rebuild_discovery s = Inr t" and "list_all entry_ok (ds_entries s)"
    and "clean 256 (ds_session s)" and "clean 128 (ds_fingerprint s)"
  shows "t = s \<and> discovery_ok s"
  using assms
  by (auto simp: rebuild_discovery_def make_discovery_state_def result_simps discovery_ok_def
      clean_text_ident clean_non_negative_int_Inr_iff)

lemma discovery_from_dict_ok:
  assumes "discovery_from_dict p = Inr s" shows "discovery_ok s"
proof -
  obtain raw es v a b c d where "traverseE entry_from_dict raw = Inr es"
    "make_discovery_state v a b c d es = Inr s"
    using assms by (auto simp: discovery_from_dict_def result_simps split: json.splits)
  then show ?thesis
    using make_discovery_state_ok traverseE_set entry_from_dict_ok by (metis list_all_iff)
qed

lemma empty_discovery_ok: "empty_discovery session g fp = Inr s \<Longrightarrow> discovery_ok s"
  unfolding empty_discovery_def by (rule make_discovery_state_ok) auto

lemma discovery_to_dict_get:
  "jget (discovery_to_dict s) ''state_version'' = JStr discovery_version"
  "jget (discovery_to_dict s) ''session_id'' = JStr (ds_session s)"
  "jget (discovery_to_dict s) ''revision'' = JInt (ds_revision s)"
  "jget (discovery_to_dict s) ''catalog_generation'' = JInt (ds_generation s)"
  "jget (discovery_to_dict s) ''catalog_fingerprint'' = JStr (ds_fingerprint s)"
  "jget (discovery_to_dict s) ''entries'' = JList (map (\<lambda>e. JObj (entry_to_dict e)) (ds_entries s))"
  by (simp_all add: discovery_to_dict_def jget_def)

lemma discovery_round_trip:
  assumes "discovery_ok s" shows "discovery_from_dict (discovery_to_dict s) = Inr s"
proof -
  have "traverseE entry_from_dict (map (\<lambda>e. JObj (entry_to_dict e)) (ds_entries s))
      = Inr (ds_entries s)"
    using assms by (auto simp: traverseE_map discovery_ok_def list_all_iff entry_round_trip
        intro!: traverseE_ident)
  moreover have "require_exact_keys (discovery_to_dict s) discovery_fields m = Inr ()" for m
    by (simp add: require_exact_keys_def discovery_to_dict_def discovery_fields_def insert_commute)
  ultimately show ?thesis
    using rebuild_discovery_ident [OF assms]
    by (simp add: discovery_from_dict_def rebuild_discovery_def discovery_to_dict_get)
qed

lemma discovery_to_dict_inj:
  assumes "discovery_ok s" and "discovery_ok t" and "discovery_to_dict s = discovery_to_dict t"
  shows "s = t"
  by (metis assms discovery_round_trip sum.inject(2))

section \<open>Pruning\<close>

definition prune_args_ok :: "prune_args \<Rightarrow> bool" where
  "prune_args_ok a \<longleftrightarrow>
     0 \<le> pa_current a \<and> 0 \<le> pa_limit a \<and> 0 < pa_ttl a \<and> 0 \<le> pa_generation a
     \<and> clean 128 (pa_fingerprint a)"

lemma check_prune_args_Inr:
  assumes "check_prune_args a = Inr b"
  shows "prune_args_ok b \<and> b = a\<lparr>pa_fingerprint := pa_fingerprint b\<rparr>"
  using assms
  by (auto simp: check_prune_args_def result_simps clean_positive_int_def prune_args_ok_def
      clean_non_negative_int_Inr_iff dest: clean_text_clean split: if_splits)

lemma check_prune_args_ident: "prune_args_ok a \<Longrightarrow> check_prune_args a = Inr a"
  by (simp add: check_prune_args_def prune_args_ok_def clean_positive_int_def clean_text_ident
      clean_non_negative_int_def)

lemma set_prune_entries: "set (prune_entries a es) \<subseteq> {e \<in> set es. retained a e}"
  by (auto simp: prune_entries_def dest: in_set_takeD)

lemma prune_entries_length: "length (prune_entries a es) \<le> nat (pa_limit a)"
  by (simp add: prune_entries_def)

lemma prune_entries_sorted: "sorted (map recency (prune_entries a es))"
  by (simp add: prune_entries_def take_map [symmetric] sorted_wrt_take)

text \<open>What is dropped although it was retained is no more recent than anything kept.\<close>

lemma prune_keeps_most_recent:
  assumes "e \<in> set es" and "retained a e" and "e \<notin> set (prune_entries a es)"
    and "k \<in> set (prune_entries a es)"
  shows "recency k \<le> recency e"
proof -
  let ?n = "nat (pa_limit a)" and ?xs = "sort_key recency (filter (retained a) es)"
  have "e \<in> set ?xs" using assms(1,2) by simp
  then have "e \<in> set (drop ?n ?xs)"
    using assms(3) by (metis Un_iff append_take_drop_id prune_entries_def set_append)
  moreover have "sorted (map recency (take ?n ?xs) @ map recency (drop ?n ?xs))"
    by (simp add: append_take_drop_id flip: map_append)
  ultimately show ?thesis
    using assms(4) by (auto simp: prune_entries_def sorted_append)
qed

lemma prune_entries_idem: "prune_entries a (prune_entries a es) = prune_entries a es"
proof -
  have "filter (retained a) (prune_entries a es) = prune_entries a es"
    using set_prune_entries [of a es] by (intro filter_True) auto
  then show ?thesis
    using prune_entries_sorted [of a es] prune_entries_length [of a es]
    by (subst prune_entries_def) (simp add: sort_key_id_if_sorted)
qed

lemma prune_entries_distinct:
  assumes "distinct (map entry_key es)" shows "distinct (map entry_key (prune_entries a es))"
proof -
  have "distinct (map entry_key (filter (retained a) es))"
    using assms by (rule distinct_map_filter)
  then have "distinct (map entry_key (sort_key recency (filter (retained a) es)))"
    by (auto simp: distinct_map)
  then show ?thesis by (simp add: prune_entries_def take_map [symmetric])
qed

lemma prune_discovery_Inr:
  assumes "prune_discovery s a = Inr t" and "discovery_ok s"
  obtains b where "check_prune_args a = Inr b"
    "t = s\<lparr>ds_generation := pa_generation b, ds_fingerprint := pa_fingerprint b,
       ds_entries := prune_entries b (ds_entries s)\<rparr>" "discovery_ok t"
proof -
  from assms(1) obtain b where b: "check_prune_args a = Inr b"
    "rebuild_discovery (s\<lparr>ds_generation := pa_generation b, ds_fingerprint := pa_fingerprint b,
       ds_entries := prune_entries b (ds_entries s)\<rparr>) = Inr t"
    by (auto simp: prune_discovery_def result_simps)
  have "list_all entry_ok (prune_entries b (ds_entries s))"
    using assms(2) set_prune_entries [of b "ds_entries s"]
    by (auto simp: discovery_ok_def list_all_iff)
  moreover have "clean 256 (ds_session s)" "clean 128 (pa_fingerprint b)"
    using assms(2) check_prune_args_Inr [OF b(1)] by (auto simp: discovery_ok_def prune_args_ok_def)
  ultimately show thesis
    using rebuild_discovery_Inr [OF b(2)] that [OF b(1)] by auto
qed

lemma prune_discovery_ident:
  assumes "check_prune_args a = Inr b" and "discovery_ok s"
    and "ds_generation s = pa_generation b" and "ds_fingerprint s = pa_fingerprint b"
    and "prune_entries b (ds_entries s) = ds_entries s"
  shows "prune_discovery s a = Inr s"
proof -
  have "s\<lparr>ds_generation := pa_generation b, ds_fingerprint := pa_fingerprint b,
      ds_entries := prune_entries b (ds_entries s)\<rparr> = s"
    using assms(3-5) by (cases s) simp
  then show ?thesis
    using rebuild_discovery_ident [OF assms(2)] assms(1) by (simp add: prune_discovery_def)
qed

section \<open>Recording\<close>

definition observed :: "observation \<Rightarrow> string \<times> string" where
  "observed o1 = (ob_tool o1, ob_query o1)"

text \<open>The entry already says what the observation would write.\<close>

definition up_to_date :: "observation \<Rightarrow> discovered \<Rightarrow> bool" where
  "up_to_date o1 e \<longleftrightarrow>
     entry_key e = observed o1 \<and> en_used_turn e = ob_turn o1 \<and> en_used_index e = ob_index o1
     \<and> en_fingerprint e = ob_fingerprint o1 \<and> en_generation e = ob_generation o1
     \<and> en_risk e = ob_risk o1"

definition keyed :: "(string \<times> string, discovered) dict \<Rightarrow> bool" where
  "keyed d \<longleftrightarrow> distinct (dkeys d) \<and> (\<forall>(k, e) \<in> set d. entry_key e = k \<and> entry_ok e)"

lemma keyed_of_state:
  "discovery_ok s \<Longrightarrow> keyed (map (\<lambda>e. (entry_key e, e)) (ds_entries s))"
  by (auto simp: keyed_def discovery_ok_def list_all_iff comp_def)

lemma observe_Inr:
  assumes "observe x o1 = Inr e" and "observation_ok o1"
    and "\<And>y. x = Some y \<Longrightarrow> entry_ok y \<and> entry_key y = observed o1"
  shows "entry_ok e \<and> up_to_date o1 e"
proof (cases x)
  case None
  then show ?thesis
    using assms(1,2)
    by (auto simp: observe_def up_to_date_def observed_def entry_key_def observation_ok_def
        make_discovered_def result_simps clean_text_ident clean_non_negative_int_def entry_ok_def)
next
  case (Some y)
  then show ?thesis
    using assms(1,2) assms(3) [OF Some]
    by (auto simp: observe_def up_to_date_def observed_def entry_key_def observation_ok_def
        make_discovered_def result_simps clean_text_ident clean_non_negative_int_def entry_ok_def)
qed

lemma observe_up_to_date:
  "entry_ok e \<Longrightarrow> up_to_date o1 e \<Longrightarrow> observe (Some e) o1 = Inr e"
  using make_discovered_ident [of e] by (simp add: observe_def up_to_date_def)

lemma keyed_dget: "keyed d \<Longrightarrow> dget d k = Some e \<Longrightarrow> entry_key e = k \<and> entry_ok e"
  by (auto simp: keyed_def dest!: map_of_SomeD)

lemma keyed_dput:
  "keyed d \<Longrightarrow> entry_key e = k \<Longrightarrow> entry_ok e \<Longrightarrow> keyed (dput d k e)"
  by (auto simp: keyed_def distinct_update dest!: in_set_dput)

lemma observe_all_keyed:
  "observe_all d obs = Inr d' \<Longrightarrow> keyed d \<Longrightarrow> list_all observation_ok obs \<Longrightarrow> keyed d'"
proof (induction obs arbitrary: d)
  case (Cons o1 obs)
  from Cons.prems(1) obtain e where e: "observe (dget d (observed o1)) o1 = Inr e"
    "observe_all (dput d (observed o1) e) obs = Inr d'"
    by (auto simp: result_simps observed_def)
  have "entry_ok e \<and> up_to_date o1 e"
    by (rule observe_Inr [OF e(1)]) (use Cons.prems(2,3) keyed_dget in auto)
  then have "keyed (dput d (observed o1) e)"
    by (auto simp: up_to_date_def intro: keyed_dput [OF Cons.prems(2)])
  from Cons.IH [OF e(2) this] Cons.prems(3) show ?case by simp
qed simp

lemma observe_all_other:
  "observe_all d obs = Inr d' \<Longrightarrow> k \<notin> observed ` set obs \<Longrightarrow> dget d' k = dget d k"
proof (induction obs arbitrary: d)
  case (Cons o1 obs)
  from Cons.prems(1) obtain e where "observe_all (dput d (observed o1) e) obs = Inr d'"
    by (auto simp: result_simps observed_def)
  from Cons.IH [OF this] Cons.prems(2) show ?case by (simp add: update_conv)
qed simp

lemma observe_all_up_to_date:
  "observe_all d obs = Inr d' \<Longrightarrow> keyed d \<Longrightarrow> list_all observation_ok obs
     \<Longrightarrow> distinct (map observed obs) \<Longrightarrow> o1 \<in> set obs
     \<Longrightarrow> \<exists>e. dget d' (observed o1) = Some e \<and> up_to_date o1 e"
proof (induction obs arbitrary: d)
  case (Cons x obs)
  from Cons.prems(1) obtain e where e: "observe (dget d (observed x)) x = Inr e"
    "observe_all (dput d (observed x) e) obs = Inr d'"
    by (auto simp: result_simps observed_def)
  have ok: "entry_ok e \<and> up_to_date x e"
    by (rule observe_Inr [OF e(1)]) (use Cons.prems(2,3) keyed_dget in auto)
  then have keyed: "keyed (dput d (observed x) e)"
    by (auto simp: up_to_date_def intro: keyed_dput [OF Cons.prems(2)])
  show ?case
  proof (cases "o1 = x")
    case True
    then have "observed o1 \<notin> observed ` set obs" using Cons.prems(4) by simp
    from observe_all_other [OF e(2) this] ok True show ?thesis by simp
  next
    case False
    then show ?thesis using Cons.IH [OF e(2) keyed] Cons.prems(3-5) by simp
  qed
qed simp

lemma observe_all_ident:
  "\<forall>o1 \<in> set obs. \<exists>e. dget d (observed o1) = Some e \<and> entry_ok e \<and> up_to_date o1 e \<Longrightarrow>
     observe_all d obs = Inr d"
proof (induction obs)
  case (Cons o1 obs)
  then obtain e where "dget d (observed o1) = Some e" "entry_ok e" "up_to_date o1 e" by auto
  then show ?case
    using Cons observe_up_to_date by (simp add: observed_def dput_same)
qed simp

lemma map_snd_keyed:
  assumes "keyed d" shows "distinct (map entry_key (map snd d))" and "list_all entry_ok (map snd d)"
proof -
  have "map entry_key (map snd d) = dkeys d"
    using assms by (auto simp: keyed_def)
  with assms show "distinct (map entry_key (map snd d))" by (simp only: keyed_def)
  from assms show "list_all entry_ok (map snd d)" by (auto simp: keyed_def list_all_iff)
qed

lemma record_Inr:
  assumes "record_observations s obs a = Inr t" and "discovery_ok s" and "list_all observation_ok obs"
  obtains b d where "check_prune_args a = Inr b" "keyed d"
    "observe_all (map (\<lambda>e. (entry_key e, e)) (prune_entries b (ds_entries s))) obs = Inr d"
    "t = s\<lparr>ds_generation := pa_generation b, ds_fingerprint := pa_fingerprint b,
       ds_entries := prune_entries b (map snd d)\<rparr>" "discovery_ok t"
proof -
  from assms(1) obtain next_state d merged where r: "prune_discovery s a = Inr next_state"
    "observe_all (map (\<lambda>e. (entry_key e, e)) (ds_entries next_state)) obs = Inr d"
    "rebuild_discovery (next_state\<lparr>ds_entries := map snd d\<rparr>) = Inr merged"
    "prune_discovery merged a = Inr t"
    by (auto simp: record_observations_def result_simps)
  from prune_discovery_Inr [OF r(1) assms(2)] obtain b where b: "check_prune_args a = Inr b"
    "next_state = s\<lparr>ds_generation := pa_generation b, ds_fingerprint := pa_fingerprint b,
       ds_entries := prune_entries b (ds_entries s)\<rparr>" "discovery_ok next_state" .
  have keyed: "keyed d" by (rule observe_all_keyed [OF r(2) keyed_of_state [OF b(3)] assms(3)])
  have "merged = next_state\<lparr>ds_entries := map snd d\<rparr> \<and> discovery_ok (next_state\<lparr>ds_entries := map snd d\<rparr>)"
    by (rule rebuild_discovery_Inr [OF r(3)])
      (use map_snd_keyed [OF keyed] b(3) in \<open>auto simp: discovery_ok_def\<close>)
  then have merged: "merged = next_state\<lparr>ds_entries := map snd d\<rparr>" "discovery_ok merged" by auto
  from prune_discovery_Inr [OF r(4) merged(2)] obtain b' where b': "check_prune_args a = Inr b'"
    "t = merged\<lparr>ds_generation := pa_generation b', ds_fingerprint := pa_fingerprint b',
       ds_entries := prune_entries b' (ds_entries merged)\<rparr>" "discovery_ok t" .
  have "b' = b" using b(1) b'(1) by simp
  with b b' r(2) keyed show thesis by (intro that [of b d]) (simp_all add: merged(1))
qed

lemma record_stable:
  assumes "record_observations s obs a = Inr t" and "discovery_ok s" and "list_all observation_ok obs"
    and "distinct (map observed obs)" and "observed ` set obs \<subseteq> entry_key ` set (ds_entries t)"
    and "0 \<le> n"
  shows "record_observations (t\<lparr>ds_revision := n\<rparr>) obs a = Inr (t\<lparr>ds_revision := n\<rparr>)"
proof -
  let ?t = "t\<lparr>ds_revision := n\<rparr>" and ?D = "map (\<lambda>e. (entry_key e, e)) (ds_entries t)"
  from record_Inr [OF assms(1-3)] obtain b d where b: "check_prune_args a = Inr b" "keyed d"
    "observe_all (map (\<lambda>e. (entry_key e, e)) (prune_entries b (ds_entries s))) obs = Inr d"
    "t = s\<lparr>ds_generation := pa_generation b, ds_fingerprint := pa_fingerprint b,
       ds_entries := prune_entries b (map snd d)\<rparr>" "discovery_ok t" .
  have ok: "discovery_ok ?t" using b(5) assms(6) by (simp add: discovery_ok_def)
  have keyed0: "keyed (map (\<lambda>e. (entry_key e, e)) (prune_entries b (ds_entries s)))"
    using assms(2) set_prune_entries [of b "ds_entries s"] prune_entries_distinct [of "ds_entries s" b]
    by (auto simp: keyed_def discovery_ok_def list_all_iff comp_def)
  have prune: "prune_discovery ?t a = Inr ?t"
    by (rule prune_discovery_ident [OF b(1) ok]) (simp_all add: b(4) prune_entries_idem)
  have known: "\<exists>e. dget ?D (observed o1) = Some e \<and> entry_ok e \<and> up_to_date o1 e"
    if o1: "o1 \<in> set obs" for o1
  proof -
    from assms(5) o1 obtain e where e: "e \<in> set (ds_entries t)" "entry_key e = observed o1" by auto
    then have "e \<in> snd ` set d" using set_prune_entries [of b "map snd d"] by (auto simp: b(4))
    then have d: "dget d (observed o1) = Some e"
      using b(2) e(2) by (fastforce simp: keyed_def intro: map_of_is_SomeI)
    with observe_all_up_to_date [OF b(3) keyed0 assms(3,4) o1] have "up_to_date o1 e" by auto
    moreover have "entry_ok e" using keyed_dget [OF b(2) d] by simp
    moreover have "dget ?D (observed o1) = Some e"
      using e b(5)
      by (intro map_of_is_SomeI) (auto simp: discovery_ok_def comp_def intro: rev_image_eqI [of e])
    ultimately show ?thesis by blast
  qed
  have "observe_all ?D obs = Inr ?D" by (rule observe_all_ident) (use known in blast)
  then show ?thesis
    using prune rebuild_discovery_ident [OF ok] by (simp add: record_observations_def comp_def)
qed

section \<open>Discovery events\<close>

lemma discovery_event_get:
  "jget (discovery_event_dict s turn key ts) ''type'' = JStr ''session_meta''"
  "jget (discovery_event_dict s turn key ts) ''event'' = JStr discovery_event"
  "jget (discovery_event_dict s turn key ts) ''schema_version'' = JInt discovery_event_version"
  "jget (discovery_event_dict s turn key ts) ''session_id'' = JStr (ds_session s)"
  "jget (discovery_event_dict s turn key ts) ''state_revision'' = JInt (ds_revision s)"
  "jget (discovery_event_dict s turn key ts) ''turn_id'' = JStr turn"
  "jget (discovery_event_dict s turn key ts) ''catalog_generation'' = JInt (ds_generation s)"
  "jget (discovery_event_dict s turn key ts) ''idempotency_key'' = JStr key"
  "jget (discovery_event_dict s turn key ts) ''tool_discovery_state'' = JObj (discovery_to_dict s)"
  "jget (discovery_event_dict s turn key ts) ''timestamp'' = JStr ts"
  "jget (discovery_event_dict s turn key ts) ''payload'' = JNull"
  "jget (discovery_event_dict s turn key ts) ''failure'' = JNull"
  "jget (discovery_event_dict s turn key ts) ''metadata'' = JNull"
  "jget (discovery_event_dict s turn key ts) ''code'' = JNull"
  by (simp_all add: discovery_event_dict_def jget_def)

lemma discovery_event_normal:
  "normalize_persisted_failure_event text_of (discovery_event_dict s turn key ts)
     = Inr (discovery_event_dict s turn key ts)"
  by (rule session_meta_plain) (simp_all add: discovery_event_get)

lemma discovery_event_keys:
  "fst ` set (discovery_event_dict s turn key ts) = set discovery_event_fields"
  by (auto simp: discovery_event_dict_def discovery_event_fields_def)

lemma discovery_after_other:
  "jget ev ''event'' \<noteq> JStr discovery_event \<Longrightarrow>
     load_discovery session (h @ [ev]) = load_discovery session h"
  by (simp add: load_discovery_def)

lemma discovery_after_own:
  "jget ev ''event'' = JStr discovery_event \<Longrightarrow>
     load_discovery session (h @ [ev]) = load_discovery_event session ev (length h)"
  by (simp add: load_discovery_def)

lemma discovery_reads_back:
  assumes "discovery_ok s" and "clean 256 turn" and "clean 256 key"
    and "clean_text (JStr ts) ''timestamp'' 128 = Inr t"
  shows "load_discovery (ds_session s) (h @ [discovery_event_dict s turn key ts])
    = \<lparr>dl_status = Discovery_loaded, dl_state = Some s, dl_index = Some (length h)\<rparr>"
proof -
  have "parse_discovery_event (ds_session s) (discovery_event_dict s turn key ts) = Inr s"
    using assms
    by (simp add: parse_discovery_event_def discovery_event_get require_exact_keys_def
        discovery_event_keys clean_text_ident discovery_round_trip discovery_ok_def
        clean_non_negative_int_def)
  then show ?thesis
    by (simp add: discovery_after_own discovery_event_get load_discovery_event_def)
qed

lemma loaded_discovery_ok:
  "dl_state (load_discovery session h) = Some s \<Longrightarrow> discovery_ok s \<and> ds_session s = session"
proof -
  have "dl_state (scan_discovery session es) = Some s \<Longrightarrow> discovery_ok s \<and> ds_session s = session"
    for es
    by (induction es)
      (auto simp: load_discovery_event_def Let_def parse_discovery_event_def result_simps
        dest: discovery_from_dict_ok split: if_splits json.splits sum.splits)
  then show "dl_state (load_discovery session h) = Some s \<Longrightarrow> discovery_ok s \<and> ds_session s = session"
    by (simp add: load_discovery_def)
qed

text \<open>Whatever the newest event holds, its revision is the one that is loaded.\<close>

lemma loaded_discovery_revision:
  assumes "jget ev ''event'' = JStr discovery_event" and "jget ev ''state_revision'' = JInt n"
  shows "discovery_unusable (load_discovery session (h @ [ev]))
    \<or> durable_revision (load_discovery session (h @ [ev])) = n"
  unfolding discovery_after_own [OF assms(1)]
  using assms(2)
  by (auto simp: discovery_unusable_def load_discovery_event_def Let_def parse_discovery_event_def
      result_simps durable_revision_def clean_non_negative_int_Inr_iff
      split: json.splits sum.splits if_splits)

end
