(* ===== verification/Discovery_Properties.thy ===== *)
theory Discovery_Properties
  imports Discovery_Proofs
begin

text \<open>
  What tool discovery guarantees: states stay bounded and belong to one catalogue, a save is a
  compare-and-swap and a revision is won once, and recording the same observations again is answered
  as a replay unless the bound dropped one of them; and two retries that are refused.
\<close>

section \<open>What a save does\<close>

definition discovery_won :: "discovery_save_result py \<Rightarrow> bool" where
  "discovery_won r \<longleftrightarrow>
     (case r of Inl _ \<Rightarrow> False | Inr x \<Rightarrow> dv_status x = Discovery_saved \<and> \<not> dv_replay x)"

lemma decide_discovery_accepts:
  "decide_discovery a key h = Inr None \<Longrightarrow>
     \<not> discovery_unusable (load_discovery (ds_session (dsa_state a)) h)
     \<and> durable_revision (load_discovery (ds_session (dsa_state a)) h) = dsa_expected a
     \<and> find_discovery_event h (ds_session (dsa_state a)) key = None"
  by (auto simp: decide_discovery_def Let_def split: if_splits option.splits)

lemma decide_discovery_outcome:
  "decide_discovery a key h = Inr (Some r) \<Longrightarrow> \<not> discovery_won (Inr r)"
  by (auto simp: decide_discovery_def Let_def discovery_won_def split: if_splits option.splits)

lemma discovery_candidate_Inr:
  assumes "discovery_candidate a = Inr (n, key, ev)"
  shows "0 \<le> dsa_expected a \<and> clean 256 key \<and> clean_string (dsa_key a) ''idempotency_key'' 256 = Inr key
    \<and> rebuild_discovery ((dsa_state a)\<lparr>ds_revision := dsa_expected a + 1\<rparr>) = Inr n
    \<and> (\<exists>turn. clean_string (dsa_turn a) ''turn_id'' 256 = Inr turn \<and> clean 256 turn
        \<and> ev = discovery_event_dict n turn key (dsa_timestamp a))"
  using assms
  by (auto simp: discovery_candidate_def result_simps clean_non_negative_int_Inr_iff
      dest: clean_string_clean)

lemma candidate_of_ok_state:
  assumes "discovery_candidate a = Inr (n, key, ev)" and "discovery_ok (dsa_state a)"
  shows "n = (dsa_state a)\<lparr>ds_revision := dsa_expected a + 1\<rparr> \<and> discovery_ok n"
proof -
  note c = discovery_candidate_Inr [OF assms(1)]
  have "discovery_ok ((dsa_state a)\<lparr>ds_revision := dsa_expected a + 1\<rparr>)"
    using assms(2) c by (simp add: discovery_ok_def)
  then show ?thesis using rebuild_discovery_ident c by auto
qed

lemma rebuilt_fields:
  "rebuild_discovery s = Inr t \<Longrightarrow> ds_revision t = ds_revision s \<and> ds_generation t = ds_generation s"
  by (auto simp: rebuild_discovery_def make_discovery_state_def result_simps
      clean_non_negative_int_Inr_iff)

lemma discovery_save_cases:
  assumes "discovery_save text_of f seen a = (f', out)"
  shows "(\<exists>h n key ev. load_lines text_of f = Inr h \<and> discovery_candidate a = Inr (n, key, ev)
        \<and> decide_discovery a key h = Inr None \<and> load_lines text_of f' = Inr (h @ [ev])
        \<and> out = Inr \<lparr>dv_status = Discovery_saved, dv_expected = dsa_expected a,
            dv_current = dsa_expected a, dv_state = Some n, dv_replay = False\<rparr>)
    \<or> (f' = f \<and> \<not> discovery_won out
        \<and> (\<forall>x. out = Inr x \<and> dv_status x = Discovery_saved \<longrightarrow>
              (\<exists>h n key ev. load_lines text_of f = Inr h \<and> discovery_candidate a = Inr (n, key, ev)
                 \<and> decide_discovery a key h = Inr (Some x))))"
proof (cases "discovery_load_session (ds_session (dsa_state a)) seen")
  case (Inl e)
  then show ?thesis using assms by (auto simp: discovery_save_def discovery_won_def)
next
  case (Inr current)
  show ?thesis
  proof (cases "discovery_unusable current")
    case True
    then show ?thesis using assms Inr by (auto simp: discovery_save_def discovery_won_def)
  next
    case False
    show ?thesis
    proof (cases "discovery_candidate a")
      case (Inl e)
      then show ?thesis using assms Inr False by (auto simp: discovery_save_def discovery_won_def)
    next
      case candidate: (Inr c)
      obtain n key ev where c: "c = (n, key, ev)" by (cases c)
      have normal: "normalize_persisted_failure_event text_of ev = Inr ev"
        using discovery_candidate_Inr [of a n key ev] candidate c discovery_event_normal by auto
      note run = assms [unfolded discovery_save_def Inr candidate c sum.case prod.case
          if_not_P [OF False]]
      from decided_append [OF run normal] show ?thesis
        unfolding candidate c by (auto simp: discovery_won_def dest: decide_discovery_outcome)
    qed
  qed
qed

section \<open>A revision is won once\<close>

datatype discovery_op = Discovery_save "jdict list" discovery_save_args | Unrelated_event jdict

text \<open>
  A step on the file of one session: a save succeeds when it appends, another component's event
  when it is not a discovery event and normalises.
\<close>

fun discovery_step ::
  "(json \<Rightarrow> string) \<Rightarrow> string \<Rightarrow> session_file \<Rightarrow> discovery_op
     \<Rightarrow> session_file \<times> (unit + discovery_save_result option)" where
  "discovery_step text_of session f (Discovery_save seen a) =
     (if ds_session (dsa_state a) \<noteq> session then (f, Inl ())
      else let (f', out) = discovery_save text_of f seen a
           in (f', case out of
                     Inr x \<Rightarrow> if discovery_won out then Inr (Some x) else Inl ()
                   | Inl _ \<Rightarrow> Inl ()))"
| "discovery_step text_of session f (Unrelated_event e) =
     (if jget e ''event'' = JStr discovery_event then (f, Inl ())
      else let (f', out) = save_event text_of f e
           in (f', case out of Inl _ \<Rightarrow> Inl () | Inr _ \<Rightarrow> Inr None))"

definition wins_discovery :: "int \<Rightarrow> discovery_op \<Rightarrow> bool" where
  "wins_discovery n op \<longleftrightarrow>
     (case op of Discovery_save _ a \<Rightarrow> dsa_expected a = n | Unrelated_event _ \<Rightarrow> False)"

definition discovery_revision_of :: "string \<Rightarrow> jdict list \<Rightarrow> int option" where
  "discovery_revision_of session h =
     (let l = load_discovery session h
      in if discovery_unusable l then None else Some (durable_revision l))"

lemma won_discovery_revision:
  assumes "discovery_save text_of f seen a = (f', out)" and "f' \<noteq> f \<or> discovery_won out"
  shows "\<exists>h ev. load_lines text_of f = Inr h \<and> load_lines text_of f' = Inr (h @ [ev])
    \<and> discovery_revision_of (ds_session (dsa_state a)) h = Some (dsa_expected a)
    \<and> discovery_revision_of (ds_session (dsa_state a)) (h @ [ev]) \<in> {None, Some (dsa_expected a + 1)}"
proof -
  from discovery_save_cases [OF assms(1)] assms(2) obtain h n key ev where
    h: "load_lines text_of f = Inr h" "discovery_candidate a = Inr (n, key, ev)"
      "decide_discovery a key h = Inr None" "load_lines text_of f' = Inr (h @ [ev])"
    by blast
  obtain turn where ev: "ev = discovery_event_dict n turn key (dsa_timestamp a)"
    and rebuilt: "rebuild_discovery ((dsa_state a)\<lparr>ds_revision := dsa_expected a + 1\<rparr>) = Inr n"
    using discovery_candidate_Inr [OF h(2)] by blast
  have "ds_revision n = dsa_expected a + 1" using rebuilt_fields [OF rebuilt] by simp
  then have after: "discovery_revision_of s (h @ [ev]) \<in> {None, Some (dsa_expected a + 1)}" for s
    using loaded_discovery_revision [of ev "dsa_expected a + 1" s h]
    by (auto simp: ev discovery_event_get discovery_revision_of_def Let_def)
  then show ?thesis
    using h(1,4) decide_discovery_accepts [OF h(3)]
    by (intro exI [of _ h] exI [of _ ev]) (simp add: discovery_revision_of_def)
qed

lemma discovery_step_moves:
  assumes "discovery_step text_of session f op = (f', r)"
  shows "f' = f \<or> (\<exists>x y. load_lines text_of f = Inl x \<and> load_lines text_of f' = Inl y)
    \<or> (\<exists>h ev. load_lines text_of f = Inr h \<and> load_lines text_of f' = Inr (h @ [ev])
        \<and> (discovery_revision_of session (h @ [ev]) = discovery_revision_of session h
           \<or> (\<exists>n. discovery_revision_of session h = Some n
                \<and> discovery_revision_of session (h @ [ev]) \<in> {None, Some (n + 1)})))"
proof (cases op)
  case (Discovery_save seen a)
  show ?thesis
  proof (cases "f' = f")
    case moved: False
    obtain out where own: "ds_session (dsa_state a) = session"
      and sv: "discovery_save text_of f seen a = (f', out)"
      using assms moved Discovery_save by (auto split: if_splits prod.splits)
    from won_discovery_revision [OF sv] moved show ?thesis unfolding own by blast
  qed simp
next
  case (Unrelated_event e)
  show ?thesis
  proof (cases "jget e ''event'' = JStr discovery_event")
    case False
    obtain x where "save_event text_of f e = (f', x)"
      using assms False Unrelated_event by (auto split: prod.splits)
    from save_event_cases [OF this] show ?thesis
    proof (elim disjE exE conjE)
      fix h e'
      assume e': "jget e' ''event'' = jget e ''event''" "load_lines text_of f = Inr h"
        "load_lines text_of f' = Inr (h @ [e'])"
      then show ?thesis
        using False by (auto simp: discovery_revision_of_def discovery_after_other)
    qed blast+
  qed (use assms Unrelated_event in simp)
qed

lemma discovery_step_won:
  assumes "wins_discovery n op" and "discovery_step text_of session f op = (f', Inr out)"
  shows "\<exists>h h'. load_lines text_of f = Inr h \<and> load_lines text_of f' = Inr h'
    \<and> discovery_revision_of session h = Some n
    \<and> discovery_revision_of session h' \<in> {None, Some (n + 1)}"
proof -
  obtain seen a where op: "op = Discovery_save seen a" "dsa_expected a = n"
    using assms(1) by (auto simp: wins_discovery_def split: discovery_op.splits)
  obtain r where sv: "discovery_save text_of f seen a = (f', r)" "discovery_won r"
    and own: "ds_session (dsa_state a) = session"
    using assms(2) op(1) by (auto split: if_splits prod.splits sum.splits)
  from won_discovery_revision [OF sv(1)] sv(2) show ?thesis unfolding own op(2) by blast
qed

interpretation discovery_log: versioned_log "load_lines text_of" "discovery_revision_of session"
  "discovery_step text_of session" wins_discovery
  for text_of session
  by unfold_locales (erule discovery_step_moves, erule (1) discovery_step_won)

text \<open>Optimistic locking of the discovery state: at most one save of a session at a given expected
  revision is appended, whatever else is written to the session.\<close>

theorem discovery_revision_won_once:
  "length (filter (wins_discovery n)
     (succeeded_ops (discovery_step text_of session) f ops)) \<le> 1"
  by (rule discovery_log.cas.at_most_once)

text \<open>A save that is appended found the expected revision, adds one event, and the session loads as
  exactly that state one revision later; one that is not leaves the file alone.\<close>

theorem discovery_save_compare_and_swap:
  assumes "discovery_ok (dsa_state a)"
    and "clean_text (JStr (dsa_timestamp a)) ''timestamp'' 128 = Inr t"
    and "discovery_save text_of f seen a = (f', out)"
  shows "if discovery_won out
    then \<exists>h h'. load_lines text_of f = Inr h \<and> load_lines text_of f' = Inr h'
      \<and> length h' = length h + 1
      \<and> durable_revision (load_discovery (ds_session (dsa_state a)) h) = dsa_expected a
      \<and> load_discovery (ds_session (dsa_state a)) h'
          = \<lparr>dl_status = Discovery_loaded,
             dl_state = Some ((dsa_state a)\<lparr>ds_revision := dsa_expected a + 1\<rparr>),
             dl_index = Some (length h)\<rparr>
    else f' = f"
proof (cases "discovery_won out")
  case True
  with discovery_save_cases [OF assms(3)] obtain h n key ev where
    h: "load_lines text_of f = Inr h" "discovery_candidate a = Inr (n, key, ev)"
      "decide_discovery a key h = Inr None" "load_lines text_of f' = Inr (h @ [ev])"
    by blast
  note n = candidate_of_ok_state [OF h(2) assms(1)]
  obtain turn where clean: "clean 256 turn" "clean 256 key"
    and ev: "ev = discovery_event_dict n turn key (dsa_timestamp a)"
    using discovery_candidate_Inr [OF h(2)] by blast
  have session: "ds_session n = ds_session (dsa_state a)" using n by simp
  from discovery_reads_back [OF conjunct2 [OF n] clean assms(2), of h]
  have "load_discovery (ds_session (dsa_state a)) (h @ [ev])
    = \<lparr>dl_status = Discovery_loaded, dl_state = Some n, dl_index = Some (length h)\<rparr>"
    unfolding ev session .
  with h(1,4) decide_discovery_accepts [OF h(3)] conjunct1 [OF n] True show ?thesis by auto
qed (use discovery_save_cases [OF assms(3)] in \<open>auto simp: discovery_won_def\<close>)

section \<open>The bound\<close>

text \<open>Recording observations keeps a state well formed: at most the given number of entries, each for
  a different tool and query, all of the current catalogue and used recently enough, most recent
  first; the session and the revision are not touched.\<close>

theorem recorded_state_is_bounded:
  assumes "record_observations s obs a = Inr t" and "discovery_ok s"
    and "list_all observation_ok obs"
  shows "discovery_ok t \<and> length (ds_entries t) \<le> nat (pa_limit a)
    \<and> (\<forall>e \<in> set (ds_entries t). en_generation e = pa_generation a
         \<and> en_fingerprint e = ds_fingerprint t \<and> pa_current a - en_used_index e \<le> pa_ttl a)
    \<and> sorted (map recency (ds_entries t)) \<and> ds_generation t = pa_generation a
    \<and> ds_session t = ds_session s \<and> ds_revision t = ds_revision s"
proof -
  from record_Inr [OF assms] obtain b d where b: "check_prune_args a = Inr b" "keyed d"
    "t = s\<lparr>ds_generation := pa_generation b, ds_fingerprint := pa_fingerprint b,
       ds_entries := prune_entries b (map snd d)\<rparr>" "discovery_ok t" by metis
  obtain fp where "b = a\<lparr>pa_fingerprint := fp\<rparr>" using check_prune_args_Inr [OF b(1)] by metis
  then show ?thesis
    using b(3,4) set_prune_entries [of b "map snd d"] prune_entries_length [of b "map snd d"]
      prune_entries_sorted [of b "map snd d"]
    by (auto simp: retained_def)
qed

section \<open>Retries\<close>

abbreviation record_save :: "record_args \<Rightarrow> discovery_state \<Rightarrow> int \<Rightarrow> discovery_save_args" where
  "record_save a t n \<equiv>
     \<lparr>dsa_state = t, dsa_expected = n, dsa_turn = ra_turn a, dsa_key = ra_key a,
      dsa_timestamp = ra_timestamp a\<rparr>"

lemma record_discovery_won:
  assumes "record_discovery text_of f seen seen' a = (f', out)" and "discovery_won out"
  shows "\<exists>s base t. clean_string (ra_session a) ''session_id'' 256 = Inr s \<and> clean 256 s
    \<and> discovery_ok base \<and> ds_session base = s
    \<and> record_observations base (ra_observations a) (ra_prune a) = Inr t
    \<and> discovery_save text_of f seen' (record_save a t (ds_revision base)) = (f', out)"
proof -
  obtain s where s: "clean_string (ra_session a) ''session_id'' 256 = Inr s" "clean 256 s"
    using assms
    by (cases "clean_string (ra_session a) ''session_id'' 256")
      (auto simp: record_discovery_def discovery_won_def dest: clean_string_clean)
  have loaded: "discovery_load_session s seen = Inr (load_discovery s seen)"
    using clean_string_ident [OF s(2)] by (simp add: discovery_load_session_def)
  have usable: "\<not> discovery_unusable (load_discovery s seen)"
    using assms s(1) loaded by (auto simp: record_discovery_def discovery_won_def)
  let ?base = "case dl_state (load_discovery s seen) of
      Some s \<Rightarrow> Inr s
    | None \<Rightarrow> empty_discovery s (pa_generation (ra_prune a)) (pa_fingerprint (ra_prune a))"
  obtain base t where base: "?base = Inr base"
    "record_observations base (ra_observations a) (ra_prune a) = Inr t"
    "discovery_save text_of f seen' (record_save a t (ds_revision base)) = (f', out)"
    using assms s(1) loaded usable
    by (auto simp: record_discovery_def discovery_won_def result_simps split: sum.splits)
  have "discovery_ok base \<and> ds_session base = s"
  proof (cases "dl_state (load_discovery s seen)")
    case None
    then have "empty_discovery s (pa_generation (ra_prune a)) (pa_fingerprint (ra_prune a)) = Inr base"
      using base(1) by simp
    moreover from this have "ds_session base = s"
      using s(2) by (auto simp: empty_discovery_def make_discovery_state_def result_simps
          clean_text_ident)
    ultimately show ?thesis using empty_discovery_ok by blast
  qed (use base(1) loaded_discovery_ok in auto)
  with s base show ?thesis by blast
qed

lemma own_discovery_found:
  "find_discovery_event (h @ [discovery_event_dict s turn key ts]) (ds_session s) key
     = Some (discovery_event_dict s turn key ts)"
  by (simp add: find_discovery_event_def same_discovery_request_def discovery_event_get)

lemma own_duplicate:
  "discovery_ok s \<Longrightarrow> duplicate_state (discovery_event_dict s turn key ts) s turn = Some s"
  by (simp add: duplicate_state_def discovery_event_get discovery_round_trip)

lemma save_replayed:
  assumes "discovery_ok s" and "clean 256 turn" and "clean_string raw ''idempotency_key'' 256 = Inr key"
    and "clean_text (JStr ts) ''timestamp'' 128 = Inr t"
    and "load_lines text_of f = Inr (h @ [discovery_event_dict s turn key ts])"
  shows "discovery_save text_of f (h @ [discovery_event_dict s turn key ts])
      \<lparr>dsa_state = s, dsa_expected = ds_revision s, dsa_turn = turn, dsa_key = raw,
       dsa_timestamp = ts'\<rparr>
    = (f, Inr \<lparr>dv_status = Discovery_saved, dv_expected = ds_revision s,
               dv_current = ds_revision s, dv_state = Some s, dv_replay = True\<rparr>)"
proof -
  let ?h = "h @ [discovery_event_dict s turn key ts]"
  let ?a = "\<lparr>dsa_state = s, dsa_expected = ds_revision s, dsa_turn = turn, dsa_key = raw,
    dsa_timestamp = ts'\<rparr>"
  have key: "clean 256 key" using assms(3) by (rule clean_string_clean)
  note loaded = discovery_reads_back [OF assms(1,2) key assms(4), of h]
  have "discovery_ok (s\<lparr>ds_revision := ds_revision s + 1\<rparr>)"
    using assms(1) by (simp add: discovery_ok_def)
  from rebuild_discovery_ident [OF this] obtain n ev where
    candidate: "discovery_candidate ?a = Inr (n, key, ev)"
    using assms(1-3)
    by (simp add: discovery_candidate_def discovery_ok_def clean_string_ident
        clean_non_negative_int_def)
  have decided: "decide_discovery ?a key ?h
    = Inr (Some \<lparr>dv_status = Discovery_saved, dv_expected = ds_revision s,
        dv_current = ds_revision s, dv_state = Some s, dv_replay = True\<rparr>)"
    using loaded own_discovery_found own_duplicate [OF assms(1)]
    by (simp add: decide_discovery_def Let_def discovery_unusable_def)
  have "discovery_load_session (ds_session s) ?h = Inr (load_discovery (ds_session s) ?h)"
    using assms(1) by (simp add: discovery_load_session_def discovery_ok_def clean_string_ident)
  then show ?thesis
    using loaded candidate decided assms(5)
    by (simp add: discovery_save_def discovery_unusable_def append_line_if_def)
qed

text \<open>C37. Recording is idempotent. Let a call that records observations append an event, where
  the observations are distinct by tool and query and within the limits of their constructor, the turn
  id is already in its squeezed form (the replay check compares the stored, squeezed id with the id as
  it was given), the timestamp is a text of at most 128 characters, and the bounds on age and number
  dropped none of the observations. Then the same call directly afterwards, before anything else is
  written to the session and with whatever timestamp, is answered as a replay, with the state and the
  revision of the first time, and writes nothing.\<close>

theorem discovery_retry_is_a_replay:
  assumes "list_all observation_ok (ra_observations a)"
    and "distinct (map observed (ra_observations a))"
    and "clean 256 (ra_turn a)" and "clean_text (JStr (ra_timestamp a)) ''timestamp'' 128 = Inr t"
    and "record_discovery text_of f seen seen' a = (f', Inr x)"
    and "dv_status x = Discovery_saved" and "\<not> dv_replay x" and "dv_state x = Some n"
    and "observed ` set (ra_observations a) \<subseteq> entry_key ` set (ds_entries n)"
    and "load_lines text_of f' = Inr h'"
  shows "record_discovery text_of f' h' h' (a\<lparr>ra_timestamp := ts'\<rparr>)
    = (f', Inr \<lparr>dv_status = Discovery_saved, dv_expected = ds_revision n,
                dv_current = ds_revision n, dv_state = Some n, dv_replay = True\<rparr>)"
proof -
  have "discovery_won (Inr x)" using assms(6,7) by (simp add: discovery_won_def)
  from record_discovery_won [OF assms(5) this] obtain s base r where
    s: "clean_string (ra_session a) ''session_id'' 256 = Inr s" "clean 256 s"
    and base: "discovery_ok base" "ds_session base = s"
      "record_observations base (ra_observations a) (ra_prune a) = Inr r"
    and sv: "discovery_save text_of f seen' (record_save a r (ds_revision base)) = (f', Inr x)"
    by blast
  note bounded = recorded_state_is_bounded [OF base(3,1) assms(1)]
  from discovery_save_cases [OF sv] assms(6,7) obtain h m key ev where
    h: "load_lines text_of f' = Inr (h @ [ev])" "dv_state x = Some m"
      "discovery_candidate (record_save a r (ds_revision base)) = Inr (m, key, ev)"
    by (auto simp: discovery_won_def)
  have n: "n = r\<lparr>ds_revision := ds_revision base + 1\<rparr>" "discovery_ok n" "m = n"
    using candidate_of_ok_state [OF h(3)] bounded h(2) assms(8) by auto
  have ev: "ev = discovery_event_dict n (ra_turn a) key (ra_timestamp a)"
    and key: "clean_string (ra_key a) ''idempotency_key'' 256 = Inr key" "clean 256 key"
    using discovery_candidate_Inr [OF h(3)] clean_string_ident [OF assms(3)] n(3) by auto
  have session: "ds_session n = s" using n(1) bounded base(2) by simp
  have h': "h' = h @ [discovery_event_dict n (ra_turn a) key (ra_timestamp a)]"
    using h(1) assms(10) ev by simp
  have "0 \<le> ds_revision base + 1" using base(1) by (simp add: discovery_ok_def)
  from record_stable [OF base(3,1) assms(1,2) _ this] assms(9)
  have again: "record_observations n (ra_observations a) (ra_prune a) = Inr n"
    by (simp add: n(1))
  note loaded = discovery_reads_back [OF n(2) assms(3) key(2) assms(4), of h, folded h']
  have "discovery_load_session s h' = Inr (load_discovery s h')"
    using s(2) by (simp add: discovery_load_session_def clean_string_ident)
  with save_replayed [OF n(2) assms(3) key(1) assms(4), of text_of f' h ts', folded h'] assms(10)
    s(1) loaded again show ?thesis
    by (simp add: record_discovery_def session discovery_unusable_def)
qed

section \<open>Two retries that are refused\<close>

lemma decide_replay:
  assumes "decide_discovery a key h = Inr (Some x)" and "dv_status x = Discovery_saved"
  shows "\<exists>ev stored. find_discovery_event h (ds_session (dsa_state a)) key = Some ev
    \<and> duplicate_state ev (dsa_state a) (dsa_turn a) = Some stored"
  using assms
  by (auto simp: decide_discovery_def Let_def split: if_splits option.splits)

lemma duplicate_state_revision:
  assumes "duplicate_state ev s turn = Some stored"
    and "jget ev ''tool_discovery_state'' = JObj (discovery_to_dict n)" and "discovery_ok n"
  shows "ds_revision s = ds_revision n"
proof -
  from assms have "discovery_to_dict n = discovery_to_dict s"
    by (auto simp: duplicate_state_def discovery_round_trip split: if_splits)
  then show ?thesis by (simp add: discovery_to_dict_def)
qed

text \<open>A replay is recognised by comparing the stored state with the requested one, revision included,
  and a save stores the revision after the expected one. So a plain retry of a save, with the very
  arguments of the first call, is refused as a reuse of its key, unless the caller had already
  advanced the revision of the state it asks to save.\<close>

theorem plain_retry_is_refused:
  assumes "discovery_ok (dsa_state a)" and "ds_revision (dsa_state a) \<noteq> dsa_expected a + 1"
    and "discovery_save text_of f seen a = (f', out)" and "discovery_won out"
    and "discovery_save text_of f' seen' a = (f'', out')"
  shows "f'' = f' \<and> (\<forall>x. out' = Inr x \<longrightarrow> dv_status x \<noteq> Discovery_saved)"
proof -
  from discovery_save_cases [OF assms(3)] assms(4) obtain h n key ev where
    h: "load_lines text_of f' = Inr (h @ [ev])" "discovery_candidate a = Inr (n, key, ev)"
    by blast
  note n = candidate_of_ok_state [OF h(2) assms(1)]
  obtain turn where ev: "ev = discovery_event_dict n turn key (dsa_timestamp a)"
    using discovery_candidate_Inr [OF h(2)] by blast
  have found: "find_discovery_event (h @ [ev]) (ds_session (dsa_state a)) key = Some ev"
    using own_discovery_found [of h n turn key] n by (simp add: ev)
  have "duplicate_state ev (dsa_state a) (dsa_turn a) = None"
  proof (cases "duplicate_state ev (dsa_state a) (dsa_turn a)")
    case (Some stored)
    from duplicate_state_revision [OF Some _ conjunct2 [OF n]] n assms(2) show ?thesis
      by (simp add: ev discovery_event_get)
  qed simp
  then have never: "\<not> (decide_discovery a key (h @ [ev]) = Inr (Some x)
      \<and> dv_status x = Discovery_saved)" for x
    using decide_replay [of a key "h @ [ev]" x] found by auto
  have fresh: "decide_discovery a key (h @ [ev]) \<noteq> Inr None"
    using decide_discovery_accepts [of a key "h @ [ev]"] found by auto
  have same: "h' = h @ [ev] \<and> key' = key"
    if "load_lines text_of f' = Inr h'" "discovery_candidate a = Inr (m, key', ev')" for h' m key' ev'
    using that h by simp
  from discovery_save_cases [OF assms(5)] show ?thesis
  proof
    assume "\<exists>h n key ev. load_lines text_of f' = Inr h \<and> discovery_candidate a = Inr (n, key, ev)
      \<and> decide_discovery a key h = Inr None \<and> load_lines text_of f'' = Inr (h @ [ev])
      \<and> out' = Inr \<lparr>dv_status = Discovery_saved, dv_expected = dsa_expected a,
          dv_current = dsa_expected a, dv_state = Some n, dv_replay = False\<rparr>"
    with same fresh show ?thesis by blast
  qed (use same never in blast)
qed

section \<open>A turn that records its tools twice\<close>

definition tool_seen :: "string \<Rightarrow> int \<Rightarrow> observation" where
  "tool_seen tool i = \<lparr>ob_tool = tool, ob_query = ''q'', ob_turn = ''t'', ob_index = i,
     ob_fingerprint = ''f'', ob_generation = 1, ob_risk = ''r''\<rparr>"

definition seen_entry :: "string \<Rightarrow> int \<Rightarrow> int \<Rightarrow> discovered" where
  "seen_entry tool i j = \<lparr>en_tool = tool, en_query = ''q'', en_found_turn = ''t'',
     en_found_index = i, en_used_turn = ''t'', en_used_index = j, en_fingerprint = ''f'',
     en_generation = 1, en_risk = ''r''\<rparr>"

definition turn_record :: "int \<Rightarrow> int \<Rightarrow> string list \<Rightarrow> record_args" where
  "turn_record limit i tools = \<lparr>ra_session = ''s'', ra_turn = ''t'',
     ra_observations = map (\<lambda>tool. tool_seen tool i) tools, ra_key = ''k'',
     ra_prune = \<lparr>pa_current = i, pa_limit = limit, pa_ttl = 20, pa_generation = 1,
       pa_fingerprint = ''f''\<rparr>,
     ra_timestamp = ''2026''\<rparr>"

definition seen_state :: "int \<Rightarrow> discovered list \<Rightarrow> discovery_state" where
  "seen_state n es = \<lparr>ds_session = ''s'', ds_revision = n, ds_generation = 1,
     ds_fingerprint = ''f'', ds_entries = es\<rparr>"

definition seen_file :: session_file where
  "seen_file = [Parsed (JObj (discovery_event_dict (seen_state 1 [seen_entry ''a'' 2 2])
     ''t'' ''k'' ''2026''))]"

definition first_answer :: discovery_save_result where
  "first_answer = \<lparr>dv_status = Discovery_saved, dv_expected = 0, dv_current = 0,
     dv_state = Some (seen_state 1 [seen_entry ''a'' 2 2]), dv_replay = False\<rparr>"

lemma first_record:
  "record_discovery (\<lambda>_. []) [] [] [] (turn_record 20 2 [''a'']) = (seen_file, Inr first_answer)"
  by code_simp

lemma seen_file_loads:
  "load_lines (\<lambda>_. []) seen_file
     = Inr [discovery_event_dict (seen_state 1 [seen_entry ''a'' 2 2]) ''t'' ''k'' ''2026'']"
  by code_simp

lemma turn_record_ok:
  "list_all observation_ok (ra_observations (turn_record 20 2 [''a'']))"
  "distinct (map observed (ra_observations (turn_record 20 2 [''a''])))"
  "clean 256 (ra_turn (turn_record 20 2 [''a'']))"
  "clean_text (JStr (ra_timestamp (turn_record 20 2 [''a'']))) ''timestamp'' 128 = Inr ''2026''"
  by code_simp+

lemma first_answer_fields:
  "dv_status first_answer = Discovery_saved" "\<not> dv_replay first_answer"
  "dv_state first_answer = Some (seen_state 1 [seen_entry ''a'' 2 2])"
  "observed ` set (ra_observations (turn_record 20 2 [''a'']))
     \<subseteq> entry_key ` set (ds_entries (seen_state 1 [seen_entry ''a'' 2 2]))"
  by (simp_all add: first_answer_def turn_record_def tool_seen_def seen_state_def seen_entry_def
      observed_def entry_key_def)

theorem discovery_retry_is_a_replay_witness:
  "dv_replay first_answer = False \<and>
   record_discovery (\<lambda>_. []) seen_file
     [discovery_event_dict (seen_state 1 [seen_entry ''a'' 2 2]) ''t'' ''k'' ''2026'']
     [discovery_event_dict (seen_state 1 [seen_entry ''a'' 2 2]) ''t'' ''k'' ''2026'']
     ((turn_record 20 2 [''a''])\<lparr>ra_timestamp := ''2027''\<rparr>)
   = (seen_file, Inr \<lparr>dv_status = Discovery_saved,
        dv_expected = ds_revision (seen_state 1 [seen_entry ''a'' 2 2]),
        dv_current = ds_revision (seen_state 1 [seen_entry ''a'' 2 2]),
        dv_state = Some (seen_state 1 [seen_entry ''a'' 2 2]), dv_replay = True\<rparr>)"
  using discovery_retry_is_a_replay [OF turn_record_ok first_record first_answer_fields
      seen_file_loads, of "''2027''"] first_answer_fields(2)
  by blast

text \<open>When the bound drops an observed tool the retry need not be recognised. The tool \<open>a\<close> was found
  before and \<open>b\<close> is new, with room for one entry: the first call keeps \<open>b\<close>, found more recently; the
  second call finds \<open>a\<close> anew in the same turn and keeps it instead.\<close>

theorem dropped_tool_changes_the_retry:
  "record_observations (seen_state 1 [seen_entry ''a'' 1 1]) [tool_seen ''a'' 2, tool_seen ''b'' 2]
     (ra_prune (turn_record 1 2 [])) = Inr (seen_state 1 [seen_entry ''b'' 2 2])
   \<and> record_observations (seen_state 2 [seen_entry ''b'' 2 2]) [tool_seen ''a'' 2, tool_seen ''b'' 2]
     (ra_prune (turn_record 1 2 [])) = Inr (seen_state 2 [seen_entry ''a'' 2 2])"
  by (rule conjI; code_simp)

end
