(* ===== verification/Strict_Session.thy ===== *)
theory Strict_Session
  imports Session_Log
begin

text \<open>
  The strict history of \<open>SessionStore\<close> (\<^verbatim>\<open>mochi/sessions/store.py\<close>): \<open>load_strict_snapshot\<close> reads a
  session file that must be wholly valid, \<open>mutate_strict_snapshot\<close> appends a batch when the history
  still has the revision its caller saw. Both run under the file's sidecar lock, so each is one step;
  the batch is written by replacing the file, so it is visible whole or not at all.

  A file is \<open>None\<close> when it does not exist. The canonical JSON text of a history is its value: the key
  order of a stored line is not modelled, and its SHA-256 is the argument \<open>revision_of\<close>. The strict
  reader takes the file apart with \<open>splitlines\<close>, which also breaks at U+0085; the writers leave that
  character raw inside a string (\<open>ensure_ascii=False\<close>), so the line of an event that holds it reads as
  two fragments, the first of which ends within a string and is not JSON. The control characters
  \<open>splitlines\<close> breaks at are escaped by \<open>json.dumps\<close>; U+2028 and U+2029, which break a line in the
  same way, are no characters of the model. The builder
  of the outbox records a publishing store appends (\<^verbatim>\<open>mochi/api/tool_workflow_outbox.py\<close>) is an
  argument of the configuration.
\<close>

section \<open>Reading\<close>

type_synonym strict_file = "line list option"

datatype 'e strict_error = Snapshot_error | Event_error py_error | Client_error 'e

text \<open>\<open>_json_clone\<close> refuses NaN and the infinities, at any depth.\<close>

fun json_finite :: "json \<Rightarrow> bool" where
  "json_finite (JFloat x) = (\<exists>r. x = Fin r)"
| "json_finite (JList xs) = list_all json_finite xs"
| "json_finite (JObj d) = list_all (\<lambda>p. json_finite (snd p)) d"
| "json_finite _ = True"

lemma json_finite_float [code]:
  "json_finite (JFloat x) = (case x of Fin _ \<Rightarrow> True | _ \<Rightarrow> False)"
  "json_finite (JList xs) = list_all json_finite xs"
  "json_finite (JObj d) = list_all (\<lambda>p. json_finite (snd p)) d"
  "json_finite JNull = True" "json_finite (JBool b) = True" "json_finite (JInt n) = True"
  "json_finite (JStr s) = True"
  by (cases x) auto

text \<open>A text of the value, at any depth, holds the character at which \<open>splitlines\<close> breaks the line.\<close>

definition is_next_line :: "char \<Rightarrow> bool" where
  "is_next_line c \<longleftrightarrow> c = CHR 0x85"

lemma is_next_line_code [code]:
  "is_next_line (Char a b c d e f g h) = (h \<and> a \<and> \<not> b \<and> c \<and> \<not> d \<and> \<not> e \<and> \<not> f \<and> \<not> g)"
  by (auto simp: is_next_line_def)

fun breaks_line :: "json \<Rightarrow> bool" where
  "breaks_line (JStr s) = list_ex is_next_line s"
| "breaks_line (JList xs) = list_ex breaks_line xs"
| "breaks_line (JObj d) = list_ex (\<lambda>p. list_ex is_next_line (fst p) \<or> breaks_line (snd p)) d"
| "breaks_line _ = False"

definition names_session :: "string \<Rightarrow> jdict \<Rightarrow> bool" where
  "names_session sid e = (case dget e ''session_id'' of None \<Rightarrow> True | Some v \<Rightarrow> v = JStr sid)"

definition read_strict_line :: "(json \<Rightarrow> string) \<Rightarrow> string \<Rightarrow> line \<Rightarrow> 'e strict_error + jdict" where
  "read_strict_line text_of sid l =
     (case l of
        Parsed (JObj e) \<Rightarrow>
          (if breaks_line (JObj e) then Inl Snapshot_error
           else if e = [] \<or> \<not> names_session sid e \<or> \<not> json_finite (JObj e) then Inl Snapshot_error
           else case normalize_persisted_failure_event text_of e of
                  Inl x \<Rightarrow> Inl (Event_error x)
                | Inr e' \<Rightarrow> Inr e')
      | _ \<Rightarrow> Inl Snapshot_error)"

definition load_strict ::
  "(json \<Rightarrow> string) \<Rightarrow> string \<Rightarrow> strict_file \<Rightarrow> 'e strict_error + jdict list" where
  "load_strict text_of sid f =
     (case f of
        None \<Rightarrow> Inr []
      | Some [] \<Rightarrow> Inl Snapshot_error
      | Some ls \<Rightarrow> traverseE (read_strict_line text_of sid) ls)"

section \<open>Appending\<close>

datatype publication =
    Unpublished
  | Gate_disabled
  | Published "jdict list \<Rightarrow> jdict list \<Rightarrow> jdict list"

definition gate_controlled_events :: "string list" where
  "gate_controlled_events = [''tool_workflow_approval_observation'', ''tool_workflow_aggregate_outbox'']"

definition gate_controlled :: "jdict \<Rightarrow> bool" where
  "gate_controlled e = (\<exists>s \<in> set gate_controlled_events. jget e ''event'' = JStr s)"

text \<open>\<open>_normalize_strict_events\<close>, for one event.\<close>

definition normalize_strict_event ::
  "(json \<Rightarrow> string) \<Rightarrow> string \<Rightarrow> jdict \<Rightarrow> 'e strict_error + jdict" where
  "normalize_strict_event text_of sid e =
     (if \<not> json_finite (JObj e) then Inl (Event_error (ValueError ''not JSON compliant''))
      else if \<not> names_session sid e then Inl (Event_error (ValueError ''session_id does not match''))
      else case normalize_persisted_failure_event text_of e of
             Inl x \<Rightarrow> Inl (Event_error x)
           | Inr e' \<Rightarrow> Inr e')"

datatype append_status = Appended | Unchanged | Rebase_required

record 'o append_result =
  append_status :: append_status
  append_before :: "jdict list"
  append_after :: "jdict list"
  append_note :: "'o option"

definition publish :: "publication \<Rightarrow> jdict list \<Rightarrow> jdict list \<Rightarrow> jdict list" where
  "publish pub history batch =
     (case pub of
        Unpublished \<Rightarrow> batch
      | Gate_disabled \<Rightarrow> filter (\<lambda>e. \<not> gate_controlled e) batch
      | Published companions \<Rightarrow> batch @ companions history batch)"

definition history_file :: "jdict list \<Rightarrow> strict_file" where
  "history_file es = Some (map (\<lambda>e. Parsed (JObj e)) es)"

text \<open>
  \<open>_mutate_strict_snapshot\<close>. The callback returns a note for its caller and the batch, if any.
\<close>

definition mutate_strict ::
  "(json \<Rightarrow> string) \<Rightarrow> (jdict list \<Rightarrow> string) \<Rightarrow> publication \<Rightarrow> string \<Rightarrow> strict_file \<Rightarrow> string
    \<Rightarrow> (jdict list \<Rightarrow> 'e + 'o \<times> jdict list option)
    \<Rightarrow> strict_file \<times> ('e strict_error + 'o append_result)" where
  "mutate_strict text_of revision_of pub session f expected build =
     (let sid = py_strip session
      in if sid = [] then (f, Inl (Event_error (ValueError ''session_id must not be empty.'')))
      else if expected = []
      then (f, Inl (Event_error (ValueError ''expected_history_revision must be a non-empty string.'')))
      else case load_strict text_of sid f of
        Inl e \<Rightarrow> (f, Inl e)
      | Inr history \<Rightarrow>
     (if revision_of history \<noteq> expected
      then (f, Inr \<lparr>append_status = Rebase_required, append_before = history, append_after = history,
                    append_note = None\<rparr>)
      else case build history of
        Inl e \<Rightarrow> (f, Inl (Client_error e))
      | Inr (note, None) \<Rightarrow>
          (f, Inr \<lparr>append_status = Unchanged, append_before = history, append_after = history,
                   append_note = Some note\<rparr>)
      | Inr (note, Some candidates) \<Rightarrow>
     (case traverseE (normalize_strict_event text_of sid) candidates of
        Inl e \<Rightarrow> (f, Inl e)
      | Inr normalized \<Rightarrow>
     (if normalized = []
      then (f, Inl (Event_error (ValueError ''strict mutation batch must not be empty.'')))
      else let batch = publish pub history normalized
      in if batch = []
      then (f, Inr \<lparr>append_status = Unchanged, append_before = history, append_after = history,
                    append_note = Some note\<rparr>)
      else let f' = history_file (history @ batch)
      in case load_strict text_of sid f' of
           Inl e \<Rightarrow> (f', Inl e)
         | Inr after \<Rightarrow>
             (f', Inr \<lparr>append_status = Appended, append_before = history, append_after = after,
                       append_note = Some note\<rparr>)))))"

section \<open>What is written is read back\<close>

text \<open>An event a strict history holds: reading its line gives it back, unless its text breaks the line.\<close>

definition strict_event :: "(json \<Rightarrow> string) \<Rightarrow> string \<Rightarrow> jdict \<Rightarrow> bool" where
  "strict_event text_of sid e \<longleftrightarrow> e \<noteq> [] \<and> names_session sid e \<and> json_finite (JObj e)
     \<and> normalize_persisted_failure_event text_of e = Inr e"

lemma read_strict_event:
  "strict_event text_of sid e \<Longrightarrow> read_strict_line text_of sid (Parsed (JObj e))
     = (if breaks_line (JObj e) then Inl Snapshot_error else Inr e)"
  by (simp add: read_strict_line_def strict_event_def)

lemma read_strict_events:
  "list_all (strict_event text_of sid) es \<Longrightarrow>
     traverseE (read_strict_line text_of sid) (map (\<lambda>e. Parsed (JObj e)) es)
       = (if list_ex (\<lambda>e. breaks_line (JObj e)) es then Inl Snapshot_error else Inr es)"
  by (induction es) (auto simp: read_strict_event simp del: breaks_line.simps)

lemma load_history_file:
  assumes "es \<noteq> []" and "list_all (strict_event text_of sid) es"
  shows "load_strict text_of sid (history_file es)
    = (if list_ex (\<lambda>e. breaks_line (JObj e)) es then Inl Snapshot_error else Inr es)"
  using assms(1) read_strict_events [OF assms(2)]
  by (cases es) (simp_all add: load_strict_def history_file_def)

declare breaks_line.simps [simp del]

text \<open>Normalising a failure keeps an event finite and touches only its failure fields.\<close>

lemma json_finite_jget: "json_finite (JObj d) \<Longrightarrow> json_finite (jget d k)"
  by (induction d) (auto simp: jget_def split: option.splits if_splits)

lemma json_finite_dput:
  "json_finite (JObj d) \<Longrightarrow> json_finite v \<Longrightarrow> json_finite (JObj (dput d k v))"
  by (induction d) auto

lemma json_finite_opt_str [simp]: "json_finite (opt_str v)"
  by (cases v) auto

lemma coerce_finite:
  assumes "coerce_event_failure text_of v t e c md x = Inr (Some f)" and "json_finite v"
  shows "list_all (\<lambda>p. json_finite (snd p)) (fe_extensions f)"
proof (cases v)
  case JNull
  then show ?thesis
    using assms(1)
    by (auto simp: coerce_event_failure_def legacy_failure_envelope_def Let_def
        split: option.splits if_splits)
next
  case (JObj p)
  then have "failure_from_mapping p = Inr f"
    using assms(1) by (auto simp: coerce_event_failure_def result_simps)
  then have "fe_extensions f = filter (\<lambda>kv. fst kv \<notin> set failure_fields) p"
    by (auto simp: failure_from_mapping_def result_simps split: if_splits)
  then show ?thesis
    using assms(2) JObj by (auto simp: list_all_iff)
qed (use assms(1) in \<open>auto simp: coerce_event_failure_def\<close>)

lemma failure_to_dict_finite:
  "list_all (\<lambda>p. json_finite (snd p)) (fe_extensions f) \<Longrightarrow> json_finite (JObj (failure_to_dict f))"
  by (auto simp: failure_to_dict_def list_all_iff)

lemma normalize_serialized_keeps:
  assumes "normalize_serialized_failure text_of e = Inr e'" and "json_finite (JObj e)"
  shows "json_finite (JObj e') \<and> (\<forall>k. k \<noteq> ''failure'' \<longrightarrow> dget e' k = dget e k)"
proof -
  obtain failure where
    c: "coerce_event_failure text_of (jget e ''failure'') (text_or text_of (jget e ''type'') [])
      (as_str (if truthy (jget e ''error'') then jget e ''error'' else jget e ''message''))
      (as_str (jget e ''code'')) (as_obj (jget e ''metadata''))
      (if text_or text_of (jget e ''type'') [] = ''error'' then Some True else None) = Inr failure"
    and e': "e' = (case failure of None \<Rightarrow> e | Some f \<Rightarrow> dput e ''failure'' (JObj (failure_to_dict f)))"
    using assms(1) by (auto simp: normalize_serialized_failure_def Let_def result_simps)
  show ?thesis
  proof (cases failure)
    case (Some f)
    from coerce_finite [OF c [unfolded Some] json_finite_jget [OF assms(2)]]
    have "json_finite (JObj (failure_to_dict f))" by (rule failure_to_dict_finite)
    from json_finite_dput [OF assms(2) this] show ?thesis
      by (simp add: e' Some dget_dput)
  qed (use assms(2) in \<open>simp add: e'\<close>)
qed

lemma normalize_event_keeps:
  "normalize_persisted_failure_event text_of e = Inr e' \<Longrightarrow> json_finite (JObj e) \<Longrightarrow>
     json_finite (JObj e') \<and> (\<forall>k. k \<noteq> ''failure'' \<longrightarrow> k \<noteq> ''payload'' \<longrightarrow> dget e' k = dget e k)"
proof (induction text_of e arbitrary: e' rule: normalize_persisted_failure_event.induct)
  case (1 text_of e)
  show ?case
  proof (cases "\<exists>p. jget e ''payload'' = JObj p")
    case True
    then obtain p where p: "jget e ''payload'' = JObj p" ..
    obtain p' where p': "normalize_persisted_failure_event text_of p = Inr p'"
      and s: "normalize_serialized_failure text_of (dput e ''payload'' (JObj p')) = Inr e'"
      using "1.prems"(1) p
      by (subst (asm) normalize_persisted_failure_event.simps) (auto simp: result_simps)
    have "json_finite (JObj p)"
      using json_finite_jget [OF "1.prems"(2), of "''payload''"] p by simp
    from "1.IH" [OF p p' this] have "json_finite (JObj p')" ..
    from normalize_serialized_keeps [OF s json_finite_dput [OF "1.prems"(2) this]]
    show ?thesis by (simp add: dget_dput)
  next
    case False
    then have "normalize_serialized_failure text_of e = Inr e'"
      using "1.prems"(1)
      by (subst (asm) normalize_persisted_failure_event.simps) (auto split: json.splits)
    from normalize_serialized_keeps [OF this "1.prems"(2)] show ?thesis by blast
  qed
qed

lemma dput_nonempty [simp]: "dput d k v \<noteq> []"
  by (cases d) auto

lemma normalize_event_nonempty:
  assumes "normalize_persisted_failure_event text_of e = Inr e'" and "e \<noteq> []"
  shows "e' \<noteq> []"
proof -
  have empty: "d = []" if "normalize_serialized_failure text_of d = Inr []" for d
    using that by (auto simp: normalize_serialized_failure_def Let_def result_simps split: option.splits)
  then show ?thesis
    using assms
    by (subst (asm) normalize_persisted_failure_event.simps)
      (auto simp: result_simps dest!: empty split: json.splits)
qed

lemma normalized_strict_event:
  assumes "normalize_strict_event text_of sid e = Inr e'" and "e \<noteq> []"
  shows "strict_event text_of sid e'"
proof -
  have f: "json_finite (JObj e)" and s: "names_session sid e"
    and n: "normalize_persisted_failure_event text_of e = Inr e'"
    using assms(1) by (auto simp: normalize_strict_event_def split: if_splits sum.splits)
  note k = normalize_event_keeps [OF n f]
  obtain k v r where e: "e = (k, v) # r" using assms(2) by (cases e) auto
  have "e' \<noteq> []"
    using n normalize_event_nonempty [OF n assms(2)] by simp
  then show ?thesis
    using k s normalize_event_idem [OF n] by (auto simp: strict_event_def names_session_def)
qed

end
