(* ===== verification/Iso_Time.thy ===== *)
theory Iso_Time
  imports PyData
begin

text \<open>
  Instants as the durable leases of the session timeline write them: a UTC \<open>datetime\<close> by its
  calendar fields, \<open>isoformat\<close>, and the part of \<open>datetime.fromisoformat\<close> that reads extended
  ISO 8601 text with an offset, normalised by \<open>astimezone(UTC)\<close>
  (\<open>_parse_timestamp\<close>, \<open>_normalize_timestamp\<close> of \<^verbatim>\<open>mochi/sessions/turn_timeline.py\<close>).

  \<open>fromisoformat\<close> reads more spellings (compact dates, week dates), which no writer of the program
  produces and which differ between Python versions: they are the argument \<open>other\<close>, a reader that is
  asked about every text the extended form does not cover and whose answers are calendar dates.
\<close>

section \<open>Instants\<close>

datatype utc_time = Instant int int int int int int int

fun instant_key :: "utc_time \<Rightarrow> int \<times> int \<times> int \<times> int \<times> int \<times> int \<times> int" where
  "instant_key (Instant y mo d h mi s us) = (y, mo, d, h, mi, s, us)"

lemma instant_key_inject: "instant_key a = instant_key b \<longleftrightarrow> a = b"
  by (cases a; cases b) auto

text \<open>The order of two aware datetimes in UTC is the order of their fields.\<close>

instantiation utc_time :: linorder
begin

definition less_eq_utc_time :: "utc_time \<Rightarrow> utc_time \<Rightarrow> bool" where
  "less_eq_utc_time a b \<longleftrightarrow> instant_key a \<le> instant_key b"

definition less_utc_time :: "utc_time \<Rightarrow> utc_time \<Rightarrow> bool" where
  "less_utc_time a b \<longleftrightarrow> instant_key a < instant_key b"

instance
  by standard
    (auto simp: less_eq_utc_time_def less_utc_time_def instant_key_inject less_le_not_le
      intro: order_trans antisym)

end

fun days_in_month :: "int \<Rightarrow> int \<Rightarrow> int" where
  "days_in_month y mo =
     (if mo = 2 then (if y mod 4 = 0 \<and> (y mod 100 \<noteq> 0 \<or> y mod 400 = 0) then 29 else 28)
      else if mo \<in> {4, 6, 9, 11} then 30 else 31)"

fun valid_instant :: "utc_time \<Rightarrow> bool" where
  "valid_instant (Instant y mo d h mi s us) \<longleftrightarrow>
     1 \<le> y \<and> y \<le> 9999 \<and> 1 \<le> mo \<and> mo \<le> 12 \<and> 1 \<le> d \<and> d \<le> days_in_month y mo
     \<and> 0 \<le> h \<and> h < 24 \<and> 0 \<le> mi \<and> mi < 60 \<and> 0 \<le> s \<and> s < 60
     \<and> 0 \<le> us \<and> us < 1000000"

lemma days_in_month_le: "days_in_month y mo \<le> 31"
  by simp

section \<open>Writing\<close>

definition digit_char :: "int \<Rightarrow> char" where
  "digit_char n = char_of (48 + n)"

fun pad_digits :: "nat \<Rightarrow> int \<Rightarrow> string" where
  "pad_digits 0 n = []"
| "pad_digits (Suc k) n = pad_digits k (n div 10) @ [digit_char (n mod 10)]"

fun isoformat :: "utc_time \<Rightarrow> string" where
  "isoformat (Instant y mo d h mi s us) =
     pad_digits 4 y @ ''-'' @ pad_digits 2 mo @ ''-'' @ pad_digits 2 d @ ''T''
     @ pad_digits 2 h @ '':'' @ pad_digits 2 mi @ '':'' @ pad_digits 2 s
     @ (if us = 0 then [] else ''.'' @ pad_digits 6 us) @ ''+00:00''"

section \<open>Reading\<close>

definition digit_value :: "char \<Rightarrow> int option" where
  "digit_value c = (let n = of_char c in if 48 \<le> n \<and> n \<le> 57 then Some (n - 48) else None)"

text \<open>Exactly \<open>k\<close> digits, with the value so far.\<close>

fun read_digits :: "nat \<Rightarrow> int \<Rightarrow> string \<Rightarrow> (int \<times> string) option" where
  "read_digits 0 acc s = Some (acc, s)"
| "read_digits (Suc k) acc [] = None"
| "read_digits (Suc k) acc (c # s) =
     (case digit_value c of None \<Rightarrow> None | Some v \<Rightarrow> read_digits k (10 * acc + v) s)"

definition read_char :: "char \<Rightarrow> string \<Rightarrow> string option" where
  "read_char c s = (case s of d # s' \<Rightarrow> if d = c then Some s' else None | [] \<Rightarrow> None)"

text \<open>The digits of a fraction: the first six count, the rest are dropped.\<close>

definition read_fraction :: "string \<Rightarrow> int option" where
  "read_fraction s =
     (if s \<noteq> [] \<and> list_all (\<lambda>c. digit_value c \<noteq> None) s
      then map_option fst (read_digits 6 0 (take 6 (s @ replicate 6 CHR ''0'')))
      else None)"

text \<open>\<open>hh[:mm[:ss[.ffffff]]]\<close>, the whole text.\<close>

definition read_clock :: "string \<Rightarrow> (int \<times> int \<times> int \<times> int) option" where
  "read_clock s =
     (case read_digits 2 0 s of
        None \<Rightarrow> None
      | Some (h, []) \<Rightarrow> Some (h, 0, 0, 0)
      | Some (h, c # s1) \<Rightarrow> if c \<noteq> CHR '':'' then None else
     (case read_digits 2 0 s1 of
        None \<Rightarrow> None
      | Some (mi, []) \<Rightarrow> Some (h, mi, 0, 0)
      | Some (mi, c1 # s2) \<Rightarrow> if c1 \<noteq> CHR '':'' then None else
     (case read_digits 2 0 s2 of
        None \<Rightarrow> None
      | Some (sec, []) \<Rightarrow> Some (h, mi, sec, 0)
      | Some (sec, c2 # s3) \<Rightarrow>
          if c2 \<noteq> CHR ''.'' \<and> c2 \<noteq> CHR '','' then None
          else map_option (\<lambda>us. (h, mi, sec, us)) (read_fraction s3))))"

text \<open>A datetime as read: its local fields and its offset from UTC in microseconds.\<close>

type_synonym aware = "utc_time \<times> int"

definition clock_micros :: "int \<times> int \<times> int \<times> int \<Rightarrow> int" where
  "clock_micros = (\<lambda>(h, mi, s, us). ((h * 60 + mi) * 60 + s) * 1000000 + us)"

definition day_micros :: int where
  "day_micros = 86400000000"

definition is_sign :: "char \<Rightarrow> bool" where
  "is_sign c \<longleftrightarrow> c = CHR ''+'' \<or> c = CHR ''-''"

text \<open>The clock ends at the first sign; the offset follows it and is below a day.\<close>

definition read_extended :: "string \<Rightarrow> aware option" where
  "read_extended s =
     (case read_digits 4 0 s of None \<Rightarrow> None | Some (y, s1) \<Rightarrow>
      case read_char CHR ''-'' s1 of None \<Rightarrow> None | Some s2 \<Rightarrow>
      case read_digits 2 0 s2 of None \<Rightarrow> None | Some (mo, s3) \<Rightarrow>
      case read_char CHR ''-'' s3 of None \<Rightarrow> None | Some s4 \<Rightarrow>
      case read_digits 2 0 s4 of None \<Rightarrow> None | Some (d, s5) \<Rightarrow>
      case s5 of [] \<Rightarrow> None | _ # s6 \<Rightarrow>
      case dropWhile (\<lambda>c. \<not> is_sign c) s6 of [] \<Rightarrow> None | sign # s7 \<Rightarrow>
      case read_clock (takeWhile (\<lambda>c. \<not> is_sign c) s6) of None \<Rightarrow> None | Some (h, mi, sec, us) \<Rightarrow>
      case read_clock s7 of None \<Rightarrow> None | Some off \<Rightarrow>
        let t = Instant y mo d h mi sec us; o_us = clock_micros off
        in if valid_instant t \<and> o_us < day_micros
           then Some (t, if sign = CHR ''-'' then - o_us else o_us) else None)"

text \<open>\<open>text.replace("Z", "+00:00")\<close>.\<close>

definition replace_zulu :: "string \<Rightarrow> string" where
  "replace_zulu s = concat (map (\<lambda>c. if c = CHR ''Z'' then ''+00:00'' else [c]) s)"

definition fromisoformat :: "(string \<Rightarrow> aware option) \<Rightarrow> string \<Rightarrow> aware option" where
  "fromisoformat other s =
     (case read_extended s of
        Some a \<Rightarrow> Some a
      | None \<Rightarrow> (case other s of
                   None \<Rightarrow> None
                 | Some a \<Rightarrow> if valid_instant (fst a) then Some a else None))"

text \<open>
  \<open>astimezone(UTC)\<close>: subtract the offset. It moves the date by at most a day; leaving the years 1 to
  9999 raises \<open>OverflowError\<close>, here \<open>None\<close>.
\<close>

fun next_day :: "int \<times> int \<times> int \<Rightarrow> int \<times> int \<times> int" where
  "next_day (y, mo, d) =
     (if d < days_in_month y mo then (y, mo, d + 1)
      else if mo < 12 then (y, mo + 1, 1) else (y + 1, 1, 1))"

fun prev_day :: "int \<times> int \<times> int \<Rightarrow> int \<times> int \<times> int" where
  "prev_day (y, mo, d) =
     (if 1 < d then (y, mo, d - 1)
      else if 1 < mo then (y, mo - 1, days_in_month y (mo - 1)) else (y - 1, 12, 31))"

fun on_clock :: "int \<times> int \<times> int \<Rightarrow> int \<Rightarrow> utc_time" where
  "on_clock (y, mo, d) n =
     Instant y mo d (n div 3600000000) (n div 60000000 mod 60) (n div 1000000 mod 60)
       (n mod 1000000)"

fun shift_instant :: "aware \<Rightarrow> utc_time" where
  "shift_instant (Instant y mo d h mi s us, off) =
     (let n = clock_micros (h, mi, s, us) - off
      in if n < 0 then on_clock (prev_day (y, mo, d)) (n + day_micros)
         else if n < day_micros then on_clock (y, mo, d) n
         else on_clock (next_day (y, mo, d)) (n - day_micros))"

definition to_utc :: "aware \<Rightarrow> utc_time option" where
  "to_utc a =
     (if snd a = 0 then Some (fst a)
      else let t = shift_instant a in if valid_instant t then Some t else None)"

section \<open>What is written is read back\<close>

lemma digit_value_char [simp]: "0 \<le> n \<Longrightarrow> n < 10 \<Longrightarrow> digit_value (digit_char n) = Some n"
  by (simp add: digit_value_def digit_char_def of_char_of)

lemma read_digits_append:
  "length s = k \<Longrightarrow> list_all (\<lambda>c. digit_value c \<noteq> None) s \<Longrightarrow>
     read_digits (k + j) acc (s @ t) = read_digits j (fst (the (read_digits k acc s))) t"
  by (induction k arbitrary: acc s) (auto simp: length_Suc_conv)

lemma length_pad_digits [simp]: "length (pad_digits k n) = k"
  by (induction k arbitrary: n) auto

lemma pad_digits_digits: "list_all (\<lambda>c. digit_value c \<noteq> None) (pad_digits k n)"
  by (induction k arbitrary: n) auto

lemma read_pad_digits:
  "0 \<le> n \<Longrightarrow> n < 10 ^ k \<Longrightarrow> read_digits k acc (pad_digits k n @ t) = Some (acc * 10 ^ k + n, t)"
proof (induction k arbitrary: n t)
  case (Suc k)
  have "0 \<le> n div 10" and "n div 10 < 10 ^ k"
    using Suc.prems mult_div_mod_eq [of 10 n] pos_mod_sign [of 10 n]
    by (simp add: pos_imp_zdiv_nonneg_iff, simp)
  note ih = Suc.IH [OF this]
  have "read_digits (Suc k) acc (pad_digits (Suc k) n @ t)
      = read_digits (k + 1) acc (pad_digits k (n div 10) @ digit_char (n mod 10) # t)"
    by simp
  also have "\<dots> = read_digits 1 (acc * 10 ^ k + n div 10) (digit_char (n mod 10) # t)"
    using ih [of "[]"] by (subst read_digits_append [OF length_pad_digits pad_digits_digits]) simp
  also have "\<dots> = Some (10 * (acc * 10 ^ k + n div 10) + n mod 10, t)"
    by (simp only: One_nat_def read_digits.simps option.case digit_value_char [of "n mod 10"]
        pos_mod_sign pos_mod_bound zero_less_numeral)
  also have "10 * (acc * 10 ^ k + n div 10) + n mod 10 = acc * 10 ^ Suc k + n"
    by (simp add: algebra_simps)
  finally show ?case .
qed simp

lemma digit_char_neq:
  "0 \<le> m \<Longrightarrow> m < 10 \<Longrightarrow> (of_char c :: int) < 48 \<or> 57 < (of_char c :: int) \<Longrightarrow>
     digit_char m \<noteq> c"
  by (auto simp: digit_char_def of_char_of)

lemma pad_digits_clock:
  "c \<in> set (pad_digits k n) \<Longrightarrow> \<not> is_sign c \<and> c \<noteq> CHR ''Z'' \<and> \<not> py_space c"
proof (induction k arbitrary: n)
  case (Suc k)
  have "\<not> is_sign (digit_char m) \<and> digit_char m \<noteq> CHR ''Z'' \<and> \<not> py_space (digit_char m)"
    if "0 \<le> m" and "m < 10" for m
  proof -
    have "digit_char m \<noteq> CHR ''+''" "digit_char m \<noteq> CHR ''-''" "digit_char m \<noteq> CHR ''Z''"
      by (rule digit_char_neq [OF that], simp)+
    moreover have "\<not> py_space (digit_char m)"
      using digit_char_neq [OF that, of "digit_char m"]
        of_nat_of_char [where 'a = int, of "digit_char m"]
      by (auto simp: py_space_def)
    ultimately show ?thesis by (simp add: is_sign_def)
  qed
  with Suc show ?case by auto
qed simp

lemma read_fraction_pad: "0 \<le> us \<Longrightarrow> us < 1000000 \<Longrightarrow> read_fraction (pad_digits 6 us) = Some us"
  using read_pad_digits [of us 6 0 "[]"] pad_digits_digits [of 6 us]
  by (simp add: read_fraction_def) (metis length_pad_digits length_0_conv zero_neq_numeral)

definition clock_text :: "int \<Rightarrow> int \<Rightarrow> int \<Rightarrow> int \<Rightarrow> string" where
  "clock_text h mi s us = pad_digits 2 h @ '':'' @ pad_digits 2 mi @ '':'' @ pad_digits 2 s
     @ (if us = 0 then [] else ''.'' @ pad_digits 6 us)"

lemma read_clock_text:
  assumes "0 \<le> h" "h < 24" and "0 \<le> mi" "mi < 60" and "0 \<le> s" "s < 60"
    and "0 \<le> us" "us < 1000000"
  shows "read_clock (clock_text h mi s us) = Some (h, mi, s, us)"
proof -
  have "h < 10 ^ 2" "mi < 10 ^ 2" "s < 10 ^ 2" using assms by auto
  note d = read_pad_digits [OF assms(1) this(1)] read_pad_digits [OF assms(3) this(2)]
    read_pad_digits [OF assms(5) this(3)]
  show ?thesis
    using assms by (simp add: read_clock_def clock_text_def d d(3) [of 0 "[]", simplified] read_fraction_pad)
qed

lemma clock_text_no_sign: "c \<in> set (clock_text h mi s us) \<Longrightarrow> \<not> is_sign c"
  by (auto simp: clock_text_def is_sign_def dest: pad_digits_clock split: if_splits)

lemma read_isoformat: "valid_instant t \<Longrightarrow> read_extended (isoformat t) = Some (t, 0)"
proof -
  assume v: "valid_instant t"
  obtain y mo d h mi s us where t: "t = Instant y mo d h mi s us" by (cases t)
  have written: "isoformat t = pad_digits 4 y @ ''-'' @ pad_digits 2 mo @ ''-'' @ pad_digits 2 d @ ''T''
      @ clock_text h mi s us @ ''+00:00''"
    by (simp add: t clock_text_def)
  have "0 \<le> y" "y < 10 ^ 4" "0 \<le> mo" "mo < 10 ^ 2" "0 \<le> d" "d < 10 ^ 2"
    using v days_in_month_le [of y mo] by (simp_all add: t del: days_in_month.simps)
  note ds = read_pad_digits [OF this(1,2)] read_pad_digits [OF this(3,4)]
    read_pad_digits [OF this(5,6)]
  have sign: "is_sign CHR ''+''" by (simp add: is_sign_def)
  have take: "takeWhile (\<lambda>c. \<not> is_sign c) (clock_text h mi s us @ ''+00:00'') = clock_text h mi s us"
    using sign by (subst takeWhile_append2) (auto dest: clock_text_no_sign)
  have drop: "dropWhile (\<lambda>c. \<not> is_sign c) (clock_text h mi s us @ ''+00:00'') = ''+00:00''"
    using sign by (subst dropWhile_append2) (auto dest: clock_text_no_sign)
  have off: "read_clock ''00:00'' = Some (0, 0, 0, 0)" by code_simp
  have clock: "read_clock (clock_text h mi s us) = Some (h, mi, s, us)"
    by (rule read_clock_text) (use v t in auto)
  show ?thesis
    unfolding written using v
    by (simp add: read_extended_def ds read_char_def take drop off clock t [symmetric] Let_def
        clock_micros_def day_micros_def)
qed

lemma isoformat_chars: "c \<in> set (isoformat t) \<Longrightarrow> c \<noteq> CHR ''Z'' \<and> \<not> py_space c"
proof -
  have colon: "\<not> py_space CHR '':''" "\<not> py_space CHR ''-''" "\<not> py_space CHR ''+''"
    "\<not> py_space CHR ''T''" "\<not> py_space CHR ''.''" "\<not> py_space CHR ''0''"
    by code_simp+
  show "c \<in> set (isoformat t) \<Longrightarrow> c \<noteq> CHR ''Z'' \<and> \<not> py_space c"
    using colon by (cases t) (auto dest: pad_digits_clock split: if_splits)
qed

lemma replace_zulu_isoformat [simp]: "replace_zulu (isoformat t) = isoformat t"
proof -
  have "map (\<lambda>c. if c = CHR ''Z'' then ''+00:00'' else [c]) (isoformat t)
      = map (\<lambda>c. [c]) (isoformat t)"
    by (auto dest: isoformat_chars)
  then show ?thesis unfolding replace_zulu_def by (simp only:) simp
qed

lemma fromisoformat_isoformat [simp]:
  "valid_instant t \<Longrightarrow> fromisoformat other (isoformat t) = Some (t, 0)"
  by (simp add: fromisoformat_def read_isoformat)

lemma to_utc_zero [simp]: "to_utc (t, 0) = Some t"
  by (simp add: to_utc_def)

lemma to_utc_valid: "to_utc a = Some u \<Longrightarrow> valid_instant (fst a) \<Longrightarrow> valid_instant u"
  by (auto simp: to_utc_def Let_def split: if_splits)

lemma fromisoformat_valid: "fromisoformat other s = Some a \<Longrightarrow> valid_instant (fst a)"
  by (auto simp: fromisoformat_def read_extended_def Let_def split: option.splits if_splits list.splits)

lemma isoformat_inject: "valid_instant a \<Longrightarrow> valid_instant b \<Longrightarrow> isoformat a = isoformat b \<longleftrightarrow> a = b"
  by (metis read_isoformat option.inject prod.inject)

end
