(* ===== verification/Turn_Timeline.thy ===== *)
theory Turn_Timeline
  imports Iso_Time
begin

text \<open>
  The durable state of the ordinary-chat turn lane, \<^verbatim>\<open>mochi/sessions/turn_timeline.py\<close>: operation
  descriptors, turns and the timeline of a session, each with the checks of its constructor
  (\<open>__post_init__\<close>), its serialisation, and the readers of the current and the three legacy versions.

  A lease deadline is the instant its normalised text denotes. Messages keep the field they name.
\<close>

section \<open>Errors and field checks\<close>

text \<open>\<open>TimelinePayloadError\<close>, its subclass for future versions, the argument checks of the operations,
  and the exceptions that are no payload error.\<close>

datatype timeline_error =
    Payload_error string
  | Unsupported_version
  | Bad_value string
  | Bad_type string
  | Date_overflow
  | Assertion_failed

type_synonym 'a tl = "timeline_error + 'a"

definition require_stripped :: "string \<Rightarrow> string \<Rightarrow> string tl" where
  "require_stripped s field =
     (if py_strip s = [] then Inl (Payload_error field) else Inr (py_strip s))"

definition require_text :: "json \<Rightarrow> string \<Rightarrow> string tl" where
  "require_text v field =
     (case v of JStr s \<Rightarrow> require_stripped s field | _ \<Rightarrow> Inl (Payload_error field))"

definition tl_optional :: "(json \<Rightarrow> string \<Rightarrow> 'a tl) \<Rightarrow> json \<Rightarrow> string \<Rightarrow> 'a option tl" where
  "tl_optional f v field =
     (if v = JNull then Inr None else bindE (f v field) (\<lambda>x. Inr (Some x)))"

definition hex_char :: "char \<Rightarrow> bool" where
  "hex_char c \<longleftrightarrow> c \<in> set ''0123456789abcdef''"

definition bare_digest :: "string \<Rightarrow> bool" where
  "bare_digest s \<longleftrightarrow> length s = 64 \<and> list_all hex_char s"

definition namespaced_digest :: "string \<Rightarrow> bool" where
  "namespaced_digest s \<longleftrightarrow> take 7 s = ''sha256:'' \<and> bare_digest (drop 7 s)"

definition require_bare_digest :: "json \<Rightarrow> string \<Rightarrow> string tl" where
  "require_bare_digest v field =
     bindE (require_text v field) (\<lambda>s.
     bindE (requireE (bare_digest s) (Payload_error field)) (\<lambda>_. Inr s))"

definition require_namespaced_digest :: "json \<Rightarrow> string \<Rightarrow> string tl" where
  "require_namespaced_digest v field =
     bindE (require_text v field) (\<lambda>s.
     bindE (requireE (namespaced_digest s) (Payload_error field)) (\<lambda>_. Inr s))"

definition legacy_arguments_digest :: "json \<Rightarrow> string \<Rightarrow> string tl" where
  "legacy_arguments_digest v field =
     bindE (require_namespaced_digest v field) (\<lambda>s. Inr (drop 7 s))"

definition require_positive_int :: "json \<Rightarrow> string \<Rightarrow> int tl" where
  "require_positive_int v field =
     (case v of JInt n \<Rightarrow> if n \<le> 0 then Inl (Payload_error field) else Inr n
      | _ \<Rightarrow> Inl (Payload_error field))"

definition require_non_negative_int :: "json \<Rightarrow> string \<Rightarrow> int tl" where
  "require_non_negative_int v field =
     (case v of JInt n \<Rightarrow> if n < 0 then Inl (Payload_error field) else Inr n
      | _ \<Rightarrow> Inl (Payload_error field))"

definition require_exact_fields :: "jdict \<Rightarrow> string list \<Rightarrow> string \<Rightarrow> unit tl" where
  "require_exact_fields payload expected label =
     requireE (set (dkeys payload) = set expected) (Payload_error label)"

definition parse_timestamp :: "(string \<Rightarrow> aware option) \<Rightarrow> json \<Rightarrow> string \<Rightarrow> utc_time tl" where
  "parse_timestamp other v field =
     bindE (require_text v field) (\<lambda>s.
       case fromisoformat other (replace_zulu s) of
         None \<Rightarrow> Inl (Payload_error field)
       | Some a \<Rightarrow> (case to_utc a of None \<Rightarrow> Inl Date_overflow | Some t \<Rightarrow> Inr t))"

definition require_array :: "json \<Rightarrow> string \<Rightarrow> json list tl" where
  "require_array v field =
     (case v of JList xs \<Rightarrow> Inr xs | _ \<Rightarrow> Inl (Payload_error field))"

definition require_objects :: "json list \<Rightarrow> string \<Rightarrow> jdict list tl" where
  "require_objects vs field =
     traverseE (\<lambda>v. case v of JObj d \<Rightarrow> Inr d | _ \<Rightarrow> Inl (Payload_error field)) vs"

section \<open>Operation descriptors\<close>

datatype op_status =
  Precommitted | Started | Succeeded | Failed | Unknown_result | Abandoned

datatype boundary = Not_started | Effect_started | Effect_unknown

fun op_status_text :: "op_status \<Rightarrow> string" where
  "op_status_text Precommitted = ''precommitted''"
| "op_status_text Started = ''started''"
| "op_status_text Succeeded = ''succeeded''"
| "op_status_text Failed = ''failed''"
| "op_status_text Unknown_result = ''unknown''"
| "op_status_text Abandoned = ''abandoned''"

definition op_statuses :: "op_status list" where
  "op_statuses = [Precommitted, Started, Succeeded, Failed, Unknown_result, Abandoned]"

fun boundary_text :: "boundary \<Rightarrow> string" where
  "boundary_text Not_started = ''not_started''"
| "boundary_text Effect_started = ''started''"
| "boundary_text Effect_unknown = ''unknown''"

definition boundaries :: "boundary list" where
  "boundaries = [Not_started, Effect_started, Effect_unknown]"

text \<open>A string field that must be one of the names of an enumeration.\<close>

definition parse_name :: "('a \<Rightarrow> string) \<Rightarrow> 'a list \<Rightarrow> string \<Rightarrow> string \<Rightarrow> 'a tl" where
  "parse_name name xs s field =
     (case find (\<lambda>x. name x = s) xs of None \<Rightarrow> Inl (Payload_error field) | Some x \<Rightarrow> Inr x)"

record descriptor =
  operation_id :: string
  tool_name :: string
  arguments_digest :: string
  call_id :: string
  op_status :: op_status
  precommit_boundary :: boundary
  result_digest :: "string option"
  receipt_reference :: "string option"

fun boundary_of :: "op_status \<Rightarrow> boundary" where
  "boundary_of Precommitted = Not_started"
| "boundary_of Started = Effect_started"
| "boundary_of Succeeded = Effect_started"
| "boundary_of Failed = Effect_started"
| "boundary_of Unknown_result = Effect_unknown"
| "boundary_of Abandoned = Not_started"

definition allowed_pair :: "op_status \<Rightarrow> boundary \<Rightarrow> bool" where
  "allowed_pair st b \<longleftrightarrow>
     (st, b) \<in> set [(Precommitted, Not_started), (Started, Effect_started),
       (Succeeded, Effect_started), (Failed, Effect_started), (Unknown_result, Effect_unknown),
       (Abandoned, Not_started)]"

definition checked_option :: "(json \<Rightarrow> string \<Rightarrow> string tl) \<Rightarrow> string option \<Rightarrow> string \<Rightarrow> string option tl" where
  "checked_option f v field = tl_optional f (opt_str v) field"

text \<open>\<open>OperationDescriptor.__post_init__\<close>.\<close>

definition check_descriptor :: "descriptor \<Rightarrow> descriptor tl" where
  "check_descriptor d =
     bindE (require_text (JStr (operation_id d)) ''operation_id'') (\<lambda>i.
     bindE (require_text (JStr (tool_name d)) ''tool_name'') (\<lambda>t.
     bindE (require_text (JStr (call_id d)) ''call_id'') (\<lambda>c.
     bindE (require_bare_digest (JStr (arguments_digest d)) ''arguments_digest'') (\<lambda>a.
     bindE (checked_option require_namespaced_digest (result_digest d) ''result_digest'') (\<lambda>r.
     bindE (checked_option require_text (receipt_reference d) ''receipt_reference'') (\<lambda>p.
     bindE (requireE (allowed_pair (op_status d) (precommit_boundary d))
              (Payload_error ''status and precommit_boundary'')) (\<lambda>_.
     bindE (requireE (\<not> (op_status d \<in> {Precommitted, Started, Unknown_result}
                          \<and> (r \<noteq> None \<or> p \<noteq> None)))
              (Payload_error ''result evidence'')) (\<lambda>_.
       Inr (d\<lparr>operation_id := i, tool_name := t, call_id := c, arguments_digest := a,
              result_digest := r, receipt_reference := p\<rparr>)))))))))"

definition descriptor_to_dict :: "descriptor \<Rightarrow> jdict" where
  "descriptor_to_dict d =
     [(''operation_id'', JStr (operation_id d)),
      (''tool_name'', JStr (tool_name d)),
      (''arguments_digest'', JStr (arguments_digest d)),
      (''call_id'', JStr (call_id d)),
      (''status'', JStr (op_status_text (op_status d))),
      (''precommit_boundary'', JStr (boundary_text (precommit_boundary d))),
      (''result_digest'', opt_str (result_digest d)),
      (''receipt_reference'', opt_str (receipt_reference d))]"

definition descriptor_fields :: "string list" where
  "descriptor_fields = [''operation_id'', ''tool_name'', ''arguments_digest'', ''call_id'',
     ''status'', ''precommit_boundary'', ''result_digest'', ''receipt_reference'']"

definition descriptor_from_dict :: "jdict \<Rightarrow> descriptor tl" where
  "descriptor_from_dict p =
     bindE (require_exact_fields p descriptor_fields ''operation descriptor'') (\<lambda>_.
     bindE (require_text (jget p ''operation_id'') ''operation_id'') (\<lambda>i.
     bindE (require_text (jget p ''tool_name'') ''tool_name'') (\<lambda>t.
     bindE (require_bare_digest (jget p ''arguments_digest'') ''arguments_digest'') (\<lambda>a.
     bindE (require_text (jget p ''call_id'') ''call_id'') (\<lambda>c.
     bindE (require_text (jget p ''status'') ''status'') (\<lambda>st.
     bindE (require_text (jget p ''precommit_boundary'') ''precommit_boundary'') (\<lambda>b.
     bindE (tl_optional require_namespaced_digest (jget p ''result_digest'') ''result_digest'') (\<lambda>r.
     bindE (tl_optional require_text (jget p ''receipt_reference'') ''receipt_reference'') (\<lambda>ref.
     bindE (parse_name op_status_text op_statuses st ''status and precommit_boundary'') (\<lambda>st'.
     bindE (parse_name boundary_text boundaries b ''status and precommit_boundary'') (\<lambda>b'.
       check_descriptor \<lparr>operation_id = i, tool_name = t, arguments_digest = a, call_id = c,
         op_status = st', precommit_boundary = b', result_digest = r,
         receipt_reference = ref\<rparr>)))))))))))"

text \<open>Version 2 named its states differently and had no result evidence.\<close>

definition descriptor_fields_v2 :: "string list" where
  "descriptor_fields_v2 = [''operation_id'', ''tool_name'', ''arguments_digest'', ''call_id'',
     ''status'', ''precommit_boundary'']"

definition migrated_status :: "string \<Rightarrow> op_status tl" where
  "migrated_status s =
     (case map_of [(''precommitted'', Precommitted), (''side_effect_started'', Started),
                   (''unknown'', Unknown_result)] s of
        None \<Rightarrow> Inl (Payload_error ''v2 status'') | Some st \<Rightarrow> Inr st)"

definition descriptor_from_v2_dict :: "jdict \<Rightarrow> descriptor tl" where
  "descriptor_from_v2_dict p =
     bindE (require_exact_fields p descriptor_fields_v2 ''v2 operation descriptor'') (\<lambda>_.
     bindE (require_text (jget p ''status'') ''status'') (\<lambda>raw.
     bindE (require_text (jget p ''precommit_boundary'') ''precommit_boundary'') (\<lambda>b.
     bindE (migrated_status raw) (\<lambda>st.
     bindE (require_text (jget p ''operation_id'') ''operation_id'') (\<lambda>i.
     bindE (require_text (jget p ''tool_name'') ''tool_name'') (\<lambda>t.
     bindE (legacy_arguments_digest (jget p ''arguments_digest'') ''arguments_digest'') (\<lambda>a.
     bindE (require_text (jget p ''call_id'') ''call_id'') (\<lambda>c.
     bindE (parse_name boundary_text boundaries b ''status and precommit_boundary'') (\<lambda>b'.
       check_descriptor \<lparr>operation_id = i, tool_name = t, arguments_digest = a, call_id = c,
         op_status = st, precommit_boundary = b', result_digest = None,
         receipt_reference = None\<rparr>)))))))))"

section \<open>Turns\<close>

datatype turn_status = Queued | Running | Terminal

datatype terminal_outcome = Completed | Cancelled | Blocked | Outcome_unknown

datatype cancellation_outcome = Cancelled_queued | Cancelled_running

datatype recovery_reason = Admission_owner_expired

fun turn_status_text :: "turn_status \<Rightarrow> string" where
  "turn_status_text Queued = ''queued''"
| "turn_status_text Running = ''running''"
| "turn_status_text Terminal = ''terminal''"

fun terminal_outcome_text :: "terminal_outcome \<Rightarrow> string" where
  "terminal_outcome_text Completed = ''completed''"
| "terminal_outcome_text Cancelled = ''cancelled''"
| "terminal_outcome_text Blocked = ''blocked''"
| "terminal_outcome_text Outcome_unknown = ''unknown''"

fun cancellation_text :: "cancellation_outcome \<Rightarrow> string" where
  "cancellation_text Cancelled_queued = ''cancelled_queued''"
| "cancellation_text Cancelled_running = ''cancelled_running''"

fun recovery_text :: "recovery_reason \<Rightarrow> string" where
  "recovery_text Admission_owner_expired = ''admission_owner_expired_before_claim''"

definition turn_statuses :: "turn_status list" where
  "turn_statuses = [Queued, Running, Terminal]"

definition terminal_outcomes :: "terminal_outcome list" where
  "terminal_outcomes = [Completed, Cancelled, Blocked, Outcome_unknown]"

definition cancellation_outcomes :: "cancellation_outcome list" where
  "cancellation_outcomes = [Cancelled_queued, Cancelled_running]"

record turn =
  turn_sequence :: int
  turn_id :: string
  turn_status :: turn_status
  turn_boundary :: boundary
  descriptors :: "descriptor list"
  legacy_operation_ids :: "string list"
  cancellation :: "cancellation_outcome option"
  outcome :: "terminal_outcome option"
  admission_owner :: "string option"
  admission_token :: "string option"
  admission_expires :: "utc_time option"
  recovery :: "recovery_reason option"

definition normalize_identifiers :: "json list \<Rightarrow> string \<Rightarrow> string list tl" where
  "normalize_identifiers vs field =
     bindE (traverseE (\<lambda>v. require_text v field) vs) (\<lambda>xs.
     bindE (requireE (distinct xs) (Payload_error field)) (\<lambda>_. Inr xs))"

definition absent :: "'a option \<Rightarrow> bool" where
  "absent v \<longleftrightarrow> v = None"

text \<open>
  \<open>TimelineTurn.__post_init__\<close>, in two parts: the identity of the turn and of its operations, then
  the admission and the fields its status allows. The names of the enumerations are checked where
  they are read, in \<open>turn_from_dict\<close>.
\<close>

definition check_turn_identity :: "turn \<Rightarrow> turn tl" where
  "check_turn_identity t =
     bindE (requireE (0 < turn_sequence t) (Payload_error ''sequence'')) (\<lambda>_.
     bindE (require_text (JStr (turn_id t)) ''turn_id'') (\<lambda>i.
     bindE (requireE (distinct (map operation_id (descriptors t)))
              (Payload_error ''operation descriptor ids'')) (\<lambda>_.
     bindE (requireE (distinct (map call_id (descriptors t)))
              (Payload_error ''operation descriptor call ids'')) (\<lambda>_.
     bindE (normalize_identifiers (map JStr (legacy_operation_ids t)) ''legacy_operation_ids'') (\<lambda>ls.
     bindE (requireE (set (map operation_id (descriptors t)) \<inter> set ls = {})
              (Payload_error ''legacy operation ids cannot become exact descriptors'')) (\<lambda>_.
       Inr (t\<lparr>turn_id := i, legacy_operation_ids := ls\<rparr>)))))))"

definition complete_or_absent :: "bool list \<Rightarrow> bool" where
  "complete_or_absent missing \<longleftrightarrow> list_all id missing \<or> list_all Not missing"

definition queued_shape :: "turn \<Rightarrow> bool" where
  "queued_shape t \<longleftrightarrow> turn_boundary t = Not_started \<and> descriptors t = [] \<and> cancellation t = None
     \<and> outcome t = None \<and> recovery t = None"

definition no_admission :: "turn \<Rightarrow> bool" where
  "no_admission t \<longleftrightarrow>
     admission_owner t = None \<and> admission_token t = None \<and> admission_expires t = None"

definition running_shape :: "turn \<Rightarrow> bool" where
  "running_shape t \<longleftrightarrow> no_admission t \<and> cancellation t = None \<and> outcome t = None \<and> recovery t = None"

definition terminal_shape :: "turn \<Rightarrow> bool" where
  "terminal_shape t \<longleftrightarrow> no_admission t \<and> outcome t \<noteq> None
     \<and> (recovery t = None
        \<or> (outcome t = Some Cancelled \<and> cancellation t = Some Cancelled_queued
           \<and> turn_boundary t = Not_started))
     \<and> (cancellation t = None
        \<or> (outcome t = Some Cancelled
           \<and> (cancellation t = Some Cancelled_running \<or> turn_boundary t = Not_started)))"

definition status_shape :: "turn \<Rightarrow> bool" where
  "status_shape t =
     (case turn_status t of
        Queued \<Rightarrow> queued_shape t | Running \<Rightarrow> running_shape t | Terminal \<Rightarrow> terminal_shape t)"

definition check_turn_state :: "turn \<Rightarrow> turn tl" where
  "check_turn_state t =
     bindE (requireE (complete_or_absent [absent (admission_owner t), absent (admission_token t),
              absent (admission_expires t)]) (Payload_error ''admission identity'')) (\<lambda>_.
     bindE (checked_option require_text (admission_owner t) ''admission_owner'') (\<lambda>ow.
     bindE (checked_option require_text (admission_token t) ''admission_token'') (\<lambda>tk.
     bindE (requireE (status_shape t) (Payload_error ''turn status'')) (\<lambda>_.
       Inr (t\<lparr>admission_owner := ow, admission_token := tk\<rparr>)))))"

text \<open>The whole constructor, as \<open>dataclasses.replace\<close> and the operations call it.\<close>

definition check_turn :: "turn \<Rightarrow> turn tl" where
  "check_turn t = bindE (check_turn_identity t) check_turn_state"

definition opt_instant :: "utc_time option \<Rightarrow> json" where
  "opt_instant v = opt_str (map_option isoformat v)"

definition turn_to_dict :: "turn \<Rightarrow> jdict" where
  "turn_to_dict t =
     [(''sequence'', JInt (turn_sequence t)),
      (''turn_id'', JStr (turn_id t)),
      (''status'', JStr (turn_status_text (turn_status t))),
      (''side_effect_boundary'', JStr (boundary_text (turn_boundary t))),
      (''operation_descriptors'', JList (map (\<lambda>d. JObj (descriptor_to_dict d)) (descriptors t))),
      (''legacy_operation_ids'', JList (map JStr (legacy_operation_ids t))),
      (''cancellation_outcome'', opt_str (map_option cancellation_text (cancellation t))),
      (''terminal_outcome'', opt_str (map_option terminal_outcome_text (outcome t))),
      (''admission_owner'', opt_str (admission_owner t)),
      (''admission_token'', opt_str (admission_token t)),
      (''admission_lease_expires_at'', opt_instant (admission_expires t)),
      (''recovery_reason'', opt_str (map_option recovery_text (recovery t)))]"

definition turn_fields :: "string list" where
  "turn_fields = [''sequence'', ''turn_id'', ''status'', ''side_effect_boundary'',
     ''operation_descriptors'', ''legacy_operation_ids'', ''cancellation_outcome'',
     ''terminal_outcome'', ''admission_owner'', ''admission_token'',
     ''admission_lease_expires_at'', ''recovery_reason'']"

definition parse_optional_name ::
  "('a \<Rightarrow> string) \<Rightarrow> 'a list \<Rightarrow> json \<Rightarrow> string \<Rightarrow> 'a option tl" where
  "parse_optional_name name xs v field =
     (case v of
        JNull \<Rightarrow> Inr None
      | JStr s \<Rightarrow> bindE (parse_name name xs s field) (\<lambda>x. Inr (Some x))
      | _ \<Rightarrow> Inl (Payload_error field))"

text \<open>
  \<open>recovery_reason\<close> is the one enumeration whose raw value reaches \<open>not in {...}\<close> unchecked, so a list
  or an object raises \<open>TypeError\<close>, which is no payload error.
\<close>

definition parse_recovery :: "json \<Rightarrow> recovery_reason option tl" where
  "parse_recovery v =
     (case v of
        JList _ \<Rightarrow> Inl (Bad_type ''unhashable type'')
      | JObj _ \<Rightarrow> Inl (Bad_type ''unhashable type'')
      | _ \<Rightarrow> parse_optional_name recovery_text [Admission_owner_expired] v ''recovery_reason'')"

definition parse_text_name :: "('a \<Rightarrow> string) \<Rightarrow> 'a list \<Rightarrow> json \<Rightarrow> string \<Rightarrow> 'a tl" where
  "parse_text_name name xs v field =
     (case v of JStr s \<Rightarrow> parse_name name xs s field | _ \<Rightarrow> Inl (Payload_error field))"

definition parse_admission ::
  "(string \<Rightarrow> aware option) \<Rightarrow> string option \<Rightarrow> string option \<Rightarrow> string option
    \<Rightarrow> utc_time option tl" where
  "parse_admission other ow tk expires =
     bindE (requireE (complete_or_absent [absent ow, absent tk, absent expires])
              (Payload_error ''admission identity'')) (\<lambda>_.
       case expires of
         None \<Rightarrow> Inr None
       | Some s \<Rightarrow>
           bindE (parse_timestamp other (JStr s) ''admission_lease_expires_at'') (\<lambda>t.
             Inr (Some t)))"

text \<open>
  What the readers of the versions share: the raw status fields and the descriptors as read by the
  version's own descriptor reader, then the constructor.
\<close>

definition read_turn ::
  "(string \<Rightarrow> aware option) \<Rightarrow> jdict \<Rightarrow> descriptor list tl \<Rightarrow> json list \<Rightarrow> turn tl" where
  "read_turn other p read_descriptors legacy =
     bindE (requireE (as_str (jget p ''status'') \<noteq> None
              \<and> as_str (jget p ''side_effect_boundary'') \<noteq> None)
              (Payload_error ''status fields'')) (\<lambda>_.
     bindE (requireE (jget p ''terminal_outcome'' = JNull
              \<or> as_str (jget p ''terminal_outcome'') \<noteq> None) (Payload_error ''terminal_outcome'')) (\<lambda>_.
     bindE (requireE (jget p ''cancellation_outcome'' = JNull
              \<or> as_str (jget p ''cancellation_outcome'') \<noteq> None)
              (Payload_error ''cancellation_outcome'')) (\<lambda>_.
     bindE (require_positive_int (jget p ''sequence'') ''sequence'') (\<lambda>n.
     bindE (require_text (jget p ''turn_id'') ''turn_id'') (\<lambda>i.
     bindE read_descriptors (\<lambda>ds.
     bindE (tl_optional require_text (jget p ''admission_owner'') ''admission_owner'') (\<lambda>ow.
     bindE (tl_optional require_text (jget p ''admission_token'') ''admission_token'') (\<lambda>tk.
     bindE (tl_optional require_text (jget p ''admission_lease_expires_at'')
              ''admission_lease_expires_at'') (\<lambda>ex.
     bindE (parse_text_name turn_status_text turn_statuses (jget p ''status'') ''status'') (\<lambda>st.
     bindE (parse_text_name boundary_text boundaries (jget p ''side_effect_boundary'')
              ''side_effect_boundary'') (\<lambda>b.
     bindE (normalize_identifiers legacy ''legacy_operation_ids'') (\<lambda>ls.
     bindE (check_turn_identity \<lparr>turn_sequence = n, turn_id = i, turn_status = st,
              turn_boundary = b, descriptors = ds, legacy_operation_ids = ls, cancellation = None,
              outcome = None, admission_owner = ow, admission_token = tk, admission_expires = None,
              recovery = None\<rparr>) (\<lambda>t.
     bindE (parse_optional_name cancellation_text cancellation_outcomes
              (jget p ''cancellation_outcome'') ''cancellation_outcome'') (\<lambda>co.
     bindE (parse_optional_name terminal_outcome_text terminal_outcomes
              (jget p ''terminal_outcome'') ''terminal_outcome'') (\<lambda>out.
     bindE (parse_recovery (jget p ''recovery_reason'')) (\<lambda>rr.
     bindE (parse_admission other ow tk ex) (\<lambda>when.
       check_turn_state (t\<lparr>cancellation := co, outcome := out, recovery := rr,
         admission_expires := when\<rparr>))))))))))))))))))"

definition read_descriptor_array ::
  "(jdict \<Rightarrow> descriptor tl) \<Rightarrow> jdict \<Rightarrow> (json list \<Rightarrow> descriptor list tl \<Rightarrow> 'b tl) \<Rightarrow> 'b tl" where
  "read_descriptor_array reader p k =
     bindE (require_array (jget p ''operation_descriptors'') ''operation_descriptors'') (\<lambda>raw.
     bindE (require_array (jget p ''legacy_operation_ids'') ''legacy_operation_ids'') (\<lambda>legacy.
     bindE (require_objects raw ''operation_descriptors'') (\<lambda>objects.
       k legacy (traverseE reader objects))))"

definition turn_from_dict :: "(string \<Rightarrow> aware option) \<Rightarrow> jdict \<Rightarrow> turn tl" where
  "turn_from_dict other p =
     bindE (require_exact_fields p turn_fields ''timeline turn'') (\<lambda>_.
       read_descriptor_array descriptor_from_dict p (\<lambda>legacy ds. read_turn other p ds legacy))"

text \<open>Version 3 had no admission and no recovery reason, version 2 the older descriptors, version 1
  only operation ids.\<close>

definition turn_fields_v3 :: "string list" where
  "turn_fields_v3 = [''sequence'', ''turn_id'', ''status'', ''side_effect_boundary'',
     ''operation_descriptors'', ''legacy_operation_ids'', ''cancellation_outcome'',
     ''terminal_outcome'']"

definition turn_from_v3_dict :: "(string \<Rightarrow> aware option) \<Rightarrow> jdict \<Rightarrow> turn tl" where
  "turn_from_v3_dict other p =
     bindE (require_exact_fields p turn_fields_v3 ''v3 timeline turn'') (\<lambda>_.
       turn_from_dict other (dmerge p
         [(''admission_owner'', JNull), (''admission_token'', JNull),
          (''admission_lease_expires_at'', JNull), (''recovery_reason'', JNull)]))"

definition turn_from_v2_dict :: "(string \<Rightarrow> aware option) \<Rightarrow> jdict \<Rightarrow> turn tl" where
  "turn_from_v2_dict other p =
     bindE (require_exact_fields p turn_fields_v3 ''v2 timeline turn'') (\<lambda>_.
       read_descriptor_array descriptor_from_v2_dict p (\<lambda>legacy ds. read_turn other p ds legacy))"

definition turn_fields_v1 :: "string list" where
  "turn_fields_v1 = [''sequence'', ''turn_id'', ''status'', ''side_effect_boundary'',
     ''operation_ids'', ''cancellation_outcome'', ''terminal_outcome'']"

definition turn_from_v1_dict :: "(string \<Rightarrow> aware option) \<Rightarrow> jdict \<Rightarrow> turn tl" where
  "turn_from_v1_dict other p =
     bindE (require_exact_fields p turn_fields_v1 ''legacy timeline turn'') (\<lambda>_.
     bindE (require_array (jget p ''operation_ids'') ''operation_ids'') (\<lambda>legacy.
       read_turn other p (Inr []) legacy))"

section \<open>The timeline of a session\<close>

record timeline =
  tl_session :: string
  base_revision :: int
  current_revision :: int
  turns :: "turn list"
  lane_turn :: "string option"
  lane_owner :: "string option"
  lane_token :: "string option"
  lane_expires :: "utc_time option"

definition turn_operation_ids :: "turn \<Rightarrow> string list" where
  "turn_operation_ids t = map operation_id (descriptors t) @ legacy_operation_ids t"

definition all_operation_ids :: "turn list \<Rightarrow> string list" where
  "all_operation_ids ts = concat (map turn_operation_ids ts)"

definition all_call_ids :: "turn list \<Rightarrow> string list" where
  "all_call_ids ts = concat (map (\<lambda>t. map call_id (descriptors t)) ts)"

definition running_turns :: "turn list \<Rightarrow> turn list" where
  "running_turns ts = filter (\<lambda>t. turn_status t = Running) ts"

definition lane_absent :: "timeline \<Rightarrow> bool list" where
  "lane_absent t =
     [absent (lane_turn t), absent (lane_owner t), absent (lane_token t), absent (lane_expires t)]"

text \<open>The lane names the one running turn, and no turn admitted before it is still queued.\<close>

definition lane_shape :: "timeline \<Rightarrow> bool" where
  "lane_shape t \<longleftrightarrow>
     length (running_turns (turns t)) \<le> 1
     \<and> (case lane_turn t of
          None \<Rightarrow> running_turns (turns t) = []
        | Some i \<Rightarrow> map turn_id (running_turns (turns t)) = [i])
     \<and> list_all (\<lambda>r. \<not> list_ex (\<lambda>u. turn_status u = Queued \<and> turn_sequence u < turn_sequence r)
                      (turns t)) (running_turns (turns t))"

text \<open>\<open>SessionTurnTimeline.__post_init__\<close>, in two parts: the turns, then the lane.\<close>

definition check_timeline_turns :: "timeline \<Rightarrow> timeline tl" where
  "check_timeline_turns t =
     bindE (require_text (JStr (tl_session t)) ''session_id'') (\<lambda>s.
     bindE (requireE (0 \<le> base_revision t) (Payload_error ''history_base_revision'')) (\<lambda>_.
     bindE (requireE (0 < current_revision t) (Payload_error ''history_current_revision'')) (\<lambda>_.
     bindE (requireE (base_revision t < current_revision t)
              (Payload_error ''history_current_revision must follow'')) (\<lambda>_.
     bindE (requireE (map turn_sequence (turns t) = map int [1..<Suc (length (turns t))])
              (Payload_error ''turn sequences'')) (\<lambda>_.
     bindE (requireE (distinct (map turn_id (turns t))) (Payload_error ''turn ids'')) (\<lambda>_.
     bindE (requireE (distinct (all_operation_ids (turns t))) (Payload_error ''operation ids'')) (\<lambda>_.
     bindE (requireE (distinct (all_call_ids (turns t))) (Payload_error ''call ids'')) (\<lambda>_.
       Inr (t\<lparr>tl_session := s\<rparr>)))))))))"

definition check_timeline_lane :: "timeline \<Rightarrow> timeline tl" where
  "check_timeline_lane t =
     bindE (requireE (complete_or_absent (lane_absent t)) (Payload_error ''lane identity'')) (\<lambda>_.
     bindE (checked_option require_text (lane_turn t) ''lane_turn_id'') (\<lambda>i.
     bindE (checked_option require_text (lane_owner t) ''lane_owner'') (\<lambda>ow.
     bindE (checked_option require_text (lane_token t) ''lane_token'') (\<lambda>tk.
     bindE (requireE (lane_shape (t\<lparr>lane_turn := i\<rparr>)) (Payload_error ''lane'')) (\<lambda>_.
       Inr (t\<lparr>lane_turn := i, lane_owner := ow, lane_token := tk\<rparr>))))))"

definition check_timeline :: "timeline \<Rightarrow> timeline tl" where
  "check_timeline t = bindE (check_timeline_turns t) check_timeline_lane"

definition timeline_version :: string where
  "timeline_version = ''session-turn-timeline-v4''"

definition timeline_to_dict :: "timeline \<Rightarrow> jdict" where
  "timeline_to_dict t =
     [(''timeline_version'', JStr timeline_version),
      (''session_id'', JStr (tl_session t)),
      (''history_base_revision'', JInt (base_revision t)),
      (''history_current_revision'', JInt (current_revision t)),
      (''turns'', JList (map (\<lambda>u. JObj (turn_to_dict u)) (turns t))),
      (''lane_turn_id'', opt_str (lane_turn t)),
      (''lane_owner'', opt_str (lane_owner t)),
      (''lane_token'', opt_str (lane_token t)),
      (''lane_lease_expires_at'', opt_instant (lane_expires t))]"

definition timeline_fields :: "string list" where
  "timeline_fields = [''timeline_version'', ''session_id'', ''history_base_revision'',
     ''history_current_revision'', ''turns'', ''lane_turn_id'', ''lane_owner'', ''lane_token'',
     ''lane_lease_expires_at'']"

text \<open>The reader of the turns for a version. An unhashable version raises \<open>TypeError\<close>.\<close>

definition turn_reader ::
  "(string \<Rightarrow> aware option) \<Rightarrow> json \<Rightarrow> (jdict \<Rightarrow> turn tl) tl" where
  "turn_reader other version =
     (case version of
        JStr s \<Rightarrow>
          (case map_of [(''session-turn-timeline-v1'', turn_from_v1_dict other),
                        (''session-turn-timeline-v2'', turn_from_v2_dict other),
                        (''session-turn-timeline-v3'', turn_from_v3_dict other),
                        (timeline_version, turn_from_dict other)] s of
             None \<Rightarrow> Inl Unsupported_version | Some reader \<Rightarrow> Inr reader)
      | JList _ \<Rightarrow> Inl (Bad_type ''unhashable type'')
      | JObj _ \<Rightarrow> Inl (Bad_type ''unhashable type'')
      | _ \<Rightarrow> Inl Unsupported_version)"

definition parse_lane_expiry ::
  "(string \<Rightarrow> aware option) \<Rightarrow> string option list \<Rightarrow> string option \<Rightarrow> utc_time option tl" where
  "parse_lane_expiry other identity v =
     bindE (requireE (complete_or_absent (map absent (identity @ [v])))
              (Payload_error ''lane identity'')) (\<lambda>_.
       case v of
         None \<Rightarrow> Inr None
       | Some s \<Rightarrow>
           bindE (parse_timestamp other (JStr s) ''lane_lease_expires_at'') (\<lambda>t. Inr (Some t)))"

definition timeline_from_dict :: "(string \<Rightarrow> aware option) \<Rightarrow> jdict \<Rightarrow> timeline tl" where
  "timeline_from_dict other p =
     bindE (require_exact_fields p timeline_fields ''session turn timeline'') (\<lambda>_.
     bindE (turn_reader other (jget p ''timeline_version'')) (\<lambda>reader.
     bindE (require_array (jget p ''turns'') ''turns'') (\<lambda>raw.
     bindE (require_objects raw ''turns'') (\<lambda>objects.
     bindE (require_text (jget p ''session_id'') ''session_id'') (\<lambda>s.
     bindE (require_non_negative_int (jget p ''history_base_revision'') ''history_base_revision'') (\<lambda>b.
     bindE (require_positive_int (jget p ''history_current_revision'')
              ''history_current_revision'') (\<lambda>c.
     bindE (traverseE reader objects) (\<lambda>ts.
     bindE (tl_optional require_text (jget p ''lane_turn_id'') ''lane_turn_id'') (\<lambda>i.
     bindE (tl_optional require_text (jget p ''lane_owner'') ''lane_owner'') (\<lambda>ow.
     bindE (tl_optional require_text (jget p ''lane_token'') ''lane_token'') (\<lambda>tk.
     bindE (tl_optional require_text (jget p ''lane_lease_expires_at'')
              ''lane_lease_expires_at'') (\<lambda>ex.
     bindE (check_timeline_turns \<lparr>tl_session = s, base_revision = b, current_revision = c,
              turns = ts, lane_turn = i, lane_owner = ow, lane_token = tk,
              lane_expires = None\<rparr>) (\<lambda>t.
     bindE (parse_lane_expiry other [i, ow, tk] ex) (\<lambda>when.
       check_timeline_lane (t\<lparr>lane_expires := when\<rparr>)))))))))))))))"

end
