(* ===== verification/Timeline_Repository.thy ===== *)
theory Timeline_Repository
  imports Turn_Timeline
begin

text \<open>
  The transitions of \<open>SessionTurnTimelineRepository\<close> (\<^verbatim>\<open>mochi/sessions/turn_timeline.py\<close>). An operation
  first checks its arguments; the function \<open>reduce\<close> it then builds is the definition \<open>reduce_*\<close> here,
  from the timeline the history holds (\<open>None\<close> when it holds none) and the strict snapshot of the
  history, a list of events. \<open>now\<close> is the instant of the call. Result messages are left out.
\<close>

section \<open>Results\<close>

datatype mutation_status =
    Ms_admitted | Ms_claimed | Ms_precommitted | Ms_operation_abandoned | Ms_operation_result
  | Ms_admission_lease_renewed | Ms_lease_renewed | Ms_recovery_cancelled
  | Ms_recovery_pending_approval | Ms_recovery_admission_cancelled | Ms_recovery_unknown
  | Ms_terminal | Ms_boundary_updated | Ms_duplicate | Ms_queue_empty | Ms_lane_busy
  | Ms_admission_busy | Ms_admission_stale | Ms_admission_invalid | Ms_lease_stale
  | Ms_lease_invalid | Ms_already_terminal | Ms_rebase_required | Ms_missing | Ms_invalid
  | Ms_unsupported_version | Ms_already_started

record reduction =
  red_status :: mutation_status
  red_timeline :: "timeline option"

abbreviation answer :: "mutation_status \<Rightarrow> timeline option \<Rightarrow> reduction tl" where
  "answer st t \<equiv> Inr \<lparr>red_status = st, red_timeline = t\<rparr>"

type_synonym reducer = "timeline option \<Rightarrow> jdict list \<Rightarrow> reduction tl"

section \<open>Helpers\<close>

definition find_turn :: "timeline \<Rightarrow> string \<Rightarrow> turn option" where
  "find_turn t i = find (\<lambda>u. turn_id u = i) (turns t)"

definition put_turn :: "string \<Rightarrow> turn \<Rightarrow> turn list \<Rightarrow> turn list" where
  "put_turn i u us = map (\<lambda>v. if turn_id v = i then u else v) us"

definition find_descriptor :: "turn \<Rightarrow> string \<Rightarrow> descriptor option" where
  "find_descriptor u i = find (\<lambda>d. operation_id d = i) (descriptors u)"

definition put_descriptor :: "string \<Rightarrow> descriptor \<Rightarrow> descriptor list \<Rightarrow> descriptor list" where
  "put_descriptor i d ds = map (\<lambda>e. if operation_id e = i then d else e) ds"

definition next_timeline :: "timeline \<Rightarrow> jdict list \<Rightarrow> timeline tl" where
  "next_timeline t events = check_timeline (t\<lparr>current_revision := int (length events) + 1\<rparr>)"

definition free_lane :: "timeline \<Rightarrow> timeline" where
  "free_lane t =
     t\<lparr>lane_turn := None, lane_owner := None, lane_token := None, lane_expires := None\<rparr>"

text \<open>The common end of a transition: rebuild the turn, put it in its place, rebuild the timeline.\<close>

definition advance ::
  "mutation_status \<Rightarrow> timeline \<Rightarrow> jdict list \<Rightarrow> reduction tl" where
  "advance st t events = bindE (next_timeline t events) (\<lambda>t'. answer st (Some t'))"

definition update_turn ::
  "mutation_status \<Rightarrow> timeline \<Rightarrow> jdict list \<Rightarrow> string \<Rightarrow> turn \<Rightarrow> (timeline \<Rightarrow> timeline)
    \<Rightarrow> reduction tl" where
  "update_turn st current events i u lane =
     bindE (check_turn u) (\<lambda>u'.
       advance st (lane (current\<lparr>turns := put_turn i u' (turns current)\<rparr>)) events)"

definition lane_lease_status ::
  "timeline option \<Rightarrow> string \<Rightarrow> string \<Rightarrow> string \<Rightarrow> utc_time \<Rightarrow> mutation_status option" where
  "lane_lease_status current i owner token now =
     (case current of
        None \<Rightarrow> Some Ms_lease_invalid
      | Some t \<Rightarrow>
          if lane_turn t \<noteq> Some i \<or> lane_owner t \<noteq> Some owner \<or> lane_token t \<noteq> Some token
          then Some Ms_lease_invalid
          else case lane_expires t of
                 None \<Rightarrow> Some Ms_lease_invalid
               | Some e \<Rightarrow> if e \<le> now then Some Ms_lease_stale else None)"

text \<open>What every transition of the lane owner starts with: a usable lease and its running turn.\<close>

definition with_lane_turn ::
  "timeline option \<Rightarrow> string \<Rightarrow> string \<Rightarrow> string \<Rightarrow> utc_time \<Rightarrow> (timeline \<Rightarrow> turn \<Rightarrow> reduction tl)
    \<Rightarrow> reduction tl" where
  "with_lane_turn current i owner token now k =
     (case lane_lease_status current i owner token now of
        Some st \<Rightarrow> answer st current
      | None \<Rightarrow>
          (case current of
             None \<Rightarrow> Inl Assertion_failed
           | Some t \<Rightarrow>
               (case find_turn t i of None \<Rightarrow> Inl Assertion_failed | Some u \<Rightarrow> k t u)))"

definition op_settled :: "op_status \<Rightarrow> bool" where
  "op_settled st \<longleftrightarrow> st = Succeeded \<or> st = Failed \<or> st = Abandoned"

definition is_precommitted :: "descriptor \<Rightarrow> bool" where
  "is_precommitted d \<longleftrightarrow> op_status d = Precommitted \<and> precommit_boundary d = Not_started"

definition is_started :: "descriptor \<Rightarrow> bool" where
  "is_started d \<longleftrightarrow> op_status d = Started \<and> precommit_boundary d = Effect_started"

text \<open>\<open>_boundary_transition_allowed\<close>.\<close>

fun boundary_allowed :: "boundary \<Rightarrow> boundary \<Rightarrow> bool" where
  "boundary_allowed Not_started target = True"
| "boundary_allowed Effect_started target = (target \<noteq> Not_started)"
| "boundary_allowed Effect_unknown target = (target = Effect_unknown)"

text \<open>\<open>_pending_approval_operation_ids\<close>: the approval interrupts the history records for a turn.\<close>

definition pending_approval_id :: "string \<Rightarrow> jdict \<Rightarrow> string option" where
  "pending_approval_id i event =
     (if jget event ''type'' \<noteq> JStr ''turn_event'' \<or> jget event ''turn_id'' \<noteq> JStr i
         \<or> jget event ''phase'' \<noteq> JStr ''tool_call_result'' then None
      else case jget event ''payload'' of
        JObj payload \<Rightarrow>
          (case jget payload ''metadata'' of
             JObj metadata \<Rightarrow>
               (if jget metadata ''timeline_approval_pending'' \<noteq> JBool True then None
                else case jget metadata ''timeline_operation_id'' of
                  JStr s \<Rightarrow> if py_strip s = [] then None else Some (py_strip s)
                | _ \<Rightarrow> None)
           | _ \<Rightarrow> None)
      | _ \<Rightarrow> None)"

definition pending_approval_ids :: "jdict list \<Rightarrow> string \<Rightarrow> string list" where
  "pending_approval_ids events i = List.map_filter (pending_approval_id i) events"

section \<open>Admission\<close>

type_synonym admission = "(string \<times> string \<times> utc_time) option"

definition new_turn :: "int \<Rightarrow> string \<Rightarrow> admission \<Rightarrow> turn" where
  "new_turn n i adm =
     \<lparr>turn_sequence = n, turn_id = i, turn_status = Queued, turn_boundary = Not_started,
      descriptors = [], legacy_operation_ids = [], cancellation = None, outcome = None,
      admission_owner = map_option fst adm,
      admission_token = map_option (\<lambda>a. fst (snd a)) adm,
      admission_expires = map_option (\<lambda>a. snd (snd a)) adm, recovery = None\<rparr>"

definition reduce_admit :: "string \<Rightarrow> string \<Rightarrow> admission \<Rightarrow> reducer" where
  "reduce_admit session i adm current events =
     (case (case current of None \<Rightarrow> None | Some t \<Rightarrow> find_turn t i) of
        Some existing \<Rightarrow>
          (if turn_status existing = Queued
              \<and> admission_owner existing = map_option fst adm
              \<and> admission_token existing = map_option (\<lambda>a. fst (snd a)) adm
              \<and> admission_expires existing = map_option (\<lambda>a. snd (snd a)) adm
           then answer Ms_duplicate current
           else answer Ms_admission_invalid current)
      | None \<Rightarrow>
          (case current of
             None \<Rightarrow>
               bindE (check_turn (new_turn 1 i adm)) (\<lambda>u.
               bindE (check_timeline \<lparr>tl_session = session, base_revision = int (length events),
                        current_revision = int (length events) + 1, turns = [u], lane_turn = None,
                        lane_owner = None, lane_token = None, lane_expires = None\<rparr>) (\<lambda>t.
                 answer Ms_admitted (Some t)))
           | Some t \<Rightarrow>
               bindE (check_turn (new_turn (int (length (turns t)) + 1) i adm)) (\<lambda>u.
                 advance Ms_admitted (t\<lparr>turns := turns t @ [u]\<rparr>) events)))"

definition claim_turn :: "turn \<Rightarrow> turn" where
  "claim_turn u =
     u\<lparr>turn_status := Running, admission_owner := None, admission_token := None,
       admission_expires := None\<rparr>"

definition take_lane :: "string \<Rightarrow> string \<Rightarrow> string \<Rightarrow> utc_time \<Rightarrow> timeline \<Rightarrow> timeline" where
  "take_lane i owner token expires t =
     t\<lparr>lane_turn := Some i, lane_owner := Some owner, lane_token := Some token,
       lane_expires := Some expires\<rparr>"

definition queued_head :: "timeline \<Rightarrow> turn option" where
  "queued_head t = find (\<lambda>u. turn_status u = Queued) (turns t)"

definition reduce_claim_next :: "string \<Rightarrow> string \<Rightarrow> utc_time \<Rightarrow> utc_time \<Rightarrow> reducer" where
  "reduce_claim_next owner token lease now current events =
     (case current of
        None \<Rightarrow> answer Ms_missing None
      | Some t \<Rightarrow>
     (if lane_turn t \<noteq> None
      then (case lane_expires t of
              None \<Rightarrow> Inl (Payload_error ''lane_lease_expires_at'')
            | Some e \<Rightarrow> if e \<le> now then answer Ms_lease_stale current else answer Ms_lane_busy current)
      else case queued_head t of
        None \<Rightarrow> answer Ms_queue_empty current
      | Some u \<Rightarrow>
          let claimed = update_turn Ms_claimed t events (turn_id u) (claim_turn u)
                          (take_lane (turn_id u) owner token lease)
          in case admission_owner u of
               None \<Rightarrow> claimed
             | Some ow \<Rightarrow>
                 (case (admission_token u, admission_expires u) of
                    (Some tk, Some e) \<Rightarrow>
                      (if e \<le> now then answer Ms_admission_stale current
                       else if ow \<noteq> owner \<or> tk \<noteq> token then answer Ms_admission_busy current
                       else claimed)
                  | _ \<Rightarrow> Inl Assertion_failed)))"

definition reduce_renew_lease ::
  "string \<Rightarrow> string \<Rightarrow> string \<Rightarrow> utc_time \<Rightarrow> utc_time \<Rightarrow> reducer" where
  "reduce_renew_lease i owner token expires now current events =
     (case lane_lease_status current i owner token now of
        Some st \<Rightarrow> answer st current
      | None \<Rightarrow>
          (case current of
             None \<Rightarrow> Inl Assertion_failed
           | Some t \<Rightarrow>
               (case lane_expires t of
                  None \<Rightarrow> Inl Assertion_failed
                | Some e \<Rightarrow>
                    if expires \<le> e then answer Ms_invalid current
                    else advance Ms_lease_renewed (t\<lparr>lane_expires := Some expires\<rparr>) events)))"

definition reduce_renew_admission ::
  "string \<Rightarrow> string \<Rightarrow> string \<Rightarrow> utc_time \<Rightarrow> utc_time \<Rightarrow> reducer" where
  "reduce_renew_admission i owner token expires now current events =
     (case current of
        None \<Rightarrow> answer Ms_missing None
      | Some t \<Rightarrow>
     (case find_turn t i of
        None \<Rightarrow> answer Ms_admission_invalid current
      | Some u \<Rightarrow>
     (if turn_status u \<noteq> Queued then answer Ms_admission_invalid current
      else if admission_owner u \<noteq> Some owner \<or> admission_token u \<noteq> Some token
      then answer Ms_admission_invalid current
      else case admission_expires u of
        None \<Rightarrow> answer Ms_admission_invalid current
      | Some e \<Rightarrow>
          (if e \<le> now then answer Ms_admission_stale current
           else if expires \<le> e then answer Ms_admission_invalid current
           else update_turn Ms_admission_lease_renewed t events i
                  (u\<lparr>admission_expires := Some expires\<rparr>) id))))"

definition cancel_queued_turn :: "turn \<Rightarrow> turn" where
  "cancel_queued_turn u =
     u\<lparr>turn_status := Terminal, outcome := Some Cancelled, cancellation := Some Cancelled_queued,
       admission_owner := None, admission_token := None, admission_expires := None\<rparr>"

definition reduce_recover_admission :: "string \<Rightarrow> utc_time \<Rightarrow> reducer" where
  "reduce_recover_admission i now current events =
     (case current of
        None \<Rightarrow> answer Ms_missing None
      | Some t \<Rightarrow>
     (if lane_turn t \<noteq> None then answer Ms_admission_invalid current
      else case queued_head t of
        None \<Rightarrow> answer Ms_admission_invalid current
      | Some u \<Rightarrow>
     (if turn_id u \<noteq> i then answer Ms_admission_invalid current
      else if admission_owner u = None \<or> admission_token u = None
      then answer Ms_admission_invalid current
      else case admission_expires u of
        None \<Rightarrow> answer Ms_admission_invalid current
      | Some e \<Rightarrow>
          (if now < e then answer Ms_admission_invalid current
           else update_turn Ms_recovery_admission_cancelled t events i
                  ((cancel_queued_turn u)\<lparr>recovery := Some Admission_owner_expired\<rparr>) id))))"

section \<open>Operations of the running turn\<close>

definition quarantined :: "timeline \<Rightarrow> bool" where
  "quarantined t \<longleftrightarrow>
     list_ex (\<lambda>u. turn_boundary u = Effect_unknown \<or> outcome u = Some Outcome_unknown
                \<or> list_ex (\<lambda>d. op_status d = Unknown_result) (descriptors u)) (turns t)"

definition pending_continuation :: "timeline \<Rightarrow> turn \<Rightarrow> bool" where
  "pending_continuation t u \<longleftrightarrow>
     list_ex (\<lambda>v. turn_sequence v < turn_sequence u \<and> turn_status v = Terminal
                \<and> outcome v = Some Blocked
                \<and> list_ex (\<lambda>d. op_status d = Precommitted \<or> op_status d = Started) (descriptors v))
       (turns t)"

definition prior_descriptor :: "turn \<Rightarrow> descriptor \<Rightarrow> descriptor option" where
  "prior_descriptor u d =
     (case find_descriptor u (operation_id d) of
        Some e \<Rightarrow> Some e
      | None \<Rightarrow> find (\<lambda>e. call_id e = call_id d) (descriptors u))"

definition reduce_precommit ::
  "string \<Rightarrow> string \<Rightarrow> string \<Rightarrow> descriptor \<Rightarrow> utc_time \<Rightarrow> reducer" where
  "reduce_precommit i owner token d now current events =
     with_lane_turn current i owner token now (\<lambda>t u.
       if quarantined t then answer Ms_invalid current
       else if pending_continuation t u then answer Ms_invalid current
       else if turn_boundary u = Effect_unknown then answer Ms_invalid current
       else case prior_descriptor u d of
         Some prior \<Rightarrow>
           (if prior = d then answer Ms_precommitted current else answer Ms_invalid current)
       | None \<Rightarrow>
           (if list_ex (\<lambda>e. \<not> op_settled (op_status e)) (descriptors u) then answer Ms_invalid current
            else if operation_id d \<in> set (all_operation_ids (turns t))
                    \<or> call_id d \<in> set (all_call_ids (turns t))
            then answer Ms_invalid current
            else update_turn Ms_precommitted t events i
                   (u\<lparr>descriptors := descriptors u @ [d]\<rparr>) id))"

text \<open>The result states of an operation and the descriptor that records them.\<close>

datatype result_status = R_succeeded | R_failed | R_unknown

fun result_op_status :: "result_status \<Rightarrow> op_status" where
  "result_op_status R_succeeded = Succeeded"
| "result_op_status R_failed = Failed"
| "result_op_status R_unknown = Unknown_result"

definition with_result ::
  "descriptor \<Rightarrow> result_status \<Rightarrow> string option \<Rightarrow> string option \<Rightarrow> descriptor" where
  "with_result d st digest receipt =
     d\<lparr>op_status := result_op_status st,
       precommit_boundary := (if st = R_unknown then Effect_unknown else Effect_started),
       result_digest := digest, receipt_reference := receipt\<rparr>"

definition result_boundary :: "result_status \<Rightarrow> turn \<Rightarrow> turn" where
  "result_boundary st u = (if st = R_unknown then u\<lparr>turn_boundary := Effect_unknown\<rparr> else u)"

definition put_operation :: "string \<Rightarrow> descriptor \<Rightarrow> turn \<Rightarrow> turn" where
  "put_operation op d u = u\<lparr>descriptors := put_descriptor op d (descriptors u)\<rparr>"

definition reduce_result ::
  "string \<Rightarrow> string \<Rightarrow> string \<Rightarrow> string \<Rightarrow> result_status \<Rightarrow> string option \<Rightarrow> string option
    \<Rightarrow> utc_time \<Rightarrow> reducer" where
  "reduce_result i owner token op st digest receipt now current events =
     with_lane_turn current i owner token now (\<lambda>t u.
       case find_descriptor u op of
         None \<Rightarrow> answer Ms_invalid current
       | Some d \<Rightarrow>
           bindE (check_descriptor (with_result d st digest receipt)) (\<lambda>d'.
             if d = d' then answer Ms_operation_result current
             else if \<not> is_started d then answer Ms_invalid current
             else if turn_boundary u = Effect_unknown then answer Ms_invalid current
             else update_turn Ms_operation_result t events i
                    (result_boundary st (put_operation op d' u)) id))"

definition reduce_approval_pending ::
  "string \<Rightarrow> string \<Rightarrow> string \<Rightarrow> string \<Rightarrow> utc_time \<Rightarrow> reducer" where
  "reduce_approval_pending i owner token op now current events =
     with_lane_turn current i owner token now (\<lambda>t u.
       case find_descriptor u op of
         None \<Rightarrow> answer Ms_invalid current
       | Some d \<Rightarrow>
           (if \<not> is_precommitted d then answer Ms_invalid current
            else advance Ms_precommitted t events))"

definition abandoned :: "descriptor \<Rightarrow> string \<Rightarrow> string \<Rightarrow> descriptor" where
  "abandoned d digest receipt =
     d\<lparr>op_status := Abandoned, precommit_boundary := Not_started, result_digest := Some digest,
       receipt_reference := Some receipt\<rparr>"

definition reduce_abandon ::
  "string \<Rightarrow> string \<Rightarrow> string \<Rightarrow> string \<Rightarrow> string \<Rightarrow> string \<Rightarrow> utc_time \<Rightarrow> reducer" where
  "reduce_abandon i owner token op digest receipt now current events =
     with_lane_turn current i owner token now (\<lambda>t u.
       case find_descriptor u op of
         None \<Rightarrow> answer Ms_invalid current
       | Some d \<Rightarrow>
           bindE (check_descriptor (abandoned d digest receipt)) (\<lambda>d'.
             if d = d' then answer Ms_operation_abandoned current
             else if \<not> is_precommitted d then answer Ms_invalid current
             else update_turn Ms_operation_abandoned t events i (put_operation op d' u) id))"

definition with_boundary :: "descriptor \<Rightarrow> op_status \<Rightarrow> boundary \<Rightarrow> descriptor" where
  "with_boundary d st b = d\<lparr>op_status := st, precommit_boundary := b\<rparr>"

text \<open>\<open>mark_side_effect_boundary\<close>. Only the \<open>not_started\<close> call may leave the operation out.\<close>

definition move_boundary ::
  "timeline \<Rightarrow> jdict list \<Rightarrow> string \<Rightarrow> turn \<Rightarrow> string \<Rightarrow> descriptor \<Rightarrow> op_status \<Rightarrow> boundary
    \<Rightarrow> reduction tl" where
  "move_boundary t events i u op d st b =
     bindE (check_descriptor (with_boundary d st b)) (\<lambda>d'.
       update_turn Ms_boundary_updated t events i
         ((put_operation op d' u)\<lparr>turn_boundary := b\<rparr>) id)"

definition reduce_boundary ::
  "string \<Rightarrow> string \<Rightarrow> string \<Rightarrow> boundary \<Rightarrow> string option \<Rightarrow> utc_time \<Rightarrow> reducer" where
  "reduce_boundary i owner token b op now current events =
     with_lane_turn current i owner token now (\<lambda>t u.
       if \<not> boundary_allowed (turn_boundary u) b then answer Ms_invalid current
       else if b = Not_started
       then (if turn_boundary u \<noteq> Not_started then answer Ms_invalid current
             else answer Ms_boundary_updated current)
       else case op of
         None \<Rightarrow> Inl Assertion_failed
       | Some o_id \<Rightarrow>
       (case find_descriptor u o_id of
          None \<Rightarrow> answer Ms_invalid current
        | Some d \<Rightarrow>
       (if b = Effect_started
        then (if turn_boundary u = Effect_unknown then answer Ms_invalid current
              else if is_started d then answer Ms_boundary_updated current
              else if \<not> is_precommitted d then answer Ms_invalid current
              else if list_ex (\<lambda>e. operation_id e \<noteq> o_id \<and> \<not> op_settled (op_status e)) (descriptors u)
              then answer Ms_invalid current
              else move_boundary t events i u o_id d Started Effect_started)
        else (if turn_boundary u = Effect_unknown
              then (if op_status d = Unknown_result \<and> precommit_boundary d = Effect_unknown
                    then answer Ms_boundary_updated current else answer Ms_invalid current)
              else if \<not> is_started d then answer Ms_invalid current
              else move_boundary t events i u o_id d Unknown_result Effect_unknown))))"

section \<open>The continuation of an approved operation\<close>

text \<open>What the three operations on a blocked turn check: the turn, the operation and its identity.\<close>

definition with_blocked_operation ::
  "timeline option \<Rightarrow> string \<Rightarrow> string \<Rightarrow> string \<Rightarrow> string
    \<Rightarrow> (timeline \<Rightarrow> turn \<Rightarrow> descriptor \<Rightarrow> reduction tl) \<Rightarrow> reduction tl" where
  "with_blocked_operation current i op call digest k =
     (case current of
        None \<Rightarrow> answer Ms_missing None
      | Some t \<Rightarrow>
     (case find_turn t i of
        None \<Rightarrow> answer Ms_invalid current
      | Some u \<Rightarrow>
     (if turn_status u \<noteq> Terminal \<or> outcome u \<noteq> Some Blocked then answer Ms_invalid current
      else case find_descriptor u op of
        None \<Rightarrow> answer Ms_invalid current
      | Some d \<Rightarrow>
          (if call_id d \<noteq> call \<or> arguments_digest d \<noteq> digest then answer Ms_invalid current
           else k t u d))))"

definition reduce_terminal_start :: "string \<Rightarrow> string \<Rightarrow> string \<Rightarrow> string \<Rightarrow> reducer" where
  "reduce_terminal_start i op call args current events =
     with_blocked_operation current i op call args (\<lambda>t u d.
       bindE (check_descriptor (with_boundary d Started Effect_started)) (\<lambda>d'.
         if d = d' then answer Ms_already_started current
         else if \<not> is_precommitted d then answer Ms_invalid current
         else update_turn Ms_boundary_updated t events i (put_operation op d' u) id))"

definition reduce_terminal_result ::
  "string \<Rightarrow> string \<Rightarrow> string \<Rightarrow> string \<Rightarrow> result_status \<Rightarrow> string option \<Rightarrow> string option
    \<Rightarrow> reducer" where
  "reduce_terminal_result i op call args st digest receipt current events =
     with_blocked_operation current i op call args (\<lambda>t u d.
       bindE (check_descriptor (with_result d st digest receipt)) (\<lambda>d'.
         if d = d' then answer Ms_operation_result current
         else if \<not> is_started d then answer Ms_invalid current
         else update_turn Ms_operation_result t events i
                (result_boundary st (put_operation op d' u)) id))"

definition reduce_terminal_abandon ::
  "string \<Rightarrow> string \<Rightarrow> string \<Rightarrow> string \<Rightarrow> string \<Rightarrow> string \<Rightarrow> reducer" where
  "reduce_terminal_abandon i op call args digest receipt current events =
     with_blocked_operation current i op call args (\<lambda>t u d.
       bindE (check_descriptor (abandoned d digest receipt)) (\<lambda>d'.
         if d = d' then answer Ms_operation_abandoned current
         else if \<not> is_precommitted d then answer Ms_invalid current
         else update_turn Ms_operation_abandoned t events i (put_operation op d' u) id))"

section \<open>Recovery of a stale lane\<close>

definition with_stale_turn ::
  "timeline option \<Rightarrow> string \<Rightarrow> utc_time \<Rightarrow> (timeline \<Rightarrow> turn \<Rightarrow> reduction tl) \<Rightarrow> reduction tl" where
  "with_stale_turn current i now k =
     (case current of
        None \<Rightarrow> answer Ms_lease_invalid None
      | Some t \<Rightarrow>
     (if lane_turn t \<noteq> Some i then answer Ms_lease_invalid current
      else case lane_expires t of
        None \<Rightarrow> Inl Assertion_failed
      | Some e \<Rightarrow>
     (if now < e then answer Ms_lease_invalid current
      else case find_turn t i of
        None \<Rightarrow> answer Ms_lease_invalid current
      | Some u \<Rightarrow> if turn_status u \<noteq> Running then answer Ms_lease_invalid current else k t u)))"

definition end_turn :: "terminal_outcome \<Rightarrow> cancellation_outcome option \<Rightarrow> turn \<Rightarrow> turn" where
  "end_turn out c u = u\<lparr>turn_status := Terminal, outcome := Some out, cancellation := c\<rparr>"

definition reduce_recover_unstarted :: "string \<Rightarrow> utc_time \<Rightarrow> reducer" where
  "reduce_recover_unstarted i now current events =
     with_stale_turn current i now (\<lambda>t u.
       if turn_boundary u \<noteq> Not_started \<or> list_ex (\<lambda>d. \<not> is_precommitted d) (descriptors u)
       then answer Ms_invalid current
       else if list_ex (\<lambda>d. operation_id d \<in> set (pending_approval_ids events i)) (descriptors u)
       then update_turn Ms_recovery_pending_approval t events i (end_turn Blocked None u) free_lane
       else update_turn Ms_recovery_cancelled t events i
              (end_turn Cancelled (Some Cancelled_running) u) free_lane)"

definition quarantine_started :: "descriptor \<Rightarrow> descriptor tl" where
  "quarantine_started d =
     (if op_status d = Started then check_descriptor (with_boundary d Unknown_result Effect_unknown)
      else Inr d)"

definition reduce_recover_started :: "string \<Rightarrow> utc_time \<Rightarrow> reducer" where
  "reduce_recover_started i now current events =
     with_stale_turn current i now (\<lambda>t u.
       if \<not> list_ex (\<lambda>d. op_status d = Started) (descriptors u) then answer Ms_invalid current
       else bindE (traverseE quarantine_started (descriptors u)) (\<lambda>ds.
         update_turn Ms_recovery_unknown t events i
           (end_turn Outcome_unknown None
              (u\<lparr>descriptors := ds, turn_boundary := Effect_unknown\<rparr>)) free_lane))"

section \<open>The end of a turn\<close>

definition has_status :: "op_status list \<Rightarrow> turn \<Rightarrow> bool" where
  "has_status sts u \<longleftrightarrow> list_ex (\<lambda>d. op_status d \<in> set sts) (descriptors u)"

definition outcome_refused :: "terminal_outcome \<Rightarrow> turn \<Rightarrow> bool" where
  "outcome_refused out u =
     (case out of
        Completed \<Rightarrow> has_status [Precommitted, Started, Unknown_result] u
      | Blocked \<Rightarrow> has_status [Started, Unknown_result] u
      | Outcome_unknown \<Rightarrow> has_status [Precommitted, Started] u \<or> \<not> has_status [Unknown_result] u
      | Cancelled \<Rightarrow> has_status [Started, Unknown_result] u)"

definition reduce_terminal ::
  "string \<Rightarrow> string \<Rightarrow> string \<Rightarrow> terminal_outcome \<Rightarrow> boundary option \<Rightarrow> cancellation_outcome option
    \<Rightarrow> utc_time \<Rightarrow> reducer" where
  "reduce_terminal i owner token out b c now current events =
     with_lane_turn current i owner token now (\<lambda>t u.
       if b \<noteq> None \<and> b \<noteq> Some (turn_boundary u) then answer Ms_invalid current
       else if outcome_refused out u then answer Ms_invalid current
       else update_turn Ms_terminal t events i (end_turn out c u) free_lane)"

definition reduce_cancel :: "string \<Rightarrow> (string \<times> string) option \<Rightarrow> utc_time \<Rightarrow> reducer" where
  "reduce_cancel i identity now current events =
     (case current of
        None \<Rightarrow> answer Ms_missing None
      | Some t \<Rightarrow>
     (case find_turn t i of
        None \<Rightarrow> answer Ms_missing current
      | Some u \<Rightarrow>
     (case turn_status u of
        Terminal \<Rightarrow> answer Ms_already_terminal current
      | Queued \<Rightarrow> update_turn Ms_terminal t events i (cancel_queued_turn u) id
      | Running \<Rightarrow>
          (case identity of
             None \<Rightarrow> answer Ms_lease_invalid current
           | Some (owner, token) \<Rightarrow>
          (case lane_lease_status current i owner token now of
             Some st \<Rightarrow> answer st current
           | None \<Rightarrow>
               (if has_status [Started, Unknown_result] u then answer Ms_invalid current
                else update_turn Ms_terminal t events i
                       (end_turn Cancelled (Some Cancelled_running) u) free_lane))))))"

end
