(* ===== verification/Timeline_Shape.thy ===== *)
theory Timeline_Shape
  imports Timeline_Repository
begin

text \<open>
  What the constructors of the turn timeline guarantee, stated on the values: well-formed descriptors,
  turns and timelines. A constructor returns a well-formed value, and it returns a well-formed value
  unchanged, so the transitions can be computed without the checks.
\<close>

named_theorems tl_wf \<open>the well-formedness predicates of the timeline\<close>

section \<open>Texts\<close>

definition text_ok :: "string \<Rightarrow> bool" where
  "text_ok s \<longleftrightarrow> py_strip s = s \<and> s \<noteq> []"

fun opt_ok :: "('a \<Rightarrow> bool) \<Rightarrow> 'a option \<Rightarrow> bool" where
  "opt_ok P None = True"
| "opt_ok P (Some x) = P x"

lemma require_text_Inr: "require_text v f = Inr s \<longleftrightarrow> (\<exists>r. v = JStr r \<and> s = py_strip r \<and> s \<noteq> [])"
  by (cases v) (auto simp: require_text_def require_stripped_def)

lemma require_text_ok: "require_text v f = Inr s \<Longrightarrow> text_ok s"
  by (auto simp: require_text_Inr text_ok_def)

lemma require_text_ident [simp]: "text_ok s \<Longrightarrow> require_text (JStr s) f = Inr s"
  by (simp add: require_text_def require_stripped_def text_ok_def)

lemma require_bare_ok: "require_bare_digest v f = Inr s \<Longrightarrow> text_ok s \<and> bare_digest s"
  by (auto simp: require_bare_digest_def result_simps dest: require_text_ok)

lemma require_bare_ident [simp]:
  "text_ok s \<Longrightarrow> bare_digest s \<Longrightarrow> require_bare_digest (JStr s) f = Inr s"
  by (simp add: require_bare_digest_def)

definition digest_ok :: "string \<Rightarrow> bool" where
  "digest_ok s \<longleftrightarrow> text_ok s \<and> namespaced_digest s"

lemma require_namespaced_ok: "require_namespaced_digest v f = Inr s \<Longrightarrow> digest_ok s"
  by (auto simp: require_namespaced_digest_def result_simps digest_ok_def dest: require_text_ok)

lemma require_namespaced_ident [simp]:
  "digest_ok s \<Longrightarrow> require_namespaced_digest (JStr s) f = Inr s"
  by (simp add: require_namespaced_digest_def digest_ok_def)

lemma tl_optional_Inr:
  "tl_optional g v f = Inr r \<longleftrightarrow>
     (v = JNull \<and> r = None) \<or> (v \<noteq> JNull \<and> (\<exists>x. g v f = Inr x \<and> r = Some x))"
  by (auto simp: tl_optional_def result_simps)

lemma opt_str_Null [simp]: "opt_str v = JNull \<longleftrightarrow> v = None"
  by (cases v) auto

lemma checked_option_ident [simp]:
  "opt_ok text_ok v \<Longrightarrow> checked_option require_text v f = Inr v"
  "opt_ok digest_ok v \<Longrightarrow> checked_option require_namespaced_digest v f = Inr v"
  by (cases v; simp add: checked_option_def tl_optional_def)+

lemma checked_option_ok:
  "checked_option require_text v f = Inr r \<Longrightarrow> opt_ok text_ok r"
  "checked_option require_namespaced_digest v f = Inr r \<Longrightarrow> opt_ok digest_ok r"
  by (auto simp: checked_option_def tl_optional_Inr dest: require_text_ok require_namespaced_ok)

lemma checked_option_None:
  "checked_option g v f = Inr r \<Longrightarrow> (r = None) = (v = None)"
  by (cases v) (auto simp: checked_option_def tl_optional_Inr)

section \<open>Descriptors\<close>

definition evidence_allowed :: "descriptor \<Rightarrow> bool" where
  "evidence_allowed d \<longleftrightarrow>
     op_status d \<notin> {Precommitted, Started, Unknown_result}
     \<or> (result_digest d = None \<and> receipt_reference d = None)"

definition desc_texts :: "descriptor \<Rightarrow> bool" where
  "desc_texts d \<longleftrightarrow> text_ok (operation_id d) \<and> text_ok (tool_name d) \<and> text_ok (call_id d)
     \<and> text_ok (arguments_digest d) \<and> bare_digest (arguments_digest d)
     \<and> opt_ok digest_ok (result_digest d) \<and> opt_ok text_ok (receipt_reference d)"

definition wf_desc :: "descriptor \<Rightarrow> bool" where
  "wf_desc d \<longleftrightarrow>
     desc_texts d \<and> precommit_boundary d = boundary_of (op_status d) \<and> evidence_allowed d"

lemma allowed_pair_iff: "allowed_pair st b \<longleftrightarrow> b = boundary_of st"
  by (cases st; cases b) (auto simp: allowed_pair_def)

lemma check_descriptor_wf: "check_descriptor d = Inr d' \<Longrightarrow> wf_desc d'"
  unfolding check_descriptor_def
  by (auto simp: result_simps wf_desc_def desc_texts_def evidence_allowed_def allowed_pair_iff
      dest: require_text_ok require_bare_ok checked_option_ok)

lemma check_descriptor_texts:
  assumes "desc_texts d"
  shows "check_descriptor d =
    (if precommit_boundary d \<noteq> boundary_of (op_status d)
     then Inl (Payload_error ''status and precommit_boundary'')
     else if \<not> evidence_allowed d then Inl (Payload_error ''result evidence'') else Inr d)"
  using assms
  by (auto simp: check_descriptor_def desc_texts_def evidence_allowed_def allowed_pair_iff)

lemma check_descriptor_ident [simp]: "wf_desc d \<Longrightarrow> check_descriptor d = Inr d"
  by (simp add: wf_desc_def check_descriptor_texts)

lemma wf_precommitted: "wf_desc d \<Longrightarrow> is_precommitted d \<longleftrightarrow> op_status d = Precommitted"
  by (auto simp: wf_desc_def is_precommitted_def)

lemma wf_started: "wf_desc d \<Longrightarrow> is_started d \<longleftrightarrow> op_status d = Started"
  by (auto simp: wf_desc_def is_started_def)

section \<open>Turns\<close>

definition turn_texts :: "turn \<Rightarrow> bool" where
  "turn_texts u \<longleftrightarrow> text_ok (turn_id u) \<and> list_all text_ok (legacy_operation_ids u)
     \<and> opt_ok text_ok (admission_owner u) \<and> opt_ok text_ok (admission_token u)"

definition turn_identity :: "turn \<Rightarrow> bool" where
  "turn_identity u \<longleftrightarrow> 0 < turn_sequence u \<and> distinct (turn_operation_ids u)
     \<and> distinct (map call_id (descriptors u))"

definition admission_whole :: "turn \<Rightarrow> bool" where
  "admission_whole u \<longleftrightarrow> (admission_owner u = None) = (admission_token u = None)
     \<and> (admission_token u = None) = (admission_expires u = None)"

definition wf_turn :: "turn \<Rightarrow> bool" where
  "wf_turn u \<longleftrightarrow> turn_texts u \<and> turn_identity u \<and> admission_whole u \<and> status_shape u
     \<and> list_all wf_desc (descriptors u) \<and> opt_ok valid_instant (admission_expires u)"

lemma complete_or_absent_3:
  "complete_or_absent [absent a, absent b, absent c] \<longleftrightarrow>
     (a = None) = (b = None) \<and> (b = None) = (c = None)"
  by (cases a; cases b; cases c) (auto simp: complete_or_absent_def absent_def)

lemma normalize_identifiers_Inr:
  "normalize_identifiers vs f = Inr xs \<longleftrightarrow>
     traverseE (\<lambda>v. require_text v f) vs = Inr xs \<and> distinct xs"
  by (auto simp: normalize_identifiers_def result_simps)

lemma normalize_identifiers_ok:
  "normalize_identifiers vs f = Inr xs \<Longrightarrow> list_all text_ok xs \<and> distinct xs"
  by (auto simp: normalize_identifiers_Inr list_all_iff dest: traverseE_set require_text_ok)

lemma normalize_identifiers_texts:
  "list_all text_ok xs \<Longrightarrow> normalize_identifiers (map JStr xs) f =
     (if distinct xs then Inr xs else Inl (Payload_error f))"
  by (simp add: normalize_identifiers_def traverseE_map traverseE_ident list_all_iff requireE_def)

lemma turn_operation_ids_distinct:
  "distinct (turn_operation_ids u) \<longleftrightarrow> distinct (map operation_id (descriptors u))
     \<and> distinct (legacy_operation_ids u)
     \<and> set (map operation_id (descriptors u)) \<inter> set (legacy_operation_ids u) = {}"
  by (simp add: turn_operation_ids_def)

lemma check_identity_texts:
  assumes "text_ok (turn_id u)" and "list_all text_ok (legacy_operation_ids u)"
  shows "check_turn_identity u = Inr u' \<longleftrightarrow> u' = u \<and> turn_identity u"
  using assms
  by (auto simp: check_turn_identity_def result_simps turn_identity_def normalize_identifiers_texts
      turn_operation_ids_distinct split: if_splits)

lemma check_identity_ok:
  assumes "check_turn_identity u = Inr u'"
  shows "text_ok (turn_id u') \<and> list_all text_ok (legacy_operation_ids u') \<and> turn_identity u'
    \<and> (\<exists>i ls. u' = u\<lparr>turn_id := i, legacy_operation_ids := ls\<rparr>)"
proof -
  obtain i ls where i: "text_ok i" and ls: "list_all text_ok ls \<and> distinct ls"
    and r: "0 < turn_sequence u" "distinct (map operation_id (descriptors u))"
      "distinct (map call_id (descriptors u))" "set (map operation_id (descriptors u)) \<inter> set ls = {}"
    and u': "u' = u\<lparr>turn_id := i, legacy_operation_ids := ls\<rparr>"
    using assms unfolding check_turn_identity_def bindE_eq_Inr requireE_Inr
    by (blast dest: require_text_ok normalize_identifiers_ok)
  then show ?thesis
    unfolding u' turn_identity_def turn_operation_ids_distinct by auto
qed

lemma check_state_texts:
  assumes "opt_ok text_ok (admission_owner u)" and "opt_ok text_ok (admission_token u)"
  shows "check_turn_state u = Inr u' \<longleftrightarrow> u' = u \<and> admission_whole u \<and> status_shape u"
  using assms
  by (auto simp: check_turn_state_def result_simps complete_or_absent_3 admission_whole_def)

lemma status_shape_admission:
  assumes "(ow = None) = (admission_owner u = None)" and "(tk = None) = (admission_token u = None)"
  shows "status_shape (u\<lparr>admission_owner := ow, admission_token := tk\<rparr>) = status_shape u"
  using assms
  by (auto simp: status_shape_def queued_shape_def running_shape_def terminal_shape_def
      no_admission_def split: turn_status.split)

lemma check_state_ok:
  assumes "check_turn_state u = Inr u'"
  shows "opt_ok text_ok (admission_owner u') \<and> opt_ok text_ok (admission_token u')
    \<and> admission_whole u' \<and> status_shape u'
    \<and> (\<exists>ow tk. u' = u\<lparr>admission_owner := ow, admission_token := tk\<rparr>)"
proof -
  obtain ow tk where
    c: "complete_or_absent [absent (admission_owner u), absent (admission_token u),
          absent (admission_expires u)]"
    and ow: "checked_option require_text (admission_owner u) ''admission_owner'' = Inr ow"
    and tk: "checked_option require_text (admission_token u) ''admission_token'' = Inr tk"
    and s: "status_shape u" and u': "u' = u\<lparr>admission_owner := ow, admission_token := tk\<rparr>"
    using assms by (auto simp: check_turn_state_def result_simps)
  note n = checked_option_None [OF ow] checked_option_None [OF tk]
  show ?thesis
    using c s checked_option_ok(1) [OF ow] checked_option_ok(1) [OF tk] status_shape_admission [OF n]
    by (auto simp: u' complete_or_absent_3 admission_whole_def n)
qed

lemma check_turn_texts:
  assumes "turn_texts u"
  shows "check_turn u = Inr u' \<longleftrightarrow>
    u' = u \<and> turn_identity u \<and> admission_whole u \<and> status_shape u"
  using assms
  by (auto simp: check_turn_def bindE_eq_Inr check_identity_texts check_state_texts turn_texts_def)

lemma check_turn_ident: "wf_turn u \<Longrightarrow> check_turn u = Inr u"
  by (simp add: wf_turn_def check_turn_texts)

section \<open>Timelines\<close>

text \<open>The lane names the running turn, and the running turn was admitted before every queued one.\<close>

definition wf_lane :: "timeline \<Rightarrow> bool" where
  "wf_lane t \<longleftrightarrow>
     (\<forall>u \<in> set (turns t). turn_status u = Running \<longleftrightarrow> lane_turn t = Some (turn_id u))
     \<and> (\<forall>i. lane_turn t = Some i \<longrightarrow> i \<in> turn_id ` set (turns t))
     \<and> (\<forall>u \<in> set (turns t). \<forall>v \<in> set (turns t).
          turn_status u = Running \<longrightarrow> turn_status v = Queued \<longrightarrow> turn_sequence u \<le> turn_sequence v)"

definition lane_whole :: "timeline \<Rightarrow> bool" where
  "lane_whole t \<longleftrightarrow> (lane_turn t = None) = (lane_owner t = None)
     \<and> (lane_owner t = None) = (lane_token t = None) \<and> (lane_token t = None) = (lane_expires t = None)"

definition lane_texts :: "timeline \<Rightarrow> bool" where
  "lane_texts t \<longleftrightarrow> opt_ok text_ok (lane_turn t) \<and> opt_ok text_ok (lane_owner t)
     \<and> opt_ok text_ok (lane_token t)"

definition wf_history :: "timeline \<Rightarrow> bool" where
  "wf_history t \<longleftrightarrow> 0 \<le> base_revision t \<and> base_revision t < current_revision t
     \<and> map turn_sequence (turns t) = map int [1..<Suc (length (turns t))]
     \<and> distinct (map turn_id (turns t)) \<and> distinct (all_operation_ids (turns t))
     \<and> distinct (all_call_ids (turns t))"

definition wf_timeline :: "timeline \<Rightarrow> bool" where
  "wf_timeline t \<longleftrightarrow> text_ok (tl_session t) \<and> wf_history t \<and> lane_whole t \<and> lane_texts t \<and> wf_lane t
     \<and> list_all wf_turn (turns t) \<and> opt_ok valid_instant (lane_expires t)"

lemma complete_or_absent_4:
  "complete_or_absent [absent a, absent b, absent c, absent d] \<longleftrightarrow>
     (a = None) = (b = None) \<and> (b = None) = (c = None) \<and> (c = None) = (d = None)"
  by (cases a; cases b; cases c; cases d) (auto simp: complete_or_absent_def absent_def)

lemma lane_whole_iff: "complete_or_absent (lane_absent t) \<longleftrightarrow> lane_whole t"
  by (simp add: lane_absent_def complete_or_absent_4 lane_whole_def)

lemma distinct_singleton: "distinct zs \<Longrightarrow> set zs = {i} \<Longrightarrow> zs = [i]"
proof (cases zs)
  case (Cons a ys)
  moreover assume "distinct zs" and "set zs = {i}"
  ultimately have "a = i" and "set ys \<subseteq> {i}" and "a \<notin> set ys" by auto
  then have "set ys = {}" by (auto simp: subset_singleton_iff)
  with Cons \<open>a = i\<close> show ?thesis by simp
qed simp

lemma singleton_filter:
  assumes "distinct (map f xs)"
  shows "map f (filter P xs) = [i] \<longleftrightarrow> (\<exists>x \<in> set xs. P x \<and> f x = i) \<and> (\<forall>x \<in> set xs. P x \<longrightarrow> f x = i)"
proof
  assume "map f (filter P xs) = [i]"
  then have s: "set (map f (filter P xs)) = {i}" by simp
  then have "i \<in> f ` {x \<in> set xs. P x}" by simp
  then show "(\<exists>x \<in> set xs. P x \<and> f x = i) \<and> (\<forall>x \<in> set xs. P x \<longrightarrow> f x = i)"
    using s by fastforce
next
  assume r: "(\<exists>x \<in> set xs. P x \<and> f x = i) \<and> (\<forall>x \<in> set xs. P x \<longrightarrow> f x = i)"
  show "map f (filter P xs) = [i]"
  proof (rule distinct_singleton)
    show "distinct (map f (filter P xs))"
      using assms by (rule distinct_map_filter)
    have "f ` {x \<in> set xs. P x} \<subseteq> {i}" and "i \<in> f ` {x \<in> set xs. P x}"
      using r by blast+
    then show "set (map f (filter P xs)) = {i}"
      by (simp add: set_eq_subset)
  qed
qed

lemma lane_shape_iff:
  assumes "distinct (map turn_id (turns t))"
  shows "lane_shape t \<longleftrightarrow> wf_lane t"
proof -
  have inj: "u = v" if "u \<in> set (turns t)" "v \<in> set (turns t)" "turn_id u = turn_id v" for u v
    using assms that by (auto simp: distinct_map inj_on_def)
  have order: "list_all (\<lambda>r. \<not> list_ex (\<lambda>u. turn_status u = Queued \<and> turn_sequence u < turn_sequence r)
      (turns t)) (running_turns (turns t)) \<longleftrightarrow>
    (\<forall>u \<in> set (turns t). \<forall>v \<in> set (turns t). turn_status u = Running \<longrightarrow> turn_status v = Queued
      \<longrightarrow> turn_sequence u \<le> turn_sequence v)"
    by (auto simp: list_all_iff list_ex_iff running_turns_def not_less)
  show ?thesis
  proof (cases "lane_turn t")
    case None
    then show ?thesis
      unfolding lane_shape_def order wf_lane_def
      by (auto simp: running_turns_def filter_empty_conv)
  next
    case (Some i)
    have one: "map turn_id (running_turns (turns t)) = [i] \<Longrightarrow> length (running_turns (turns t)) \<le> 1"
      by (metis length_map length_Cons list.size(3) order_refl One_nat_def)
    have lane: "map turn_id (running_turns (turns t)) = [i] \<longleftrightarrow>
        (\<forall>u \<in> set (turns t). turn_status u = Running \<longleftrightarrow> i = turn_id u) \<and> i \<in> turn_id ` set (turns t)"
      unfolding running_turns_def singleton_filter [OF assms]
      using inj by (metis (no_types, lifting) image_iff)
    show ?thesis
      using one lane Some unfolding lane_shape_def order wf_lane_def by (simp, blast)
  qed
qed

lemma check_timeline_turns_Inr:
  "check_timeline_turns t = Inr t' \<longleftrightarrow>
     py_strip (tl_session t) \<noteq> [] \<and> wf_history t \<and> t' = t\<lparr>tl_session := py_strip (tl_session t)\<rparr>"
  by (auto simp: check_timeline_turns_def bindE_eq_Inr requireE_Inr require_text_Inr wf_history_def)

lemma wf_lane_cong:
  "turns t = turns t' \<Longrightarrow> lane_turn t = lane_turn t' \<Longrightarrow> wf_lane t = wf_lane t'"
  by (simp add: wf_lane_def)

lemma lane_shape_cong:
  "turns t = turns t' \<Longrightarrow> lane_turn t = lane_turn t' \<Longrightarrow> lane_shape t = lane_shape t'"
  by (simp only: lane_shape_def)

lemma check_timeline_lane_ok:
  assumes "check_timeline_lane t = Inr t'" and "wf_history t"
  shows "lane_whole t' \<and> lane_texts t' \<and> wf_lane t'
    \<and> (\<exists>i ow tk. t' = t\<lparr>lane_turn := i, lane_owner := ow, lane_token := tk\<rparr>)"
proof -
  obtain i ow tk where c: "lane_whole t"
    and i: "checked_option require_text (lane_turn t) ''lane_turn_id'' = Inr i"
    and ow: "checked_option require_text (lane_owner t) ''lane_owner'' = Inr ow"
    and tk: "checked_option require_text (lane_token t) ''lane_token'' = Inr tk"
    and shape: "lane_shape (t\<lparr>lane_turn := i\<rparr>)"
    and t': "t' = t\<lparr>lane_turn := i, lane_owner := ow, lane_token := tk\<rparr>"
    using assms(1) unfolding check_timeline_lane_def bindE_eq_Inr requireE_Inr lane_whole_iff by blast
  have "lane_shape t'"
    using shape by (rule lane_shape_cong [THEN iffD1, rotated 2]) (simp_all add: t')
  moreover have "distinct (map turn_id (turns t'))"
    using assms(2) by (simp add: t' wf_history_def)
  ultimately have "wf_lane t'"
    using lane_shape_iff by blast
  moreover have "lane_whole t'"
    using c checked_option_None [OF i] checked_option_None [OF ow] checked_option_None [OF tk]
    by (simp add: t' lane_whole_def)
  moreover have "lane_texts t'"
    using checked_option_ok(1) [OF i] checked_option_ok(1) [OF ow] checked_option_ok(1) [OF tk]
    by (simp add: t' lane_texts_def)
  ultimately show ?thesis
    using t' by blast
qed

lemma check_timeline_lane_texts:
  assumes "lane_texts t" and "wf_history t"
  shows "check_timeline_lane t = Inr t' \<longleftrightarrow> t' = t \<and> lane_whole t \<and> wf_lane t"
proof -
  have "lane_shape (t\<lparr>lane_turn := lane_turn t\<rparr>) \<longleftrightarrow> wf_lane t"
    using lane_shape_iff [of t] assms(2) by (simp add: wf_history_def)
  then show ?thesis
    using assms by (auto simp: check_timeline_lane_def bindE_eq_Inr requireE_Inr lane_whole_iff lane_texts_def)
qed

lemma wf_history_session [simp]: "wf_history (t\<lparr>tl_session := s\<rparr>) = wf_history t"
  by (simp add: wf_history_def)

text \<open>What the constructor returns is well formed, up to the values it is given as they are.\<close>

lemma check_timeline_ok:
  assumes "check_timeline t = Inr t'" and "list_all wf_turn (turns t)"
    and "opt_ok valid_instant (lane_expires t)"
  shows "wf_timeline t'"
proof -
  obtain s where s: "check_timeline_turns t = Inr s" and l: "check_timeline_lane s = Inr t'"
    using assms(1) by (auto simp: check_timeline_def bindE_eq_Inr)
  have h: "wf_history s" and nm: "text_ok (tl_session s)"
    and same: "turns s = turns t" "lane_expires s = lane_expires t"
    using s by (auto simp: check_timeline_turns_Inr text_ok_def)
  from check_timeline_lane_ok [OF l h] obtain i ow tk where
    lane: "lane_whole t'" "lane_texts t'" "wf_lane t'"
    and t': "t' = s\<lparr>lane_turn := i, lane_owner := ow, lane_token := tk\<rparr>"
    by blast
  have "wf_history t'"
    using h by (simp add: t' wf_history_def)
  then show ?thesis
    using lane nm same assms(2,3) by (simp add: wf_timeline_def t')
qed

lemma strip_session: "text_ok (tl_session t) \<Longrightarrow> t\<lparr>tl_session := py_strip (tl_session t)\<rparr> = t"
  by (simp add: text_ok_def)

lemma check_timeline_ident: "wf_timeline t \<Longrightarrow> check_timeline t = Inr t"
  unfolding check_timeline_def bindE_eq_Inr
  using check_timeline_turns_Inr [of t t] check_timeline_lane_texts [of t t] strip_session [of t]
  by (auto simp: wf_timeline_def text_ok_def)

end
