(* ===== verification/Timeline_Steps.thy ===== *)
theory Timeline_Steps
  imports Timeline_Shape
begin

text \<open>
  The abstract machine of the turn lane: a labelled step relation that says what a transition may
  change, without leases' holders, argument checks and idempotent answers. Every step keeps the
  well-formedness of the timeline. The theory \<open>Timeline_Refinement\<close> shows that the reductions of the
  code answer without a change or make a step of this machine.
\<close>

section \<open>Splitting a timeline at a turn, a turn at an operation\<close>

lemma find_split:
  assumes "find P xs = Some x"
  shows "\<exists>a b. xs = a @ x # b \<and> P x \<and> (\<forall>y \<in> set a. \<not> P y)"
  using assms
proof (induction xs)
  case (Cons y ys)
  show ?case
  proof (cases "P y")
    case True
    then show ?thesis using Cons.prems by (intro exI [of _ "[]"] exI [of _ ys]) auto
  next
    case False
    then obtain a b where "ys = a @ x # b" "P x" "\<forall>y \<in> set a. \<not> P y"
      using Cons by auto
    then show ?thesis using False by (intro exI [of _ "y # a"] exI [of _ b]) auto
  qed
qed simp

lemma distinct_around:
  "distinct (map f (a @ x # b)) \<Longrightarrow> y \<in> set a \<or> y \<in> set b \<Longrightarrow> f y \<noteq> f x"
  by (auto simp: rev_image_eqI)

lemma put_turn_split:
  assumes "distinct (map turn_id (a @ u # b))"
  shows "put_turn (turn_id u) v (a @ u # b) = a @ v # b"
proof -
  have "turn_id w \<noteq> turn_id u" if "w \<in> set a \<or> w \<in> set b" for w
    using distinct_around [OF assms that] .
  then have "map (\<lambda>w. if turn_id w = turn_id u then v else w) a = a"
    and "map (\<lambda>w. if turn_id w = turn_id u then v else w) b = b"
    by (auto intro: map_idI)
  then show ?thesis by (simp add: put_turn_def)
qed

lemma turn_split:
  assumes "wf_timeline t" and "find_turn t i = Some u"
  shows "\<exists>a b. turns t = a @ u # b \<and> turn_id u = i \<and> (\<forall>v. put_turn i v (turns t) = a @ v # b)"
proof -
  from find_split [OF assms(2) [unfolded find_turn_def]] obtain a b where
    s: "turns t = a @ u # b" "turn_id u = i" by blast
  have "distinct (map turn_id (a @ u # b))"
    using assms(1) by (simp add: wf_timeline_def wf_history_def s(1))
  from put_turn_split [OF this] show ?thesis
    using s by (intro exI [of _ a] exI [of _ b]) simp
qed

lemma descriptor_split:
  assumes "distinct (map operation_id (descriptors u))" and "find_descriptor u i = Some d"
  shows "\<exists>a b. descriptors u = a @ d # b \<and> operation_id d = i
    \<and> (\<forall>e. put_descriptor i e (descriptors u) = a @ e # b)"
proof -
  from find_split [OF assms(2) [unfolded find_descriptor_def]] obtain a b where
    s: "descriptors u = a @ d # b" "operation_id d = i" by blast
  have "operation_id e \<noteq> i" if "e \<in> set a \<or> e \<in> set b" for e
    using distinct_around [of operation_id a d b, OF _ that] assms(1) s by simp
  then have "map (\<lambda>e. if operation_id e = i then x else e) a = a"
    and "map (\<lambda>e. if operation_id e = i then x else e) b = b" for x
    by (auto intro: map_idI)
  then show ?thesis
    using s by (intro exI [of _ a] exI [of _ b]) (simp add: put_descriptor_def)
qed

lemma sequences_sorted: "wf_timeline t \<Longrightarrow> sorted_wrt (<) (map turn_sequence (turns t))"
  by (simp only: wf_timeline_def wf_history_def) (simp add: sorted_wrt_map sorted_wrt_upt
      del: upt_Suc)

lemma sequence_order:
  assumes "wf_timeline t" and "turns t = a @ u # b"
  shows "(\<forall>v \<in> set a. turn_sequence v < turn_sequence u) \<and> (\<forall>v \<in> set b. turn_sequence u < turn_sequence v)"
  using sequences_sorted [OF assms(1)] by (simp add: assms(2) sorted_wrt_append)

section \<open>The machine\<close>

definition stamp :: "int \<Rightarrow> timeline \<Rightarrow> timeline" where
  "stamp n t = t\<lparr>current_revision := n\<rparr>"

definition set_turn :: "timeline \<Rightarrow> string \<Rightarrow> turn \<Rightarrow> timeline" where
  "set_turn t i u = t\<lparr>turns := put_turn i u (turns t)\<rparr>"

definition admission_ok :: "admission \<Rightarrow> bool" where
  "admission_ok adm \<longleftrightarrow>
     opt_ok (\<lambda>(owner, token, e). text_ok owner \<and> text_ok token \<and> valid_instant e) adm"

fun op_edge :: "op_status \<Rightarrow> op_status \<Rightarrow> bool" where
  "op_edge Precommitted st = (st = Started \<or> st = Abandoned)"
| "op_edge Started st = (st = Succeeded \<or> st = Failed \<or> st = Unknown_result)"
| "op_edge _ _ = False"

definition same_identity :: "descriptor \<Rightarrow> descriptor \<Rightarrow> bool" where
  "same_identity d e \<longleftrightarrow> operation_id e = operation_id d \<and> tool_name e = tool_name d
     \<and> arguments_digest e = arguments_digest d \<and> call_id e = call_id d"

text \<open>An operation may move in the running turn, or in a turn that ended blocked.\<close>

definition may_move :: "timeline \<Rightarrow> turn \<Rightarrow> bool" where
  "may_move t u \<longleftrightarrow> lane_turn t = Some (turn_id u)
     \<or> (turn_status u = Terminal \<and> outcome u = Some Blocked)"

definition moved_boundary :: "op_status \<Rightarrow> turn \<Rightarrow> boundary \<Rightarrow> bool" where
  "moved_boundary st u b \<longleftrightarrow>
     (if st = Unknown_result then b = Effect_unknown
      else b = turn_boundary u
        \<or> (st = Started \<and> turn_status u = Running \<and> turn_boundary u \<noteq> Effect_unknown
           \<and> b = Effect_started))"

datatype move =
    Admit string
  | Claim string
  | Keep
  | Precommit string string
  | Move string string op_status
  | End string terminal_outcome
  | Quarantine string

definition quarantine_all :: "turn \<Rightarrow> turn" where
  "quarantine_all u =
     u\<lparr>descriptors := map (\<lambda>d. if op_status d = Started
          then with_boundary d Unknown_result Effect_unknown else d) (descriptors u),
       turn_boundary := Effect_unknown\<rparr>"

inductive lane_step :: "timeline \<Rightarrow> move \<Rightarrow> timeline \<Rightarrow> bool" where
  step_admit: "\<lbrakk>find_turn t i = None; text_ok i; admission_ok adm; current_revision t < n\<rbrakk> \<Longrightarrow>
     lane_step t (Admit i)
       (stamp n (t\<lparr>turns := turns t @ [new_turn (int (length (turns t)) + 1) i adm]\<rparr>))"
| step_claim: "\<lbrakk>lane_turn t = None; queued_head t = Some u; text_ok owner; text_ok token;
      valid_instant e; current_revision t < n\<rbrakk> \<Longrightarrow>
     lane_step t (Claim (turn_id u))
       (stamp n (take_lane (turn_id u) owner token e (set_turn t (turn_id u) (claim_turn u))))"
| step_renew: "\<lbrakk>lane_turn t \<noteq> None; valid_instant e; current_revision t < n\<rbrakk> \<Longrightarrow>
     lane_step t Keep (stamp n (t\<lparr>lane_expires := Some e\<rparr>))"
| step_wait: "\<lbrakk>find_turn t i = Some u; turn_status u = Queued; admission_owner u \<noteq> None;
      valid_instant e; current_revision t < n\<rbrakk> \<Longrightarrow>
     lane_step t Keep (stamp n (set_turn t i (u\<lparr>admission_expires := Some e\<rparr>)))"
| step_touch: "current_revision t < n \<Longrightarrow> lane_step t Keep (stamp n t)"
| step_cancel: "\<lbrakk>find_turn t i = Some u; turn_status u = Queued; current_revision t < n\<rbrakk> \<Longrightarrow>
     lane_step t (End i Cancelled) (stamp n (set_turn t i ((cancel_queued_turn u)\<lparr>recovery := r\<rparr>)))"
| step_precommit: "\<lbrakk>find_turn t i = Some u; lane_turn t = Some i; \<not> quarantined t;
      \<not> pending_continuation t u; list_all (\<lambda>e. op_settled (op_status e)) (descriptors u);
      wf_desc d; op_status d = Precommitted; operation_id d \<notin> set (all_operation_ids (turns t));
      call_id d \<notin> set (all_call_ids (turns t)); current_revision t < n\<rbrakk> \<Longrightarrow>
     lane_step t (Precommit i (operation_id d))
       (stamp n (set_turn t i (u\<lparr>descriptors := descriptors u @ [d]\<rparr>)))"
| step_move: "\<lbrakk>find_turn t i = Some u; may_move t u; find_descriptor u op = Some d;
      op_edge (op_status d) (op_status d'); wf_desc d'; same_identity d d';
      moved_boundary (op_status d') u b; current_revision t < n\<rbrakk> \<Longrightarrow>
     lane_step t (Move i op (op_status d'))
       (stamp n (set_turn t i ((put_operation op d' u)\<lparr>turn_boundary := b\<rparr>)))"
| step_end: "\<lbrakk>find_turn t i = Some u; lane_turn t = Some i; \<not> outcome_refused out u;
      (out = Cancelled) = (c \<noteq> None); c \<noteq> Some Cancelled_queued; current_revision t < n\<rbrakk> \<Longrightarrow>
     lane_step t (End i out) (stamp n (free_lane (set_turn t i (end_turn out c u))))"
| step_quarantine: "\<lbrakk>find_turn t i = Some u; lane_turn t = Some i;
      list_ex (\<lambda>d. op_status d = Started) (descriptors u); current_revision t < n\<rbrakk> \<Longrightarrow>
     lane_step t (Quarantine i)
       (stamp n (free_lane (set_turn t i (end_turn Outcome_unknown None (quarantine_all u)))))"

inductive_cases lane_stepE: "lane_step t m t'"

inductive_cases claim_stepE: "lane_step t (Claim i) t'"

section \<open>Well-formedness is kept\<close>

lemma stamp_simps [simp]:
  "turns (stamp n t) = turns t" "lane_turn (stamp n t) = lane_turn t"
  "lane_owner (stamp n t) = lane_owner t" "lane_token (stamp n t) = lane_token t"
  "lane_expires (stamp n t) = lane_expires t" "tl_session (stamp n t) = tl_session t"
  "base_revision (stamp n t) = base_revision t" "current_revision (stamp n t) = n"
  by (simp_all add: stamp_def)

lemma set_turn_simps [simp]:
  "turns (set_turn t i u) = put_turn i u (turns t)" "lane_turn (set_turn t i u) = lane_turn t"
  "lane_owner (set_turn t i u) = lane_owner t" "lane_token (set_turn t i u) = lane_token t"
  "lane_expires (set_turn t i u) = lane_expires t" "tl_session (set_turn t i u) = tl_session t"
  "base_revision (set_turn t i u) = base_revision t"
  "current_revision (set_turn t i u) = current_revision t"
  by (simp_all add: set_turn_def)

lemma free_lane_simps [simp]:
  "turns (free_lane t) = turns t" "lane_turn (free_lane t) = None"
  "lane_owner (free_lane t) = None" "lane_token (free_lane t) = None"
  "lane_expires (free_lane t) = None" "tl_session (free_lane t) = tl_session t"
  "base_revision (free_lane t) = base_revision t"
  "current_revision (free_lane t) = current_revision t"
  by (simp_all add: free_lane_def)

lemma take_lane_simps [simp]:
  "turns (take_lane i ow tk e t) = turns t" "lane_turn (take_lane i ow tk e t) = Some i"
  "lane_owner (take_lane i ow tk e t) = Some ow" "lane_token (take_lane i ow tk e t) = Some tk"
  "lane_expires (take_lane i ow tk e t) = Some e" "tl_session (take_lane i ow tk e t) = tl_session t"
  "base_revision (take_lane i ow tk e t) = base_revision t"
  "current_revision (take_lane i ow tk e t) = current_revision t"
  by (simp_all add: take_lane_def)

text \<open>A turn is replaced by one with the same place, name and operation identities.\<close>

definition same_place :: "turn \<Rightarrow> turn \<Rightarrow> bool" where
  "same_place u v \<longleftrightarrow> turn_id v = turn_id u \<and> turn_sequence v = turn_sequence u
     \<and> turn_operation_ids v = turn_operation_ids u
     \<and> map call_id (descriptors v) = map call_id (descriptors u)"

lemma history_replaced:
  assumes "wf_timeline t" and "turns t = a @ u # b" and "same_place u v"
    and "current_revision t < n" and "turns t' = a @ v # b" and "base_revision t' = base_revision t"
    and "current_revision t' = n"
  shows "wf_history t'"
proof -
  have same: "turn_operation_ids v = turn_operation_ids u"
    "map call_id (descriptors v) = map call_id (descriptors u)"
    using assms(3) by (simp_all add: same_place_def)
  have eq: "map turn_sequence (turns t') = map turn_sequence (turns t)"
    "map turn_id (turns t') = map turn_id (turns t)"
    "all_operation_ids (turns t') = all_operation_ids (turns t)"
    "all_call_ids (turns t') = all_call_ids (turns t)" "length (turns t') = length (turns t)"
    using assms(3) unfolding all_operation_ids_def all_call_ids_def assms(2,5)
    by (simp_all add: same_place_def)
  show ?thesis
    using assms(1,4,6,7) unfolding wf_history_def wf_timeline_def eq by simp
qed

text \<open>The lane after a turn has been replaced, by the status the turn had and has.\<close>

lemma lane_same_status:
  assumes "wf_timeline t" and "turns t = a @ u # b" and "turn_id v = turn_id u"
    and "turn_sequence v = turn_sequence u" and "turn_status v = turn_status u"
    and "turns t' = a @ v # b" and "lane_turn t' = lane_turn t"
  shows "wf_lane t'"
  using assms by (simp add: wf_timeline_def wf_lane_def)

lemma lane_cancelled:
  assumes "wf_timeline t" and "turns t = a @ u # b" and "turn_id v = turn_id u"
    and "turn_status u = Queued" and "turn_status v = Terminal"
    and "turns t' = a @ v # b" and "lane_turn t' = lane_turn t"
  shows "wf_lane t'"
proof -
  have l: "wf_lane t" using assms(1) by (simp add: wf_timeline_def)
  show ?thesis
    unfolding wf_lane_def
    using l [unfolded wf_lane_def] assms(2-7) by auto
qed

lemma lane_released:
  assumes "wf_timeline t" and "turns t = a @ u # b" and "lane_turn t = Some (turn_id u)"
    and "turn_status v = Terminal" and "turns t' = a @ v # b" and "lane_turn t' = None"
  shows "wf_lane t'"
proof -
  have "distinct (map turn_id (a @ u # b))" and l: "wf_lane t"
    using assms(1) by (simp_all add: wf_timeline_def wf_history_def assms(2))
  then have "turn_status w \<noteq> Running" if "w \<in> set a \<or> w \<in> set b" for w
    using that distinct_around [of turn_id a u b w] assms(2,3) unfolding wf_lane_def by fastforce
  then show ?thesis
    using assms(4-6) by (auto simp: wf_lane_def)
qed

lemma wf_replaced:
  assumes "wf_timeline t" and "turns t = a @ u # b" and "turns t' = a @ v # b"
    and "wf_history t'" and "wf_turn v" and "tl_session t' = tl_session t"
    and "lane_whole t'" and "lane_texts t'" and "wf_lane t'" and "opt_ok valid_instant (lane_expires t')"
  shows "wf_timeline t'"
  using assms by (simp add: wf_timeline_def)

lemma wf_turn_in: "wf_timeline t \<Longrightarrow> turns t = a @ u # b \<Longrightarrow> wf_turn u"
  by (simp add: wf_timeline_def)

lemma lane_status:
  assumes "wf_timeline t" and "turns t = a @ u # b"
  shows "turn_status u = Running \<longleftrightarrow> lane_turn t = Some (turn_id u)"
  using assms by (simp add: wf_timeline_def wf_lane_def)

lemmas lane_parts = lane_whole_def lane_texts_def

subsection \<open>Turns\<close>

lemmas turn_parts = wf_turn_def turn_texts_def turn_identity_def admission_whole_def
  turn_operation_ids_def status_shape_def queued_shape_def running_shape_def terminal_shape_def
  no_admission_def

lemma wf_new_turn:
  "text_ok i \<Longrightarrow> admission_ok adm \<Longrightarrow> 0 < n \<Longrightarrow> wf_turn (new_turn n i adm)"
  by (cases adm) (auto simp: turn_parts new_turn_def admission_ok_def)

lemma wf_claim_turn:
  "wf_turn u \<Longrightarrow> turn_status u = Queued \<Longrightarrow> wf_turn (claim_turn u) \<and> same_place u (claim_turn u)"
  by (simp add: turn_parts claim_turn_def same_place_def)

lemma wf_cancel_queued:
  "wf_turn u \<Longrightarrow> turn_status u = Queued \<Longrightarrow>
     wf_turn ((cancel_queued_turn u)\<lparr>recovery := r\<rparr>)
     \<and> same_place u ((cancel_queued_turn u)\<lparr>recovery := r\<rparr>)"
  by (simp add: turn_parts cancel_queued_turn_def same_place_def)

lemma wf_end_turn:
  assumes "wf_turn u" and "turn_status u = Running"
    and "(out = Cancelled) = (c \<noteq> None)" and "c \<noteq> Some Cancelled_queued"
  shows "wf_turn (end_turn out c u) \<and> same_place u (end_turn out c u)"
proof -
  have "c = None \<or> c = Some Cancelled_running \<and> out = Cancelled"
    using assms(3,4) by (cases c) (auto intro: cancellation_outcome.exhaust)
  then show ?thesis
    using assms(1,2) by (auto simp: turn_parts end_turn_def same_place_def)
qed

lemma same_identity_ids:
  "same_identity d e \<Longrightarrow> operation_id e = operation_id d \<and> call_id e = call_id d"
  by (simp add: same_identity_def)

lemma map_put_descriptor:
  assumes "distinct (map operation_id (descriptors u))" and "find_descriptor u i = Some d"
    and "f e = f d"
  shows "map f (put_descriptor i e (descriptors u)) = map f (descriptors u)"
  using descriptor_split [OF assms(1,2)] assms(3) by auto

lemma wf_distinct_descriptors: "wf_turn u \<Longrightarrow> distinct (map operation_id (descriptors u))"
  by (simp add: turn_parts)

lemma status_shape_operations:
  assumes "turn_status u = Running \<or> turn_status u = Terminal \<and> outcome u = Some Blocked"
    and "status_shape u" and "v = u\<lparr>descriptors := ds, turn_boundary := b\<rparr>"
  shows "status_shape v"
  using assms by (auto simp: status_shape_def running_shape_def terminal_shape_def no_admission_def)

lemma wf_put_operation:
  assumes "wf_turn u" and "turn_status u = Running \<or> turn_status u = Terminal \<and> outcome u = Some Blocked"
    and "find_descriptor u op = Some d" and "same_identity d d'" and "wf_desc d'"
  shows "wf_turn ((put_operation op d' u)\<lparr>turn_boundary := b\<rparr>)
    \<and> same_place u ((put_operation op d' u)\<lparr>turn_boundary := b\<rparr>)"
proof -
  note ids = same_identity_ids [OF assms(4)]
  note maps = map_put_descriptor [OF wf_distinct_descriptors [OF assms(1)] assms(3)]
  note op = maps [of operation_id d', OF conjunct1 [OF ids]]
  note call = maps [of call_id d', OF conjunct2 [OF ids]]
  have "list_all wf_desc (put_descriptor op d' (descriptors u))"
    using assms(1,5) by (auto simp: wf_turn_def put_descriptor_def list_all_iff)
  moreover have "status_shape ((put_operation op d' u)\<lparr>turn_boundary := b\<rparr>)"
    by (rule status_shape_operations [of u]) (use assms(1,2) in \<open>simp_all add: wf_turn_def put_operation_def\<close>)
  ultimately show ?thesis
    using assms(1)
    by (simp add: wf_turn_def turn_texts_def turn_identity_def admission_whole_def
        turn_operation_ids_def same_place_def put_operation_def op call)
qed

lemma wf_quarantine_desc:
  "wf_desc d \<Longrightarrow> op_status d = Started \<Longrightarrow> wf_desc (with_boundary d Unknown_result Effect_unknown)"
  by (simp add: wf_desc_def desc_texts_def evidence_allowed_def with_boundary_def)

lemma wf_quarantine_all:
  assumes "wf_turn u" and "turn_status u = Running"
  shows "wf_turn (quarantine_all u) \<and> same_place u (quarantine_all u)"
proof -
  let ?q = "\<lambda>d. if op_status d = Started then with_boundary d Unknown_result Effect_unknown else d"
  have maps: "map operation_id (map ?q ds) = map operation_id ds" "map call_id (map ?q ds) = map call_id ds"
    for ds by (simp_all add: with_boundary_def)
  have "list_all wf_desc (map ?q (descriptors u))"
    using assms(1) by (auto simp: wf_turn_def list_all_iff intro: wf_quarantine_desc)
  moreover have "status_shape (quarantine_all u)"
    by (rule status_shape_operations [of u]) (use assms in \<open>simp_all add: wf_turn_def quarantine_all_def\<close>)
  ultimately show ?thesis
    using assms(1)
    by (simp add: wf_turn_def turn_texts_def turn_identity_def admission_whole_def
        turn_operation_ids_def same_place_def quarantine_all_def maps del: map_map)
qed

subsection \<open>Steps\<close>

text \<open>The shape of most steps: one turn is replaced and the lane stays as it is.\<close>

lemma wf_step_in_place:
  assumes wf: "wf_timeline t" and find: "find_turn t i = Some u" and n: "current_revision t < n"
    and v: "wf_turn v \<and> same_place u v"
    and status: "turn_status v = turn_status u \<or> (turn_status u = Queued \<and> turn_status v = Terminal)"
  shows "wf_timeline (stamp n (set_turn t i v))"
proof -
  from turn_split [OF wf find] obtain a b where s: "turns t = a @ u # b"
    and put: "put_turn i v (turns t) = a @ v # b" by blast
  have lane: "wf_lane (stamp n (set_turn t i v))"
  proof (cases "turn_status v = turn_status u")
    case True
    show ?thesis
      by (rule lane_same_status [OF wf s]) (use v put True in \<open>simp_all add: same_place_def\<close>)
  next
    case False
    show ?thesis
      by (rule lane_cancelled [OF wf s]) (use v put False status in \<open>simp_all add: same_place_def\<close>)
  qed
  have "wf_history (stamp n (set_turn t i v))"
    by (rule history_replaced [OF wf s _ n]) (use v put in simp_all)
  then show ?thesis
    using wf lane conjunct1 [OF v]
    by (intro wf_replaced [OF wf s]) (simp_all add: put wf_timeline_def lane_parts)
qed

lemma wf_step_release:
  assumes wf: "wf_timeline t" and find: "find_turn t i = Some u" and n: "current_revision t < n"
    and lane: "lane_turn t = Some i" and v: "wf_turn v \<and> same_place u v" "turn_status v = Terminal"
  shows "wf_timeline (stamp n (free_lane (set_turn t i v)))"
proof -
  from turn_split [OF wf find] obtain a b where s: "turns t = a @ u # b" and i: "turn_id u = i"
    and put: "put_turn i v (turns t) = a @ v # b" by blast
  have "wf_lane (stamp n (free_lane (set_turn t i v)))"
    by (rule lane_released [OF wf s]) (use v put lane i in simp_all)
  moreover have "wf_history (stamp n (free_lane (set_turn t i v)))"
    by (rule history_replaced [OF wf s _ n]) (use v put in simp_all)
  ultimately show ?thesis
    using wf conjunct1 [OF v(1)] by (intro wf_replaced [OF wf s]) (simp_all add: put wf_timeline_def lane_parts)
qed

lemma find_turn_status:
  assumes "wf_timeline t" and "find_turn t i = Some u"
  shows "turn_status u = Running \<longleftrightarrow> lane_turn t = Some i" and "wf_turn u" and "turn_id u = i"
proof -
  from turn_split [OF assms] obtain a b where s: "turns t = a @ u # b" and "turn_id u = i" by blast
  with lane_status [OF assms(1) s] wf_turn_in [OF assms(1) s]
  show "turn_status u = Running \<longleftrightarrow> lane_turn t = Some i" and "wf_turn u" and "turn_id u = i"
    by simp_all
qed

lemma wf_history_same:
  assumes "wf_history t" and "turns t' = turns t" and "base_revision t' = base_revision t"
    and "current_revision t < current_revision t'"
  shows "wf_history t'"
  using assms by (auto simp: wf_history_def simp del: upt_Suc)

lemma sequence_le_length:
  assumes "wf_timeline t" and "v \<in> set (turns t)"
  shows "turn_sequence v \<le> int (length (turns t))"
proof -
  have "turn_sequence v \<in> set (map int [1..<Suc (length (turns t))])"
    using assms unfolding wf_timeline_def wf_history_def by (metis image_eqI list.set_map)
  then show ?thesis by auto
qed

lemma wf_step_admit:
  assumes wf: "wf_timeline t" and fresh: "find_turn t i = None" and i: "text_ok i"
    and adm: "admission_ok adm" and n: "current_revision t < n"
  shows "wf_timeline (stamp n (t\<lparr>turns := turns t @ [new_turn (int (length (turns t)) + 1) i adm]\<rparr>))"
proof -
  let ?u = "new_turn (int (length (turns t)) + 1) i adm"
  let ?t = "stamp n (t\<lparr>turns := turns t @ [?u]\<rparr>)"
  have u: "turn_id ?u = i" "turn_sequence ?u = int (length (turns t)) + 1" "turn_status ?u = Queued"
    "turn_operation_ids ?u = []" "descriptors ?u = []"
    by (simp_all add: new_turn_def turn_operation_ids_def)
  have ids: "turn_id v \<noteq> i" if "v \<in> set (turns t)" for v
    using fresh that by (auto simp: find_turn_def find_None_iff)
  have "map int [1..<Suc (Suc (length (turns t)))]
      = map int [1..<Suc (length (turns t))] @ [int (length (turns t)) + 1]"
    by simp
  moreover have "distinct (map turn_id (turns t @ [?u]))"
    using wf ids u by (auto simp: wf_timeline_def wf_history_def)
  moreover have "all_operation_ids (turns t @ [?u]) = all_operation_ids (turns t)"
    "all_call_ids (turns t @ [?u]) = all_call_ids (turns t)"
    using u by (simp_all add: all_operation_ids_def all_call_ids_def)
  ultimately have "wf_history ?t"
    using wf n u(2) unfolding wf_timeline_def wf_history_def by (simp del: upt_Suc)
  moreover have "wf_lane ?t"
  proof -
    have l: "wf_lane t" using wf by (simp add: wf_timeline_def)
    have queued: "turn_id v \<noteq> j" if "lane_turn t = Some j" "v = ?u" for v j
      using l ids that u(1) unfolding wf_lane_def by auto
    show ?thesis
      unfolding wf_lane_def
    proof (intro conjI)
      show "\<forall>v \<in> set (turns ?t). turn_status v = Running \<longleftrightarrow> lane_turn ?t = Some (turn_id v)"
        using l queued u(1,3) by (auto simp: wf_lane_def)
      show "\<forall>j. lane_turn ?t = Some j \<longrightarrow> j \<in> turn_id ` set (turns ?t)"
        using l by (auto simp: wf_lane_def)
      show "\<forall>w \<in> set (turns ?t). \<forall>v \<in> set (turns ?t). turn_status w = Running
          \<longrightarrow> turn_status v = Queued \<longrightarrow> turn_sequence w \<le> turn_sequence v"
        using l u(2,3) sequence_le_length [OF wf] by (force simp: wf_lane_def)
    qed
  qed
  ultimately show ?thesis
    using wf wf_new_turn [OF i adm, of "int (length (turns t)) + 1"]
    by (simp add: wf_timeline_def lane_parts)
qed

lemma queued_head_first:
  assumes wf: "wf_timeline t" and head: "queued_head t = Some u"
  shows "find_turn t (turn_id u) = Some u" and "turn_status u = Queued"
    and "\<And>v. v \<in> set (turns t) \<Longrightarrow> turn_status v = Queued \<Longrightarrow> turn_sequence u \<le> turn_sequence v"
proof -
  from find_split [OF head [unfolded queued_head_def]] obtain a b where
    s: "turns t = a @ u # b" and q: "turn_status u = Queued"
    and before: "\<forall>v \<in> set a. turn_status v \<noteq> Queued"
    by blast
  have "distinct (map turn_id (a @ u # b))"
    using wf by (simp add: wf_timeline_def wf_history_def s)
  then have "find (\<lambda>v. turn_id v = turn_id u) a = None"
    using distinct_around [of turn_id a u b] by (auto simp: find_None_iff)
  then show "find_turn t (turn_id u) = Some u"
    unfolding find_turn_def s by (induction a) (auto split: if_splits)
  show "turn_status u = Queued" by (rule q)
  show "turn_sequence u \<le> turn_sequence v" if "v \<in> set (turns t)" "turn_status v = Queued" for v
    using that before sequence_order [OF wf s] by (fastforce simp: s)
qed

lemma wf_step_claim:
  assumes wf: "wf_timeline t" and free: "lane_turn t = None" and head: "queued_head t = Some u"
    and arguments: "text_ok owner" "text_ok token" "valid_instant e" and n: "current_revision t < n"
  shows "wf_timeline (stamp n (take_lane (turn_id u) owner token e
    (set_turn t (turn_id u) (claim_turn u))))"
    (is "wf_timeline ?t")
proof -
  note q = queued_head_first [OF wf head]
  from turn_split [OF wf q(1)] obtain a b where s: "turns t = a @ u # b"
    and put: "put_turn (turn_id u) (claim_turn u) (turns t) = a @ claim_turn u # b" by blast
  have c: "wf_turn (claim_turn u)" "same_place u (claim_turn u)"
    using wf_claim_turn [OF wf_turn_in [OF wf s] q(2)] by auto
  have d: "distinct (map turn_id (a @ u # b))"
    using wf by (simp add: wf_timeline_def wf_history_def s)
  have none: "turn_status v \<noteq> Running" if "v \<in> set (turns t)" for v
    using wf that free by (simp add: wf_timeline_def wf_lane_def)
  have cl: "turn_status (claim_turn u) = Running" "turn_id (claim_turn u) = turn_id u"
    "turn_sequence (claim_turn u) = turn_sequence u"
    by (simp_all add: claim_turn_def)
  have others: "\<forall>v \<in> set a \<union> set b. turn_status v \<noteq> Running \<and> turn_id u \<noteq> turn_id v"
    using none distinct_around [OF d] unfolding s by (metis Un_iff set_append list.set_intros(2))
  have "wf_lane ?t"
    unfolding wf_lane_def
  proof (intro conjI)
    show "\<forall>v \<in> set (turns ?t). turn_status v = Running \<longleftrightarrow> lane_turn ?t = Some (turn_id v)"
      using others cl by (auto simp: put)
    show "\<forall>j. lane_turn ?t = Some j \<longrightarrow> j \<in> turn_id ` set (turns ?t)"
      by (simp add: put cl)
    show "\<forall>w \<in> set (turns ?t). \<forall>v \<in> set (turns ?t). turn_status w = Running
        \<longrightarrow> turn_status v = Queued \<longrightarrow> turn_sequence w \<le> turn_sequence v"
      unfolding stamp_simps take_lane_simps set_turn_simps put
      using others q(3) cl by (auto simp: s)
  qed
  moreover have "wf_history ?t"
    by (rule history_replaced [OF wf s c(2) n]) (simp_all add: put)
  ultimately show ?thesis
    using wf arguments c(1) wf_turn_in [OF wf s]
    by (intro wf_replaced [OF wf s, where v = "claim_turn u"])
      (simp_all add: put wf_timeline_def lane_parts, simp add: wf_turn_def turn_texts_def)
qed

lemma wf_step_precommit:
  assumes wf: "wf_timeline t" and find: "find_turn t i = Some u" and lane: "lane_turn t = Some i"
    and d: "wf_desc d" and op: "operation_id d \<notin> set (all_operation_ids (turns t))"
    and call: "call_id d \<notin> set (all_call_ids (turns t))" and n: "current_revision t < n"
  shows "wf_timeline (stamp n (set_turn t i (u\<lparr>descriptors := descriptors u @ [d]\<rparr>)))"
    (is "wf_timeline ?t")
proof -
  let ?v = "u\<lparr>descriptors := descriptors u @ [d]\<rparr>"
  from turn_split [OF wf find] obtain a b where s: "turns t = a @ u # b" and i: "turn_id u = i"
    and put: "put_turn i ?v (turns t) = a @ ?v # b" by blast
  have run: "turn_status u = Running" and u: "wf_turn u"
    using find_turn_status [OF wf find] lane by auto
  have fresh: "operation_id d \<notin> set (turn_operation_ids w) \<and> call_id d \<notin> set (map call_id (descriptors w))"
    if "w \<in> set (turns t)" for w
    using op call that by (auto simp: all_operation_ids_def all_call_ids_def)
  have "turn_identity ?v"
    using u fresh [of u] by (simp add: s wf_turn_def turn_identity_def turn_operation_ids_def)
  moreover have "status_shape ?v"
    using u run by (simp add: wf_turn_def status_shape_def running_shape_def no_admission_def)
  ultimately have v: "wf_turn ?v"
    using u d by (simp add: wf_turn_def turn_texts_def admission_whole_def)
  have "distinct (all_operation_ids (turns ?t)) \<and> distinct (all_call_ids (turns ?t))"
  proof -
    have "distinct (all_operation_ids (a @ u # b))" "distinct (all_call_ids (a @ u # b))"
      using wf by (simp_all add: wf_timeline_def wf_history_def s)
    moreover have "operation_id d \<notin> set (all_operation_ids (a @ u # b))"
      "call_id d \<notin> set (all_call_ids (a @ u # b))"
      using op call by (simp_all add: s)
    ultimately show ?thesis
      unfolding stamp_simps set_turn_simps put
      by (auto simp: all_operation_ids_def all_call_ids_def turn_operation_ids_def)
  qed
  moreover have "map turn_sequence (turns ?t) = map turn_sequence (turns t)"
    "map turn_id (turns ?t) = map turn_id (turns t)" "length (turns ?t) = length (turns t)"
    unfolding stamp_simps set_turn_simps put by (simp_all add: s)
  ultimately have "wf_history ?t"
    using wf n unfolding wf_timeline_def wf_history_def by (simp del: upt_Suc)
  moreover have "wf_lane ?t"
    by (rule lane_same_status [OF wf s]) (use put in simp_all)
  ultimately show ?thesis
    using wf v by (intro wf_replaced [OF wf s]) (simp_all add: put wf_timeline_def lane_parts)
qed

lemma may_move_status:
  assumes "wf_timeline t" and "find_turn t i = Some u" and "may_move t u"
  shows "turn_status u = Running \<or> turn_status u = Terminal \<and> outcome u = Some Blocked"
  using assms find_turn_status [OF assms(1,2)] by (auto simp: may_move_def)

text \<open>Every step of the machine keeps the timeline well formed.\<close>

lemma lane_step_wf:
  assumes "lane_step t m t'" and wf: "wf_timeline t"
  shows "wf_timeline t'"
  using assms(1)
proof cases
  case (step_admit i adm n)
  then show ?thesis using wf_step_admit [OF wf] by simp
next
  case (step_claim u owner token e n)
  then show ?thesis using wf_step_claim [OF wf] by simp
next
  case (step_renew e n)
  have "wf_history t'" and "wf_lane t'"
    using wf step_renew(5) wf_lane_cong [of t t'] wf_history_same [of t t']
    by (simp_all add: step_renew(2) wf_timeline_def)
  then show ?thesis
    using wf step_renew(3,4)
    by (auto simp: step_renew(2) wf_timeline_def lane_parts)
next
  case (step_wait i u e n)
  have "wf_turn (u\<lparr>admission_expires := Some e\<rparr>) \<and> same_place u (u\<lparr>admission_expires := Some e\<rparr>)"
    using find_turn_status(2) [OF wf step_wait(3)] step_wait(4-6)
    by (auto simp: turn_parts same_place_def)
  then show ?thesis
    unfolding step_wait(2) by (intro wf_step_in_place [OF wf step_wait(3,7)]) simp_all
next
  case (step_touch n)
  have "wf_history t'" and "wf_lane t'"
    using wf step_touch(3) wf_lane_cong [of t t'] wf_history_same [of t t']
    by (simp_all add: step_touch(2) wf_timeline_def)
  then show ?thesis
    using wf by (simp add: step_touch(2) wf_timeline_def lane_parts)
next
  case (step_cancel i u n r)
  note c = wf_cancel_queued [OF find_turn_status(2) [OF wf step_cancel(3)] step_cancel(4)]
  show ?thesis
    unfolding step_cancel(2)
    by (rule wf_step_in_place [OF wf step_cancel(3,5) c])
      (use step_cancel(4) in \<open>simp_all add: cancel_queued_turn_def\<close>)
next
  case (step_precommit i u d n)
  then show ?thesis using wf_step_precommit [OF wf] by simp
next
  case (step_move i u op d d' b n)
  note st = may_move_status [OF wf step_move(3,4)]
  note v = wf_put_operation [OF find_turn_status(2) [OF wf step_move(3)] st step_move(5,8,7)]
  show ?thesis
    unfolding step_move(2)
    by (rule wf_step_in_place [OF wf step_move(3,10) v]) (simp_all add: put_operation_def)
next
  case (step_end i u out c n)
  have run: "turn_status u = Running" and u: "wf_turn u"
    using find_turn_status [OF wf step_end(3)] step_end(4) by auto
  note v = wf_end_turn [OF u run step_end(6,7)]
  show ?thesis
    unfolding step_end(2)
    by (rule wf_step_release [OF wf step_end(3,8,4) v]) (simp_all add: end_turn_def)
next
  case (step_quarantine i u n)
  have run: "turn_status u = Running" and u: "wf_turn u"
    using find_turn_status [OF wf step_quarantine(3)] step_quarantine(4) by auto
  note q = wf_quarantine_all [OF u run]
  have "turn_status (quarantine_all u) = Running"
    using run by (simp add: quarantine_all_def)
  note v = wf_end_turn [OF conjunct1 [OF q] this, of Outcome_unknown None]
  have "same_place u (end_turn Outcome_unknown None (quarantine_all u))"
    using q v by (simp add: same_place_def)
  then show ?thesis
    unfolding step_quarantine(2)
    by (intro wf_step_release [OF wf step_quarantine(3,6,4)]) (use v in \<open>simp_all add: end_turn_def\<close>)
qed

end
