(* ===== verification/Timeline_Refinement.thy ===== *)
theory Timeline_Refinement
  imports Timeline_Steps
begin

text \<open>
  The reductions of \<open>SessionTurnTimelineRepository\<close> refine the lane machine: on a well-formed timeline
  a reduction returns the timeline it was given or makes one step of the machine, stamped with the
  position its event takes in the history, under a status the repository writes. None of them raises,
  but for the start of an approved operation that already has its result.
\<close>

section \<open>Refinement\<close>

definition durable_statuses :: "mutation_status list" where
  "durable_statuses = [Ms_admitted, Ms_claimed, Ms_precommitted, Ms_operation_abandoned,
     Ms_operation_result, Ms_admission_lease_renewed, Ms_lease_renewed, Ms_recovery_cancelled,
     Ms_recovery_admission_cancelled, Ms_recovery_pending_approval, Ms_recovery_unknown,
     Ms_terminal, Ms_boundary_updated]"

definition stepped :: "timeline \<Rightarrow> jdict list \<Rightarrow> reduction \<Rightarrow> bool" where
  "stepped t events r \<longleftrightarrow>
     (\<exists>m t'. red_timeline r = Some t' \<and> lane_step t m t'
        \<and> current_revision t' = int (length events) + 1 \<and> red_status r \<in> set durable_statuses)"

definition refines :: "timeline \<Rightarrow> jdict list \<Rightarrow> reduction tl \<Rightarrow> bool" where
  "refines t events result \<longleftrightarrow>
     (\<exists>r. result = Inr r \<and> (red_timeline r = Some t \<or> stepped t events r))"

text \<open>A history that holds the timeline: the timeline was written at a position of the history.\<close>

definition held_by :: "timeline \<Rightarrow> jdict list \<Rightarrow> bool" where
  "held_by t events \<longleftrightarrow> wf_timeline t \<and> current_revision t \<le> int (length events)"

lemma refines_same [simp]: "refines t events (answer st (Some t))"
  by (simp add: refines_def)

lemma next_timeline_wf:
  "wf_timeline (stamp (int (length events) + 1) t) \<Longrightarrow>
     next_timeline t events = Inr (stamp (int (length events) + 1) t)"
  by (simp add: next_timeline_def stamp_def [symmetric] check_timeline_ident)

lemma advance_step:
  assumes "wf_timeline t" and "lane_step t m (stamp (int (length events) + 1) x)"
  shows "advance st x events = answer st (Some (stamp (int (length events) + 1) x))"
  using next_timeline_wf [OF lane_step_wf [OF assms(2,1)]] by (simp add: advance_def)

lemma refines_advance:
  assumes "wf_timeline t" and "lane_step t m (stamp (int (length events) + 1) x)"
    and "st \<in> set durable_statuses"
  shows "refines t events (advance st x events)"
  using assms(2,3) unfolding refines_def stepped_def advance_step [OF assms(1,2)] by auto

lemma update_turn_step:
  assumes wf: "wf_timeline t" and find: "find_turn t i = Some v"
    and step: "lane_step t m (stamp (int (length events) + 1) (f (set_turn t i u)))"
    and f: "turns (f (set_turn t i u)) = turns (set_turn t i u)"
  shows "update_turn st t events i u f =
    answer st (Some (stamp (int (length events) + 1) (f (set_turn t i u))))"
proof -
  from turn_split [OF wf find] obtain a b where "put_turn i u (turns t) = a @ u # b" by blast
  then have "wf_turn u"
    using lane_step_wf [OF step wf] f by (simp add: wf_timeline_def)
  then show ?thesis
    using advance_step [OF wf step]
    by (simp add: update_turn_def check_turn_ident set_turn_def [symmetric])
qed

lemma refines_update:
  assumes "wf_timeline t" and "find_turn t i = Some v"
    and "lane_step t m (stamp (int (length events) + 1) (f (set_turn t i u)))"
    and "turns (f (set_turn t i u)) = turns (set_turn t i u)"
    and "st \<in> set durable_statuses"
  shows "refines t events (update_turn st t events i u f)"
  using assms(3,5) unfolding refines_def stepped_def
    update_turn_step [where f = f and u = u, OF assms(1-4)] by auto

lemma refines_update_id:
  assumes "wf_timeline t" and "find_turn t i = Some v"
    and "lane_step t m (stamp (int (length events) + 1) (set_turn t i u))"
    and "st \<in> set durable_statuses"
  shows "refines t events (update_turn st t events i u id)"
  using refines_update [where f = id and u = u, OF assms(1,2)] assms(3,4) by simp

lemma refines_update_free:
  assumes "wf_timeline t" and "find_turn t i = Some v"
    and "lane_step t m (stamp (int (length events) + 1) (free_lane (set_turn t i u)))"
    and "st \<in> set durable_statuses"
  shows "refines t events (update_turn st t events i u free_lane)"
  using refines_update [where f = free_lane and u = u, OF assms(1,2)] assms(3,4) by simp

lemma held_next: "held_by t events \<Longrightarrow> current_revision t < int (length events) + 1"
  by (simp add: held_by_def)

subsection \<open>The common beginnings of the transitions\<close>

lemma with_lane_turn_refines:
  assumes held: "held_by t events"
    and k: "\<And>u. lane_turn t = Some i \<Longrightarrow> find_turn t i = Some u \<Longrightarrow> turn_status u = Running \<Longrightarrow>
      wf_turn u \<Longrightarrow> refines t events (k t u)"
  shows "refines t events (with_lane_turn (Some t) i owner token now k)"
proof (cases "lane_lease_status (Some t) i owner token now")
  case None
  then have lane: "lane_turn t = Some i"
    by (auto simp: lane_lease_status_def split: if_splits)
  have wf: "wf_timeline t" using held by (simp add: held_by_def)
  then have "i \<in> turn_id ` set (turns t)"
    using lane by (simp add: wf_timeline_def wf_lane_def)
  then obtain u where u: "find_turn t i = Some u"
    by (cases "find_turn t i") (auto simp: find_turn_def find_None_iff)
  show ?thesis
    using k [OF lane u] find_turn_status [OF wf u] lane None u by (simp add: with_lane_turn_def)
qed (simp add: with_lane_turn_def)

lemma with_stale_turn_refines:
  assumes held: "held_by t events"
    and k: "\<And>u. lane_turn t = Some i \<Longrightarrow> find_turn t i = Some u \<Longrightarrow> turn_status u = Running \<Longrightarrow>
      wf_turn u \<Longrightarrow> refines t events (k t u)"
  shows "refines t events (with_stale_turn (Some t) i now k)"
proof (cases "lane_turn t = Some i")
  case True
  have wf: "wf_timeline t" using held by (simp add: held_by_def)
  then obtain e where e: "lane_expires t = Some e"
    using True by (cases "lane_expires t") (auto simp: wf_timeline_def lane_whole_def)
  show ?thesis
    using k [OF True] find_turn_status(2) [OF wf]
    by (auto simp: with_stale_turn_def True e split: option.split)
qed (simp add: with_stale_turn_def)

lemma with_blocked_refines:
  assumes held: "held_by t events"
    and k: "\<And>u d. find_turn t i = Some u \<Longrightarrow> may_move t u \<Longrightarrow> find_descriptor u op = Some d \<Longrightarrow>
      wf_turn u \<Longrightarrow> turn_status u = Terminal \<Longrightarrow> call_id d = call \<Longrightarrow> arguments_digest d = digest \<Longrightarrow>
      refines t events (k t u d)"
  shows "refines t events (with_blocked_operation (Some t) i op call digest k)"
proof -
  have wf: "wf_timeline t" using held by (simp add: held_by_def)
  show ?thesis
    using k find_turn_status(2) [OF wf]
    by (auto simp: with_blocked_operation_def may_move_def split: option.split)
qed

lemma find_descriptor_wf:
  "wf_turn u \<Longrightarrow> find_descriptor u op = Some d \<Longrightarrow> wf_desc d \<and> operation_id d = op"
  by (auto simp: find_descriptor_def wf_turn_def dest!: find_split)

section \<open>Admission\<close>

lemma refines_admit:
  assumes held: "held_by t events" and "text_ok i" and "admission_ok adm"
  shows "refines t events (reduce_admit session i adm (Some t) events)"
proof (cases "find_turn t i")
  case None
  have wf: "wf_timeline t" using held by (simp add: held_by_def)
  have step: "lane_step t (Admit i) (stamp (int (length events) + 1)
      (t\<lparr>turns := turns t @ [new_turn (int (length (turns t)) + 1) i adm]\<rparr>))"
    using None assms(2,3) held_next [OF held] by (rule step_admit)
  have "wf_turn (new_turn (int (length (turns t)) + 1) i adm)"
    using assms(2,3) by (intro wf_new_turn) simp_all
  then show ?thesis
    using refines_advance [OF wf step, of Ms_admitted]
    by (simp add: reduce_admit_def None check_turn_ident durable_statuses_def)
qed (simp add: reduce_admit_def)

text \<open>The first admission of a session starts its timeline at the length of the history.\<close>

definition first_timeline :: "string \<Rightarrow> string \<Rightarrow> admission \<Rightarrow> int \<Rightarrow> timeline" where
  "first_timeline session i adm n =
     \<lparr>tl_session = session, base_revision = n, current_revision = n + 1, turns = [new_turn 1 i adm],
      lane_turn = None, lane_owner = None, lane_token = None, lane_expires = None\<rparr>"

lemma wf_first_timeline:
  "text_ok session \<Longrightarrow> text_ok i \<Longrightarrow> admission_ok adm \<Longrightarrow> 0 \<le> n \<Longrightarrow>
     wf_timeline (first_timeline session i adm n)"
  using wf_new_turn [of i adm 1]
  by (simp add: wf_timeline_def first_timeline_def wf_history_def lane_parts wf_lane_def
      all_operation_ids_def all_call_ids_def turn_operation_ids_def)
    (simp add: new_turn_def)

lemma reduce_admit_first:
  assumes "text_ok session" and "text_ok i" and "admission_ok adm"
  shows "reduce_admit session i adm None events =
    answer Ms_admitted (Some (first_timeline session i adm (int (length events))))"
  using wf_first_timeline [OF assms, of "int (length events)"] wf_new_turn [OF assms(2,3), of 1]
  by (simp add: reduce_admit_def check_turn_ident first_timeline_def check_timeline_ident)

lemma refines_claim:
  assumes held: "held_by t events" and arguments: "text_ok owner" "text_ok token" "valid_instant lease"
  shows "refines t events (reduce_claim_next owner token lease now (Some t) events)"
proof -
  have wf: "wf_timeline t" using held by (simp add: held_by_def)
  have update: "refines t events (update_turn Ms_claimed t events (turn_id u) (claim_turn u)
      (take_lane (turn_id u) owner token lease))"
    if "lane_turn t = None" "queued_head t = Some u" for u
    using step_claim [OF that arguments held_next [OF held]]
    by (intro refines_update [OF wf queued_head_first(1) [OF wf that(2)]])
      (simp_all add: durable_statuses_def)
  have whole: "wf_turn u" if "queued_head t = Some u" for u
    using find_turn_status(2) [OF wf queued_head_first(1) [OF wf that]] .
  show ?thesis
  proof (cases "lane_turn t")
    case None
    show ?thesis
    proof (cases "queued_head t")
      case (Some u)
      from whole [OF Some] have "admission_whole u" by (simp add: wf_turn_def)
      then show ?thesis
        using update [OF None Some]
        by (auto simp: reduce_claim_next_def None Some Let_def admission_whole_def
            split: option.split)
    qed (simp add: reduce_claim_next_def None)
  next
    case (Some i)
    then obtain e where "lane_expires t = Some e"
      using wf by (cases "lane_expires t") (auto simp: wf_timeline_def lane_whole_def)
    then show ?thesis by (simp add: reduce_claim_next_def Some)
  qed
qed

lemma refines_renew_lease:
  assumes held: "held_by t events" and "valid_instant e"
  shows "refines t events (reduce_renew_lease i owner token e now (Some t) events)"
proof (cases "lane_lease_status (Some t) i owner token now")
  case None
  have wf: "wf_timeline t" using held by (simp add: held_by_def)
  from None obtain x where lane: "lane_turn t = Some i" "lane_expires t = Some x"
    by (auto simp: lane_lease_status_def split: if_splits option.splits)
  have "lane_step t Keep (stamp (int (length events) + 1) (t\<lparr>lane_expires := Some e\<rparr>))"
    using lane assms(2) held_next [OF held] by (intro step_renew) simp_all
  then show ?thesis
    using refines_advance [OF wf, of Keep events _ Ms_lease_renewed] None lane
    by (simp add: reduce_renew_lease_def durable_statuses_def)
qed (simp add: reduce_renew_lease_def)

lemma refines_renew_admission:
  assumes held: "held_by t events" and "valid_instant e"
  shows "refines t events (reduce_renew_admission i owner token e now (Some t) events)"
proof -
  have wf: "wf_timeline t" using held by (simp add: held_by_def)
  have "refines t events (update_turn Ms_admission_lease_renewed t events i
      (u\<lparr>admission_expires := Some e\<rparr>) id)"
    if "find_turn t i = Some u" "turn_status u = Queued" "admission_owner u = Some owner" for u
    using step_wait [OF that(1,2) _ assms(2) held_next [OF held]] that
    by (intro refines_update_id [OF wf that(1)]) (simp_all add: durable_statuses_def)
  then show ?thesis
    by (auto simp: reduce_renew_admission_def split: option.split)
qed

lemma refines_recover_admission:
  assumes held: "held_by t events"
  shows "refines t events (reduce_recover_admission i now (Some t) events)"
proof -
  have wf: "wf_timeline t" using held by (simp add: held_by_def)
  have "refines t events (update_turn Ms_recovery_admission_cancelled t events (turn_id u)
      ((cancel_queued_turn u)\<lparr>recovery := Some Admission_owner_expired\<rparr>) id)"
    if "queued_head t = Some u" for u
  proof -
    note q = queued_head_first [OF wf that]
    show ?thesis
      by (rule refines_update_id [OF wf q(1) step_cancel [OF q(1,2) held_next [OF held]]])
        (simp add: durable_statuses_def)
  qed
  then show ?thesis
    by (auto simp: reduce_recover_admission_def split: option.split)
qed

section \<open>Operations\<close>

lemma refines_precommit:
  assumes held: "held_by t events" and d: "wf_desc d" "op_status d = Precommitted"
  shows "refines t events (reduce_precommit i owner token d now (Some t) events)"
  unfolding reduce_precommit_def
proof (rule with_lane_turn_refines [OF held])
  fix u
  assume lane: "lane_turn t = Some i" and find: "find_turn t i = Some u"
  have wf: "wf_timeline t" using held by (simp add: held_by_def)
  have "refines t events (update_turn Ms_precommitted t events i
      (u\<lparr>descriptors := descriptors u @ [d]\<rparr>) id)"
    if "\<not> quarantined t" "\<not> pending_continuation t u"
      "\<not> list_ex (\<lambda>e. \<not> op_settled (op_status e)) (descriptors u)"
      "operation_id d \<notin> set (all_operation_ids (turns t))"
      "call_id d \<notin> set (all_call_ids (turns t))"
  proof -
    have "list_all (\<lambda>e. op_settled (op_status e)) (descriptors u)"
      using that(3) by (simp add: list_all_iff list_ex_iff)
    from step_precommit [OF find lane that(1,2) this d that(4,5) held_next [OF held]]
    show ?thesis
      by (intro refines_update_id [OF wf find]) (simp_all add: durable_statuses_def)
  qed
  then show "refines t events
      (if quarantined t then answer Ms_invalid (Some t)
       else if pending_continuation t u then answer Ms_invalid (Some t)
       else if turn_boundary u = Effect_unknown then answer Ms_invalid (Some t)
       else case prior_descriptor u d of
         Some prior \<Rightarrow>
           (if prior = d then answer Ms_precommitted (Some t) else answer Ms_invalid (Some t))
       | None \<Rightarrow>
           (if list_ex (\<lambda>e. \<not> op_settled (op_status e)) (descriptors u)
            then answer Ms_invalid (Some t)
            else if operation_id d \<in> set (all_operation_ids (turns t))
                    \<or> call_id d \<in> set (all_call_ids (turns t))
            then answer Ms_invalid (Some t)
            else update_turn Ms_precommitted t events i
                   (u\<lparr>descriptors := descriptors u @ [d]\<rparr>) id))"
    by (auto split: option.split)
qed

text \<open>The updates of one descriptor the code makes, and what they do to the machine.\<close>

lemma refines_move:
  assumes held: "held_by t events" and find: "find_turn t i = Some u" and may: "may_move t u"
    and d: "find_descriptor u op = Some d" and edge: "op_edge (op_status d) (op_status d')"
    and d': "wf_desc d'" "same_identity d d'" and b: "moved_boundary (op_status d') u b"
    and st: "st \<in> set durable_statuses"
    and v: "v = (put_operation op d' u)\<lparr>turn_boundary := b\<rparr>"
  shows "refines t events (update_turn st t events i v id)"
proof -
  have wf: "wf_timeline t" using held by (simp add: held_by_def)
  show ?thesis
    unfolding v using step_move [OF find may d edge d' b held_next [OF held]] st
    by (intro refines_update_id [OF wf find])
qed

lemma put_operation_boundary:
  "put_operation op d u = (put_operation op d u)\<lparr>turn_boundary := turn_boundary u\<rparr>"
  by (simp add: put_operation_def)

lemma result_boundary_put:
  "result_boundary st (put_operation op d u) =
     (put_operation op d u)\<lparr>turn_boundary :=
        (if st = R_unknown then Effect_unknown else turn_boundary u)\<rparr>"
  by (simp add: result_boundary_def put_operation_def)

definition evidence_ok :: "result_status \<Rightarrow> string option \<Rightarrow> string option \<Rightarrow> bool" where
  "evidence_ok st digest receipt \<longleftrightarrow> opt_ok digest_ok digest \<and> opt_ok text_ok receipt
     \<and> (st = R_unknown \<longrightarrow> digest = None \<and> receipt = None)"

lemma with_result_wf:
  "wf_desc d \<Longrightarrow> evidence_ok st digest receipt \<Longrightarrow>
     wf_desc (with_result d st digest receipt) \<and> same_identity d (with_result d st digest receipt)
     \<and> op_status (with_result d st digest receipt) = result_op_status st"
  by (cases st) (simp_all add: wf_desc_def desc_texts_def with_result_def evidence_allowed_def
      evidence_ok_def same_identity_def)

lemma abandoned_wf:
  "wf_desc d \<Longrightarrow> digest_ok digest \<Longrightarrow> text_ok receipt \<Longrightarrow>
     wf_desc (abandoned d digest receipt) \<and> same_identity d (abandoned d digest receipt)
     \<and> op_status (abandoned d digest receipt) = Abandoned"
  by (simp add: wf_desc_def desc_texts_def abandoned_def evidence_allowed_def same_identity_def)

lemma result_edge: "op_edge Started (result_op_status st)"
  by (cases st) simp_all

lemma result_moved_boundary:
  "moved_boundary (result_op_status st) u (if st = R_unknown then Effect_unknown else turn_boundary u)"
  by (cases st) (simp_all add: moved_boundary_def)

lemma refines_any_result:
  assumes held: "held_by t events" and find: "find_turn t i = Some u" and may: "may_move t u"
    and d: "find_descriptor u op = Some d" and u: "wf_turn u" and ev: "evidence_ok st digest receipt"
  shows "refines t events
    (bindE (check_descriptor (with_result d st digest receipt)) (\<lambda>d'.
       if d = d' then answer Ms_operation_result (Some t)
       else if \<not> is_started d then answer Ms_invalid (Some t)
       else update_turn Ms_operation_result t events i
              (result_boundary st (put_operation op d' u)) id))"
proof -
  have wd: "wf_desc d" using find_descriptor_wf [OF u d] ..
  note r = with_result_wf [OF wd ev]
  have "refines t events (update_turn Ms_operation_result t events i
      (result_boundary st (put_operation op (with_result d st digest receipt) u)) id)"
    if "is_started d"
    using that r result_edge [of st] result_moved_boundary [of st u] wf_started [OF wd]
    by (intro refines_move [OF held find may d, of "with_result d st digest receipt"])
      (simp_all add: result_boundary_put durable_statuses_def)
  then show ?thesis
    using r by simp
qed

lemma refines_result:
  assumes held: "held_by t events" and ev: "evidence_ok st digest receipt"
  shows "refines t events (reduce_result i owner token op st digest receipt now (Some t) events)"
  unfolding reduce_result_def
proof (rule with_lane_turn_refines [OF held])
  fix u
  assume lane: "lane_turn t = Some i" and find: "find_turn t i = Some u" and u: "wf_turn u"
  have wf: "wf_timeline t" using held by (simp add: held_by_def)
  have may: "may_move t u"
    using lane find_turn_status(3) [OF wf find] by (simp add: may_move_def)
  show "refines t events
      (case find_descriptor u op of
         None \<Rightarrow> answer Ms_invalid (Some t)
       | Some d \<Rightarrow>
           bindE (check_descriptor (with_result d st digest receipt)) (\<lambda>d'.
             if d = d' then answer Ms_operation_result (Some t)
             else if \<not> is_started d then answer Ms_invalid (Some t)
             else if turn_boundary u = Effect_unknown then answer Ms_invalid (Some t)
             else update_turn Ms_operation_result t events i
                    (result_boundary st (put_operation op d' u)) id))"
  proof (cases "find_descriptor u op")
    case (Some d)
    have "wf_desc d" using find_descriptor_wf [OF u Some] ..
    with refines_any_result [OF held find may Some u ev] with_result_wf [OF this ev] Some
    show ?thesis by (cases "turn_boundary u = Effect_unknown") (auto split: if_splits)
  qed simp
qed

lemma refines_terminal_result:
  assumes held: "held_by t events" and ev: "evidence_ok st digest receipt"
  shows "refines t events (reduce_terminal_result i op call args st digest receipt (Some t) events)"
  unfolding reduce_terminal_result_def
  by (rule with_blocked_refines [OF held]) (rule refines_any_result [OF held _ _ _ _ ev])

lemma refines_approval_pending:
  assumes held: "held_by t events"
  shows "refines t events (reduce_approval_pending i owner token op now (Some t) events)"
  unfolding reduce_approval_pending_def
proof (rule with_lane_turn_refines [OF held])
  fix u
  have wf: "wf_timeline t" using held by (simp add: held_by_def)
  have "refines t events (advance Ms_precommitted t events)"
    by (rule refines_advance [OF wf step_touch [OF held_next [OF held]]])
      (simp add: durable_statuses_def)
  then show "refines t events
      (case find_descriptor u op of
         None \<Rightarrow> answer Ms_invalid (Some t)
       | Some d \<Rightarrow>
           (if \<not> is_precommitted d then answer Ms_invalid (Some t)
            else advance Ms_precommitted t events))"
    by (auto split: option.split)
qed

lemma refines_any_abandon:
  assumes held: "held_by t events" and find: "find_turn t i = Some u" and may: "may_move t u"
    and d: "find_descriptor u op = Some d" and u: "wf_turn u"
    and ev: "digest_ok digest" "text_ok receipt"
  shows "refines t events
    (bindE (check_descriptor (abandoned d digest receipt)) (\<lambda>d'.
       if d = d' then answer Ms_operation_abandoned (Some t)
       else if \<not> is_precommitted d then answer Ms_invalid (Some t)
       else update_turn Ms_operation_abandoned t events i (put_operation op d' u) id))"
proof -
  have wd: "wf_desc d" using find_descriptor_wf [OF u d] ..
  note r = abandoned_wf [OF wd ev]
  have "refines t events (update_turn Ms_operation_abandoned t events i
      (put_operation op (abandoned d digest receipt) u) id)"
    if "is_precommitted d"
    by (rule refines_move [OF held find may d _ _ _ _ _ put_operation_boundary])
      (use that r wf_precommitted [OF wd] in \<open>simp_all add: moved_boundary_def durable_statuses_def\<close>)
  then show ?thesis
    using r by simp
qed

lemma refines_abandon:
  assumes held: "held_by t events" and ev: "digest_ok digest" "text_ok receipt"
  shows "refines t events (reduce_abandon i owner token op digest receipt now (Some t) events)"
  unfolding reduce_abandon_def
proof (rule with_lane_turn_refines [OF held])
  fix u
  assume lane: "lane_turn t = Some i" and find: "find_turn t i = Some u" and u: "wf_turn u"
  have wf: "wf_timeline t" using held by (simp add: held_by_def)
  have may: "may_move t u"
    using lane find_turn_status(3) [OF wf find] by (simp add: may_move_def)
  show "refines t events
      (case find_descriptor u op of
         None \<Rightarrow> answer Ms_invalid (Some t)
       | Some d \<Rightarrow>
           bindE (check_descriptor (abandoned d digest receipt)) (\<lambda>d'.
             if d = d' then answer Ms_operation_abandoned (Some t)
             else if \<not> is_precommitted d then answer Ms_invalid (Some t)
             else update_turn Ms_operation_abandoned t events i (put_operation op d' u) id))"
    using refines_any_abandon [OF held find may _ u ev] by (cases "find_descriptor u op") simp_all
qed

lemma refines_terminal_abandon:
  assumes held: "held_by t events" and ev: "digest_ok digest" "text_ok receipt"
  shows "refines t events (reduce_terminal_abandon i op call args digest receipt (Some t) events)"
  unfolding reduce_terminal_abandon_def
  by (rule with_blocked_refines [OF held]) (rule refines_any_abandon [OF held _ _ _ _ ev])

lemma with_boundary_wf:
  "wf_desc d \<Longrightarrow> op_status d = Precommitted \<Longrightarrow> wf_desc (with_boundary d Started Effect_started)"
  "wf_desc d \<Longrightarrow> op_status d = Started \<Longrightarrow> wf_desc (with_boundary d Unknown_result Effect_unknown)"
  by (simp_all add: wf_desc_def desc_texts_def evidence_allowed_def with_boundary_def)

lemma with_boundary_identity [simp]:
  "same_identity d (with_boundary d st b)" "op_status (with_boundary d st b) = st"
  by (simp_all add: same_identity_def with_boundary_def)

lemma refines_move_boundary:
  assumes held: "held_by t events" and find: "find_turn t i = Some u" and may: "may_move t u"
    and d: "find_descriptor u op = Some d" and edge: "op_edge (op_status d) st"
    and d': "wf_desc (with_boundary d st b)" and b: "moved_boundary st u b"
  shows "refines t events (move_boundary t events i u op d st b)"
  unfolding move_boundary_def check_descriptor_ident [OF d'] bindE_Inr
  by (rule refines_move [OF held find may d _ d'])
    (use edge b in \<open>simp_all add: durable_statuses_def\<close>)

lemma refines_boundary:
  assumes held: "held_by t events" and op: "b = Not_started \<or> op \<noteq> None"
  shows "refines t events (reduce_boundary i owner token b op now (Some t) events)"
  unfolding reduce_boundary_def
proof (rule with_lane_turn_refines [OF held], goal_cases)
  case (1 u)
  have wf: "wf_timeline t" using held by (simp add: held_by_def)
  have may: "may_move t u"
    using 1(1) find_turn_status(3) [OF wf 1(2)] by (simp add: may_move_def)
  show ?case
  proof (cases "\<not> boundary_allowed (turn_boundary u) b \<or> b = Not_started")
    case True
    then show ?thesis by auto
  next
    case False
    then obtain o_id where o: "op = Some o_id" and nb: "b \<noteq> Not_started"
      and allowed: "boundary_allowed (turn_boundary u) b" using op by auto
    show ?thesis
    proof (cases "find_descriptor u o_id")
      case (Some d)
      have wd: "wf_desc d" using find_descriptor_wf [OF 1(4) Some] ..
      have start: "refines t events (move_boundary t events i u o_id d Started Effect_started)"
        if "is_precommitted d" "turn_boundary u \<noteq> Effect_unknown"
        using that 1(3) wf_precommitted [OF wd] with_boundary_wf(1) [OF wd]
        by (intro refines_move_boundary [OF held 1(2) may Some]) (simp_all add: moved_boundary_def)
      have unknown: "refines t events (move_boundary t events i u o_id d Unknown_result Effect_unknown)"
        if "is_started d"
        using that wf_started [OF wd] with_boundary_wf(2) [OF wd]
        by (intro refines_move_boundary [OF held 1(2) may Some]) (simp_all add: moved_boundary_def)
      show ?thesis
        using start unknown nb allowed by (simp add: o Some)
    qed (use nb allowed in \<open>simp add: o\<close>)
  qed
qed

section \<open>Recovery and the end of a turn\<close>

lemma refines_end:
  assumes held: "held_by t events" and find: "find_turn t i = Some u" and lane: "lane_turn t = Some i"
    and out: "\<not> outcome_refused out u" and c: "(out = Cancelled) = (c \<noteq> None)"
      "c \<noteq> Some Cancelled_queued"
    and st: "st \<in> set durable_statuses"
  shows "refines t events (update_turn st t events i (end_turn out c u) free_lane)"
proof -
  have wf: "wf_timeline t" using held by (simp add: held_by_def)
  show ?thesis
    by (rule refines_update_free [OF wf find step_end [OF find lane out c held_next [OF held]] st])
qed

lemma refines_terminal:
  assumes held: "held_by t events" and c: "(out = Cancelled) = (c \<noteq> None)" "c \<noteq> Some Cancelled_queued"
  shows "refines t events (reduce_terminal i owner token out b c now (Some t) events)"
  unfolding reduce_terminal_def
proof (rule with_lane_turn_refines [OF held], goal_cases)
  case (1 u)
  then show ?case
    using refines_end [OF held 1(2,1) _ c, of Ms_terminal] by (auto simp: durable_statuses_def)
qed

lemma outcome_cancelled: "outcome_refused Cancelled u = has_status [Started, Unknown_result] u"
  by (simp add: outcome_refused_def)

lemma refines_cancel:
  assumes held: "held_by t events"
  shows "refines t events (reduce_cancel i identity now (Some t) events)"
proof (cases "find_turn t i")
  case (Some u)
  have wf: "wf_timeline t" using held by (simp add: held_by_def)
  show ?thesis
  proof (cases "turn_status u")
    case Queued
    have "cancel_queued_turn u = (cancel_queued_turn u)\<lparr>recovery := recovery u\<rparr>"
      by (simp add: cancel_queued_turn_def)
    with step_cancel [OF Some Queued held_next [OF held], of "recovery u"]
    have "refines t events (update_turn Ms_terminal t events i (cancel_queued_turn u) id)"
      by (intro refines_update_id [OF wf Some]) (simp_all add: durable_statuses_def)
    then show ?thesis by (simp add: reduce_cancel_def Some Queued)
  next
    case Running
    then have lane: "lane_turn t = Some i"
      using find_turn_status(1) [OF wf Some] by simp
    note e = refines_end [OF held Some lane, of Cancelled "Some Cancelled_running" Ms_terminal]
    show ?thesis
      using e by (auto simp: reduce_cancel_def Some Running outcome_cancelled durable_statuses_def
          split: option.split)
  next
    case Terminal
    then show ?thesis by (simp add: reduce_cancel_def Some)
  qed
qed (simp add: reduce_cancel_def)

lemma all_precommitted:
  assumes "\<not> list_ex (\<lambda>d. \<not> is_precommitted d) (descriptors u)" and "set sts \<inter> {Precommitted} = {}"
  shows "\<not> has_status sts u"
  using assms by (auto simp: has_status_def list_ex_iff is_precommitted_def)

lemma refines_recover_unstarted:
  assumes held: "held_by t events"
  shows "refines t events (reduce_recover_unstarted i now (Some t) events)"
  unfolding reduce_recover_unstarted_def
proof (rule with_stale_turn_refines [OF held], goal_cases)
  case (1 u)
  have none: "\<not> outcome_refused Blocked u \<and> \<not> outcome_refused Cancelled u"
    if "\<not> list_ex (\<lambda>d. \<not> is_precommitted d) (descriptors u)"
    using all_precommitted [OF that, of "[Started, Unknown_result]"] by (simp add: outcome_refused_def)
  show ?case
    using none refines_end [OF held 1(2,1), of Blocked None Ms_recovery_pending_approval]
      refines_end [OF held 1(2,1), of Cancelled "Some Cancelled_running" Ms_recovery_cancelled]
    by (auto simp: durable_statuses_def)
qed

lemma quarantine_started_all:
  assumes "wf_turn u"
  shows "traverseE quarantine_started (descriptors u) = Inr (descriptors (quarantine_all u))"
proof -
  have "list_all wf_desc ds \<Longrightarrow> traverseE quarantine_started ds =
      Inr (map (\<lambda>d. if op_status d = Started then with_boundary d Unknown_result Effect_unknown else d) ds)"
    for ds
    by (induction ds) (simp_all add: quarantine_started_def with_boundary_wf(2))
  then show ?thesis
    using assms by (simp add: wf_turn_def quarantine_all_def)
qed

lemma refines_recover_started:
  assumes held: "held_by t events"
  shows "refines t events (reduce_recover_started i now (Some t) events)"
  unfolding reduce_recover_started_def
proof (rule with_stale_turn_refines [OF held], goal_cases)
  case (1 u)
  have wf: "wf_timeline t" using held by (simp add: held_by_def)
  have q: "u\<lparr>descriptors := descriptors (quarantine_all u), turn_boundary := Effect_unknown\<rparr>
      = quarantine_all u"
    by (simp add: quarantine_all_def)
  have "refines t events (update_turn Ms_recovery_unknown t events i
      (end_turn Outcome_unknown None (quarantine_all u)) free_lane)"
    if "list_ex (\<lambda>d. op_status d = Started) (descriptors u)"
    by (rule refines_update_free [OF wf 1(2) step_quarantine [OF 1(2,1) that held_next [OF held]]])
      (simp add: durable_statuses_def)
  then show ?case
    by (simp add: quarantine_started_all [OF 1(4)] q)
qed

text \<open>
  The start of an approved operation is the one transition that raises: a result or an abandonment
  leaves evidence on the operation, and the constructor refuses a started operation with evidence
  before the transition can answer.
\<close>

lemma refines_terminal_start:
  assumes held: "held_by t events"
  shows "refines t events (reduce_terminal_start i op call args (Some t) events)
    \<or> (reduce_terminal_start i op call args (Some t) events = Inl (Payload_error ''result evidence'')
       \<and> (\<exists>u d. find_turn t i = Some u \<and> find_descriptor u op = Some d \<and> op_settled (op_status d)))"
proof (cases "\<exists>u d. find_turn t i = Some u \<and> find_descriptor u op = Some d
    \<and> \<not> (result_digest d = None \<and> receipt_reference d = None)")
  case True
  then obtain u d where u: "find_turn t i = Some u" and d: "find_descriptor u op = Some d"
    and ev: "\<not> (result_digest d = None \<and> receipt_reference d = None)" by blast
  have wf: "wf_timeline t" using held by (simp add: held_by_def)
  have wd: "wf_desc d" using find_descriptor_wf [OF find_turn_status(2) [OF wf u] d] ..
  then have "op_settled (op_status d)"
    using ev by (cases "op_status d") (auto simp: wf_desc_def evidence_allowed_def op_settled_def)
  moreover have "check_descriptor (with_boundary d Started Effect_started)
      = Inl (Payload_error ''result evidence'')"
    using wd ev
    by (subst check_descriptor_texts)
      (auto simp: wf_desc_def desc_texts_def evidence_allowed_def with_boundary_def)
  ultimately show ?thesis
    using u d by (auto simp: reduce_terminal_start_def with_blocked_operation_def)
next
  case False
  have "refines t events (reduce_terminal_start i op call args (Some t) events)"
    unfolding reduce_terminal_start_def
  proof (rule with_blocked_refines [OF held], goal_cases)
    case (1 u d)
    have wd: "wf_desc d" using find_descriptor_wf [OF 1(4,3)] ..
    have "evidence_allowed (with_boundary d Started Effect_started)"
      using False 1(1,3) by (auto simp: evidence_allowed_def with_boundary_def)
    then have wd': "wf_desc (with_boundary d Started Effect_started)"
      using wd by (simp add: wf_desc_def desc_texts_def with_boundary_def)
    have "refines t events (update_turn Ms_boundary_updated t events i
        (put_operation op (with_boundary d Started Effect_started) u) id)"
      if "is_precommitted d"
      by (rule refines_move [OF held 1(1-3) _ wd' _ _ _ put_operation_boundary])
        (use that wf_precommitted [OF wd] in \<open>simp_all add: moved_boundary_def durable_statuses_def\<close>)
    then show ?case
      using wd' by simp
  qed
  then show ?thesis ..
qed

end
