(* ===== verification/Timeline_Store.thy ===== *)
theory Timeline_Store
  imports Strict_Session Timeline_Refinement
begin

text \<open>
  \<open>SessionTurnTimelineRepository\<close> on a strict session history (\<^verbatim>\<open>mochi/sessions/turn_timeline.py\<close>):
  the reader of the newest timeline event, the argument checks of the operations, and \<open>_apply\<close>, which
  runs a reduction under the store's compare-and-swap and writes the timeline it returns.

  Arguments have their annotated types: enumerations are datatypes and texts are strings.
\<close>

section \<open>Loading\<close>

definition timeline_event_name :: string where
  "timeline_event_name = ''session_turn_timeline''"

definition event_fields :: "string list" where
  "event_fields = [''type'', ''event'', ''schema_version'', ''session_id'', ''timeline'', ''timestamp'']"

definition parse_timeline_event ::
  "(string \<Rightarrow> aware option) \<Rightarrow> string \<Rightarrow> jdict \<Rightarrow> nat \<Rightarrow> timeline tl" where
  "parse_timeline_event other session event index =
     bindE (require_exact_fields event event_fields ''timeline event'') (\<lambda>_.
     bindE (case jget event ''schema_version'' of
              JInt v \<Rightarrow> requireE (v = 1) Unsupported_version
            | _ \<Rightarrow> Inl (Payload_error ''schema_version'')) (\<lambda>_.
     bindE (requireE (jget event ''type'' = JStr ''session_meta''
              \<and> jget event ''event'' = JStr timeline_event_name) (Payload_error ''envelope'')) (\<lambda>_.
     bindE (requireE (jget event ''session_id'' = JStr session) (Payload_error ''session_id'')) (\<lambda>_.
     bindE (parse_timestamp other (jget event ''timestamp'') ''timestamp'') (\<lambda>_.
     bindE (case jget event ''timeline'' of
              JObj p \<Rightarrow> timeline_from_dict other p
            | _ \<Rightarrow> Inl (Payload_error ''timeline'')) (\<lambda>t.
     bindE (requireE (tl_session t = session) (Payload_error ''payload session_id'')) (\<lambda>_.
     bindE (requireE (current_revision t = int index + 1)
              (Payload_error ''history_current_revision'')) (\<lambda>_.
       Inr t))))))))"

datatype timeline_load = Tl_missing | Tl_loaded timeline | Tl_invalid | Tl_unsupported

text \<open>
  \<open>_load_from_snapshot\<close>: every timeline event of the history must parse, the newest one counts. A
  \<open>TypeError\<close> or an overflow of the calendar is no payload error and leaves the function.
\<close>

fun load_timeline_from ::
  "(string \<Rightarrow> aware option) \<Rightarrow> string \<Rightarrow> timeline option \<Rightarrow> nat \<Rightarrow> jdict list
    \<Rightarrow> timeline_load tl" where
  "load_timeline_from other session latest index [] =
     Inr (case latest of None \<Rightarrow> Tl_missing | Some t \<Rightarrow> Tl_loaded t)"
| "load_timeline_from other session latest index (event # events) =
     (if jget event ''event'' \<noteq> JStr timeline_event_name
      then load_timeline_from other session latest (Suc index) events
      else case parse_timeline_event other session event index of
             Inr t \<Rightarrow> load_timeline_from other session (Some t) (Suc index) events
           | Inl Unsupported_version \<Rightarrow> Inr Tl_unsupported
           | Inl (Payload_error _) \<Rightarrow> Inr Tl_invalid
           | Inl e \<Rightarrow> Inl e)"

definition load_timeline ::
  "(string \<Rightarrow> aware option) \<Rightarrow> string \<Rightarrow> jdict list \<Rightarrow> timeline_load tl" where
  "load_timeline other session events = load_timeline_from other session None 0 events"

text \<open>The public \<open>load\<close>: a history that is not strict is an invalid timeline.\<close>

definition load_session_timeline ::
  "(json \<Rightarrow> string) \<Rightarrow> (string \<Rightarrow> aware option) \<Rightarrow> string \<Rightarrow> strict_file
    \<Rightarrow> timeline_error strict_error + timeline_load" where
  "load_session_timeline text_of other session f =
     (if py_strip session = [] then Inl (Event_error (ValueError ''session_id must not be empty.''))
      else case load_strict text_of (py_strip session) f of
        Inl Snapshot_error \<Rightarrow> Inr Tl_invalid
      | Inl e \<Rightarrow> Inl e
      | Inr events \<Rightarrow>
          (case load_timeline other session events of
             Inl e \<Rightarrow> Inl (Client_error e) | Inr l \<Rightarrow> Inr l))"

section \<open>The operations and their argument checks\<close>

datatype timeline_op =
    Op_admit string "jdict list" "string option" "string option" "string option"
  | Op_claim_next string string string
  | Op_renew_lease string string string string
  | Op_renew_admission string string string string
  | Op_recover_admission string
  | Op_precommit string string string descriptor
  | Op_result string string string string result_status "string option" "string option" "jdict list"
  | Op_approval_pending string string string string "jdict list"
  | Op_abandon string string string string string string "jdict list"
  | Op_terminal_start string string string string
  | Op_terminal_result string string string string result_status "string option" "string option"
  | Op_terminal_abandon string string string string string string
  | Op_recover_unstarted string
  | Op_recover_started string
  | Op_boundary string string string boundary "string option"
  | Op_terminal string string string terminal_outcome "boundary option"
      "cancellation_outcome option" "jdict list"
  | Op_cancel string "string option" "string option"

fun companions_of :: "timeline_op \<Rightarrow> jdict list" where
  "companions_of (Op_admit _ es _ _ _) = es"
| "companions_of (Op_result _ _ _ _ _ _ _ es) = es"
| "companions_of (Op_approval_pending _ _ _ _ es) = es"
| "companions_of (Op_abandon _ _ _ _ _ _ es) = es"
| "companions_of (Op_terminal _ _ _ _ _ _ es) = es"
| "companions_of _ = []"

definition text_arg :: "string \<Rightarrow> string \<Rightarrow> string tl" where
  "text_arg s field = require_text (JStr s) field"

text \<open>A lease deadline given by the caller: a timestamp after \<open>now\<close>.\<close>

definition future_arg :: "(string \<Rightarrow> aware option) \<Rightarrow> string \<Rightarrow> string \<Rightarrow> utc_time \<Rightarrow> utc_time tl" where
  "future_arg other s field now =
     bindE (parse_timestamp other (JStr s) field) (\<lambda>e.
     bindE (requireE (now < e) (Bad_value field)) (\<lambda>_. Inr e))"

definition admission_arg ::
  "(string \<Rightarrow> aware option) \<Rightarrow> utc_time \<Rightarrow> string option \<Rightarrow> string option \<Rightarrow> string option
    \<Rightarrow> admission tl" where
  "admission_arg other now owner token expires =
     (case (owner, token, expires) of
        (Some ow, Some tk, Some ex) \<Rightarrow>
          bindE (text_arg ow ''admission_owner'') (\<lambda>ow'.
          bindE (text_arg tk ''admission_token'') (\<lambda>tk'.
          bindE (future_arg other ex ''admission_lease_expires_at'' now) (\<lambda>e.
            Inr (Some (ow', tk', e)))))
      | (None, None, None) \<Rightarrow> Inr None
      | _ \<Rightarrow> Inl (Bad_value ''admission identity must be supplied completely''))"

definition evidence_arg ::
  "result_status \<Rightarrow> string option \<Rightarrow> string option \<Rightarrow> (string option \<times> string option) tl" where
  "evidence_arg st digest receipt =
     bindE (tl_optional require_namespaced_digest (opt_str digest) ''result_digest'') (\<lambda>d.
     bindE (tl_optional require_text (opt_str receipt) ''receipt_reference'') (\<lambda>r.
     bindE (requireE (\<not> (st = R_unknown \<and> (d \<noteq> None \<or> r \<noteq> None)))
              (Bad_value ''unknown operation result cannot claim result evidence'')) (\<lambda>_.
     bindE (requireE (st = R_unknown \<or> d \<noteq> None \<or> r \<noteq> None)
              (Bad_value ''known operation result requires result evidence'')) (\<lambda>_.
       Inr (d, r)))))"

text \<open>The four texts that name an operation of a blocked turn.\<close>

definition continuation_args ::
  "string \<Rightarrow> string \<Rightarrow> string \<Rightarrow> string \<Rightarrow> (string \<times> string \<times> string \<times> string) tl" where
  "continuation_args i op call digest =
     bindE (text_arg i ''turn_id'') (\<lambda>i'.
     bindE (text_arg op ''operation_id'') (\<lambda>op'.
     bindE (text_arg call ''call_id'') (\<lambda>call'.
     bindE (require_bare_digest (JStr digest) ''arguments_digest'') (\<lambda>digest'.
       Inr (i', op', call', digest')))))"

text \<open>The three texts of the lane owner.\<close>

definition lane_args :: "string \<Rightarrow> string \<Rightarrow> string \<Rightarrow> (string \<times> string \<times> string) tl" where
  "lane_args i owner token =
     bindE (text_arg i ''turn_id'') (\<lambda>i'.
     bindE (text_arg owner ''owner'') (\<lambda>ow.
     bindE (text_arg token ''token'') (\<lambda>tk. Inr (i', ow, tk))))"

definition cancel_arg :: "string option \<Rightarrow> string option \<Rightarrow> (string \<times> string) option tl" where
  "cancel_arg owner token =
     (case (owner, token) of
        (None, None) \<Rightarrow> Inr None
      | (Some ow, Some tk) \<Rightarrow>
          bindE (text_arg ow ''owner'') (\<lambda>ow'.
          bindE (text_arg tk ''token'') (\<lambda>tk'. Inr (Some (ow', tk'))))
      | _ \<Rightarrow> Inl (Bad_value ''owner and token must be supplied together''))"

text \<open>The argument checks of the operations, before their reduction; one dispatcher for all.\<close>

definition request_admit ::
  "(string \<Rightarrow> aware option) \<Rightarrow> string \<Rightarrow> utc_time \<Rightarrow> string \<Rightarrow> string option \<Rightarrow> string option \<Rightarrow> string option \<Rightarrow> reducer tl" where
  "request_admit other session now i owner token expires =
     bindE (text_arg i ''turn_id'') (\<lambda>i'.
     bindE (admission_arg other now owner token expires) (\<lambda>adm.
       Inr (reduce_admit session i' adm)))"

definition request_claim_next ::
  "(string \<Rightarrow> aware option) \<Rightarrow> utc_time \<Rightarrow> string \<Rightarrow> string \<Rightarrow> string \<Rightarrow> reducer tl" where
  "request_claim_next other now owner token expires =
     bindE (text_arg owner ''owner'') (\<lambda>ow.
     bindE (text_arg token ''token'') (\<lambda>tk.
     bindE (future_arg other expires ''lease_expires_at'' now) (\<lambda>e.
       Inr (reduce_claim_next ow tk e now))))"

definition request_renew_lease ::
  "(string \<Rightarrow> aware option) \<Rightarrow> utc_time \<Rightarrow> string \<Rightarrow> string \<Rightarrow> string \<Rightarrow> string \<Rightarrow> reducer tl" where
  "request_renew_lease other now i owner token expires =
     bindE (lane_args i owner token) (\<lambda>(i', ow, tk).
     bindE (future_arg other expires ''lease_expires_at'' now) (\<lambda>e.
       Inr (reduce_renew_lease i' ow tk e now)))"

definition request_renew_admission ::
  "(string \<Rightarrow> aware option) \<Rightarrow> utc_time \<Rightarrow> string \<Rightarrow> string \<Rightarrow> string \<Rightarrow> string \<Rightarrow> reducer tl" where
  "request_renew_admission other now i owner token expires =
     bindE (lane_args i owner token) (\<lambda>(i', ow, tk).
     bindE (future_arg other expires ''admission_lease_expires_at'' now) (\<lambda>e.
       Inr (reduce_renew_admission i' ow tk e now)))"

definition request_recover_admission ::
  "utc_time \<Rightarrow> string \<Rightarrow> reducer tl" where
  "request_recover_admission now i =
     bindE (text_arg i ''turn_id'') (\<lambda>i'. Inr (reduce_recover_admission i' now))"

definition request_precommit ::
  "utc_time \<Rightarrow> string \<Rightarrow> string \<Rightarrow> string \<Rightarrow> descriptor \<Rightarrow> reducer tl" where
  "request_precommit now i owner token d =
     bindE (check_descriptor d) (\<lambda>d'.
     bindE (lane_args i owner token) (\<lambda>(i', ow, tk).
     bindE (requireE (is_precommitted d') (Bad_value ''new operation descriptor'')) (\<lambda>_.
       Inr (reduce_precommit i' ow tk d' now))))"

definition request_result ::
  "utc_time \<Rightarrow> string \<Rightarrow> string \<Rightarrow> string \<Rightarrow> string \<Rightarrow> result_status \<Rightarrow> string option \<Rightarrow> string option \<Rightarrow> reducer tl" where
  "request_result now i owner token op st digest receipt =
     bindE (lane_args i owner token) (\<lambda>(i', ow, tk).
     bindE (text_arg op ''operation_id'') (\<lambda>op'.
     bindE (evidence_arg st digest receipt) (\<lambda>(d, r).
       Inr (reduce_result i' ow tk op' st d r now))))"

definition request_approval_pending ::
  "utc_time \<Rightarrow> string \<Rightarrow> string \<Rightarrow> string \<Rightarrow> string \<Rightarrow> reducer tl" where
  "request_approval_pending now i owner token op =
     bindE (lane_args i owner token) (\<lambda>(i', ow, tk).
     bindE (text_arg op ''operation_id'') (\<lambda>op'.
       Inr (reduce_approval_pending i' ow tk op' now)))"

definition request_abandon ::
  "utc_time \<Rightarrow> string \<Rightarrow> string \<Rightarrow> string \<Rightarrow> string \<Rightarrow> string \<Rightarrow> string \<Rightarrow> reducer tl" where
  "request_abandon now i owner token op digest receipt =
     bindE (lane_args i owner token) (\<lambda>(i', ow, tk).
     bindE (text_arg op ''operation_id'') (\<lambda>op'.
     bindE (require_namespaced_digest (JStr digest) ''result_digest'') (\<lambda>d.
     bindE (text_arg receipt ''receipt_reference'') (\<lambda>r.
       Inr (reduce_abandon i' ow tk op' d r now)))))"

definition request_terminal_start ::
  "string \<Rightarrow> string \<Rightarrow> string \<Rightarrow> string \<Rightarrow> reducer tl" where
  "request_terminal_start i op call digest =
     bindE (continuation_args i op call digest) (\<lambda>(i', op', call', digest').
       Inr (reduce_terminal_start i' op' call' digest'))"

definition request_terminal_result ::
  "string \<Rightarrow> string \<Rightarrow> string \<Rightarrow> string \<Rightarrow> result_status \<Rightarrow> string option \<Rightarrow> string option \<Rightarrow> reducer tl" where
  "request_terminal_result i op call digest st rd receipt =
     bindE (continuation_args i op call digest) (\<lambda>(i', op', call', digest').
     bindE (evidence_arg st rd receipt) (\<lambda>(d, r).
       Inr (reduce_terminal_result i' op' call' digest' st d r)))"

definition request_terminal_abandon ::
  "string \<Rightarrow> string \<Rightarrow> string \<Rightarrow> string \<Rightarrow> string \<Rightarrow> string \<Rightarrow> reducer tl" where
  "request_terminal_abandon i op call digest rd receipt =
     bindE (continuation_args i op call digest) (\<lambda>(i', op', call', digest').
     bindE (require_namespaced_digest (JStr rd) ''result_digest'') (\<lambda>d.
     bindE (text_arg receipt ''receipt_reference'') (\<lambda>r.
       Inr (reduce_terminal_abandon i' op' call' digest' d r))))"

definition request_recover_unstarted ::
  "utc_time \<Rightarrow> string \<Rightarrow> reducer tl" where
  "request_recover_unstarted now i =
     bindE (text_arg i ''turn_id'') (\<lambda>i'. Inr (reduce_recover_unstarted i' now))"

definition request_recover_started ::
  "utc_time \<Rightarrow> string \<Rightarrow> reducer tl" where
  "request_recover_started now i =
     bindE (text_arg i ''turn_id'') (\<lambda>i'. Inr (reduce_recover_started i' now))"

definition request_boundary ::
  "utc_time \<Rightarrow> string \<Rightarrow> string \<Rightarrow> string \<Rightarrow> boundary \<Rightarrow> string option \<Rightarrow> reducer tl" where
  "request_boundary now i owner token b op =
     bindE (lane_args i owner token) (\<lambda>(i', ow, tk).
     bindE (if b = Not_started \<and> op = None then Inr None
            else bindE (require_text (opt_str op) ''operation_id'') (\<lambda>x. Inr (Some x))) (\<lambda>op'.
       Inr (reduce_boundary i' ow tk b op' now)))"

definition request_terminal ::
  "utc_time \<Rightarrow> string \<Rightarrow> string \<Rightarrow> string \<Rightarrow> terminal_outcome \<Rightarrow> boundary option \<Rightarrow> cancellation_outcome option \<Rightarrow> reducer tl" where
  "request_terminal now i owner token out b c =
     bindE (lane_args i owner token) (\<lambda>(i', ow, tk).
     bindE (requireE ((out = Cancelled) = (c \<noteq> None)) (Bad_value ''cancellation_outcome'')) (\<lambda>_.
     bindE (requireE (c \<noteq> Some Cancelled_queued) (Bad_value ''queued cancellation'')) (\<lambda>_.
       Inr (reduce_terminal i' ow tk out b c now))))"

definition request_cancel ::
  "utc_time \<Rightarrow> string \<Rightarrow> string option \<Rightarrow> string option \<Rightarrow> reducer tl" where
  "request_cancel now i owner token =
     bindE (text_arg i ''turn_id'') (\<lambda>i'.
     bindE (cancel_arg owner token) (\<lambda>identity.
       Inr (reduce_cancel i' identity now)))"

fun request ::
  "(string \<Rightarrow> aware option) \<Rightarrow> string \<Rightarrow> utc_time \<Rightarrow> timeline_op \<Rightarrow> reducer tl" where
  "request other session now (Op_admit i _ owner token expires) = request_admit other session now i owner token expires"
| "request other session now (Op_claim_next owner token expires) = request_claim_next other now owner token expires"
| "request other session now (Op_renew_lease i owner token expires) = request_renew_lease other now i owner token expires"
| "request other session now (Op_renew_admission i owner token expires) = request_renew_admission other now i owner token expires"
| "request other session now (Op_recover_admission i) = request_recover_admission now i"
| "request other session now (Op_precommit i owner token d) = request_precommit now i owner token d"
| "request other session now (Op_result i owner token op st digest receipt _) = request_result now i owner token op st digest receipt"
| "request other session now (Op_approval_pending i owner token op _) = request_approval_pending now i owner token op"
| "request other session now (Op_abandon i owner token op digest receipt _) = request_abandon now i owner token op digest receipt"
| "request other session now (Op_terminal_start i op call digest) = request_terminal_start i op call digest"
| "request other session now (Op_terminal_result i op call digest st rd receipt) = request_terminal_result i op call digest st rd receipt"
| "request other session now (Op_terminal_abandon i op call digest rd receipt) = request_terminal_abandon i op call digest rd receipt"
| "request other session now (Op_recover_unstarted i) = request_recover_unstarted now i"
| "request other session now (Op_recover_started i) = request_recover_started now i"
| "request other session now (Op_boundary i owner token b op) = request_boundary now i owner token b op"
| "request other session now (Op_terminal i owner token out b c _) = request_terminal now i owner token out b c"
| "request other session now (Op_cancel i owner token) = request_cancel now i owner token"

lemmas request_defs [simp] =
  request_admit_def
  request_claim_next_def
  request_renew_lease_def
  request_renew_admission_def
  request_recover_admission_def
  request_precommit_def
  request_result_def
  request_approval_pending_def
  request_abandon_def
  request_terminal_start_def
  request_terminal_result_def
  request_terminal_abandon_def
  request_recover_unstarted_def
  request_recover_started_def
  request_boundary_def
  request_terminal_def
  request_cancel_def

text \<open>\<open>_normalize_companion_events\<close>.\<close>

definition check_companions :: "string \<Rightarrow> jdict list \<Rightarrow> unit tl" where
  "check_companions session events =
     bindE (traverseE (\<lambda>e.
       bindE (requireE (e \<noteq> []) (Bad_type ''companion event'')) (\<lambda>_.
         requireE (jget e ''session_id'' = JStr session) (Payload_error ''companion event''))) events)
       (\<lambda>_. Inr ())"

section \<open>Writing\<close>

definition timeline_event :: "string \<Rightarrow> utc_time \<Rightarrow> timeline \<Rightarrow> jdict" where
  "timeline_event session written t =
     [(''type'', JStr ''session_meta''),
      (''event'', JStr timeline_event_name),
      (''schema_version'', JInt 1),
      (''session_id'', JStr session),
      (''timeline'', JObj (timeline_to_dict t)),
      (''timestamp'', JStr (isoformat written))]"

text \<open>
  \<open>build_events\<close>: the outcome for the caller and the batch to append. A timeline equal to the loaded
  one, and an answer that is not one of the durable statuses, are not written. The companion events
  precede the timeline event, whose position the timeline records.
\<close>

fun loaded_timeline :: "timeline_load \<Rightarrow> timeline option" where
  "loaded_timeline (Tl_loaded t) = Some t"
| "loaded_timeline _ = None"

definition build_events ::
  "(string \<Rightarrow> aware option) \<Rightarrow> string \<Rightarrow> utc_time \<Rightarrow> jdict list \<Rightarrow> reducer \<Rightarrow> jdict list
    \<Rightarrow> timeline_error + reduction \<times> jdict list option" where
  "build_events other session written companions reducer events =
     bindE (load_timeline other session events) (\<lambda>loaded.
       if loaded = Tl_invalid
       then Inr (\<lparr>red_status = Ms_invalid, red_timeline = None\<rparr>, None)
       else if loaded = Tl_unsupported
       then Inr (\<lparr>red_status = Ms_unsupported_version, red_timeline = None\<rparr>, None)
       else bindE (reducer (loaded_timeline loaded) events) (\<lambda>r.
         if red_timeline r = loaded_timeline loaded then Inr (r, None)
         else case red_timeline r of
           None \<Rightarrow> Inr (r, None)
         | Some t \<Rightarrow>
             if red_status r \<notin> set durable_statuses then Inr (r, None)
             else let position = int (length events) + int (length companions) + 1
               in bindE (if current_revision t = position then Inr t
                         else check_timeline (t\<lparr>current_revision := position\<rparr>)) (\<lambda>t'.
                    Inr (r\<lparr>red_timeline := Some t'\<rparr>,
                         Some (companions @ [timeline_event session written t'])))))"

record mutation_result =
  mr_status :: mutation_status
  mr_timeline :: "timeline option"
  mr_revision :: "string option"

record timeline_call =
  tc_now :: utc_time
  tc_written :: utc_time
  tc_expected :: string
  tc_op :: timeline_op

text \<open>An operation of the repository, whole: argument checks, then \<open>_apply\<close> on the session file.\<close>

definition apply_reducer ::
  "(json \<Rightarrow> string) \<Rightarrow> (jdict list \<Rightarrow> string) \<Rightarrow> publication \<Rightarrow> (string \<Rightarrow> aware option) \<Rightarrow> string
    \<Rightarrow> strict_file \<Rightarrow> utc_time \<Rightarrow> string \<Rightarrow> jdict list \<Rightarrow> reducer
    \<Rightarrow> strict_file \<times> (timeline_error strict_error + mutation_result)" where
  "apply_reducer text_of revision_of pub other session f written expected companions reducer =
     (case mutate_strict text_of revision_of pub session f expected
             (build_events other session written companions reducer) of
        (f', Inl Snapshot_error) \<Rightarrow>
          (f', Inr \<lparr>mr_status = Ms_invalid, mr_timeline = None, mr_revision = None\<rparr>)
      | (f', Inl e) \<Rightarrow> (f', Inl e)
      | (f', Inr r) \<Rightarrow>
          (f', Inr
            (if append_status r = Rebase_required
             then \<lparr>mr_status = Ms_rebase_required, mr_timeline = None,
                   mr_revision = Some (revision_of (append_before r))\<rparr>
             else case append_note r of
                    None \<Rightarrow> \<lparr>mr_status = Ms_invalid, mr_timeline = None,
                              mr_revision = Some (revision_of (append_before r))\<rparr>
                  | Some out \<Rightarrow>
                      \<lparr>mr_status = red_status out, mr_timeline = red_timeline out,
                       mr_revision = Some (revision_of
                         (if append_status r = Appended then append_after r
                          else append_before r))\<rparr>)))"

definition timeline_step ::
  "(json \<Rightarrow> string) \<Rightarrow> (jdict list \<Rightarrow> string) \<Rightarrow> publication \<Rightarrow> (string \<Rightarrow> aware option) \<Rightarrow> string
    \<Rightarrow> strict_file \<Rightarrow> timeline_call \<Rightarrow> strict_file \<times> (timeline_error strict_error + mutation_result)"
  where
  "timeline_step text_of revision_of pub other session f call =
     (case request other session (tc_now call) (tc_op call) of
        Inl e \<Rightarrow> (f, Inl (Client_error e))
      | Inr reducer \<Rightarrow>
     (case check_companions session (companions_of (tc_op call)) of
        Inl e \<Rightarrow> (f, Inl (Client_error e))
      | Inr _ \<Rightarrow>
          apply_reducer text_of revision_of pub other session f (tc_written call)
            (tc_expected call) (companions_of (tc_op call)) reducer))"

end
