(* ===== verification/Timeline_Codec.thy ===== *)
theory Timeline_Codec
  imports Timeline_Store
begin

text \<open>
  A well-formed timeline read from its own serialisation is the same timeline, and the event that
  carries it is a strict event of its session: what the repository writes, the next load returns.
\<close>

section \<open>Fields\<close>

lemma parse_name_text [simp]:
  "parse_name op_status_text op_statuses (op_status_text st) f = Inr st"
  "parse_name boundary_text boundaries (boundary_text b) f = Inr b"
  "parse_name turn_status_text turn_statuses (turn_status_text ts) f = Inr ts"
  "parse_name terminal_outcome_text terminal_outcomes (terminal_outcome_text out) f = Inr out"
  "parse_name cancellation_text cancellation_outcomes (cancellation_text c) f = Inr c"
proof -
  show "parse_name op_status_text op_statuses (op_status_text st) f = Inr st"
    by (cases st) (simp_all add: parse_name_def op_statuses_def)
  show "parse_name boundary_text boundaries (boundary_text b) f = Inr b"
    by (cases b) (simp_all add: parse_name_def boundaries_def)
  show "parse_name turn_status_text turn_statuses (turn_status_text ts) f = Inr ts"
    by (cases ts) (simp_all add: parse_name_def turn_statuses_def)
  show "parse_name terminal_outcome_text terminal_outcomes (terminal_outcome_text out) f = Inr out"
    by (cases out) (simp_all add: parse_name_def terminal_outcomes_def)
  show "parse_name cancellation_text cancellation_outcomes (cancellation_text c) f = Inr c"
    by (cases c) (simp_all add: parse_name_def cancellation_outcomes_def)
qed

lemma parse_optional_name_text [simp]:
  "parse_optional_name terminal_outcome_text terminal_outcomes
     (opt_str (map_option terminal_outcome_text v)) f = Inr v"
  "parse_optional_name cancellation_text cancellation_outcomes
     (opt_str (map_option cancellation_text w)) f = Inr w"
  by (cases v; simp add: parse_optional_name_def) (cases w; simp add: parse_optional_name_def)

lemma parse_recovery_text [simp]: "parse_recovery (opt_str (map_option recovery_text v)) = Inr v"
proof (cases v)
  case (Some r)
  then show ?thesis
    by (cases r) (simp add: parse_recovery_def parse_optional_name_def parse_name_def)
qed (simp add: parse_recovery_def parse_optional_name_def)

lemma tl_optional_ident [simp]:
  "opt_ok text_ok v \<Longrightarrow> tl_optional require_text (opt_str v) f = Inr v"
  "opt_ok digest_ok v \<Longrightarrow> tl_optional require_namespaced_digest (opt_str v) f = Inr v"
  by (cases v; simp add: tl_optional_def)+

lemma name_text_ok [simp]: "text_ok (op_status_text st)" "text_ok (boundary_text b)"
proof -
  have space: "\<not> py_space c" if "c \<in> set ''abcdefghijklmnopqrstuvwxyz_''" for c
    using that by (simp only: list.set insert_iff) (elim disjE; simp add: py_space_def)
  have "set (op_status_text st) \<subseteq> set ''abcdefghijklmnopqrstuvwxyz_''" "op_status_text st \<noteq> []"
    by (cases st; simp)+
  then show "text_ok (op_status_text st)"
    using space by (auto simp: text_ok_def intro!: py_strip_no_space)
  have "set (boundary_text b) \<subseteq> set ''abcdefghijklmnopqrstuvwxyz_''" "boundary_text b \<noteq> []"
    by (cases b; simp)+
  then show "text_ok (boundary_text b)"
    using space by (auto simp: text_ok_def intro!: py_strip_no_space)
qed

lemma isoformat_text_ok [simp]: "text_ok (isoformat t)"
proof -
  have "py_strip (isoformat t) = isoformat t"
    by (rule py_strip_no_space) (use isoformat_chars in blast)
  moreover have "isoformat t \<noteq> []"
    by (cases t) simp
  ultimately show ?thesis by (simp add: text_ok_def)
qed

lemma parse_timestamp_isoformat [simp]:
  "valid_instant t \<Longrightarrow> parse_timestamp other (JStr (isoformat t)) f = Inr t"
  by (simp add: parse_timestamp_def)

section \<open>Descriptors and turns\<close>

lemma descriptor_jget:
  "jget (descriptor_to_dict d) ''operation_id'' = JStr (operation_id d)"
  "jget (descriptor_to_dict d) ''tool_name'' = JStr (tool_name d)"
  "jget (descriptor_to_dict d) ''arguments_digest'' = JStr (arguments_digest d)"
  "jget (descriptor_to_dict d) ''call_id'' = JStr (call_id d)"
  "jget (descriptor_to_dict d) ''status'' = JStr (op_status_text (op_status d))"
  "jget (descriptor_to_dict d) ''precommit_boundary'' = JStr (boundary_text (precommit_boundary d))"
  "jget (descriptor_to_dict d) ''result_digest'' = opt_str (result_digest d)"
  "jget (descriptor_to_dict d) ''receipt_reference'' = opt_str (receipt_reference d)"
  by (simp_all add: descriptor_to_dict_def jget_def)

lemma descriptor_round_trip:
  assumes "wf_desc d"
  shows "descriptor_from_dict (descriptor_to_dict d) = Inr d"
proof -
  have t: "text_ok (operation_id d)" "text_ok (tool_name d)" "text_ok (call_id d)"
    "text_ok (arguments_digest d)" "bare_digest (arguments_digest d)"
    "opt_ok digest_ok (result_digest d)" "opt_ok text_ok (receipt_reference d)"
    using assms by (simp_all add: wf_desc_def desc_texts_def)
  have keys: "require_exact_fields (descriptor_to_dict d) descriptor_fields f = Inr ()" for f
    by (simp add: require_exact_fields_def descriptor_to_dict_def descriptor_fields_def)
  have d: "\<lparr>operation_id = operation_id d, tool_name = tool_name d,
      arguments_digest = arguments_digest d, call_id = call_id d, op_status = op_status d,
      precommit_boundary = precommit_boundary d, result_digest = result_digest d,
      receipt_reference = receipt_reference d\<rparr> = d"
    by simp
  show ?thesis
    unfolding descriptor_from_dict_def keys descriptor_jget
    by (simp add: t d check_descriptor_ident [OF assms])
qed

lemma turn_jget:
  "jget (turn_to_dict u) ''sequence'' = JInt (turn_sequence u)"
  "jget (turn_to_dict u) ''turn_id'' = JStr (turn_id u)"
  "jget (turn_to_dict u) ''status'' = JStr (turn_status_text (turn_status u))"
  "jget (turn_to_dict u) ''side_effect_boundary'' = JStr (boundary_text (turn_boundary u))"
  "jget (turn_to_dict u) ''operation_descriptors''
     = JList (map (\<lambda>d. JObj (descriptor_to_dict d)) (descriptors u))"
  "jget (turn_to_dict u) ''legacy_operation_ids'' = JList (map JStr (legacy_operation_ids u))"
  "jget (turn_to_dict u) ''cancellation_outcome'' = opt_str (map_option cancellation_text (cancellation u))"
  "jget (turn_to_dict u) ''terminal_outcome'' = opt_str (map_option terminal_outcome_text (outcome u))"
  "jget (turn_to_dict u) ''admission_owner'' = opt_str (admission_owner u)"
  "jget (turn_to_dict u) ''admission_token'' = opt_str (admission_token u)"
  "jget (turn_to_dict u) ''admission_lease_expires_at'' = opt_instant (admission_expires u)"
  "jget (turn_to_dict u) ''recovery_reason'' = opt_str (map_option recovery_text (recovery u))"
  by (simp_all add: turn_to_dict_def jget_def)

lemma require_objects_map [simp]: "require_objects (map (\<lambda>x. JObj (f x)) xs) field = Inr (map f xs)"
  by (simp add: require_objects_def traverseE_map) (induction xs; simp)

lemma opt_str_cases [simp]: "v = None \<or> (\<exists>y. opt_str (map_option f v) = JStr y)"
  by (cases v) simp_all

lemma opt_instant_text [simp]:
  "tl_optional require_text (opt_instant v) f = Inr (map_option isoformat v)"
  unfolding opt_instant_def by (cases v) (simp_all add: tl_optional_def)

lemma parse_admission_text:
  assumes "admission_whole u" and "opt_ok valid_instant (admission_expires u)"
  shows "parse_admission other (admission_owner u) (admission_token u)
    (map_option isoformat (admission_expires u)) = Inr (admission_expires u)"
  using assms
  by (cases "admission_expires u") (simp_all add: parse_admission_def complete_or_absent_3 admission_whole_def)

lemma turn_round_trip:
  assumes "wf_turn u"
  shows "turn_from_dict other (turn_to_dict u) = Inr u"
proof -
  have t: "text_ok (turn_id u)" "list_all text_ok (legacy_operation_ids u)"
    "opt_ok text_ok (admission_owner u)" "opt_ok text_ok (admission_token u)"
    and i: "turn_identity u" and a: "admission_whole u" "opt_ok valid_instant (admission_expires u)"
    and shape: "status_shape u" and ds: "list_all wf_desc (descriptors u)"
    using assms by (simp_all add: wf_turn_def turn_texts_def)
  have keys: "require_exact_fields (turn_to_dict u) turn_fields f = Inr ()" for f
    by (simp add: require_exact_fields_def turn_to_dict_def turn_fields_def)
  have read: "traverseE descriptor_from_dict (map descriptor_to_dict (descriptors u)) = Inr (descriptors u)"
    using ds by (simp add: traverseE_map traverseE_ident list_all_iff descriptor_round_trip)
  have legacy: "normalize_identifiers (map JStr (legacy_operation_ids u)) f = Inr (legacy_operation_ids u)" for f
    using t(2) i by (simp add: normalize_identifiers_texts turn_identity_def turn_operation_ids_distinct)
  let ?v = "u\<lparr>cancellation := None, outcome := None, admission_expires := None, recovery := None\<rparr>"
  have raw: "\<lparr>turn_sequence = turn_sequence u, turn_id = turn_id u, turn_status = turn_status u,
      turn_boundary = turn_boundary u, descriptors = descriptors u,
      legacy_operation_ids = legacy_operation_ids u, cancellation = None, outcome = None,
      admission_owner = admission_owner u, admission_token = admission_token u,
      admission_expires = None, recovery = None\<rparr> = ?v"
    by simp
  have identity: "check_turn_identity ?v = Inr ?v"
    using t i by (subst check_identity_texts) (simp_all add: turn_identity_def turn_operation_ids_def)
  have whole: "?v\<lparr>cancellation := cancellation u, outcome := outcome u, recovery := recovery u,
      admission_expires := admission_expires u\<rparr> = u"
    by simp
  have state: "check_turn_state u = Inr u"
    using t a shape by (subst check_state_texts) simp_all
  have pos: "require_positive_int (JInt (turn_sequence u)) f = Inr (turn_sequence u)" for f
    using i by (simp add: require_positive_int_def turn_identity_def)
  show ?thesis
    unfolding turn_from_dict_def keys bindE_Inr read_descriptor_array_def turn_jget require_array_def
      json.case require_objects_map read read_turn_def
    by (simp add: t pos parse_text_name_def legacy parse_admission_text [OF a] raw
        identity whole state)
qed

section \<open>Timelines\<close>

lemma timeline_jget:
  "jget (timeline_to_dict t) ''timeline_version'' = JStr timeline_version"
  "jget (timeline_to_dict t) ''session_id'' = JStr (tl_session t)"
  "jget (timeline_to_dict t) ''history_base_revision'' = JInt (base_revision t)"
  "jget (timeline_to_dict t) ''history_current_revision'' = JInt (current_revision t)"
  "jget (timeline_to_dict t) ''turns'' = JList (map (\<lambda>u. JObj (turn_to_dict u)) (turns t))"
  "jget (timeline_to_dict t) ''lane_turn_id'' = opt_str (lane_turn t)"
  "jget (timeline_to_dict t) ''lane_owner'' = opt_str (lane_owner t)"
  "jget (timeline_to_dict t) ''lane_token'' = opt_str (lane_token t)"
  "jget (timeline_to_dict t) ''lane_lease_expires_at'' = opt_instant (lane_expires t)"
  by (simp_all add: timeline_to_dict_def jget_def)

lemma turn_reader_current: "turn_reader other (JStr timeline_version) = Inr (turn_from_dict other)"
  by (simp add: turn_reader_def timeline_version_def)

lemma parse_lane_expiry_text:
  assumes "lane_whole t" and "opt_ok valid_instant (lane_expires t)"
  shows "parse_lane_expiry other [lane_turn t, lane_owner t, lane_token t]
    (map_option isoformat (lane_expires t)) = Inr (lane_expires t)"
  using assms
  by (cases "lane_expires t") (simp_all add: parse_lane_expiry_def complete_or_absent_4 lane_whole_def)

lemma timeline_round_trip:
  assumes "wf_timeline t"
  shows "timeline_from_dict other (timeline_to_dict t) = Inr t"
proof -
  have t: "text_ok (tl_session t)" "opt_ok text_ok (lane_turn t)" "opt_ok text_ok (lane_owner t)"
    "opt_ok text_ok (lane_token t)" and h: "wf_history t" and l: "lane_whole t" "lane_texts t" "wf_lane t"
    and e: "opt_ok valid_instant (lane_expires t)" and us: "list_all wf_turn (turns t)"
    using assms by (simp_all add: wf_timeline_def lane_texts_def)
  have keys: "require_exact_fields (timeline_to_dict t) timeline_fields f = Inr ()" for f
    by (simp add: require_exact_fields_def timeline_to_dict_def timeline_fields_def)
  have read: "traverseE (turn_from_dict other) (map turn_to_dict (turns t)) = Inr (turns t)"
    using us by (simp add: traverseE_map traverseE_ident list_all_iff turn_round_trip)
  have ints: "require_non_negative_int (JInt (base_revision t)) f = Inr (base_revision t)"
    "require_positive_int (JInt (current_revision t)) f = Inr (current_revision t)" for f
    using h by (simp_all add: require_non_negative_int_def require_positive_int_def wf_history_def)
  let ?v = "t\<lparr>lane_expires := None\<rparr>"
  have raw: "\<lparr>tl_session = tl_session t, base_revision = base_revision t,
      current_revision = current_revision t, turns = turns t, lane_turn = lane_turn t,
      lane_owner = lane_owner t, lane_token = lane_token t, lane_expires = None\<rparr> = ?v"
    by simp
  have "wf_history ?v" using h by (simp add: wf_history_def)
  then have body: "check_timeline_turns ?v = Inr ?v"
    using t(1) by (simp add: check_timeline_turns_Inr text_ok_def)
  have lane: "check_timeline_lane t = Inr t"
    using check_timeline_lane_texts [OF l(2) h, of t] l by simp
  show ?thesis
    unfolding timeline_from_dict_def keys bindE_Inr timeline_jget require_array_def json.case
      require_objects_map turn_reader_current read
    by (simp add: t ints parse_lane_expiry_text [OF l(1) e] raw body lane)
qed

lemma timeline_event_jget:
  "jget (timeline_event session w t) ''type'' = JStr ''session_meta''"
  "jget (timeline_event session w t) ''event'' = JStr timeline_event_name"
  "jget (timeline_event session w t) ''schema_version'' = JInt 1"
  "jget (timeline_event session w t) ''session_id'' = JStr session"
  "jget (timeline_event session w t) ''timeline'' = JObj (timeline_to_dict t)"
  "jget (timeline_event session w t) ''timestamp'' = JStr (isoformat w)"
  "jget (timeline_event session w t) ''payload'' = JNull"
  "jget (timeline_event session w t) ''failure'' = JNull"
  "jget (timeline_event session w t) ''error'' = JNull"
  "jget (timeline_event session w t) ''message'' = JNull"
  "jget (timeline_event session w t) ''code'' = JNull"
  "jget (timeline_event session w t) ''metadata'' = JNull"
  by (simp_all add: timeline_event_def jget_def)

lemma timeline_event_parses:
  assumes "wf_timeline t" and "tl_session t = session" and "valid_instant w"
    and "current_revision t = int index + 1"
  shows "parse_timeline_event other session (timeline_event session w t) index = Inr t"
proof -
  have keys: "require_exact_fields (timeline_event session w t) event_fields f = Inr ()" for f
    by (simp add: require_exact_fields_def timeline_event_def event_fields_def)
  show ?thesis
    unfolding parse_timeline_event_def keys bindE_Inr timeline_event_jget
    using assms by (simp add: timeline_round_trip)
qed

lemma session_meta_is_no_failure:
  "legacy_failure_envelope text_of ''session_meta'' None None None None = Inr None"
  by code_simp

lemma timeline_event_normal:
  "normalize_persisted_failure_event text_of (timeline_event session w t) = Inr (timeline_event session w t)"
  by (subst normalize_persisted_failure_event.simps)
    (simp add: timeline_event_jget normalize_serialized_failure_def coerce_event_failure_def
      text_or_def session_meta_is_no_failure Let_def)

lemma json_finite_simps [simp]:
  "json_finite (opt_instant v)" "json_finite (JObj (descriptor_to_dict d))"
  "json_finite (JObj (turn_to_dict u))" "json_finite (JObj (timeline_to_dict t))"
proof -
  show inst: "json_finite (opt_instant v)" for v by (simp add: opt_instant_def)
  show d: "json_finite (JObj (descriptor_to_dict d))" for d
    by (simp add: descriptor_to_dict_def)
  show u: "json_finite (JObj (turn_to_dict u))" for u
    using d inst by (simp add: turn_to_dict_def list_all_iff)
  show "json_finite (JObj (timeline_to_dict t))"
    using u inst by (simp add: timeline_to_dict_def list_all_iff)
qed

lemma timeline_event_strict: "strict_event text_of session (timeline_event session w t)"
  using json_finite_simps(4) [of t]
  by (simp add: strict_event_def timeline_event_normal names_session_def)
    (simp add: timeline_event_def)

end
