(* ===== verification/Timeline_Apply.thy ===== *)
theory Timeline_Apply
  imports Timeline_Codec
begin

text \<open>
  The repository on a session file. A timeline that loads is well formed and was written at a position
  of the history; an operation leaves the file as it is or appends the timeline of a lane step, and
  the next load returns exactly that timeline.
\<close>

section \<open>What loads is well formed\<close>

lemma parse_timestamp_valid:
  assumes "parse_timestamp other v f = Inr t"
  shows "valid_instant t"
proof -
  obtain x where x: "(case fromisoformat other (replace_zulu x) of
      None \<Rightarrow> Inl (Payload_error f)
    | Some a \<Rightarrow> (case to_utc a of None \<Rightarrow> Inl Date_overflow | Some t \<Rightarrow> Inr t)) = Inr t"
    using assms unfolding parse_timestamp_def bindE_eq_Inr by blast
  then obtain a where a: "fromisoformat other (replace_zulu x) = Some a"
    by (cases "fromisoformat other (replace_zulu x)") simp_all
  then have "to_utc a = Some t"
    using x by (cases "to_utc a") simp_all
  then show ?thesis
    using to_utc_valid fromisoformat_valid [OF a] by blast
qed

lemma parse_admission_valid: "parse_admission other a b c = Inr v \<Longrightarrow> opt_ok valid_instant v"
  by (auto simp: parse_admission_def result_simps split: option.splits dest: parse_timestamp_valid)

lemma parse_lane_expiry_valid: "parse_lane_expiry other xs c = Inr v \<Longrightarrow> opt_ok valid_instant v"
  by (auto simp: parse_lane_expiry_def result_simps split: option.splits dest: parse_timestamp_valid)

lemma read_descriptors_wf:
  "traverseE reader objects = Inr ds \<Longrightarrow> (\<And>p d. reader p = Inr d \<Longrightarrow> wf_desc d) \<Longrightarrow> list_all wf_desc ds"
  by (auto simp: list_all_iff dest: traverseE_set)

lemma descriptor_from_dict_wf: "descriptor_from_dict p = Inr d \<Longrightarrow> wf_desc d"
  unfolding descriptor_from_dict_def bindE_eq_Inr by (blast dest: check_descriptor_wf)

lemma descriptor_from_v2_dict_wf: "descriptor_from_v2_dict p = Inr d \<Longrightarrow> wf_desc d"
  unfolding descriptor_from_v2_dict_def bindE_eq_Inr by (blast dest: check_descriptor_wf)

lemma read_turn_wf:
  assumes "read_turn other p read_ds legacy = Inr u" and "\<And>ds. read_ds = Inr ds \<Longrightarrow> list_all wf_desc ds"
  shows "wf_turn u"
proof -
  obtain n i ds ow tk st b ls t co out rr expiry where
    ds: "read_ds = Inr ds"
    and t: "check_turn_identity \<lparr>turn_sequence = n, turn_id = i, turn_status = st,
        turn_boundary = b, descriptors = ds, legacy_operation_ids = ls, cancellation = None,
        outcome = None, admission_owner = ow, admission_token = tk, admission_expires = None,
        recovery = None\<rparr> = Inr t"
    and expiry: "opt_ok valid_instant expiry"
    and u: "check_turn_state (t\<lparr>cancellation := co, outcome := out, recovery := rr,
        admission_expires := expiry\<rparr>) = Inr u"
    using assms(1) unfolding read_turn_def bindE_eq_Inr by (blast dest: parse_admission_valid)
  note a = check_identity_ok [OF t] and c = check_state_ok [OF u]
  from a obtain i' ls' where t': "t = \<lparr>turn_sequence = n, turn_id = i', turn_status = st,
        turn_boundary = b, descriptors = ds, legacy_operation_ids = ls', cancellation = None,
        outcome = None, admission_owner = ow, admission_token = tk, admission_expires = None,
        recovery = None\<rparr>" by auto
  from c obtain ow' tk' where u': "u = t\<lparr>cancellation := co, outcome := out, recovery := rr,
        admission_expires := expiry, admission_owner := ow', admission_token := tk'\<rparr>" by auto
  have "turn_identity u"
    using a by (simp add: u' t' turn_identity_def turn_operation_ids_def)
  then show ?thesis
    using a c expiry assms(2) [OF ds] by (simp add: wf_turn_def turn_texts_def u' t')
qed

lemma turn_reader_wf:
  assumes "turn_reader other version = Inr reader" and "reader p = Inr u"
  shows "wf_turn u"
proof -
  have cur: "wf_turn u" if "turn_from_dict other p = Inr u" for p
  proof -
    from that obtain raw legacy where
      "read_turn other p (traverseE descriptor_from_dict raw) legacy = Inr u"
      unfolding turn_from_dict_def read_descriptor_array_def bindE_eq_Inr by blast
    then show ?thesis
      by (rule read_turn_wf) (rule read_descriptors_wf [OF _ descriptor_from_dict_wf])
  qed
  have v3: "wf_turn u" if "turn_from_v3_dict other p = Inr u"
    using that cur unfolding turn_from_v3_dict_def bindE_eq_Inr by blast
  have v2: "wf_turn u" if "turn_from_v2_dict other p = Inr u"
  proof -
    from that obtain raw legacy where
      "read_turn other p (traverseE descriptor_from_v2_dict raw) legacy = Inr u"
      unfolding turn_from_v2_dict_def read_descriptor_array_def bindE_eq_Inr by blast
    then show ?thesis
      by (rule read_turn_wf) (rule read_descriptors_wf [OF _ descriptor_from_v2_dict_wf])
  qed
  have v1: "wf_turn u" if "turn_from_v1_dict other p = Inr u"
  proof -
    from that obtain legacy where "read_turn other p (Inr []) legacy = Inr u"
      unfolding turn_from_v1_dict_def bindE_eq_Inr by blast
    then show ?thesis by (rule read_turn_wf) simp
  qed
  show ?thesis
    using assms cur v1 v2 v3
    by (auto simp: turn_reader_def split: json.splits option.splits if_splits)
qed

lemma timeline_from_dict_wf:
  assumes "timeline_from_dict other p = Inr t"
  shows "wf_timeline t"
proof -
  obtain reader objects s b c us i ow tk x expiry where
    reader: "turn_reader other (jget p ''timeline_version'') = Inr reader"
    and us: "traverseE reader objects = Inr us"
    and x: "check_timeline_turns \<lparr>tl_session = s, base_revision = b, current_revision = c,
        turns = us, lane_turn = i, lane_owner = ow, lane_token = tk, lane_expires = None\<rparr> = Inr x"
    and expiry: "opt_ok valid_instant expiry"
    and t: "check_timeline_lane (x\<lparr>lane_expires := expiry\<rparr>) = Inr t"
    using assms unfolding timeline_from_dict_def bindE_eq_Inr by (blast dest: parse_lane_expiry_valid)
  have wf: "list_all wf_turn us"
    using us turn_reader_wf [OF reader] by (auto simp: list_all_iff dest: traverseE_set)
  from x have x': "x = \<lparr>tl_session = py_strip s, base_revision = b, current_revision = c,
        turns = us, lane_turn = i, lane_owner = ow, lane_token = tk, lane_expires = None\<rparr>"
    and s: "py_strip s \<noteq> []"
    and h: "wf_history \<lparr>tl_session = s, base_revision = b, current_revision = c,
        turns = us, lane_turn = i, lane_owner = ow, lane_token = tk, lane_expires = None\<rparr>"
    by (auto simp: check_timeline_turns_Inr)
  have "wf_history (x\<lparr>lane_expires := expiry\<rparr>)"
    using h by (simp add: x' wf_history_def)
  from check_timeline_lane_ok [OF t this] obtain i' ow' tk' where
    l: "lane_whole t" "lane_texts t" "wf_lane t"
    and t': "t = x\<lparr>lane_expires := expiry, lane_turn := i', lane_owner := ow', lane_token := tk'\<rparr>"
    by auto
  have "wf_history t" using h by (simp add: t' x' wf_history_def)
  then show ?thesis
    using l wf expiry s by (simp add: wf_timeline_def t' x' text_ok_def)
qed

lemma parse_timeline_event_ok:
  "parse_timeline_event other session event index = Inr t \<Longrightarrow>
     wf_timeline t \<and> tl_session t = session \<and> current_revision t = int index + 1"
  unfolding parse_timeline_event_def bindE_eq_Inr requireE_Inr
  by (auto split: json.splits dest: timeline_from_dict_wf)

lemma load_timeline_from_ok:
  assumes "load_timeline_from other session latest index events = Inr (Tl_loaded t)"
    and "\<And>t. latest = Some t \<Longrightarrow> wf_timeline t \<and> tl_session t = session \<and> current_revision t \<le> int index"
  shows "wf_timeline t \<and> tl_session t = session \<and> current_revision t \<le> int (index + length events)"
  using assms
proof (induction events arbitrary: latest index)
  case Nil
  then show ?case by (auto split: option.splits)
next
  case (Cons e es)
  show ?case
  proof (cases "jget e ''event'' = JStr timeline_event_name")
    case False
    then have "load_timeline_from other session latest (Suc index) es = Inr (Tl_loaded t)"
      using Cons.prems(1) by simp
    from Cons.IH [OF this] Cons.prems(2) show ?thesis by force
  next
    case True
    then obtain u where u: "parse_timeline_event other session e index = Inr u"
      and r: "load_timeline_from other session (Some u) (Suc index) es = Inr (Tl_loaded t)"
      using Cons.prems(1) by (auto split: sum.splits timeline_error.splits)
    from Cons.IH [OF r] parse_timeline_event_ok [OF u] show ?thesis by force
  qed
qed

lemma loaded_held:
  "load_timeline other session events = Inr (Tl_loaded t) \<Longrightarrow>
     held_by t events \<and> tl_session t = session"
  using load_timeline_from_ok [of other session None 0 events t]
  by (simp add: load_timeline_def held_by_def)

section \<open>Appending to the history\<close>

definition silent :: "jdict \<Rightarrow> bool" where
  "silent e \<longleftrightarrow> jget e ''event'' \<noteq> JStr timeline_event_name"

lemma load_silent_from:
  "list_all silent es \<Longrightarrow> load_timeline_from other session latest index (es @ fs)
     = load_timeline_from other session latest (index + length es) fs"
  by (induction es arbitrary: index) (simp_all add: silent_def)

lemma load_timeline_append:
  assumes "load_timeline_from other session latest index es = Inr loaded"
    and "loaded \<noteq> Tl_invalid" and "loaded \<noteq> Tl_unsupported"
  shows "load_timeline_from other session latest index (es @ fs)
    = load_timeline_from other session (loaded_timeline loaded) (index + length es) fs"
  using assms
proof (induction es arbitrary: latest index)
  case Nil
  then show ?case by (auto split: option.splits)
next
  case (Cons e es)
  then show ?case
    by (auto split: sum.splits timeline_error.splits if_splits)
qed

lemma load_timeline_silent:
  assumes "load_timeline other session es = Inr loaded" and "list_all silent fs"
    and "loaded \<noteq> Tl_invalid" and "loaded \<noteq> Tl_unsupported"
  shows "load_timeline other session (es @ fs) = Inr loaded"
  using load_timeline_append [OF assms(1) [unfolded load_timeline_def] assms(3,4), of fs]
    load_silent_from [OF assms(2), of other session "loaded_timeline loaded" "length es" "[]"] assms(3,4)
  by (cases loaded) (simp_all add: load_timeline_def)

lemma load_timeline_written:
  assumes "load_timeline other session es = Inr loaded" and "loaded \<noteq> Tl_invalid" "loaded \<noteq> Tl_unsupported"
    and "list_all silent fs" and "wf_timeline t" and "tl_session t = session" and "valid_instant w"
    and "current_revision t = int (length es) + int (length fs) + 1"
  shows "load_timeline other session (es @ fs @ [timeline_event session w t]) = Inr (Tl_loaded t)"
proof -
  have p: "parse_timeline_event other session (timeline_event session w t) (length es + length fs) = Inr t"
    using assms(5-8) by (intro timeline_event_parses) simp_all
  show ?thesis
    using load_timeline_append [OF assms(1) [unfolded load_timeline_def] assms(2,3)]
    by (simp add: load_timeline_def load_silent_from [OF assms(4)] timeline_event_jget p)
qed

text \<open>The events of a strict snapshot are strict events.\<close>

lemma read_strict_line_ok: "read_strict_line text_of sid l = Inr e \<Longrightarrow> strict_event text_of sid e"
proof -
  assume r: "read_strict_line text_of sid l = Inr e"
  then obtain x where x: "l = Parsed (JObj x)" "x \<noteq> []" "names_session sid x" "json_finite (JObj x)"
    "normalize_persisted_failure_event text_of x = Inr e"
    by (auto simp: read_strict_line_def split: line.splits json.splits if_splits sum.splits)
  have "normalize_strict_event text_of sid x = Inr e"
    using x by (simp add: normalize_strict_event_def)
  then show ?thesis by (rule normalized_strict_event [OF _ x(2)])
qed

lemma load_strict_ok: "load_strict text_of sid f = Inr es \<Longrightarrow> list_all (strict_event text_of sid) es"
  by (auto simp: load_strict_def list_all_iff split: option.splits list.splits
      dest!: traverseE_set [of "read_strict_line text_of sid"] intro: read_strict_line_ok
      simp del: traverseE.simps)

lemma normalize_strict_key:
  assumes "normalize_strict_event text_of sid e = Inr e'"
  shows "jget e' ''event'' = jget e ''event''"
proof -
  have "json_finite (JObj e)" and n: "normalize_persisted_failure_event text_of e = Inr e'"
    using assms by (auto simp: normalize_strict_event_def split: if_splits sum.splits)
  from normalize_event_keeps [OF n this(1)] show ?thesis by (simp add: jget_def)
qed

section \<open>Checked arguments\<close>

lemma text_arg_ok: "text_arg s f = Inr x \<Longrightarrow> text_ok x"
  by (simp add: text_arg_def require_text_ok)

lemma future_arg_ok: "future_arg other s f now = Inr e \<Longrightarrow> valid_instant e \<and> now < e"
  by (auto simp: future_arg_def result_simps dest: parse_timestamp_valid)

lemma admission_arg_ok: "admission_arg other now a b c = Inr adm \<Longrightarrow> admission_ok adm"
  by (auto simp: admission_arg_def admission_ok_def result_simps
      dest: text_arg_ok future_arg_ok split: option.splits)

lemma evidence_arg_ok: "evidence_arg st digest receipt = Inr (d, r) \<Longrightarrow> evidence_ok st d r"
  by (auto simp: evidence_arg_def evidence_ok_def result_simps tl_optional_Inr
      dest: require_text_ok require_namespaced_ok)

lemma lane_args_ok: "lane_args i ow tk = Inr (i', ow', tk') \<Longrightarrow> text_ok i' \<and> text_ok ow' \<and> text_ok tk'"
  by (auto simp: lane_args_def result_simps dest: text_arg_ok)

text \<open>
  Every checked operation refines the lane machine on the timeline of its history; the one exception
  is the start of an approved operation that already has a result.
\<close>

definition start_raises :: "timeline \<Rightarrow> reduction tl \<Rightarrow> bool" where
  "start_raises t result \<longleftrightarrow> result = Inl (Payload_error ''result evidence'')
     \<and> (\<exists>u \<in> set (turns t). \<exists>d \<in> set (descriptors u). op_settled (op_status d))"

lemma find_turn_in: "find_turn t i = Some u \<Longrightarrow> u \<in> set (turns t)"
  by (auto simp: find_turn_def dest!: find_split)

lemma find_descriptor_in: "find_descriptor u i = Some d \<Longrightarrow> d \<in> set (descriptors u)"
  by (auto simp: find_descriptor_def dest!: find_split)

lemma request_refines:
  assumes held: "held_by t events" and r: "request other session now op = Inr reducer"
  shows "refines t events (reducer (Some t) events)
    \<or> (start_raises t (reducer (Some t) events) \<and> (\<exists>i o_id call args. op = Op_terminal_start i o_id call args))"
proof (cases op)
  case (Op_admit i es a b c)
  then obtain i' adm where "text_ok i'" "admission_ok adm" "reducer = reduce_admit session i' adm"
    using r by (auto simp: result_simps dest: text_arg_ok admission_arg_ok)
  then show ?thesis using refines_admit [OF held] by simp
next
  case (Op_claim_next a b c)
  then obtain ow tk e where "text_ok ow" "text_ok tk" "valid_instant e"
    "reducer = reduce_claim_next ow tk e now"
    using r by (auto simp: result_simps dest: text_arg_ok future_arg_ok)
  then show ?thesis using refines_claim [OF held] by simp
next
  case (Op_renew_lease i a b c)
  then obtain i' ow tk e where "valid_instant e" "reducer = reduce_renew_lease i' ow tk e now"
    using r by (auto simp: result_simps dest: future_arg_ok)
  then show ?thesis using refines_renew_lease [OF held] by simp
next
  case (Op_renew_admission i a b c)
  then obtain i' ow tk e where "valid_instant e" "reducer = reduce_renew_admission i' ow tk e now"
    using r by (auto simp: result_simps dest: future_arg_ok)
  then show ?thesis using refines_renew_admission [OF held] by simp
next
  case (Op_recover_admission i)
  then show ?thesis
    using r refines_recover_admission [OF held] by (auto simp: result_simps)
next
  case (Op_precommit i a b d)
  then obtain i' ow tk d' where "wf_desc d'" "is_precommitted d'"
    "reducer = reduce_precommit i' ow tk d' now"
    using r by (auto simp: result_simps dest: check_descriptor_wf)
  then show ?thesis using refines_precommit [OF held] by (simp add: is_precommitted_def)
next
  case (Op_result i a b o_id st digest receipt es)
  then obtain i' ow tk op' d e where "evidence_ok st d e"
    "reducer = reduce_result i' ow tk op' st d e now"
    using r by (auto simp: result_simps dest: evidence_arg_ok)
  then show ?thesis using refines_result [OF held] by simp
next
  case (Op_approval_pending i a b o_id es)
  then show ?thesis
    using r refines_approval_pending [OF held] by (auto simp: result_simps)
next
  case (Op_abandon i a b o_id digest receipt es)
  then obtain i' ow tk op' d e where
    "require_namespaced_digest (JStr digest) ''result_digest'' = Inr d"
    "text_arg receipt ''receipt_reference'' = Inr e"
    "reducer = reduce_abandon i' ow tk op' d e now"
    using r by (auto simp: result_simps)
  then have "digest_ok d" "text_ok e" "reducer = reduce_abandon i' ow tk op' d e now"
    by (auto dest: require_namespaced_ok text_arg_ok)
  then show ?thesis using refines_abandon [OF held] by simp
next
  case (Op_terminal_start i o_id call args)
  then obtain i' op' call' args' where "reducer = reduce_terminal_start i' op' call' args'"
    using r by (auto simp: result_simps)
  then show ?thesis
    using refines_terminal_start [OF held, of i' op' call' args'] Op_terminal_start
    by (auto simp: start_raises_def dest: find_turn_in find_descriptor_in)
next
  case (Op_terminal_result i o_id call args st digest receipt)
  then obtain i' op' call' args' d e where "evidence_ok st d e"
    "reducer = reduce_terminal_result i' op' call' args' st d e"
    using r by (auto simp: result_simps dest: evidence_arg_ok)
  then show ?thesis using refines_terminal_result [OF held] by simp
next
  case (Op_terminal_abandon i o_id call args digest receipt)
  then obtain i' op' call' args' d e where
    "require_namespaced_digest (JStr digest) ''result_digest'' = Inr d"
    "text_arg receipt ''receipt_reference'' = Inr e"
    "reducer = reduce_terminal_abandon i' op' call' args' d e"
    using r by (auto simp: result_simps)
  then have "digest_ok d" "text_ok e" "reducer = reduce_terminal_abandon i' op' call' args' d e"
    by (auto dest: require_namespaced_ok text_arg_ok)
  then show ?thesis using refines_terminal_abandon [OF held] by simp
next
  case (Op_recover_unstarted i)
  then show ?thesis
    using r refines_recover_unstarted [OF held] by (auto simp: result_simps)
next
  case (Op_recover_started i)
  then show ?thesis
    using r refines_recover_started [OF held] by (auto simp: result_simps)
next
  case (Op_boundary i a b bd o_id)
  then obtain i' ow tk op' where
    o: "(if bd = Not_started \<and> o_id = None then Inr None
      else bindE (require_text (opt_str o_id) ''operation_id'') (\<lambda>x. Inr (Some x))) = Inr op'"
    and red: "reducer = reduce_boundary i' ow tk bd op' now"
    using r unfolding Op_boundary request.simps request_boundary_def bindE_eq_Inr split_paired_Ex prod.case by blast
  have "bd = Not_started \<or> op' \<noteq> None"
    using o by (auto simp: bindE_eq_Inr split: if_splits)
  then show ?thesis using refines_boundary [OF held] red by simp
next
  case (Op_terminal i a b out bd c es)
  then obtain i' ow tk where "(out = Cancelled) = (c \<noteq> None)" "c \<noteq> Some Cancelled_queued"
    "reducer = reduce_terminal i' ow tk out bd c now"
    using r by (auto simp: result_simps)
  then show ?thesis using refines_terminal [OF held] by simp
next
  case (Op_cancel i a b)
  then show ?thesis
    using r refines_cancel [OF held] by (auto simp: result_simps)
qed

text \<open>Without a timeline only an admission has an effect: it starts one.\<close>

lemma request_first:
  assumes "request other session now op = Inr reducer" and "text_ok session"
    and "reducer None events = Inr r" and "red_timeline r \<noteq> None"
  shows "\<exists>i adm. text_ok i \<and> admission_ok adm \<and> red_status r = Ms_admitted
    \<and> red_timeline r = Some (first_timeline session i adm (int (length events)))"
proof (cases op)
  case (Op_admit i es a b c)
  then obtain i' adm where "text_ok i'" "admission_ok adm" "reducer = reduce_admit session i' adm"
    using assms(1) by (auto simp: result_simps dest: text_arg_ok admission_arg_ok)
  then show ?thesis
    using assms(3) reduce_admit_first [OF assms(2), of i' adm events]
    by (intro exI [of _ i'] exI [of _ adm]) auto
qed (use assms in \<open>auto simp: result_simps reduce_claim_next_def reduce_renew_lease_def
    lane_lease_status_def reduce_renew_admission_def reduce_recover_admission_def
    reduce_precommit_def with_lane_turn_def reduce_result_def reduce_approval_pending_def
    reduce_abandon_def reduce_terminal_start_def with_blocked_operation_def
    reduce_terminal_result_def reduce_terminal_abandon_def reduce_recover_unstarted_def
    with_stale_turn_def reduce_recover_started_def reduce_boundary_def reduce_terminal_def
    reduce_cancel_def\<close>)

section \<open>One operation on a session file\<close>

definition plain :: "publication \<Rightarrow> bool" where
  "plain pub \<longleftrightarrow> pub = Unpublished \<or> pub = Gate_disabled"

text \<open>Companion events a timeline event may travel with: no timeline events, and none a closed gate drops.\<close>

definition quiet :: "publication \<Rightarrow> jdict \<Rightarrow> bool" where
  "quiet pub e \<longleftrightarrow> silent e \<and> (pub = Gate_disabled \<longrightarrow> \<not> gate_controlled e)"

lemma plain_quiet_code [code]:
  "plain pub = (case pub of Published _ \<Rightarrow> False | _ \<Rightarrow> True)"
  "quiet pub e = (silent e \<and> (case pub of Gate_disabled \<Rightarrow> \<not> gate_controlled e | _ \<Rightarrow> True))"
  by (cases pub; simp add: plain_def quiet_def)+

lemma timeline_event_normalized:
  "normalize_strict_event text_of session (timeline_event session w t) = Inr (timeline_event session w t)"
  using timeline_event_strict [of text_of session w t]
  by (simp add: normalize_strict_event_def strict_event_def)

lemma not_gate_controlled: "\<not> gate_controlled (timeline_event session w t)"
  by (simp add: gate_controlled_def gate_controlled_events_def timeline_event_jget timeline_event_name_def)

lemma normalized_batch:
  assumes "traverseE (normalize_strict_event text_of session) (comps @ [timeline_event session w t])
      = (Inr batch :: timeline_error strict_error + jdict list)"
    and "plain pub" and "list_all (quiet pub) comps" and "list_all (\<lambda>e. e \<noteq> []) comps"
  shows "\<exists>comps'. batch = comps' @ [timeline_event session w t] \<and> length comps' = length comps
    \<and> list_all silent comps' \<and> list_all (strict_event text_of session) comps'
    \<and> publish pub before batch = batch"
proof -
  from assms(1) obtain comps' where batch: "batch = comps' @ [timeline_event session w t]"
    and two: "list_all2 (\<lambda>x y. normalize_strict_event text_of session x
      = (Inr y :: timeline_error strict_error + jdict)) comps comps'"
    unfolding traverseE_Inr_iff
    by (auto simp: list_all2_append1 list_all2_Cons1 timeline_event_normalized)
  have len: "length comps' = length comps"
    using two by (simp add: list_all2_lengthD)
  have each: "\<exists>x \<in> set comps. jget y ''event'' = jget x ''event'' \<and> strict_event text_of session y"
    if "y \<in> set comps'" for y
  proof -
    from that len obtain k where k: "k < length comps" "comps' ! k = y"
      by (metis in_set_conv_nth)
    then have n: "normalize_strict_event text_of session (comps ! k)
        = (Inr y :: timeline_error strict_error + jdict)"
      using two by (auto simp: list_all2_conv_all_nth)
    have "comps ! k \<noteq> []"
      using assms(4) k(1) by (simp add: list_all_length)
    then show ?thesis
      using normalize_strict_key [OF n] normalized_strict_event [OF n] k(1) by auto
  qed
  have q: "quiet pub y \<and> strict_event text_of session y" if "y \<in> set comps'" for y
  proof -
    from each [OF that] obtain x where x: "x \<in> set comps" "jget y ''event'' = jget x ''event''"
      and y: "strict_event text_of session y" by blast
    have "quiet pub x" using assms(3) x(1) by (simp add: list_all_iff)
    then show ?thesis
      using y unfolding quiet_def silent_def gate_controlled_def x(2) by simp
  qed
  then have "publish pub before batch = batch"
    using assms(2) not_gate_controlled [of session w t]
    by (auto simp: publish_def plain_def batch quiet_def filter_id_conv)
  then show ?thesis
    using q len by (auto simp: batch list_all_iff quiet_def)
qed

lemma lane_step_restamp: "lane_step t m t' \<Longrightarrow> current_revision t < n \<Longrightarrow> lane_step t m (stamp n t')"
proof (induction rule: lane_step.cases)
qed (auto simp: stamp_def intro: lane_step.intros [unfolded stamp_def])

lemma step_session: "lane_step t m t' \<Longrightarrow> tl_session t' = tl_session t \<and> base_revision t' = base_revision t"
  by (auto elim: lane_stepE)

lemma step_revision: "lane_step t m t' \<Longrightarrow> current_revision t < current_revision t'"
  by (auto elim: lane_stepE)

text \<open>The first timeline of a session, written after \<open>k\<close> companion events.\<close>

definition timeline_started :: "string \<Rightarrow> jdict list \<Rightarrow> timeline \<Rightarrow> bool" where
  "timeline_started session before t \<longleftrightarrow>
     (\<exists>i adm n. text_ok i \<and> admission_ok adm \<and> int (length before) < n
        \<and> t = stamp n (first_timeline session i adm (int (length before))))"

definition timeline_moved :: "string \<Rightarrow> jdict list \<Rightarrow> timeline_load \<Rightarrow> timeline \<Rightarrow> bool" where
  "timeline_moved session before loaded t' =
     (case loaded of
        Tl_missing \<Rightarrow> timeline_started session before t'
      | Tl_loaded t \<Rightarrow> (\<exists>m. lane_step t m t')
      | _ \<Rightarrow> False)"

lemma started_wf: "text_ok session \<Longrightarrow> timeline_started session before t \<Longrightarrow>
    wf_timeline t \<and> tl_session t = session"
  using wf_first_timeline [of session]
  by (fastforce simp: timeline_started_def wf_timeline_def wf_history_def lane_parts wf_lane_def
      first_timeline_def)

lemma moved_wf:
  assumes "timeline_moved session before loaded t'" and "text_ok session"
    and "load_timeline other session before = Inr loaded"
  shows "wf_timeline t' \<and> tl_session t' = session"
proof (cases loaded)
  case Tl_missing
  then show ?thesis using assms(1,2) started_wf by (simp add: timeline_moved_def)
next
  case (Tl_loaded t)
  with assms(1) obtain m where m: "lane_step t m t'" by (auto simp: timeline_moved_def)
  have "held_by t before \<and> tl_session t = session"
    using loaded_held assms(3) Tl_loaded by blast
  then show ?thesis
    using lane_step_wf [OF m] step_session [OF m] by (simp add: held_by_def)
qed (use assms(1) in \<open>simp_all add: timeline_moved_def\<close>)

lemma build_events_written:
  assumes "build_events other session w comps reducer before = Inr (note, Some batch)"
    and "load_timeline other session before = Inr loaded"
    and move: "\<And>r t. reducer (loaded_timeline loaded) before = Inr r \<Longrightarrow> red_timeline r = Some t \<Longrightarrow>
      red_timeline r \<noteq> loaded_timeline loaded \<Longrightarrow> red_status r \<in> set durable_statuses \<Longrightarrow>
      timeline_moved session before loaded t"
    and session: "text_ok session"
  shows "\<exists>t'. timeline_moved session before loaded t'
    \<and> current_revision t' = int (length before) + int (length comps) + 1
    \<and> batch = comps @ [timeline_event session w t'] \<and> red_timeline note = Some t'
    \<and> red_status note \<in> set durable_statuses"
proof -
  let ?n = "int (length before) + int (length comps) + 1"
  from assms(1,2) obtain r t where r: "reducer (loaded_timeline loaded) before = Inr r"
    and t: "red_timeline r = Some t" "red_timeline r \<noteq> loaded_timeline loaded"
    and st: "red_status r \<in> set durable_statuses"
    and b: "bindE (if current_revision t = ?n then Inr t
        else check_timeline (t\<lparr>current_revision := ?n\<rparr>))
        (\<lambda>t'. Inr (r\<lparr>red_timeline := Some t'\<rparr>, Some (comps @ [timeline_event session w t'])))
      = Inr (note, Some batch)"
    by (auto simp: build_events_def bindE_eq_Inr Let_def split: if_splits option.splits)
  note m = move [OF r t st]
  have restamp: "timeline_moved session before loaded (stamp ?n t)"
  proof (cases loaded)
    case Tl_missing
    then obtain i adm k where "text_ok i" "admission_ok adm"
      "t = stamp k (first_timeline session i adm (int (length before)))"
      using m by (auto simp: timeline_moved_def timeline_started_def)
    then show ?thesis
      using Tl_missing
      by (auto simp: timeline_moved_def timeline_started_def stamp_def
          intro!: exI [of _ i] exI [of _ adm] exI [of _ ?n])
  next
    case (Tl_loaded u)
    then obtain k where k: "lane_step u k t" using m by (auto simp: timeline_moved_def)
    have "current_revision u < ?n"
      using loaded_held assms(2) Tl_loaded by (fastforce simp: held_by_def)
    from lane_step_restamp [OF k this] show ?thesis
      using Tl_loaded by (auto simp: timeline_moved_def)
  qed (use m in \<open>simp_all add: timeline_moved_def\<close>)
  have wf: "wf_timeline (stamp ?n t)"
    using moved_wf [OF restamp session assms(2)] ..
  have "(if current_revision t = ?n then Inr t else check_timeline (t\<lparr>current_revision := ?n\<rparr>))
      = Inr (stamp ?n t)"
  proof (cases "current_revision t = ?n")
    case True
    then have "stamp ?n t = t" unfolding stamp_def by (metis timeline.surjective timeline.update_convs(3))
    then show ?thesis using True by simp
  next
    case False
    then show ?thesis using check_timeline_ident [OF wf] by (simp add: stamp_def)
  qed
  then have "note = r\<lparr>red_timeline := Some (stamp ?n t)\<rparr> \<and> batch = comps @ [timeline_event session w (stamp ?n t)]"
    using b by simp
  then show ?thesis
    using restamp st by (intro exI [of _ "stamp ?n t"]) simp
qed

lemma companions_nonempty: "check_companions session es = Inr u \<Longrightarrow> list_all (\<lambda>e. e \<noteq> []) es"
  unfolding check_companions_def bindE_eq_Inr
  by (induction es) (auto simp: result_simps)

text \<open>
  A request on the loaded timeline: what it changes is a move of the lane, or the first admission.
\<close>

lemma request_moves:
  assumes req: "request other session now op = Inr reducer" and session: "text_ok session"
    and load: "load_timeline other session before = Inr loaded"
    and "loaded \<noteq> Tl_invalid" "loaded \<noteq> Tl_unsupported"
    and r: "reducer (loaded_timeline loaded) before = Inr r" and t: "red_timeline r = Some t"
    and "red_timeline r \<noteq> loaded_timeline loaded"
  shows "timeline_moved session before loaded t"
proof (cases loaded)
  case Tl_missing
  then have "reducer None before = Inr r" using r by simp
  from request_first [OF req session this] t obtain i adm where
    "text_ok i" "admission_ok adm" "t = first_timeline session i adm (int (length before))"
    by auto
  then show ?thesis
    using Tl_missing
    by (auto simp: timeline_moved_def timeline_started_def stamp_def first_timeline_def
        intro!: exI [of _ i] exI [of _ adm] exI [of _ "int (length before) + 1"])
next
  case (Tl_loaded u)
  then have "held_by u before" and "reducer (Some u) before = Inr r"
    using loaded_held load r by auto
  with request_refines [OF this(1) req] assms(8) t Tl_loaded show ?thesis
    by (auto simp: refines_def stepped_def start_raises_def timeline_moved_def)
qed (use assms(4,5) in simp_all)

text \<open>What an operation that writes leaves behind.\<close>

definition timeline_written ::
  "(json \<Rightarrow> string) \<Rightarrow> (string \<Rightarrow> aware option) \<Rightarrow> string \<Rightarrow> jdict list \<Rightarrow> timeline_load \<Rightarrow> strict_file
    \<Rightarrow> timeline \<Rightarrow> bool" where
  "timeline_written text_of other session before loaded f t \<longleftrightarrow>
     timeline_moved session before loaded t
     \<and> (\<exists>after. load_strict text_of session f = (Inr after :: timeline_error strict_error + jdict list)
          \<and> take (length before) after = before \<and> length before < length after
          \<and> load_timeline other session after = Inr (Tl_loaded t))"

text \<open>
  What is left behind when a text of the new history breaks its line: the file holds the longer
  history, and no strict load gets it back.
\<close>

definition history_broken ::
  "(json \<Rightarrow> string) \<Rightarrow> string \<Rightarrow> jdict list \<Rightarrow> strict_file \<Rightarrow> bool" where
  "history_broken text_of session before f \<longleftrightarrow>
     (\<exists>after. f = history_file after \<and> take (length before) after = before \<and> length before < length after
        \<and> list_ex (\<lambda>e. breaks_line (JObj e)) after)
     \<and> load_strict text_of session f = (Inl Snapshot_error :: timeline_error strict_error + jdict list)"

text \<open>A strict mutation that changes the file has read it, and stored the batch its callback gave.\<close>

lemma mutate_writes:
  assumes "fst (mutate_strict text_of revision_of pub session f expected build
      :: _ \<times> ('e strict_error + 'o append_result)) \<noteq> f" and "py_strip session = session"
    and "load_strict text_of session f = (Inr before :: 'e strict_error + jdict list)"
  shows "\<exists>nt cands normalized. revision_of before = expected \<and> build before = Inr (nt, Some cands)
    \<and> traverseE (normalize_strict_event text_of session) cands = (Inr normalized :: 'e strict_error + jdict list)
    \<and> mutate_strict text_of revision_of pub session f expected build
      = (let f' = history_file (before @ publish pub before normalized)
         in (f', case load_strict text_of session f' of
                   Inl e \<Rightarrow> Inl e
                 | Inr after \<Rightarrow> Inr \<lparr>append_status = Appended, append_before = before,
                     append_after = after, append_note = Some nt\<rparr>))"
  using assms
  by (auto simp: mutate_strict_def Let_def split: sum.splits option.splits if_splits)
    (rule exI, auto)

lemma timeline_step_writes:
  assumes session: "text_ok session" and pub: "plain pub"
    and comps: "list_all (quiet pub) (companions_of (tc_op call))"
    and before: "load_strict text_of session f = (Inr before :: timeline_error strict_error + jdict list)"
    and load: "load_timeline other session before = Inr loaded"
    and step: "timeline_step text_of revision_of pub other session f call = (f', res)" and ne: "f' \<noteq> f"
  shows "\<exists>t st batch comps'. timeline_moved session before loaded t
    \<and> loaded \<noteq> Tl_invalid \<and> loaded \<noteq> Tl_unsupported
    \<and> current_revision t = int (length before) + int (length comps') + 1
    \<and> batch = comps' @ [timeline_event session (tc_written call) t]
    \<and> list_all silent comps' \<and> list_all (strict_event text_of session) batch
    \<and> st \<in> set durable_statuses \<and> revision_of before = tc_expected call
    \<and> f' = history_file (before @ batch)
    \<and> res = (case load_strict text_of session f' :: timeline_error strict_error + jdict list of
               Inl Snapshot_error \<Rightarrow> Inr \<lparr>mr_status = Ms_invalid, mr_timeline = None, mr_revision = None\<rparr>
             | Inl e \<Rightarrow> Inl e
             | Inr after \<Rightarrow> Inr \<lparr>mr_status = st, mr_timeline = Some t, mr_revision = Some (revision_of after)\<rparr>)"
proof -
  let ?comps = "companions_of (tc_op call)"
  obtain reducer where req: "request other session (tc_now call) (tc_op call) = Inr reducer"
    and cc: "check_companions session ?comps = Inr ()"
    and ap: "apply_reducer text_of revision_of pub other session f (tc_written call)
      (tc_expected call) ?comps reducer = (f', res)"
    using step ne by (auto simp: timeline_step_def split: sum.splits)
  have sid: "py_strip session = session"
    using session by (simp add: text_ok_def)
  let ?mut = "mutate_strict text_of revision_of pub session f (tc_expected call)
      (build_events other session (tc_written call) ?comps reducer)"
  have fst: "fst ?mut = f'"
    using ap by (auto simp: apply_reducer_def split: prod.splits sum.splits strict_error.splits)
  from mutate_writes [OF ne [folded fst] sid before] obtain out candidates batch where
    rev: "revision_of before = tc_expected call"
    and build: "build_events other session (tc_written call) ?comps reducer before = Inr (out, Some candidates)"
    and batch: "traverseE (normalize_strict_event text_of session) candidates
      = (Inr batch :: timeline_error strict_error + jdict list)"
    and mut: "?mut = (let f' = history_file (before @ publish pub before batch)
         in (f', case load_strict text_of session f' of
                   Inl e \<Rightarrow> Inl e
                 | Inr after \<Rightarrow> Inr \<lparr>append_status = Appended, append_before = before,
                     append_after = after, append_note = Some out\<rparr>))"
    by blast
  have ok: "loaded \<noteq> Tl_invalid \<and> loaded \<noteq> Tl_unsupported"
    using build load by (auto simp: build_events_def)
  from build_events_written [OF build load _ session]
    request_moves [OF req session load conjunct1 [OF ok] conjunct2 [OF ok]]
  obtain t where moved: "timeline_moved session before loaded t"
    and pos: "current_revision t = int (length before) + int (length ?comps) + 1"
    and cand: "candidates = ?comps @ [timeline_event session (tc_written call) t]"
    and nt: "red_timeline out = Some t" "red_status out \<in> set durable_statuses"
    by blast
  from normalized_batch [OF batch [unfolded cand] pub comps companions_nonempty [OF cc]]
  obtain comps' where b: "batch = comps' @ [timeline_event session (tc_written call) t]"
    and len: "length comps' = length ?comps" and silent: "list_all silent comps'"
    and strict: "list_all (strict_event text_of session) comps'"
    and same: "publish pub before batch = batch"
    by blast
  have f': "f' = history_file (before @ batch)"
    using fst mut same by (simp add: Let_def)
  have "res = (case load_strict text_of session f' :: timeline_error strict_error + jdict list of
               Inl Snapshot_error \<Rightarrow> Inr \<lparr>mr_status = Ms_invalid, mr_timeline = None, mr_revision = None\<rparr>
             | Inl e \<Rightarrow> Inl e
             | Inr after \<Rightarrow> Inr \<lparr>mr_status = red_status out, mr_timeline = Some t,
                 mr_revision = Some (revision_of after)\<rparr>)"
    using ap nt(1) unfolding apply_reducer_def mut Let_def same f'
    by (auto split: sum.splits strict_error.splits)
  then show ?thesis
    using moved ok pos len b silent strict timeline_event_strict nt(2) rev f'
    by (intro exI [of _ t] exI [of _ "red_status out"] exI [of _ batch] exI [of _ comps']) simp
qed

lemma timeline_step_effect:
  assumes session: "text_ok session" and pub: "plain pub"
    and comps: "list_all (quiet pub) (companions_of (tc_op call))" and w: "valid_instant (tc_written call)"
    and before: "load_strict text_of session f = (Inr before :: timeline_error strict_error + jdict list)"
    and load: "load_timeline other session before = Inr loaded"
    and step: "timeline_step text_of revision_of pub other session f call = (f', res)"
  shows "f' = f
    \<or> (\<exists>t st rev. timeline_written text_of other session before loaded f' t
         \<and> res = Inr \<lparr>mr_status = st, mr_timeline = Some t, mr_revision = Some rev\<rparr>
         \<and> st \<in> set durable_statuses \<and> revision_of before = tc_expected call)
    \<or> (history_broken text_of session before f'
         \<and> res = Inr \<lparr>mr_status = Ms_invalid, mr_timeline = None, mr_revision = None\<rparr>
         \<and> revision_of before = tc_expected call)"
proof (cases "f' = f")
  case False
  from timeline_step_writes [OF session pub comps before load step this] obtain t st batch comps' where
    moved: "timeline_moved session before loaded t"
    and ok: "loaded \<noteq> Tl_invalid" "loaded \<noteq> Tl_unsupported"
    and pos: "current_revision t = int (length before) + int (length comps') + 1"
    and b: "batch = comps' @ [timeline_event session (tc_written call) t]"
    and silent: "list_all silent comps'" and strict: "list_all (strict_event text_of session) batch"
    and st: "st \<in> set durable_statuses" "revision_of before = tc_expected call"
    and f': "f' = history_file (before @ batch)"
    and res: "res = (case load_strict text_of session f' :: timeline_error strict_error + jdict list of
               Inl Snapshot_error \<Rightarrow> Inr \<lparr>mr_status = Ms_invalid, mr_timeline = None, mr_revision = None\<rparr>
             | Inl e \<Rightarrow> Inl e
             | Inr after \<Rightarrow> Inr \<lparr>mr_status = st, mr_timeline = Some t, mr_revision = Some (revision_of after)\<rparr>)"
    by blast
  let ?after = "before @ batch"
  have after: "load_strict text_of session f'
      = (if list_ex (\<lambda>e. breaks_line (JObj e)) ?after then Inl Snapshot_error
         else Inr ?after :: timeline_error strict_error + jdict list)"
    unfolding f' using load_strict_ok [OF before] strict
    by (intro load_history_file) (simp_all add: b)
  show ?thesis
  proof (cases "list_ex (\<lambda>e. breaks_line (JObj e)) ?after")
    case True
    then have "history_broken text_of session before f'"
      using after f' b by (auto simp: history_broken_def intro!: exI [of _ ?after])
    then show ?thesis using after True res st(2) by simp
  next
    case readable: False
    have "load_timeline other session ?after = Inr (Tl_loaded t)"
      unfolding b using moved_wf [OF moved session load] pos ok w
      by (intro load_timeline_written [OF load _ _ silent]) simp_all
    then have "timeline_written text_of other session before loaded f' t"
      using moved after readable by (auto simp: timeline_written_def b)
    then show ?thesis using after readable res st by auto
  qed
qed simp

end
