(* ===== verification/Paths.thy ===== *)
theory Paths
  imports Prelude
begin

text \<open>
  Paths of a labelled step relation, and two interfaces. \<open>evolving\<close>: an invariant every step keeps and
  an order every step respects, so both hold along every path. \<open>spending\<close>: labels that need something
  the step itself uses up for good, so at most one of them occurs on a path.
\<close>

inductive path :: "('s \<Rightarrow> 'm \<Rightarrow> 's \<Rightarrow> bool) \<Rightarrow> 's \<Rightarrow> 'm list \<Rightarrow> 's \<Rightarrow> bool"
  for step :: "'s \<Rightarrow> 'm \<Rightarrow> 's \<Rightarrow> bool" where
  path_nil: "path step s [] s"
| path_cons: "step s m t \<Longrightarrow> path step t ms u \<Longrightarrow> path step s (m # ms) u"

inductive_cases path_consE: "path step s (m # ms) u"

inductive_simps path_nil_iff [simp]: "path step s [] u"

lemma path_single: "step s m t \<Longrightarrow> path step s [m] t"
  by (auto intro: path.intros)

lemma path_append: "path step s ms t \<Longrightarrow> path step t ns u \<Longrightarrow> path step s (ms @ ns) u"
  by (induction rule: path.induct) (auto intro: path.intros)

locale evolving =
  fixes step :: "'s \<Rightarrow> 'm \<Rightarrow> 's \<Rightarrow> bool"
    and inv :: "'s \<Rightarrow> bool"
    and le :: "'s \<Rightarrow> 's \<Rightarrow> bool"
  assumes step_inv: "step s m t \<Longrightarrow> inv s \<Longrightarrow> inv t"
    and step_le: "step s m t \<Longrightarrow> inv s \<Longrightarrow> le s t"
    and le_refl: "le s s"
    and le_trans: "le s t \<Longrightarrow> le t u \<Longrightarrow> le s u"
begin

lemma path_inv: "path step s ms t \<Longrightarrow> inv s \<Longrightarrow> inv t"
  by (induction rule: path.induct) (auto intro: step_inv)

lemma path_le: "path step s ms t \<Longrightarrow> inv s \<Longrightarrow> le s t"
  by (induction rule: path.induct) (auto intro: le_refl le_trans step_le step_inv)

end

locale spending = evolving +
  fixes spent :: "'a \<Rightarrow> bool"
    and fires :: "'b \<Rightarrow> bool"
  assumes le_spent: "inv s \<Longrightarrow> inv t \<Longrightarrow> le s t \<Longrightarrow> spent s \<Longrightarrow> spent t"
    and fires_unspent: "step s m t \<Longrightarrow> inv s \<Longrightarrow> fires m \<Longrightarrow> \<not> spent s"
    and fires_spends: "step s m t \<Longrightarrow> inv s \<Longrightarrow> fires m \<Longrightarrow> spent t"
begin

lemma none_when_spent: "path step s ms t \<Longrightarrow> inv s \<Longrightarrow> spent s \<Longrightarrow> filter fires ms = []"
proof (induction rule: path.induct)
  case (path_cons s m t ms u)
  then show ?case
    using fires_unspent [OF path_cons.hyps(1)] le_spent step_inv step_le by auto
qed simp

lemma at_most_once: "path step s ms t \<Longrightarrow> inv s \<Longrightarrow> length (filter fires ms) \<le> 1"
proof (induction rule: path.induct)
  case (path_cons s m t ms u)
  then show ?case
    using none_when_spent [OF path_cons.hyps(2)] fires_spends [OF path_cons.hyps(1)] step_inv by auto
qed simp

end

end
