(* ===== verification/Timeline_Invariants.thy ===== *)
theory Timeline_Invariants
  imports Timeline_Steps Paths
begin

text \<open>
  What holds along the lane machine: a timeline only evolves. Turns and operations keep their place and
  their identity, statuses follow their paths, a settled operation and the end of a turn stay.
\<close>

section \<open>Timelines only evolve\<close>

definition extends :: "('a \<Rightarrow> 'a \<Rightarrow> bool) \<Rightarrow> 'a list \<Rightarrow> 'a list \<Rightarrow> bool" where
  "extends R xs ys \<longleftrightarrow> length xs \<le> length ys \<and> (\<forall>k < length xs. R (xs ! k) (ys ! k))"

lemma extends_refl: "(\<And>x. R x x) \<Longrightarrow> extends R xs xs"
  by (simp add: extends_def)

lemma extends_trans:
  "(\<And>x y z. R x y \<Longrightarrow> R y z \<Longrightarrow> R x z) \<Longrightarrow> extends R xs ys \<Longrightarrow> extends R ys zs \<Longrightarrow> extends R xs zs"
  unfolding extends_def by (meson order_less_le_trans order_trans)

lemma extends_in: "extends R xs ys \<Longrightarrow> x \<in> set xs \<Longrightarrow> \<exists>y \<in> set ys. R x y"
  unfolding extends_def by (metis in_set_conv_nth order_less_le_trans)

lemma extends_snoc: "(\<And>x. R x x) \<Longrightarrow> extends R xs (xs @ ys)"
  by (simp add: extends_def nth_append)

lemma extends_replaced:
  "(\<And>x. R x x) \<Longrightarrow> R x y \<Longrightarrow> extends R (a @ x # b) (a @ y # b)"
  by (auto simp: extends_def nth_append nth_Cons')

definition desc_evolves :: "descriptor \<Rightarrow> descriptor \<Rightarrow> bool" where
  "desc_evolves d e \<longleftrightarrow> same_identity d e \<and> op_edge\<^sup>*\<^sup>* (op_status d) (op_status e)
     \<and> (op_settled (op_status d) \<or> op_status d = Unknown_result \<longrightarrow> e = d)"

definition turn_evolves :: "turn \<Rightarrow> turn \<Rightarrow> bool" where
  "turn_evolves u v \<longleftrightarrow> turn_sequence v = turn_sequence u \<and> turn_id v = turn_id u
     \<and> legacy_operation_ids v = legacy_operation_ids u
     \<and> extends desc_evolves (descriptors u) (descriptors v)
     \<and> (turn_status u \<noteq> Queued \<longrightarrow> turn_status v \<noteq> Queued)
     \<and> (turn_status u = Terminal \<longrightarrow> turn_status v = Terminal \<and> outcome v = outcome u
          \<and> cancellation v = cancellation u \<and> recovery v = recovery u
          \<and> length (descriptors v) = length (descriptors u))
     \<and> (turn_status u = Terminal \<longrightarrow> outcome u \<noteq> Some Blocked \<longrightarrow> v = u)
     \<and> boundary_allowed (turn_boundary u) (turn_boundary v)"

definition timeline_evolves :: "timeline \<Rightarrow> timeline \<Rightarrow> bool" where
  "timeline_evolves t t' \<longleftrightarrow> tl_session t' = tl_session t \<and> base_revision t' = base_revision t
     \<and> current_revision t \<le> current_revision t' \<and> extends turn_evolves (turns t) (turns t')"

lemma same_identity_refl [simp]: "same_identity d d"
  by (simp add: same_identity_def)

lemma desc_evolves_refl [simp]: "desc_evolves d d"
  by (simp add: desc_evolves_def)

lemma desc_evolves_trans: "desc_evolves d e \<Longrightarrow> desc_evolves e f \<Longrightarrow> desc_evolves d f"
  unfolding desc_evolves_def same_identity_def by (auto intro: rtranclp_trans)

lemma boundary_allowed_refl [simp]: "boundary_allowed b b"
  by (cases b) simp_all

lemma boundary_allowed_trans: "boundary_allowed a b \<Longrightarrow> boundary_allowed b c \<Longrightarrow> boundary_allowed a c"
  by (cases a; cases b; cases c) simp_all

lemma turn_evolves_refl [simp]: "turn_evolves u u"
  by (simp add: turn_evolves_def extends_refl)

lemma turn_evolves_trans: "turn_evolves u v \<Longrightarrow> turn_evolves v w \<Longrightarrow> turn_evolves u w"
  unfolding turn_evolves_def
  by (auto intro: extends_trans [of desc_evolves] desc_evolves_trans boundary_allowed_trans)

lemma timeline_evolves_refl [simp]: "timeline_evolves t t"
  by (simp add: timeline_evolves_def extends_refl)

lemma timeline_evolves_trans:
  "timeline_evolves s t \<Longrightarrow> timeline_evolves t u \<Longrightarrow> timeline_evolves s u"
  unfolding timeline_evolves_def by (auto intro: extends_trans [of turn_evolves] turn_evolves_trans)

lemma evolves_set_turn:
  assumes "wf_timeline t" and "find_turn t i = Some u" and "turn_evolves u v"
    and "turns t' = put_turn i v (turns t)"
  shows "extends turn_evolves (turns t) (turns t')"
proof -
  from turn_split [OF assms(1,2)] obtain a b where s: "turns t = a @ u # b"
    and p: "put_turn i v (turns t) = a @ v # b" by blast
  show ?thesis
    unfolding assms(4) p unfolding s by (rule extends_replaced) (simp_all add: assms(3))
qed

lemma moved_evolves:
  assumes u: "wf_turn u" and st: "turn_status u = Running \<or> turn_status u = Terminal \<and> outcome u = Some Blocked"
    and d: "find_descriptor u op = Some d" and edge: "op_edge (op_status d) (op_status d')"
    and same: "same_identity d d'" and b: "moved_boundary (op_status d') u b"
  shows "turn_evolves u ((put_operation op d' u)\<lparr>turn_boundary := b\<rparr>)"
proof -
  from descriptor_split [OF wf_distinct_descriptors [OF u] d] obtain x y where
    s: "descriptors u = x @ d # y" "put_descriptor op d' (descriptors u) = x @ d' # y" by blast
  have "\<not> op_settled (op_status d)" "op_status d \<noteq> Unknown_result"
    using edge by (cases "op_status d"; simp add: op_settled_def)+
  then have "desc_evolves d d'"
    using edge same by (simp add: desc_evolves_def r_into_rtranclp)
  then have ds: "extends desc_evolves (descriptors u) (descriptors ((put_operation op d' u)\<lparr>turn_boundary := b\<rparr>))"
    using s by (simp add: put_operation_def extends_replaced)
  have "boundary_allowed (turn_boundary u) b"
    using b by (cases "turn_boundary u") (auto simp: moved_boundary_def split: if_splits)
  then show ?thesis
    using ds st s by (auto simp: turn_evolves_def put_operation_def)
qed

lemma quarantine_evolves:
  assumes "turn_status u = Running"
  shows "turn_evolves u (end_turn Outcome_unknown None (quarantine_all u))"
proof -
  have "boundary_allowed (turn_boundary u) Effect_unknown"
    by (cases "turn_boundary u") simp_all
  moreover have "desc_evolves d (if op_status d = Started
      then with_boundary d Unknown_result Effect_unknown else d)" for d
    by (auto simp: desc_evolves_def same_identity_def with_boundary_def op_settled_def
        intro!: r_into_rtranclp)
  ultimately show ?thesis
    using assms by (simp add: turn_evolves_def end_turn_def quarantine_all_def extends_def)
qed

lemma lane_step_evolves:
  assumes "lane_step t m t'" and wf: "wf_timeline t"
  shows "timeline_evolves t t'"
proof -
  have "extends turn_evolves (turns t) (turns t')"
    using assms(1)
  proof cases
    case (step_admit i adm n)
    then show ?thesis by (simp add: extends_snoc)
  next
    case (step_claim u owner token e n)
    note q = queued_head_first [OF wf step_claim(4)]
    have "turn_evolves u (claim_turn u)"
      using q(2) by (simp add: turn_evolves_def claim_turn_def extends_refl)
    then show ?thesis
      by (rule evolves_set_turn [OF wf q(1)]) (simp add: step_claim(2))
  next
    case (step_wait i u e n)
    have "turn_evolves u (u\<lparr>admission_expires := Some e\<rparr>)"
      using step_wait(4) by (simp add: turn_evolves_def extends_refl)
    then show ?thesis
      by (rule evolves_set_turn [OF wf step_wait(3)]) (simp add: step_wait(2))
  next
    case (step_cancel i u n r)
    have "turn_evolves u ((cancel_queued_turn u)\<lparr>recovery := r\<rparr>)"
      using step_cancel(4) by (simp add: turn_evolves_def cancel_queued_turn_def extends_refl)
    then show ?thesis
      by (rule evolves_set_turn [OF wf step_cancel(3)]) (simp add: step_cancel(2))
  next
    case (step_precommit i u d n)
    have "turn_status u = Running"
      using find_turn_status(1) [OF wf step_precommit(3)] step_precommit(4) by simp
    then have "turn_evolves u (u\<lparr>descriptors := descriptors u @ [d]\<rparr>)"
      by (simp add: turn_evolves_def extends_snoc)
    then show ?thesis
      by (rule evolves_set_turn [OF wf step_precommit(3)]) (simp add: step_precommit(2))
  next
    case (step_move i u op d d' b n)
    show ?thesis
      by (rule evolves_set_turn [OF wf step_move(3)
            moved_evolves [OF find_turn_status(2) [OF wf step_move(3)]
              may_move_status [OF wf step_move(3,4)] step_move(5,6,8,9)]])
        (simp add: step_move(2))
  next
    case (step_end i u out c n)
    have "turn_status u = Running"
      using find_turn_status(1) [OF wf step_end(3)] step_end(4) by simp
    then have "turn_evolves u (end_turn out c u)"
      by (simp add: turn_evolves_def end_turn_def extends_refl)
    then show ?thesis
      by (rule evolves_set_turn [OF wf step_end(3)]) (simp add: step_end(2))
  next
    case (step_quarantine i u n)
    have "turn_status u = Running"
      using find_turn_status(1) [OF wf step_quarantine(3)] step_quarantine(4) by simp
    from quarantine_evolves [OF this] show ?thesis
      by (rule evolves_set_turn [OF wf step_quarantine(3)]) (simp add: step_quarantine(2))
  qed (simp_all add: extends_refl)
  moreover have "tl_session t' = tl_session t \<and> base_revision t' = base_revision t
      \<and> current_revision t \<le> current_revision t'"
    using assms(1) by cases simp_all
  ultimately show ?thesis by (simp add: timeline_evolves_def)
qed

interpretation lane: evolving lane_step wf_timeline timeline_evolves
proof unfold_locales
  show "lane_step s m t \<Longrightarrow> wf_timeline s \<Longrightarrow> wf_timeline t" for s m t
    by (rule lane_step_wf)
  show "lane_step s m t \<Longrightarrow> wf_timeline s \<Longrightarrow> timeline_evolves s t" for s m t
    by (rule lane_step_evolves)
  show "timeline_evolves s s" for s by simp
  show "timeline_evolves s t \<Longrightarrow> timeline_evolves t u \<Longrightarrow> timeline_evolves s u" for s t u
    by (rule timeline_evolves_trans)
qed

end
