(* ===== verification/Timeline_Fence.thy ===== *)
theory Timeline_Fence
  imports Timeline_Invariants
begin

text \<open>
  The invariants of the lane on the timelines a session reaches. A session never has two tool calls
  without a known result that may still move; it has none once the outcome of a call is unknown, so
  from then on no call is started; a turn is claimed before any turn that was admitted later; and
  the outcome a turn ended with agrees with what its operations say.
\<close>

section \<open>The invariant\<close>

definition can_move :: "turn \<Rightarrow> bool" where
  "can_move u \<longleftrightarrow> turn_status u = Running \<or> (turn_status u = Terminal \<and> outcome u = Some Blocked)"

definition is_live :: "descriptor \<Rightarrow> bool" where
  "is_live d \<longleftrightarrow> op_status d = Precommitted \<or> op_status d = Started"

definition live_of :: "turn \<Rightarrow> descriptor list" where
  "live_of u = (if can_move u then filter is_live (descriptors u) else [])"

definition live_ops :: "timeline \<Rightarrow> descriptor list" where
  "live_ops t = concat (map live_of (turns t))"

definition turn_unknown :: "turn \<Rightarrow> bool" where
  "turn_unknown u \<longleftrightarrow> list_ex (\<lambda>d. op_status d = Unknown_result) (descriptors u)"

definition has_unknown :: "timeline \<Rightarrow> bool" where
  "has_unknown t \<longleftrightarrow> list_ex turn_unknown (turns t)"

definition untouched_after :: "timeline \<Rightarrow> bool" where
  "untouched_after t \<longleftrightarrow>
     (\<forall>u \<in> set (turns t). \<forall>v \<in> set (turns t).
        turn_status u \<noteq> Terminal \<longrightarrow> turn_sequence u < turn_sequence v \<longrightarrow> descriptors v = [])"

text \<open>What the outcome of a turn says of its operations.\<close>

definition truthful :: "turn \<Rightarrow> bool" where
  "truthful u \<longleftrightarrow>
     (turn_status u = Terminal \<longrightarrow>
        (outcome u = Some Completed \<longrightarrow> list_all (\<lambda>d. op_settled (op_status d)) (descriptors u))
        \<and> (outcome u = Some Cancelled \<longrightarrow>
             list_all (\<lambda>d. op_status d \<noteq> Started \<and> op_status d \<noteq> Unknown_result) (descriptors u))
        \<and> (outcome u = Some Outcome_unknown \<longrightarrow> turn_unknown u))"

definition fenced :: "timeline \<Rightarrow> bool" where
  "fenced t \<longleftrightarrow> untouched_after t \<and> length (live_ops t) \<le> 1
     \<and> (has_unknown t \<longrightarrow> live_ops t = []) \<and> list_all truthful (turns t)"

lemma fencedD:
  assumes "fenced t"
  shows "untouched_after t" and "length (live_ops t) \<le> 1" and "has_unknown t \<Longrightarrow> live_ops t = []"
    and "list_all truthful (turns t)"
  using assms by (simp_all add: fenced_def)

section \<open>Replacing a turn\<close>

lemma live_split:
  "turns t = a @ u # b \<Longrightarrow> live_ops t = concat (map live_of a) @ live_of u @ concat (map live_of b)"
  by (simp add: live_ops_def)

lemma unknown_split:
  "turns t = a @ u # b \<Longrightarrow> has_unknown t \<longleftrightarrow> list_ex turn_unknown (a @ b) \<or> turn_unknown u"
  by (auto simp: has_unknown_def)

lemma untouched_replaced:
  assumes wf: "wf_timeline t" and s: "turns t = a @ u # b" and un: "untouched_after t"
    and seq: "turn_sequence v = turn_sequence u" and st: "turn_status v \<noteq> Terminal \<Longrightarrow> turn_status u \<noteq> Terminal"
    and ds: "descriptors v = [] \<or> descriptors u \<noteq> [] \<or> list_all (\<lambda>w. turn_status w = Terminal) a"
    and s': "turns t' = a @ v # b"
  shows "untouched_after t'"
proof -
  note order = sequence_order [OF wf s]
  have later: "descriptors w = []" if "x \<in> set (turns t)" "turn_status x \<noteq> Terminal"
    "turn_sequence x < turn_sequence w" "w \<in> set (turns t)" for x w
    using un that by (auto simp: untouched_after_def)
  have v: "descriptors v = []" if "x \<in> set a \<or> x \<in> set b" "turn_status x \<noteq> Terminal"
    "turn_sequence x < turn_sequence v" for x
  proof -
    have "x \<in> set a" using that order seq by force
    moreover have "descriptors u = []" using later [of x u] that seq s by auto
    ultimately show ?thesis using ds that(2) by (auto simp: list_all_iff)
  qed
  show ?thesis
    unfolding untouched_after_def s'
  proof (intro ballI impI)
    fix x w
    assume "x \<in> set (a @ v # b)" "w \<in> set (a @ v # b)" "turn_status x \<noteq> Terminal"
      "turn_sequence x < turn_sequence w"
    then show "descriptors w = []"
      using later [of x w] later [of u w] v [of x] st seq s by auto
  qed
qed

text \<open>The frame of every step that replaces a turn: the live operations and the unknown results.\<close>

lemma fenced_replaced:
  assumes f: "fenced t" and s: "turns t = a @ u # b" and s': "turns t' = a @ v # b"
    and un: "untouched_after t'" and v: "truthful v"
    and live: "length (live_ops t') \<le> 1" and unknown: "has_unknown t' \<Longrightarrow> live_ops t' = []"
  shows "fenced t'"
  using fencedD(4) [OF f] un v live unknown s s' by (simp add: fenced_def)

text \<open>A turn whose operations stay, and that does not begin to move.\<close>

lemma fenced_same_operations:
  assumes wf: "wf_timeline t" and f: "fenced t" and find: "find_turn t i = Some u"
    and put: "turns t' = put_turn i v (turns t)"
    and seq: "turn_sequence v = turn_sequence u" and ds: "descriptors v = descriptors u"
    and st: "turn_status v \<noteq> Terminal \<Longrightarrow> turn_status u \<noteq> Terminal"
    and move: "can_move v \<Longrightarrow> can_move u \<or> descriptors u = []" and v: "truthful v"
  shows "fenced t'"
proof -
  from turn_split [OF wf find] obtain a b where s: "turns t = a @ u # b"
    and p: "put_turn i v (turns t) = a @ v # b" by blast
  have s': "turns t' = a @ v # b" using put p by simp
  have "live_of v = live_of u \<or> live_of v = []"
    using move ds by (auto simp: live_of_def)
  moreover have "turn_unknown v = turn_unknown u" using ds by (simp add: turn_unknown_def)
  ultimately show ?thesis
    using fencedD(2,3) [OF f]
    by (intro fenced_replaced [OF f s s' untouched_replaced [OF wf s fencedD(1) [OF f] seq st _ s'] v])
      (auto simp: ds live_split [OF s] live_split [OF s'] unknown_split [OF s] unknown_split [OF s'])
qed

section \<open>Every step keeps the invariant\<close>

lemma queued_empty: "wf_turn u \<Longrightarrow> turn_status u = Queued \<Longrightarrow> descriptors u = []"
  by (simp add: wf_turn_def status_shape_def queued_shape_def)

lemma fenced_admit:
  assumes wf: "wf_timeline t" and f: "fenced t"
  shows "fenced (stamp n (t\<lparr>turns := turns t @ [new_turn (int (length (turns t)) + 1) i adm]\<rparr>))"
    (is "fenced ?t")
proof -
  let ?u = "new_turn (int (length (turns t)) + 1) i adm"
  have u: "descriptors ?u = []" "turn_status ?u = Queued" "turn_sequence ?u = int (length (turns t)) + 1"
    by (simp_all add: new_turn_def)
  have "live_ops ?t = live_ops t" and "has_unknown ?t = has_unknown t" and "truthful ?u"
    using u by (simp_all add: live_ops_def live_of_def has_unknown_def turn_unknown_def truthful_def)
  moreover have "untouched_after ?t"
    using fencedD(1) [OF f] sequence_le_length [OF wf] u by (force simp: untouched_after_def)
  ultimately show ?thesis
    using f by (simp add: fenced_def)
qed

text \<open>Before a new operation is recorded, no operation of the session is live.\<close>

lemma precommit_alone:
  assumes wf: "wf_timeline t" and f: "fenced t" and s: "turns t = a @ u # b"
    and lane: "lane_turn t = Some (turn_id u)" and free: "\<not> pending_continuation t u"
    and settled: "list_all (\<lambda>e. op_settled (op_status e)) (descriptors u)"
  shows "concat (map live_of (a @ u # b)) = []" and "list_all (\<lambda>w. turn_status w = Terminal) a"
proof -
  have run: "turn_status u = Running"
    using wf lane s by (simp add: wf_timeline_def wf_lane_def)
  have d: "distinct (map turn_id (a @ u # b))"
    using wf by (simp add: wf_timeline_def wf_history_def s)
  note order = sequence_order [OF wf s]
  have terminal: "turn_status w = Terminal" if "w \<in> set a" for w
  proof -
    have "turn_id w \<noteq> turn_id u" using distinct_around [OF d] that by blast
    then have "turn_status w \<noteq> Running"
      using wf lane that by (simp add: wf_timeline_def wf_lane_def s)
    moreover have "turn_status w \<noteq> Queued"
      using wf run order that by (fastforce simp: wf_timeline_def wf_lane_def s)
    ultimately show ?thesis by (cases "turn_status w") simp_all
  qed
  then show "list_all (\<lambda>w. turn_status w = Terminal) a" by (simp add: list_all_iff)
  have "live_of w = []" if "w \<in> set a" for w
    using free terminal [OF that] order that s
    by (auto simp: pending_continuation_def live_of_def can_move_def is_live_def list_ex_iff
        filter_empty_conv)
  moreover have "live_of w = []" if "w \<in> set b" for w
  proof -
    have "descriptors w = []"
      using fencedD(1) [OF f] run order that s by (auto simp: untouched_after_def)
    then show ?thesis by (simp add: live_of_def)
  qed
  moreover have "live_of u = []"
    using settled by (auto simp: live_of_def is_live_def list_all_iff op_settled_def filter_empty_conv)
  ultimately show "concat (map live_of (a @ u # b)) = []" by auto
qed

lemma fenced_precommit:
  assumes wf: "wf_timeline t" and f: "fenced t" and find: "find_turn t i = Some u"
    and lane: "lane_turn t = Some i" and q: "\<not> quarantined t" and free: "\<not> pending_continuation t u"
    and settled: "list_all (\<lambda>e. op_settled (op_status e)) (descriptors u)"
    and d: "op_status d = Precommitted"
    and put: "turns t' = put_turn i (u\<lparr>descriptors := descriptors u @ [d]\<rparr>) (turns t)"
  shows "fenced t'"
proof -
  let ?v = "u\<lparr>descriptors := descriptors u @ [d]\<rparr>"
  from turn_split [OF wf find] obtain a b where s: "turns t = a @ u # b" and i: "turn_id u = i"
    and p: "put_turn i ?v (turns t) = a @ ?v # b" by blast
  have s': "turns t' = a @ ?v # b" using put p by simp
  have run: "turn_status u = Running" using find_turn_status(1) [OF wf find] lane by simp
  have "lane_turn t = Some (turn_id u)" using lane i by simp
  note alone = precommit_alone [OF wf f s this free settled]
  have "live_of u = filter is_live (descriptors u)" using run by (simp add: live_of_def can_move_def)
  then have none: "concat (map live_of a) = []" "concat (map live_of b) = []"
    "filter is_live (descriptors u) = []"
    using alone(1) by (simp_all del: concat_eq_Nil_conv)
  have "\<not> has_unknown t" using q by (auto simp: quarantined_def has_unknown_def turn_unknown_def list_ex_iff)
  then have unknown: "\<not> has_unknown t'"
    using d by (simp add: unknown_split [OF s] unknown_split [OF s'] turn_unknown_def)
  have "length (live_ops t') \<le> 1"
    using none by (simp add: live_split [OF s'] live_of_def del: concat_eq_Nil_conv)
  moreover have "truthful ?v" using run by (simp add: truthful_def)
  moreover have "untouched_after t'"
    using alone(2) by (intro untouched_replaced [OF wf s fencedD(1) [OF f] _ _ _ s']) simp_all
  ultimately show ?thesis
    using unknown by (intro fenced_replaced [OF f s s']) simp_all
qed

text \<open>The operation that moves is the only live one, and nothing was unknown.\<close>

lemma only_live:
  assumes f: "fenced t" and s: "turns t = a @ u # b" and ds: "descriptors u = x @ d # y"
    and move: "can_move u" and live: "is_live d"
  shows "concat (map live_of a) = []" "concat (map live_of b) = []" "filter is_live x = []"
    "filter is_live y = []" "\<not> has_unknown t"
proof -
  have l: "live_ops t = concat (map live_of a) @ (filter is_live x @ d # filter is_live y)
      @ concat (map live_of b)"
    using move live by (simp add: live_split [OF s] live_of_def ds)
  then show "concat (map live_of a) = []" "concat (map live_of b) = []" "filter is_live x = []"
    "filter is_live y = []"
    using fencedD(2) [OF f] by (simp_all del: concat_eq_Nil_conv)
  show "\<not> has_unknown t" using fencedD(3) [OF f] l by auto
qed

lemma fenced_move:
  assumes wf: "wf_timeline t" and f: "fenced t" and find: "find_turn t i = Some u"
    and move: "may_move t u" and d: "find_descriptor u op = Some d"
    and edge: "op_edge (op_status d) (op_status d')"
    and put: "turns t' = put_turn i ((put_operation op d' u)\<lparr>turn_boundary := bd\<rparr>) (turns t)"
  shows "fenced t'"
proof -
  let ?v = "(put_operation op d' u)\<lparr>turn_boundary := bd\<rparr>"
  from turn_split [OF wf find] obtain a b where s: "turns t = a @ u # b"
    and p: "put_turn i ?v (turns t) = a @ ?v # b" by blast
  have s': "turns t' = a @ ?v # b" using put p by simp
  from descriptor_split [OF wf_distinct_descriptors [OF find_turn_status(2) [OF wf find]] d]
  obtain x y where ds: "descriptors u = x @ d # y"
    and pd: "put_descriptor op d' (descriptors u) = x @ d' # y" by blast
  have can: "can_move u" using may_move_status [OF wf find move] by (simp add: can_move_def)
  have live: "is_live d" using edge by (cases "op_status d") (simp_all add: is_live_def)
  note only = only_live [OF f s ds can live]
  have v: "descriptors ?v = x @ d' # y" "can_move ?v" "turn_status ?v = turn_status u"
    "outcome ?v = outcome u" "turn_sequence ?v = turn_sequence u"
    using pd can by (simp_all add: put_operation_def can_move_def)
  have l: "live_ops t' = filter is_live [d']"
    using only by (simp add: live_split [OF s'] live_of_def v del: concat_eq_Nil_conv)
  have unknown: "op_status d' = Unknown_result" if "has_unknown t'"
    using that only(5) by (auto simp: unknown_split [OF s] unknown_split [OF s'] turn_unknown_def v ds)
  have "truthful ?v"
    using can v by (auto simp: truthful_def can_move_def)
  then show ?thesis
    using l unknown v ds
    by (intro fenced_replaced [OF f s s' untouched_replaced [OF wf s fencedD(1) [OF f] _ _ _ s']])
      (auto simp: is_live_def)
qed

lemma fenced_quarantine:
  assumes wf: "wf_timeline t" and f: "fenced t" and find: "find_turn t i = Some u"
    and lane: "lane_turn t = Some i" and started: "list_ex (\<lambda>d. op_status d = Started) (descriptors u)"
    and put: "turns t' = put_turn i (end_turn Outcome_unknown None (quarantine_all u)) (turns t)"
  shows "fenced t'"
proof -
  let ?v = "end_turn Outcome_unknown None (quarantine_all u)"
  from turn_split [OF wf find] obtain a b where s: "turns t = a @ u # b"
    and p: "put_turn i ?v (turns t) = a @ ?v # b" by blast
  have s': "turns t' = a @ ?v # b" using put p by simp
  have can: "can_move u" using find_turn_status(1) [OF wf find] lane by (simp add: can_move_def)
  from started obtain d where "d \<in> set (descriptors u)" and d: "op_status d = Started"
    by (auto simp: list_ex_iff)
  then obtain x y where ds: "descriptors u = x @ d # y" by (meson split_list)
  have "is_live d" using d by (simp add: is_live_def)
  note only = only_live [OF f s ds can this]
  have v: "\<not> can_move ?v" "turn_status ?v = Terminal" "turn_sequence ?v = turn_sequence u"
    by (simp_all add: can_move_def end_turn_def quarantine_all_def)
  have "live_ops t' = []"
    using only v by (simp add: live_split [OF s'] live_of_def del: concat_eq_Nil_conv)
  moreover have "turn_unknown ?v"
    unfolding turn_unknown_def list_ex_iff
    by (rule bexI [of _ "with_boundary d Unknown_result Effect_unknown"])
      (simp_all add: end_turn_def quarantine_all_def with_boundary_def ds d)
  then have "truthful ?v" by (simp add: truthful_def end_turn_def)
  ultimately show ?thesis
    using v ds
    by (intro fenced_replaced [OF f s s' untouched_replaced [OF wf s fencedD(1) [OF f] _ _ _ s']])
      simp_all
qed

lemma truthful_end: "\<not> outcome_refused out u \<Longrightarrow> truthful (end_turn out c u)"
  by (cases out)
    (auto simp: outcome_refused_def truthful_def end_turn_def has_status_def turn_unknown_def
      list_ex_iff list_all_iff op_settled_def, metis op_status.exhaust)

lemma lane_step_fenced:
  assumes "lane_step t m t'" and wf: "wf_timeline t" and f: "fenced t"
  shows "fenced t'"
  using assms(1)
proof cases
  case (step_admit i adm n)
  then show ?thesis using fenced_admit [OF wf f] by simp
next
  case (step_claim u owner token e n)
  note q = queued_head_first [OF wf step_claim(4)]
  have "descriptors u = []" using queued_empty [OF find_turn_status(2) [OF wf q(1)] q(2)] .
  then show ?thesis
    using q(2) by (intro fenced_same_operations [OF wf f q(1), where v = "claim_turn u"])
      (simp_all add: step_claim(2) claim_turn_def truthful_def)
next
  case (step_renew e n)
  then show ?thesis
    using f by (simp add: fenced_def untouched_after_def live_ops_def has_unknown_def)
next
  case (step_wait i u e n)
  show ?thesis
    by (rule fenced_same_operations [OF wf f step_wait(3), where v = "u\<lparr>admission_expires := Some e\<rparr>"])
      (use step_wait(4) in \<open>simp_all add: step_wait(2) truthful_def can_move_def\<close>)
next
  case (step_touch n)
  then show ?thesis
    using f by (simp add: fenced_def untouched_after_def live_ops_def has_unknown_def)
next
  case (step_cancel i u n r)
  have "descriptors u = []" using queued_empty [OF find_turn_status(2) [OF wf step_cancel(3)] step_cancel(4)] .
  then show ?thesis
    by (intro fenced_same_operations [OF wf f step_cancel(3),
          where v = "(cancel_queued_turn u)\<lparr>recovery := r\<rparr>"])
      (simp_all add: step_cancel(2) cancel_queued_turn_def truthful_def)
next
  case (step_precommit i u d n)
  show ?thesis
    by (rule fenced_precommit [OF wf f step_precommit(3-7,9)]) (simp add: step_precommit(2))
next
  case (step_move i u op d d' b n)
  show ?thesis
    by (rule fenced_move [OF wf f step_move(3-6)]) (simp add: step_move(2))
next
  case (step_end i u out c n)
  have "can_move u" and "turn_status u = Running"
    using find_turn_status(1) [OF wf step_end(3)] step_end(4) by (simp_all add: can_move_def)
  then show ?thesis
    using truthful_end [OF step_end(5)]
    by (intro fenced_same_operations [OF wf f step_end(3), where v = "end_turn out c u"])
      (simp_all add: step_end(2) end_turn_def)
next
  case (step_quarantine i u n)
  show ?thesis
    by (rule fenced_quarantine [OF wf f step_quarantine(3-5)]) (simp add: step_quarantine(2))
qed

text \<open>The states of the machine: well formed and fenced.\<close>

definition lane_state :: "timeline \<Rightarrow> bool" where
  "lane_state t \<longleftrightarrow> wf_timeline t \<and> fenced t"

interpretation states: evolving lane_step lane_state timeline_evolves
proof unfold_locales
  show "lane_step s m t \<Longrightarrow> lane_state s \<Longrightarrow> lane_state t" for s m t
    by (auto simp: lane_state_def intro: lane_step_wf lane_step_fenced)
  show "lane_step s m t \<Longrightarrow> lane_state s \<Longrightarrow> timeline_evolves s t" for s m t
    by (simp add: lane_state_def lane_step_evolves)
qed (auto intro: timeline_evolves_trans)

section \<open>An unknown outcome stops every effect\<close>

text \<open>The operations of a timeline, turn by turn, as they stand.\<close>

definition operations :: "timeline \<Rightarrow> (string \<times> descriptor list) list" where
  "operations t = filter (\<lambda>(i, ds). ds \<noteq> []) (map (\<lambda>u. (turn_id u, descriptors u)) (turns t))"

lemma operations_replaced:
  assumes wf: "wf_timeline t" and find: "find_turn t i = Some u" and put: "turns t' = put_turn i v (turns t)"
    and v: "descriptors v = descriptors u" "turn_id v = turn_id u"
  shows "operations t' = operations t"
proof -
  from turn_split [OF wf find] obtain a b where s: "turns t = a @ u # b"
    and p: "put_turn i v (turns t) = a @ v # b" by blast
  show ?thesis unfolding operations_def put p unfolding s using v by simp
qed

lemma unknown_quarantines: "has_unknown t \<Longrightarrow> quarantined t"
  by (auto simp: has_unknown_def quarantined_def turn_unknown_def list_ex_iff)

lemma no_live_operation:
  assumes wf: "wf_timeline t" and none: "live_ops t = []" and find: "find_turn t i = Some u"
    and move: "turn_status u = Running \<or> turn_status u = Terminal \<and> outcome u = Some Blocked"
    and d: "d \<in> set (descriptors u)"
  shows "\<not> is_live d"
proof -
  from turn_split [OF wf find] obtain a b where s: "turns t = a @ u # b" by blast
  have "filter is_live (descriptors u) = []"
    using none move by (simp add: live_split [OF s] live_of_def can_move_def)
  then show ?thesis using d by (simp add: filter_empty_conv)
qed

lemma find_descriptor_live:
  "find_descriptor u op = Some d \<Longrightarrow> op_edge (op_status d) st \<Longrightarrow> d \<in> set (descriptors u) \<and> is_live d"
  by (cases "op_status d") (auto simp: find_descriptor_def is_live_def dest!: find_split)

lemma unknown_step:
  assumes step: "lane_step t m t'" and wf: "wf_timeline t" and f: "fenced t" and unknown: "has_unknown t"
  shows "operations t' = operations t"
  using step
proof cases
  case (step_admit i adm n)
  then show ?thesis by (simp add: operations_def new_turn_def)
next
  case (step_claim u owner token e n)
  show ?thesis
    by (rule operations_replaced [OF wf queued_head_first(1) [OF wf step_claim(4)], where v = "claim_turn u"])
      (simp_all add: step_claim(2) claim_turn_def)
next
  case (step_wait i u e n)
  show ?thesis
    by (rule operations_replaced [OF wf step_wait(3), where v = "u\<lparr>admission_expires := Some e\<rparr>"])
      (simp_all add: step_wait(2))
next
  case (step_cancel i u n r)
  show ?thesis
    by (rule operations_replaced [OF wf step_cancel(3), where v = "(cancel_queued_turn u)\<lparr>recovery := r\<rparr>"])
      (simp_all add: step_cancel(2) cancel_queued_turn_def)
next
  case (step_precommit i u d n)
  then show ?thesis using unknown_quarantines [OF unknown] by simp
next
  case (step_move i u op d d' b n)
  then show ?thesis
    using no_live_operation [OF wf fencedD(3) [OF f unknown] step_move(3) may_move_status [OF wf step_move(3,4)]]
      find_descriptor_live [OF step_move(5,6)] by blast
next
  case (step_end i u out c n)
  show ?thesis
    by (rule operations_replaced [OF wf step_end(3), where v = "end_turn out c u"])
      (simp_all add: step_end(2) end_turn_def)
next
  case (step_quarantine i u n)
  have "turn_status u = Running"
    using find_turn_status(1) [OF wf step_quarantine(3)] step_quarantine(4) by simp
  then show ?thesis
    using no_live_operation [OF wf fencedD(3) [OF f unknown] step_quarantine(3)] step_quarantine(5)
    by (auto simp: list_ex_iff is_live_def)
qed (simp_all add: operations_def)

lemma unknown_in_operations:
  "has_unknown t \<longleftrightarrow> list_ex (\<lambda>(i, ds). list_ex (\<lambda>d. op_status d = Unknown_result) ds) (operations t)"
  by (auto simp: has_unknown_def turn_unknown_def operations_def list_ex_iff) force

lemma unknown_path:
  "path lane_step t ms t' \<Longrightarrow> wf_timeline t \<Longrightarrow> fenced t \<Longrightarrow> has_unknown t \<Longrightarrow> operations t' = operations t"
proof (induction rule: path.induct)
  case (path_cons t m u ms v)
  have eq: "operations u = operations t"
    using unknown_step [OF path_cons.hyps(1) path_cons.prems] .
  then have "has_unknown u" using path_cons.prems(3) by (simp add: unknown_in_operations)
  then show ?case
    using path_cons eq lane_step_wf lane_step_fenced by metis
qed simp

section \<open>Turns are claimed in the order of their admission\<close>

fun claims :: "move list \<Rightarrow> string list" where
  "claims [] = []"
| "claims (Claim i # ms) = i # claims ms"
| "claims (_ # ms) = claims ms"

lemma claims_append: "claims (xs @ ys) = claims xs @ claims ys"
  by (induction xs rule: claims.induct) simp_all

definition sequence_of :: "timeline \<Rightarrow> string \<Rightarrow> int" where
  "sequence_of t i = (case find_turn t i of None \<Rightarrow> 0 | Some u \<Rightarrow> turn_sequence u)"

definition queued_above :: "int \<Rightarrow> timeline \<Rightarrow> bool" where
  "queued_above n t \<longleftrightarrow> n \<le> int (length (turns t))
     \<and> (\<forall>w \<in> set (turns t). turn_status w = Queued \<longrightarrow> n < turn_sequence w)"

lemma sequence_position:
  assumes "wf_timeline t" and "k < length (turns t)"
  shows "turn_sequence (turns t ! k) = int k + 1"
proof -
  have "map turn_sequence (turns t) ! k = map int [1..<Suc (length (turns t))] ! k"
    using assms(1) by (simp add: wf_timeline_def wf_history_def del: upt_Suc)
  then show ?thesis using assms(2) by (simp del: upt_Suc)
qed

lemma queued_above_evolves:
  assumes ev: "timeline_evolves t t'" and wf: "wf_timeline t'" and q: "queued_above n t"
  shows "queued_above n t'"
  unfolding queued_above_def
proof (intro conjI ballI impI)
  have x: "extends turn_evolves (turns t) (turns t')" using ev by (simp add: timeline_evolves_def)
  then show "n \<le> int (length (turns t'))" using q by (simp add: extends_def queued_above_def)
  fix w
  assume "w \<in> set (turns t')" and queued: "turn_status w = Queued"
  then obtain k where k: "k < length (turns t')" "w = turns t' ! k" by (auto simp: in_set_conv_nth)
  show "n < turn_sequence w"
  proof (cases "k < length (turns t)")
    case True
    then have "turn_evolves (turns t ! k) w" using x k by (simp add: extends_def)
    then have "turn_status (turns t ! k) = Queued" "turn_sequence w = turn_sequence (turns t ! k)"
      using queued by (auto simp: turn_evolves_def)
    then show ?thesis using q True by (simp add: queued_above_def)
  next
    case False
    then show ?thesis using sequence_position [OF wf k(1)] q k(2) by (simp add: queued_above_def)
  qed
qed

lemma find_turn_unique:
  assumes "wf_timeline t" and "u \<in> set (turns t)"
  shows "find_turn t (turn_id u) = Some u"
proof -
  obtain a b where s: "turns t = a @ u # b" using assms(2) by (meson split_list)
  have d: "distinct (map turn_id (a @ u # b))"
    using assms(1) by (simp add: wf_timeline_def wf_history_def s)
  have "find (\<lambda>v. turn_id v = turn_id u) (a @ u # b) = Some u"
    using d by (induction a) auto
  then show ?thesis by (simp add: find_turn_def s)
qed

lemma sequence_of_evolves:
  assumes "timeline_evolves t t'" and "wf_timeline t'" and "find_turn t i = Some u"
  shows "sequence_of t' i = turn_sequence u"
proof -
  have u: "u \<in> set (turns t)" "turn_id u = i" using assms(3) by (auto simp: find_turn_def dest!: find_split)
  then obtain v where v: "v \<in> set (turns t')" "turn_evolves u v"
    using assms(1) extends_in by (fastforce simp: timeline_evolves_def)
  then have "turn_id v = i" "turn_sequence v = turn_sequence u"
    using u(2) by (simp_all add: turn_evolves_def)
  then show ?thesis
    using find_turn_unique [OF assms(2) v(1)] by (simp add: sequence_of_def)
qed

lemma claim_step:
  assumes step: "lane_step t (Claim i) u" and wf: "wf_timeline t"
  shows "\<exists>w. find_turn t i = Some w \<and> turn_status w = Queued \<and> queued_above (turn_sequence w) u"
  using step
proof (rule claim_stepE)
  fix w n owner token e
  assume i: "i = turn_id w" and u: "u = stamp n (take_lane (turn_id w) owner token e
      (set_turn t (turn_id w) (claim_turn w)))" and head: "queued_head t = Some w"
  note q = queued_head_first [OF wf head]
  from turn_split [OF wf q(1)] obtain a b where s: "turns t = a @ w # b"
    and p: "put_turn (turn_id w) (claim_turn w) (turns t) = a @ claim_turn w # b" by blast
  have "turn_sequence w < turn_sequence v" if "v \<in> set a \<or> v \<in> set b" "turn_status v = Queued" for v
    using q(3) [of v] sequence_order [OF wf s] that s by force
  moreover have "turn_sequence w \<le> int (length (turns t))"
    using sequence_le_length [OF wf, of w] s by simp
  ultimately have "queued_above (turn_sequence w) u"
    unfolding queued_above_def u stamp_simps take_lane_simps set_turn_simps p
    by (auto simp: claim_turn_def s)
  then show ?thesis using q i by blast
qed

lemma claims_above:
  "path lane_step t ms t' \<Longrightarrow> wf_timeline t \<Longrightarrow> queued_above n t \<Longrightarrow>
     list_all (\<lambda>i. n < sequence_of t' i) (claims ms)"
proof (induction rule: path.induct)
  case (path_cons t m u ms v)
  note wf = lane_step_wf [OF path_cons.hyps(1) path_cons.prems(1)]
  note ev = lane_step_evolves [OF path_cons.hyps(1) path_cons.prems(1)]
  have rest: "list_all (\<lambda>i. n < sequence_of v i) (claims ms)"
    using path_cons.IH wf queued_above_evolves [OF ev wf path_cons.prems(2)] by blast
  show ?case
  proof (cases "\<exists>i. m = Claim i")
    case True
    then obtain i where m: "m = Claim i" by blast
    from claim_step [OF path_cons.hyps(1) [unfolded m] path_cons.prems(1)] obtain w where
      w: "find_turn t i = Some w" "turn_status w = Queued" by blast
    have "timeline_evolves t v"
      using ev lane.path_le [OF path_cons.hyps(2) wf] by (rule timeline_evolves_trans)
    from sequence_of_evolves [OF this lane.path_inv [OF path_cons.hyps(2) wf] w(1)]
    have "sequence_of v i = turn_sequence w" .
    moreover have "n < turn_sequence w"
      using w path_cons.prems(2) by (auto simp: queued_above_def find_turn_def dest!: find_split)
    ultimately show ?thesis using rest by (simp add: m)
  qed (use rest in \<open>cases m; simp\<close>)
qed simp

lemma claims_in_order:
  "path lane_step t ms t' \<Longrightarrow> wf_timeline t \<Longrightarrow>
     sorted_wrt (\<lambda>i j. sequence_of t' i < sequence_of t' j) (claims ms)"
proof (induction rule: path.induct)
  case (path_cons t m u ms v)
  note wf = lane_step_wf [OF path_cons.hyps(1) path_cons.prems]
  note ev = lane_step_evolves [OF path_cons.hyps(1) path_cons.prems]
  note rest = path_cons.IH [OF wf]
  show ?case
  proof (cases "\<exists>i. m = Claim i")
    case True
    then obtain i where m: "m = Claim i" by blast
    from claim_step [OF path_cons.hyps(1) [unfolded m] path_cons.prems] obtain w where
      w: "find_turn t i = Some w" and above: "queued_above (turn_sequence w) u" by blast
    have "timeline_evolves t v"
      using ev lane.path_le [OF path_cons.hyps(2) wf] by (rule timeline_evolves_trans)
    from sequence_of_evolves [OF this lane.path_inv [OF path_cons.hyps(2) wf] w]
    have "sequence_of v i = turn_sequence w" .
    then show ?thesis
      using rest claims_above [OF path_cons.hyps(2) wf above] by (simp add: m list_all_iff)
  qed (use rest in \<open>cases m; simp\<close>)
qed simp

end
