(* ===== verification/Timeline_Run.thy ===== *)
theory Timeline_Run
  imports Runs Timeline_Apply Timeline_Fence
begin

text \<open>
  Runs of a session file: operations of the turn timeline, strict batches and saved events of other
  writers, in any order. As long as nobody else writes timeline events, the timeline a session holds
  after a run is one the lane machine reaches, by a path from the timeline it held before.
\<close>

section \<open>Runs\<close>

datatype session_act =
    Turn_op timeline_call
  | Append_batch string "jdict list"
  | Save jdict

datatype act_result =
    Mutated mutation_result
  | Batched append_status
  | Saved

definition file_lines :: "strict_file \<Rightarrow> line list" where
  "file_lines f = (case f of None \<Rightarrow> [] | Some ls \<Rightarrow> ls)"

definition session_step ::
  "(json \<Rightarrow> string) \<Rightarrow> (jdict list \<Rightarrow> string) \<Rightarrow> publication \<Rightarrow> (string \<Rightarrow> aware option) \<Rightarrow> string
    \<Rightarrow> strict_file \<Rightarrow> session_act \<Rightarrow> strict_file \<times> (timeline_error strict_error + act_result)" where
  "session_step text_of revision_of pub other session f act =
     (case act of
        Turn_op call \<Rightarrow>
          (case timeline_step text_of revision_of pub other session f call of
             (f', Inl e) \<Rightarrow> (f', Inl e)
           | (f', Inr r) \<Rightarrow> (f', Inr (Mutated r)))
      | Append_batch expected es \<Rightarrow>
          (case mutate_strict text_of revision_of pub session f expected (\<lambda>_. Inr ((), Some es)) of
             (f', Inl e) \<Rightarrow> (f', Inl e)
           | (f', Inr r) \<Rightarrow> (f', Inr (Batched (append_status r))))
      | Save e \<Rightarrow>
          (case save_event text_of (file_lines f) e of
             (ls, Inl x) \<Rightarrow> (f, Inl (Event_error x))
           | (ls, Inr _) \<Rightarrow> (Some ls, Inr Saved)))"

text \<open>What the acts of a run write besides the timeline: no timeline events of their own.\<close>

definition act_ok :: "publication \<Rightarrow> session_act \<Rightarrow> bool" where
  "act_ok pub act =
     (case act of
        Turn_op call \<Rightarrow> list_all (quiet pub) (companions_of (tc_op call)) \<and> valid_instant (tc_written call)
      | Append_batch _ es \<Rightarrow> list_all silent es
      | Save e \<Rightarrow> silent e)"

text \<open>The timeline a session file holds; \<open>None\<close> when the history or the timeline does not load.\<close>

definition held_timeline ::
  "(json \<Rightarrow> string) \<Rightarrow> (string \<Rightarrow> aware option) \<Rightarrow> string \<Rightarrow> strict_file \<Rightarrow> timeline_load option" where
  "held_timeline text_of other session f =
     (case load_strict text_of session f :: timeline_error strict_error + jdict list of
        Inl _ \<Rightarrow> None
      | Inr events \<Rightarrow>
     (case load_timeline other session events of
        Inr Tl_missing \<Rightarrow> Some Tl_missing
      | Inr (Tl_loaded t) \<Rightarrow> Some (Tl_loaded t)
      | _ \<Rightarrow> None))"

lemma held_timeline_Some:
  "held_timeline text_of other session f = Some l \<longleftrightarrow>
     (\<exists>events. load_strict text_of session f = (Inr events :: timeline_error strict_error + jdict list)
        \<and> load_timeline other session events = Inr l \<and> l \<noteq> Tl_invalid \<and> l \<noteq> Tl_unsupported)"
  by (auto simp: held_timeline_def split: sum.split timeline_load.split)

section \<open>Reached timelines\<close>

definition reached :: "string \<Rightarrow> timeline \<Rightarrow> bool" where
  "reached session t \<longleftrightarrow>
     (\<exists>before t0 ms. timeline_started session before t0 \<and> path lane_step t0 ms t)"

definition lane_moves :: "string \<Rightarrow> timeline_load \<Rightarrow> timeline_load \<Rightarrow> bool" where
  "lane_moves session l l' =
     (case (l, l') of
        (Tl_missing, Tl_missing) \<Rightarrow> True
      | (Tl_missing, Tl_loaded t) \<Rightarrow> reached session t
      | (Tl_loaded t, Tl_loaded t') \<Rightarrow> (\<exists>ms. path lane_step t ms t')
      | _ \<Rightarrow> False)"

lemma lane_moves_refl: "l \<noteq> Tl_invalid \<Longrightarrow> l \<noteq> Tl_unsupported \<Longrightarrow> lane_moves session l l"
  by (cases l) (auto simp: lane_moves_def intro: path_nil)

lemma lane_moves_trans: "lane_moves session a b \<Longrightarrow> lane_moves session b c \<Longrightarrow> lane_moves session a c"
  unfolding lane_moves_def reached_def
  by (cases a; cases b; cases c) (auto intro: path_append)

lemma moved_lane_moves:
  "timeline_moved session before loaded t \<Longrightarrow> lane_moves session loaded (Tl_loaded t)"
  by (cases loaded) (auto simp: timeline_moved_def lane_moves_def reached_def intro: path_single path_nil)

lemma fenced_started: "timeline_started session before t \<Longrightarrow> fenced t"
  by (auto simp: timeline_started_def first_timeline_def fenced_def untouched_after_def live_ops_def
      live_of_def has_unknown_def turn_unknown_def truthful_def new_turn_def)

lemma reached_state:
  assumes "text_ok session" and "reached session t"
  shows "lane_state t" and "tl_session t = session"
proof -
  from assms(2) obtain before t0 ms where t0: "timeline_started session before t0"
    and p: "path lane_step t0 ms t" by (auto simp: reached_def)
  have s: "lane_state t0" "tl_session t0 = session"
    using started_wf [OF assms(1) t0] fenced_started [OF t0] by (simp_all add: lane_state_def)
  show "lane_state t" by (rule states.path_inv [OF p s(1)])
  show "tl_session t = session"
    using states.path_le [OF p s(1)] s(2) by (simp add: timeline_evolves_def)
qed

section \<open>The other writers leave the timeline alone\<close>

lemma mutate_strict_effect:
  assumes "mutate_strict text_of revision_of pub session f expected build
      = (f', r :: 'e strict_error + 'o append_result)" and "text_ok session" and "plain pub"
  shows "f' = f \<or> (\<exists>before nt candidates batch.
    load_strict text_of session f = (Inr before :: 'e strict_error + jdict list)
    \<and> build before = Inr (nt, Some candidates) \<and> f' = history_file (before @ batch) \<and> batch \<noteq> []
    \<and> (\<forall>y \<in> set batch. \<exists>x \<in> set candidates.
         normalize_strict_event text_of session x = (Inr y :: 'e strict_error + jdict)))"
proof (cases "f' = f")
  case False
  have sid: "py_strip session = session" "session \<noteq> []"
    using assms(2) by (simp_all add: text_ok_def)
  obtain before nt candidates normalized where
    c: "load_strict text_of session f = (Inr before :: 'e strict_error + jdict list)"
      "build before = Inr (nt, Some candidates)"
    and n: "traverseE (normalize_strict_event text_of session) candidates
      = (Inr normalized :: 'e strict_error + jdict list)"
    and w: "f' = history_file (before @ publish pub before normalized)" "publish pub before normalized \<noteq> []"
    using assms(1) False by (auto simp: mutate_strict_def Let_def sid split: sum.splits option.splits if_splits)
  have "set (publish pub before normalized) \<subseteq> set normalized"
    using assms(3) by (auto simp: publish_def plain_def)
  then have "\<forall>y \<in> set (publish pub before normalized). \<exists>x \<in> set candidates.
      normalize_strict_event text_of session x = (Inr y :: 'e strict_error + jdict)"
    using traverseE_set [OF n] by blast
  then show ?thesis using c w by blast
qed simp

lemma load_timeline_stuck:
  assumes "load_timeline_from other session latest index es = r"
    and "\<And>l. r = Inr l \<Longrightarrow> l = Tl_invalid \<or> l = Tl_unsupported"
  shows "load_timeline_from other session latest index (es @ fs) = r"
  using assms
proof (induction es arbitrary: latest index)
  case Nil
  then show ?case by (cases latest) auto
next
  case (Cons e es)
  then show ?case by (auto split: sum.splits timeline_error.splits)
qed

text \<open>Appending strict events that are no timeline events keeps what a file holds.\<close>

lemma held_timeline_append:
  assumes before: "load_strict text_of session f = (Inr before :: timeline_error strict_error + jdict list)"
    and after: "load_strict text_of session f' = (Inr (before @ batch) :: timeline_error strict_error + jdict list)"
    and batch: "list_all silent batch"
  shows "held_timeline text_of other session f' = held_timeline text_of other session f"
proof (cases "load_timeline other session before")
  case (Inl e)
  then have "load_timeline other session (before @ batch) = Inl e"
    using load_timeline_stuck [of other session None 0 before _ batch] by (simp add: load_timeline_def)
  then show ?thesis using Inl by (simp add: held_timeline_def before after)
next
  case (Inr l)
  show ?thesis
  proof (cases "l = Tl_invalid \<or> l = Tl_unsupported")
    case True
    then have "load_timeline other session (before @ batch) = Inr l"
      using Inr load_timeline_stuck [of other session None 0 before _ batch]
      by (auto simp: load_timeline_def)
    then show ?thesis using Inr by (simp add: held_timeline_def before after)
  next
    case False
    then have "load_timeline other session (before @ batch) = Inr l"
      using load_timeline_silent [OF Inr batch] by simp
    then show ?thesis using Inr by (simp add: held_timeline_def before after)
  qed
qed

lemma normalize_strict_silent:
  "normalize_strict_event text_of session x = (Inr y :: 'e strict_error + jdict) \<Longrightarrow> silent x \<Longrightarrow> silent y"
  by (simp add: silent_def normalize_strict_key)

text \<open>A line that was saved reads back under its own event name.\<close>

lemma normalize_keeps_key:
  "normalize_persisted_failure_event text_of e = Inr e' \<Longrightarrow> k \<noteq> ''failure'' \<Longrightarrow> k \<noteq> ''payload'' \<Longrightarrow>
     dget e' k = dget e k"
proof (induction text_of e arbitrary: e' rule: normalize_persisted_failure_event.induct)
  case (1 text_of e)
  have s: "dget d' k = dget d k" if "normalize_serialized_failure text_of d = Inr d'" for d d'
    using that "1.prems"(2)
    by (auto simp: normalize_serialized_failure_def Let_def result_simps dget_dput split: option.splits)
  show ?case
    using "1.prems"
    by (subst (asm) normalize_persisted_failure_event.simps)
      (auto simp: result_simps dget_dput dest!: s split: json.splits)
qed

lemma read_saved_silent:
  assumes "normalize_persisted_failure_event text_of e = Inr e'" and "silent e"
    and "read_strict_line text_of session (Parsed (JObj e')) = (Inr y :: 'e strict_error + jdict)"
  shows "silent y"
proof -
  have "normalize_persisted_failure_event text_of e' = Inr y"
    using assms(3) by (auto simp: read_strict_line_def split: if_splits sum.splits)
  from normalize_keeps_key [OF this, of "''event''"] normalize_keeps_key [OF assms(1), of "''event''"]
  show ?thesis using assms(2) by (simp add: silent_def jget_def)
qed

lemma load_strict_snoc:
  assumes "load_strict text_of session (Some (ls @ [l])) = (Inr events :: 'e strict_error + jdict list)"
  shows "\<exists>before y. traverseE (read_strict_line text_of session) ls = (Inr before :: 'e strict_error + jdict list)
    \<and> read_strict_line text_of session l = (Inr y :: 'e strict_error + jdict) \<and> events = before @ [y]"
proof -
  have "traverseE (read_strict_line text_of session) (ls @ [l]) = (Inr events :: 'e strict_error + jdict list)"
    using assms by (cases ls) (simp_all add: load_strict_def)
  then show ?thesis
    by (auto simp: traverseE_Inr_iff list_all2_append1 list_all2_Cons1)
qed

section \<open>A run moves the timeline along the lane machine\<close>

definition file_moves ::
  "(json \<Rightarrow> string) \<Rightarrow> (string \<Rightarrow> aware option) \<Rightarrow> string \<Rightarrow> strict_file \<Rightarrow> strict_file \<Rightarrow> bool" where
  "file_moves text_of other session f f' \<longleftrightarrow>
     (f \<noteq> Some [] \<longrightarrow> f' \<noteq> Some []
        \<and> (held_timeline text_of other session f' = None
           \<or> (\<exists>l l'. held_timeline text_of other session f = Some l
                \<and> held_timeline text_of other session f' = Some l' \<and> lane_moves session l l')))"

lemma file_moves_same:
  "held_timeline text_of other session f' = held_timeline text_of other session f \<Longrightarrow>
     f' \<noteq> Some [] \<Longrightarrow> file_moves text_of other session f f'"
  by (cases "held_timeline text_of other session f")
    (auto simp: file_moves_def held_timeline_Some lane_moves_refl)

lemma file_moves_refl: "file_moves text_of other session f f"
  using file_moves_same [of text_of other session f f] by (auto simp: file_moves_def)

lemma file_moves_trans:
  "file_moves text_of other session f g \<Longrightarrow> file_moves text_of other session g h \<Longrightarrow>
     file_moves text_of other session f h"
  unfolding file_moves_def by (auto intro: lane_moves_trans)

lemma history_file_nonempty: "es \<noteq> [] \<Longrightarrow> history_file es \<noteq> Some []"
  by (simp add: history_file_def)

text \<open>Writers of other events keep the timeline, or leave a history that does not load.\<close>

definition undisturbed ::
  "(json \<Rightarrow> string) \<Rightarrow> (string \<Rightarrow> aware option) \<Rightarrow> string \<Rightarrow> strict_file \<Rightarrow> strict_file \<Rightarrow> bool" where
  "undisturbed text_of other session f f' \<longleftrightarrow>
     f = Some [] \<or> (f' \<noteq> Some [] \<and> (held_timeline text_of other session f' = None
       \<or> held_timeline text_of other session f' = held_timeline text_of other session f))"

lemma undisturbed_refl: "undisturbed text_of other session f f"
  by (simp add: undisturbed_def)

lemma undisturbed_same:
  "held_timeline text_of other session f' = held_timeline text_of other session f \<Longrightarrow>
     f' \<noteq> Some [] \<Longrightarrow> undisturbed text_of other session f f'"
  by (simp add: undisturbed_def)

lemma undisturbed_moves: "undisturbed text_of other session f f' \<Longrightarrow> file_moves text_of other session f f'"
  by (cases "held_timeline text_of other session f")
    (auto simp: undisturbed_def file_moves_def held_timeline_Some lane_moves_refl)

lemma batch_quiet:
  assumes "mutate_strict text_of revision_of pub session f expected (\<lambda>_. Inr ((), Some es))
      = (f', r :: timeline_error strict_error + unit append_result)"
    and "text_ok session" and "plain pub" and "list_all silent es"
  shows "undisturbed text_of other session f f'"
proof (cases "f' = f")
  case False
  then obtain before batch where
    before: "load_strict text_of session f = (Inr before :: timeline_error strict_error + jdict list)"
    and f': "f' = history_file (before @ batch)" "batch \<noteq> []"
    and batch: "\<forall>y \<in> set batch. \<exists>x \<in> set es.
      normalize_strict_event text_of session x = (Inr y :: timeline_error strict_error + jdict)"
    using mutate_strict_effect [OF assms(1-3)] by auto
  have silent: "list_all silent batch"
    using batch assms(4) normalize_strict_silent [where ?'e = timeline_error]
    by (fastforce simp: list_all_iff)
  have ne: "f' \<noteq> Some []" using f' by (simp add: history_file_nonempty)
  show ?thesis
  proof (cases "load_strict text_of session f' :: timeline_error strict_error + jdict list")
    case (Inl e)
    then show ?thesis using ne by (simp add: undisturbed_def held_timeline_def)
  next
    case (Inr after)
    have "traverseE (read_strict_line text_of session) (map (\<lambda>e. Parsed (JObj e)) (before @ batch))
        = (Inr after :: timeline_error strict_error + jdict list)"
      using Inr f' by (cases before; cases batch) (simp_all add: load_strict_def history_file_def)
    then obtain xs ys where parts: "after = xs @ ys"
      "traverseE (read_strict_line text_of session) (map (\<lambda>e. Parsed (JObj e)) before)
        = (Inr xs :: timeline_error strict_error + jdict list)"
      "traverseE (read_strict_line text_of session) (map (\<lambda>e. Parsed (JObj e)) batch)
        = (Inr ys :: timeline_error strict_error + jdict list)"
      by (auto simp: traverseE_Inr_iff list_all2_append1)
    have "xs = before"
      using parts(2) read_strict_events [OF load_strict_ok [OF before], where ?'a = timeline_error]
      by (simp split: if_splits)
    moreover have "list_all silent ys"
    proof -
      have "silent y" if y: "y \<in> set ys" for y
      proof -
        obtain x where x: "x \<in> set batch"
          "read_strict_line text_of session (Parsed (JObj x)) = (Inr y :: timeline_error strict_error + jdict)"
          using traverseE_set [OF parts(3) y] by auto
        then have "normalize_persisted_failure_event text_of x = Inr y"
          by (auto simp: read_strict_line_def split: if_splits sum.splits)
        then show ?thesis
          using normalize_keeps_key [of text_of x y "''event''"] x(1) silent
          by (auto simp: silent_def jget_def list_all_iff)
      qed
      then show ?thesis by (simp add: list_all_iff)
    qed
    ultimately show ?thesis
      using held_timeline_append [OF before] Inr parts(1) ne
      by (intro undisturbed_same) simp_all
  qed
qed (simp add: undisturbed_refl)

lemma save_quiet:
  assumes n: "normalize_persisted_failure_event text_of e = Inr e'" and e: "silent e"
    and f: "f \<noteq> Some []"
  shows "undisturbed text_of other session f (Some (append_line (file_lines f) e'))"
proof -
  let ?f = "Some (append_line (file_lines f) e')"
  have ne: "?f \<noteq> Some []" by (simp add: append_line_def)
  show ?thesis
  proof (cases "load_strict text_of session ?f :: timeline_error strict_error + jdict list")
    case (Inl x)
    then show ?thesis using ne by (simp add: undisturbed_def held_timeline_def)
  next
    case (Inr events)
    from load_strict_snoc [OF Inr [unfolded append_line_def]] obtain before y where
      b: "traverseE (read_strict_line text_of session) (file_lines f)
        = (Inr before :: timeline_error strict_error + jdict list)"
      and y: "read_strict_line text_of session (Parsed (JObj e'))
        = (Inr y :: timeline_error strict_error + jdict)"
      and ev: "events = before @ [y]" by blast
    have "load_strict text_of session f = (Inr before :: timeline_error strict_error + jdict list)"
      using b f by (auto simp: load_strict_def file_lines_def split: option.splits list.splits)
    from held_timeline_append [OF this, of ?f "[y]"] show ?thesis
      using Inr ev read_saved_silent [OF n e y] ne by (intro undisturbed_same) simp_all
  qed
qed

text \<open>An operation that writes has read a history and its timeline.\<close>

lemma timeline_step_reads:
  assumes "timeline_step text_of revision_of pub other session f call = (f', res)" and "f' \<noteq> f"
    and "text_ok session"
  shows "\<exists>before loaded. load_strict text_of session f
      = (Inr before :: timeline_error strict_error + jdict list)
    \<and> load_timeline other session before = Inr loaded"
proof -
  have "py_strip session = session" using assms(3) by (simp add: text_ok_def)
  moreover obtain reducer where "apply_reducer text_of revision_of pub other session f (tc_written call)
      (tc_expected call) (companions_of (tc_op call)) reducer = (f', res)"
    using assms(1,2) by (auto simp: timeline_step_def split: sum.splits)
  then obtain x where "mutate_strict text_of revision_of pub session f (tc_expected call)
      (build_events other session (tc_written call) (companions_of (tc_op call)) reducer) = (f', x)"
    by (auto simp: apply_reducer_def split: prod.splits sum.splits strict_error.splits)
  ultimately show ?thesis
    using assms(2)
    by (auto simp: mutate_strict_def Let_def build_events_def bindE_eq_Inr
        split: sum.splits option.splits if_splits)
qed

lemma turn_op_moves:
  assumes "timeline_step text_of revision_of pub other session f call = (f', res)"
    and "text_ok session" and "plain pub"
    and "list_all (quiet pub) (companions_of (tc_op call))" and "valid_instant (tc_written call)"
  shows "file_moves text_of other session f f'"
proof (cases "f' = f")
  case False
  have "\<exists>before loaded. load_strict text_of session f
      = (Inr before :: timeline_error strict_error + jdict list)
    \<and> load_timeline other session before = Inr loaded"
    using timeline_step_reads [OF assms(1) False assms(2)] .
  then obtain before loaded where
    before: "load_strict text_of session f = (Inr before :: timeline_error strict_error + jdict list)"
    and loaded: "load_timeline other session before = Inr loaded" by blast
  from timeline_step_effect [OF assms(2-5) before loaded assms(1)] False
  consider (written) t where "timeline_written text_of other session before loaded f' t"
    | (broken) "history_broken text_of session before f'" by blast
  then show ?thesis
  proof cases
    case (written t)
    then have m: "timeline_moved session before loaded t"
      and h': "held_timeline text_of other session f' = Some (Tl_loaded t)"
      by (auto simp: timeline_written_def held_timeline_Some)
    then have "loaded \<noteq> Tl_invalid" "loaded \<noteq> Tl_unsupported" by (auto simp: timeline_moved_def)
    then have "held_timeline text_of other session f = Some loaded"
      using before loaded by (auto simp: held_timeline_Some)
    moreover have "f' \<noteq> Some []"
      using written by (auto simp: timeline_written_def load_strict_def)
    ultimately show ?thesis
      using h' moved_lane_moves [OF m] by (simp add: file_moves_def)
  next
    case broken
    then have "f' \<noteq> Some []" by (auto simp: history_broken_def history_file_def)
    then show ?thesis
      using broken by (simp add: history_broken_def file_moves_def held_timeline_def)
  qed
qed (simp add: file_moves_refl)

lemma act_undisturbed:
  assumes "act_ok pub act" and "text_ok session" and "plain pub" and "\<And>call. act \<noteq> Turn_op call"
  shows "undisturbed text_of other session f
    (fst (session_step text_of revision_of pub other session f act))"
proof (cases act)
  case (Append_batch expected es)
  obtain f' r where s: "mutate_strict text_of revision_of pub session f expected
      (\<lambda>_. Inr ((), Some es)) = (f', r :: timeline_error strict_error + unit append_result)"
    by fastforce
  then have "fst (session_step text_of revision_of pub other session f act) = f'"
    by (cases r) (simp_all add: session_step_def Append_batch)
  then show ?thesis
    using batch_quiet [OF s assms(2,3)] assms(1) by (simp add: act_ok_def Append_batch)
next
  case (Save e)
  show ?thesis
  proof (cases "normalize_persisted_failure_event text_of e")
    case (Inl x)
    then show ?thesis by (simp add: session_step_def Save save_event_def undisturbed_refl)
  next
    case (Inr e')
    then show ?thesis
      using save_quiet [OF Inr] assms(1)
      by (cases "f = Some []") (simp_all add: session_step_def Save save_event_def act_ok_def undisturbed_def)
  qed
qed (use assms(4) in simp)

lemma act_moves:
  assumes "act_ok pub act" and "text_ok session" and "plain pub"
  shows "file_moves text_of other session f
    (fst (session_step text_of revision_of pub other session f act))"
proof (cases "\<exists>call. act = Turn_op call")
  case True
  then obtain call where act: "act = Turn_op call" ..
  obtain f' res where s: "timeline_step text_of revision_of pub other session f call = (f', res)"
    by fastforce
  then have "fst (session_step text_of revision_of pub other session f act) = f'"
    by (cases res) (simp_all add: session_step_def act)
  then show ?thesis
    using turn_op_moves [OF s assms(2,3)] assms(1) by (simp add: act_ok_def act)
next
  case False
  then show ?thesis using undisturbed_moves [OF act_undisturbed [OF assms]] by blast
qed

lemma run_moves:
  assumes "list_all (act_ok pub) acts" and "text_ok session" and "plain pub"
  shows "file_moves text_of other session f
    (run_ops (session_step text_of revision_of pub other session) f acts)"
proof (rule run_ops_related_on [where R = "file_moves text_of other session"])
  fix s act
  assume "act \<in> set acts"
  then show "file_moves text_of other session s
      (fst (session_step text_of revision_of pub other session s act))"
    using assms by (intro act_moves) (simp_all add: list_all_iff)
qed (rule file_moves_refl, rule file_moves_trans)

end
