(* ===== verification/Timeline_Order.thy ===== *)
theory Timeline_Order
  imports Timeline_Fence
begin

text \<open>
  Two more facts on the lane machine. No turn overtakes one that still waits: behind a queued turn
  there are only queued turns and turns that were cancelled while queued. And an operation is started
  at most once: the start needs a precommitted operation, and no step makes one precommitted again.
\<close>

section \<open>No overtaking\<close>

definition passed_over :: "turn \<Rightarrow> bool" where
  "passed_over u \<longleftrightarrow> turn_status u = Queued
     \<or> (turn_status u = Terminal \<and> outcome u = Some Cancelled \<and> cancellation u = Some Cancelled_queued)"

definition no_overtaking :: "timeline \<Rightarrow> bool" where
  "no_overtaking t \<longleftrightarrow>
     (\<forall>u \<in> set (turns t). \<forall>v \<in> set (turns t).
        turn_status u = Queued \<longrightarrow> turn_sequence u < turn_sequence v \<longrightarrow> passed_over v)"

lemma no_overtaking_same: "no_overtaking t \<Longrightarrow> turns t' = turns t \<Longrightarrow> no_overtaking t'"
  by (simp add: no_overtaking_def)

lemma no_overtaking_replaced:
  assumes o: "no_overtaking t" and s: "turns t = a @ u # b" and s': "turns t' = a @ v # b"
    and seq: "turn_sequence v = turn_sequence u" and q: "turn_status v = Queued \<Longrightarrow> turn_status u = Queued"
    and v: "passed_over u \<Longrightarrow> passed_over v \<or> (\<forall>w \<in> set (a @ b). turn_status w = Queued
      \<longrightarrow> turn_sequence u < turn_sequence w)"
  shows "no_overtaking t'"
proof -
  have o': "passed_over y" if "x \<in> set (turns t)" "y \<in> set (turns t)" "turn_status x = Queued"
    "turn_sequence x < turn_sequence y" for x y
    using o that by (auto simp: no_overtaking_def)
  show ?thesis
    unfolding no_overtaking_def s'
  proof (intro ballI impI)
    fix x y
    assume x: "x \<in> set (a @ v # b)" and y: "y \<in> set (a @ v # b)" and st: "turn_status x = Queued"
      and lt: "turn_sequence x < turn_sequence y"
    show "passed_over y"
    proof (cases "y \<in> set (a @ b)")
      case True
      then show ?thesis
        using o' [of x y] o' [of u y] x st lt seq q s by auto
    next
      case False
      then have y': "y = v" using y by auto
      then have "x \<in> set (a @ b)" using x lt by auto
      then show ?thesis
        using o' [of x u] v st lt seq s y' by (cases "passed_over u") auto
    qed
  qed
qed

lemma no_overtaking_turn:
  assumes wf: "wf_timeline t" and o: "no_overtaking t" and find: "find_turn t i = Some u"
    and put: "turns t' = put_turn i v (turns t)" and seq: "turn_sequence v = turn_sequence u"
    and q: "turn_status v = Queued \<Longrightarrow> turn_status u = Queued"
    and v: "passed_over u \<Longrightarrow> passed_over v \<or> (\<forall>w \<in> set (turns t). turn_status w = Queued
      \<longrightarrow> turn_sequence u \<le> turn_sequence w)"
  shows "no_overtaking t'"
proof -
  from turn_split [OF wf find] obtain a b where s: "turns t = a @ u # b"
    and p: "put_turn i v (turns t) = a @ v # b" by blast
  have ne: "turn_sequence w \<noteq> turn_sequence u" if "w \<in> set (a @ b)" for w
    using sequence_order [OF wf s] that by auto
  show ?thesis
  proof (rule no_overtaking_replaced [OF o s _ seq q])
    show "turns t' = a @ v # b" by (simp add: put p)
    show "passed_over v \<or> (\<forall>w \<in> set (a @ b). turn_status w = Queued \<longrightarrow> turn_sequence u < turn_sequence w)"
      if "passed_over u"
      using v [OF that] ne by (fastforce simp: s)
  qed
qed

lemma running_not_passed: "turn_status u = Running \<Longrightarrow> \<not> passed_over u"
  by (simp add: passed_over_def)

lemma lane_step_order:
  assumes "lane_step t m t'" and wf: "wf_timeline t" and o: "no_overtaking t"
  shows "no_overtaking t'"
  using assms(1)
proof cases
  case (step_admit i adm n)
  let ?u = "new_turn (int (length (turns t)) + 1) i adm"
  have "passed_over ?u" "turn_sequence ?u = int (length (turns t)) + 1"
    by (simp_all add: passed_over_def new_turn_def)
  then show ?thesis
    using o sequence_le_length [OF wf] by (force simp: step_admit(2) no_overtaking_def)
next
  case (step_claim u owner token e n)
  note q = queued_head_first [OF wf step_claim(4)]
  show ?thesis
    by (rule no_overtaking_turn [OF wf o q(1), where v = "claim_turn u"])
      (use q(3) in \<open>simp_all add: step_claim(2) claim_turn_def\<close>)
next
  case (step_renew e n)
  then show ?thesis using no_overtaking_same [OF o] by simp
next
  case (step_wait i u e n)
  show ?thesis
    by (rule no_overtaking_turn [OF wf o step_wait(3), where v = "u\<lparr>admission_expires := Some e\<rparr>"])
      (simp_all add: step_wait(2) passed_over_def)
next
  case (step_touch n)
  then show ?thesis using no_overtaking_same [OF o] by simp
next
  case (step_cancel i u n r)
  show ?thesis
    by (rule no_overtaking_turn [OF wf o step_cancel(3), where v = "(cancel_queued_turn u)\<lparr>recovery := r\<rparr>"])
      (simp_all add: step_cancel(2) cancel_queued_turn_def passed_over_def)
next
  case (step_precommit i u d n)
  show ?thesis
    by (rule no_overtaking_turn [OF wf o step_precommit(3), where v = "u\<lparr>descriptors := descriptors u @ [d]\<rparr>"])
      (simp_all add: step_precommit(2) passed_over_def)
next
  case (step_move i u op d d' b n)
  show ?thesis
    by (rule no_overtaking_turn [OF wf o step_move(3),
          where v = "(put_operation op d' u)\<lparr>turn_boundary := b\<rparr>"])
      (simp_all add: step_move(2) put_operation_def passed_over_def)
next
  case (step_end i u out c n)
  have "\<not> passed_over u"
    using find_turn_status(1) [OF wf step_end(3)] step_end(4) by (simp add: running_not_passed)
  then show ?thesis
    by (intro no_overtaking_turn [OF wf o step_end(3), where v = "end_turn out c u"])
      (simp_all add: step_end(2) end_turn_def)
next
  case (step_quarantine i u n)
  have "\<not> passed_over u"
    using find_turn_status(1) [OF wf step_quarantine(3)] step_quarantine(4) by (simp add: running_not_passed)
  then show ?thesis
    by (intro no_overtaking_turn [OF wf o step_quarantine(3),
          where v = "end_turn Outcome_unknown None (quarantine_all u)"])
      (simp_all add: step_quarantine(2) end_turn_def quarantine_all_def)
qed

definition ordered_state :: "timeline \<Rightarrow> bool" where
  "ordered_state t \<longleftrightarrow> lane_state t \<and> no_overtaking t"

interpretation ordered: evolving lane_step ordered_state timeline_evolves
proof unfold_locales
  show "lane_step s m t \<Longrightarrow> ordered_state s \<Longrightarrow> ordered_state t" for s m t
    unfolding ordered_state_def using states.step_inv lane_step_order
    by (auto simp: lane_state_def)
  show "lane_step s m t \<Longrightarrow> ordered_state s \<Longrightarrow> timeline_evolves s t" for s m t
    unfolding ordered_state_def using states.step_le by blast
qed (auto intro: timeline_evolves_trans)

section \<open>An operation starts at most once\<close>

text \<open>An operation that has left the precommitted state.\<close>

definition op_begun :: "string \<Rightarrow> timeline \<Rightarrow> bool" where
  "op_begun op t \<longleftrightarrow>
     list_ex (\<lambda>u. list_ex (\<lambda>d. operation_id d = op \<and> op_status d \<noteq> Precommitted) (descriptors u)) (turns t)"

fun starts :: "string \<Rightarrow> move \<Rightarrow> bool" where
  "starts op (Move i o_id st) = (o_id = op \<and> st = Started)"
| "starts op _ = False"

lemma op_edge_begun: "op_edge\<^sup>*\<^sup>* a b \<Longrightarrow> a \<noteq> Precommitted \<Longrightarrow> b \<noteq> Precommitted"
proof (induction rule: rtranclp_induct)
  case (step b c)
  then show ?case by (cases b) auto
qed simp

lemma op_begun_evolves:
  assumes "timeline_evolves t t'" and "op_begun op t"
  shows "op_begun op t'"
proof -
  from assms(2) obtain u d where u: "u \<in> set (turns t)" and d: "d \<in> set (descriptors u)"
    "operation_id d = op" "op_status d \<noteq> Precommitted"
    by (auto simp: op_begun_def list_ex_iff)
  from assms(1) u obtain v where v: "v \<in> set (turns t')" "turn_evolves u v"
    using extends_in by (fastforce simp: timeline_evolves_def)
  then have "extends desc_evolves (descriptors u) (descriptors v)" by (simp add: turn_evolves_def)
  from extends_in [OF this d(1)] obtain e where e: "e \<in> set (descriptors v)" "desc_evolves d e" by blast
  then have "operation_id e = op" "op_status e \<noteq> Precommitted"
    using d op_edge_begun by (auto simp: desc_evolves_def same_identity_def)
  then show ?thesis using v(1) e(1) by (auto simp: op_begun_def list_ex_iff)
qed

text \<open>An operation identifier names one operation of the session.\<close>

lemma operation_unique:
  assumes wf: "wf_timeline t" and u: "u \<in> set (turns t)" "d \<in> set (descriptors u)"
    and v: "v \<in> set (turns t)" "e \<in> set (descriptors v)" and same: "operation_id e = operation_id d"
  shows "e = d"
proof -
  have dist: "distinct (concat (map turn_operation_ids (turns t)))"
    using wf by (simp add: wf_timeline_def wf_history_def all_operation_ids_def)
  have in_ids: "operation_id x \<in> set (turn_operation_ids w)" if "x \<in> set (descriptors w)" for x w
    using that by (simp add: turn_operation_ids_def)
  have "v = u"
  proof (rule ccontr)
    assume ne: "v \<noteq> u"
    have "turn_operation_ids u \<noteq> [] \<and> turn_operation_ids v \<noteq> []"
      using in_ids [OF u(2)] in_ids [OF v(2)] by auto
    obtain x y where s: "turns t = x @ u # y" using u(1) by (meson split_list)
    then have "v \<in> set x \<or> v \<in> set y" using v(1) ne by auto
    then show False
      using dist in_ids [OF u(2)] in_ids [OF v(2)] same by (auto simp: s)
  qed
  moreover have "distinct (map operation_id (descriptors u))"
  proof -
    obtain x y where s: "turns t = x @ u # y" using u(1) by (meson split_list)
    show ?thesis using wf_distinct_descriptors [OF wf_turn_in [OF wf s]] .
  qed
  ultimately show ?thesis
    using u(2) v(2) same by (metis distinct_map inj_on_eq_iff)
qed

inductive_cases move_stepE: "lane_step t (Move i op st) t'"

lemma start_needs_precommit:
  assumes step: "lane_step t m t'" and wf: "wf_timeline t" and m: "starts op m"
  shows "\<not> op_begun op t \<and> op_begun op t'"
proof -
  obtain i where m': "m = Move i op Started" using m by (cases m) auto
  obtain u d d' b n where find: "find_turn t i = Some u" and d: "find_descriptor u op = Some d"
    and edge: "op_edge (op_status d) (op_status d')" and st: "op_status d' = Started"
    and same: "same_identity d d'"
    and t': "t' = stamp n (set_turn t i ((put_operation op d' u)\<lparr>turn_boundary := b\<rparr>))"
    by (rule move_stepE [OF step [unfolded m']]) (erule that [OF _ _ _ sym], assumption+)
  from turn_split [OF wf find] obtain x y where s: "turns t = x @ u # y"
    and p: "put_turn i ((put_operation op d' u)\<lparr>turn_boundary := b\<rparr>) (turns t)
      = x @ ((put_operation op d' u)\<lparr>turn_boundary := b\<rparr>) # y" by blast
  from descriptor_split [OF wf_distinct_descriptors [OF find_turn_status(2) [OF wf find]] d]
  obtain v w where ds: "descriptors u = v @ d # w" "operation_id d = op"
    "put_descriptor op d' (descriptors u) = v @ d' # w" by blast
  have pre: "op_status d = Precommitted" using edge st by (cases "op_status d") simp_all
  have in_t: "u \<in> set (turns t)" "d \<in> set (descriptors u)" using s ds by simp_all
  have "\<not> op_begun op t"
    using operation_unique [OF wf in_t] pre ds(2) by (auto simp: op_begun_def list_ex_iff)
  moreover have "op_begun op t'"
    using p st ds same by (auto simp: op_begun_def t' put_operation_def same_identity_def)
  ultimately show ?thesis ..
qed

interpretation start: spending lane_step wf_timeline timeline_evolves "op_begun op" "starts op" for op
proof unfold_locales
  show "wf_timeline s \<Longrightarrow> wf_timeline t \<Longrightarrow> timeline_evolves s t \<Longrightarrow> op_begun op s \<Longrightarrow> op_begun op t" for s t
    by (rule op_begun_evolves)
  show "lane_step s m t \<Longrightarrow> wf_timeline s \<Longrightarrow> starts op m \<Longrightarrow> \<not> op_begun op s" for s m t
    using start_needs_precommit by blast
  show "lane_step s m t \<Longrightarrow> wf_timeline s \<Longrightarrow> starts op m \<Longrightarrow> op_begun op t" for s m t
    using start_needs_precommit by blast
qed

end
