(* ===== verification/Timeline_Answers.thy ===== *)
theory Timeline_Answers
  imports Timeline_Run Timeline_Order
begin

text \<open>
  What the answers of the repository mean. An answer that is neither a refusal nor a rebase is the
  answer of the reduction on the timeline of the file, and the file has the revision the caller
  named; a durable answer with a new timeline was written. The start of an approved operation is
  answered with success at most once in a run.
\<close>

section \<open>Answers of a reduction\<close>

text \<open>What the final check of a timeline surely leaves alone.\<close>

definition core :: "timeline \<Rightarrow> turn list \<times> utc_time option" where
  "core t = (turns t, lane_expires t)"

lemma check_timeline_keeps:
  assumes "check_timeline t = Inr t'"
  shows "core t' = core t"
proof -
  obtain s where s: "check_timeline_turns t = Inr s" and l: "check_timeline_lane s = Inr t'"
    using assms by (auto simp: check_timeline_def bindE_eq_Inr)
  then have "core s = core t" "wf_history s"
    by (auto simp: check_timeline_turns_Inr wf_history_def core_def)
  then show ?thesis using check_timeline_lane_ok [OF l] by (auto simp: core_def)
qed

definition unwritten :: "timeline_load \<Rightarrow> reduction \<Rightarrow> bool" where
  "unwritten loaded x \<longleftrightarrow> red_timeline x = loaded_timeline loaded \<or> red_timeline x = None
     \<or> red_status x \<notin> set durable_statuses"

lemma build_events_Inr:
  assumes b: "build_events other session w comps reducer before = Inr (out, batch)"
  shows "batch = None \<and> red_status out \<in> {Ms_invalid, Ms_unsupported_version}
    \<or> (\<exists>loaded x. load_timeline other session before = Inr loaded
        \<and> loaded \<noteq> Tl_invalid \<and> loaded \<noteq> Tl_unsupported
        \<and> reducer (loaded_timeline loaded) before = Inr x \<and> red_status out = red_status x
        \<and> (if unwritten loaded x then batch = None
           else (\<exists>t. batch = Some (comps @ [timeline_event session w t]))
             \<and> map_option core (red_timeline out) = map_option core (red_timeline x)))"
proof -
  obtain loaded where loaded: "load_timeline other session before = Inr loaded"
    using b by (auto simp: build_events_def bindE_eq_Inr)
  show ?thesis
  proof (cases "loaded = Tl_invalid \<or> loaded = Tl_unsupported")
    case True
    then show ?thesis using b loaded by (auto simp: build_events_def)
  next
    case False
    then obtain x where x: "reducer (loaded_timeline loaded) before = Inr x"
      using b loaded by (auto simp: build_events_def bindE_eq_Inr)
    have "red_status out = red_status x \<and> (if unwritten loaded x then batch = None
        else (\<exists>t. batch = Some (comps @ [timeline_event session w t]))
          \<and> map_option core (red_timeline out) = map_option core (red_timeline x))"
    proof (cases "unwritten loaded x")
      case True
      then show ?thesis
        using b loaded x False by (auto simp: build_events_def unwritten_def split: if_splits option.splits)
    next
      case written: False
      then obtain t where "red_timeline x = Some t" "red_timeline x \<noteq> loaded_timeline loaded"
        "red_status x \<in> set durable_statuses" by (auto simp: unwritten_def)
      note t = this
      then have "\<exists>t'. Inr (x\<lparr>red_timeline := Some t'\<rparr>, Some (comps @ [timeline_event session w t']))
          = (Inr (out, batch) :: timeline_error + reduction \<times> jdict list option) \<and> core t' = core t"
        using b loaded x False
        by (simp add: build_events_def Let_def bindE_eq_Inr)
          (auto simp: bindE_eq_Inr core_def dest!: check_timeline_keeps split: if_splits)
      then show ?thesis using written t by auto
    qed
    then show ?thesis using loaded x False by blast
  qed
qed

text \<open>The batch of a transition holds a timeline event, which no gate drops.\<close>

lemma build_events_publishes:
  assumes b: "build_events other session w comps reducer before = Inr (out, Some cands)"
    and n: "traverseE (normalize_strict_event text_of session) cands
      = (Inr normalized :: 'e strict_error + jdict list)"
  shows "publish pub before normalized \<noteq> []"
proof -
  obtain t where "timeline_event session w t \<in> set cands"
    using build_events_Inr [OF b] that by (fastforce split: if_splits)
  then obtain y where y: "y \<in> set normalized"
    "normalize_strict_event text_of session (timeline_event session w t) = (Inr y :: 'e strict_error + jdict)"
    using traverseE_covers [OF n] by blast
  have "jget y ''event'' = jget (timeline_event session w t) ''event''"
    by (rule normalize_strict_key [OF y(2)])
  then have "\<not> gate_controlled y"
    using not_gate_controlled [of session w t] by (simp add: gate_controlled_def)
  then have "normalized \<noteq> [] \<and> filter (\<lambda>e. \<not> gate_controlled e) normalized \<noteq> []"
    using y(1) by (auto simp: filter_empty_conv)
  then show ?thesis by (simp add: publish_def split: publication.split)
qed

lemma timeline_step_answer:
  assumes step: "timeline_step text_of revision_of pub other session f call = (f', Inr r)"
    and session: "text_ok session"
    and st: "mr_status r \<noteq> Ms_invalid" "mr_status r \<noteq> Ms_unsupported_version" "mr_status r \<noteq> Ms_rebase_required"
  shows "\<exists>before loaded reducer x.
    load_strict text_of session f = (Inr before :: timeline_error strict_error + jdict list)
    \<and> load_timeline other session before = Inr loaded \<and> loaded \<noteq> Tl_invalid \<and> loaded \<noteq> Tl_unsupported
    \<and> revision_of before = tc_expected call
    \<and> request other session (tc_now call) (tc_op call) = Inr reducer
    \<and> reducer (loaded_timeline loaded) before = Inr x \<and> red_status x = mr_status r
    \<and> (\<not> unwritten loaded x \<longrightarrow> f' \<noteq> f
         \<and> map_option core (mr_timeline r) = map_option core (red_timeline x))"
proof -
  have sid: "py_strip session = session" "session \<noteq> []"
    using session by (simp_all add: text_ok_def)
  let ?comps = "companions_of (tc_op call)"
  obtain reducer where req: "request other session (tc_now call) (tc_op call) = Inr reducer"
    and ap: "apply_reducer text_of revision_of pub other session f (tc_written call)
      (tc_expected call) ?comps reducer = (f', Inr r)"
    using step by (auto simp: timeline_step_def split: sum.splits)
  let ?build = "build_events other session (tc_written call) ?comps reducer"
  obtain m where mut: "mutate_strict text_of revision_of pub session f (tc_expected call) ?build = (f', Inr m)"
    and ms: "append_status m \<noteq> Rebase_required" and nt: "append_note m \<noteq> None"
      "mr_status r = red_status (the (append_note m))" "mr_timeline r = red_timeline (the (append_note m))"
    using ap st by (auto simp: apply_reducer_def split: prod.splits sum.splits strict_error.splits
        if_splits option.splits)
  obtain before where before: "load_strict text_of session f = (Inr before :: timeline_error strict_error + jdict list)"
    and rev: "revision_of before = tc_expected call"
    and cases: "(\<exists>out. ?build before = Inr (out, None) \<and> append_note m = Some out)
      \<or> (\<exists>out cands normalized. ?build before = Inr (out, Some cands) \<and> append_note m = Some out
          \<and> traverseE (normalize_strict_event text_of session) cands
              = (Inr normalized :: timeline_error strict_error + jdict list)
          \<and> (publish pub before normalized \<noteq> []
              \<longrightarrow> f' = history_file (before @ publish pub before normalized)))"
    using mut ms
    by (simp add: mutate_strict_def Let_def sid split: sum.splits option.splits if_splits prod.splits)
      auto
  obtain out batch where out: "?build before = Inr (out, batch)" "append_note m = Some out"
    and written: "\<And>cands. batch = Some cands \<Longrightarrow> \<exists>normalized.
      traverseE (normalize_strict_event text_of session) cands
        = (Inr normalized :: timeline_error strict_error + jdict list)
      \<and> (publish pub before normalized \<noteq> [] \<longrightarrow> f' = history_file (before @ publish pub before normalized))"
    using cases by auto
  have new: "\<exists>new. new \<noteq> [] \<and> f' = history_file (before @ new)" if "batch = Some cands" for cands
  proof -
    from written [OF that] obtain normalized where
      n: "traverseE (normalize_strict_event text_of session) cands
        = (Inr normalized :: timeline_error strict_error + jdict list)"
      and w: "publish pub before normalized \<noteq> [] \<Longrightarrow> f' = history_file (before @ publish pub before normalized)"
      by blast
    have "publish pub before normalized \<noteq> []"
      using n build_events_publishes [OF out(1) [unfolded that] n] by simp
    with w show ?thesis by blast
  qed
  obtain loaded x where loaded: "load_timeline other session before = Inr loaded"
    "loaded \<noteq> Tl_invalid" "loaded \<noteq> Tl_unsupported"
    and x: "reducer (loaded_timeline loaded) before = Inr x" "red_status out = red_status x"
    and wr: "\<not> unwritten loaded x \<Longrightarrow> batch \<noteq> None
      \<and> map_option core (red_timeline out) = map_option core (red_timeline x)"
    using build_events_Inr [OF out(1)] out(2) nt st by (auto split: if_splits)
  have "f' \<noteq> f" if "batch \<noteq> None"
  proof
    assume "f' = f"
    with new that obtain new where new: "new \<noteq> []" "f = history_file (before @ new)" by blast
    have "traverseE (read_strict_line text_of session) (map (\<lambda>e. Parsed (JObj e)) (before @ new))
        = (Inr before :: timeline_error strict_error + jdict list)"
      using before new by (cases before; cases new) (simp_all add: load_strict_def history_file_def)
    from traverseE_length [OF this] new(1) show False by simp
  qed
  then show ?thesis
    using before loaded rev req x wr out nt
    by (intro exI [of _ before] exI [of _ loaded] exI [of _ reducer] exI [of _ x]) simp
qed

text \<open>A file that changed was changed by a timeline that was to be written.\<close>

lemma timeline_step_written:
  assumes step: "timeline_step text_of revision_of pub other session f call = (f', res)" and ne: "f' \<noteq> f"
    and session: "text_ok session"
    and req: "request other session (tc_now call) (tc_op call) = Inr reducer"
    and before: "load_strict text_of session f = (Inr before :: timeline_error strict_error + jdict list)"
    and loaded: "load_timeline other session before = Inr loaded"
  shows "\<exists>x. reducer (loaded_timeline loaded) before = Inr x \<and> \<not> unwritten loaded x"
proof -
  have sid: "py_strip session = session" using session by (simp add: text_ok_def)
  have "apply_reducer text_of revision_of pub other session f (tc_written call)
      (tc_expected call) (companions_of (tc_op call)) reducer = (f', res)"
    using step ne req by (auto simp: timeline_step_def split: sum.splits)
  then obtain m where m: "mutate_strict text_of revision_of pub session f (tc_expected call)
      (build_events other session (tc_written call) (companions_of (tc_op call)) reducer) = (f', m)"
    by (auto simp: apply_reducer_def split: prod.splits sum.splits strict_error.splits)
  then obtain out cands where "build_events other session (tc_written call) (companions_of (tc_op call))
      reducer before = Inr (out, Some cands)"
    using ne before
    by (auto simp: mutate_strict_def Let_def sid split: sum.splits option.splits if_splits)
  from build_events_Inr [OF this] loaded show ?thesis by (auto split: if_splits)
qed

section \<open>The start of an approved operation\<close>

lemma request_terminal_start:
  assumes "request other session now (Op_terminal_start i op call digest) = Inr reducer"
  shows "\<exists>i' op' call' digest'. op' = py_strip op \<and> reducer = reduce_terminal_start i' op' call' digest'"
  using assms
  by (auto simp: continuation_args_def result_simps text_arg_def require_text_Inr)

text \<open>A successful start found the operation precommitted; afterwards it is started.\<close>

lemma start_succeeds:
  assumes wf: "wf_timeline t" and held: "held_by t events"
    and r: "reduce_terminal_start i op call digest (Some t) events = Inr r"
    and st: "red_status r = Ms_boundary_updated"
  shows "\<not> op_begun op t \<and> \<not> unwritten (Tl_loaded t) r
    \<and> (\<forall>t'. red_timeline r = Some t' \<longrightarrow> op_begun op t')"
proof -
  obtain u d d' where find: "find_turn t i = Some u" and tm: "turn_status u = Terminal" "outcome u = Some Blocked"
    and d: "find_descriptor u op = Some d"
    and d': "check_descriptor (with_boundary d Started Effect_started) = Inr d'"
    and pre: "is_precommitted d"
    and up: "update_turn Ms_boundary_updated t events i (put_operation op d' u) id = Inr r"
    using r st
    by (auto simp: reduce_terminal_start_def with_blocked_operation_def bindE_eq_Inr
        split: option.splits if_splits)
  have wd: "wf_desc d" "operation_id d = op" using find_descriptor_wf [OF find_turn_status(2) [OF wf find] d] by auto
  then have de: "d' = with_boundary d Started Effect_started"
    using d' pre check_descriptor_texts [of "with_boundary d Started Effect_started"]
    by (auto simp: wf_desc_def desc_texts_def with_boundary_def evidence_allowed_def is_precommitted_def)
  have wd': "wf_desc d'" using check_descriptor_wf [OF d'] .
  let ?t = "stamp (int (length events) + 1) (set_turn t i (put_operation op d' u))"
  have step: "lane_step t (Move i op Started) ?t"
    using step_move [OF find _ d, of d' "turn_boundary u" "int (length events) + 1"] wd' de tm pre held
    by (auto simp: may_move_def is_precommitted_def with_boundary_def same_identity_def moved_boundary_def
        put_operation_def held_by_def)
  have "r = \<lparr>red_status = Ms_boundary_updated, red_timeline = Some ?t\<rparr>"
    using up update_turn_step [where f = id and u = "put_operation op d' u", OF wf find] step by simp
  moreover have "?t \<noteq> t"
    using step_revision [OF step] by (metis less_irrefl)
  ultimately show ?thesis
    using start_needs_precommit [OF step wf, of op] by (simp add: unwritten_def durable_statuses_def)
qed

text \<open>The same on the file: the answer \<open>boundary_updated\<close> to a start.\<close>

fun start_target :: "session_act \<Rightarrow> string option" where
  "start_target (Turn_op call) =
     (case tc_op call of Op_terminal_start _ o_id _ _ \<Rightarrow> Some (py_strip o_id) | _ \<Rightarrow> None)"
| "start_target _ = None"

fun answer_status :: "timeline_error strict_error + act_result \<Rightarrow> mutation_status option" where
  "answer_status (Inr (Mutated r)) = Some (mr_status r)"
| "answer_status _ = None"

definition start_answered :: "string \<Rightarrow> session_act \<times> (timeline_error strict_error + act_result) \<Rightarrow> bool" where
  "start_answered op entry \<longleftrightarrow>
     start_target (fst entry) = Some op \<and> answer_status (snd entry) = Some Ms_boundary_updated"

lemma start_target_Some:
  assumes "start_target act = Some op"
  shows "\<exists>call i o_id cd dg. act = Turn_op call \<and> tc_op call = Op_terminal_start i o_id cd dg \<and> py_strip o_id = op"
proof (cases act)
  case (Turn_op call)
  then show ?thesis using assms by (cases "tc_op call") simp_all
qed (use assms in simp_all)

lemma answer_status_Some: "answer_status res = Some st \<longleftrightarrow> (\<exists>r. res = Inr (Mutated r) \<and> mr_status r = st)"
  by (cases res rule: answer_status.cases) auto

definition file_state ::
  "(json \<Rightarrow> string) \<Rightarrow> (string \<Rightarrow> aware option) \<Rightarrow> string \<Rightarrow> strict_file \<Rightarrow> bool" where
  "file_state text_of other session f \<longleftrightarrow> f \<noteq> Some []
     \<and> (\<forall>t. held_timeline text_of other session f = Some (Tl_loaded t) \<longrightarrow> ordered_state t)"

definition file_begun ::
  "(json \<Rightarrow> string) \<Rightarrow> (string \<Rightarrow> aware option) \<Rightarrow> string \<Rightarrow> string \<Rightarrow> strict_file \<Rightarrow> bool" where
  "file_begun text_of other session op f =
     (case held_timeline text_of other session f of
        None \<Rightarrow> True | Some (Tl_loaded t) \<Rightarrow> op_begun op t | Some _ \<Rightarrow> False)"

text \<open>An act and its result, as a step of the file; the acts are those of the repository and of
  writers that write no timeline events.\<close>

definition act_step ::
  "(json \<Rightarrow> string) \<Rightarrow> (jdict list \<Rightarrow> string) \<Rightarrow> publication \<Rightarrow> (string \<Rightarrow> aware option) \<Rightarrow> string
    \<Rightarrow> strict_file \<Rightarrow> session_act \<times> (timeline_error strict_error + act_result) \<Rightarrow> strict_file \<Rightarrow> bool" where
  "act_step text_of revision_of pub other session f entry f' \<longleftrightarrow>
     text_ok session \<and> plain pub \<and> act_ok pub (fst entry)
     \<and> session_step text_of revision_of pub other session f (fst entry) = (f', snd entry)"

lemma started_ordered: "timeline_started session before t \<Longrightarrow> text_ok session \<Longrightarrow> ordered_state t"
proof -
  assume s: "timeline_started session before t" and n: "text_ok session"
  have "no_overtaking t"
    using s by (auto simp: timeline_started_def first_timeline_def no_overtaking_def)
  then show "ordered_state t"
    using fenced_started [OF s] conjunct1 [OF started_wf [OF n s]]
    by (simp add: ordered_state_def lane_state_def)
qed

lemma moved_ordered:
  assumes "lane_moves session l (Tl_loaded t)" and "text_ok session"
    and "\<And>t. l = Tl_loaded t \<Longrightarrow> ordered_state t"
  shows "ordered_state t"
proof (cases l)
  case Tl_missing
  then obtain before t0 ms where "timeline_started session before t0" "path lane_step t0 ms t"
    using assms(1) by (auto simp: lane_moves_def reached_def)
  then show ?thesis using ordered.path_inv started_ordered [OF _ assms(2)] by blast
next
  case (Tl_loaded t0)
  then obtain ms where "path lane_step t0 ms t" using assms(1) by (auto simp: lane_moves_def)
  then show ?thesis using ordered.path_inv assms(3) [OF Tl_loaded] by blast
qed (use assms(1) in \<open>simp_all add: lane_moves_def\<close>)

lemma file_state_moves:
  assumes "file_moves text_of other session f f'" and "file_state text_of other session f"
    and "text_ok session"
  shows "file_state text_of other session f'"
proof -
  have "ordered_state t" if t: "held_timeline text_of other session f' = Some (Tl_loaded t)" for t
  proof -
    obtain l where l: "held_timeline text_of other session f = Some l" "lane_moves session l (Tl_loaded t)"
      using assms(1,2) t by (auto simp: file_moves_def file_state_def)
    then show ?thesis
      using moved_ordered [OF l(2) assms(3)] assms(2) by (simp add: file_state_def)
  qed
  then show ?thesis using assms(1,2) by (simp add: file_state_def file_moves_def)
qed

lemma file_begun_moves:
  assumes "file_moves text_of other session f f'" and "file_state text_of other session f"
    and "file_begun text_of other session op f"
  shows "file_begun text_of other session op f'"
proof (cases "held_timeline text_of other session f'")
  case (Some l')
  then obtain l where l: "held_timeline text_of other session f = Some l" and m: "lane_moves session l l'"
    using assms(1,2) by (auto simp: file_moves_def file_state_def)
  then obtain t where t: "l = Tl_loaded t" "op_begun op t"
    using assms(3) by (auto simp: file_begun_def split: timeline_load.splits)
  then obtain t' ms where t': "l' = Tl_loaded t'" and p: "path lane_step t ms t'"
    using m by (cases l') (auto simp: lane_moves_def)
  have "ordered_state t" using assms(2) l t(1) by (simp add: file_state_def)
  from op_begun_evolves [OF ordered.path_le [OF p this] t(2)] show ?thesis
    using Some t' by (simp add: file_begun_def)
qed (simp add: file_begun_def)

lemma answered_start:
  assumes step: "act_step text_of revision_of pub other session f entry f'"
    and inv: "file_state text_of other session f" and fires: "start_answered op entry"
  shows "\<not> file_begun text_of other session op f \<and> file_begun text_of other session op f'"
proof -
  obtain call r i o_id cd dg where entry: "entry = (Turn_op call, Inr (Mutated r))"
    and tc: "tc_op call = Op_terminal_start i o_id cd dg" and op: "py_strip o_id = op"
    and st: "mr_status r = Ms_boundary_updated"
    using fires start_target_Some [of "fst entry" op] by (cases entry) (auto simp: start_answered_def answer_status_Some)
  have session: "text_ok session" and pub: "plain pub"
    and ok: "list_all (quiet pub) (companions_of (tc_op call))" "valid_instant (tc_written call)"
    and ts: "timeline_step text_of revision_of pub other session f call = (f', Inr r)"
    using step entry by (auto simp: act_step_def act_ok_def session_step_def split: prod.splits sum.splits)
  obtain before loaded reducer x where
    before: "load_strict text_of session f = (Inr before :: timeline_error strict_error + jdict list)"
    and loaded: "load_timeline other session before = Inr loaded" "loaded \<noteq> Tl_invalid" "loaded \<noteq> Tl_unsupported"
    and req: "request other session (tc_now call) (tc_op call) = Inr reducer"
    and x: "reducer (loaded_timeline loaded) before = Inr x" "red_status x = Ms_boundary_updated"
    and wr: "\<not> unwritten loaded x \<Longrightarrow> f' \<noteq> f \<and> map_option core (mr_timeline r) = map_option core (red_timeline x)"
    using timeline_step_answer [OF ts session] st by auto
  obtain i' c' d' where red: "reducer = reduce_terminal_start i' op c' d'"
    using request_terminal_start [OF req [unfolded tc]] op by blast
  have "loaded \<noteq> Tl_missing"
    using x red by (auto simp: reduce_terminal_start_def with_blocked_operation_def)
  then obtain t where t: "loaded = Tl_loaded t" using loaded(2,3) by (cases loaded) auto
  have held: "held_by t before" using loaded_held loaded(1) t by blast
  have h: "held_timeline text_of other session f = Some (Tl_loaded t)"
    using before loaded t by (simp add: held_timeline_Some)
  then have wf: "wf_timeline t" using inv by (simp add: file_state_def ordered_state_def lane_state_def)
  note s = start_succeeds [OF wf held _ x(2), of i' op c' d']
  have s': "\<not> op_begun op t" "\<not> unwritten loaded x" "\<And>t'. red_timeline x = Some t' \<Longrightarrow> op_begun op t'"
    using s x(1) red t by auto
  from timeline_step_effect [OF session pub ok before loaded(1) ts] wr [OF s'(2)] obtain t' where
    w: "timeline_written text_of other session before loaded f' t'" and mr: "mr_timeline r = Some t'"
    using st by auto
  obtain t2 where "red_timeline x = Some t2" and "turns t2 = turns t'"
    using wr [OF s'(2)] mr by (cases "red_timeline x") (auto simp: core_def)
  then have "op_begun op t'" using s'(3) by (simp add: op_begun_def)
  moreover have "held_timeline text_of other session f' = Some (Tl_loaded t')"
    using w by (auto simp: timeline_written_def held_timeline_Some)
  ultimately show ?thesis using s'(1) h by (simp add: file_begun_def)
qed

interpretation starts: spending "act_step text_of revision_of pub other session"
  "file_state text_of other session" "file_moves text_of other session"
  "file_begun text_of other session op" "start_answered op"
  for text_of revision_of pub other session op
proof unfold_locales
  have moves: "file_moves text_of other session f f' \<and> text_ok session"
    if "act_step text_of revision_of pub other session f entry f'" for f entry f'
    using that act_moves [of pub "fst entry" session text_of other f revision_of] by (simp add: act_step_def)
  show "act_step text_of revision_of pub other session s m t \<Longrightarrow> file_state text_of other session s
      \<Longrightarrow> file_state text_of other session t" for s m t
    using moves file_state_moves by blast
  show "act_step text_of revision_of pub other session s m t \<Longrightarrow> file_state text_of other session s
      \<Longrightarrow> file_moves text_of other session s t" for s m t
    using moves by blast
  show "file_moves text_of other session s s" for s by (rule file_moves_refl)
  show "file_moves text_of other session s t \<Longrightarrow> file_moves text_of other session t u
      \<Longrightarrow> file_moves text_of other session s u" for s t u by (rule file_moves_trans)
  show "file_state text_of other session s \<Longrightarrow> file_state text_of other session t
      \<Longrightarrow> file_moves text_of other session s t \<Longrightarrow> file_begun text_of other session op s
      \<Longrightarrow> file_begun text_of other session op t" for s t
    by (rule file_begun_moves)
  show "act_step text_of revision_of pub other session s m t \<Longrightarrow> file_state text_of other session s
      \<Longrightarrow> start_answered op m \<Longrightarrow> \<not> file_begun text_of other session op s" for s m t
    using answered_start by blast
  show "act_step text_of revision_of pub other session s m t \<Longrightarrow> file_state text_of other session s
      \<Longrightarrow> start_answered op m \<Longrightarrow> file_begun text_of other session op t" for s m t
    using answered_start by blast
qed

text \<open>The acts of a run with their results.\<close>

fun run_log :: "('s \<Rightarrow> 'op \<Rightarrow> 's \<times> 'r) \<Rightarrow> 's \<Rightarrow> 'op list \<Rightarrow> ('op \<times> 'r) list" where
  "run_log step s [] = []"
| "run_log step s (op # ops) = (op, snd (step s op)) # run_log step (fst (step s op)) ops"

lemma run_path:
  assumes "text_ok session" and "plain pub" and "list_all (act_ok pub) acts"
  shows "path (act_step text_of revision_of pub other session) f
    (run_log (session_step text_of revision_of pub other session) f acts)
    (run_ops (session_step text_of revision_of pub other session) f acts)"
  using assms(3)
  by (induction acts arbitrary: f) (auto intro!: path.intros simp: act_step_def assms)

lemma missing_state: "held_timeline text_of other session f = Some Tl_missing \<Longrightarrow> f \<noteq> Some [] \<Longrightarrow>
    file_state text_of other session f"
  by (simp add: file_state_def)

end
