(* ===== verification/Timeline_Properties.thy ===== *)
theory Timeline_Properties
  imports Timeline_Answers
begin

text \<open>
  The guarantees of the turn timeline, on the session file and over whole runs, with a sample session
  for the witnesses: one turn is admitted, claimed, records an operation, ends blocked, and the
  approved operation is started.
\<close>

section \<open>A sample session\<close>

definition sample_other :: "string \<Rightarrow> aware option" where
  "sample_other x = None"

definition sample_text :: "json \<Rightarrow> string" where
  "sample_text x = ''text''"

definition sample_revision :: "jdict list \<Rightarrow> string" where
  "sample_revision es = map (\<lambda>_. CHR ''r'') (() # map (\<lambda>_. ()) es)"

definition minute :: "int \<Rightarrow> utc_time" where
  "minute m = Instant 2026 1 2 3 m 0 0"

definition sample_digest :: string where
  "sample_digest = ''0000000000000000000000000000000000000000000000000000000000000000''"

definition sample_operation :: descriptor where
  "sample_operation =
     \<lparr>operation_id = ''op'', tool_name = ''exec'', arguments_digest = sample_digest,
      call_id = ''call'', op_status = Precommitted, precommit_boundary = Not_started,
      result_digest = None, receipt_reference = None\<rparr>"

definition sample_call :: "nat \<Rightarrow> timeline_op \<Rightarrow> session_act" where
  "sample_call n op = Turn_op \<lparr>tc_now = minute 10, tc_written = minute 10,
     tc_expected = map (\<lambda>_. CHR ''r'') [0..<Suc n], tc_op = op\<rparr>"

definition sample_acts :: "session_act list" where
  "sample_acts =
     [sample_call 0 (Op_admit ''u'' [] None None None),
      sample_call 1 (Op_claim_next ''me'' ''tok'' ''2026-01-02T03:30:00+00:00''),
      sample_call 2 (Op_precommit ''u'' ''me'' ''tok'' sample_operation),
      sample_call 3 (Op_terminal ''u'' ''me'' ''tok'' Blocked None None [])]"

definition sample_start :: session_act where
  "sample_start = sample_call 4 (Op_terminal_start ''u'' ''op'' ''call'' sample_digest)"

definition sample_run :: "session_act list \<Rightarrow> strict_file" where
  "sample_run = run_ops (session_step sample_text sample_revision Unpublished sample_other ''s'') None"

definition sample_unknown :: "session_act list" where
  "sample_unknown = take 3 sample_acts @
     [sample_call 3 (Op_boundary ''u'' ''me'' ''tok'' Effect_started (Some ''op'')),
      sample_call 4 (Op_result ''u'' ''me'' ''tok'' ''op'' R_unknown None None [])]"

definition sample_end :: session_act where
  "sample_end = sample_call 5 (Op_terminal ''u'' ''me'' ''tok'' Outcome_unknown None None [])"

definition sample_turn :: "turn_status \<Rightarrow> descriptor list \<Rightarrow> terminal_outcome option \<Rightarrow> boundary \<Rightarrow> turn" where
  "sample_turn st ds out b =
     \<lparr>turn_sequence = 1, turn_id = ''u'', turn_status = st, turn_boundary = b, descriptors = ds,
      legacy_operation_ids = [], cancellation = None, outcome = out, admission_owner = None,
      admission_token = None, admission_expires = None, recovery = None\<rparr>"

definition sample_free :: "int \<Rightarrow> turn \<Rightarrow> timeline" where
  "sample_free n u = \<lparr>tl_session = ''s'', base_revision = 0, current_revision = n, turns = [u],
     lane_turn = None, lane_owner = None, lane_token = None, lane_expires = None\<rparr>"

definition sample_lane :: "int \<Rightarrow> turn \<Rightarrow> timeline" where
  "sample_lane n u = (sample_free n u)\<lparr>lane_turn := Some ''u'', lane_owner := Some ''me'',
     lane_token := Some ''tok'', lane_expires := Some (minute 30)\<rparr>"

definition sample_blocked :: timeline where
  "sample_blocked = sample_free 4 (sample_turn Terminal [sample_operation] (Some Blocked) Not_started)"

definition sample_lost :: descriptor where
  "sample_lost = sample_operation\<lparr>op_status := Unknown_result, precommit_boundary := Effect_unknown\<rparr>"

definition sample_lost_running :: timeline where
  "sample_lost_running = sample_lane 5 (sample_turn Running [sample_lost] None Effect_unknown)"

definition sample_lost_ended :: timeline where
  "sample_lost_ended = sample_free 6 (sample_turn Terminal [sample_lost] (Some Outcome_unknown) Effect_unknown)"

lemma sample_session: "text_ok ''s''" "plain Unpublished"
  by code_simp+

lemma sample_acts_ok: "list_all (act_ok Unpublished) sample_acts"
  "list_all (act_ok Unpublished) sample_unknown" "act_ok Unpublished sample_start"
  "act_ok Unpublished sample_end"
  by code_simp+

lemma sample_fresh: "held_timeline sample_text sample_other ''s'' None = Some Tl_missing"
  by code_simp

lemma sample_held_blocked:
  "held_timeline sample_text sample_other ''s'' (sample_run sample_acts) = Some (Tl_loaded sample_blocked)"
  by code_simp

lemma sample_held_lost:
  "held_timeline sample_text sample_other ''s'' (sample_run sample_unknown)
     = Some (Tl_loaded sample_lost_running)"
  by code_simp

lemma sample_held_ended:
  "held_timeline sample_text sample_other ''s'' (sample_run (sample_unknown @ [sample_end]))
     = Some (Tl_loaded sample_lost_ended)"
  by code_simp

section \<open>From a new session\<close>

lemma run_held:
  assumes "text_ok session" and "plain pub" and "list_all (act_ok pub) acts"
    and "held_timeline text_of other session f = Some Tl_missing" and "f \<noteq> Some []"
    and "held_timeline text_of other session
      (run_ops (session_step text_of revision_of pub other session) f acts) = Some (Tl_loaded t)"
  shows "reached session t" and "ordered_state t"
proof -
  have m: "file_moves text_of other session f
      (run_ops (session_step text_of revision_of pub other session) f acts)"
    by (rule run_moves [OF assms(3,1,2)])
  then show "reached session t"
    using assms(4-6) by (auto simp: file_moves_def lane_moves_def)
  show "ordered_state t"
    using file_state_moves [OF m missing_state [OF assms(4,5)] assms(1)] assms(6)
    by (simp add: file_state_def)
qed

lemma run_continues:
  assumes "text_ok session" and "plain pub" and "list_all (act_ok pub) acts"
    and "held_timeline text_of other session f = Some (Tl_loaded t)"
    and "held_timeline text_of other session
      (run_ops (session_step text_of revision_of pub other session) f acts) = Some (Tl_loaded t')"
  shows "\<exists>ms. path lane_step t ms t'"
proof -
  have "f \<noteq> Some []"
    using assms(4) by (auto simp: held_timeline_Some load_strict_def)
  then show ?thesis
    using run_moves [OF assms(3,1,2), of text_of other f revision_of] assms(4,5)
    by (auto simp: file_moves_def lane_moves_def)
qed

text \<open>C6. Compare-and-swap and read-back of the turn timeline: an operation of the repository
  leaves the session file as it is, or the file had exactly the revision the caller named and one of
  two things happened. The file now holds one more timeline, which the next load returns: the start of
  a timeline for a session that had none, one step of the lane machine from the loaded timeline
  otherwise. Or some text of the longer history contains U+0085, at which the reader breaks the line:
  then the operation answers \<open>invalid\<close> although it replaced the file, and the history no longer loads.
  (The publication gate is not open, and companion events are no timeline events.)\<close>

theorem timeline_write_is_a_lane_step:
  assumes "text_ok session" and "plain pub"
    and "list_all (quiet pub) (companions_of (tc_op call))" and "valid_instant (tc_written call)"
    and "load_strict text_of session f = (Inr before :: timeline_error strict_error + jdict list)"
    and "load_timeline other session before = Inr loaded"
    and "timeline_step text_of revision_of pub other session f call = (f', res)"
  shows "f' = f
    \<or> (\<exists>t st rev. timeline_written text_of other session before loaded f' t
         \<and> res = Inr \<lparr>mr_status = st, mr_timeline = Some t, mr_revision = Some rev\<rparr>
         \<and> st \<in> set durable_statuses \<and> revision_of before = tc_expected call)
    \<or> (history_broken text_of session before f'
         \<and> res = Inr \<lparr>mr_status = Ms_invalid, mr_timeline = None, mr_revision = None\<rparr>
         \<and> revision_of before = tc_expected call)"
  by (rule timeline_step_effect [OF assms])

definition sample_admit :: timeline_call where
  "sample_admit = \<lparr>tc_now = minute 10, tc_written = minute 10, tc_expected = ''r'',
     tc_op = Op_admit ''u'' [] None None None\<rparr>"

definition sample_admitted :: "strict_file \<times> (timeline_error strict_error + mutation_result)" where
  "sample_admitted = timeline_step sample_text sample_revision Unpublished sample_other ''s'' None sample_admit"

lemma sample_admitted_file: "fst sample_admitted \<noteq> None"
  "\<not> history_broken sample_text ''s'' [] (fst sample_admitted)"
proof -
  show "fst sample_admitted \<noteq> None" by code_simp
  have "snd (sample_admitted) \<noteq> Inr \<lparr>mr_status = Ms_invalid, mr_timeline = None, mr_revision = None\<rparr>"
    "held_timeline sample_text sample_other ''s'' (fst sample_admitted) \<noteq> None"
    by code_simp+
  then show "\<not> history_broken sample_text ''s'' [] (fst sample_admitted)"
    by (auto simp: history_broken_def held_timeline_def)
qed

theorem timeline_write_is_a_lane_step_witness:
  "\<exists>t. timeline_written sample_text sample_other ''s'' [] Tl_missing (fst sample_admitted) t"
proof -
  have call: "list_all (quiet Unpublished) (companions_of (tc_op sample_admit))"
    "valid_instant (tc_written sample_admit)"
    by code_simp+
  have loads: "load_strict sample_text ''s'' None = (Inr [] :: timeline_error strict_error + jdict list)"
    "load_timeline sample_other ''s'' [] = Inr Tl_missing"
    by code_simp+
  have "timeline_step sample_text sample_revision Unpublished sample_other ''s'' None sample_admit
      = (fst sample_admitted, snd sample_admitted)"
    by (simp add: sample_admitted_def)
  from timeline_write_is_a_lane_step [OF sample_session call loads this] show ?thesis
    using sample_admitted_file by blast
qed

text \<open>C5. However operations of the timeline, strict batches and saved events follow each other
  in a session, the timeline it holds is well formed, and at most one tool call of the whole session is
  recorded as begun without a known result and may still move; there is none as soon as the outcome of
  some call is unknown. This is a statement about runs in which the publication gate is not open and
  the other writers of the session (batches, saved events, companion events) write no timeline events
  of their own.\<close>

theorem one_live_operation:
  assumes "text_ok session" and "plain pub" and "list_all (act_ok pub) acts"
    and "held_timeline text_of other session f = Some Tl_missing" and "f \<noteq> Some []"
    and "held_timeline text_of other session
      (run_ops (session_step text_of revision_of pub other session) f acts) = Some (Tl_loaded t)"
  shows "wf_timeline t \<and> length (live_ops t) \<le> 1 \<and> (has_unknown t \<longrightarrow> live_ops t = [])"
  using run_held(2) [OF assms] by (auto simp: ordered_state_def lane_state_def fenced_def)

theorem one_live_operation_witness:
  "wf_timeline sample_blocked \<and> length (live_ops sample_blocked) = 1"
proof -
  have "length (live_ops sample_blocked) = 1" by code_simp
  then show ?thesis
    using one_live_operation [OF sample_session sample_acts_ok(1) sample_fresh _
        sample_held_blocked [unfolded sample_run_def]] by simp
qed

text \<open>C4. Once the outcome of a tool call is unknown the session starts nothing any more:
  whatever is tried afterwards, no operation is recorded, started or changed in any turn. This is a
  statement about runs in which the publication gate is not open and the other writers of the session
  (batches, saved events, companion events) write no timeline events of their own.\<close>

theorem unknown_outcome_stops_effects:
  assumes "text_ok session" and "plain pub" and "list_all (act_ok pub) acts"
    and "list_all (act_ok pub) later"
    and "held_timeline text_of other session f = Some Tl_missing" and "f \<noteq> Some []"
    and "f1 = run_ops (session_step text_of revision_of pub other session) f acts"
    and "held_timeline text_of other session f1 = Some (Tl_loaded t1)" and "has_unknown t1"
    and "held_timeline text_of other session
      (run_ops (session_step text_of revision_of pub other session) f1 later) = Some (Tl_loaded t2)"
  shows "operations t2 = operations t1"
proof -
  have s: "wf_timeline t1" "fenced t1"
    using run_held(2) [OF assms(1-3,5,6) assms(8) [unfolded assms(7)]]
    by (simp_all add: ordered_state_def lane_state_def)
  from run_continues [OF assms(1,2,4,8,10)] obtain ms where "path lane_step t1 ms t2" ..
  from unknown_path [OF this s assms(9)] show ?thesis .
qed

theorem unknown_outcome_stops_effects_witness:
  "operations sample_lost_ended = operations sample_lost_running \<and> operations sample_lost_running \<noteq> []"
proof -
  have "has_unknown sample_lost_running" "operations sample_lost_running \<noteq> []" by code_simp+
  moreover have later: "list_all (act_ok Unpublished) [sample_end]" using sample_acts_ok(4) by simp
  ultimately show ?thesis
    using unknown_outcome_stops_effects [OF sample_session sample_acts_ok(2) later sample_fresh _ refl
        sample_held_lost [unfolded sample_run_def] _
        sample_held_ended [unfolded sample_run_def run_ops_append]]
    by simp
qed

text \<open>C16. Turns run in the order of their admission: behind a turn that still waits there are
  only waiting turns and turns that were cancelled while they waited. This is a statement about runs in
  which the publication gate is not open and the other writers of the session (batches, saved events,
  companion events) write no timeline events of their own.\<close>

theorem no_turn_overtakes:
  assumes "text_ok session" and "plain pub" and "list_all (act_ok pub) acts"
    and "held_timeline text_of other session f = Some Tl_missing" and "f \<noteq> Some []"
    and "held_timeline text_of other session
      (run_ops (session_step text_of revision_of pub other session) f acts) = Some (Tl_loaded t)"
    and "u \<in> set (turns t)" and "v \<in> set (turns t)" and "turn_status u = Queued"
    and "turn_sequence u < turn_sequence v"
  shows "turn_status v = Queued
    \<or> (turn_status v = Terminal \<and> outcome v = Some Cancelled \<and> cancellation v = Some Cancelled_queued)"
  using run_held(2) [OF assms(1-6)] assms(7-10)
  by (auto simp: ordered_state_def no_overtaking_def passed_over_def)

definition sample_queue :: "session_act list" where
  "sample_queue =
     [sample_call 0 (Op_admit ''u'' [] None None None), sample_call 1 (Op_admit ''v'' [] None None None),
      sample_call 2 (Op_cancel ''v'' None None)]"

definition sample_queued :: timeline where
  "sample_queued = (sample_free 3 (sample_turn Queued [] None Not_started))\<lparr>turns :=
     [sample_turn Queued [] None Not_started,
      (sample_turn Terminal [] (Some Cancelled) Not_started)\<lparr>turn_sequence := 2, turn_id := ''v'',
         cancellation := Some Cancelled_queued\<rparr>]\<rparr>"

lemma sample_held_queued:
  "held_timeline sample_text sample_other ''s'' (sample_run sample_queue) = Some (Tl_loaded sample_queued)"
  by code_simp

theorem no_turn_overtakes_witness:
  "cancellation (turns sample_queued ! 1) = Some Cancelled_queued"
proof -
  have ok: "list_all (act_ok Unpublished) sample_queue" by code_simp
  have two: "turns sample_queued ! 0 \<in> set (turns sample_queued)"
    "turns sample_queued ! 1 \<in> set (turns sample_queued)"
    "turn_status (turns sample_queued ! 0) = Queued" "turn_status (turns sample_queued ! 1) = Terminal"
    "turn_sequence (turns sample_queued ! 0) < turn_sequence (turns sample_queued ! 1)"
    by (simp_all add: sample_queued_def sample_turn_def)
  show ?thesis
    using no_turn_overtakes [OF sample_session ok sample_fresh _
        sample_held_queued [unfolded sample_run_def] two(1,2,3,5)] two(4) by simp
qed

end
