(* ===== verification/Timeline_Refusals.thy ===== *)
theory Timeline_Refusals
  imports Timeline_Answers
begin

text \<open>
  What the repository refuses. A caller who does not hold a live lease of the lane changes nothing;
  the start of an approved operation that has its result raises; and a lane whose lease lapsed while
  its turn had a settled tool call is not given up by any operation.
\<close>

section \<open>Operations without an effect\<close>

lemma build_events_same:
  assumes "load_timeline other session before = Inr loaded"
    and "loaded \<noteq> Tl_invalid" and "loaded \<noteq> Tl_unsupported"
    and "reducer (loaded_timeline loaded) before = Inr r" and "red_timeline r = loaded_timeline loaded"
  shows "build_events other session w comps reducer before = Inr (r, None)"
  using assms by (simp add: build_events_def)

lemma build_events_raises:
  assumes "load_timeline other session before = Inr loaded"
    and "loaded \<noteq> Tl_invalid" and "loaded \<noteq> Tl_unsupported"
    and "reducer (loaded_timeline loaded) before = Inl e"
  shows "build_events other session w comps reducer before = Inl e"
  using assms by (simp add: build_events_def)

lemma mutate_strict_unchanged:
  assumes "\<And>before. load_strict text_of session f = (Inr before :: 'e strict_error + jdict list) \<Longrightarrow>
      (\<exists>e. build before = Inl e) \<or> (\<exists>nt. build before = Inr (nt, None))" and "text_ok session"
  shows "fst (mutate_strict text_of revision_of pub session f expected build
    :: _ \<times> ('e strict_error + 'o append_result)) = f"
proof -
  have "py_strip session = session" "session \<noteq> []"
    using assms(2) by (simp_all add: text_ok_def)
  then show ?thesis
    using assms(1) by (fastforce simp: mutate_strict_def Let_def split: sum.split option.split)
qed

lemma apply_reducer_fst:
  "fst (apply_reducer text_of revision_of pub other session f w expected comps reducer)
     = fst (mutate_strict text_of revision_of pub session f expected (build_events other session w comps reducer)
         :: _ \<times> (timeline_error strict_error + reduction append_result))"
  by (auto simp: apply_reducer_def split: prod.split sum.split strict_error.split)

lemma timeline_step_unchanged:
  assumes session: "text_ok session"
    and held: "held_timeline text_of other session f = Some (Tl_loaded t)"
    and same: "\<And>reducer before. request other session (tc_now call) (tc_op call) = Inr reducer \<Longrightarrow>
      load_strict text_of session f = (Inr before :: timeline_error strict_error + jdict list) \<Longrightarrow>
      \<exists>r. reducer (Some t) before = Inr r \<and> red_timeline r = Some t"
  shows "fst (timeline_step text_of revision_of pub other session f call) = f"
proof (cases "request other session (tc_now call) (tc_op call)")
  case (Inr reducer)
  from held obtain before where
    before: "load_strict text_of session f = (Inr before :: timeline_error strict_error + jdict list)"
    and loaded: "load_timeline other session before = Inr (Tl_loaded t)"
    by (auto simp: held_timeline_Some)
  from same [OF Inr before] obtain r where "reducer (Some t) before = Inr r" "red_timeline r = Some t"
    by blast
  then have "build_events other session w comps reducer before = Inr (r, None)" for w comps
    using build_events_same [OF loaded] by simp
  then have "fst (apply_reducer text_of revision_of pub other session f w expected comps reducer) = f"
    for w expected comps
    unfolding apply_reducer_fst using before session by (intro mutate_strict_unchanged) auto
  then show ?thesis by (simp add: timeline_step_def Inr split: sum.split)
qed (simp add: timeline_step_def)

section \<open>The lane holder\<close>

text \<open>The turn, owner and token an operation claims to hold the lane with.\<close>

fun lane_holder :: "timeline_op \<Rightarrow> (string \<times> string \<times> string) option" where
  "lane_holder (Op_renew_lease i ow tk _) = Some (i, ow, tk)"
| "lane_holder (Op_precommit i ow tk _) = Some (i, ow, tk)"
| "lane_holder (Op_result i ow tk _ _ _ _ _) = Some (i, ow, tk)"
| "lane_holder (Op_approval_pending i ow tk _ _) = Some (i, ow, tk)"
| "lane_holder (Op_abandon i ow tk _ _ _ _) = Some (i, ow, tk)"
| "lane_holder (Op_boundary i ow tk _ _) = Some (i, ow, tk)"
| "lane_holder (Op_terminal i ow tk _ _ _ _) = Some (i, ow, tk)"
| "lane_holder _ = None"

text \<open>The holder's lease is live: the lane has this turn, owner and token, and has not lapsed.\<close>

definition holds_lane :: "timeline \<Rightarrow> utc_time \<Rightarrow> string \<times> string \<times> string \<Rightarrow> bool" where
  "holds_lane t now h =
     (case h of (i, ow, tk) \<Rightarrow>
        lane_turn t = Some (py_strip i) \<and> lane_owner t = Some (py_strip ow)
        \<and> lane_token t = Some (py_strip tk)
        \<and> (case lane_expires t of None \<Rightarrow> False | Some e \<Rightarrow> now < e))"

lemma lane_args_strip:
  "lane_args i ow tk = Inr (i', ow', tk') \<Longrightarrow> i' = py_strip i \<and> ow' = py_strip ow \<and> tk' = py_strip tk"
  by (auto simp: lane_args_def result_simps text_arg_def require_text_Inr)

lemma not_holding:
  "\<not> holds_lane t now (i, ow, tk) \<Longrightarrow>
     \<exists>st. lane_lease_status (Some t) (py_strip i) (py_strip ow) (py_strip tk) now = Some st"
  by (auto simp: holds_lane_def lane_lease_status_def split: option.splits)

lemma holder_refused:
  assumes r: "request other session now op = Inr reducer" and h: "lane_holder op = Some h"
    and no: "\<not> holds_lane t now h"
  shows "\<exists>r. reducer (Some t) events = Inr r \<and> red_timeline r = Some t"
proof -
  obtain i ow tk where h': "h = (i, ow, tk)" by (cases h)
  then obtain st where "lane_lease_status (Some t) (py_strip i) (py_strip ow) (py_strip tk) now = Some st"
    using not_holding no by blast
  then show ?thesis
    using r h h'
    by (cases op)
      (auto simp: result_simps reduce_renew_lease_def reduce_precommit_def reduce_result_def
        reduce_approval_pending_def reduce_abandon_def reduce_boundary_def reduce_terminal_def
        with_lane_turn_def dest!: lane_args_strip)
qed

section \<open>A settled operation cannot be started\<close>

lemma settled_start:
  assumes wf: "wf_timeline t" and find: "find_turn t i = Some u"
    and u: "turn_status u = Terminal" "outcome u = Some Blocked" and d: "find_descriptor u op = Some d"
    and ev: "result_digest d \<noteq> None \<or> receipt_reference d \<noteq> None"
  shows "reduce_terminal_start i op (call_id d) (arguments_digest d) (Some t) events
    = Inl (Payload_error ''result evidence'')"
proof -
  have "wf_desc d" using find_descriptor_wf [OF find_turn_status(2) [OF wf find] d] ..
  then have "check_descriptor (with_boundary d Started Effect_started)
      = Inl (Payload_error ''result evidence'')"
    using check_descriptor_texts [of "with_boundary d Started Effect_started"] ev
    by (auto simp: wf_desc_def desc_texts_def with_boundary_def evidence_allowed_def)
  then show ?thesis
    using find u d by (simp add: reduce_terminal_start_def with_blocked_operation_def)
qed

section \<open>A lane that stays taken\<close>

text \<open>A running turn whose tool calls cannot be recovered: none is started, but one has a result or
  the boundary of the turn was crossed.\<close>

definition beyond_recovery :: "turn \<Rightarrow> bool" where
  "beyond_recovery u \<longleftrightarrow> turn_status u = Running
     \<and> \<not> list_ex (\<lambda>d. op_status d = Started) (descriptors u)
     \<and> (turn_boundary u \<noteq> Not_started \<or> list_ex (\<lambda>d. op_status d \<noteq> Precommitted) (descriptors u))"

definition stuck :: "utc_time \<Rightarrow> string \<Rightarrow> turn \<Rightarrow> timeline \<Rightarrow> bool" where
  "stuck e i u t \<longleftrightarrow> lane_expires t = Some e \<and> lane_turn t = Some i \<and> find_turn t i = Some u
     \<and> beyond_recovery u"

text \<open>An answer that leaves the turn and the deadline of the lane.\<close>

definition stays :: "string \<Rightarrow> timeline \<Rightarrow> reduction tl \<Rightarrow> bool" where
  "stays i t result \<longleftrightarrow>
     (\<forall>r t'. result = Inr r \<longrightarrow> red_timeline r = Some t' \<longrightarrow>
        find_turn t' i = find_turn t i \<and> lane_expires t' = lane_expires t)"

lemma stays_same [simp]: "stays i t (answer st (Some t))" "stays i t (Inl e)"
  by (simp_all add: stays_def)

lemma stays_bind [simp]: "(\<And>x. m = Inr x \<Longrightarrow> stays i t (k x)) \<Longrightarrow> stays i t (bindE m k)"
  by (cases m) simp_all

lemma find_put_other:
  "j \<noteq> i \<Longrightarrow> turn_id v = j \<Longrightarrow>
     find (\<lambda>u. turn_id u = i) (put_turn j v us) = find (\<lambda>u. turn_id u = i) us"
  by (induction us) (auto simp: put_turn_def)

lemma find_append: "find P xs = Some x \<Longrightarrow> find P (xs @ ys) = Some x"
  by (induction xs) (auto split: if_splits)

lemma stays_advance:
  assumes "find_turn x i = find_turn t i" and "lane_expires x = lane_expires t"
  shows "stays i t (advance st x events)"
  using assms
  by (auto simp: stays_def advance_def next_timeline_def bindE_eq_Inr core_def find_turn_def
      dest!: check_timeline_keeps)

lemma stays_update:
  assumes "text_ok j" and "turn_id v = j" and "j \<noteq> i"
  shows "stays i t (update_turn st t events j v id)"
proof -
  have "turn_id v' = j" if v: "check_turn v = Inr v'" for v'
  proof -
    obtain w where w: "check_turn_identity v = Inr w" and c: "check_turn_state w = Inr v'"
      using v by (auto simp: check_turn_def bindE_eq_Inr)
    have "turn_id w = py_strip (turn_id v)"
      using w unfolding check_turn_identity_def bindE_eq_Inr require_text_Inr by auto
    moreover have "turn_id v' = turn_id w" using check_state_ok [OF c] by auto
    ultimately show ?thesis using assms(1,2) by (simp add: text_ok_def)
  qed
  then show ?thesis
    unfolding update_turn_def using assms(3)
    by (intro stays_bind stays_advance) (simp_all add: find_turn_def find_put_other)
qed

lemma stays_blocked:
  assumes s: "stuck e i u t" and held: "held_by t events"
    and k: "\<And>v d. find_turn t j = Some v \<Longrightarrow> j \<noteq> i \<Longrightarrow> text_ok j \<Longrightarrow> turn_id v = j \<Longrightarrow> stays i t (k t v d)"
  shows "stays i t (with_blocked_operation (Some t) j op call digest k)"
proof -
  have wf: "wf_timeline t" using held by (simp add: held_by_def)
  have "stays i t (k t v d)" if "find_turn t j = Some v" "turn_status v = Terminal" for v d
  proof -
    note v = find_turn_status(2,3) [OF wf that(1)]
    have "j \<noteq> i" using s that by (auto simp: stuck_def beyond_recovery_def)
    then show ?thesis using k [OF that(1)] v by (auto simp: wf_turn_def turn_texts_def)
  qed
  then show ?thesis
    by (auto simp: with_blocked_operation_def split: option.split)
qed

lemma stuck_stays:
  assumes s: "stuck e i u t" and held: "held_by t events" and late: "e \<le> now"
    and r: "request other session now op = Inr reducer"
  shows "stays i t (reducer (Some t) events)"
proof (cases "lane_holder op")
  case (Some h)
  have "\<not> holds_lane t now h" using s late by (auto simp: holds_lane_def stuck_def split: prod.split)
  from holder_refused [OF r Some this, of events] show ?thesis by (auto simp: stays_def)
next
  case None
  have wf: "wf_timeline t" using held by (simp add: held_by_def)
  have lane: "lane_expires t = Some e" "lane_turn t = Some i" "find_turn t i = Some u"
    and u: "turn_status u = Running" "\<not> list_ex (\<lambda>d. op_status d = Started) (descriptors u)"
    and crossed: "turn_boundary u \<noteq> Not_started \<or> list_ex (\<lambda>d. \<not> is_precommitted d) (descriptors u)"
    using s by (auto simp: stuck_def beyond_recovery_def is_precommitted_def list_ex_iff)
  have other: "stays i t (update_turn st t events j w id)"
    if "find_turn t j = Some v" "turn_status v = Queued" "turn_id w = turn_id v" for st j v w
  proof -
    note x = find_turn_status(2,3) [OF wf that(1)]
    show ?thesis
      using x that lane(3) u(1)
      by (intro stays_update) (auto simp: wf_turn_def turn_texts_def)
  qed
  have queue: "stays i t (advance st (t\<lparr>turns := turns t @ [w]\<rparr>) events)" for st w
    using lane(3) by (intro stays_advance) (simp_all add: find_turn_def find_append)
  show ?thesis
  proof (cases op)
    case (Op_admit j es a b c)
    then show ?thesis using r queue
      by (auto simp: result_simps reduce_admit_def split: option.split)
  next
    case (Op_claim_next a b c)
    then show ?thesis using r lane by (auto simp: result_simps reduce_claim_next_def)
  next
    case (Op_renew_admission j a b c)
    then show ?thesis using r other
      by (auto simp: result_simps reduce_renew_admission_def split: option.split)
  next
    case (Op_recover_admission j)
    then show ?thesis using r lane by (auto simp: result_simps reduce_recover_admission_def)
  next
    case (Op_terminal_start j o_id c d)
    then show ?thesis using r
      by (auto simp: result_simps reduce_terminal_start_def put_operation_def
          intro!: stays_blocked [OF s held] stays_bind stays_update)
  next
    case (Op_terminal_result j o_id c d st rd rr)
    then show ?thesis using r
      by (auto simp: result_simps reduce_terminal_result_def put_operation_def result_boundary_def
          intro!: stays_blocked [OF s held] stays_bind stays_update)
  next
    case (Op_terminal_abandon j o_id c d rd rr)
    then show ?thesis using r
      by (auto simp: result_simps reduce_terminal_abandon_def put_operation_def
          intro!: stays_blocked [OF s held] stays_bind stays_update)
  next
    case (Op_recover_unstarted j)
    then show ?thesis using r lane crossed late
      by (auto simp: result_simps reduce_recover_unstarted_def with_stale_turn_def)
  next
    case (Op_recover_started j)
    then show ?thesis using r lane u
      by (auto simp: result_simps reduce_recover_started_def with_stale_turn_def)
  next
    case (Op_cancel j' a b)
    have "stays i t (reduce_cancel j identity now (Some t) events)" for j identity
    proof (cases "find_turn t j")
      case (Some v)
      show ?thesis
      proof (cases "turn_status v")
        case Queued
        then show ?thesis using other [OF Some] Some
          by (simp add: reduce_cancel_def cancel_queued_turn_def)
      next
        case Running
        have no: "(lane_lease_status (Some t) j ow tk now = None) = False" for ow tk
          using lane late by (auto simp: lane_lease_status_def)
        then show ?thesis using Some Running
          by (auto simp: reduce_cancel_def no split: option.split)
      qed (simp add: reduce_cancel_def Some)
    qed (simp add: reduce_cancel_def)
    then show ?thesis using r Op_cancel by (auto simp: result_simps)
  qed (use None in simp_all)
qed

text \<open>On the file: an operation after the deadline leaves a stuck lane stuck.\<close>

lemma stuck_step:
  assumes session: "text_ok session" and pub: "plain pub"
    and ok: "list_all (quiet pub) (companions_of (tc_op call))" "valid_instant (tc_written call)"
    and late: "e \<le> tc_now call"
    and held: "held_timeline text_of other session f = Some (Tl_loaded t)" and s: "stuck e i u t"
    and step: "timeline_step text_of revision_of pub other session f call = (f', res)"
    and held': "held_timeline text_of other session f' = Some (Tl_loaded t')"
  shows "stuck e i u t'"
proof (cases "f' = f")
  case True
  then show ?thesis using held held' s by simp
next
  case False
  from held obtain before where
    before: "load_strict text_of session f = (Inr before :: timeline_error strict_error + jdict list)"
    and loaded: "load_timeline other session before = Inr (Tl_loaded t)"
    by (auto simp: held_timeline_Some)
  have "\<not> history_broken text_of session before f'"
    using held' by (auto simp: history_broken_def held_timeline_Some)
  with timeline_step_effect [OF session pub ok before loaded step] False obtain t2 st rev where
    w: "timeline_written text_of other session before (Tl_loaded t) f' t2"
    and res: "res = Inr \<lparr>mr_status = st, mr_timeline = Some t2, mr_revision = Some rev\<rparr>"
    and st: "st \<in> set durable_statuses" by blast
  have t2: "t2 = t'" using w held' by (auto simp: timeline_written_def held_timeline_Some)
  have "st \<noteq> Ms_invalid" "st \<noteq> Ms_unsupported_version" "st \<noteq> Ms_rebase_required"
    using st by (auto simp: durable_statuses_def)
  then obtain reducer x where req: "request other session (tc_now call) (tc_op call) = Inr reducer"
    and x: "reducer (Some t) before = Inr x"
    and written: "\<not> unwritten (Tl_loaded t) x \<Longrightarrow> map_option core (Some t') = map_option core (red_timeline x)"
    using timeline_step_answer [OF step [unfolded res] session] before loaded t2 by fastforce
  have "\<not> unwritten (Tl_loaded t) x"
    using timeline_step_written [OF step False session req before loaded] x by simp
  then obtain y where y: "red_timeline x = Some y" and core: "core y = core t'"
    using written by (cases "red_timeline x") auto
  have "held_by t before" using loaded_held [OF loaded] ..
  from stuck_stays [OF s this late req] x y
  have "find_turn y i = find_turn t i" "lane_expires y = lane_expires t" by (auto simp: stays_def)
  then have find: "find_turn t' i = Some u" and "lane_expires t' = Some e"
    using core s by (auto simp: core_def find_turn_def stuck_def)
  moreover have "wf_timeline t'"
    using moved_wf [OF _ session loaded] w t2 by (simp add: timeline_written_def)
  ultimately show ?thesis
    using find_turn_status(1) [OF _ find] s by (simp add: stuck_def beyond_recovery_def)
qed

definition act_late :: "utc_time \<Rightarrow> session_act \<Rightarrow> bool" where
  "act_late e act = (case act of Turn_op call \<Rightarrow> e \<le> tc_now call | _ \<Rightarrow> True)"

definition stuck_file ::
  "(json \<Rightarrow> string) \<Rightarrow> (string \<Rightarrow> aware option) \<Rightarrow> string \<Rightarrow> utc_time \<Rightarrow> string \<Rightarrow> turn
    \<Rightarrow> strict_file \<Rightarrow> bool" where
  "stuck_file text_of other session e i u f \<longleftrightarrow> f \<noteq> Some []
     \<and> (case held_timeline text_of other session f of
          None \<Rightarrow> True | Some (Tl_loaded t) \<Rightarrow> stuck e i u t | _ \<Rightarrow> False)"

lemma stuck_act:
  assumes act: "act_ok pub act" "act_late e act" and session: "text_ok session" and pub: "plain pub"
    and s: "stuck_file text_of other session e i u f"
  shows "stuck_file text_of other session e i u
    (fst (session_step text_of revision_of pub other session f act))"
proof -
  let ?f = "fst (session_step text_of revision_of pub other session f act)"
  have m: "file_moves text_of other session f ?f" by (rule act_moves [OF act(1) session pub])
  have ne: "?f \<noteq> Some []" using m s by (simp add: file_moves_def stuck_file_def)
  show ?thesis
  proof (cases "held_timeline text_of other session ?f")
    case None
    then show ?thesis using ne by (simp add: stuck_file_def)
  next
    case (Some l')
    then obtain l where l: "held_timeline text_of other session f = Some l" "lane_moves session l l'"
      using m s by (auto simp: file_moves_def stuck_file_def)
    then obtain t where lt: "l = Tl_loaded t" and st: "stuck e i u t"
      using s by (cases l) (simp_all add: stuck_file_def)
    have t: "held_timeline text_of other session f = Some (Tl_loaded t)"
      and mv: "lane_moves session (Tl_loaded t) l'" using l lt by simp_all
    then obtain t' where l': "l' = Tl_loaded t'" by (cases l') (auto simp: lane_moves_def)
    have "stuck e i u t'"
    proof (cases "\<exists>call. act = Turn_op call")
      case True
      then obtain call where a: "act = Turn_op call" ..
      obtain f' res where step: "timeline_step text_of revision_of pub other session f call = (f', res)"
        by fastforce
      then have "?f = f'" by (cases res) (simp_all add: session_step_def a)
      then show ?thesis
        using stuck_step [OF session pub _ _ _ t st step] act Some
        by (simp add: act_ok_def act_late_def a l')
    next
      case False
      then have "undisturbed text_of other session f ?f"
        using act_undisturbed [OF act(1) session pub] by blast
      then show ?thesis using s t st Some l' by (auto simp: undisturbed_def stuck_file_def)
    qed
    then show ?thesis using Some l' ne by (simp add: stuck_file_def)
  qed
qed

lemma stuck_run:
  assumes "list_all (\<lambda>act. act_ok pub act \<and> act_late e act) acts" and "text_ok session" and "plain pub"
    and "stuck_file text_of other session e i u f"
  shows "stuck_file text_of other session e i u
    (run_ops (session_step text_of revision_of pub other session) f acts)"
  using assms(1,4)
  by (induction acts arbitrary: f) (simp_all add: stuck_act assms(2,3))

end
