(* ===== verification/Timeline_Guarantees.thy ===== *)
theory Timeline_Guarantees
  imports Timeline_Properties Timeline_Refusals
begin

text \<open>
  Further guarantees of the turn timeline: what is recorded stays, who may write, the one start of an
  approved operation, the serialisation, and the two defects the model shows: the start of a settled
  operation raises, and a lapsed lane with a settled tool call is never freed.
\<close>

section \<open>What is recorded stays\<close>

definition sample_claim :: session_act where
  "sample_claim = sample_call 3 (Op_claim_next ''me'' ''tok'' ''2026-01-02T03:30:00+00:00'')"

definition sample_claimed :: timeline where
  "sample_claimed = (sample_lane 4 (sample_turn Running [] None Not_started))\<lparr>turns :=
     [sample_turn Running [] None Not_started, turns sample_queued ! 1]\<rparr>"

lemma sample_queue_ok: "list_all (act_ok Unpublished) sample_queue" "list_all (act_ok Unpublished) [sample_claim]"
  by code_simp+

lemma sample_held_claimed:
  "held_timeline sample_text sample_other ''s'' (sample_run (sample_queue @ [sample_claim]))
     = Some (Tl_loaded sample_claimed)"
  by code_simp

text \<open>C18. The history of a session's turns is only extended: between two points of a run every
  turn and every operation keeps its place, its identifier and its identity, a turn that left the queue
  never returns to it, operation states follow precommitted, started, result, and what is settled or
  unknown is not changed any more. This is a statement about runs in which the publication gate is not
  open and the other writers of the session (batches, saved events, companion events) write no timeline
  events of their own.\<close>

theorem timeline_only_evolves:
  assumes "text_ok session" and "plain pub" and "list_all (act_ok pub) acts"
    and "held_timeline text_of other session f = Some (Tl_loaded t)"
    and "held_timeline text_of other session
      (run_ops (session_step text_of revision_of pub other session) f acts) = Some (Tl_loaded t')"
  shows "timeline_evolves t t'"
proof -
  from run_continues [OF assms] obtain ms where p: "path lane_step t ms t'" ..
  have "wf_timeline t"
    using assms(4) loaded_held by (auto simp: held_timeline_Some held_by_def)
  from lane.path_le [OF p this] show ?thesis .
qed

theorem timeline_only_evolves_witness: "timeline_evolves sample_queued sample_claimed"
  using timeline_only_evolves [OF sample_session sample_queue_ok(2)
      sample_held_queued [unfolded sample_run_def] sample_held_claimed [unfolded sample_run_def run_ops_append]] .

text \<open>C17. A turn that ended completed, cancelled or with an unknown outcome stays as it is for
  good, and its outcome is what its operations say: a completed turn has only settled tool calls, a
  cancelled turn none that was started or is unknown, and an unknown outcome has an unknown call. This
  is a statement about runs in which the publication gate is not open and the other writers of the
  session (batches, saved events, companion events) write no timeline events of their own.\<close>

theorem ended_turns_are_final_and_truthful:
  assumes "text_ok session" and "plain pub" and "list_all (act_ok pub) acts" and "list_all (act_ok pub) later"
    and "held_timeline text_of other session f = Some Tl_missing" and "f \<noteq> Some []"
    and "f1 = run_ops (session_step text_of revision_of pub other session) f acts"
    and "held_timeline text_of other session f1 = Some (Tl_loaded t1)"
    and "held_timeline text_of other session
      (run_ops (session_step text_of revision_of pub other session) f1 later) = Some (Tl_loaded t2)"
    and "u \<in> set (turns t1)" and "turn_status u = Terminal" and "outcome u \<noteq> Some Blocked"
  shows "u \<in> set (turns t2)
    \<and> (outcome u = Some Completed \<longrightarrow> list_all (\<lambda>d. op_settled (op_status d)) (descriptors u))
    \<and> (outcome u = Some Cancelled \<longrightarrow>
         list_all (\<lambda>d. op_status d \<noteq> Started \<and> op_status d \<noteq> Unknown_result) (descriptors u))
    \<and> (outcome u = Some Outcome_unknown \<longrightarrow> turn_unknown u)"
proof -
  have s: "ordered_state t1" by (rule run_held(2) [OF assms(1-3,5,6) assms(8) [unfolded assms(7)]])
  have "timeline_evolves t1 t2"
  proof -
    from run_continues [OF assms(1,2,4,8,9)] obtain ms where "path lane_step t1 ms t2" ..
    from ordered.path_le [OF this s] show ?thesis .
  qed
  then obtain v where v: "v \<in> set (turns t2)" "turn_evolves u v"
    using assms(10) extends_in by (fastforce simp: timeline_evolves_def)
  then have "v = u" using assms(11,12) by (simp add: turn_evolves_def)
  moreover have "truthful u"
    using s assms(10) by (simp add: ordered_state_def lane_state_def fenced_def list_all_iff)
  ultimately show ?thesis using v(1) assms(11) by (simp add: truthful_def)
qed

theorem ended_turns_are_final_and_truthful_witness:
  "turns sample_queued ! 1 \<in> set (turns sample_claimed)"
proof -
  have u: "turns sample_queued ! 1 \<in> set (turns sample_queued)"
    "turn_status (turns sample_queued ! 1) = Terminal" "outcome (turns sample_queued ! 1) \<noteq> Some Blocked"
    by (simp_all add: sample_queued_def sample_turn_def)
  show ?thesis
    using ended_turns_are_final_and_truthful [OF sample_session sample_queue_ok sample_fresh _ refl
        sample_held_queued [unfolded sample_run_def]
        sample_held_claimed [unfolded sample_run_def run_ops_append] u] by simp
qed

section \<open>Who may write\<close>

text \<open>C15. The lane is fenced by its lease: an operation of the running turn changes nothing in the
  session file unless its caller names the lane's turn, owner and token and the lease has not lapsed
  at the time of the call.\<close>

theorem lane_needs_its_holder:
  assumes "text_ok session" and "held_timeline text_of other session f = Some (Tl_loaded t)"
    and "lane_holder (tc_op call) = Some h" and "\<not> holds_lane t (tc_now call) h"
  shows "fst (timeline_step text_of revision_of pub other session f call) = f"
  using assms(1,2) holder_refused [OF _ assms(3,4)] by (intro timeline_step_unchanged) blast+

definition sample_late :: timeline_call where
  "sample_late = \<lparr>tc_now = minute 40, tc_written = minute 40, tc_expected = ''rrrrr'',
     tc_op = Op_terminal ''u'' ''me'' ''tok'' Completed None None []\<rparr>"

theorem lane_needs_its_holder_witness:
  "fst (timeline_step sample_text sample_revision Unpublished sample_other ''s''
     (sample_run (sample_queue @ [sample_claim])) sample_late)
   = sample_run (sample_queue @ [sample_claim])"
proof -
  have "lane_holder (tc_op sample_late) = Some (''u'', ''me'', ''tok'')"
    "\<not> holds_lane sample_claimed (tc_now sample_late) (''u'', ''me'', ''tok'')"
    by code_simp+
  from lane_needs_its_holder [OF sample_session(1) sample_held_claimed this] show ?thesis .
qed

text \<open>C3. An approved operation starts once: in any run of a session at most one call that starts
  the operation of a blocked turn is answered with success, however many processes try and whatever
  happens in between. This is a statement about runs in which the publication gate is not open and the
  other writers of the session (batches, saved events, companion events) write no timeline events of
  their own.\<close>

theorem approved_start_succeeds_once:
  assumes "text_ok session" and "plain pub" and "list_all (act_ok pub) acts"
    and "held_timeline text_of other session f = Some Tl_missing" and "f \<noteq> Some []"
  shows "length (filter (start_answered op)
    (run_log (session_step text_of revision_of pub other session) f acts)) \<le> 1"
  by (rule starts.at_most_once [OF run_path [OF assms(1-3)] missing_state [OF assms(4,5)]])

theorem approved_start_succeeds_once_witness:
  "length (filter (start_answered ''op'')
     (run_log (session_step sample_text sample_revision Unpublished sample_other ''s'') None
       (sample_acts @ [sample_start, sample_start]))) \<le> 1"
proof -
  have "list_all (act_ok Unpublished) (sample_acts @ [sample_start, sample_start])"
    using sample_acts_ok by simp
  from approved_start_succeeds_once [OF sample_session this sample_fresh] show ?thesis by simp
qed

section \<open>Answers and errors\<close>

text \<open>C20. The transitions answer, they do not raise: on a timeline the history holds, an operation whose
  arguments pass their checks returns an answer; the one exception is the start of an approved
  operation in a session that has a settled operation.\<close>

theorem checked_requests_answer:
  assumes "held_by t events" and "request other session now op = Inr reducer"
  shows "(\<exists>r. reducer (Some t) events = Inr r)
    \<or> (reducer (Some t) events = Inl (Payload_error ''result evidence'')
       \<and> (\<exists>i o_id call args. op = Op_terminal_start i o_id call args)
       \<and> (\<exists>u \<in> set (turns t). \<exists>d \<in> set (descriptors u). op_settled (op_status d)))"
  using request_refines [OF assms] by (auto simp: refines_def start_raises_def)

definition sample_done :: descriptor where
  "sample_done = sample_operation\<lparr>op_status := Succeeded, precommit_boundary := Effect_started,
     receipt_reference := Some ''r''\<rparr>"

definition sample_settled :: timeline where
  "sample_settled = sample_free 1 (sample_turn Terminal [sample_done] (Some Blocked) Not_started)"

definition sample_file :: "timeline \<Rightarrow> strict_file" where
  "sample_file t = history_file [timeline_event ''s'' (minute 5) t]"

lemma sample_settled_held: "held_timeline sample_text sample_other ''s'' (sample_file sample_settled)
    = Some (Tl_loaded sample_settled)"
  by code_simp

theorem checked_requests_answer_witness:
  "\<exists>r. reduce_claim_next ''me'' ''tok'' (minute 30) (minute 10) (Some sample_settled)
     [timeline_event ''s'' (minute 5) sample_settled] = Inr r"
proof -
  have "held_by sample_settled [timeline_event ''s'' (minute 5) sample_settled]"
    using sample_settled_held loaded_held
    by (auto simp: held_timeline_Some held_by_def sample_settled_def sample_free_def)
  moreover have "request sample_other ''s'' (minute 10)
      (Op_claim_next ''me'' ''tok'' ''2026-01-02T03:30:00+00:00'')
      = Inr (reduce_claim_next ''me'' ''tok'' (minute 30) (minute 10))"
  proof -
    have "text_arg ''me'' ''owner'' = Inr ''me''" "text_arg ''tok'' ''token'' = Inr ''tok''"
      "future_arg sample_other ''2026-01-02T03:30:00+00:00'' ''lease_expires_at'' (minute 10) = Inr (minute 30)"
      by code_simp+
    then show ?thesis by simp
  qed
  ultimately show ?thesis using checked_requests_answer by blast
qed

text \<open>C19. Starting an approved operation that already has its result evidence raises
  \<open>TimelinePayloadError\<close> out of the repository, although such a late start is an ordinary race the
  other late calls answer with \<open>invalid\<close>; the file stays as it is.\<close>

theorem settled_start_raises:
  assumes "text_ok session" and "held_timeline text_of other session f = Some (Tl_loaded t)"
    and "load_strict text_of session f = (Inr before :: timeline_error strict_error + jdict list)"
    and "tc_expected call = revision_of before" and "tc_expected call \<noteq> []"
    and "tc_op call = Op_terminal_start i op (call_id d) (arguments_digest d)"
    and "find_turn t i = Some u" and "turn_status u = Terminal" and "outcome u = Some Blocked"
    and "find_descriptor u op = Some d" and "result_digest d \<noteq> None \<or> receipt_reference d \<noteq> None"
  shows "timeline_step text_of revision_of pub other session f call
    = (f, Inl (Client_error (Payload_error ''result evidence'')))"
proof -
  have loaded: "load_timeline other session before = Inr (Tl_loaded t)"
    using assms(2,3) by (auto simp: held_timeline_Some)
  have wf: "wf_timeline t" using loaded_held [OF loaded] by (simp add: held_by_def)
  have u: "wf_turn u" "turn_id u = i" using find_turn_status(2,3) [OF wf assms(7)] by auto
  have d: "wf_desc d" "operation_id d = op" using find_descriptor_wf [OF u(1) assms(10)] by auto
  have "request other session (tc_now call) (tc_op call)
      = Inr (reduce_terminal_start i op (call_id d) (arguments_digest d))"
    using u d by (simp add: assms(6) continuation_args_def text_arg_def wf_turn_def turn_texts_def
        wf_desc_def desc_texts_def)
  moreover have "build_events other session w comps
      (reduce_terminal_start i op (call_id d) (arguments_digest d)) before
      = Inl (Payload_error ''result evidence'')" for w comps
    using build_events_raises [OF loaded] settled_start [OF wf assms(7-11)] by simp
  ultimately show ?thesis
    using assms(1,3-6)
    by (simp add: timeline_step_def check_companions_def apply_reducer_def mutate_strict_def Let_def
        text_ok_def)
qed

definition sample_restart :: timeline_call where
  "sample_restart = \<lparr>tc_now = minute 10, tc_written = minute 10, tc_expected = ''rr'',
     tc_op = Op_terminal_start ''u'' ''op'' ''call'' sample_digest\<rparr>"

theorem settled_start_raises_witness:
  "timeline_step sample_text sample_revision Unpublished sample_other ''s'' (sample_file sample_settled)
     sample_restart
   = (sample_file sample_settled, Inl (Client_error (Payload_error ''result evidence'')))"
proof -
  have "load_strict sample_text ''s'' (sample_file sample_settled)
      = (Inr [timeline_event ''s'' (minute 5) sample_settled] :: timeline_error strict_error + jdict list)"
    by code_simp
  from settled_start_raises [OF sample_session(1) sample_settled_held this, where call = sample_restart
      and i = "''u''" and op = "''op''" and d = sample_done and revision_of = sample_revision]
  show ?thesis
    by (simp add: sample_restart_def sample_revision_def sample_settled_def sample_free_def sample_turn_def
        sample_done_def sample_operation_def find_turn_def find_descriptor_def)
qed

text \<open>C21. Serialising a turn timeline and reading it back gives the same timeline: every well-formed
  timeline survives, deadlines and legacy operation identifiers included.\<close>

theorem timeline_survives_serialisation:
  assumes "wf_timeline t"
  shows "timeline_from_dict other (timeline_to_dict t) = Inr t"
  by (rule timeline_round_trip [OF assms])

theorem timeline_survives_serialisation_witness:
  "timeline_from_dict sample_other (timeline_to_dict sample_claimed) = Inr sample_claimed"
proof -
  have "wf_timeline sample_claimed"
    using sample_held_claimed loaded_held by (auto simp: held_timeline_Some held_by_def)
  from timeline_survives_serialisation [OF this] show ?thesis .
qed

section \<open>The lane that stays taken\<close>

text \<open>C7. When the lease of the lane lapses while its turn has a tool call with a known result
  and none that is started, no operation ever frees the lane: however the run goes on after the
  deadline, the turn stays running, the lane stays taken under the lapsed lease, and no other turn of
  the session can be claimed. This is a statement about runs in which the publication gate is not open
  and the other writers of the session (batches, saved events, companion events) write no timeline
  events of their own.\<close>

theorem lapsed_lane_is_never_freed:
  assumes "text_ok session" and "plain pub"
    and "list_all (\<lambda>act. act_ok pub act \<and> act_late e act) acts"
    and "held_timeline text_of other session f = Some (Tl_loaded t)"
    and "lane_turn t = Some i" and "lane_expires t = Some e" and "find_turn t i = Some u"
    and "\<not> list_ex (\<lambda>d. op_status d = Started) (descriptors u)"
    and "list_ex (\<lambda>d. op_settled (op_status d)) (descriptors u)"
    and "held_timeline text_of other session
      (run_ops (session_step text_of revision_of pub other session) f acts) = Some (Tl_loaded t')"
  shows "lane_turn t' = Some i \<and> lane_expires t' = Some e \<and> find_turn t' i = Some u
    \<and> turn_status u = Running"
proof -
  have wf: "wf_timeline t"
    using assms(4) loaded_held by (auto simp: held_timeline_Some held_by_def)
  obtain d where "d \<in> set (descriptors u)" "op_status d \<noteq> Precommitted"
    using assms(9) by (auto simp: list_ex_iff op_settled_def)
  then have "list_ex (\<lambda>d. op_status d \<noteq> Precommitted) (descriptors u)"
    by (auto simp: list_ex_iff)
  then have "beyond_recovery u"
    using find_turn_status(1) [OF wf assms(7)] assms(5,8) by (simp add: beyond_recovery_def)
  moreover have "f \<noteq> Some []"
    using assms(4) by (auto simp: held_timeline_Some load_strict_def)
  ultimately have "stuck_file text_of other session e i u f"
    using assms(4-7) by (simp add: stuck_file_def stuck_def)
  from stuck_run [OF assms(3,1,2) this, of revision_of] assms(10) show ?thesis
    by (simp add: stuck_file_def stuck_def beyond_recovery_def)
qed

definition sample_crashed :: timeline where
  "sample_crashed = sample_lane 1 (sample_turn Running [sample_done] None Effect_started)"

definition sample_recovery :: "session_act list" where
  "sample_recovery = [Turn_op \<lparr>tc_now = minute 50, tc_written = minute 50, tc_expected = ''rr'',
     tc_op = Op_recover_unstarted ''u''\<rparr>]"

theorem lapsed_lane_is_never_freed_witness:
  "held_timeline sample_text sample_other ''s'' (run_ops (session_step sample_text sample_revision Unpublished
      sample_other ''s'') (sample_file sample_crashed) sample_recovery) = Some (Tl_loaded sample_crashed)
   \<and> lane_turn sample_crashed = Some ''u''"
proof -
  have held: "held_timeline sample_text sample_other ''s'' (sample_file sample_crashed)
      = Some (Tl_loaded sample_crashed)"
    and after: "held_timeline sample_text sample_other ''s'' (run_ops (session_step sample_text sample_revision
      Unpublished sample_other ''s'') (sample_file sample_crashed) sample_recovery) = Some (Tl_loaded sample_crashed)"
    by code_simp+
  have acts: "list_all (\<lambda>act. act_ok Unpublished act \<and> act_late (minute 30) act) sample_recovery"
    by code_simp
  have u: "lane_turn sample_crashed = Some ''u''" "lane_expires sample_crashed = Some (minute 30)"
    "find_turn sample_crashed ''u'' = Some (sample_turn Running [sample_done] None Effect_started)"
    by (simp_all add: sample_crashed_def sample_lane_def sample_free_def sample_turn_def find_turn_def)
  have d: "\<not> list_ex (\<lambda>d. op_status d = Started) (descriptors (sample_turn Running [sample_done] None Effect_started))"
    "list_ex (\<lambda>d. op_settled (op_status d)) (descriptors (sample_turn Running [sample_done] None Effect_started))"
    by (simp_all add: sample_turn_def sample_done_def op_settled_def)
  show ?thesis
    using lapsed_lane_is_never_freed [OF sample_session acts held u d after] after by simp
qed

end
