(* ===== verification/Spec2Isabelle.thy ===== *)
theory Spec2Isabelle
  imports Approval_Properties Outbox_Properties Plan_Properties Session_Properties Policy_Properties
    Cancellation_Properties Run_Properties Outcome_Properties Receipt_Properties Recovery_Properties
    Discovery_Properties Timeline_Guarantees
begin

text \<open>
  A verification library for the durable core of the Python agent runtime Mochi: the state that has
  to survive a crash, and the guards that keep a tool call from being approved, started or reported
  twice. All paths below are under \<^verbatim>\<open>src/mochi/\<close>.

  \<^bold>\<open>How the parts interact.\<close> A chat turn is admitted to its session's timeline, waits for the lane
  and runs when it holds the lane's lease. Before a tool call has an effect, it is recorded in the
  timeline; the security policy decides whether the tool may be used and whether a person has to
  approve it. An approval is stored, resolved, consumed once, and may leave a rule for a file outbox.
  The commit fence decides between a cancellation and the commit of an effect. At the end of a turn
  the outcome verifier judges the plan's criteria, and the recovery policy decides what may be tried
  again. Background runs hold leases with fencing epochs and are adopted or closed at startup. Plan,
  timeline and lineage live in the event history of the session.

  \<^bold>\<open>Shared theories.\<close> \<open>Prelude\<close>: results as sums (\<open>bindE\<close>, \<open>requireE\<close>, \<open>traverseE\<close>), strings and
  white space. \<open>PyData\<close>: JSON values, dictionaries in insertion order, Python exceptions. \<open>Iso_Time\<close>:
  UTC instants with the order Python gives them, printed and parsed as ISO 8601. \<open>Runs\<close> and \<open>Paths\<close>:
  runs of an operation function and paths of a step relation, with the interfaces \<open>guarded\<close> and
  \<open>one_shot\<close>, \<open>evolving\<close> and \<open>spending\<close> that the at-most-once and invariant arguments instantiate.

  \<^bold>\<open>Approvals\<close> (\<^verbatim>\<open>runtime/approval_state_machine.py\<close>, \<^verbatim>\<open>runtime/approval_lifecycle.py\<close>,
  \<^verbatim>\<open>runtime/security_audit.py\<close>). \<open>Approval_Machine\<close> has the pure transitions, \<open>Security_Audit\<close> the
  redaction of what is stored, \<open>Approval_Request\<close> the records, \<open>Memory_Store\<close> and \<open>Persistent_Store\<close>
  the two stores operation by operation (a method of \<open>InMemoryApprovalStore\<close> is a \<open>mem_*\<close>, of
  \<open>PersistentApprovalStore\<close> a \<open>db_*\<close> definition), \<open>Continuation\<close> the reconciliation of continuations.
  \<open>Approval_Contract\<close> states the store protocol as locales, interpreted on both stores.
  \<open>Persistent_Lifecycle\<close>, \<open>Persistent_Invariants\<close> and \<open>Continuation_Proofs\<close> show how rows evolve;
  \<open>Approval_Properties\<close> has the theorems. \<open>Approval_Outbox\<close> and \<open>Outbox_Properties\<close>: the side effect
  queue and its worker (\<^verbatim>\<open>runtime/approval_side_effects.py\<close>, \<^verbatim>\<open>approval_side_effect_worker.py\<close>).

  \<^bold>\<open>Session history\<close> (\<^verbatim>\<open>sessions/store.py\<close>, \<^verbatim>\<open>agents/failures.py\<close>). \<open>Failures\<close>: failure envelopes and
  their normalisation in stored events. \<open>Session_Log\<close>: the permissive history; \<open>Strict_Session\<close>: the
  strict snapshot and the compare-and-swap of batches with the publication gate. \<open>Versioned_Log\<close>: the
  interface of the repositories that derive a revision from the history.

  \<^bold>\<open>Turn timeline\<close> (\<^verbatim>\<open>sessions/turn_timeline.py\<close>). \<open>Turn_Timeline\<close> has the constructors and the
  readers of the four payload versions, \<open>Timeline_Repository\<close> the seventeen reductions (\<open>reduce_*\<close>),
  \<open>Timeline_Store\<close> the argument checks (\<open>request_*\<close>), the loader and \<open>_apply\<close>. \<open>Timeline_Steps\<close> is the
  abstract specification, a labelled machine of one lane. \<open>Timeline_Shape\<close>, \<open>Timeline_Refinement\<close>,
  \<open>Timeline_Codec\<close> and \<open>Timeline_Apply\<close> show that the code refines it, down to the file and back.
  \<open>Timeline_Invariants\<close>, \<open>Timeline_Fence\<close> and \<open>Timeline_Order\<close> prove the machine's invariants;
  \<open>Timeline_Run\<close>, \<open>Timeline_Answers\<close> and \<open>Timeline_Refusals\<close> carry them to runs in which other
  writers append to the same session; \<open>Timeline_Properties\<close> and \<open>Timeline_Guarantees\<close> have the theorems.

  \<^bold>\<open>Plan ledger\<close> (\<^verbatim>\<open>agents/plan_ledger.py\<close>). \<open>Plan_Ledger\<close>, \<open>Plan_Repository\<close>: items, ledgers,
  transitions and the repository over a session history; \<open>Plan_Acyclic\<close>: the depth-first search decides
  acyclicity; \<open>Plan_Proofs\<close>, \<open>Plan_Repository_Proofs\<close>, \<open>Plan_Properties\<close>: well-formedness, round trip,
  and that each revision is won once. \<^bold>\<open>Lineage and search\<close> (\<^verbatim>\<open>sessions/lineage.py\<close>, \<^verbatim>\<open>search.py\<close>):
  \<open>Session_Lineage\<close>, \<open>Session_Search\<close>, \<open>Session_Properties\<close>.

  \<^bold>\<open>Policy\<close> (\<^verbatim>\<open>security/policy.py\<close>, \<^verbatim>\<open>agents/tool_exposure.py\<close>): \<open>Security_Policy\<close>,
  \<open>Policy_Properties\<close>; the order \<open>at_most\<close> is the specification of a restriction (locale \<open>narrowing\<close>).
  \<^bold>\<open>Cancellation\<close> (\<^verbatim>\<open>runtime/cancellation.py\<close>, \<^verbatim>\<open>tools/base.py\<close>): \<open>Cancellation\<close>, \<open>Run_Cancellation\<close>
  with cancel requests that are suspended at their callback, \<open>Cancellation_Properties\<close>.
  \<^bold>\<open>Agent runs\<close> (\<^verbatim>\<open>runtime/store.py\<close>, \<^verbatim>\<open>run_adoption.py\<close>, \<^verbatim>\<open>supervision.py\<close>, parts of \<^verbatim>\<open>service.py\<close>):
  \<open>Run_Store\<close>, \<open>Run_Fencing\<close>, \<open>Run_Adoption\<close>, \<open>Run_Properties\<close>.
  \<^bold>\<open>Verification and recovery\<close> (\<^verbatim>\<open>agents/outcome_verifier.py\<close>, \<^verbatim>\<open>controlled_recovery.py\<close>,
  \<^verbatim>\<open>recovery_policy.py\<close>): \<open>Outcome_Verifier\<close>, \<open>Outcome_Proofs\<close>, \<open>Outcome_Total\<close>, \<open>Outcome_Properties\<close>;
  \<open>Receipt_Repository\<close>, \<open>Receipt_Proofs\<close>, \<open>Receipt_Properties\<close>: the receipts kept in the session
  history and the engine's call; \<open>Controlled_Recovery\<close>, \<open>Recovery_Policy\<close>, \<open>Recovery_Properties\<close>.
  \<^bold>\<open>Tool discovery\<close> (\<^verbatim>\<open>agents/tool_discovery_state.py\<close>): \<open>Discovery_State\<close>, \<open>Discovery_Repository\<close>,
  \<open>Discovery_Proofs\<close>, \<open>Discovery_Properties\<close>: the bounded memory of discovered tools and its retries.

  \<^bold>\<open>Conventions.\<close> A raise is a value: \<open>Inl\<close> of the component's error type, with the message left out or
  shortened to the field it names. A method that holds a lock or a transaction is one step; what the
  code does outside of it is a step of its own, so the theorems on runs quantify over all
  interleavings of steps. Strings are lists of characters below 256; integers are \<open>int\<close> as in Python.
  Dataclass constructors that check or normalise are definitions of their own.
  A call that reads the clock several times reads one instant \<open>now\<close> here, and a reconciliation that
  takes its lock or transaction per row is one step.

  \<^bold>\<open>Runs of a session.\<close> The timeline theorems on runs (\<open>Timeline_Run\<close>) cover operations of the repository,
  strict batches and the plain \<open>save_event\<close> in any order; a save under the publication gate is covered as
  the strict batch it makes. Their hypotheses are \<open>plain\<close>, the gate is not open, and \<open>act_ok\<close>, other
  writers and companions add no timeline events. A text with U+0085 breaks its line for the strict
  reader (\<open>breaks_line\<close>): the history no longer loads, and a theorem on what it holds says nothing then.

  \<^bold>\<open>Loops and bounds.\<close> The walk to a lineage root and the depth-first search over plan items recurse on
  the finite set of what is not visited yet, and their termination is proved; every other loop is a
  structural recursion over the list it consumes. No theorem rests on fuel.

  \<^bold>\<open>Parameters.\<close> What is not code of the repository, or not modelled, is an argument: digests
  (\<open>revision_of\<close> for the SHA-256 of a history, and the digests of approvals, policies and plans), the
  text of a JSON value (\<open>text_of\<close>), the judge of semantic criteria, the answers of the search index,
  the builder of outbox companions, and the rare ISO 8601 spellings (compact forms, week dates) that
  \<open>datetime.fromisoformat\<close> reads besides the extended form (\<open>other\<close>).

  \<^bold>\<open>Not modelled.\<close> The asynchronous driver of the timeline (\<^verbatim>\<open>sessions/timeline_coordinator.py\<close>:
  heartbeats, waiting and retries around the modelled operations), goals and schedules of the
  runtime service, the artifact verifier beyond its receipts, change sets and file transactions. The
  react loop, the engine and the multi-agent orchestrator follow the answers of a language model;
  tools, backends, HTTP routes, channels, voice and learning are input and output. Path migration,
  deletion and replacement of sessions change files outside of the histories modelled here.
\<close>

end
